(* ===== verification/Prelude.thy ===== *)
theory Prelude
  imports Main "HOL-Library.Word" "HOL-Library.Multiset" "HOL-Library.Sublist"
begin

text \<open>
  The shared vocabulary of the development.

  \<^item> Rust's integers are words of their width (\<open>u8\<close>, \<open>u16\<close>, \<open>u32\<close>, \<open>u64\<close>); \<open>usize\<close> counts and
    indices are natural numbers (the target has 64-bit pointers, and no count of the code comes
    near that bound; \<open>usize::MAX\<close> itself is the constant \<open>usize_MAX\<close>).
  \<^item> A fallible call returns a \<open>res\<close>: \<open>Ok\<close>, \<open>Err\<close>, or \<open>Panic\<close> where the Rust code would panic
    (an index or a slice out of range, a failed overflow check). \<open>bind_res\<close> is Rust's \<open>?\<close>.
  \<^item> Arithmetic that may overflow takes the build's \<open>overflow-checks\<close> setting as its first
    argument: a checked build panics, an unchecked build wraps.
  \<^item> \<open>heapless::Vec\<close> is not code of this repository. A vector is represented by the slice it
    dereferences to, and its operations are the fields of a record \<open>heapless\<close> that is a parameter
    of every definition that calls them. \<open>heapless_ok\<close> states the crate's documented behaviour.
\<close>

unbundle bit_operations_syntax

type_synonym u8 = "8 word"
type_synonym u16 = "16 word"
type_synonym u32 = "32 word"
type_synonym u64 = "64 word"
type_synonym usize = nat
type_synonym bytes = "u8 list"

named_theorems res_simps \<open>rewriting of fallible computations\<close>
named_theorems be_simps \<open>big-endian field conversions\<close>

section \<open>Fallible computations\<close>

datatype ('e, 'a) res = Ok 'a | Err 'e | Panic

fun bind_res :: "('e, 'a) res \<Rightarrow> ('a \<Rightarrow> ('e, 'b) res) \<Rightarrow> ('e, 'b) res" where
  "bind_res (Ok x) f = f x"
| "bind_res (Err e) f = Err e"
| "bind_res Panic f = Panic"

text \<open>\<open>Option::ok_or\<close> and the \<open>map_err(|_| e)\<close> idiom on the operations of a vector.\<close>

definition ok_or :: "'e \<Rightarrow> 'a option \<Rightarrow> ('e, 'a) res" where
  "ok_or e x = (case x of None \<Rightarrow> Err e | Some y \<Rightarrow> Ok y)"

definition or_panic :: "'a option \<Rightarrow> ('e, 'a) res" where
  "or_panic x = (case x of None \<Rightarrow> Panic | Some y \<Rightarrow> Ok y)"

definition is_ok :: "('e, 'a) res \<Rightarrow> bool" where
  "is_ok r = (case r of Ok _ \<Rightarrow> True | _ \<Rightarrow> False)"

lemma ok_or_simps [simp]:
  "ok_or e None = Err e"
  "ok_or e (Some y) = Ok y"
  by (simp_all add: ok_or_def)

lemma or_panic_simps [simp]:
  "or_panic None = Panic"
  "or_panic (Some y) = Ok y"
  by (simp_all add: or_panic_def)

lemma is_ok_simps [simp]:
  "is_ok (Ok x)" "\<not> is_ok (Err e)" "\<not> is_ok Panic"
  by (simp_all add: is_ok_def)

lemma bind_res_Ok_iff [res_simps]:
  "bind_res m f = Ok y \<longleftrightarrow> (\<exists>x. m = Ok x \<and> f x = Ok y)"
  by (cases m) auto

lemma bind_res_Panic_iff [res_simps]:
  "bind_res m f = Panic \<longleftrightarrow> m = Panic \<or> (\<exists>x. m = Ok x \<and> f x = Panic)"
  by (cases m) auto

lemma bind_res_Err_iff [res_simps]:
  "bind_res m f = Err e \<longleftrightarrow> m = Err e \<or> (\<exists>x. m = Ok x \<and> f x = Err e)"
  by (cases m) auto

lemma bind_res_assoc [simp]:
  "bind_res (bind_res m f) g = bind_res m (\<lambda>x. bind_res (f x) g)"
  by (cases m) auto

lemma bind_res_if [res_simps]:
  "bind_res (if c then a else b) f = (if c then bind_res a f else bind_res b f)"
  by simp

lemma bind_res_cong [fundef_cong]:
  "m = m' \<Longrightarrow> (\<And>x. m' = Ok x \<Longrightarrow> f x = g x) \<Longrightarrow> bind_res m f = bind_res m' g"
  by (cases m') auto

lemma is_ok_iff: "is_ok r \<longleftrightarrow> (\<exists>x. r = Ok x)"
  by (cases r) auto

section \<open>Indexing and slicing\<close>

text \<open>\<open>xs[i]\<close>, \<open>&xs[a..b]\<close>, \<open>&xs[a..]\<close> and \<open>&xs[..b]\<close>: out of range is a panic.\<close>

definition idx :: "'a list \<Rightarrow> usize \<Rightarrow> ('e, 'a) res" where
  "idx xs i = (if i < length xs then Ok (xs ! i) else Panic)"

definition slice :: "'a list \<Rightarrow> usize \<Rightarrow> usize \<Rightarrow> ('e, 'a list) res" where
  "slice xs a b = (if a \<le> b \<and> b \<le> length xs then Ok (take (b - a) (drop a xs)) else Panic)"

definition slice_from :: "'a list \<Rightarrow> usize \<Rightarrow> ('e, 'a list) res" where
  "slice_from xs a = slice xs a (length xs)"

definition slice_to :: "'a list \<Rightarrow> usize \<Rightarrow> ('e, 'a list) res" where
  "slice_to xs b = slice xs 0 b"

text \<open>\<open>xs[i] = v\<close> and \<open>xs[..n].copy_from_slice(src)\<close>, which panics on a length mismatch.\<close>

definition store :: "'a list \<Rightarrow> usize \<Rightarrow> 'a \<Rightarrow> ('e, 'a list) res" where
  "store xs i v = (if i < length xs then Ok (xs[i := v]) else Panic)"

definition copy_prefix :: "'a list \<Rightarrow> usize \<Rightarrow> 'a list \<Rightarrow> ('e, 'a list) res" where
  "copy_prefix xs n src =
     (if n \<le> length xs \<and> length src = n then Ok (src @ drop n xs) else Panic)"

lemma idx_ok [simp]: "i < length xs \<Longrightarrow> idx xs i = Ok (xs ! i)"
  by (simp add: idx_def)

lemma idx_panic [simp]: "length xs \<le> i \<Longrightarrow> idx xs i = Panic"
  by (simp add: idx_def)

lemma idx_not_Err [simp]: "idx xs i \<noteq> Err e"
  by (simp add: idx_def)

lemma idx_Ok_iff: "idx xs i = Ok x \<longleftrightarrow> i < length xs \<and> x = xs ! i"
  by (auto simp: idx_def)

lemma slice_ok [simp]:
  "a \<le> b \<Longrightarrow> b \<le> length xs \<Longrightarrow> slice xs a b = Ok (take (b - a) (drop a xs))"
  by (simp add: slice_def)

lemma slice_not_Err [simp]: "slice xs a b \<noteq> Err e"
  by (simp add: slice_def)

lemma slice_from_ok [simp]: "a \<le> length xs \<Longrightarrow> slice_from xs a = Ok (drop a xs)"
  by (simp add: slice_from_def)

lemma slice_from_panic [simp]: "length xs < a \<Longrightarrow> slice_from xs a = Panic"
  by (simp add: slice_from_def slice_def)

lemma slice_to_ok [simp]: "b \<le> length xs \<Longrightarrow> slice_to xs b = Ok (take b xs)"
  by (simp add: slice_to_def)

lemma slice_to_panic [simp]: "length xs < b \<Longrightarrow> slice_to xs b = Panic"
  by (simp add: slice_to_def slice_def)

lemma store_ok [simp]: "i < length xs \<Longrightarrow> store xs i v = Ok (xs[i := v])"
  by (simp add: store_def)

lemma copy_prefix_ok [simp]:
  "n \<le> length xs \<Longrightarrow> length src = n \<Longrightarrow> copy_prefix xs n src = Ok (src @ drop n xs)"
  by (simp add: copy_prefix_def)

section \<open>Machine arithmetic\<close>

text \<open>\<open>a + b\<close> and \<open>a * b\<close> under a given \<open>overflow-checks\<close> setting, and the saturating operations.\<close>

definition add_ovf :: "bool \<Rightarrow> 'w::len word \<Rightarrow> 'w word \<Rightarrow> ('e, 'w word) res" where
  "add_ovf oc a b =
     (if unat a + unat b < 2 ^ LENGTH('w) then Ok (a + b) else if oc then Panic else Ok (a + b))"

definition mul_ovf :: "bool \<Rightarrow> 'w::len word \<Rightarrow> 'w word \<Rightarrow> ('e, 'w word) res" where
  "mul_ovf oc a b =
     (if unat a * unat b < 2 ^ LENGTH('w) then Ok (a * b) else if oc then Panic else Ok (a * b))"

definition sat_add :: "'w::len word \<Rightarrow> 'w word \<Rightarrow> 'w word" where
  "sat_add a b = (if unat a + unat b < 2 ^ LENGTH('w) then a + b else - 1)"

definition sat_sub :: "'w::len word \<Rightarrow> 'w word \<Rightarrow> 'w word" where
  "sat_sub a b = (if b \<le> a then a - b else 0)"

definition sat_mul :: "'w::len word \<Rightarrow> 'w word \<Rightarrow> 'w word" where
  "sat_mul a b = (if unat a * unat b < 2 ^ LENGTH('w) then a * b else - 1)"

definition usize_MAX :: usize where
  "usize_MAX = 2 ^ 64 - 1"

definition div_ceil :: "nat \<Rightarrow> nat \<Rightarrow> nat" where
  "div_ceil a b = (a + b - 1) div b"

lemma unat_add_no_overflow:
  "unat a + unat b < 2 ^ LENGTH('w) \<Longrightarrow> unat (a + b) = unat a + unat (b :: 'w::len word)"
  by (simp add: unat_word_ariths)

lemma unat_minus_one_word: "unat (- 1 :: 'w::len word) = 2 ^ LENGTH('w) - 1"
  by (simp add: unsigned_minus_1_eq_mask mask_eq_exp_minus_1)

lemma unat_sat_add:
  "unat (sat_add a b) = min (unat a + unat b) (2 ^ LENGTH('w) - 1)" for a b :: "'w::len word"
  by (auto simp: sat_add_def unat_add_no_overflow unat_minus_one_word min_def)

lemma unat_sat_mul:
  "unat (sat_mul a b) = min (unat a * unat b) (2 ^ LENGTH('w) - 1)" for a b :: "'w::len word"
proof (cases "unat a * unat b < 2 ^ LENGTH('w)")
  case True
  then show ?thesis by (simp add: sat_mul_def unat_word_ariths)
next
  case False
  then have "2 ^ LENGTH('w) - 1 \<le> unat a * unat b" by simp
  with False show ?thesis by (simp add: sat_mul_def unat_minus_one_word)
qed

lemma unat_sat_sub: "unat (sat_sub a b) = unat a - unat b"
  by (auto simp: sat_sub_def unat_sub word_le_nat_alt)

section \<open>Byte order\<close>

text \<open>\<open>u16::to_be_bytes\<close>, \<open>u16::from_be_bytes\<close>, \<open>u16::to_le_bytes\<close>, \<open>u16::from_le_bytes\<close>.\<close>

definition u16_to_be_bytes :: "u16 \<Rightarrow> bytes" where
  "u16_to_be_bytes w = [ucast (drop_bit 8 w), ucast w]"

definition u16_from_be_bytes :: "u8 \<Rightarrow> u8 \<Rightarrow> u16" where
  "u16_from_be_bytes h l = push_bit 8 (ucast h) OR ucast l"

definition u16_to_le_bytes :: "u16 \<Rightarrow> bytes" where
  "u16_to_le_bytes w = [ucast w, ucast (drop_bit 8 w)]"

definition u16_from_le_bytes :: "u8 \<Rightarrow> u8 \<Rightarrow> u16" where
  "u16_from_le_bytes l h = push_bit 8 (ucast h) OR ucast l"

text \<open>The big-endian \<open>u16\<close> at offset \<open>i\<close> of a slice, \<open>u16::from_be_bytes([xs[i], xs[i + 1]])\<close>.\<close>

definition be16_at :: "bytes \<Rightarrow> usize \<Rightarrow> ('e, u16) res" where
  "be16_at xs i =
     bind_res (idx xs i) (\<lambda>h. bind_res (idx xs (i + 1)) (\<lambda>l. Ok (u16_from_be_bytes h l)))"

lemma u16_be_roundtrip [be_simps]:
  "u16_from_be_bytes (ucast (drop_bit 8 w)) (ucast w) = w"
  unfolding u16_from_be_bytes_def
  by (rule bit_word_eqI) (auto simp: bit_simps)

lemma u16_le_roundtrip [be_simps]:
  "u16_from_le_bytes (ucast w) (ucast (drop_bit 8 w)) = w"
  unfolding u16_from_le_bytes_def
  by (rule bit_word_eqI) (auto simp: bit_simps)

lemma u16_from_be_high [be_simps]: "ucast (drop_bit 8 (u16_from_be_bytes h l)) = h"
  unfolding u16_from_be_bytes_def
  by (rule bit_word_eqI) (auto simp: bit_simps dest: bit_imp_le_length)

lemma u16_from_be_low [be_simps]: "ucast (u16_from_be_bytes h l) = l"
  unfolding u16_from_be_bytes_def
  by (rule bit_word_eqI) (auto simp: bit_simps)

lemma u16_to_be_from_be [be_simps]: "u16_to_be_bytes (u16_from_be_bytes h l) = [h, l]"
  by (simp add: u16_to_be_bytes_def be_simps)

lemma length_u16_to_be_bytes [simp]: "length (u16_to_be_bytes w) = 2"
  by (simp add: u16_to_be_bytes_def)

lemma length_u16_to_le_bytes [simp]: "length (u16_to_le_bytes w) = 2"
  by (simp add: u16_to_le_bytes_def)

lemma be16_at_ok [simp]:
  "i + 1 < length xs \<Longrightarrow> be16_at xs i = Ok (u16_from_be_bytes (xs ! i) (xs ! (i + 1)))"
  by (simp add: be16_at_def)

lemma be16_at_not_Err [simp]: "be16_at xs i \<noteq> Err e"
  by (auto simp: be16_at_def res_simps)

lemma u16_from_be_zero_iff: "u16_from_be_bytes h l = 0 \<longleftrightarrow> h = 0 \<and> l = 0"
proof
  assume "u16_from_be_bytes h l = 0"
  then have "u16_to_be_bytes 0 = [h, l]" by (metis u16_to_be_from_be)
  then show "h = 0 \<and> l = 0" by (simp add: u16_to_be_bytes_def)
qed (simp add: u16_from_be_bytes_def)

lemma unat_u8_lt [simp]: "unat (b :: u8) < 256"
  using unsigned_less [of b] by simp

lemma unat_u16_lt [simp]: "unat (w :: u16) < 65536"
  using unsigned_less [of w] by simp

lemma unat_of_nat_u8: "n < 256 \<Longrightarrow> unat (of_nat n :: u8) = n"
  by (simp add: unat_of_nat take_bit_nat_eq_self)

lemma unat_of_nat_u16: "n < 65536 \<Longrightarrow> unat (of_nat n :: u16) = n"
  by (simp add: unat_of_nat take_bit_nat_eq_self)

lemma unat_ucast_u8_u16 [simp]: "unat (ucast (b :: u8) :: u16) = unat b"
proof -
  have "unat b < 2 ^ 16" by (rule less_trans [OF unat_u8_lt]) simp
  then show ?thesis by (simp add: unsigned_ucast_eq take_bit_nat_eq_self_iff)
qed

lemma ucast_u8_u16_inj [simp]: "(ucast (a :: u8) :: u16) = ucast b \<longleftrightarrow> a = b"
  by (metis unat_ucast_u8_u16 unsigned_word_eqI)

section \<open>Fixed-capacity vectors\<close>

text \<open>
  The operations of \<open>heapless::Vec<T, N>\<close> the code calls; the capacity \<open>N\<close> is an argument.
  \<open>push\<close> and \<open>extend_from_slice\<close> return an error when the elements do not fit and leave the
  vector as it was, \<open>pop\<close> returns the last element, \<open>swap_remove\<close> moves the last element into the
  place of the one it removes and panics out of range, \<open>truncate\<close> keeps a prefix.
\<close>

record 'a heapless =
  hv_push :: "usize \<Rightarrow> 'a list \<Rightarrow> 'a \<Rightarrow> 'a list option"
  hv_extend :: "usize \<Rightarrow> 'a list \<Rightarrow> 'a list \<Rightarrow> 'a list option"
  hv_pop :: "'a list \<Rightarrow> ('a \<times> 'a list) option"
  hv_swap_remove :: "'a list \<Rightarrow> usize \<Rightarrow> ('a \<times> 'a list) option"
  hv_truncate :: "'a list \<Rightarrow> usize \<Rightarrow> 'a list"

definition swap_removed :: "'a list \<Rightarrow> usize \<Rightarrow> 'a list" where
  "swap_removed v i = butlast (v[i := last v])"

definition heapless_ok :: "'a heapless \<Rightarrow> bool" where
  "heapless_ok hv \<longleftrightarrow>
     (\<forall>n v x. hv_push hv n v x = (if length v < n then Some (v @ [x]) else None)) \<and>
     (\<forall>n v xs. hv_extend hv n v xs = (if length v + length xs \<le> n then Some (v @ xs) else None)) \<and>
     (\<forall>v. hv_pop hv v = (if v = [] then None else Some (last v, butlast v))) \<and>
     (\<forall>v i. hv_swap_remove hv v i =
        (if i < length v then Some (v ! i, swap_removed v i) else None)) \<and>
     (\<forall>v n. hv_truncate hv v n = take n v)"

text \<open>A vector with the documented behaviour, used to evaluate the model on concrete inputs.\<close>

definition bounded_vec :: "'a heapless" where
  "bounded_vec =
     \<lparr>hv_push = (\<lambda>n v x. if length v < n then Some (v @ [x]) else None),
      hv_extend = (\<lambda>n v xs. if length v + length xs \<le> n then Some (v @ xs) else None),
      hv_pop = (\<lambda>v. if v = [] then None else Some (last v, butlast v)),
      hv_swap_remove = (\<lambda>v i. if i < length v then Some (v ! i, swap_removed v i) else None),
      hv_truncate = (\<lambda>v n. take n v)\<rparr>"

text \<open>\<open>v.push(x).map_err(|_| e)?\<close> and \<open>v.extend_from_slice(xs).map_err(|_| e)?\<close>.\<close>

definition push_or :: "'a heapless \<Rightarrow> usize \<Rightarrow> 'e \<Rightarrow> 'a list \<Rightarrow> 'a \<Rightarrow> ('e, 'a list) res" where
  "push_or hv n e v x = ok_or e (hv_push hv n v x)"

definition extend_or :: "'a heapless \<Rightarrow> usize \<Rightarrow> 'e \<Rightarrow> 'a list \<Rightarrow> 'a list \<Rightarrow> ('e, 'a list) res" where
  "extend_or hv n e v xs = ok_or e (hv_extend hv n v xs)"

text \<open>
  \<open>copy_within(n.., 0)\<close> followed by \<open>truncate(len - n)\<close> drops the first \<open>n\<close> elements: \<open>copy_within\<close>
  moves the tail to the front and leaves the last \<open>n\<close> elements as they were.
\<close>

definition shift_left :: "'a heapless \<Rightarrow> 'a list \<Rightarrow> usize \<Rightarrow> 'a list" where
  "shift_left hv bs n = hv_truncate hv (drop n bs @ drop (length bs - n) bs) (length bs - n)"

text \<open>
  The operations of \<open>heapless::Deque<T, N>\<close>: \<open>push_back\<close> returns an error when the queue is full and
  leaves it as it was, \<open>pop_front\<close> returns the oldest element.
\<close>

record 'a deque =
  dq_push_back :: "usize \<Rightarrow> 'a list \<Rightarrow> 'a \<Rightarrow> 'a list option"
  dq_pop_front :: "'a list \<Rightarrow> ('a \<times> 'a list) option"

definition deque_ok :: "'a deque \<Rightarrow> bool" where
  "deque_ok dq \<longleftrightarrow>
     (\<forall>n v x. dq_push_back dq n v x = (if length v < n then Some (v @ [x]) else None)) \<and>
     (\<forall>v. dq_pop_front dq v = (case v of [] \<Rightarrow> None | x # xs \<Rightarrow> Some (x, xs)))"

definition bounded_deque :: "'a deque" where
  "bounded_deque =
     \<lparr>dq_push_back = (\<lambda>n v x. if length v < n then Some (v @ [x]) else None),
      dq_pop_front = (\<lambda>v. case v of [] \<Rightarrow> None | x # xs \<Rightarrow> Some (x, xs))\<rparr>"

lemma bounded_vec_ok [simp]: "heapless_ok bounded_vec"
  by (simp add: heapless_ok_def bounded_vec_def)

lemma push_or_eq [simp]:
  "heapless_ok hv \<Longrightarrow> push_or hv n e v x = (if length v < n then Ok (v @ [x]) else Err e)"
  unfolding heapless_ok_def push_or_def by simp

lemma extend_or_eq [simp]:
  "heapless_ok hv \<Longrightarrow>
   extend_or hv n e v xs = (if length v + length xs \<le> n then Ok (v @ xs) else Err e)"
  unfolding heapless_ok_def extend_or_def by simp

lemma hv_pop_eq [simp]:
  "heapless_ok hv \<Longrightarrow> hv_pop hv v = (if v = [] then None else Some (last v, butlast v))"
  unfolding heapless_ok_def by blast

lemma hv_push_eq [simp]:
  "heapless_ok hv \<Longrightarrow> hv_push hv n v x = (if length v < n then Some (v @ [x]) else None)"
  unfolding heapless_ok_def by blast

lemma hv_extend_eq [simp]:
  "heapless_ok hv \<Longrightarrow>
   hv_extend hv n v xs = (if length v + length xs \<le> n then Some (v @ xs) else None)"
  unfolding heapless_ok_def by blast

lemma hv_swap_remove_eq [simp]:
  "heapless_ok hv \<Longrightarrow>
   hv_swap_remove hv v i = (if i < length v then Some (v ! i, swap_removed v i) else None)"
  unfolding heapless_ok_def by blast

lemma hv_truncate_eq [simp]: "heapless_ok hv \<Longrightarrow> hv_truncate hv v n = take n v"
  unfolding heapless_ok_def by blast

lemma length_swap_removed [simp]: "length (swap_removed v i) = length v - 1"
  by (simp add: swap_removed_def)

lemma shift_left_eq [simp]: "heapless_ok hv \<Longrightarrow> n \<le> length bs \<Longrightarrow> shift_left hv bs n = drop n bs"
  by (simp add: shift_left_def)

lemma bounded_deque_ok [simp]: "deque_ok bounded_deque"
  by (simp add: deque_ok_def bounded_deque_def)

lemma dq_push_back_eq [simp]:
  "deque_ok dq \<Longrightarrow> dq_push_back dq n v x = (if length v < n then Some (v @ [x]) else None)"
  unfolding deque_ok_def by blast

lemma dq_pop_front_eq [simp]:
  "deque_ok dq \<Longrightarrow> dq_pop_front dq v = (case v of [] \<Rightarrow> None | x # xs \<Rightarrow> Some (x, xs))"
  unfolding deque_ok_def by blast

subsection \<open>Removing by swapping\<close>

lemma mset_swap_removed:
  assumes "i < length v"
  shows "mset v = add_mset (v ! i) (mset (swap_removed v i))"
proof -
  let ?w = "v[i := last v]"
  have "v \<noteq> []" using assms by auto
  have last: "last ?w = last v"
    using assms \<open>v \<noteq> []\<close> by (cases "i = length v - 1") (simp_all add: last_conv_nth nth_list_update)
  have "mset ?w = add_mset (last v) (mset (butlast ?w))"
    using \<open>v \<noteq> []\<close> last append_butlast_last_id [of ?w]
    by (metis list_update_nonempty mset.simps(1) mset.simps(2) mset_append union_commute add_mset_add_single)
  moreover have "add_mset (v ! i) (mset ?w) = add_mset (last v) (mset v)"
    using assms by (simp add: mset_update)
  ultimately show ?thesis
    by (simp add: swap_removed_def add_mset_commute)
qed

lemma swap_removed_prefix: "j < i \<Longrightarrow> i < length v \<Longrightarrow> swap_removed v i ! j = v ! j"
  by (simp add: swap_removed_def nth_butlast)

lemma set_swap_removed: "i < length v \<Longrightarrow> set (swap_removed v i) \<subseteq> set v"
  using mset_swap_removed [of i v] by (metis set_mset_mset set_mset_add_mset_insert subset_insertI)

section \<open>Searching and iterating\<close>

text \<open>\<open>iter().position(P)\<close>, and a \<open>for\<close> loop whose body changes a state and may panic.\<close>

fun find_index :: "('x \<Rightarrow> bool) \<Rightarrow> 'x list \<Rightarrow> usize option" where
  "find_index P [] = None"
| "find_index P (x # xs) = (if P x then Some 0 else map_option Suc (find_index P xs))"

fun for_each :: "('x \<Rightarrow> 's \<Rightarrow> ('e, 's) res) \<Rightarrow> 'x list \<Rightarrow> 's \<Rightarrow> ('e, 's) res" where
  "for_each f [] s = Ok s"
| "for_each f (x # xs) s = bind_res (f x s) (for_each f xs)"

lemma find_index_Some: "find_index P xs = Some i \<Longrightarrow> i < length xs \<and> P (xs ! i)"
  by (induction xs arbitrary: i) (auto split: if_splits)

lemma find_index_None: "find_index P xs = None \<longleftrightarrow> (\<forall>x \<in> set xs. \<not> P x)"
  by (induction xs) auto

lemma find_index_first:
  "i < length xs \<Longrightarrow> P (xs ! i) \<Longrightarrow> \<forall>j < i. \<not> P (xs ! j) \<Longrightarrow> find_index P xs = Some i"
proof (induction xs arbitrary: i)
  case (Cons x xs)
  show ?case
  proof (cases i)
    case (Suc k)
    moreover have "\<forall>j < k. \<not> P (xs ! j)" using Cons.prems(3) Suc by fastforce
    ultimately show ?thesis using Cons.IH [of k] Cons.prems by fastforce
  qed (use Cons.prems in simp)
qed simp

lemma for_each_ok:
  assumes "\<And>x s. x \<in> set xs \<Longrightarrow> P s \<Longrightarrow> \<exists>s'. f x s = Ok s' \<and> P s' \<and> R s s'" "P s"
    "\<And>s. R s s" "\<And>s s' s''. R s s' \<Longrightarrow> R s' s'' \<Longrightarrow> R s s''"
  shows "\<exists>s'. for_each f xs s = Ok s' \<and> P s' \<and> R s s'"
  using assms(1,2)
proof (induction xs arbitrary: s)
  case (Cons x xs)
  then obtain s1 where s1: "f x s = Ok s1" "P s1" "R s s1" by (meson list.set_intros(1))
  moreover obtain s2 where "for_each f xs s1 = Ok s2" "P s2" "R s1 s2"
    using Cons.IH [OF Cons.prems(1) s1(2)] by auto
  ultimately show ?case using assms(4) by auto
qed (simp add: assms(3))

lemma for_each_upto:
  assumes "I 0 s" "\<And>j s. j < n \<Longrightarrow> I j s \<Longrightarrow> \<exists>s'. f j s = Ok s' \<and> I (Suc j) s'"
  shows "\<exists>s'. for_each f [0..<n] s = Ok s' \<and> I n s'"
proof -
  have "\<exists>s'. for_each f [k..<n] s = Ok s' \<and> I n s'" if "k \<le> n" "I k s" for k
    using that
  proof (induction "n - k" arbitrary: k s)
    case (Suc d)
    then have k: "k < n" by simp
    then obtain s1 where "f k s = Ok s1" "I (Suc k) s1" using assms(2) [of k s] Suc.prems(2) by auto
    then show ?case using Suc.hyps k by (simp add: upt_rec)
  qed simp
  then show ?thesis using assms(1) by blast
qed

section \<open>Enumerations on the wire\<close>

text \<open>
  The contract of a C-like enum that travels as an integer: \<open>code\<close> is the cast \<open>x as uN\<close>,
  \<open>parse\<close> is the \<open>TryFrom\<close> implementation, \<open>on_wire\<close> tells the variants that may appear in a
  frame (an enum may have a placeholder variant that may not), and \<open>reject\<close> is the error for a
  value that is no variant.
\<close>

locale wire_enum =
  fixes code :: "'v \<Rightarrow> 'w"
    and parse :: "'w \<Rightarrow> ('e, 'v) res"
    and on_wire :: "'v \<Rightarrow> bool"
    and reject :: "'w \<Rightarrow> 'e"
  assumes parse_code: "on_wire x \<Longrightarrow> parse (code x) = Ok x"
    and parse_sound: "parse w = Ok x \<Longrightarrow> on_wire x \<and> code x = w"
    and parse_total: "(\<exists>x. parse w = Ok x) \<or> parse w = Err (reject w)"
begin

lemma code_inj: "on_wire x \<Longrightarrow> on_wire y \<Longrightarrow> code x = code y \<Longrightarrow> x = y"
  using parse_code by (metis res.inject(1))

lemma parse_Ok_iff: "parse w = Ok x \<longleftrightarrow> on_wire x \<and> code x = w"
  using parse_code parse_sound by blast

lemma parse_Err_iff: "parse w = Err e \<longleftrightarrow> e = reject w \<and> (\<forall>x. on_wire x \<longrightarrow> code x \<noteq> w)"
  by (metis parse_Ok_iff parse_total res.distinct(1) res.inject(2))

lemma parse_no_panic: "parse w \<noteq> Panic"
  using parse_total [of w] by auto

end

end
