(* ===== verification/Checksum.thy ===== *)
theory Checksum
  imports Prelude
begin

text \<open>
  CRC-16 and LRC (mbus-core/src/transport/checksum.rs). \<open>crc16\<close> is the table-driven routine of the
  code; \<open>crc16_spec\<close> is the bit-serial definition of the Modbus CRC (polynomial \<open>0xA001\<close>, initial
  value \<open>0xFFFF\<close>) it has to agree with. The last section shows what the two checksums detect.
\<close>

definition CRC16_TABLE :: "u16 list" where
  "CRC16_TABLE =
    [0x0000, 0xC0C1, 0xC181, 0x0140, 0xC301, 0x03C0, 0x0280, 0xC241, 0xC601, 0x06C0, 0x0780, 0xC741,
     0x0500, 0xC5C1, 0xC481, 0x0440, 0xCC01, 0x0CC0, 0x0D80, 0xCD41, 0x0F00, 0xCFC1, 0xCE81, 0x0E40,
     0x0A00, 0xCAC1, 0xCB81, 0x0B40, 0xC901, 0x09C0, 0x0880, 0xC841, 0xD801, 0x18C0, 0x1980, 0xD941,
     0x1B00, 0xDBC1, 0xDA81, 0x1A40, 0x1E00, 0xDEC1, 0xDF81, 0x1F40, 0xDD01, 0x1DC0, 0x1C80, 0xDC41,
     0x1400, 0xD4C1, 0xD581, 0x1540, 0xD701, 0x17C0, 0x1680, 0xD641, 0xD201, 0x12C0, 0x1380, 0xD341,
     0x1100, 0xD1C1, 0xD081, 0x1040, 0xF001, 0x30C0, 0x3180, 0xF141, 0x3300, 0xF3C1, 0xF281, 0x3240,
     0x3600, 0xF6C1, 0xF781, 0x3740, 0xF501, 0x35C0, 0x3480, 0xF441, 0x3C00, 0xFCC1, 0xFD81, 0x3D40,
     0xFF01, 0x3FC0, 0x3E80, 0xFE41, 0xFA01, 0x3AC0, 0x3B80, 0xFB41, 0x3900, 0xF9C1, 0xF881, 0x3840,
     0x2800, 0xE8C1, 0xE981, 0x2940, 0xEB01, 0x2BC0, 0x2A80, 0xEA41, 0xEE01, 0x2EC0, 0x2F80, 0xEF41,
     0x2D00, 0xEDC1, 0xEC81, 0x2C40, 0xE401, 0x24C0, 0x2580, 0xE541, 0x2700, 0xE7C1, 0xE681, 0x2640,
     0x2200, 0xE2C1, 0xE381, 0x2340, 0xE101, 0x21C0, 0x2080, 0xE041, 0xA001, 0x60C0, 0x6180, 0xA141,
     0x6300, 0xA3C1, 0xA281, 0x6240, 0x6600, 0xA6C1, 0xA781, 0x6740, 0xA501, 0x65C0, 0x6480, 0xA441,
     0x6C00, 0xACC1, 0xAD81, 0x6D40, 0xAF01, 0x6FC0, 0x6E80, 0xAE41, 0xAA01, 0x6AC0, 0x6B80, 0xAB41,
     0x6900, 0xA9C1, 0xA881, 0x6840, 0x7800, 0xB8C1, 0xB981, 0x7940, 0xBB01, 0x7BC0, 0x7A80, 0xBA41,
     0xBE01, 0x7EC0, 0x7F80, 0xBF41, 0x7D00, 0xBDC1, 0xBC81, 0x7C40, 0xB401, 0x74C0, 0x7580, 0xB541,
     0x7700, 0xB7C1, 0xB681, 0x7640, 0x7200, 0xB2C1, 0xB381, 0x7340, 0xB101, 0x71C0, 0x7080, 0xB041,
     0x5000, 0x90C1, 0x9181, 0x5140, 0x9301, 0x53C0, 0x5280, 0x9241, 0x9601, 0x56C0, 0x5780, 0x9741,
     0x5500, 0x95C1, 0x9481, 0x5440, 0x9C01, 0x5CC0, 0x5D80, 0x9D41, 0x5F00, 0x9FC1, 0x9E81, 0x5E40,
     0x5A00, 0x9AC1, 0x9B81, 0x5B40, 0x9901, 0x59C0, 0x5880, 0x9841, 0x8801, 0x48C0, 0x4980, 0x8941,
     0x4B00, 0x8BC1, 0x8A81, 0x4A40, 0x4E00, 0x8EC1, 0x8F81, 0x4F40, 0x8D01, 0x4DC0, 0x4C80, 0x8C41,
     0x4400, 0x84C1, 0x8581, 0x4540, 0x8701, 0x47C0, 0x4680, 0x8641, 0x8201, 0x42C0, 0x4380, 0x8341,
     0x4100, 0x81C1, 0x8081, 0x4040]"

definition crc16_step :: "u16 \<Rightarrow> u8 \<Rightarrow> u16" where
  "crc16_step crc byte =
     (let index = (crc XOR ucast byte) AND 0xFF
      in drop_bit 8 crc XOR CRC16_TABLE ! unat index)"

definition crc16 :: "bytes \<Rightarrow> u16" where
  "crc16 data = foldl crc16_step 0xFFFF data"

definition lrc :: "bytes \<Rightarrow> u8" where
  "lrc data = - foldl (+) 0 data"

section \<open>The bit-serial definition\<close>

definition crc_shift :: "u16 \<Rightarrow> u16" where
  "crc_shift x = (if bit x 0 then drop_bit 1 x XOR 0xA001 else drop_bit 1 x)"

definition crc_shift8 :: "u16 \<Rightarrow> u16" where
  "crc_shift8 = crc_shift ^^ 8"

definition crc16_spec :: "bytes \<Rightarrow> u16" where
  "crc16_spec data = foldl (\<lambda>crc byte. crc_shift8 (crc XOR ucast byte)) 0xFFFF data"

lemma length_CRC16_TABLE [simp]: "length CRC16_TABLE = 256"
  by (simp add: CRC16_TABLE_def)


lemma crc_shift_xor: "crc_shift (a XOR b) = crc_shift a XOR crc_shift b"
  by (cases "bit a 0"; cases "bit b 0")
     (simp_all add: crc_shift_def bit_xor_iff xor.assoc xor.commute xor.left_commute)

lemma crc_shift8_xor: "crc_shift8 (a XOR b) = crc_shift8 a XOR crc_shift8 b"
proof -
  have "(crc_shift ^^ n) (a XOR b) = (crc_shift ^^ n) a XOR (crc_shift ^^ n) b" for n
    by (induction n) (simp_all add: crc_shift_xor)
  then show ?thesis by (simp add: crc_shift8_def)
qed

lemma of_nat_add_power_xor:
  assumes "i < 2 ^ k"
  shows "(of_nat (i + 2 ^ k) :: u16) = of_nat i XOR of_nat (2 ^ k)"
proof -
  have "(of_nat i :: u16) AND of_nat (2 ^ k) = 0"
  proof (rule bit_word_eqI)
    fix n assume "n < LENGTH(16)"
    have "\<not> bit i k" using assms by (simp add: bit_iff_odd)
    then show "bit ((of_nat i :: u16) AND of_nat (2 ^ k)) n \<longleftrightarrow> bit (0 :: u16) n"
      by (auto simp: bit_simps)
  qed
  then show ?thesis by (simp add: disjunctive_add_eq_xor)
qed

definition crc_table :: "nat \<Rightarrow> u16 list" where
  "crc_table k = map (\<lambda>i. crc_shift8 (of_nat i)) [0..<2 ^ k]"

lemma crc_table_0: "crc_table 0 = [0]"
  by (simp add: crc_table_def crc_shift8_def crc_shift_def numeral_eq_Suc)

lemma crc_table_Suc:
  "crc_table (Suc k) = crc_table k @ map (\<lambda>x. x XOR crc_shift8 (of_nat (2 ^ k))) (crc_table k)"
proof -
  have "[0..<2 ^ Suc k] = [0..<2 ^ k] @ map (\<lambda>i. i + 2 ^ k) [0..<2 ^ k :: nat]"
    by (simp add: map_add_upt upt_add_eq_append [of 0 "2 ^ k" "2 ^ k"] mult_2)
  then show ?thesis
    by (simp add: crc_table_def of_nat_add_power_xor [simplified] crc_shift8_xor)
qed

lemma crc_table_numeral:
  "crc_table (numeral k) =
   crc_table (pred_numeral k) @
   map (\<lambda>x. x XOR crc_shift8 (of_nat (2 ^ pred_numeral k))) (crc_table (pred_numeral k))"
  using crc_table_Suc [of "pred_numeral k"] by (simp add: numeral_eq_Suc)

lemma crc_shift8_powers:
  "crc_shift8 1 = 0xC0C1" "crc_shift8 2 = 0xC181" "crc_shift8 4 = 0xC301" "crc_shift8 8 = 0xC601"
  "crc_shift8 16 = 0xCC01" "crc_shift8 32 = 0xD801" "crc_shift8 64 = 0xF001"
  "crc_shift8 128 = 0xA001"
  unfolding crc_shift8_def by code_simp+

lemma CRC16_TABLE_eq: "CRC16_TABLE = crc_table 8"
  unfolding CRC16_TABLE_def
  by (simp add: crc_table_numeral crc_table_Suc crc_table_0 crc_shift8_powers)

lemma CRC16_TABLE_nth: "i < 256 \<Longrightarrow> CRC16_TABLE ! i = crc_shift8 (of_nat i)"
  by (simp add: CRC16_TABLE_eq crc_table_def)

lemma crc_shift_drop_bit:
  "(\<And>n. n < k \<Longrightarrow> \<not> bit x n) \<Longrightarrow> (crc_shift ^^ k) x = drop_bit k x"
proof (induction k)
  case (Suc k)
  then have "(crc_shift ^^ Suc k) x = crc_shift (drop_bit k x)" by simp
  also have "\<dots> = drop_bit (Suc k) x"
    using Suc.prems [of k] by (simp add: crc_shift_def bit_drop_bit_eq)
  finally show ?case .
qed simp

lemma crc_shift8_eq:
  "crc_shift8 x = drop_bit 8 x XOR CRC16_TABLE ! unat (x AND 0xFF)"
proof -
  have mask: "(0xFF :: u16) = mask 8" by (simp add: mask_eq_exp_minus_1)
  have split: "x = push_bit 8 (drop_bit 8 x) XOR (x AND 0xFF)"
    unfolding mask by (rule bit_word_eqI) (auto simp: bit_simps)
  have hi: "crc_shift8 (push_bit 8 (drop_bit 8 x)) = drop_bit 8 x"
    unfolding crc_shift8_def
  proof (subst crc_shift_drop_bit)
    show "drop_bit 8 (push_bit 8 (drop_bit 8 x)) = drop_bit 8 x"
      by (rule bit_word_eqI) (auto simp: bit_simps dest: bit_imp_le_length)
  qed (simp add: bit_simps)
  have "x AND 0xFF \<le> 0xFF" by (rule word_and_le1)
  then have lo: "unat (x AND 0xFF) < 256" by (simp add: word_le_nat_alt)
  show ?thesis
    using lo by (subst split) (simp add: crc_shift8_xor hi CRC16_TABLE_nth)
qed

lemma crc16_step_spec: "crc16_step crc byte = crc_shift8 (crc XOR ucast byte)"
proof -
  have "drop_bit 8 (crc XOR ucast byte) = drop_bit 8 crc"
    by (rule bit_word_eqI) (auto simp: bit_simps dest: bit_imp_le_length)
  then show ?thesis by (simp add: crc16_step_def crc_shift8_eq Let_def)
qed

text \<open>
  C28: The table-driven \<open>crc16\<close> computes the bit-serial Modbus CRC on every input.
\<close>

theorem crc16_eq_spec: "crc16 data = crc16_spec data"
  by (simp add: crc16_def crc16_spec_def crc16_step_spec [abs_def])

section \<open>What the checksums detect\<close>

lemma crc_shift_eq_0: "crc_shift x = 0 \<Longrightarrow> x = 0"
proof (cases "bit x 0")
  case True
  assume "crc_shift x = 0"
  with True have "bit (drop_bit 1 x XOR 0xA001) 15 \<longleftrightarrow> bit (0 :: u16) 15"
    by (simp add: crc_shift_def)
  moreover have "bit (0xA001 :: u16) 15" by (simp add: bit_numeral_rec)
  ultimately show ?thesis by (auto simp: bit_simps dest: bit_imp_le_length)
next
  case False
  assume "crc_shift x = 0"
  with False have d: "drop_bit 1 x = 0" by (simp add: crc_shift_def)
  show ?thesis
  proof (rule bit_word_eqI)
    fix n assume "n < LENGTH(16)"
    show "bit x n \<longleftrightarrow> bit (0 :: u16) n"
      using False arg_cong [OF d, of "\<lambda>y. bit y (n - 1)"]
      by (cases n) (simp_all add: bit_drop_bit_eq)
  qed
qed

lemma crc_shift8_eq_0: "crc_shift8 x = 0 \<Longrightarrow> x = 0"
proof -
  have "(crc_shift ^^ n) x = 0 \<Longrightarrow> x = 0" for n
    by (induction n) (auto dest: crc_shift_eq_0)
  then show "crc_shift8 x = 0 \<Longrightarrow> x = 0" by (simp add: crc_shift8_def)
qed

lemma word_xor_eq_0_iff: "a XOR b = 0 \<longleftrightarrow> a = (b :: 'w::len word)"
  by (auto simp: bit_eq_iff bit_xor_iff)

lemma word_xor_cancel [simp]:
  "c XOR a = c XOR b \<longleftrightarrow> a = b" "a XOR c = b XOR c \<longleftrightarrow> a = (b :: 'w::len word)"
  by (auto simp: bit_eq_iff bit_xor_iff)

lemma crc_shift8_inj: "crc_shift8 x = crc_shift8 y \<longleftrightarrow> x = y"
  using crc_shift8_eq_0 [of "x XOR y"] by (auto simp: crc_shift8_xor word_xor_eq_0_iff)

lemma crc16_step_state_inj: "crc16_step c b = crc16_step c' b \<longleftrightarrow> c = c'"
  by (simp add: crc16_step_spec crc_shift8_inj)

lemma crc16_fold_state_inj: "foldl crc16_step c ys = foldl crc16_step c' ys \<longleftrightarrow> c = c'"
  by (induction ys arbitrary: c c') (simp_all add: crc16_step_state_inj)

lemma CRC16_TABLE_high: "\<forall>x \<in> set (tl CRC16_TABLE). 256 \<le> x"
  by (simp add: CRC16_TABLE_def)

text \<open>A non-zero difference in one byte changes the high byte of the CRC state.\<close>

lemma crc_shift8_byte_high: "d \<noteq> 0 \<Longrightarrow> 256 \<le> crc_shift8 (ucast (d :: u8))"
proof -
  assume "d \<noteq> 0"
  then have pos: "0 < unat d" by (simp add: unat_gt_0)
  have lt: "unat d - 1 < 255" using pos unat_u8_lt [of d] by linarith
  with pos have "CRC16_TABLE ! unat d = tl CRC16_TABLE ! (unat d - 1)"
    by (subst nth_tl) simp_all
  moreover have "unat d - 1 < length (tl CRC16_TABLE)"
    using lt by simp
  ultimately have "256 \<le> CRC16_TABLE ! unat d"
    using CRC16_TABLE_high nth_mem by metis
  moreover have "of_nat (unat d) = (ucast d :: u16)"
    by (simp add: unsigned_of_nat [symmetric])
  ultimately show ?thesis by (simp add: CRC16_TABLE_nth)
qed

lemma crc16_two_bytes:
  assumes "crc16_step (crc16_step c a) b = crc16_step (crc16_step c a') b'"
  shows "a = a' \<and> b = b'"
proof -
  have "crc16_step c a XOR ucast b = crc16_step c a' XOR ucast b'"
    using assms by (simp only: crc16_step_spec crc_shift8_inj)
  then have "crc16_step c a XOR crc16_step c a' = ucast b XOR ucast b'"
    by (auto simp: bit_eq_iff bit_xor_iff)
  then have d: "crc_shift8 (ucast (a XOR a')) = ucast (b XOR b')"
    by (simp add: crc16_step_spec crc_shift8_xor [symmetric] unsigned_xor_eq ac_simps)
  have "(ucast (b XOR b') :: u16) < 256"
    by (simp add: word_less_nat_alt)
  then have "\<not> 256 \<le> crc_shift8 (ucast (a XOR a'))"
    unfolding d by (simp add: not_le)
  then have "a XOR a' = 0" using crc_shift8_byte_high by blast
  then have "a = a'" by (simp only: word_xor_eq_0_iff)
  moreover from this assms have "b = b'"
    by (simp add: crc16_step_spec crc_shift8_inj)
  ultimately show ?thesis by simp
qed

lemma crc16_detects_two_bytes:
  "(a, b) \<noteq> (a', b') \<Longrightarrow> crc16 (xs @ a # b # ys) \<noteq> crc16 (xs @ a' # b' # ys)"
  by (auto simp: crc16_def crc16_fold_state_inj dest: crc16_two_bytes)

lemma crc16_detects_byte: "a \<noteq> a' \<Longrightarrow> crc16 (xs @ a # ys) \<noteq> crc16 (xs @ a' # ys)"
  by (simp add: crc16_def crc16_fold_state_inj) (simp add: crc16_step_spec crc_shift8_inj)

text \<open>Appending the CRC of the data, low byte first, makes the CRC of the whole 0, and only that.\<close>

lemma crc16_step_low_byte: "crc16_step c (ucast c) = drop_bit 8 c"
proof -
  have m: "(0xFF :: u16) = mask 8" by (simp add: mask_numeral)
  have "(c XOR ucast (ucast c :: u8)) AND 0xFF = 0"
    unfolding m by (rule bit_word_eqI) (auto simp: bit_simps)
  moreover have "CRC16_TABLE ! 0 = 0" by (simp add: CRC16_TABLE_def)
  ultimately show ?thesis by (simp add: crc16_step_def)
qed

lemma crc16_residue: "crc16 (d @ [l, h]) = 0 \<longleftrightarrow> crc16 d = u16_from_le_bytes l h"
proof -
  let ?c = "crc16 d"
  have "crc16_step (crc16_step ?c (ucast ?c)) (ucast (drop_bit 8 ?c)) = drop_bit 8 (drop_bit 8 ?c)"
    by (simp only: crc16_step_low_byte)
  also have "\<dots> = 0" by (rule bit_word_eqI) (auto simp: bit_simps dest: bit_imp_le_length)
  finally have z: "crc16_step (crc16_step ?c (ucast ?c)) (ucast (drop_bit 8 ?c)) = 0" .
  have eq: "crc16 (d @ [l, h]) = crc16_step (crc16_step ?c l) h"
    by (simp add: crc16_def)
  show ?thesis
  proof
    assume "crc16 (d @ [l, h]) = 0"
    then have "l = ucast ?c \<and> h = ucast (drop_bit 8 ?c)"
      using crc16_two_bytes z eq by metis
    then show "?c = u16_from_le_bytes l h" by (simp add: be_simps)
  next
    assume "?c = u16_from_le_bytes l h"
    then have "ucast ?c = l" "ucast (drop_bit 8 ?c) = h"
      using u16_from_be_low [of h l] u16_from_be_high [of h l]
      by (simp_all add: u16_from_be_bytes_def u16_from_le_bytes_def)
    then show "crc16 (d @ [l, h]) = 0" using z eq by simp
  qed
qed

lemma lrc_eq: "lrc data = - sum_list data"
proof -
  have "foldl (+) c data = c + sum_list data" for c :: u8
    by (induction data arbitrary: c) (simp_all add: add.assoc)
  then show ?thesis by (simp add: lrc_def)
qed

lemma lrc_detects_byte: "a \<noteq> a' \<Longrightarrow> lrc (xs @ a # ys) \<noteq> lrc (xs @ a' # ys)"
  by (simp add: lrc_eq)

end
