(* ===== verification/Errors.thy ===== *)
theory Errors
  imports Prelude
begin

text \<open>
  The error values of the stack: \<open>ExceptionCode\<close> and \<open>MbusError\<close> (mbus-core/src/errors/mod.rs),
  and \<open>TransportError\<close> with its conversion (mbus-core/src/transport/error.rs). Rust keeps the
  variants of the two error enums apart by their type name; here the variants of
  \<open>TransportError\<close> carry the prefix \<open>TE_\<close>.
\<close>

datatype ExceptionCode =
    IllegalFunction
  | IllegalDataAddress
  | IllegalDataValue
  | ServerDeviceFailure
  | GatewayPathUnavailable
  | GatewayTargetDeviceFailedToRespond

fun exception_code_u8 :: "ExceptionCode \<Rightarrow> u8" where
  "exception_code_u8 IllegalFunction = 0x01"
| "exception_code_u8 IllegalDataAddress = 0x02"
| "exception_code_u8 IllegalDataValue = 0x03"
| "exception_code_u8 ServerDeviceFailure = 0x04"
| "exception_code_u8 GatewayPathUnavailable = 0x0A"
| "exception_code_u8 GatewayTargetDeviceFailedToRespond = 0x0B"

datatype MbusError =
    ParseError
  | BasicParseError
  | Timeout
  | ModbusException u8
  | IoError
  | Unexpected
  | ConnectionLost
  | UnsupportedFunction u8
  | ReservedSubFunction u16
  | InvalidPduLength
  | InvalidAduLength
  | ConnectionFailed
  | ConnectionClosed
  | BufferTooSmall
  | BufferLenMissmatch
  | SendFailed
  | InvalidAddress
  | InvalidOffset
  | TooManyRequests
  | InvalidFunctionCode
  | NoRetriesLeft
  | TooManyFileReadSubRequests
  | FileReadPduOverflow
  | UnexpectedResponse
  | InvalidTransport
  | InvalidSlaveAddress
  | ChecksumError
  | InvalidConfiguration
  | InvalidNumOfExpectedRsps
  | InvalidDataLen
  | InvalidQuantity
  | InvalidValue
  | InvalidAndMask
  | InvalidOrMask
  | InvalidByteCount
  | InvalidDeviceIdentification
  | InvalidDeviceIdCode
  | InvalidMeiType
  | InvalidBroadcastAddress
  | BroadcastNotAllowed
  | FramingError

type_synonym 'a result = "(MbusError, 'a) res"

definition broadcast_not_allowed :: MbusError where
  "broadcast_not_allowed = BroadcastNotAllowed"

datatype TransportError =
    TE_ConnectionFailed
  | TE_ConnectionClosed
  | TE_IoError
  | TE_Timeout
  | TE_BufferTooSmall
  | TE_Unexpected
  | TE_InvalidConfiguration
  | TE_FramingError

fun mbus_error_from_transport :: "TransportError \<Rightarrow> MbusError" where
  "mbus_error_from_transport TE_ConnectionFailed = ConnectionFailed"
| "mbus_error_from_transport TE_ConnectionClosed = ConnectionClosed"
| "mbus_error_from_transport TE_IoError = IoError"
| "mbus_error_from_transport TE_Timeout = Timeout"
| "mbus_error_from_transport TE_BufferTooSmall = BufferTooSmall"
| "mbus_error_from_transport TE_Unexpected = Unexpected"
| "mbus_error_from_transport TE_InvalidConfiguration = InvalidConfiguration"
| "mbus_error_from_transport TE_FramingError = FramingError"

lemma exception_code_u8_inj: "exception_code_u8 a = exception_code_u8 b \<Longrightarrow> a = b"
  by (cases a; cases b) simp_all

lemma exception_code_u8_pos: "exception_code_u8 c \<noteq> 0"
  by (cases c) simp_all

lemma mbus_error_from_transport_inj:
  "mbus_error_from_transport a = mbus_error_from_transport b \<Longrightarrow> a = b"
  by (cases a; cases b) simp_all

end
