(* ===== verification/Function_Codes.thy ===== *)
theory Function_Codes
  imports Errors
begin

text \<open>
  Function codes and sub-function codes (mbus-core/src/function_codes/public.rs), with all default
  features enabled: \<open>FunctionCode\<close> with its byte value and \<open>TryFrom<u8>\<close>, the exception variant of
  a code, the exception code an error is reported as, \<open>DiagnosticSubFunction\<close> and
  \<open>EncapsulatedInterfaceType\<close>. The variant \<open>Default\<close> is \<open>FC_Default\<close> and \<open>Err\<close> is \<open>EIT_Err\<close>.
\<close>

datatype FunctionCode =
    FC_Default
  | ReadCoils
  | ReadDiscreteInputs
  | WriteSingleCoil
  | WriteMultipleCoils
  | ReadHoldingRegisters
  | ReadInputRegisters
  | WriteSingleRegister
  | WriteMultipleRegisters
  | MaskWriteRegister
  | ReadWriteMultipleRegisters
  | ReadFifoQueue
  | ReadFileRecord
  | WriteFileRecord
  | ReadExceptionStatus
  | Diagnostics
  | GetCommEventCounter
  | GetCommEventLog
  | ReportServerId
  | EncapsulatedInterfaceTransport
  | ReadCoilsException
  | ReadDiscreteInputsException
  | ReadHoldingRegistersException
  | ReadInputRegistersException
  | WriteSingleCoilException
  | WriteSingleRegisterException
  | ReadExceptionStatusException
  | DiagnosticsException
  | GetCommEventCounterException
  | GetCommEventLogException
  | WriteMultipleCoilsException
  | WriteMultipleRegistersException
  | ReportServerIdException
  | ReadFileRecordException
  | WriteFileRecordException
  | MaskWriteRegisterException
  | ReadWriteMultipleRegistersException
  | ReadFifoQueueException
  | EncapsulatedInterfaceTransportException

text \<open>\<open>self.function_code as u8\<close>.\<close>

fun function_code_u8 :: "FunctionCode \<Rightarrow> u8" where
  "function_code_u8 FC_Default = 0x00"
| "function_code_u8 ReadCoils = 0x01"
| "function_code_u8 ReadDiscreteInputs = 0x02"
| "function_code_u8 WriteSingleCoil = 0x05"
| "function_code_u8 WriteMultipleCoils = 0x0F"
| "function_code_u8 ReadHoldingRegisters = 0x03"
| "function_code_u8 ReadInputRegisters = 0x04"
| "function_code_u8 WriteSingleRegister = 0x06"
| "function_code_u8 WriteMultipleRegisters = 0x10"
| "function_code_u8 MaskWriteRegister = 0x16"
| "function_code_u8 ReadWriteMultipleRegisters = 0x17"
| "function_code_u8 ReadFifoQueue = 0x18"
| "function_code_u8 ReadFileRecord = 0x14"
| "function_code_u8 WriteFileRecord = 0x15"
| "function_code_u8 ReadExceptionStatus = 0x07"
| "function_code_u8 Diagnostics = 0x08"
| "function_code_u8 GetCommEventCounter = 0x0B"
| "function_code_u8 GetCommEventLog = 0x0C"
| "function_code_u8 ReportServerId = 0x11"
| "function_code_u8 EncapsulatedInterfaceTransport = 0x2B"
| "function_code_u8 ReadCoilsException = 0x81"
| "function_code_u8 ReadDiscreteInputsException = 0x82"
| "function_code_u8 ReadHoldingRegistersException = 0x83"
| "function_code_u8 ReadInputRegistersException = 0x84"
| "function_code_u8 WriteSingleCoilException = 0x85"
| "function_code_u8 WriteSingleRegisterException = 0x86"
| "function_code_u8 ReadExceptionStatusException = 0x87"
| "function_code_u8 DiagnosticsException = 0x88"
| "function_code_u8 GetCommEventCounterException = 0x8B"
| "function_code_u8 GetCommEventLogException = 0x8C"
| "function_code_u8 WriteMultipleCoilsException = 0x8F"
| "function_code_u8 WriteMultipleRegistersException = 0x90"
| "function_code_u8 ReportServerIdException = 0x91"
| "function_code_u8 ReadFileRecordException = 0x94"
| "function_code_u8 WriteFileRecordException = 0x95"
| "function_code_u8 MaskWriteRegisterException = 0x96"
| "function_code_u8 ReadWriteMultipleRegistersException = 0x97"
| "function_code_u8 ReadFifoQueueException = 0x98"
| "function_code_u8 EncapsulatedInterfaceTransportException = 0xAB"

definition function_code_try_from :: "u8 \<Rightarrow> FunctionCode result" where
  "function_code_try_from v =
     (if v = 0x01 then Ok ReadCoils
      else if v = 0x02 then Ok ReadDiscreteInputs
      else if v = 0x03 then Ok ReadHoldingRegisters
      else if v = 0x04 then Ok ReadInputRegisters
      else if v = 0x05 then Ok WriteSingleCoil
      else if v = 0x06 then Ok WriteSingleRegister
      else if v = 0x07 then Ok ReadExceptionStatus
      else if v = 0x08 then Ok Diagnostics
      else if v = 0x0B then Ok GetCommEventCounter
      else if v = 0x0C then Ok GetCommEventLog
      else if v = 0x0F then Ok WriteMultipleCoils
      else if v = 0x10 then Ok WriteMultipleRegisters
      else if v = 0x11 then Ok ReportServerId
      else if v = 0x14 then Ok ReadFileRecord
      else if v = 0x15 then Ok WriteFileRecord
      else if v = 0x16 then Ok MaskWriteRegister
      else if v = 0x17 then Ok ReadWriteMultipleRegisters
      else if v = 0x18 then Ok ReadFifoQueue
      else if v = 0x2B then Ok EncapsulatedInterfaceTransport
      else if v = 0x81 then Ok ReadCoilsException
      else if v = 0x82 then Ok ReadDiscreteInputsException
      else if v = 0x83 then Ok ReadHoldingRegistersException
      else if v = 0x84 then Ok ReadInputRegistersException
      else if v = 0x85 then Ok WriteSingleCoilException
      else if v = 0x86 then Ok WriteSingleRegisterException
      else if v = 0x87 then Ok ReadExceptionStatusException
      else if v = 0x88 then Ok DiagnosticsException
      else if v = 0x8B then Ok GetCommEventCounterException
      else if v = 0x8C then Ok GetCommEventLogException
      else if v = 0x8F then Ok WriteMultipleCoilsException
      else if v = 0x90 then Ok WriteMultipleRegistersException
      else if v = 0x91 then Ok ReportServerIdException
      else if v = 0x94 then Ok ReadFileRecordException
      else if v = 0x95 then Ok WriteFileRecordException
      else if v = 0x96 then Ok MaskWriteRegisterException
      else if v = 0x97 then Ok ReadWriteMultipleRegistersException
      else if v = 0x98 then Ok ReadFifoQueueException
      else if v = 0xAB then Ok EncapsulatedInterfaceTransportException
      else Err (UnsupportedFunction v))"

definition exception_code_for_error :: "FunctionCode \<Rightarrow> MbusError \<Rightarrow> ExceptionCode" where
  "exception_code_for_error fc error =
     (case error of
        InvalidAddress \<Rightarrow> IllegalDataAddress
      | InvalidOffset \<Rightarrow> IllegalDataAddress
      | InvalidDataLen \<Rightarrow> IllegalDataAddress
      | ParseError \<Rightarrow> IllegalDataAddress
      | BasicParseError \<Rightarrow> IllegalDataAddress
      | InvalidPduLength \<Rightarrow> IllegalDataAddress
      | InvalidQuantity \<Rightarrow> IllegalDataValue
      | InvalidValue \<Rightarrow> IllegalDataValue
      | InvalidByteCount \<Rightarrow> IllegalDataValue
      | InvalidAndMask \<Rightarrow> IllegalDataValue
      | InvalidOrMask \<Rightarrow> IllegalDataValue
      | InvalidDeviceIdCode \<Rightarrow> IllegalDataValue
      | InvalidFunctionCode \<Rightarrow> IllegalFunction
      | UnsupportedFunction _ \<Rightarrow> IllegalFunction
      | ReservedSubFunction _ \<Rightarrow> IllegalFunction
      | InvalidMeiType \<Rightarrow> IllegalFunction
      | BroadcastNotAllowed \<Rightarrow> IllegalFunction
      | InvalidBroadcastAddress \<Rightarrow> IllegalFunction
      | _ \<Rightarrow> ServerDeviceFailure)"

fun exception_response :: "FunctionCode \<Rightarrow> FunctionCode option" where
  "exception_response ReadCoils = Some ReadCoilsException"
| "exception_response ReadDiscreteInputs = Some ReadDiscreteInputsException"
| "exception_response ReadHoldingRegisters = Some ReadHoldingRegistersException"
| "exception_response ReadInputRegisters = Some ReadInputRegistersException"
| "exception_response WriteSingleCoil = Some WriteSingleCoilException"
| "exception_response WriteSingleRegister = Some WriteSingleRegisterException"
| "exception_response ReadExceptionStatus = Some ReadExceptionStatusException"
| "exception_response Diagnostics = Some DiagnosticsException"
| "exception_response GetCommEventCounter = Some GetCommEventCounterException"
| "exception_response GetCommEventLog = Some GetCommEventLogException"
| "exception_response WriteMultipleCoils = Some WriteMultipleCoilsException"
| "exception_response WriteMultipleRegisters = Some WriteMultipleRegistersException"
| "exception_response ReportServerId = Some ReportServerIdException"
| "exception_response ReadFileRecord = Some ReadFileRecordException"
| "exception_response WriteFileRecord = Some WriteFileRecordException"
| "exception_response MaskWriteRegister = Some MaskWriteRegisterException"
| "exception_response ReadWriteMultipleRegisters = Some ReadWriteMultipleRegistersException"
| "exception_response ReadFifoQueue = Some ReadFifoQueueException"
| "exception_response EncapsulatedInterfaceTransport = Some EncapsulatedInterfaceTransportException"
| "exception_response _ = None"

datatype DiagnosticSubFunction =
    ReturnQueryData
  | RestartCommunicationsOption
  | ReturnDiagnosticRegister
  | ChangeAsciiInputDelimiter
  | ForceListenOnlyMode
  | ClearCountersAndDiagnosticRegister
  | ReturnBusMessageCount
  | ReturnBusCommunicationErrorCount
  | ReturnBusExceptionErrorCount
  | ReturnServerMessageCount
  | ReturnServerNoResponseCount
  | ReturnServerNakCount
  | ReturnServerBusyCount
  | ReturnBusCharacterOverrunCount
  | ClearOverrunCounterAndFlag

fun diagnostic_sub_function_u16 :: "DiagnosticSubFunction \<Rightarrow> u16" where
  "diagnostic_sub_function_u16 ReturnQueryData = 0x0000"
| "diagnostic_sub_function_u16 RestartCommunicationsOption = 0x0001"
| "diagnostic_sub_function_u16 ReturnDiagnosticRegister = 0x0002"
| "diagnostic_sub_function_u16 ChangeAsciiInputDelimiter = 0x0003"
| "diagnostic_sub_function_u16 ForceListenOnlyMode = 0x0004"
| "diagnostic_sub_function_u16 ClearCountersAndDiagnosticRegister = 0x000A"
| "diagnostic_sub_function_u16 ReturnBusMessageCount = 0x000B"
| "diagnostic_sub_function_u16 ReturnBusCommunicationErrorCount = 0x000C"
| "diagnostic_sub_function_u16 ReturnBusExceptionErrorCount = 0x000D"
| "diagnostic_sub_function_u16 ReturnServerMessageCount = 0x000E"
| "diagnostic_sub_function_u16 ReturnServerNoResponseCount = 0x000F"
| "diagnostic_sub_function_u16 ReturnServerNakCount = 0x0010"
| "diagnostic_sub_function_u16 ReturnServerBusyCount = 0x0011"
| "diagnostic_sub_function_u16 ReturnBusCharacterOverrunCount = 0x0012"
| "diagnostic_sub_function_u16 ClearOverrunCounterAndFlag = 0x0014"

definition diagnostic_sub_function_to_be_bytes :: "DiagnosticSubFunction \<Rightarrow> bytes" where
  "diagnostic_sub_function_to_be_bytes s = u16_to_be_bytes (diagnostic_sub_function_u16 s)"

definition diagnostic_sub_function_try_from :: "u16 \<Rightarrow> DiagnosticSubFunction result" where
  "diagnostic_sub_function_try_from v =
     (if v = 0x0000 then Ok ReturnQueryData
      else if v = 0x0001 then Ok RestartCommunicationsOption
      else if v = 0x0002 then Ok ReturnDiagnosticRegister
      else if v = 0x0003 then Ok ChangeAsciiInputDelimiter
      else if v = 0x0004 then Ok ForceListenOnlyMode
      else if v = 0x000A then Ok ClearCountersAndDiagnosticRegister
      else if v = 0x000B then Ok ReturnBusMessageCount
      else if v = 0x000C then Ok ReturnBusCommunicationErrorCount
      else if v = 0x000D then Ok ReturnBusExceptionErrorCount
      else if v = 0x000E then Ok ReturnServerMessageCount
      else if v = 0x000F then Ok ReturnServerNoResponseCount
      else if v = 0x0010 then Ok ReturnServerNakCount
      else if v = 0x0011 then Ok ReturnServerBusyCount
      else if v = 0x0012 then Ok ReturnBusCharacterOverrunCount
      else if v = 0x0014 then Ok ClearOverrunCounterAndFlag
      else Err (ReservedSubFunction v))"

datatype EncapsulatedInterfaceType =
    EIT_Err
  | CanopenGeneralReference
  | ReadDeviceIdentification

fun encapsulated_interface_type_u8 :: "EncapsulatedInterfaceType \<Rightarrow> u8" where
  "encapsulated_interface_type_u8 EIT_Err = 0x00"
| "encapsulated_interface_type_u8 CanopenGeneralReference = 0x0D"
| "encapsulated_interface_type_u8 ReadDeviceIdentification = 0x0E"

definition encapsulated_interface_type_try_from :: "u8 \<Rightarrow> EncapsulatedInterfaceType result" where
  "encapsulated_interface_type_try_from v =
     (if v = 0x0D then Ok CanopenGeneralReference
      else if v = 0x0E then Ok ReadDeviceIdentification
      else Err (ReservedSubFunction (ucast v)))"

section \<open>Round trips\<close>

lemma function_code_try_from_u8:
  "fc \<noteq> FC_Default \<Longrightarrow> function_code_try_from (function_code_u8 fc) = Ok fc"
  by (cases fc) (simp_all add: function_code_try_from_def)

lemma function_code_try_from_sound:
  "function_code_try_from v = Ok fc \<Longrightarrow> fc \<noteq> FC_Default \<and> function_code_u8 fc = v"
  by (auto simp: function_code_try_from_def split: if_splits)

lemma function_code_try_from_total:
  "(\<exists>fc. function_code_try_from v = Ok fc) \<or> function_code_try_from v = Err (UnsupportedFunction v)"
  by (simp add: function_code_try_from_def)

interpretation fc: wire_enum function_code_u8 function_code_try_from
  "\<lambda>fc. fc \<noteq> FC_Default" UnsupportedFunction
  by unfold_locales
    (blast intro: function_code_try_from_u8 dest: function_code_try_from_sound
      intro!: function_code_try_from_total)+

interpretation dsf: wire_enum diagnostic_sub_function_u16 diagnostic_sub_function_try_from
  "\<lambda>_. True" ReservedSubFunction
proof unfold_locales
  show "diagnostic_sub_function_try_from (diagnostic_sub_function_u16 x) = Ok x" for x
    by (cases x) (simp_all add: diagnostic_sub_function_try_from_def)
qed (auto simp: diagnostic_sub_function_try_from_def split: if_splits)

interpretation eit: wire_enum encapsulated_interface_type_u8 encapsulated_interface_type_try_from
  "\<lambda>t. t \<noteq> EIT_Err" "\<lambda>v. ReservedSubFunction (ucast v)"
proof unfold_locales
  show "encapsulated_interface_type_try_from (encapsulated_interface_type_u8 x) = Ok x"
    if "x \<noteq> EIT_Err" for x
    using that by (cases x) (simp_all add: encapsulated_interface_type_try_from_def)
qed (auto simp: encapsulated_interface_type_try_from_def split: if_splits)

section \<open>Exception codes\<close>

lemma exception_response_u8:
  "exception_response fc = Some e \<Longrightarrow>
   function_code_u8 e = function_code_u8 fc OR 0x80 \<and> function_code_u8 fc = function_code_u8 e AND 0x7F"
  by (cases fc) auto

lemma exception_response_None_iff:
  "exception_response fc = None \<longleftrightarrow> fc = FC_Default \<or> function_code_u8 fc AND 0x80 \<noteq> 0"
  by (cases fc) simp_all

lemma exception_response_inj:
  "exception_response a = Some e \<Longrightarrow> exception_response b = Some e \<Longrightarrow> a = b"
  using exception_response_u8 fc.code_inj exception_response_None_iff
  by (metis option.distinct(1))

text \<open>
  A byte is recognised as a function code exactly when it is the code of a variant other than the
  placeholder, and is otherwise reported as unsupported; the exception variant of a code is the code
  with the top bit set, exists for every recognised code without that bit, and identifies the code.
\<close>

theorem function_codes_on_wire:
  "(function_code_try_from v = Ok fc \<longleftrightarrow> fc \<noteq> FC_Default \<and> function_code_u8 fc = v) \<and>
   (function_code_try_from v = Err e \<longleftrightarrow>
      e = UnsupportedFunction v \<and> (\<forall>fc. fc \<noteq> FC_Default \<longrightarrow> function_code_u8 fc \<noteq> v)) \<and>
   (exception_response fc = Some x \<longrightarrow> function_code_u8 x = function_code_u8 fc OR 0x80) \<and>
   (exception_response fc = None \<longleftrightarrow> fc = FC_Default \<or> function_code_u8 fc AND 0x80 \<noteq> 0) \<and>
   (exception_response fc = Some x \<longrightarrow> exception_response fc' = Some x \<longrightarrow> fc = fc')"
proof (intro conjI impI)
  show "fc = fc'" if "exception_response fc = Some x" "exception_response fc' = Some x"
    using that by (rule exception_response_inj)
qed (rule fc.parse_Ok_iff fc.parse_Err_iff exception_response_None_iff
    exception_response_u8 [THEN conjunct1] | assumption)+

theorem function_codes_on_wire_witness:
  "exception_response ReadCoils = Some ReadCoilsException \<and>
   function_code_u8 ReadCoilsException = function_code_u8 ReadCoils OR 0x80 \<and>
   function_code_try_from 1 = Ok ReadCoils"
  using function_codes_on_wire [of 1 ReadCoils _ ReadCoilsException] by simp

end
