(* ===== verification/Transport.thy ===== *)
theory Transport
  imports Errors
begin

text \<open>
  The transport-independent types of mbus-core/src/transport: unit identifiers (unit_id.rs),
  transport kinds (error.rs), configuration records (config.rs) and retry scheduling (retry.rs).

  \<open>heapless::String\<close> is not code of this repository: \<open>String::from_str\<close> is the argument
  \<open>from_str\<close> of the configuration constructors (capacity, then the text). A retry callback
  \<open>fn() -> u32\<close> may return a different number at each call; it is a function of the number of
  calls made before, and \<open>jitter_apply\<close> takes the number the callback returns.
\<close>

section \<open>Unit identifiers\<close>

datatype UnitIdOrSlaveAddr = UnitIdOrSlaveAddr (uid_get: u8)

definition unit_id_new :: "u8 \<Rightarrow> UnitIdOrSlaveAddr result" where
  "unit_id_new address =
     (if 1 \<le> address \<and> address \<le> 247 then Ok (UnitIdOrSlaveAddr address)
      else if address = 0 then Err InvalidBroadcastAddress
      else Err InvalidSlaveAddress)"

definition new_broadcast_address :: UnitIdOrSlaveAddr where
  "new_broadcast_address = UnitIdOrSlaveAddr 0"

definition is_broadcast :: "UnitIdOrSlaveAddr \<Rightarrow> bool" where
  "is_broadcast u \<longleftrightarrow> uid_get u = 0"

definition unit_id_default :: UnitIdOrSlaveAddr where
  "unit_id_default = UnitIdOrSlaveAddr 255"

definition unit_id_try_from :: "u8 \<Rightarrow> UnitIdOrSlaveAddr result" where
  "unit_id_try_from value = unit_id_new value"

definition unit_id_from_u8 :: "u8 \<Rightarrow> UnitIdOrSlaveAddr" where
  "unit_id_from_u8 value = (case unit_id_new value of Ok u \<Rightarrow> u | _ \<Rightarrow> unit_id_default)"

section \<open>Transport kinds\<close>

datatype SerialMode = Rtu | Ascii

datatype TransportType =
    StdTcp
  | StdSerial SerialMode
  | CustomTcp
  | CustomSerial SerialMode

fun is_tcp_type :: "TransportType \<Rightarrow> bool" where
  "is_tcp_type StdTcp = True"
| "is_tcp_type CustomTcp = True"
| "is_tcp_type _ = False"

fun is_serial_type :: "TransportType \<Rightarrow> bool" where
  "is_serial_type (StdSerial _) = True"
| "is_serial_type (CustomSerial _) = True"
| "is_serial_type _ = False"

section \<open>Retry scheduling\<close>

datatype BackoffStrategy =
    Immediate
  | Fixed u32
  | Exponential u32 u32
  | Linear u32 u32 u32

fun delay_ms_for_retry :: "BackoffStrategy \<Rightarrow> u8 \<Rightarrow> u32" where
  "delay_ms_for_retry Immediate retry_attempt = 0"
| "delay_ms_for_retry (Fixed delay_ms) retry_attempt = delay_ms"
| "delay_ms_for_retry (Exponential base_delay_ms max_delay_ms) retry_attempt =
     (let attempt = max retry_attempt 1;
          shift = min (sat_sub attempt 1) 31;
          factor = push_bit (unat shift) 1
      in min (sat_mul base_delay_ms factor) max_delay_ms)"
| "delay_ms_for_retry (Linear initial_delay_ms increment_ms max_delay_ms) retry_attempt =
     (let attempt = max retry_attempt 1;
          growth = sat_mul increment_ms (ucast (sat_sub attempt 1))
      in min (sat_add initial_delay_ms growth) max_delay_ms)"

datatype JitterStrategy =
    NoJitter
  | Percentage u8
  | BoundedMs u32

text \<open>The \<open>let delta = match self\<close> of \<open>apply\<close>; \<open>None\<close> is its early return of the base delay.\<close>

fun jitter_delta :: "JitterStrategy \<Rightarrow> u32 \<Rightarrow> u32 option" where
  "jitter_delta NoJitter base_delay_ms = None"
| "jitter_delta (Percentage percent) base_delay_ms =
     (if percent = 0 \<or> base_delay_ms = 0 then None
      else Some (sat_mul base_delay_ms (ucast (min percent 100)) div 100))"
| "jitter_delta (BoundedMs max_jitter_ms) base_delay_ms =
     (if max_jitter_ms = 0 then None else Some max_jitter_ms)"

definition jitter_apply :: "JitterStrategy \<Rightarrow> u32 \<Rightarrow> u32 option \<Rightarrow> u32" where
  "jitter_apply strategy base_delay_ms random_fn =
     (case jitter_delta strategy base_delay_ms of
        None \<Rightarrow> base_delay_ms
      | Some delta \<Rightarrow>
         (case random_fn of
            None \<Rightarrow> base_delay_ms
          | Some random \<Rightarrow>
             (let span = sat_add (sat_mul delta 2) 1
              in if span = 0 then base_delay_ms
                 else let offset = uint (random mod span) - uint delta;
                          jittered = uint base_delay_ms + offset
                      in word_of_int (max jittered 0))))"

section \<open>Configuration\<close>

definition MODBUS_TCP_DEFAULT_PORT :: u16 where
  "MODBUS_TCP_DEFAULT_PORT = 502"

datatype Parity = ParityNone | ParityEven | ParityOdd

datatype DataBits = Five | Six | Seven | Eight

datatype BaudRate = Baud9600 | Baud19200 | BaudCustom u32

type_synonym RetryRandomFn = "nat \<Rightarrow> u32"

record ModbusSerialConfig =
  ser_port_path :: string
  ser_mode :: SerialMode
  ser_baud_rate :: BaudRate
  ser_data_bits :: DataBits
  ser_stop_bits :: u8
  ser_parity :: Parity
  ser_response_timeout_ms :: u32
  ser_retry_attempts :: u8
  ser_retry_backoff_strategy :: BackoffStrategy
  ser_retry_jitter_strategy :: JitterStrategy
  ser_retry_random_fn :: "RetryRandomFn option"

definition serial_config_default :: ModbusSerialConfig where
  "serial_config_default =
     \<lparr>ser_port_path = '''', ser_mode = Rtu, ser_baud_rate = Baud19200, ser_data_bits = Eight,
      ser_stop_bits = 1, ser_parity = ParityEven, ser_response_timeout_ms = 1000,
      ser_retry_attempts = 3, ser_retry_backoff_strategy = Immediate,
      ser_retry_jitter_strategy = NoJitter, ser_retry_random_fn = None\<rparr>"

record ModbusTcpConfig =
  tcp_host :: string
  tcp_port :: u16
  tcp_connection_timeout_ms :: u32
  tcp_response_timeout_ms :: u32
  tcp_retry_attempts :: u8
  tcp_retry_backoff_strategy :: BackoffStrategy
  tcp_retry_jitter_strategy :: JitterStrategy
  tcp_retry_random_fn :: "RetryRandomFn option"

definition tcp_config_new :: "(usize \<Rightarrow> string \<Rightarrow> string option) \<Rightarrow> string \<Rightarrow> u16 \<Rightarrow> ModbusTcpConfig result" where
  "tcp_config_new from_str host port =
     bind_res (ok_or BufferTooSmall (from_str 64 host)) (\<lambda>host_string.
     Ok \<lparr>tcp_host = host_string, tcp_port = port, tcp_connection_timeout_ms = 5000,
         tcp_response_timeout_ms = 5000, tcp_retry_attempts = 3,
         tcp_retry_backoff_strategy = Immediate, tcp_retry_jitter_strategy = NoJitter,
         tcp_retry_random_fn = None\<rparr>)"

definition tcp_config_with_default_port ::
    "(usize \<Rightarrow> string \<Rightarrow> string option) \<Rightarrow> string \<Rightarrow> ModbusTcpConfig result" where
  "tcp_config_with_default_port from_str host =
     bind_res (ok_or BufferTooSmall (from_str 64 host)) (\<lambda>host_string.
     tcp_config_new from_str host_string MODBUS_TCP_DEFAULT_PORT)"

datatype ModbusConfig = Tcp ModbusTcpConfig | Serial ModbusSerialConfig

fun config_retry_attempts :: "ModbusConfig \<Rightarrow> u8" where
  "config_retry_attempts (Tcp c) = tcp_retry_attempts c"
| "config_retry_attempts (Serial c) = ser_retry_attempts c"

fun config_retry_backoff_strategy :: "ModbusConfig \<Rightarrow> BackoffStrategy" where
  "config_retry_backoff_strategy (Tcp c) = tcp_retry_backoff_strategy c"
| "config_retry_backoff_strategy (Serial c) = ser_retry_backoff_strategy c"

fun config_retry_jitter_strategy :: "ModbusConfig \<Rightarrow> JitterStrategy" where
  "config_retry_jitter_strategy (Tcp c) = tcp_retry_jitter_strategy c"
| "config_retry_jitter_strategy (Serial c) = ser_retry_jitter_strategy c"

fun config_retry_random_fn :: "ModbusConfig \<Rightarrow> RetryRandomFn option" where
  "config_retry_random_fn (Tcp c) = tcp_retry_random_fn c"
| "config_retry_random_fn (Serial c) = ser_retry_random_fn c"

text \<open>A TCP configuration for the examples of the development.\<close>

definition sample_config :: ModbusConfig where
  "sample_config = Tcp \<lparr>tcp_host = ''127.0.0.1'', tcp_port = 502, tcp_connection_timeout_ms = 5000,
     tcp_response_timeout_ms = 1000, tcp_retry_attempts = 1, tcp_retry_backoff_strategy = Fixed 5000,
     tcp_retry_jitter_strategy = NoJitter, tcp_retry_random_fn = None\<rparr>"

section \<open>Unit identifiers: validation\<close>

lemma unit_id_new_Ok_iff:
  "unit_id_new a = Ok u \<longleftrightarrow> 1 \<le> a \<and> a \<le> 247 \<and> u = UnitIdOrSlaveAddr a"
  by (auto simp: unit_id_new_def)

lemma unit_id_new_no_panic [simp]: "unit_id_new a \<noteq> Panic"
  by (simp add: unit_id_new_def)

lemma unit_id_from_u8_unicast: "unit_id_new a = Ok u \<Longrightarrow> unit_id_from_u8 (uid_get u) = u"
  by (auto simp: unit_id_new_Ok_iff) (simp add: unit_id_from_u8_def unit_id_new_def)

lemma unit_id_from_u8_other:
  "\<not> (1 \<le> a \<and> a \<le> 247) \<Longrightarrow> unit_id_from_u8 a = unit_id_default"
  by (auto simp: unit_id_from_u8_def unit_id_new_def)

section \<open>Retry delays: closed forms and bounds\<close>

lemma unat_u32_le: "unat (w :: u32) \<le> 2 ^ 32 - 1"
proof -
  have "unat w < 2 ^ LENGTH(32)" by (rule unsigned_less)
  then show ?thesis by simp
qed

lemma unat_min_word: "unat (min a b) = min (unat a) (unat b)" for a b :: "'w::len word"
  by (simp add: min_def word_le_nat_alt)

lemma unat_max_word: "unat (max a b) = max (unat a) (unat b)" for a b :: "'w::len word"
  by (simp add: max_def word_le_nat_alt)

lemma min_saturated: "m \<le> t \<Longrightarrow> min (min x t) m = min x (m :: nat)"
  by simp

lemma delay_exponential:
  "unat (delay_ms_for_retry (Exponential b m) k) =
   min (unat b * 2 ^ min (max (unat k) 1 - 1) 31) (unat m)"
proof -
  define j where "j = min (max (unat k) 1 - 1) 31"
  have j: "unat (min (sat_sub (max k 1) 1) 31) = j"
    by (simp add: unat_min_word unat_max_word unat_sat_sub j_def)
  have "j < 32" by (simp add: j_def)
  then have "(2 :: nat) ^ j < 2 ^ 32" by (intro power_strict_increasing) simp_all
  then have "unat (of_nat (2 ^ j) :: u32) = 2 ^ j"
    unfolding unat_of_nat by (simp add: take_bit_nat_eq_self_iff)
  then have "unat (push_bit j (1 :: u32)) = 2 ^ j"
    by (simp add: push_bit_of_1)
  then have "unat (delay_ms_for_retry (Exponential b m) k) =
      min (min (unat b * 2 ^ j) (2 ^ 32 - 1)) (unat m)"
    unfolding delay_ms_for_retry.simps Let_def j by (simp add: unat_min_word unat_sat_mul)
  then show ?thesis
    using unat_u32_le [of m] by (simp only: j_def [symmetric] min_saturated)
qed

lemma delay_linear:
  "unat (delay_ms_for_retry (Linear i inc m) k) =
   min (unat i + unat inc * (max (unat k) 1 - 1)) (unat m)"
proof -
  define j where "j = max (unat k) 1 - 1"
  have "j < 256" unfolding j_def using unat_u8_lt [of k] by linarith
  then have j: "unat (ucast (sat_sub (max k 1) 1) :: u32) = j"
    by (simp add: unsigned_ucast_eq unat_max_word unat_sat_sub j_def take_bit_nat_eq_self_iff)
  have "unat (delay_ms_for_retry (Linear i inc m) k) =
      min (min (unat i + min (unat inc * j) (2 ^ 32 - 1)) (2 ^ 32 - 1)) (unat m)"
    by (simp add: Let_def j unat_min_word unat_sat_mul unat_sat_add)
  also have "\<dots> = min (unat i + unat inc * j) (unat m)"
    using unat_u32_le [of m] by linarith
  finally show ?thesis by (simp only: j_def)
qed

text \<open>Every strategy is monotone in the attempt index and stays below its configured bound.\<close>

fun backoff_bound :: "BackoffStrategy \<Rightarrow> u32" where
  "backoff_bound Immediate = 0"
| "backoff_bound (Fixed d) = d"
| "backoff_bound (Exponential b m) = m"
| "backoff_bound (Linear i inc m) = m"

lemma delay_le_bound: "delay_ms_for_retry s k \<le> backoff_bound s"
  by (cases s) (simp_all add: Let_def)

lemma delay_mono: "j \<le> k \<Longrightarrow> delay_ms_for_retry s j \<le> delay_ms_for_retry s k"
proof (cases s)
  case (Exponential b m)
  assume "j \<le> k"
  then have "min (max (unat j) 1 - 1) 31 \<le> min (max (unat k) 1 - 1) (31 :: nat)"
    by (auto simp: word_le_nat_alt)
  then have "(2 :: nat) ^ min (max (unat j) 1 - 1) 31 \<le> 2 ^ min (max (unat k) 1 - 1) 31"
    by (rule power_increasing) simp
  then have "unat b * 2 ^ min (max (unat j) 1 - 1) 31 \<le> unat b * 2 ^ min (max (unat k) 1 - 1) 31"
    by (rule mult_le_mono2)
  then show ?thesis
    unfolding Exponential word_le_nat_alt delay_exponential by (rule min.mono) simp
next
  case (Linear i inc m)
  assume "j \<le> k"
  then have "max (unat j) 1 - 1 \<le> max (unat k) 1 - (1 :: nat)"
    by (auto simp: word_le_nat_alt)
  then have "unat i + unat inc * (max (unat j) 1 - 1) \<le> unat i + unat inc * (max (unat k) 1 - 1)"
    by (intro add_left_mono mult_le_mono2)
  then show ?thesis
    unfolding Linear word_le_nat_alt delay_linear by (rule min.mono) simp
qed simp_all

section \<open>Jitter stays within its range\<close>

lemma jitter_apply_no_delta: "jitter_delta s b = None \<Longrightarrow> jitter_apply s b r = b"
  by (simp add: jitter_apply_def)

lemma jitter_apply_no_random: "jitter_apply s b None = b"
  by (simp add: jitter_apply_def split: option.splits)

lemma jitter_apply_eq:
  assumes "jitter_delta s b = Some d"
  shows "jitter_apply s b (Some r) =
    word_of_int (max (uint b + (uint (r mod sat_add (sat_mul d 2) 1) - uint d)) 0)"
proof -
  have "0 < unat (sat_add (sat_mul d 2) 1)" by (simp add: unat_sat_add)
  then have "sat_add (sat_mul d 2) 1 \<noteq> 0" by (simp add: unat_gt_0)
  then show ?thesis using assms by (simp add: jitter_apply_def Let_def)
qed

text \<open>The unclamped jittered delay lies within \<open>delta\<close> of the base delay, as an integer.\<close>

lemma jitter_offset_bound: "unat (r mod sat_add (sat_mul d 2) 1) \<le> 2 * unat d" for d :: u32
proof -
  have span: "unat (sat_add (sat_mul d 2) 1) \<le> 2 * unat d + 1"
    by (simp add: unat_sat_add unat_sat_mul)
  have "0 < unat (sat_add (sat_mul d 2) 1)" by (simp add: unat_sat_add)
  then have "unat r mod unat (sat_add (sat_mul d 2) 1) < unat (sat_add (sat_mul d 2) 1)" by simp
  then show ?thesis using span by (simp add: unat_mod)
qed

text \<open>
  The jittered delay stays within the configured distance of the base delay, whatever number the
  random source returns, as long as their sum fits into 32 bits.
\<close>

theorem jitter_range:
  assumes d: "jitter_delta s b = Some d" and fits: "unat b + unat d < 2 ^ 32"
  shows "unat b - unat d \<le> unat (jitter_apply s b (Some r)) \<and>
    unat (jitter_apply s b (Some r)) \<le> unat b + unat d"
proof -
  define j where "j = int (unat b) + (int (unat (r mod sat_add (sat_mul d 2) 1)) - int (unat d))"
  have lo: "int (unat b) - int (unat d) \<le> j" by (simp add: j_def)
  have hi: "j \<le> int (unat b) + int (unat d)"
    unfolding j_def using jitter_offset_bound [of r d] by linarith
  have "jitter_apply s b (Some r) = word_of_int (max j 0)"
    by (simp add: jitter_apply_eq [OF d] j_def flip: uint_nat)
  moreover have "max j 0 < 2 ^ 32"
  proof -
    have "unat b + unat d < 4294967296" using fits by simp
    then have "max j 0 < 4294967296" using hi by linarith
    then show ?thesis by simp
  qed
  ultimately have "unat (jitter_apply s b (Some r)) = nat (max j 0)"
    by (simp add: unsigned_of_int take_bit_int_eq_self)
  then show ?thesis using lo hi by linarith
qed

theorem jitter_range_witness:
  "80 \<le> unat (jitter_apply (Percentage 20) 100 (Some 77)) \<and>
   unat (jitter_apply (Percentage 20) 100 (Some 77)) \<le> 120"
  using jitter_range [of "Percentage 20" 100 20 77] by (simp add: sat_mul_def)

text \<open>
  C34: Retry delays never decrease from one attempt to the next, never exceed the configured maximum,
  and follow the strategy: the exponential strategy doubles the base delay per attempt and the linear
  one adds the increment, both capped at the maximum, without wrapping around.
\<close>

theorem retry_delays:
  "(j \<le> k \<longrightarrow> delay_ms_for_retry s j \<le> delay_ms_for_retry s k) \<and>
   delay_ms_for_retry s k \<le> backoff_bound s \<and>
   unat (delay_ms_for_retry (Exponential b m) k) =
     min (unat b * 2 ^ min (max (unat k) 1 - 1) 31) (unat m) \<and>
   unat (delay_ms_for_retry (Linear i inc m) k) =
     min (unat i + unat inc * (max (unat k) 1 - 1)) (unat m)"
  using delay_mono delay_le_bound delay_exponential delay_linear by simp

theorem retry_delays_witness:
  "(2 :: u8) \<le> 5 \<and>
   delay_ms_for_retry (Exponential 100 5000) 2 \<le> delay_ms_for_retry (Exponential 100 5000) 5"
  using retry_delays [of 2 5 "Exponential 100 5000"] by simp

end
