(* ===== verification/Data_Unit.thy ===== *)
theory Data_Unit
  imports Function_Codes Transport
begin

text \<open>
  The constants and plain data types of mbus-core/src/data_unit/common.rs, for the default
  features (\<open>serial-ascii\<close> enabled). Offsets and sizes are abbreviations, so that they evaluate
  like the Rust constants they stand for. Record fields carry a prefix where several Rust structs
  share a field name.
\<close>

section \<open>Constants\<close>

abbreviation (input) MAX_PDU_DATA_LEN :: usize where "MAX_PDU_DATA_LEN \<equiv> 252"
abbreviation (input) MODBUS_PROTOCOL_ID :: u16 where "MODBUS_PROTOCOL_ID \<equiv> 0x0000"
abbreviation (input) MAX_ADU_FRAME_LEN_TCP_RTU :: usize where "MAX_ADU_FRAME_LEN_TCP_RTU \<equiv> 260"
abbreviation (input) MAX_ADU_FRAME_LEN_ASCII :: usize where "MAX_ADU_FRAME_LEN_ASCII \<equiv> 513"
abbreviation (input) MAX_ADU_FRAME_LEN :: usize where "MAX_ADU_FRAME_LEN \<equiv> MAX_ADU_FRAME_LEN_ASCII"
abbreviation (input) MBAP_HEADER_SIZE :: usize where "MBAP_HEADER_SIZE \<equiv> 7"
abbreviation (input) MIN_RTU_ADU_LEN :: usize where "MIN_RTU_ADU_LEN \<equiv> 4"
abbreviation (input) MIN_ASCII_ADU_LEN :: usize where "MIN_ASCII_ADU_LEN \<equiv> 9"
abbreviation (input) RTU_CRC_SIZE :: usize where "RTU_CRC_SIZE \<equiv> 2"
abbreviation (input) MBAP_TXN_ID_OFFSET_1B :: usize where "MBAP_TXN_ID_OFFSET_1B \<equiv> 0"
abbreviation (input) MBAP_PROTO_ID_OFFSET_1B :: usize where "MBAP_PROTO_ID_OFFSET_1B \<equiv> 2"
abbreviation (input) MBAP_LENGTH_OFFSET_1B :: usize where "MBAP_LENGTH_OFFSET_1B \<equiv> 4"
abbreviation (input) MBAP_UNIT_ID_OFFSET :: usize where "MBAP_UNIT_ID_OFFSET \<equiv> 6"
abbreviation (input) ASCII_START_SIZE :: usize where "ASCII_START_SIZE \<equiv> 1"
abbreviation (input) ASCII_END_SIZE :: usize where "ASCII_END_SIZE \<equiv> 2"
abbreviation (input) ERROR_BIT_MASK :: u8 where "ERROR_BIT_MASK \<equiv> 0x80"
abbreviation (input) FUNCTION_CODE_MASK :: u8 where "FUNCTION_CODE_MASK \<equiv> 0x7F"
abbreviation (input) PDU_ADDRESS_OFFSET_1B :: usize where "PDU_ADDRESS_OFFSET_1B \<equiv> 0"
abbreviation (input) PDU_QUANTITY_OFFSET_1B :: usize where "PDU_QUANTITY_OFFSET_1B \<equiv> 2"
abbreviation (input) PDU_AND_MASK_OFFSET_1B :: usize where "PDU_AND_MASK_OFFSET_1B \<equiv> 2"
abbreviation (input) PDU_OR_MASK_OFFSET_1B :: usize where "PDU_OR_MASK_OFFSET_1B \<equiv> 4"
abbreviation (input) PDU_BYTE_COUNT_OFFSET :: usize where "PDU_BYTE_COUNT_OFFSET \<equiv> 4"
abbreviation (input) PDU_FC17_WRITE_ADDRESS_OFFSET_1B :: usize where "PDU_FC17_WRITE_ADDRESS_OFFSET_1B \<equiv> 4"
abbreviation (input) PDU_FC17_WRITE_QUANTITY_OFFSET_1B :: usize where "PDU_FC17_WRITE_QUANTITY_OFFSET_1B \<equiv> 6"
abbreviation (input) PDU_FC17_WRITE_BYTE_COUNT_OFFSET :: usize where "PDU_FC17_WRITE_BYTE_COUNT_OFFSET \<equiv> 8"
abbreviation (input) PDU_FC17_WRITE_VALUES_OFFSET :: usize where "PDU_FC17_WRITE_VALUES_OFFSET \<equiv> 9"
abbreviation (input) PDU_SUB_FUNCTION_OFFSET_1B :: usize where "PDU_SUB_FUNCTION_OFFSET_1B \<equiv> 0"
abbreviation (input) PDU_MEI_TYPE_OFFSET :: usize where "PDU_MEI_TYPE_OFFSET \<equiv> 0"
abbreviation (input) PDU_MEI_READ_CODE_OFFSET :: usize where "PDU_MEI_READ_CODE_OFFSET \<equiv> 1"
abbreviation (input) PDU_MEI_CONFORMITY_LEVEL_OFFSET :: usize where "PDU_MEI_CONFORMITY_LEVEL_OFFSET \<equiv> 2"
abbreviation (input) PDU_MEI_MORE_FOLLOWS_OFFSET :: usize where "PDU_MEI_MORE_FOLLOWS_OFFSET \<equiv> 3"
abbreviation (input) PDU_MEI_NEXT_OBJECT_ID_OFFSET :: usize where "PDU_MEI_NEXT_OBJECT_ID_OFFSET \<equiv> 4"
abbreviation (input) PDU_MEI_NUM_OBJECTS_OFFSET :: usize where "PDU_MEI_NUM_OBJECTS_OFFSET \<equiv> 5"
abbreviation (input) PDU_MEI_OBJECTS_DATA_OFFSET :: usize where "PDU_MEI_OBJECTS_DATA_OFFSET \<equiv> 6"
abbreviation (input) PDU_FIFO_BYTE_COUNT_OFFSET_1B :: usize where "PDU_FIFO_BYTE_COUNT_OFFSET_1B \<equiv> 0"
abbreviation (input) PDU_FIFO_COUNT_OFFSET_1B :: usize where "PDU_FIFO_COUNT_OFFSET_1B \<equiv> 2"
abbreviation (input) PDU_FIFO_VALUES_OFFSET :: usize where "PDU_FIFO_VALUES_OFFSET \<equiv> 4"

section \<open>The exception bit\<close>

definition is_exception_code :: "u8 \<Rightarrow> bool" where
  "is_exception_code function_code_byte \<longleftrightarrow> function_code_byte AND ERROR_BIT_MASK \<noteq> 0"

definition clear_exception_bit :: "u8 \<Rightarrow> u8" where
  "clear_exception_bit function_code_byte = function_code_byte AND FUNCTION_CODE_MASK"

section \<open>Structures\<close>

record Pdu =
  function_code :: FunctionCode
  error_code :: "u8 option"
  data :: bytes
  data_len :: u8

record ReadWindow =
  rw_address :: u16
  rw_quantity :: u16

record WriteSingleU16Fields =
  ws_address :: u16
  ws_value :: u16

record WriteMultipleFields =
  wm_address :: u16
  wm_quantity :: u16
  wm_byte_count :: u8
  wm_values :: bytes

record MaskWriteRegisterFields =
  mw_address :: u16
  mw_and_mask :: u16
  mw_or_mask :: u16

record ByteCountPayload =
  bc_byte_count :: u8
  bc_payload :: bytes

record ReadWriteMultipleFields =
  rwm_read_address :: u16
  rwm_read_quantity :: u16
  rwm_write_address :: u16
  rwm_write_quantity :: u16
  rwm_write_byte_count :: u8
  rwm_write_values :: bytes

record SubFunctionPayload =
  sf_sub_function :: u16
  sf_payload :: bytes

record U16PairFields =
  up_first :: u16
  up_second :: u16

record MeiTypePayload =
  mei_type_byte :: u8
  mei_payload :: bytes

record FifoPayload =
  fifo_byte_count :: u16
  fifo_count :: u16
  fifo_values :: bytes

record ReadDeviceIdPduFields =
  rdi_mei_type_byte :: u8
  rdi_read_device_id_code_byte :: u8
  rdi_conformity_level_byte :: u8
  rdi_more_follows :: bool
  rdi_next_object_id_byte :: u8
  rdi_number_of_objects :: u8
  rdi_objects_data :: bytes
  rdi_payload_len :: usize

record MbapHeader =
  transaction_id :: u16
  protocol_id :: u16
  mbap_length :: u16
  unit_id :: u8

definition mbap_header_new :: "u16 \<Rightarrow> u16 \<Rightarrow> u8 \<Rightarrow> MbapHeader" where
  "mbap_header_new txn len uid =
     \<lparr>transaction_id = txn, protocol_id = 0, mbap_length = len, unit_id = uid\<rparr>"

datatype SlaveAddress = SlaveAddress (slave_address: u8)

definition slave_address_new :: "u8 \<Rightarrow> SlaveAddress result" where
  "slave_address_new address =
     (if \<not> (0 \<le> address \<and> address \<le> 247) then Err InvalidSlaveAddress
      else Ok (SlaveAddress address))"

datatype AdditionalAddress = AAMbapHeader MbapHeader | AASlaveAddress SlaveAddress

record ModbusMessage =
  additional_address :: AdditionalAddress
  pdu :: Pdu

definition modbus_message_new :: "AdditionalAddress \<Rightarrow> Pdu \<Rightarrow> ModbusMessage" where
  "modbus_message_new addr p = \<lparr>additional_address = addr, pdu = p\<rparr>"

section \<open>The exception bit and function codes\<close>

lemma slave_address_new_Ok_iff:
  "slave_address_new a = Ok s \<longleftrightarrow> a \<le> 247 \<and> s = SlaveAddress a"
  by (auto simp: slave_address_new_def)

lemma slave_address_new_no_panic [simp]: "slave_address_new a \<noteq> Panic"
  by (simp add: slave_address_new_def)

text \<open>A request or normal response code: no placeholder and no exception variant.\<close>

definition normal_code :: "FunctionCode \<Rightarrow> bool" where
  "normal_code fc \<longleftrightarrow> exception_response fc \<noteq> None"

lemma normal_code_byte:
  "normal_code fc \<Longrightarrow> \<not> is_exception_code (function_code_u8 fc) \<and>
   clear_exception_bit (function_code_u8 fc) = function_code_u8 fc \<and>
   function_code_try_from (function_code_u8 fc) = Ok fc"
  by (cases fc)
    (simp_all add: normal_code_def is_exception_code_def clear_exception_bit_def
      function_code_try_from_def)

lemma exception_code_byte:
  "exception_response fc = Some e \<Longrightarrow> is_exception_code (function_code_u8 e) \<and>
   function_code_try_from (clear_exception_bit (function_code_u8 e)) = Ok fc"
  by (cases fc) (auto simp: is_exception_code_def clear_exception_bit_def function_code_try_from_def)

text \<open>With the exception bit cleared only the normal codes are recognised.\<close>

lemma clear_exception_bit_normal:
  "function_code_try_from (clear_exception_bit b) = Ok fc \<Longrightarrow> normal_code fc"
proof -
  assume "function_code_try_from (clear_exception_bit b) = Ok fc"
  then have fc: "fc \<noteq> FC_Default" "function_code_u8 fc = b AND 0x7F"
    using fc.parse_sound by (auto simp: clear_exception_bit_def)
  have "(b AND 0x7F) AND 0x80 = 0"
    unfolding and.assoc by simp
  then show "normal_code fc"
    using fc by (auto simp: normal_code_def exception_response_None_iff)
qed

end
