(* ===== verification/File_Record.thy ===== *)
theory File_Record
  imports Data_Unit
begin

text \<open>
  File-record requests on the client side (mbus-core/src/models/file_record/model.rs): the
  sub-request collection \<open>SubRequest\<close>, the two operations that add to it, its size, and its
  serialisation. The methods that take \<open>&mut self\<close> return the new collection.
\<close>

abbreviation (input) MAX_SUB_REQUESTS_PER_PDU :: usize where "MAX_SUB_REQUESTS_PER_PDU \<equiv> 35"
abbreviation (input) SUB_REQ_PARAM_BYTE_LEN :: usize where "SUB_REQ_PARAM_BYTE_LEN \<equiv> 7"
abbreviation (input) FILE_RECORD_REF_TYPE :: u8 where "FILE_RECORD_REF_TYPE \<equiv> 0x06"

record FileRecordReadSubRequest =
  frr_file_number :: u16
  frr_record_number :: u16
  frr_record_length :: u16

record FileRecordWriteSubRequest =
  frw_file_number :: u16
  frw_record_number :: u16
  frw_record_length :: u16
  frw_record_data_bytes :: bytes

record SubRequestParams =
  file_number :: u16
  record_number :: u16
  record_length :: u16
  record_data :: "u16 list option"

record SubRequest =
  params :: "SubRequestParams list"
  total_read_bytes_length :: u16

definition sub_request_new :: SubRequest where
  "sub_request_new = \<lparr>params = [], total_read_bytes_length = 0\<rparr>"

definition add_read_sub_request ::
    "SubRequestParams heapless \<Rightarrow> bool \<Rightarrow> SubRequest \<Rightarrow> u16 \<Rightarrow> u16 \<Rightarrow> u16 \<Rightarrow> SubRequest result" where
  "add_read_sub_request hv oc s file rec len =
     (if length (params s) \<ge> MAX_SUB_REQUESTS_PER_PDU then Err TooManyFileReadSubRequests
      else bind_res (add_ovf oc (of_nat (length (params s))) 1) (\<lambda>n.
           bind_res (add_ovf oc (total_read_bytes_length s) len) (\<lambda>regs.
           bind_res (add_ovf oc n regs) (\<lambda>total.
           if total > 125 then Err FileReadPduOverflow
           else bind_res
             (push_or hv MAX_SUB_REQUESTS_PER_PDU TooManyFileReadSubRequests (params s)
               \<lparr>file_number = file, record_number = rec, record_length = len, record_data = None\<rparr>) (\<lambda>ps.
             bind_res (add_ovf oc (total_read_bytes_length s) len) (\<lambda>t.
             Ok (s\<lparr>params := ps, total_read_bytes_length := t\<rparr>)))))))"

definition byte_count :: "SubRequest \<Rightarrow> usize" where
  "byte_count s =
     sum_list (map (\<lambda>p. 7 + (case record_data p of None \<Rightarrow> 0 | Some d \<Rightarrow> length d * 2)) (params s))"

definition add_write_sub_request ::
    "SubRequestParams heapless \<Rightarrow> bool \<Rightarrow> SubRequest \<Rightarrow> u16 \<Rightarrow> u16 \<Rightarrow> u16 \<Rightarrow> u16 list \<Rightarrow> SubRequest result" where
  "add_write_sub_request hv oc s file rec len values =
     (if length (params s) \<ge> MAX_SUB_REQUESTS_PER_PDU then Err TooManyFileReadSubRequests
      else if length values \<noteq> unat len then Err BufferLenMissmatch
      else
        let current_payload_size = byte_count s;
            new_sub_req_size = SUB_REQ_PARAM_BYTE_LEN + length values * 2
        in if 1 + current_payload_size + new_sub_req_size > MAX_PDU_DATA_LEN
           then Err FileReadPduOverflow
           else bind_res
             (push_or hv MAX_SUB_REQUESTS_PER_PDU TooManyFileReadSubRequests (params s)
               \<lparr>file_number = file, record_number = rec, record_length = len,
                record_data = Some values\<rparr>) (\<lambda>ps.
             bind_res (add_ovf oc (total_read_bytes_length s) len) (\<lambda>t.
             Ok (s\<lparr>params := ps, total_read_bytes_length := t\<rparr>))))"

definition clear_all :: "SubRequest \<Rightarrow> SubRequest" where
  "clear_all s = s\<lparr>total_read_bytes_length := 0, params := []\<rparr>"

text \<open>The loop over the words of one sub-request, and the loop over the sub-requests.\<close>

fun put_words :: "u8 heapless \<Rightarrow> bytes \<Rightarrow> u16 list \<Rightarrow> bytes result" where
  "put_words hv bs [] = Ok bs"
| "put_words hv bs (w # ws) =
     bind_res (extend_or hv MAX_PDU_DATA_LEN BufferLenMissmatch bs (u16_to_be_bytes w)) (\<lambda>bs.
     put_words hv bs ws)"

fun put_params :: "u8 heapless \<Rightarrow> bytes \<Rightarrow> SubRequestParams list \<Rightarrow> bytes result" where
  "put_params hv bs [] = Ok bs"
| "put_params hv bs (p # ps) =
     bind_res (push_or hv MAX_PDU_DATA_LEN BufferTooSmall bs FILE_RECORD_REF_TYPE) (\<lambda>bs.
     bind_res (extend_or hv MAX_PDU_DATA_LEN BufferLenMissmatch bs
       (u16_to_be_bytes (file_number p))) (\<lambda>bs.
     bind_res (extend_or hv MAX_PDU_DATA_LEN BufferLenMissmatch bs
       (u16_to_be_bytes (record_number p))) (\<lambda>bs.
     bind_res (extend_or hv MAX_PDU_DATA_LEN BufferLenMissmatch bs
       (u16_to_be_bytes (record_length p))) (\<lambda>bs.
     bind_res (case record_data p of None \<Rightarrow> Ok bs | Some d \<Rightarrow> put_words hv bs d) (\<lambda>bs.
     put_params hv bs ps)))))"

definition to_sub_req_pdu_bytes :: "u8 heapless \<Rightarrow> SubRequest \<Rightarrow> bytes result" where
  "to_sub_req_pdu_bytes hv s =
     bind_res (push_or hv MAX_PDU_DATA_LEN BufferTooSmall [] (of_nat (byte_count s))) (\<lambda>bs.
     put_params hv bs (params s))"

section \<open>Serialised form\<close>

text \<open>The bytes of one sub-request: reference type, file, record and length fields, data words.\<close>

definition words_bytes :: "u16 list \<Rightarrow> bytes" where
  "words_bytes ws = concat (map u16_to_be_bytes ws)"

definition param_bytes :: "SubRequestParams \<Rightarrow> bytes" where
  "param_bytes p =
     [FILE_RECORD_REF_TYPE] @ u16_to_be_bytes (file_number p) @ u16_to_be_bytes (record_number p) @
     u16_to_be_bytes (record_length p) @
     (case record_data p of None \<Rightarrow> [] | Some d \<Rightarrow> words_bytes d)"

lemma length_words_bytes [simp]: "length (words_bytes ws) = 2 * length ws"
  by (induction ws) (simp_all add: words_bytes_def)

lemma length_param_bytes:
  "length (param_bytes p) = 7 + (case record_data p of None \<Rightarrow> 0 | Some d \<Rightarrow> length d * 2)"
  by (simp add: param_bytes_def split: option.splits)

lemma byte_count_eq: "byte_count s = length (concat (map param_bytes (params s)))"
  by (simp add: byte_count_def length_concat length_param_bytes comp_def)

lemma put_words_ok:
  "heapless_ok hv \<Longrightarrow> length bs + 2 * length ws \<le> 252 \<Longrightarrow>
   put_words hv bs ws = Ok (bs @ words_bytes ws)"
  by (induction ws arbitrary: bs) (simp_all add: words_bytes_def)

lemma put_params_ok:
  "heapless_ok hv \<Longrightarrow> length bs + length (concat (map param_bytes ps)) \<le> 252 \<Longrightarrow>
   put_params hv bs ps = Ok (bs @ concat (map param_bytes ps))"
proof (induction ps arbitrary: bs)
  case (Cons p ps)
  then show ?case
    by (cases "record_data p") (simp_all add: param_bytes_def put_words_ok)
qed simp

lemma to_sub_req_pdu_bytes_ok:
  "heapless_ok hv \<Longrightarrow> byte_count s \<le> 251 \<Longrightarrow>
   to_sub_req_pdu_bytes hv s = Ok (of_nat (byte_count s) # concat (map param_bytes (params s)))"
  by (simp add: to_sub_req_pdu_bytes_def put_params_ok byte_count_eq)

end
