(* ===== verification/Pdu.thy ===== *)
theory Pdu
  imports File_Record
begin

text \<open>
  Protocol data units (\<open>impl Pdu\<close> of mbus-core/src/data_unit/common.rs): construction helpers,
  parsing helpers, and the byte form of a PDU. The builders take the vector operations as their
  first argument. The parsing helpers index into \<open>data\<close> under guards on \<open>data_len\<close>; an index the
  guards do not justify is a \<open>Panic\<close> of the model.
\<close>

definition pdu_new :: "FunctionCode \<Rightarrow> bytes \<Rightarrow> u8 \<Rightarrow> Pdu" where
  "pdu_new fc bs len = \<lparr>function_code = fc, error_code = None, data = bs, data_len = len\<rparr>"

section \<open>Construction\<close>

definition build_read_window :: "u8 heapless \<Rightarrow> FunctionCode \<Rightarrow> u16 \<Rightarrow> u16 \<Rightarrow> Pdu result" where
  "build_read_window hv fc address quantity =
     bind_res (extend_or hv MAX_PDU_DATA_LEN BufferLenMissmatch [] (u16_to_be_bytes address)) (\<lambda>d.
     bind_res (extend_or hv MAX_PDU_DATA_LEN BufferLenMissmatch d (u16_to_be_bytes quantity)) (\<lambda>d.
     Ok (pdu_new fc d 4)))"

definition build_write_single_u16 :: "u8 heapless \<Rightarrow> FunctionCode \<Rightarrow> u16 \<Rightarrow> u16 \<Rightarrow> Pdu result" where
  "build_write_single_u16 hv fc address v =
     bind_res (extend_or hv MAX_PDU_DATA_LEN BufferLenMissmatch [] (u16_to_be_bytes address)) (\<lambda>d.
     bind_res (extend_or hv MAX_PDU_DATA_LEN BufferLenMissmatch d (u16_to_be_bytes v)) (\<lambda>d.
     Ok (pdu_new fc d 4)))"

definition build_write_multiple ::
    "u8 heapless \<Rightarrow> FunctionCode \<Rightarrow> u16 \<Rightarrow> u16 \<Rightarrow> bytes \<Rightarrow> Pdu result" where
  "build_write_multiple hv fc address quantity values =
     (let bc = length values in
      if bc > 255 then Err InvalidByteCount
      else let dl = 5 + bc in
      if dl > MAX_PDU_DATA_LEN then Err BufferTooSmall
      else
        bind_res (extend_or hv MAX_PDU_DATA_LEN BufferLenMissmatch [] (u16_to_be_bytes address)) (\<lambda>d.
        bind_res (extend_or hv MAX_PDU_DATA_LEN BufferLenMissmatch d (u16_to_be_bytes quantity)) (\<lambda>d.
        bind_res (push_or hv MAX_PDU_DATA_LEN BufferLenMissmatch d (of_nat bc)) (\<lambda>d.
        bind_res (extend_or hv MAX_PDU_DATA_LEN BufferLenMissmatch d values) (\<lambda>d.
        Ok (pdu_new fc d (of_nat dl)))))))"

definition build_mask_write_register :: "u8 heapless \<Rightarrow> u16 \<Rightarrow> u16 \<Rightarrow> u16 \<Rightarrow> Pdu result" where
  "build_mask_write_register hv address and_mask or_mask =
     bind_res (extend_or hv MAX_PDU_DATA_LEN BufferLenMissmatch [] (u16_to_be_bytes address)) (\<lambda>d.
     bind_res (extend_or hv MAX_PDU_DATA_LEN BufferLenMissmatch d (u16_to_be_bytes and_mask)) (\<lambda>d.
     bind_res (extend_or hv MAX_PDU_DATA_LEN BufferLenMissmatch d (u16_to_be_bytes or_mask)) (\<lambda>d.
     Ok (pdu_new MaskWriteRegister d 6))))"

definition build_read_write_multiple ::
    "u8 heapless \<Rightarrow> u16 \<Rightarrow> u16 \<Rightarrow> u16 \<Rightarrow> u16 \<Rightarrow> bytes \<Rightarrow> Pdu result" where
  "build_read_write_multiple hv read_address read_quantity write_address write_quantity write_values =
     (let bc = length write_values in
      if bc > 255 then Err InvalidByteCount
      else let dl = 9 + bc in
      if dl > MAX_PDU_DATA_LEN then Err BufferTooSmall
      else
        bind_res (extend_or hv MAX_PDU_DATA_LEN BufferLenMissmatch [] (u16_to_be_bytes read_address)) (\<lambda>d.
        bind_res (extend_or hv MAX_PDU_DATA_LEN BufferLenMissmatch d (u16_to_be_bytes read_quantity)) (\<lambda>d.
        bind_res (extend_or hv MAX_PDU_DATA_LEN BufferLenMissmatch d (u16_to_be_bytes write_address)) (\<lambda>d.
        bind_res (extend_or hv MAX_PDU_DATA_LEN BufferLenMissmatch d (u16_to_be_bytes write_quantity)) (\<lambda>d.
        bind_res (push_or hv MAX_PDU_DATA_LEN BufferLenMissmatch d (of_nat bc)) (\<lambda>d.
        bind_res (extend_or hv MAX_PDU_DATA_LEN BufferLenMissmatch d write_values) (\<lambda>d.
        Ok (pdu_new ReadWriteMultipleRegisters d (of_nat dl)))))))))"

definition build_sub_function :: "u8 heapless \<Rightarrow> FunctionCode \<Rightarrow> u16 \<Rightarrow> u16 list \<Rightarrow> Pdu result" where
  "build_sub_function hv fc sub_function words =
     (let dl = 2 + length words * 2 in
      if dl > MAX_PDU_DATA_LEN then Err BufferTooSmall
      else
        bind_res (extend_or hv MAX_PDU_DATA_LEN BufferLenMissmatch [] (u16_to_be_bytes sub_function)) (\<lambda>d.
        bind_res (put_words hv d words) (\<lambda>d.
        Ok (pdu_new fc d (of_nat dl)))))"

definition build_mei_type :: "u8 heapless \<Rightarrow> FunctionCode \<Rightarrow> u8 \<Rightarrow> bytes \<Rightarrow> Pdu result" where
  "build_mei_type hv fc mei_type payload =
     (let dl = 1 + length payload in
      if dl > MAX_PDU_DATA_LEN then Err BufferTooSmall
      else
        bind_res (push_or hv MAX_PDU_DATA_LEN BufferLenMissmatch [] mei_type) (\<lambda>d.
        bind_res (extend_or hv MAX_PDU_DATA_LEN BufferLenMissmatch d payload) (\<lambda>d.
        Ok (pdu_new fc d (of_nat dl)))))"

definition build_u16_payload :: "u8 heapless \<Rightarrow> FunctionCode \<Rightarrow> u16 \<Rightarrow> Pdu result" where
  "build_u16_payload hv fc v =
     bind_res (extend_or hv MAX_PDU_DATA_LEN BufferLenMissmatch [] (u16_to_be_bytes v)) (\<lambda>d.
     Ok (pdu_new fc d 2))"

definition build_byte_payload :: "u8 heapless \<Rightarrow> FunctionCode \<Rightarrow> u8 \<Rightarrow> Pdu result" where
  "build_byte_payload hv fc byte =
     bind_res (push_or hv MAX_PDU_DATA_LEN BufferLenMissmatch [] byte) (\<lambda>d.
     Ok (pdu_new fc d 1))"

definition build_empty :: "FunctionCode \<Rightarrow> Pdu" where
  "build_empty fc = pdu_new fc [] 0"

definition build_byte_count_payload :: "u8 heapless \<Rightarrow> FunctionCode \<Rightarrow> bytes \<Rightarrow> Pdu result" where
  "build_byte_count_payload hv fc payload =
     bind_res (if length payload \<le> 255 then Ok (of_nat (length payload)) else Err InvalidByteCount) (\<lambda>bc.
     let dl = 1 + length payload in
     if dl > MAX_PDU_DATA_LEN then Err BufferTooSmall
     else
       bind_res (push_or hv MAX_PDU_DATA_LEN BufferLenMissmatch [] bc) (\<lambda>d.
       bind_res (extend_or hv MAX_PDU_DATA_LEN BufferLenMissmatch d payload) (\<lambda>d.
       Ok (pdu_new fc d (of_nat dl)))))"

definition build_diagnostics :: "u8 heapless \<Rightarrow> u16 \<Rightarrow> u16 \<Rightarrow> Pdu result" where
  "build_diagnostics hv sub_function r =
     bind_res (extend_or hv MAX_PDU_DATA_LEN BufferLenMissmatch [] (u16_to_be_bytes sub_function)) (\<lambda>d.
     bind_res (extend_or hv MAX_PDU_DATA_LEN BufferLenMissmatch d (u16_to_be_bytes r)) (\<lambda>d.
     Ok (pdu_new Diagnostics d 4)))"

definition build_fifo_payload :: "u8 heapless \<Rightarrow> bytes \<Rightarrow> Pdu result" where
  "build_fifo_payload hv app_payload =
     bind_res (if length app_payload \<le> 65535 then Ok (of_nat (length app_payload)) else Err InvalidByteCount) (\<lambda>bc.
     let dl = 2 + length app_payload in
     if dl > MAX_PDU_DATA_LEN then Err BufferTooSmall
     else
       bind_res (extend_or hv MAX_PDU_DATA_LEN BufferLenMissmatch [] (u16_to_be_bytes bc)) (\<lambda>d.
       bind_res (extend_or hv MAX_PDU_DATA_LEN BufferLenMissmatch d app_payload) (\<lambda>d.
       Ok (pdu_new ReadFifoQueue d (of_nat dl)))))"

section \<open>Parsing\<close>

definition read_address_quantity_pair :: "Pdu \<Rightarrow> (u16 \<times> u16) result" where
  "read_address_quantity_pair p =
     bind_res (be16_at (data p) PDU_ADDRESS_OFFSET_1B) (\<lambda>a.
     bind_res (be16_at (data p) PDU_QUANTITY_OFFSET_1B) (\<lambda>q.
     Ok (a, q)))"

definition read_window :: "Pdu \<Rightarrow> ReadWindow result" where
  "read_window p =
     (if data_len p \<noteq> 4 then Err InvalidPduLength
      else bind_res (read_address_quantity_pair p) (\<lambda>(a, q).
           Ok \<lparr>rw_address = a, rw_quantity = q\<rparr>))"

definition write_single_u16_fields :: "Pdu \<Rightarrow> WriteSingleU16Fields result" where
  "write_single_u16_fields p =
     (if data_len p \<noteq> 4 then Err InvalidPduLength
      else bind_res (be16_at (data p) PDU_ADDRESS_OFFSET_1B) (\<lambda>a.
           bind_res (be16_at (data p) PDU_QUANTITY_OFFSET_1B) (\<lambda>v.
           Ok \<lparr>ws_address = a, ws_value = v\<rparr>)))"

text \<open>
  \<open>5usize.checked_add(byte_count as usize)\<close> cannot overflow: a \<open>u8\<close> is added to a small constant.
\<close>

definition write_multiple_fields :: "Pdu \<Rightarrow> WriteMultipleFields result" where
  "write_multiple_fields p =
     (if data_len p < 5 then Err InvalidPduLength
      else bind_res (read_address_quantity_pair p) (\<lambda>(a, q).
           bind_res (idx (data p) PDU_BYTE_COUNT_OFFSET) (\<lambda>bc.
           let expected_len = 5 + unat bc in
           if unat (data_len p) \<noteq> expected_len then Err InvalidByteCount
           else bind_res (slice (data p) 5 expected_len) (\<lambda>vs.
                Ok \<lparr>wm_address = a, wm_quantity = q, wm_byte_count = bc, wm_values = vs\<rparr>))))"

definition mask_write_register_fields :: "Pdu \<Rightarrow> MaskWriteRegisterFields result" where
  "mask_write_register_fields p =
     (if data_len p \<noteq> 6 then Err InvalidPduLength
      else bind_res (be16_at (data p) PDU_ADDRESS_OFFSET_1B) (\<lambda>a.
           bind_res (be16_at (data p) PDU_AND_MASK_OFFSET_1B) (\<lambda>am.
           bind_res (be16_at (data p) PDU_OR_MASK_OFFSET_1B) (\<lambda>om.
           Ok \<lparr>mw_address = a, mw_and_mask = am, mw_or_mask = om\<rparr>))))"

definition byte_count_payload :: "Pdu \<Rightarrow> ByteCountPayload result" where
  "byte_count_payload p =
     (if data_len p < 1 then Err InvalidPduLength
      else bind_res (idx (data p) 0) (\<lambda>bc.
           let expected_len = 1 + unat bc in
           if unat (data_len p) \<noteq> expected_len then Err InvalidByteCount
           else bind_res (slice (data p) 1 expected_len) (\<lambda>pl.
                Ok \<lparr>bc_byte_count = bc, bc_payload = pl\<rparr>)))"

definition read_write_multiple_fields :: "Pdu \<Rightarrow> ReadWriteMultipleFields result" where
  "read_write_multiple_fields p =
     (if unat (data_len p) < PDU_FC17_WRITE_VALUES_OFFSET then Err InvalidPduLength
      else bind_res (read_address_quantity_pair p) (\<lambda>(ra, rq).
           bind_res (be16_at (data p) PDU_FC17_WRITE_ADDRESS_OFFSET_1B) (\<lambda>wa.
           bind_res (be16_at (data p) PDU_FC17_WRITE_QUANTITY_OFFSET_1B) (\<lambda>wq.
           bind_res (idx (data p) PDU_FC17_WRITE_BYTE_COUNT_OFFSET) (\<lambda>bc.
           let expected_len = PDU_FC17_WRITE_VALUES_OFFSET + unat bc in
           if unat (data_len p) \<noteq> expected_len then Err InvalidByteCount
           else bind_res (slice (data p) PDU_FC17_WRITE_VALUES_OFFSET expected_len) (\<lambda>vs.
                Ok \<lparr>rwm_read_address = ra, rwm_read_quantity = rq, rwm_write_address = wa,
                    rwm_write_quantity = wq, rwm_write_byte_count = bc,
                    rwm_write_values = vs\<rparr>))))))"

definition single_byte_payload :: "Pdu \<Rightarrow> u8 result" where
  "single_byte_payload p = (if data_len p \<noteq> 1 then Err InvalidPduLength else idx (data p) 0)"

definition sub_function_payload :: "Pdu \<Rightarrow> SubFunctionPayload result" where
  "sub_function_payload p =
     (if data_len p < 2 then Err InvalidPduLength
      else if unat (data_len p) mod 2 \<noteq> 0 then Err InvalidPduLength
      else bind_res (be16_at (data p) PDU_SUB_FUNCTION_OFFSET_1B) (\<lambda>sf.
           bind_res (slice (data p) 2 (unat (data_len p))) (\<lambda>pl.
           Ok \<lparr>sf_sub_function = sf, sf_payload = pl\<rparr>)))"

definition u16_pair_fields :: "Pdu \<Rightarrow> U16PairFields result" where
  "u16_pair_fields p =
     (if data_len p \<noteq> 4 then Err InvalidPduLength
      else bind_res (be16_at (data p) PDU_ADDRESS_OFFSET_1B) (\<lambda>a.
           bind_res (be16_at (data p) PDU_QUANTITY_OFFSET_1B) (\<lambda>b.
           Ok \<lparr>up_first = a, up_second = b\<rparr>)))"

definition mei_type_payload :: "Pdu \<Rightarrow> MeiTypePayload result" where
  "mei_type_payload p =
     (if data_len p < 1 then Err InvalidPduLength
      else bind_res (idx (data p) PDU_MEI_TYPE_OFFSET) (\<lambda>t.
           bind_res (slice (data p) 1 (unat (data_len p))) (\<lambda>pl.
           Ok \<lparr>mei_type_byte = t, mei_payload = pl\<rparr>)))"

definition fifo_payload :: "Pdu \<Rightarrow> FifoPayload result" where
  "fifo_payload p =
     (if data_len p < 4 then Err InvalidPduLength
      else bind_res (be16_at (data p) PDU_FIFO_BYTE_COUNT_OFFSET_1B) (\<lambda>bc.
           bind_res (be16_at (data p) PDU_FIFO_COUNT_OFFSET_1B) (\<lambda>c.
           bind_res (slice (data p) PDU_FIFO_VALUES_OFFSET (unat (data_len p))) (\<lambda>vs.
           Ok \<lparr>fifo_byte_count = bc, fifo_count = c, fifo_values = vs\<rparr>))))"

definition fifo_pointer :: "Pdu \<Rightarrow> u16 result" where
  "fifo_pointer p =
     (if data_len p \<noteq> 2 then Err InvalidPduLength else be16_at (data p) PDU_ADDRESS_OFFSET_1B)"

definition diagnostics_fields :: "Pdu \<Rightarrow> (u16 \<times> u16) result" where
  "diagnostics_fields p =
     (if data_len p < 4 then Err InvalidPduLength
      else bind_res (be16_at (data p) PDU_SUB_FUNCTION_OFFSET_1B) (\<lambda>sf.
           bind_res (be16_at (data p) 2) (\<lambda>w.
           Ok (sf, w))))"

section \<open>File-record requests\<close>

text \<open>The \<open>while index < data_len\<close> loop of \<open>file_record_read_sub_requests\<close>.\<close>

function read_sub_requests_loop ::
    "FileRecordReadSubRequest heapless \<Rightarrow> bytes \<Rightarrow> usize \<Rightarrow> usize \<Rightarrow> FileRecordReadSubRequest list \<Rightarrow>
     FileRecordReadSubRequest list result" where
  "read_sub_requests_loop hv d dl index out =
     (if index < dl then
        bind_res (idx d index) (\<lambda>ref_type.
        if ref_type \<noteq> FILE_RECORD_REF_TYPE then Err InvalidValue
        else bind_res (be16_at d (index + 1)) (\<lambda>fnum.
             bind_res (be16_at d (index + 3)) (\<lambda>rnum.
             bind_res (be16_at d (index + 5)) (\<lambda>rlen.
             if rlen = 0 then Err InvalidQuantity
             else bind_res
               (push_or hv MAX_SUB_REQUESTS_PER_PDU TooManyFileReadSubRequests out
                 \<lparr>frr_file_number = fnum, frr_record_number = rnum, frr_record_length = rlen\<rparr>) (\<lambda>out.
               read_sub_requests_loop hv d dl (index + 7) out)))))
      else Ok out)"
  by pat_completeness auto
termination
  by (relation "measure (\<lambda>(hv, d, dl, index, out). dl - index)") auto

definition file_record_read_sub_requests ::
    "FileRecordReadSubRequest heapless \<Rightarrow> Pdu \<Rightarrow> FileRecordReadSubRequest list result" where
  "file_record_read_sub_requests hv p =
     (let dl = unat (data_len p) in
      if dl < 1 + 7 then Err InvalidPduLength
      else bind_res (idx (data p) 0) (\<lambda>b.
        let bc = unat b in
        if bc \<noteq> dl - 1 then Err InvalidByteCount
        else if bc > 245 then Err InvalidByteCount
        else if bc mod 7 \<noteq> 0 then Err InvalidByteCount
        else read_sub_requests_loop hv (data p) dl 1 []))"

text \<open>
  The loop of \<open>file_record_write_sub_requests\<close>. The \<open>checked_add\<close> of the code cannot overflow: the
  index is at most 252 and the record at most 131077 bytes.
\<close>

function write_sub_requests_loop ::
    "FileRecordWriteSubRequest heapless \<Rightarrow> bytes \<Rightarrow> usize \<Rightarrow> usize \<Rightarrow> FileRecordWriteSubRequest list \<Rightarrow>
     FileRecordWriteSubRequest list result" where
  "write_sub_requests_loop hv d dl index out =
     (if index < dl then
        if index + 7 > dl then Err InvalidPduLength
        else bind_res (idx d index) (\<lambda>ref_type.
        if ref_type \<noteq> FILE_RECORD_REF_TYPE then Err InvalidValue
        else bind_res (be16_at d (index + 1)) (\<lambda>fnum.
             bind_res (be16_at d (index + 3)) (\<lambda>rnum.
             bind_res (be16_at d (index + 5)) (\<lambda>rlen.
             if rlen = 0 then Err InvalidQuantity
             else let end_index = index + (7 + unat rlen * 2) in
                  if end_index > dl then Err InvalidByteCount
                  else bind_res (slice d (index + 7) end_index) (\<lambda>bs.
                       bind_res
                         (push_or hv MAX_SUB_REQUESTS_PER_PDU TooManyFileReadSubRequests out
                           \<lparr>frw_file_number = fnum, frw_record_number = rnum,
                            frw_record_length = rlen, frw_record_data_bytes = bs\<rparr>) (\<lambda>out.
                       write_sub_requests_loop hv d dl end_index out))))))
      else Ok out)"
  by pat_completeness auto
termination
  by (relation "measure (\<lambda>(hv, d, dl, index, out). dl - index)") auto

definition file_record_write_sub_requests ::
    "FileRecordWriteSubRequest heapless \<Rightarrow> Pdu \<Rightarrow> FileRecordWriteSubRequest list result" where
  "file_record_write_sub_requests hv p =
     (let dl = unat (data_len p) in
      if dl < 1 + 7 + 2 then Err InvalidPduLength
      else bind_res (idx (data p) 0) (\<lambda>b.
        let bc = unat b in
        if bc \<noteq> dl - 1 then Err InvalidByteCount
        else if bc > 245 then Err InvalidByteCount
        else bind_res (write_sub_requests_loop hv (data p) dl 1 []) (\<lambda>out.
             if out = [] then Err InvalidPduLength else Ok out)))"

section \<open>Device identification\<close>

text \<open>The loop over the declared objects of \<open>read_device_id_fields\<close>.\<close>

fun walk_objects :: "bytes \<Rightarrow> nat \<Rightarrow> usize \<Rightarrow> unit result" where
  "walk_objects d 0 offset = Ok ()"
| "walk_objects d (Suc n) offset =
     (if offset + 2 > length d then Err InvalidPduLength
      else bind_res (idx d (offset + 1)) (\<lambda>l.
        let obj_len = unat l; offset = offset + 2 in
        if offset + obj_len > length d then Err InvalidPduLength
        else walk_objects d n (offset + obj_len)))"

definition read_device_id_fields :: "Pdu \<Rightarrow> ReadDeviceIdPduFields result" where
  "read_device_id_fields p =
     (if unat (data_len p) < PDU_MEI_OBJECTS_DATA_OFFSET then Err InvalidPduLength
      else bind_res (idx (data p) PDU_MEI_NUM_OBJECTS_OFFSET) (\<lambda>number_of_objects.
        bind_res (walk_objects (data p) (unat number_of_objects) PDU_MEI_OBJECTS_DATA_OFFSET) (\<lambda>_.
        let payload_len = unat (data_len p) - PDU_MEI_OBJECTS_DATA_OFFSET in
        if payload_len > MAX_PDU_DATA_LEN then Err BufferTooSmall
        else bind_res
          (if payload_len > 0
           then bind_res (slice_from (data p) PDU_MEI_OBJECTS_DATA_OFFSET) (\<lambda>src.
                copy_prefix (replicate MAX_PDU_DATA_LEN 0) payload_len src)
           else Ok (replicate MAX_PDU_DATA_LEN 0)) (\<lambda>objects_data.
          bind_res (idx (data p) PDU_MEI_TYPE_OFFSET) (\<lambda>mei.
          bind_res (idx (data p) PDU_MEI_READ_CODE_OFFSET) (\<lambda>code.
          bind_res (idx (data p) PDU_MEI_CONFORMITY_LEVEL_OFFSET) (\<lambda>conf.
          bind_res (idx (data p) PDU_MEI_MORE_FOLLOWS_OFFSET) (\<lambda>more.
          bind_res (idx (data p) PDU_MEI_NEXT_OBJECT_ID_OFFSET) (\<lambda>next_id.
          Ok \<lparr>rdi_mei_type_byte = mei, rdi_read_device_id_code_byte = code,
              rdi_conformity_level_byte = conf, rdi_more_follows = (more = 0xFF),
              rdi_next_object_id_byte = next_id, rdi_number_of_objects = number_of_objects,
              rdi_objects_data = objects_data, rdi_payload_len = payload_len\<rparr>)))))))))"

section \<open>Bytes of a PDU\<close>

definition pdu_to_bytes :: "u8 heapless \<Rightarrow> Pdu \<Rightarrow> bytes result" where
  "pdu_to_bytes hv p =
     bind_res (push_or hv 253 Unexpected [] (function_code_u8 (function_code p))) (\<lambda>bs.
     bind_res (slice_to (data p) (unat (data_len p))) (\<lambda>d.
     extend_or hv 253 BufferLenMissmatch bs d))"

definition pdu_from_bytes :: "u8 heapless \<Rightarrow> bytes \<Rightarrow> Pdu result" where
  "pdu_from_bytes hv bs =
     (if bs = [] then Err InvalidPduLength
      else bind_res (idx bs 0) (\<lambda>b0.
        bind_res
          (if is_exception_code b0 then
             if length bs < 2 then Err InvalidPduLength
             else bind_res (idx bs 1) (\<lambda>e. Ok (Some e))
           else Ok None) (\<lambda>ec.
        bind_res (function_code_try_from (clear_exception_bit b0)) (\<lambda>fc.
        bind_res (slice_from bs 1) (\<lambda>data_slice.
        if length data_slice > MAX_PDU_DATA_LEN then Err InvalidPduLength
        else bind_res (extend_or hv MAX_PDU_DATA_LEN BufferLenMissmatch [] data_slice) (\<lambda>d.
             Ok \<lparr>function_code = fc, error_code = ec, data = d,
                 data_len = of_nat (length data_slice)\<rparr>))))))"

section \<open>Well-formed PDUs\<close>

text \<open>The invariant of every PDU the stack builds or decodes: \<open>data_len\<close> is the length of \<open>data\<close>.\<close>

definition pdu_wf :: "Pdu \<Rightarrow> bool" where
  "pdu_wf p \<longleftrightarrow> length (data p) = unat (data_len p) \<and> length (data p) \<le> MAX_PDU_DATA_LEN"

lemma pdu_new_simps [simp]:
  "function_code (pdu_new fc d l) = fc" "error_code (pdu_new fc d l) = None"
  "data (pdu_new fc d l) = d" "data_len (pdu_new fc d l) = l"
  by (simp_all add: pdu_new_def)

lemma pdu_wf_new: "length d \<le> 252 \<Longrightarrow> l = of_nat (length d) \<Longrightarrow> pdu_wf (pdu_new fc d l)"
  by (simp add: pdu_wf_def unat_of_nat_u8)

named_theorems build_defs \<open>definitions of the PDU builders\<close>
named_theorems parse_defs \<open>definitions of the PDU parsers\<close>

lemmas [build_defs] =
  build_read_window_def build_write_single_u16_def build_write_multiple_def
  build_mask_write_register_def build_read_write_multiple_def build_sub_function_def
  build_mei_type_def build_u16_payload_def build_byte_payload_def build_empty_def
  build_byte_count_payload_def build_diagnostics_def build_fifo_payload_def

lemmas [parse_defs] =
  read_address_quantity_pair_def read_window_def write_single_u16_fields_def
  write_multiple_fields_def mask_write_register_fields_def byte_count_payload_def
  read_write_multiple_fields_def single_byte_payload_def sub_function_payload_def
  u16_pair_fields_def mei_type_payload_def fifo_payload_def fifo_pointer_def
  diagnostics_fields_def

text \<open>The builders with a variable-length payload: the PDU, or the error, they return.\<close>

lemma build_write_multiple_eq:
  "heapless_ok hv \<Longrightarrow> build_write_multiple hv fc a q vs =
   (if length vs > 255 then Err InvalidByteCount
    else if length vs > 247 then Err BufferTooSmall
    else Ok (pdu_new fc (u16_to_be_bytes a @ u16_to_be_bytes q @ of_nat (length vs) # vs)
      (of_nat (5 + length vs))))"
  by (simp add: build_write_multiple_def Let_def)

lemma build_read_write_multiple_eq:
  "heapless_ok hv \<Longrightarrow> build_read_write_multiple hv ra rq wa wq vs =
   (if length vs > 255 then Err InvalidByteCount
    else if length vs > 243 then Err BufferTooSmall
    else Ok (pdu_new ReadWriteMultipleRegisters
      (u16_to_be_bytes ra @ u16_to_be_bytes rq @ u16_to_be_bytes wa @ u16_to_be_bytes wq @
       of_nat (length vs) # vs) (of_nat (9 + length vs))))"
  by (simp add: build_read_write_multiple_def Let_def)

lemma build_sub_function_eq:
  "heapless_ok hv \<Longrightarrow> build_sub_function hv fc sf ws =
   (if 2 + length ws * 2 > 252 then Err BufferTooSmall
    else Ok (pdu_new fc (u16_to_be_bytes sf @ words_bytes ws) (of_nat (2 + length ws * 2))))"
  by (simp add: build_sub_function_def Let_def put_words_ok)

lemma build_mei_type_eq:
  "heapless_ok hv \<Longrightarrow> build_mei_type hv fc t pl =
   (if 1 + length pl > 252 then Err BufferTooSmall
    else Ok (pdu_new fc (t # pl) (of_nat (1 + length pl))))"
  by (simp add: build_mei_type_def Let_def)

lemma build_byte_count_payload_eq:
  "heapless_ok hv \<Longrightarrow> build_byte_count_payload hv fc pl =
   (if length pl > 255 then Err InvalidByteCount
    else if length pl > 251 then Err BufferTooSmall
    else Ok (pdu_new fc (of_nat (length pl) # pl) (of_nat (1 + length pl))))"
  by (simp add: build_byte_count_payload_def Let_def)

lemma build_fifo_payload_eq:
  "heapless_ok hv \<Longrightarrow> build_fifo_payload hv pl =
   (if length pl > 65535 then Err InvalidByteCount
    else if length pl > 250 then Err BufferTooSmall
    else Ok (pdu_new ReadFifoQueue (u16_to_be_bytes (of_nat (length pl)) @ pl)
      (of_nat (2 + length pl))))"
  by (simp add: build_fifo_payload_def Let_def)

lemmas build_eqs =
  build_write_multiple_eq build_read_write_multiple_eq build_sub_function_eq build_mei_type_eq
  build_byte_count_payload_eq build_fifo_payload_eq

declare read_sub_requests_loop.simps [simp del] write_sub_requests_loop.simps [simp del]

section \<open>Built PDUs are well formed\<close>

lemma build_wf:
  assumes "heapless_ok hv"
  shows "build_read_window hv fc a q = Ok p \<Longrightarrow> pdu_wf p"
    and "build_write_single_u16 hv fc a v = Ok p \<Longrightarrow> pdu_wf p"
    and "build_write_multiple hv fc a q vs = Ok p \<Longrightarrow> pdu_wf p"
    and "build_mask_write_register hv a am om = Ok p \<Longrightarrow> pdu_wf p"
    and "build_read_write_multiple hv a q wa wq vs = Ok p \<Longrightarrow> pdu_wf p"
    and "build_sub_function hv fc sf ws = Ok p \<Longrightarrow> pdu_wf p"
    and "build_mei_type hv fc t vs = Ok p \<Longrightarrow> pdu_wf p"
    and "build_u16_payload hv fc v = Ok p \<Longrightarrow> pdu_wf p"
    and "build_byte_payload hv fc t = Ok p \<Longrightarrow> pdu_wf p"
    and "build_byte_count_payload hv fc vs = Ok p \<Longrightarrow> pdu_wf p"
    and "build_diagnostics hv sf v = Ok p \<Longrightarrow> pdu_wf p"
    and "build_fifo_payload hv vs = Ok p \<Longrightarrow> pdu_wf p"
    and "pdu_wf (build_empty fc)"
  using assms
  by (auto simp: build_eqs build_read_window_def build_write_single_u16_def
      build_mask_write_register_def build_u16_payload_def build_byte_payload_def
      build_diagnostics_def build_empty_def mult.commute
      intro!: pdu_wf_new split: if_splits)

section \<open>Parsing a well-formed PDU never panics\<close>

lemma slice_Panic_iff: "slice xs a b = Panic \<longleftrightarrow> \<not> (a \<le> b \<and> b \<le> length xs)"
  by (auto simp: slice_def)

lemma idx_Panic_iff: "idx xs i = Panic \<longleftrightarrow> length xs \<le> i"
  by (auto simp: idx_def)

lemma be16_at_Panic_iff: "be16_at xs i = Panic \<longleftrightarrow> length xs \<le> i + 1"
  by (auto simp: be16_at_def res_simps idx_Panic_iff idx_Ok_iff)

lemmas panic_iffs = slice_Panic_iff idx_Panic_iff be16_at_Panic_iff bind_res_Panic_iff

lemma fixed_parsers_no_panic:
  assumes "pdu_wf p"
  shows "read_window p \<noteq> Panic" "write_single_u16_fields p \<noteq> Panic"
    "mask_write_register_fields p \<noteq> Panic" "single_byte_payload p \<noteq> Panic"
    "u16_pair_fields p \<noteq> Panic" "fifo_pointer p \<noteq> Panic"
  using assms by (auto simp: parse_defs panic_iffs pdu_wf_def)

lemma variable_parsers_no_panic:
  assumes "pdu_wf p"
  shows "write_multiple_fields p \<noteq> Panic" "byte_count_payload p \<noteq> Panic"
    "read_write_multiple_fields p \<noteq> Panic" "sub_function_payload p \<noteq> Panic"
    "mei_type_payload p \<noteq> Panic" "fifo_payload p \<noteq> Panic" "diagnostics_fields p \<noteq> Panic"
  using assms
  by (auto simp: parse_defs panic_iffs pdu_wf_def Let_def word_less_nat_alt split: if_splits)


lemma read_sub_requests_loop_no_panic:
  assumes "heapless_ok hv" "length d = dl" "index \<le> dl" "(dl - index) mod 7 = 0"
  shows "read_sub_requests_loop hv d dl index out \<noteq> Panic"
  using assms
proof (induction hv d dl index out rule: read_sub_requests_loop.induct)
  case (1 hv d dl index out)
  show ?case
  proof (cases "index < dl")
    case True
    then have "7 \<le> dl - index"
      using 1(5) by (meson dvd_imp_le mod_0_imp_dvd zero_less_diff)
    moreover from this have "(dl - (index + 7)) mod 7 = 0"
      using 1(5) by (metis diff_diff_left le_mod_geq)
    ultimately show ?thesis
      using 1 True by (subst read_sub_requests_loop.simps) (auto simp: panic_iffs)
  qed (subst read_sub_requests_loop.simps, simp)
qed

lemma write_sub_requests_loop_no_panic:
  assumes "heapless_ok hv" "length d = dl"
  shows "write_sub_requests_loop hv d dl index out \<noteq> Panic"
  using assms
proof (induction hv d dl index out rule: write_sub_requests_loop.induct)
  case (1 hv d dl index out)
  then show ?case
    by (subst write_sub_requests_loop.simps) (auto simp: panic_iffs Let_def)
qed

lemma walk_objects_no_panic: "walk_objects d n offset \<noteq> Panic"
  by (induction d n offset rule: walk_objects.induct) (auto simp: panic_iffs Let_def)

lemma file_parsers_no_panic:
  assumes "pdu_wf p"
  shows "heapless_ok hr \<Longrightarrow> file_record_read_sub_requests hr p \<noteq> Panic"
    and "heapless_ok hw \<Longrightarrow> file_record_write_sub_requests hw p \<noteq> Panic"
  using assms
  by (auto simp: file_record_read_sub_requests_def file_record_write_sub_requests_def panic_iffs
      Let_def pdu_wf_def read_sub_requests_loop_no_panic write_sub_requests_loop_no_panic)

lemma read_device_id_fields_no_panic: "pdu_wf p \<Longrightarrow> read_device_id_fields p \<noteq> Panic"
  by (auto simp: read_device_id_fields_def panic_iffs Let_def pdu_wf_def walk_objects_no_panic
      copy_prefix_def split: if_splits)

section \<open>Bytes of a PDU\<close>

lemma pdu_to_bytes_ok:
  "heapless_ok hv \<Longrightarrow> pdu_wf p \<Longrightarrow>
   pdu_to_bytes hv p = Ok (function_code_u8 (function_code p) # data p)"
  by (simp add: pdu_to_bytes_def pdu_wf_def)

lemma pdu_from_bytes_eq:
  "heapless_ok hv \<Longrightarrow> pdu_from_bytes hv (b # bs) =
   (if is_exception_code b \<and> bs = [] then Err InvalidPduLength
    else bind_res (function_code_try_from (clear_exception_bit b)) (\<lambda>fc.
      if length bs > 252 then Err InvalidPduLength
      else Ok \<lparr>function_code = fc, error_code = (if is_exception_code b then Some (hd bs) else None),
               data = bs, data_len = of_nat (length bs)\<rparr>))"
  by (cases bs; cases "function_code_try_from (clear_exception_bit b)")
    (simp_all add: pdu_from_bytes_def)

lemma pdu_from_bytes_no_panic: "heapless_ok hv \<Longrightarrow> pdu_from_bytes hv bs \<noteq> Panic"
  by (cases bs) (auto simp: pdu_from_bytes_eq panic_iffs fc.parse_no_panic, simp add: pdu_from_bytes_def)

lemma pdu_from_bytes_wf:
  "heapless_ok hv \<Longrightarrow> pdu_from_bytes hv bs = Ok p \<Longrightarrow> pdu_wf p \<and> normal_code (function_code p)"
  by (cases bs)
    (auto simp: pdu_from_bytes_eq res_simps pdu_wf_def unat_of_nat_u8 pdu_from_bytes_def
      dest: clear_exception_bit_normal split: if_splits)

section \<open>Builders and parsers agree\<close>

text \<open>
  The contract between a builder and the parsing helper for the same layout. \<open>args\<close> are the
  arguments of the builder, \<open>enc\<close> is the layout on the wire, \<open>fits\<close> tells the arguments that fit
  into a PDU and \<open>view\<close> is what the parsing helper is to recover from it.
\<close>

lemma pdu_wire_normal:
  "heapless_ok hv \<Longrightarrow> pdu_wf p \<Longrightarrow> normal_code (function_code p) \<Longrightarrow> error_code p = None \<Longrightarrow>
   bind_res (pdu_to_bytes hv p) (pdu_from_bytes hv) = Ok p"
  by (simp add: pdu_to_bytes_ok pdu_from_bytes_eq normal_code_byte) (simp add: pdu_wf_def)

locale pdu_codec =
  fixes fc :: FunctionCode
    and build :: "u8 heapless \<Rightarrow> 'args \<Rightarrow> Pdu result"
    and enc :: "'args \<Rightarrow> bytes"
    and fits :: "'args \<Rightarrow> bool"
    and parse :: "Pdu \<Rightarrow> 'view result"
    and view :: "'args \<Rightarrow> 'view"
  assumes build_fits:
      "heapless_ok hv \<Longrightarrow> fits x \<Longrightarrow> build hv x = Ok (pdu_new fc (enc x) (of_nat (length (enc x))))"
    and build_reject: "heapless_ok hv \<Longrightarrow> \<not> fits x \<Longrightarrow> \<exists>e. build hv x = Err e"
    and enc_bound: "fits x \<Longrightarrow> length (enc x) \<le> 252"
    and parse_enc:
      "fits x \<Longrightarrow> data p = enc x \<Longrightarrow> unat (data_len p) = length (enc x) \<Longrightarrow> parse p = Ok (view x)"
begin

lemma build_Ok_iff:
  "heapless_ok hv \<Longrightarrow> build hv x = Ok p \<longleftrightarrow>
   fits x \<and> p = pdu_new fc (enc x) (of_nat (length (enc x)))"
  using build_fits build_reject by (metis res.distinct(1) res.inject(1))

lemma build_no_panic: "heapless_ok hv \<Longrightarrow> build hv x \<noteq> Panic"
  using build_fits build_reject by (metis res.distinct(3) res.distinct(5))

lemma built_wf: "heapless_ok hv \<Longrightarrow> build hv x = Ok p \<Longrightarrow> pdu_wf p"
  by (auto simp: build_Ok_iff intro!: pdu_wf_new enc_bound)

lemma built_parse: "heapless_ok hv \<Longrightarrow> build hv x = Ok p \<Longrightarrow> parse p = Ok (view x)"
  using enc_bound [of x] by (auto simp: build_Ok_iff unat_of_nat_u8 intro!: parse_enc)

lemma wire_roundtrip:
  "heapless_ok hv \<Longrightarrow> normal_code fc \<Longrightarrow> build hv x = Ok p \<Longrightarrow>
   bind_res (pdu_to_bytes hv p) (\<lambda>bs. bind_res (pdu_from_bytes hv bs) parse) = Ok (view x)"
proof -
  assume hv: "heapless_ok hv" and fc: "normal_code fc" and p: "build hv x = Ok p"
  have "bind_res (pdu_to_bytes hv p) (pdu_from_bytes hv) = Ok p"
    using pdu_wire_normal [OF hv built_wf [OF hv p]] fc p by (auto simp: build_Ok_iff [OF hv])
  then show ?thesis
    using built_parse [OF hv p] by (cases "pdu_to_bytes hv p") auto
qed

end

lemmas codec_simps =
  be_simps u16_to_be_bytes_def unat_of_nat_u8 word_unat_eq_iff word_less_nat_alt nth_append
  Let_def parse_defs

interpretation rw_codec: pdu_codec fc "\<lambda>hv (a, q). build_read_window hv fc a q"
  "\<lambda>(a, q). u16_to_be_bytes a @ u16_to_be_bytes q" "\<lambda>_. True"
  read_window "\<lambda>(a, q). \<lparr>rw_address = a, rw_quantity = q\<rparr>" for fc
  by unfold_locales (auto simp: build_read_window_def codec_simps)

interpretation ws_codec: pdu_codec fc "\<lambda>hv (a, v). build_write_single_u16 hv fc a v"
  "\<lambda>(a, v). u16_to_be_bytes a @ u16_to_be_bytes v" "\<lambda>_. True"
  write_single_u16_fields "\<lambda>(a, v). \<lparr>ws_address = a, ws_value = v\<rparr>" for fc
  by unfold_locales (auto simp: build_write_single_u16_def codec_simps)

interpretation wm_codec: pdu_codec fc "\<lambda>hv (a, q, vs). build_write_multiple hv fc a q vs"
  "\<lambda>(a, q, vs). u16_to_be_bytes a @ u16_to_be_bytes q @ of_nat (length vs) # vs"
  "\<lambda>(a, q, vs). length vs \<le> 247" write_multiple_fields
  "\<lambda>(a, q, vs). \<lparr>wm_address = a, wm_quantity = q, wm_byte_count = of_nat (length vs), wm_values = vs\<rparr>"
  for fc
  by unfold_locales (auto simp: build_eqs codec_simps)

interpretation mw_codec: pdu_codec MaskWriteRegister
  "\<lambda>hv (a, am, om). build_mask_write_register hv a am om"
  "\<lambda>(a, am, om). u16_to_be_bytes a @ u16_to_be_bytes am @ u16_to_be_bytes om" "\<lambda>_. True"
  mask_write_register_fields "\<lambda>(a, am, om). \<lparr>mw_address = a, mw_and_mask = am, mw_or_mask = om\<rparr>"
  by unfold_locales (auto simp: build_mask_write_register_def codec_simps)

interpretation rwm_codec: pdu_codec ReadWriteMultipleRegisters
  "\<lambda>hv (ra, rq, wa, wq, vs). build_read_write_multiple hv ra rq wa wq vs"
  "\<lambda>(ra, rq, wa, wq, vs). u16_to_be_bytes ra @ u16_to_be_bytes rq @ u16_to_be_bytes wa @
     u16_to_be_bytes wq @ of_nat (length vs) # vs"
  "\<lambda>(ra, rq, wa, wq, vs). length vs \<le> 243" read_write_multiple_fields
  "\<lambda>(ra, rq, wa, wq, vs). \<lparr>rwm_read_address = ra, rwm_read_quantity = rq, rwm_write_address = wa,
     rwm_write_quantity = wq, rwm_write_byte_count = of_nat (length vs), rwm_write_values = vs\<rparr>"
  by unfold_locales (auto simp: build_eqs codec_simps)

interpretation sf_codec: pdu_codec fc "\<lambda>hv (sf, ws). build_sub_function hv fc sf ws"
  "\<lambda>(sf, ws). u16_to_be_bytes sf @ words_bytes ws" "\<lambda>(sf, ws). length ws \<le> 125"
  sub_function_payload "\<lambda>(sf, ws). \<lparr>sf_sub_function = sf, sf_payload = words_bytes ws\<rparr>" for fc
  by unfold_locales (auto simp: build_eqs codec_simps mult.commute)

interpretation mei_codec: pdu_codec fc "\<lambda>hv (t, pl). build_mei_type hv fc t pl"
  "\<lambda>(t, pl). t # pl" "\<lambda>(t, pl). length pl \<le> 251"
  mei_type_payload "\<lambda>(t, pl). \<lparr>mei_type_byte = t, mei_payload = pl\<rparr>" for fc
  by unfold_locales (auto simp: build_eqs codec_simps)

interpretation ptr_codec: pdu_codec fc "\<lambda>hv v. build_u16_payload hv fc v"
  u16_to_be_bytes "\<lambda>_. True" fifo_pointer "\<lambda>v. v" for fc
  by unfold_locales (auto simp: build_u16_payload_def codec_simps)

interpretation byte_codec: pdu_codec fc "\<lambda>hv b. build_byte_payload hv fc b"
  "\<lambda>b. [b]" "\<lambda>_. True" single_byte_payload "\<lambda>b. b" for fc
  by unfold_locales (auto simp: build_byte_payload_def codec_simps)

interpretation bc_codec: pdu_codec fc "\<lambda>hv pl. build_byte_count_payload hv fc pl"
  "\<lambda>pl. of_nat (length pl) # pl" "\<lambda>pl. length pl \<le> 251" byte_count_payload
  "\<lambda>pl. \<lparr>bc_byte_count = of_nat (length pl), bc_payload = pl\<rparr>" for fc
  by unfold_locales (auto simp: build_eqs codec_simps)

interpretation diag_codec: pdu_codec Diagnostics "\<lambda>hv (sf, r). build_diagnostics hv sf r"
  "\<lambda>(sf, r). u16_to_be_bytes sf @ u16_to_be_bytes r" "\<lambda>_. True" diagnostics_fields "\<lambda>x. x"
  by unfold_locales (auto simp: build_diagnostics_def codec_simps)

interpretation fifo_codec: pdu_codec ReadFifoQueue
  "\<lambda>hv (n, vs). build_fifo_payload hv (u16_to_be_bytes n @ vs)"
  "\<lambda>(n, vs). u16_to_be_bytes (of_nat (2 + length vs)) @ u16_to_be_bytes n @ vs"
  "\<lambda>(n, vs). length vs \<le> 248" fifo_payload
  "\<lambda>(n, vs). \<lparr>fifo_byte_count = of_nat (2 + length vs), fifo_count = n, fifo_values = vs\<rparr>"
  by unfold_locales (auto simp: build_eqs codec_simps)

end
