(* ===== verification/Adu.thy ===== *)
theory Adu
  imports Checksum Pdu
begin

text \<open>
  Application data units (mbus-core/src/data_unit/common.rs, and the exception responses of
  mbus-server/src/services/exception.rs): messages to and from TCP, RTU and ASCII frames, the
  dispatch on the transport type, and the routine that derives the length of the frame at the
  front of a receive buffer. \<open>hv\<close> stands for vectors of bytes, \<open>hc\<close> for the vector of candidate
  lengths.
\<close>

section \<open>Message accessors\<close>

definition unit_id_or_slave_addr :: "ModbusMessage \<Rightarrow> UnitIdOrSlaveAddr" where
  "unit_id_or_slave_addr m =
     (case additional_address m of
        AAMbapHeader header \<Rightarrow>
          if unit_id header = 0 then new_broadcast_address
          else (case unit_id_try_from (unit_id header) of Ok u \<Rightarrow> u | _ \<Rightarrow> unit_id_default)
      | AASlaveAddress a \<Rightarrow>
          if slave_address a = 0 then new_broadcast_address
          else (case unit_id_try_from (slave_address a) of Ok u \<Rightarrow> u | _ \<Rightarrow> unit_id_default))"

definition message_transaction_id :: "ModbusMessage \<Rightarrow> u16" where
  "message_transaction_id m =
     (case additional_address m of
        AAMbapHeader header \<Rightarrow> transaction_id header
      | AASlaveAddress _ \<Rightarrow> 0)"

definition message_function_code :: "ModbusMessage \<Rightarrow> FunctionCode" where
  "message_function_code m = function_code (pdu m)"

definition message_data :: "ModbusMessage \<Rightarrow> bytes" where
  "message_data m = data (pdu m)"

definition message_data_len :: "ModbusMessage \<Rightarrow> u8" where
  "message_data_len m = data_len (pdu m)"

section \<open>TCP frames\<close>

definition message_to_bytes :: "u8 heapless \<Rightarrow> ModbusMessage \<Rightarrow> bytes result" where
  "message_to_bytes hv m =
     bind_res
       (case additional_address m of
          AAMbapHeader header \<Rightarrow>
            bind_res (extend_or hv MAX_ADU_FRAME_LEN Unexpected [] (u16_to_be_bytes (transaction_id header))) (\<lambda>bs.
            bind_res (extend_or hv MAX_ADU_FRAME_LEN Unexpected bs (u16_to_be_bytes (protocol_id header))) (\<lambda>bs.
            bind_res (extend_or hv MAX_ADU_FRAME_LEN Unexpected bs (u16_to_be_bytes (mbap_length header))) (\<lambda>bs.
            push_or hv MAX_ADU_FRAME_LEN Unexpected bs (unit_id header))))
        | AASlaveAddress address \<Rightarrow>
            push_or hv MAX_ADU_FRAME_LEN Unexpected [] (slave_address address)) (\<lambda>adu_bytes.
     bind_res (pdu_to_bytes hv (pdu m)) (\<lambda>pdu_bytes.
     extend_or hv MAX_ADU_FRAME_LEN Unexpected adu_bytes pdu_bytes))"

definition message_from_bytes :: "u8 heapless \<Rightarrow> bytes \<Rightarrow> ModbusMessage result" where
  "message_from_bytes hv bs =
     (if length bs < MBAP_HEADER_SIZE + 1 then Err InvalidAduLength
      else
        bind_res (be16_at bs MBAP_TXN_ID_OFFSET_1B) (\<lambda>txn.
        bind_res (be16_at bs MBAP_PROTO_ID_OFFSET_1B) (\<lambda>proto.
        bind_res (be16_at bs MBAP_LENGTH_OFFSET_1B) (\<lambda>len.
        bind_res (idx bs MBAP_UNIT_ID_OFFSET) (\<lambda>uid.
        if proto \<noteq> MODBUS_PROTOCOL_ID then Err BasicParseError
        else
          let expected_total_len_from_header = unat len + (MBAP_HEADER_SIZE - 1) in
          if length bs < expected_total_len_from_header then Err InvalidPduLength
          else
            bind_res (slice_to bs expected_total_len_from_header) (\<lambda>frame_bytes.
            bind_res (slice_from frame_bytes MBAP_HEADER_SIZE) (\<lambda>pdu_bytes_slice.
            bind_res (pdu_from_bytes hv pdu_bytes_slice) (\<lambda>p.
            Ok (modbus_message_new
              (AAMbapHeader \<lparr>transaction_id = txn, protocol_id = proto, mbap_length = len,
                             unit_id = uid\<rparr>) p)))))))))"

section \<open>ASCII frames\<close>

definition nibble_to_hex :: "u8 \<Rightarrow> u8" where
  "nibble_to_hex nibble =
     (if nibble \<le> 9 then 0x30 + nibble
      else if 10 \<le> nibble \<and> nibble \<le> 15 then 0x41 + (nibble - 10)
      else 0x3F)"

definition hex_char_to_nibble :: "u8 \<Rightarrow> u8 result" where
  "hex_char_to_nibble c =
     (if 0x30 \<le> c \<and> c \<le> 0x39 then Ok (c - 0x30)
      else if 0x41 \<le> c \<and> c \<le> 0x46 then Ok (c - 0x41 + 10)
      else if 0x61 \<le> c \<and> c \<le> 0x66 then Ok (c - 0x61 + 10)
      else Err BasicParseError)"

definition hex_pair_to_byte :: "u8 \<Rightarrow> u8 \<Rightarrow> u8 result" where
  "hex_pair_to_byte high low =
     bind_res (hex_char_to_nibble high) (\<lambda>h.
     bind_res (hex_char_to_nibble low) (\<lambda>l.
     Ok (push_bit 4 h OR l)))"

text \<open>The encoding loop of \<open>to_ascii_bytes\<close> and the decoding loop of \<open>from_ascii_bytes\<close>.\<close>

fun put_hex :: "u8 heapless \<Rightarrow> bytes \<Rightarrow> bytes \<Rightarrow> bytes result" where
  "put_hex hv ascii_data [] = Ok ascii_data"
| "put_hex hv ascii_data (byte # bs) =
     (let high = drop_bit 4 byte AND 0x0F; low = byte AND 0x0F in
      bind_res (push_or hv MAX_ADU_FRAME_LEN BufferTooSmall ascii_data (nibble_to_hex high)) (\<lambda>ascii_data.
      bind_res (push_or hv MAX_ADU_FRAME_LEN BufferTooSmall ascii_data (nibble_to_hex low)) (\<lambda>ascii_data.
      put_hex hv ascii_data bs)))"

fun take_hex :: "u8 heapless \<Rightarrow> bytes \<Rightarrow> bytes \<Rightarrow> bytes result" where
  "take_hex hv binary_data [] = Ok binary_data"
| "take_hex hv binary_data [c] = Panic"
| "take_hex hv binary_data (h # l # cs) =
     bind_res (hex_pair_to_byte h l) (\<lambda>byte.
     bind_res (push_or hv 260 BufferTooSmall binary_data byte) (\<lambda>binary_data.
     take_hex hv binary_data cs))"

definition to_ascii_bytes :: "u8 heapless \<Rightarrow> ModbusMessage \<Rightarrow> bytes result" where
  "to_ascii_bytes hv m =
     bind_res (message_to_bytes hv m) (\<lambda>binary_data.
     bind_res (push_or hv MAX_ADU_FRAME_LEN BufferTooSmall binary_data (lrc binary_data)) (\<lambda>binary_data.
     bind_res (push_or hv MAX_ADU_FRAME_LEN BufferTooSmall [] 0x3A) (\<lambda>ascii_data.
     bind_res (put_hex hv ascii_data binary_data) (\<lambda>ascii_data.
     bind_res (push_or hv MAX_ADU_FRAME_LEN BufferTooSmall ascii_data 0x0D) (\<lambda>ascii_data.
     push_or hv MAX_ADU_FRAME_LEN BufferTooSmall ascii_data 0x0A)))))"

definition from_ascii_bytes :: "u8 heapless \<Rightarrow> bytes \<Rightarrow> ModbusMessage result" where
  "from_ascii_bytes hv frame =
     (if length frame < MIN_ASCII_ADU_LEN then Err InvalidAduLength
      else bind_res (idx frame 0) (\<lambda>start.
      if start \<noteq> 0x3A then Err BasicParseError
      else bind_res (idx frame (length frame - 2)) (\<lambda>cr.
      bind_res (idx frame (length frame - 1)) (\<lambda>lf.
      if cr \<noteq> 0x0D \<or> lf \<noteq> 0x0A then Err BasicParseError
      else bind_res (slice frame ASCII_START_SIZE (length frame - ASCII_END_SIZE)) (\<lambda>hex_content.
      if length hex_content mod 2 \<noteq> 0 then Err BasicParseError
      else bind_res (take_hex hv [] hex_content) (\<lambda>binary_data.
      if length binary_data < 2 then Err InvalidAduLength
      else
        let dl = length binary_data - 1 in
        bind_res (slice_to binary_data dl) (\<lambda>data_to_check.
        bind_res (idx binary_data dl) (\<lambda>received_lrc.
        if lrc data_to_check \<noteq> received_lrc then Err ChecksumError
        else bind_res (idx binary_data 0) (\<lambda>b0.
             bind_res (slave_address_new b0) (\<lambda>sa.
             bind_res (slice binary_data 1 dl) (\<lambda>pdu_bytes.
             bind_res (pdu_from_bytes hv pdu_bytes) (\<lambda>p.
             Ok (modbus_message_new (AASlaveAddress sa) p)))))))))))))"

section \<open>RTU frames\<close>

definition from_rtu_bytes :: "u8 heapless \<Rightarrow> bytes \<Rightarrow> ModbusMessage result" where
  "from_rtu_bytes hv frame =
     (if length frame < MIN_RTU_ADU_LEN then Err InvalidAduLength
      else
        let dl = length frame - RTU_CRC_SIZE in
        bind_res (slice_to frame dl) (\<lambda>data_to_check.
        bind_res (idx frame dl) (\<lambda>c0.
        bind_res (idx frame (dl + 1)) (\<lambda>c1.
        let received_crc = u16_from_le_bytes c0 c1;
            calculated_crc = crc16 data_to_check
        in if calculated_crc \<noteq> received_crc then Err ChecksumError
           else bind_res (idx frame 0) (\<lambda>b0.
                bind_res (slave_address_new b0) (\<lambda>sa.
                bind_res (slice_from data_to_check 1) (\<lambda>pdu_bytes.
                bind_res (pdu_from_bytes hv pdu_bytes) (\<lambda>p.
                Ok (modbus_message_new (AASlaveAddress sa) p)))))))))"

section \<open>Frames for a transport\<close>

text \<open>\<open>pdu_bytes_len + 1\<close> cannot overflow: a serialised PDU has at most 253 bytes.\<close>

definition compile_adu_frame ::
    "u8 heapless \<Rightarrow> u16 \<Rightarrow> u8 \<Rightarrow> Pdu \<Rightarrow> TransportType \<Rightarrow> bytes result" where
  "compile_adu_frame hv txn_id uid p transport_type =
     (let serial = (\<lambda>serial_mode.
        let m = modbus_message_new (AASlaveAddress (SlaveAddress uid)) p in
        case serial_mode of
          Rtu \<Rightarrow> bind_res (message_to_bytes hv m) (\<lambda>adu_bytes.
                 extend_or hv MAX_ADU_FRAME_LEN Unexpected adu_bytes
                   (u16_to_le_bytes (crc16 adu_bytes)))
        | Ascii \<Rightarrow> to_ascii_bytes hv m);
      tcp =
        bind_res (pdu_to_bytes hv p) (\<lambda>pdu_bytes.
        message_to_bytes hv (modbus_message_new
          (AAMbapHeader (mbap_header_new txn_id (of_nat (length pdu_bytes) + 1) uid)) p))
      in case transport_type of
           StdTcp \<Rightarrow> tcp
         | CustomTcp \<Rightarrow> tcp
         | StdSerial serial_mode \<Rightarrow> serial serial_mode
         | CustomSerial serial_mode \<Rightarrow> serial serial_mode)"

definition decompile_adu_frame :: "u8 heapless \<Rightarrow> bytes \<Rightarrow> TransportType \<Rightarrow> ModbusMessage result" where
  "decompile_adu_frame hv frame transport_type =
     (let serial = (\<lambda>serial_mode.
        case serial_mode of
          Rtu \<Rightarrow> from_rtu_bytes hv frame
        | Ascii \<Rightarrow> from_ascii_bytes hv frame)
      in case transport_type of
           StdTcp \<Rightarrow> message_from_bytes hv frame
         | CustomTcp \<Rightarrow> message_from_bytes hv frame
         | StdSerial serial_mode \<Rightarrow> serial serial_mode
         | CustomSerial serial_mode \<Rightarrow> serial serial_mode)"

section \<open>Frame lengths\<close>

text \<open>
  The closures \<open>check_crc\<close> and \<open>add_dyn\<close> of the code are functions of the frame they capture.
  Every index below stands under a guard on the length of the frame, so that these functions
  return plain values. \<open>let _ = candidates.push(..)\<close> ignores a failed push.
\<close>

definition check_crc :: "bytes \<Rightarrow> usize \<Rightarrow> bool" where
  "check_crc frame len =
     (if length frame \<ge> len \<and> len \<ge> MIN_RTU_ADU_LEN then
        let dl = len - RTU_CRC_SIZE;
            received_crc = u16_from_le_bytes (frame ! dl) (frame ! (dl + 1))
        in crc16 (take dl frame) = received_crc
      else False)"

definition push_candidate :: "usize heapless \<Rightarrow> usize list \<Rightarrow> usize \<Rightarrow> usize list" where
  "push_candidate hc cands x = (case hv_push hc 4 cands x of None \<Rightarrow> cands | Some cs \<Rightarrow> cs)"

definition add_dyn ::
    "usize heapless \<Rightarrow> bytes \<Rightarrow> usize list \<times> usize \<Rightarrow> usize \<Rightarrow> usize \<Rightarrow> usize list \<times> usize" where
  "add_dyn hc frame st offset base =
     (let (cands, min_needed) = st in
      if length frame > offset then (push_candidate hc cands (base + unat (frame ! offset)), min_needed)
      else (cands, min min_needed (offset + 1)))"

definition scan_crc :: "bytes \<Rightarrow> usize option" where
  "scan_crc frame = List.find (check_crc frame) [MIN_RTU_ADU_LEN..<length frame + 1]"

text \<open>The part after the \<open>match\<close>: \<open>for &len in &candidates\<close>, then the length to wait for.\<close>

definition pick_length :: "bytes \<Rightarrow> usize list \<times> usize \<Rightarrow> usize option" where
  "pick_length frame st =
     (let (candidates, min_needed) = st in
      case List.find (check_crc frame) candidates of
        Some len \<Rightarrow> Some len
      | None \<Rightarrow>
          let max_candidate = fold max candidates 0;
              target = (if min_needed \<noteq> usize_MAX then max min_needed max_candidate
                        else max_candidate)
          in if target > 0 then Some target else None)"

definition get_byte_count_from_frame :: "usize heapless \<Rightarrow> bytes \<Rightarrow> u8 \<Rightarrow> usize option" where
  "get_byte_count_from_frame hc frame fc =
     (let push = push_candidate hc; dyn = add_dyn hc frame in
      if 1 \<le> fc \<and> fc \<le> 4 then pick_length frame (dyn (push [] 8, usize_MAX) 2 5)
      else if fc = 5 \<or> fc = 6 \<or> fc = 8 then pick_length frame (push [] 8, usize_MAX)
      else if fc = 7 then pick_length frame (push (push [] 4) 5, usize_MAX)
      else if fc = 11 then pick_length frame (push (push [] 4) 8, usize_MAX)
      else if fc = 12 \<or> fc = 17 then pick_length frame (dyn (push [] 4, usize_MAX) 2 5)
      else if fc = 15 \<or> fc = 16 then pick_length frame (dyn (push [] 8, usize_MAX) 6 9)
      else if fc = 20 \<or> fc = 21 then pick_length frame (dyn ([], usize_MAX) 2 5)
      else if fc = 22 then pick_length frame (push [] 10, usize_MAX)
      else if fc = 23 then pick_length frame (dyn (dyn ([], usize_MAX) 2 5) 10 13)
      else if fc = 24 then
        pick_length frame
          (if length frame \<ge> 4
           then (push (push [] 6) (6 + unat (u16_from_be_bytes (frame ! 2) (frame ! 3))), usize_MAX)
           else (push [] 6, min usize_MAX 4))
      else if fc = 43 then (if check_crc frame 7 then Some 7 else scan_crc frame)
      else scan_crc frame)"

text \<open>\<open>frame.iter().position(|&b| b == x)\<close>\<close>

fun position :: "u8 \<Rightarrow> bytes \<Rightarrow> usize option" where
  "position x [] = None"
| "position x (b # bs) = (if b = x then Some 0 else map_option Suc (position x bs))"

definition derive_length_from_bytes :: "usize heapless \<Rightarrow> bytes \<Rightarrow> TransportType \<Rightarrow> usize option" where
  "derive_length_from_bytes hc frame transport_type =
     (let tcp =
        (if length frame < 6 then None
         else if u16_from_be_bytes (frame ! 2) (frame ! 3) \<noteq> MODBUS_PROTOCOL_ID
         then Some usize_MAX
         else Some (6 + unat (u16_from_be_bytes (frame ! 4) (frame ! 5))));
      serial = (\<lambda>serial_mode. case serial_mode of
          Rtu \<Rightarrow>
            (if length frame < 2 then None
             else let fc = frame ! 1 in
                  if is_exception_code fc then Some 5
                  else get_byte_count_from_frame hc frame fc)
        | Ascii \<Rightarrow>
            (if length frame < MIN_ASCII_ADU_LEN then None
             else map_option (\<lambda>pos. pos + 1) (position 0x0A frame)))
      in case transport_type of
           StdTcp \<Rightarrow> tcp
         | CustomTcp \<Rightarrow> tcp
         | StdSerial serial_mode \<Rightarrow> serial serial_mode
         | CustomSerial serial_mode \<Rightarrow> serial serial_mode)"

section \<open>Exception responses\<close>

definition build_exception_adu ::
    "u8 heapless \<Rightarrow> u16 \<Rightarrow> UnitIdOrSlaveAddr \<Rightarrow> FunctionCode \<Rightarrow> ExceptionCode \<Rightarrow> TransportType \<Rightarrow>
     bytes result" where
  "build_exception_adu hv txn_id uid fc exception_code transport_type =
     bind_res (ok_or InvalidFunctionCode (exception_response fc)) (\<lambda>exception_fc.
     bind_res (case build_byte_payload hv exception_fc (exception_code_u8 exception_code) of
                 Err _ \<Rightarrow> Err Unexpected | r \<Rightarrow> r) (\<lambda>p.
     compile_adu_frame hv txn_id (uid_get uid) p transport_type))"

end
