(* ===== verification/Device_Id.thy ===== *)
theory Device_Id
  imports Pdu
begin

text \<open>
  Device identification (mbus-core/src/models/diagnostic/model.rs and the response parser of
  mbus-client/src/services/diagnostic/response.rs): the identifiers and their wire values, the
  object iterator, and the parsing of a response. \<open>RDI_\<close>, \<open>OID_\<close> prefixes distinguish variants of
  different enums with the same name.
\<close>

section \<open>Identifiers\<close>

datatype BasicObjectId = VendorName | ProductCode | MajorMinorRevision

fun basic_object_id_u8 :: "BasicObjectId \<Rightarrow> u8" where
  "basic_object_id_u8 VendorName = 0x00"
| "basic_object_id_u8 ProductCode = 0x01"
| "basic_object_id_u8 MajorMinorRevision = 0x02"

definition basic_object_id_try_from :: "u8 \<Rightarrow> BasicObjectId result" where
  "basic_object_id_try_from value =
     (if value = 0x00 then Ok VendorName
      else if value = 0x01 then Ok ProductCode
      else if value = 0x02 then Ok MajorMinorRevision
      else Err InvalidAddress)"

datatype RegularObjectId = VendorUrl | ProductName | ModelName | UserApplicationName

fun regular_object_id_u8 :: "RegularObjectId \<Rightarrow> u8" where
  "regular_object_id_u8 VendorUrl = 0x03"
| "regular_object_id_u8 ProductName = 0x04"
| "regular_object_id_u8 ModelName = 0x05"
| "regular_object_id_u8 UserApplicationName = 0x06"

definition regular_object_id_try_from :: "u8 \<Rightarrow> RegularObjectId result" where
  "regular_object_id_try_from value =
     (if value = 0x03 then Ok VendorUrl
      else if value = 0x04 then Ok ProductName
      else if value = 0x05 then Ok ModelName
      else if value = 0x06 then Ok UserApplicationName
      else Err InvalidAddress)"

datatype ExtendedObjectId = ExtendedObjectId (extended_object_id_value: u8)

definition extended_object_id_new :: "u8 \<Rightarrow> ExtendedObjectId option" where
  "extended_object_id_new i = (if 0x80 \<le> i \<and> i \<le> 0xFF then Some (ExtendedObjectId i) else None)"

datatype ReadDeviceIdCode = RDI_Err | RDI_Basic | RDI_Regular | RDI_Extended | RDI_Specific

fun read_device_id_code_u8 :: "ReadDeviceIdCode \<Rightarrow> u8" where
  "read_device_id_code_u8 RDI_Err = 0x00"
| "read_device_id_code_u8 RDI_Basic = 0x01"
| "read_device_id_code_u8 RDI_Regular = 0x02"
| "read_device_id_code_u8 RDI_Extended = 0x03"
| "read_device_id_code_u8 RDI_Specific = 0x04"

definition read_device_id_code_try_from :: "u8 \<Rightarrow> ReadDeviceIdCode result" where
  "read_device_id_code_try_from value =
     (if value = 0x01 then Ok RDI_Basic
      else if value = 0x02 then Ok RDI_Regular
      else if value = 0x03 then Ok RDI_Extended
      else if value = 0x04 then Ok RDI_Specific
      else Err InvalidDeviceIdCode)"

datatype ConformityLevel =
    BasicStreamOnly | RegularStreamOnly | ExtendedStreamOnly
  | BasicStreamAndIndividual | RegularStreamAndIndividual | ExtendedStreamAndIndividual

fun conformity_level_u8 :: "ConformityLevel \<Rightarrow> u8" where
  "conformity_level_u8 BasicStreamOnly = 0x01"
| "conformity_level_u8 RegularStreamOnly = 0x02"
| "conformity_level_u8 ExtendedStreamOnly = 0x03"
| "conformity_level_u8 BasicStreamAndIndividual = 0x81"
| "conformity_level_u8 RegularStreamAndIndividual = 0x82"
| "conformity_level_u8 ExtendedStreamAndIndividual = 0x83"

definition conformity_level_try_from :: "u8 \<Rightarrow> ConformityLevel result" where
  "conformity_level_try_from value =
     (if value = 0x01 then Ok BasicStreamOnly
      else if value = 0x02 then Ok RegularStreamOnly
      else if value = 0x03 then Ok ExtendedStreamOnly
      else if value = 0x81 then Ok BasicStreamAndIndividual
      else if value = 0x82 then Ok RegularStreamAndIndividual
      else if value = 0x83 then Ok ExtendedStreamAndIndividual
      else Err ParseError)"

datatype ObjectId =
    OID_Err
  | OID_Basic BasicObjectId
  | OID_Regular RegularObjectId
  | OID_Extended ExtendedObjectId
  | OID_Reserved u8

definition object_id_from_u8 :: "u8 \<Rightarrow> ObjectId" where
  "object_id_from_u8 i =
     (case basic_object_id_try_from i of
        Ok basic \<Rightarrow> OID_Basic basic
      | _ \<Rightarrow>
         (case regular_object_id_try_from i of
            Ok regular \<Rightarrow> OID_Regular regular
          | _ \<Rightarrow>
             (case extended_object_id_new i of
                Some extended \<Rightarrow> OID_Extended extended
              | None \<Rightarrow> OID_Reserved i)))"

fun object_id_u8 :: "ObjectId \<Rightarrow> u8" where
  "object_id_u8 (OID_Basic i) = basic_object_id_u8 i"
| "object_id_u8 (OID_Regular i) = regular_object_id_u8 i"
| "object_id_u8 (OID_Extended i) = extended_object_id_value i"
| "object_id_u8 (OID_Reserved i) = i"
| "object_id_u8 OID_Err = 0"

section \<open>Objects and their iterator\<close>

record DeviceIdObject =
  object_id :: ObjectId
  object_value :: bytes

record DeviceIdObjectIterator =
  it_data :: bytes
  it_offset :: usize
  it_count :: u8
  it_total :: u8

text \<open>
  The iterator's methods return the item and the advanced iterator. Both indices stand under the
  guard on the length of the data, and \<open>count\<close> cannot overflow, since it is below \<open>total\<close>.
\<close>

definition parse_next ::
    "u8 heapless \<Rightarrow> DeviceIdObjectIterator \<Rightarrow> DeviceIdObject result option \<times> DeviceIdObjectIterator" where
  "parse_next hv it =
     (if it_offset it + 2 > length (it_data it) then (Some (Err InvalidPduLength), it)
      else
        let obj_id = object_id_from_u8 (it_data it ! it_offset it);
            obj_len = unat (it_data it ! (it_offset it + 1));
            it = it\<lparr>it_offset := it_offset it + 2\<rparr>
        in if it_offset it + obj_len > length (it_data it) then (Some (Err InvalidPduLength), it)
           else case hv_extend hv MAX_PDU_DATA_LEN [] (take obj_len (drop (it_offset it) (it_data it))) of
                  None \<Rightarrow> (Some (Err BufferTooSmall), it)
                | Some v \<Rightarrow>
                    (Some (Ok \<lparr>object_id = obj_id, object_value = v\<rparr>),
                     it\<lparr>it_offset := it_offset it + obj_len, it_count := it_count it + 1\<rparr>))"

definition iterator_next ::
    "u8 heapless \<Rightarrow> DeviceIdObjectIterator \<Rightarrow> DeviceIdObject result option \<times> DeviceIdObjectIterator" where
  "iterator_next hv it = (if it_count it \<ge> it_total it then (None, it) else parse_next hv it)"

record DeviceIdentificationResponse =
  resp_read_device_id_code :: ReadDeviceIdCode
  resp_conformity_level :: ConformityLevel
  resp_more_follows :: bool
  resp_next_object_id :: ObjectId
  resp_objects_data :: bytes
  resp_number_of_objects :: u8

definition device_id_objects :: "DeviceIdentificationResponse \<Rightarrow> DeviceIdObjectIterator" where
  "device_id_objects r =
     \<lparr>it_data = resp_objects_data r, it_offset = 0, it_count = 0,
      it_total = resp_number_of_objects r\<rparr>"

section \<open>Parsing a response\<close>

definition parse_read_device_identification_response ::
    "ReadDeviceIdCode \<Rightarrow> Pdu \<Rightarrow> DeviceIdentificationResponse result" where
  "parse_read_device_identification_response device_id_code p =
     (if function_code p \<noteq> EncapsulatedInterfaceTransport then Err InvalidFunctionCode
      else bind_res (read_device_id_fields p) (\<lambda>fields.
        if rdi_mei_type_byte fields \<noteq> encapsulated_interface_type_u8 ReadDeviceIdentification
        then Err InvalidMeiType
        else
          bind_res (read_device_id_code_try_from (rdi_read_device_id_code_byte fields)) (\<lambda>code.
          bind_res (conformity_level_try_from (rdi_conformity_level_byte fields)) (\<lambda>level.
          if code \<noteq> device_id_code then Err InvalidDeviceIdentification
          else Ok \<lparr>resp_read_device_id_code = code, resp_conformity_level = level,
                   resp_more_follows = rdi_more_follows fields,
                   resp_next_object_id = object_id_from_u8 (rdi_next_object_id_byte fields),
                   resp_objects_data = rdi_objects_data fields,
                   resp_number_of_objects = rdi_number_of_objects fields\<rparr>))))"

section \<open>Identifiers on the wire\<close>

interpretation basic_oid: wire_enum basic_object_id_u8 basic_object_id_try_from "\<lambda>_. True"
  "\<lambda>_. InvalidAddress"
proof unfold_locales
  show "basic_object_id_try_from (basic_object_id_u8 x) = Ok x" for x
    by (cases x) (simp_all add: basic_object_id_try_from_def)
qed (auto simp: basic_object_id_try_from_def split: if_splits)

interpretation regular_oid: wire_enum regular_object_id_u8 regular_object_id_try_from "\<lambda>_. True"
  "\<lambda>_. InvalidAddress"
proof unfold_locales
  show "regular_object_id_try_from (regular_object_id_u8 x) = Ok x" for x
    by (cases x) (simp_all add: regular_object_id_try_from_def)
qed (auto simp: regular_object_id_try_from_def split: if_splits)

interpretation rdi_code: wire_enum read_device_id_code_u8 read_device_id_code_try_from
  "\<lambda>c. c \<noteq> RDI_Err" "\<lambda>_. InvalidDeviceIdCode"
proof unfold_locales
  show "read_device_id_code_try_from (read_device_id_code_u8 x) = Ok x" if "x \<noteq> RDI_Err" for x
    using that by (cases x) (simp_all add: read_device_id_code_try_from_def)
qed (auto simp: read_device_id_code_try_from_def split: if_splits)

interpretation conformity: wire_enum conformity_level_u8 conformity_level_try_from "\<lambda>_. True"
  "\<lambda>_. ParseError"
proof unfold_locales
  show "conformity_level_try_from (conformity_level_u8 x) = Ok x" for x
    by (cases x) (simp_all add: conformity_level_try_from_def)
qed (auto simp: conformity_level_try_from_def split: if_splits)

lemma object_id_roundtrip: "object_id_u8 (object_id_from_u8 b) = b"
  by (auto simp: object_id_from_u8_def basic_object_id_try_from_def regular_object_id_try_from_def
      extended_object_id_new_def)

section \<open>Iterating over a validated response\<close>

text \<open>The items of the first \<open>n\<close> calls of \<open>next\<close>, up to the end of the iteration.\<close>

fun drain :: "u8 heapless \<Rightarrow> nat \<Rightarrow> DeviceIdObjectIterator \<Rightarrow> DeviceIdObject result list" where
  "drain hv 0 it = []"
| "drain hv (Suc n) it =
     (case iterator_next hv it of (None, it') \<Rightarrow> [] | (Some x, it') \<Rightarrow> x # drain hv n it')"

definition object_bytes :: "DeviceIdObject \<Rightarrow> bytes" where
  "object_bytes obj =
     object_id_u8 (object_id obj) # of_nat (length (object_value obj)) # object_value obj"

lemma parse_next_ok:
  assumes "heapless_ok hv" "l = unat (it_data it ! Suc (it_offset it))"
    and "it_offset it + 2 + l \<le> length (it_data it)" "l \<le> 252"
  shows "parse_next hv it =
    (Some (Ok \<lparr>object_id = object_id_from_u8 (it_data it ! it_offset it),
               object_value = take l (drop (it_offset it + 2) (it_data it))\<rparr>),
     it\<lparr>it_offset := it_offset it + 2 + l, it_count := it_count it + 1\<rparr>)"
  using assms by (simp add: parse_next_def Let_def)

lemma walk_objects_Suc:
  "walk_objects d (Suc k) offset = Ok () \<longleftrightarrow>
   offset + 2 + unat (d ! Suc offset) \<le> length d \<and>
   walk_objects d k (offset + 2 + unat (d ! Suc offset)) = Ok ()"
  by (auto simp: Let_def)

lemma object_bytes_at:
  assumes "l = unat (e ! Suc o')" "o' + 2 + l \<le> length e"
  shows "drop o' e = object_bytes \<lparr>object_id = object_id_from_u8 (e ! o'),
    object_value = take l (drop (o' + 2) e)\<rparr> @ drop (o' + 2 + l) e"
proof -
  have "drop o' e = e ! o' # e ! Suc o' # drop (o' + 2) e"
    using assms(2) by (simp add: Cons_nth_drop_Suc)
  moreover have "drop (o' + 2) e = take l (drop (o' + 2) e) @ drop (o' + 2 + l) e"
    by (metis append_take_drop_id drop_drop add.commute)
  ultimately show ?thesis
    using assms by (simp add: object_bytes_def object_id_roundtrip)
qed

text \<open>
  Where the validation walk succeeds over \<open>k\<close> objects that follow a header, the iterator, placed at
  the same object of the same bytes followed by padding, returns \<open>k\<close> objects and no error.
\<close>

lemma drain_walk:
  assumes "heapless_ok hv" "length e \<le> 252"
  shows "walk_objects (h @ e) k (length h + it_offset it) = Ok () \<Longrightarrow>
    unat (it_total it) = unat (it_count it) + k \<Longrightarrow> it_data it = e @ pad \<Longrightarrow> k \<le> m \<Longrightarrow>
    \<exists>objs rest. drain hv m it = map Ok objs \<and> length objs = k \<and>
      drop (it_offset it) e = concat (map object_bytes objs) @ rest"
proof (induction k arbitrary: it m)
  case 0
  then show ?case by (cases m) (auto simp: iterator_next_def word_le_nat_alt)
next
  case (Suc k)
  obtain m' where m': "m = Suc m'" "k \<le> m'" using Suc.prems(4) by (cases m) auto
  let ?o = "it_offset it"
  define l where "l = unat (e ! Suc ?o)"
  have "?o + 2 \<le> length e"
    using Suc.prems(1) by (auto split: if_splits)
  then have nth: "it_data it ! ?o = e ! ?o" "it_data it ! Suc ?o = e ! Suc ?o"
    "(h @ e) ! Suc (length h + ?o) = e ! Suc ?o"
    using Suc.prems(3) by (simp_all add: nth_append)
  have le: "?o + 2 + l \<le> length e" and walk: "walk_objects (h @ e) k (length h + (?o + 2 + l)) = Ok ()"
    using Suc.prems(1) nth unfolding walk_objects_Suc by (simp_all add: l_def ac_simps)
  let ?obj = "\<lparr>object_id = object_id_from_u8 (e ! ?o), object_value = take l (drop (?o + 2) e)\<rparr>"
  let ?it = "it\<lparr>it_offset := ?o + 2 + l, it_count := it_count it + 1\<rparr>"
  have "unat (it_count it + 1) = unat (it_count it) + 1"
    using Suc.prems(2) unat_u8_lt [of "it_total it"] by (subst unat_add_no_overflow) auto
  then obtain objs rest where objs: "drain hv m' ?it = map Ok objs" "length objs = k"
    "drop (?o + 2 + l) e = concat (map object_bytes objs) @ rest"
    using Suc.IH [of ?it, OF _ _ _ m'(2)] Suc.prems(2,3) walk by auto
  moreover have "iterator_next hv it = (Some (Ok ?obj), ?it)"
    using parse_next_ok [OF assms(1), of l it] assms(2) Suc.prems(2,3) nth le
    by (simp add: iterator_next_def l_def word_le_nat_alt)
  ultimately have "drain hv m it = map Ok (?obj # objs)" "length (?obj # objs) = Suc k"
    "drop ?o e = concat (map object_bytes (?obj # objs)) @ rest"
    using object_bytes_at [OF l_def le] by (simp_all add: m'(1))
  then show ?case by blast
qed

lemma read_device_id_fields_Ok:
  assumes "pdu_wf p" "read_device_id_fields p = Ok f"
  shows "6 \<le> length (data p) \<and>
    walk_objects (data p) (unat (rdi_number_of_objects f)) 6 = Ok () \<and>
    rdi_objects_data f = drop 6 (data p) @ replicate (252 - (length (data p) - 6)) 0"
  using assms
  by (auto simp: read_device_id_fields_def pdu_wf_def Let_def res_simps split: if_splits)

text \<open>
  The objects of a device identification response that the client accepts can be iterated
  without an error: the iterator returns exactly the announced number of objects and then ends, and
  the objects, written out again, are the bytes the server sent.
\<close>

theorem device_id_objects_complete:
  assumes "heapless_ok hv" "pdu_wf p"
    and "parse_read_device_identification_response code p = Ok r"
    and "unat (resp_number_of_objects r) \<le> m"
  shows "\<exists>objs rest. drain hv m (device_id_objects r) = map Ok objs \<and>
    length objs = unat (resp_number_of_objects r) \<and>
    drop 6 (data p) = concat (map object_bytes objs) @ rest"
proof -
  obtain f where f: "read_device_id_fields p = Ok f" "resp_objects_data r = rdi_objects_data f"
    "resp_number_of_objects r = rdi_number_of_objects f"
    using assms(3) by (auto simp: parse_read_device_identification_response_def res_simps
        split: if_splits)
  let ?e = "drop 6 (data p)"
  have d: "6 \<le> length (data p)" "walk_objects (data p) (unat (rdi_number_of_objects f)) 6 = Ok ()"
    "rdi_objects_data f = ?e @ replicate (252 - (length (data p) - 6)) 0"
    using read_device_id_fields_Ok [OF assms(2) f(1)] by auto
  have "walk_objects (take 6 (data p) @ ?e) (unat (resp_number_of_objects r))
      (length (take 6 (data p)) + it_offset (device_id_objects r)) = Ok ()"
    using d(1,2) f(3) by (simp add: device_id_objects_def min_absorb2)
  moreover have "length ?e \<le> 252" using assms(2) by (auto simp: pdu_wf_def)
  ultimately show ?thesis
    using drain_walk [OF assms(1), of ?e "take 6 (data p)" _ "device_id_objects r"] d(3) f assms(4)
    by (auto simp: device_id_objects_def)
qed

theorem device_id_objects_complete_witness:
  "\<exists>objs rest. drain bounded_vec 5 (device_id_objects
      \<lparr>resp_read_device_id_code = RDI_Basic, resp_conformity_level = BasicStreamOnly,
       resp_more_follows = False, resp_next_object_id = OID_Basic VendorName,
       resp_objects_data = [0, 1, 65, 1, 0] @ replicate 247 0, resp_number_of_objects = 2\<rparr>) = map Ok objs \<and>
    length objs = 2 \<and> [0, 1, 65, 1, 0] = concat (map object_bytes objs) @ rest"
proof -
  let ?d = "[0x0E, 1, 1, 0, 0, 2, 0, 1, 65, 1, 0] :: u8 list"
  let ?p = "pdu_new EncapsulatedInterfaceTransport ?d 11"
  have "walk_objects ?d 2 6 = Ok ()" by code_simp
  then have "parse_read_device_identification_response RDI_Basic ?p =
      Ok \<lparr>resp_read_device_id_code = RDI_Basic, resp_conformity_level = BasicStreamOnly,
       resp_more_follows = False, resp_next_object_id = OID_Basic VendorName,
       resp_objects_data = [0, 1, 65, 1, 0] @ replicate 247 0, resp_number_of_objects = 2\<rparr>"
    by (simp add: parse_read_device_identification_response_def read_device_id_fields_def Let_def
        read_device_id_code_try_from_def conformity_level_try_from_def
        object_id_from_u8_def basic_object_id_try_from_def)
  moreover have "pdu_wf ?p" by (simp add: pdu_wf_def)
  ultimately show ?thesis
    using device_id_objects_complete [OF bounded_vec_ok, of ?p RDI_Basic _ 5] by simp
qed

text \<open>An iterator over a buffer that ends early repeats its error for ever.\<close>

lemma iterator_error_repeats:
  assumes "it_count it < it_total it" "length (it_data it) < it_offset it + 2"
  shows "drain hv n it = replicate n (Err InvalidPduLength)"
  using assms by (induction n) (simp_all add: iterator_next_def parse_next_def)

end
