(* ===== verification/Client_Core.thy ===== *)
theory Client_Core
  imports Adu Device_Id
begin

text \<open>
  The client state machine (mbus-client/src/services/mod.rs, default features, so without
  \<open>traffic\<close> and \<open>logging\<close>): the queue of requests in flight, sending, receiving, response dispatch,
  timeouts, retries and connection loss.

  \<^item> The transport and the application are implemented by the user of the library. Their methods
    are fields of \<open>client_env\<close>, with the transport's error already converted into \<open>MbusError\<close>,
    and their states are fields of the client. \<open>client_env\<close> also holds the queue capacity \<open>N\<close>
    and the vector operations.
  \<^item> The function pointer \<open>handler\<close> of a request has the type \<open>'h\<close>; calling it, and calling
    \<open>request_failed\<close>, acts on the application's state only. A handler that panics returns \<open>None\<close>.
    \<open>app_calls\<close> is the list of these calls, in order; the code does not have it.
  \<^item> A loop of the code is a \<open>partial_function\<close>: \<open>None\<close> would be a loop that does not end.
\<close>

section \<open>Requests in flight\<close>

datatype OperationMeta =
    OM_Other
  | OM_Single u16 u16
  | OM_Multiple u16 u16
  | OM_Masking u16 u16 u16
  | OM_Diag ReadDeviceIdCode EncapsulatedInterfaceType

fun meta_address :: "OperationMeta \<Rightarrow> u16" where
  "meta_address (OM_Single address v) = address"
| "meta_address (OM_Multiple address q) = address"
| "meta_address (OM_Masking address am om) = address"
| "meta_address _ = 0"

fun meta_value :: "OperationMeta \<Rightarrow> u16" where
  "meta_value (OM_Single address v) = v"
| "meta_value _ = 0"

fun meta_quantity :: "OperationMeta \<Rightarrow> u16" where
  "meta_quantity (OM_Single address v) = 1"
| "meta_quantity (OM_Multiple address q) = q"
| "meta_quantity _ = 0"

fun meta_and_mask :: "OperationMeta \<Rightarrow> u16" where
  "meta_and_mask (OM_Masking address am om) = am"
| "meta_and_mask _ = 0"

fun meta_or_mask :: "OperationMeta \<Rightarrow> u16" where
  "meta_or_mask (OM_Masking address am om) = om"
| "meta_or_mask _ = 0"

fun meta_is_single :: "OperationMeta \<Rightarrow> bool" where
  "meta_is_single (OM_Single address v) = True"
| "meta_is_single _ = False"

fun meta_single_value :: "OperationMeta \<Rightarrow> u16" where
  "meta_single_value (OM_Single address v) = v"
| "meta_single_value _ = 0"

fun meta_device_id_code :: "OperationMeta \<Rightarrow> ReadDeviceIdCode" where
  "meta_device_id_code (OM_Diag code t) = code"
| "meta_device_id_code _ = RDI_Err"

fun meta_encap_type :: "OperationMeta \<Rightarrow> EncapsulatedInterfaceType" where
  "meta_encap_type (OM_Diag code t) = t"
| "meta_encap_type _ = EIT_Err"

record 'h ExpectedResponse =
  er_txn_id :: u16
  er_unit :: u8
  original_adu :: bytes
  sent_timestamp :: u64
  retries_left :: u8
  retry_attempt_index :: u8
  next_retry_timestamp :: "u64 option"
  er_handler :: 'h
  operation_meta :: OperationMeta

section \<open>The client and what it is built on\<close>

text \<open>
  The calls to the application, in order: \<open>request_failed\<close>, or the handler of a request with the
  response that was matched to it.
\<close>

datatype 'h AppCall =
    RequestFailed u16 UnitIdOrSlaveAddr MbusError
  | HandlerCalled "'h ExpectedResponse" ModbusMessage

record ('t, 'a, 'h) ClientServices =
  app :: 'a
  transport :: 't
  config :: ModbusConfig
  rxed_frame :: bytes
  expected_responses :: "'h ExpectedResponse list"
  next_timeout_check :: "u64 option"
  random_calls :: nat
  app_calls :: "'h AppCall list"

record ('t, 'a, 'h) client_env =
  TRANSPORT_TYPE :: TransportType
  transport_connect :: "'t \<Rightarrow> ModbusConfig \<Rightarrow> 't \<times> (MbusError + unit)"
  transport_disconnect :: "'t \<Rightarrow> 't \<times> (MbusError + unit)"
  transport_send :: "'t \<Rightarrow> bytes \<Rightarrow> 't \<times> (MbusError + unit)"
  transport_recv :: "'t \<Rightarrow> 't \<times> (MbusError + bytes)"
  transport_is_connected :: "'t \<Rightarrow> bool"
  app_request_failed :: "'a \<Rightarrow> u16 \<Rightarrow> UnitIdOrSlaveAddr \<Rightarrow> MbusError \<Rightarrow> 'a"
  app_current_millis :: "'a \<Rightarrow> u64"
  app_handler :: "'h \<Rightarrow> 'a \<Rightarrow> 'h ExpectedResponse \<Rightarrow> ModbusMessage \<Rightarrow> 'a option"
  queue_capacity :: usize
  byte_vec :: "u8 heapless"
  usize_vec :: "usize heapless"
  response_vec :: "'h ExpectedResponse heapless"

definition request_failed ::
    "('t, 'a, 'h) client_env \<Rightarrow> ('t, 'a, 'h) ClientServices \<Rightarrow> u16 \<Rightarrow> UnitIdOrSlaveAddr \<Rightarrow> MbusError \<Rightarrow>
     ('t, 'a, 'h) ClientServices" where
  "request_failed e c txn uid err =
     c\<lparr>app := app_request_failed e (app c) txn uid err,
       app_calls := app_calls c @ [RequestFailed txn uid err]\<rparr>"

definition call_handler ::
    "('t, 'a, 'h) client_env \<Rightarrow> ('t, 'a, 'h) ClientServices \<Rightarrow> 'h ExpectedResponse \<Rightarrow> ModbusMessage \<Rightarrow>
     ('t, 'a, 'h) ClientServices result" where
  "call_handler e c expected m =
     bind_res (or_panic (app_handler e (er_handler expected) (app c) expected m)) (\<lambda>a.
     Ok (c\<lparr>app := a, app_calls := app_calls c @ [HandlerCalled expected m]\<rparr>))"

text \<open>\<open>self.expected_responses.swap_remove(i)\<close>; out of range it panics.\<close>

definition swap_remove ::
    "('t, 'a, 'h) client_env \<Rightarrow> ('t, 'a, 'h) ClientServices \<Rightarrow> usize \<Rightarrow>
     ('h ExpectedResponse \<times> ('t, 'a, 'h) ClientServices) result" where
  "swap_remove e c i =
     bind_res (or_panic (hv_swap_remove (response_vec e) (expected_responses c) i)) (\<lambda>(r, rs).
     Ok (r, c\<lparr>expected_responses := rs\<rparr>))"

section \<open>Configuration\<close>

fun response_timeout_ms :: "ModbusConfig \<Rightarrow> u64" where
  "response_timeout_ms (Tcp cfg) = ucast (tcp_response_timeout_ms cfg)"
| "response_timeout_ms (Serial cfg) = ucast (ser_response_timeout_ms cfg)"

fun retry_attempts :: "ModbusConfig \<Rightarrow> u8" where
  "retry_attempts (Tcp cfg) = tcp_retry_attempts cfg"
| "retry_attempts (Serial cfg) = ser_retry_attempts cfg"

definition client_new ::
    "('t, 'a, 'h) client_env \<Rightarrow> 't \<Rightarrow> 'a \<Rightarrow> ModbusConfig \<Rightarrow> ('t, 'a, 'h) ClientServices result" where
  "client_new e t a cfg =
     (if is_serial_type (TRANSPORT_TYPE e) \<and> queue_capacity e \<noteq> 1 then Err InvalidNumOfExpectedRsps
      else Ok \<lparr>app = a, transport = t, config = cfg, rxed_frame = [], expected_responses = [],
               next_timeout_check = None, random_calls = 0, app_calls = []\<rparr>)"

definition client_new_serial ::
    "('t, 'a, 'h) client_env \<Rightarrow> 't \<Rightarrow> 'a \<Rightarrow> ModbusSerialConfig \<Rightarrow> ('t, 'a, 'h) ClientServices result" where
  "client_new_serial e t a cfg =
     (if \<not> is_serial_type (TRANSPORT_TYPE e) then Err InvalidTransport
      else Ok \<lparr>app = a, transport = t, config = Serial cfg, rxed_frame = [], expected_responses = [],
               next_timeout_check = None, random_calls = 0, app_calls = []\<rparr>)"

definition has_pending_requests :: "('t, 'a, 'h) ClientServices \<Rightarrow> bool" where
  "has_pending_requests c \<longleftrightarrow> expected_responses c \<noteq> []"

section \<open>Sending a request\<close>

definition add_an_expectation ::
    "('t, 'a, 'h) client_env \<Rightarrow> ('t, 'a, 'h) ClientServices \<Rightarrow> u16 \<Rightarrow> UnitIdOrSlaveAddr \<Rightarrow> bytes \<Rightarrow>
     OperationMeta \<Rightarrow> 'h \<Rightarrow> ('t, 'a, 'h) ClientServices result" where
  "add_an_expectation e c txn uid frame meta h =
     bind_res (push_or (response_vec e) (queue_capacity e) TooManyRequests (expected_responses c)
       \<lparr>er_txn_id = txn, er_unit = uid_get uid, original_adu = frame,
        sent_timestamp = app_current_millis e (app c), retries_left = retry_attempts (config c),
        retry_attempt_index = 0, next_retry_timestamp = None, er_handler = h,
        operation_meta = meta\<rparr>) (\<lambda>rs.
     Ok (c\<lparr>expected_responses := rs\<rparr>))"

definition dispatch_request_frame ::
    "('t, 'a, 'h) client_env \<Rightarrow> ('t, 'a, 'h) ClientServices \<Rightarrow> bytes \<Rightarrow>
     ('t, 'a, 'h) ClientServices \<times> unit result" where
  "dispatch_request_frame e c frame =
     (let (t, r) = transport_send e (transport c) frame;
          c = c\<lparr>transport := t\<rparr>
      in case r of Inl _ \<Rightarrow> (c, Err SendFailed) | Inr _ \<Rightarrow> (c, Ok ()))"

section \<open>Receiving a response\<close>

definition dispatch_response ::
    "('t, 'a, 'h) client_env \<Rightarrow> ('t, 'a, 'h) ClientServices \<Rightarrow> ModbusMessage \<Rightarrow>
     ('t, 'a, 'h) ClientServices result" where
  "dispatch_response e c m =
     (let wire_txn_id = message_transaction_id m;
          uid = unit_id_or_slave_addr m;
          index =
            (if is_tcp_type (TRANSPORT_TYPE e)
             then find_index (\<lambda>r. er_txn_id r = wire_txn_id \<and> er_unit r = uid_get uid)
               (expected_responses c)
             else find_index (\<lambda>r. er_unit r = uid_get uid) (expected_responses c))
      in case index of
           None \<Rightarrow> Ok c
         | Some i \<Rightarrow>
             bind_res (swap_remove e c i) (\<lambda>(expected, c).
             case error_code (pdu m) of
               Some exception_code \<Rightarrow>
                 Ok (request_failed e c (er_txn_id expected) uid (ModbusException exception_code))
             | None \<Rightarrow> call_handler e c expected m))"

text \<open>
  The second \<open>let message\<close> of \<open>ingest_frame\<close>; \<open>None\<close> is its early return for a message with the
  wrong kind of address.
\<close>

definition readdress :: "TransportType \<Rightarrow> ModbusMessage \<Rightarrow> ModbusMessage option result" where
  "readdress tt m =
     (if is_tcp_type tt then
        (case additional_address m of
           AAMbapHeader header \<Rightarrow> Ok (Some (modbus_message_new (AAMbapHeader header) (pdu m)))
         | AASlaveAddress _ \<Rightarrow> Ok None)
      else
        (case additional_address m of
           AASlaveAddress addr \<Rightarrow>
             bind_res (slave_address_new (slave_address addr)) (\<lambda>sa.
             Ok (Some (modbus_message_new (AASlaveAddress sa) (pdu m))))
         | AAMbapHeader _ \<Rightarrow> Ok None))"

text \<open>The result of \<open>ingest_frame\<close> and the client after it.\<close>

definition ingest_frame ::
    "('t, 'a, 'h) client_env \<Rightarrow> ('t, 'a, 'h) ClientServices \<Rightarrow>
     usize result \<times> ('t, 'a, 'h) ClientServices" where
  "ingest_frame e c =
     (let frame = rxed_frame c; tt = TRANSPORT_TYPE e in
      case derive_length_from_bytes (usize_vec e) frame tt of
        None \<Rightarrow> (Err BufferTooSmall, c)
      | Some expected_length \<Rightarrow>
          if expected_length > MAX_ADU_FRAME_LEN then (Err BasicParseError, c)
          else if length frame < expected_length then (Err BufferTooSmall, c)
          else
            let raw = take expected_length frame in
            case bind_res (decompile_adu_frame (byte_vec e) raw tt) (readdress tt) of
              Panic \<Rightarrow> (Panic, c)
            | Err err \<Rightarrow> (Err err, c)
            | Ok None \<Rightarrow> (Ok expected_length, c)
            | Ok (Some m) \<Rightarrow>
                (case hv_extend (byte_vec e) MAX_ADU_FRAME_LEN [] raw of
                   None \<Rightarrow> (Err BufferLenMissmatch, c)
                 | Some raw_frame \<Rightarrow>
                     (case dispatch_response e c m of
                        Panic \<Rightarrow> (Panic, c)
                      | Err err \<Rightarrow> (Err err, c)
                      | Ok c \<Rightarrow> (Ok expected_length, c))))"

definition handle_parse_error ::
    "('t, 'a, 'h) client_env \<Rightarrow> ('t, 'a, 'h) ClientServices \<Rightarrow> ('t, 'a, 'h) ClientServices" where
  "handle_parse_error e c =
     (let len = length (rxed_frame c) in
      if len > 1 then c\<lparr>rxed_frame := shift_left (byte_vec e) (rxed_frame c) 1\<rparr>
      else c\<lparr>rxed_frame := []\<rparr>)"

definition drain_rxed_frame ::
    "('t, 'a, 'h) client_env \<Rightarrow> ('t, 'a, 'h) ClientServices \<Rightarrow> usize \<Rightarrow> ('t, 'a, 'h) ClientServices" where
  "drain_rxed_frame e c consumed =
     (let len = length (rxed_frame c) in
      if consumed < len then c\<lparr>rxed_frame := shift_left (byte_vec e) (rxed_frame c) consumed\<rparr>
      else c\<lparr>rxed_frame := []\<rparr>)"

definition append_to_rxed_frame ::
    "('t, 'a, 'h) client_env \<Rightarrow> ('t, 'a, 'h) ClientServices \<Rightarrow> bytes \<Rightarrow> ('t, 'a, 'h) ClientServices" where
  "append_to_rxed_frame e c frame =
     (case hv_extend (byte_vec e) MAX_ADU_FRAME_LEN (rxed_frame c) frame of
        Some bs \<Rightarrow> c\<lparr>rxed_frame := bs\<rparr>
      | None \<Rightarrow> c\<lparr>rxed_frame := []\<rparr>)"

partial_function (option) process_rxed_frame ::
    "('t, 'a, 'h) client_env \<Rightarrow> ('t, 'a, 'h) ClientServices \<Rightarrow>
     ('t, 'a, 'h) ClientServices result option" where
  "process_rxed_frame e c =
     (if rxed_frame c = [] then Some (Ok c)
      else case ingest_frame e c of
             (Ok consumed, c') \<Rightarrow> process_rxed_frame e (drain_rxed_frame e c' consumed)
           | (Err err, c') \<Rightarrow>
               if err = BufferTooSmall then Some (Ok c')
               else process_rxed_frame e (handle_parse_error e c')
           | (Panic, c') \<Rightarrow> Some Panic)"

section \<open>Failing all requests\<close>

partial_function (option) fail_all_loop ::
    "('t, 'a, 'h) client_env \<Rightarrow> MbusError \<Rightarrow> ('t, 'a, 'h) ClientServices \<Rightarrow>
     ('t, 'a, 'h) ClientServices option" where
  "fail_all_loop e err c =
     (case hv_pop (response_vec e) (expected_responses c) of
        None \<Rightarrow> Some c
      | Some (r, rs) \<Rightarrow>
          fail_all_loop e err
            (request_failed e (c\<lparr>expected_responses := rs\<rparr>) (er_txn_id r) (unit_id_from_u8 (er_unit r)) err))"

definition fail_all_pending_requests ::
    "('t, 'a, 'h) client_env \<Rightarrow> ('t, 'a, 'h) ClientServices \<Rightarrow> MbusError \<Rightarrow>
     ('t, 'a, 'h) ClientServices option" where
  "fail_all_pending_requests e c err =
     map_option (\<lambda>c. c\<lparr>next_timeout_check := None\<rparr>) (fail_all_loop e err c)"

definition is_connection_loss :: "MbusError \<Rightarrow> bool" where
  "is_connection_loss err \<longleftrightarrow>
     err = ConnectionClosed \<or> err = ConnectionFailed \<or> err = ConnectionLost \<or> err = IoError"

definition handle_recv_error ::
    "('t, 'a, 'h) client_env \<Rightarrow> ('t, 'a, 'h) ClientServices \<Rightarrow> MbusError \<Rightarrow>
     ('t, 'a, 'h) ClientServices option" where
  "handle_recv_error e c recv_error =
     (if is_connection_loss recv_error \<or> \<not> transport_is_connected e (transport c) then
        map_option
          (\<lambda>c. c\<lparr>transport := fst (transport_disconnect e (transport c)), rxed_frame := []\<rparr>)
          (fail_all_pending_requests e c ConnectionLost)
      else Some c)"

definition client_connect ::
    "('t, 'a, 'h) client_env \<Rightarrow> ('t, 'a, 'h) ClientServices \<Rightarrow>
     ('t, 'a, 'h) ClientServices \<times> (MbusError + unit)" where
  "client_connect e c =
     (let (t, r) = transport_connect e (transport c) (config c) in (c\<lparr>transport := t\<rparr>, r))"

definition client_disconnect ::
    "('t, 'a, 'h) client_env \<Rightarrow> ('t, 'a, 'h) ClientServices \<Rightarrow> ('t, 'a, 'h) ClientServices option" where
  "client_disconnect e c =
     map_option
       (\<lambda>c. c\<lparr>rxed_frame := [], next_timeout_check := None,
              transport := fst (transport_disconnect e (transport c))\<rparr>)
       (fail_all_pending_requests e c ConnectionLost)"

definition client_reconnect ::
    "('t, 'a, 'h) client_env \<Rightarrow> ('t, 'a, 'h) ClientServices \<Rightarrow>
     (('t, 'a, 'h) ClientServices \<times> (MbusError + unit)) option" where
  "client_reconnect e c =
     map_option
       (\<lambda>c. client_connect e
          (c\<lparr>rxed_frame := [], next_timeout_check := None,
             transport := fst (transport_disconnect e (transport c))\<rparr>))
       (fail_all_pending_requests e c ConnectionLost)"

section \<open>Timeouts and retries\<close>

datatype LoopAction = Advance | Repeat | NotHandled

record RetryPolicy =
  rp_backoff :: BackoffStrategy
  rp_jitter :: JitterStrategy
  rp_random_fn :: "RetryRandomFn option"

definition update_retries ::
    "u64 \<Rightarrow> u64 \<Rightarrow> u64 \<Rightarrow> 'h ExpectedResponse \<Rightarrow> u64 \<times> 'h ExpectedResponse" where
  "update_retries current_millis timeout new_next_check r =
     (let r = r\<lparr>retries_left := sat_sub (retries_left r) 1,
               retry_attempt_index := sat_add (retry_attempt_index r) 1,
               sent_timestamp := current_millis, next_retry_timestamp := None\<rparr>;
          expires_at = sat_add current_millis timeout
      in (if expires_at < new_next_check then expires_at else new_next_check, r))"

definition send_due_retry ::
    "('t, 'a, 'h) client_env \<Rightarrow> ('t, 'a, 'h) ClientServices \<Rightarrow> usize \<Rightarrow> u64 \<Rightarrow> u64 \<Rightarrow> u64 \<Rightarrow>
     (LoopAction \<times> u64 \<times> ('t, 'a, 'h) ClientServices) result" where
  "send_due_retry e c i current_millis timeout new_next_check =
     bind_res (idx (expected_responses c) i) (\<lambda>r.
     let (t, sent) = transport_send e (transport c) (original_adu r);
         c = c\<lparr>transport := t\<rparr>
     in case sent of
          Inl _ \<Rightarrow>
            bind_res (swap_remove e c i) (\<lambda>(r, c).
            Ok (Repeat, new_next_check,
                request_failed e c (er_txn_id r) (unit_id_from_u8 (er_unit r)) SendFailed))
        | Inr _ \<Rightarrow>
            let (new_next_check, r) = update_retries current_millis timeout new_next_check r in
            bind_res (store (expected_responses c) i r) (\<lambda>rs.
            Ok (Advance, new_next_check, c\<lparr>expected_responses := rs\<rparr>)))"

definition try_process_scheduled_retry ::
    "('t, 'a, 'h) client_env \<Rightarrow> ('t, 'a, 'h) ClientServices \<Rightarrow> usize \<Rightarrow> u64 \<Rightarrow> u64 \<Rightarrow> u64 \<Rightarrow>
     (LoopAction \<times> u64 \<times> ('t, 'a, 'h) ClientServices) result" where
  "try_process_scheduled_retry e c i current_millis timeout new_next_check =
     bind_res (idx (expected_responses c) i) (\<lambda>r.
     case next_retry_timestamp r of
       None \<Rightarrow> Ok (NotHandled, new_next_check, c)
     | Some retry_at \<Rightarrow>
         if current_millis \<ge> retry_at
         then send_due_retry e c i current_millis timeout new_next_check
         else Ok (Advance, if retry_at < new_next_check then retry_at else new_next_check, c))"

definition fail_exhausted_request ::
    "('t, 'a, 'h) client_env \<Rightarrow> ('t, 'a, 'h) ClientServices \<Rightarrow> usize \<Rightarrow> u64 \<Rightarrow>
     (LoopAction \<times> u64 \<times> ('t, 'a, 'h) ClientServices) result" where
  "fail_exhausted_request e c i new_next_check =
     bind_res (swap_remove e c i) (\<lambda>(r, c).
     Ok (Repeat, new_next_check,
         request_failed e c (er_txn_id r) (unit_id_from_u8 (er_unit r)) NoRetriesLeft))"

text \<open>
  \<open>random_calls\<close> counts the calls of the configured random source, which \<open>JitterStrategy::apply\<close>
  makes only when there is a jitter to draw.
\<close>

definition schedule_next_retry ::
    "('t, 'a, 'h) client_env \<Rightarrow> ('t, 'a, 'h) ClientServices \<Rightarrow> usize \<Rightarrow> u64 \<Rightarrow> RetryPolicy \<Rightarrow> u64 \<Rightarrow>
     (LoopAction \<times> u64 \<times> ('t, 'a, 'h) ClientServices) result" where
  "schedule_next_retry e c i current_millis policy new_next_check =
     bind_res (idx (expected_responses c) i) (\<lambda>r.
     let next_attempt = sat_add (retry_attempt_index r) 1;
         base_delay_ms = delay_ms_for_retry (rp_backoff policy) next_attempt;
         random = map_option (\<lambda>f. f (random_calls c)) (rp_random_fn policy);
         retry_delay_ms = ucast (jitter_apply (rp_jitter policy) base_delay_ms random) :: u64;
         retry_at = sat_add current_millis retry_delay_ms
     in bind_res (store (expected_responses c) i (r\<lparr>next_retry_timestamp := Some retry_at\<rparr>)) (\<lambda>rs.
        let c = c\<lparr>expected_responses := rs,
                  random_calls := random_calls c +
                    (if jitter_delta (rp_jitter policy) base_delay_ms \<noteq> None \<and> random \<noteq> None
                     then 1 else 0)\<rparr>
        in if retry_delay_ms = 0 then Ok (Repeat, new_next_check, c)
           else Ok (Advance, if retry_at < new_next_check then retry_at else new_next_check, c)))"

definition try_handle_request_timeout ::
    "('t, 'a, 'h) client_env \<Rightarrow> ('t, 'a, 'h) ClientServices \<Rightarrow> usize \<Rightarrow> u64 \<Rightarrow> u64 \<Rightarrow> RetryPolicy \<Rightarrow> u64 \<Rightarrow>
     (LoopAction \<times> u64 \<times> ('t, 'a, 'h) ClientServices) result" where
  "try_handle_request_timeout e c i current_millis timeout policy new_next_check =
     bind_res (idx (expected_responses c) i) (\<lambda>r.
     let expires_at = sat_add (sent_timestamp r) timeout in
     if current_millis \<le> expires_at then
       Ok (NotHandled, if expires_at < new_next_check then expires_at else new_next_check, c)
     else if retries_left r = 0 then fail_exhausted_request e c i new_next_check
     else schedule_next_retry e c i current_millis policy new_next_check)"

text \<open>The \<open>while i < self.expected_responses.len()\<close> loop of \<open>handle_timeouts\<close>.\<close>

partial_function (option) timeouts_loop ::
    "('t, 'a, 'h) client_env \<Rightarrow> u64 \<Rightarrow> u64 \<Rightarrow> RetryPolicy \<Rightarrow> usize \<Rightarrow> u64 \<Rightarrow> ('t, 'a, 'h) ClientServices \<Rightarrow>
     (u64 \<times> ('t, 'a, 'h) ClientServices) result option" where
  "timeouts_loop e current_millis timeout policy i new_next_check c =
     (if i < length (expected_responses c) then
        case try_process_scheduled_retry e c i current_millis timeout new_next_check of
          Panic \<Rightarrow> Some Panic
        | Err err \<Rightarrow> Some (Err err)
        | Ok (action, check, c') \<Rightarrow>
            if action = Advance then timeouts_loop e current_millis timeout policy (i + 1) check c'
            else if action = Repeat then timeouts_loop e current_millis timeout policy i check c'
            else
              (case try_handle_request_timeout e c' i current_millis timeout policy check of
                 Panic \<Rightarrow> Some Panic
               | Err err \<Rightarrow> Some (Err err)
               | Ok (action, check, c') \<Rightarrow>
                   if action = Repeat then timeouts_loop e current_millis timeout policy i check c'
                   else timeouts_loop e current_millis timeout policy (i + 1) check c')
      else Some (Ok (new_next_check, c)))"

definition retry_policy :: "ModbusConfig \<Rightarrow> RetryPolicy" where
  "retry_policy cfg =
     \<lparr>rp_backoff = config_retry_backoff_strategy cfg, rp_jitter = config_retry_jitter_strategy cfg,
      rp_random_fn = config_retry_random_fn cfg\<rparr>"

definition handle_timeouts ::
    "('t, 'a, 'h) client_env \<Rightarrow> ('t, 'a, 'h) ClientServices \<Rightarrow>
     ('t, 'a, 'h) ClientServices result option" where
  "handle_timeouts e c =
     (if expected_responses c = [] then Some (Ok (c\<lparr>next_timeout_check := None\<rparr>))
      else
        let current_millis = app_current_millis e (app c) in
        if (case next_timeout_check c of None \<Rightarrow> False | Some check_at \<Rightarrow> current_millis < check_at)
        then Some (Ok c)
        else
          (case timeouts_loop e current_millis (response_timeout_ms (config c)) (retry_policy (config c))
             0 (- 1) c of
             None \<Rightarrow> None
           | Some Panic \<Rightarrow> Some Panic
           | Some (Err err) \<Rightarrow> Some (Err err)
           | Some (Ok (check, c)) \<Rightarrow>
               Some (Ok (c\<lparr>next_timeout_check := (if check \<noteq> - 1 then Some check else None)\<rparr>))))"

definition poll ::
    "('t, 'a, 'h) client_env \<Rightarrow> ('t, 'a, 'h) ClientServices \<Rightarrow>
     ('t, 'a, 'h) ClientServices result option" where
  "poll e c =
     (let (t, received) = transport_recv e (transport c);
          c = c\<lparr>transport := t\<rparr>
      in case (case received of
                 Inr frame \<Rightarrow> process_rxed_frame e (append_to_rxed_frame e c frame)
               | Inl err \<Rightarrow> map_option Ok (handle_recv_error e c err)) of
           Some (Ok c) \<Rightarrow> handle_timeouts e c
         | r \<Rightarrow> r)"

end
