(* ===== verification/Framing.thy ===== *)
theory Framing
  imports Adu
begin

text \<open>
  What the frames of \<open>Adu\<close> guarantee. The three encodings satisfy one contract, the locale
  \<open>framing\<close>, interpreted for TCP, RTU and ASCII and for the dispatch on the transport type; with the
  contract \<open>pdu_codec\<close> of the builders and parsing helpers it gives the round trip of requests and
  responses over every transport. The later sections cover malformed input, the lengths derived
  from a receive buffer, and RTU frames on a noisy line.
\<close>

section \<open>The frames on the wire\<close>

text \<open>The bytes of a PDU, and the frames of the three encodings around a PDU's bytes \<open>body\<close>.\<close>

definition pdu_body :: "Pdu \<Rightarrow> bytes" where
  "pdu_body p = function_code_u8 (function_code p) # data p"

definition tcp_frame :: "u16 \<Rightarrow> u8 \<Rightarrow> bytes \<Rightarrow> bytes" where
  "tcp_frame txn uid body =
     u16_to_be_bytes txn @ u16_to_be_bytes 0 @ u16_to_be_bytes (of_nat (length body) + 1) @ uid # body"

definition rtu_frame :: "u8 \<Rightarrow> bytes \<Rightarrow> bytes" where
  "rtu_frame uid body = (uid # body) @ u16_to_le_bytes (crc16 (uid # body))"

definition hex_of :: "bytes \<Rightarrow> bytes" where
  "hex_of bs =
     concat (map (\<lambda>b. [nibble_to_hex (drop_bit 4 b AND 0x0F), nibble_to_hex (b AND 0x0F)]) bs)"

definition ascii_frame :: "u8 \<Rightarrow> bytes \<Rightarrow> bytes" where
  "ascii_frame uid body = 0x3A # hex_of (uid # body @ [lrc (uid # body)]) @ [0x0D, 0x0A]"

fun adu_frame :: "TransportType \<Rightarrow> u16 \<Rightarrow> u8 \<Rightarrow> bytes \<Rightarrow> bytes" where
  "adu_frame StdTcp txn uid body = tcp_frame txn uid body"
| "adu_frame CustomTcp txn uid body = tcp_frame txn uid body"
| "adu_frame (StdSerial Rtu) txn uid body = rtu_frame uid body"
| "adu_frame (CustomSerial Rtu) txn uid body = rtu_frame uid body"
| "adu_frame (StdSerial Ascii) txn uid body = ascii_frame uid body"
| "adu_frame (CustomSerial Ascii) txn uid body = ascii_frame uid body"

lemma length_pdu_body [simp]: "length (pdu_body p) = Suc (length (data p))"
  by (simp add: pdu_body_def)

lemma hex_of_simps [simp]:
  "hex_of [] = []"
  "hex_of (b # bs) = nibble_to_hex (drop_bit 4 b AND 0x0F) # nibble_to_hex (b AND 0x0F) # hex_of bs"
  by (simp_all add: hex_of_def)

lemma length_hex_of [simp]: "length (hex_of bs) = 2 * length bs"
  by (induction bs) simp_all

lemma length_frames:
  "length (tcp_frame txn uid body) = 7 + length body"
  "length (rtu_frame uid body) = 3 + length body"
  "length (ascii_frame uid body) = 7 + 2 * length body"
  by (simp_all add: tcp_frame_def rtu_frame_def ascii_frame_def)

lemma put_hex_ok:
  "heapless_ok hv \<Longrightarrow> length acc + 2 * length bs \<le> 513 \<Longrightarrow>
   put_hex hv acc bs = Ok (acc @ hex_of bs)"
  by (induction bs arbitrary: acc) (simp_all add: Let_def)

lemma message_to_bytes_ok:
  assumes "heapless_ok hv" "pdu_wf p"
  shows "message_to_bytes hv (modbus_message_new (AASlaveAddress (SlaveAddress uid)) p) =
      Ok (uid # pdu_body p)"
    and "message_to_bytes hv (modbus_message_new (AAMbapHeader (mbap_header_new txn len uid)) p) =
      Ok (u16_to_be_bytes txn @ u16_to_be_bytes 0 @ u16_to_be_bytes len @ uid # pdu_body p)"
proof -
  have "length (data p) \<le> 252" using assms(2) by (simp add: pdu_wf_def)
  then show "message_to_bytes hv (modbus_message_new (AASlaveAddress (SlaveAddress uid)) p) =
      Ok (uid # pdu_body p)"
    and "message_to_bytes hv (modbus_message_new (AAMbapHeader (mbap_header_new txn len uid)) p) =
      Ok (u16_to_be_bytes txn @ u16_to_be_bytes 0 @ u16_to_be_bytes len @ uid # pdu_body p)"
    using assms
    by (simp_all add: message_to_bytes_def modbus_message_new_def mbap_header_new_def
        pdu_to_bytes_ok pdu_body_def)
qed

lemma pdu_to_bytes_body: "heapless_ok hv \<Longrightarrow> pdu_wf p \<Longrightarrow> pdu_to_bytes hv p = Ok (pdu_body p)"
  by (simp add: pdu_to_bytes_ok pdu_body_def)

text \<open>\<open>compile_adu_frame\<close> succeeds on every well-formed PDU.\<close>

lemma compile_adu_frame_ok:
  assumes "heapless_ok hv" "pdu_wf p"
  shows "compile_adu_frame hv txn uid p tt = Ok (adu_frame tt txn uid (pdu_body p))"
proof -
  have "length (data p) \<le> 252" using assms(2) by (simp add: pdu_wf_def)
  then show ?thesis
    using assms
    by (cases "(tt, txn, uid, pdu_body p)" rule: adu_frame.cases)
      (simp_all add: compile_adu_frame_def pdu_to_bytes_body message_to_bytes_ok
        tcp_frame_def rtu_frame_def ascii_frame_def to_ascii_bytes_def put_hex_ok)
qed

section \<open>Decoding what was encoded\<close>

lemma hex_nibble_roundtrip:
  assumes "(n :: u8) < 16"
  shows "hex_char_to_nibble (nibble_to_hex n) = Ok n"
proof (cases "n \<le> 9")
  case True
  then have "unat (0x30 + n) = 48 + unat n"
    by (subst unat_add_no_overflow) (simp_all add: word_le_nat_alt)
  with True show ?thesis
    by (simp add: nibble_to_hex_def hex_char_to_nibble_def word_le_nat_alt)
next
  case False
  then have "unat (0x37 + n) = 55 + unat n"
    using assms by (subst unat_add_no_overflow) (simp_all add: word_less_nat_alt)
  moreover have "(0x41 :: u8) + (n - 10) = 0x37 + n" by simp
  ultimately show ?thesis
    using False assms
    by (simp add: nibble_to_hex_def hex_char_to_nibble_def word_le_nat_alt word_less_nat_alt)
qed

lemma and_15_less: "(b :: u8) AND 0x0F < 16"
proof -
  have "b AND mask 4 < 2 ^ 4" by (rule and_mask_less') simp
  then show ?thesis by (simp add: mask_numeral)
qed

lemma hex_pair_roundtrip:
  "hex_pair_to_byte (nibble_to_hex (drop_bit 4 b AND 0x0F)) (nibble_to_hex (b AND 0x0F)) = Ok b"
proof -
  have 15: "(0x0F :: u8) = mask 4" by (simp add: mask_numeral)
  have "push_bit 4 (drop_bit 4 b AND 0x0F) OR (b AND 0x0F) = b"
    unfolding 15 by (rule bit_word_eqI) (auto simp: bit_simps)
  then show ?thesis
    by (simp add: hex_pair_to_byte_def hex_nibble_roundtrip and_15_less)
qed

lemma take_hex_ok:
  "heapless_ok hv \<Longrightarrow> length acc + length bs \<le> 260 \<Longrightarrow> take_hex hv acc (hex_of bs) = Ok (acc @ bs)"
  by (induction bs arbitrary: acc) (simp_all add: hex_pair_roundtrip)

lemma u16_from_be_0 [simp]: "u16_from_be_bytes 0 0 = 0"
  by (simp add: u16_from_be_zero_iff)

lemma unat_mbap_length: "length body \<le> 253 \<Longrightarrow> unat (of_nat (length body) + 1 :: u16) = length body + 1"
  using unat_of_nat_u16 [of "length body + 1"] by (simp add: add.commute)

lemma message_from_bytes_tcp:
  assumes "heapless_ok hv" "body \<noteq> []" "length body \<le> 253"
  shows "message_from_bytes hv (tcp_frame txn uid body @ rest) =
    bind_res (pdu_from_bytes hv body) (\<lambda>p.
      Ok (modbus_message_new (AAMbapHeader (mbap_header_new txn (of_nat (length body) + 1) uid)) p))"
proof -
  define len :: u16 where "len = of_nat (length body) + 1"
  have len: "unat len = length body + 1"
    using unat_mbap_length assms(3) by (simp add: len_def)
  have "0 < length body" using assms(2) by simp
  then show ?thesis
    using assms
    by (simp add: message_from_bytes_def tcp_frame_def len_def [symmetric] Let_def be16_at_def
        u16_to_be_bytes_def be_simps len mbap_header_new_def drop_take
        u16_from_be_0)
qed

lemma from_rtu_bytes_rtu:
  assumes "heapless_ok hv" "body \<noteq> []" "uid \<le> 247"
  shows "from_rtu_bytes hv (rtu_frame uid body) =
    bind_res (pdu_from_bytes hv body) (\<lambda>p.
      Ok (modbus_message_new (AASlaveAddress (SlaveAddress uid)) p))"
proof -
  have "0 < length body" using assms(2) by simp
  then show ?thesis
    using assms
    by (simp add: from_rtu_bytes_def rtu_frame_def Let_def u16_to_le_bytes_def be_simps
        nth_append slave_address_new_def)
qed

lemma from_ascii_bytes_ascii:
  assumes "heapless_ok hv" "body \<noteq> []" "length body \<le> 253" "uid \<le> 247"
  shows "from_ascii_bytes hv (ascii_frame uid body) =
    bind_res (pdu_from_bytes hv body) (\<lambda>p.
      Ok (modbus_message_new (AASlaveAddress (SlaveAddress uid)) p))"
proof -
  let ?bin = "uid # body @ [lrc (uid # body)]"
  have "0 < length body" using assms(2) by simp
  moreover have "take_hex hv [] (hex_of ?bin) = Ok ([] @ ?bin)"
    by (rule take_hex_ok) (use assms in auto)
  ultimately show ?thesis
    using assms unfolding ascii_frame_def
    by (simp add: from_ascii_bytes_def Let_def nth_append slave_address_new_def)
qed

section \<open>Encodings as a contract\<close>

text \<open>
  What an encoding promises to the layers above: a frame around the bytes of a PDU decodes to the
  PDU these bytes stand for, with the address of the frame, for every address the encoding
  accepts, and has a bounded size.
\<close>

locale framing =
  fixes addressable :: "u8 \<Rightarrow> bool"
    and frame :: "u16 \<Rightarrow> u8 \<Rightarrow> bytes \<Rightarrow> bytes"
    and decode :: "u8 heapless \<Rightarrow> bytes \<Rightarrow> ModbusMessage result"
    and address_of :: "u16 \<Rightarrow> u8 \<Rightarrow> bytes \<Rightarrow> AdditionalAddress"
    and bound :: nat
  assumes decode_frame:
    "heapless_ok hv \<Longrightarrow> addressable uid \<Longrightarrow> body \<noteq> [] \<Longrightarrow> length body \<le> 253 \<Longrightarrow>
     decode hv (frame txn uid body) =
     bind_res (pdu_from_bytes hv body) (\<lambda>p. Ok (modbus_message_new (address_of txn uid body) p))"
    and frame_bound: "length body \<le> 253 \<Longrightarrow> length (frame txn uid body) \<le> bound"
begin

text \<open>A PDU without exception bit comes back unchanged.\<close>

lemma decode_normal:
  assumes "heapless_ok hv" "addressable uid" "pdu_wf p" "normal_code (function_code p)"
    "error_code p = None"
  shows "decode hv (frame txn uid (pdu_body p)) =
    Ok (modbus_message_new (address_of txn uid (pdu_body p)) p)"
proof -
  have "pdu_body p \<noteq> []" "length (pdu_body p) \<le> 253"
    using assms(3) by (simp_all add: pdu_wf_def pdu_body_def)
  moreover have "pdu_from_bytes hv (pdu_body p) = Ok p"
    using pdu_wire_normal [OF assms(1,3,4,5)] by (simp add: pdu_to_bytes_body assms)
  ultimately show ?thesis
    by (simp add: decode_frame assms)
qed

text \<open>An exception response comes back with the function code of the request and the code.\<close>

lemma decode_exception:
  assumes "heapless_ok hv" "addressable uid" "exception_response fc = Some e"
  shows "decode hv (frame txn uid [function_code_u8 e, c]) =
    Ok (modbus_message_new (address_of txn uid [function_code_u8 e, c])
      \<lparr>function_code = fc, error_code = Some c, data = [c], data_len = 1\<rparr>)"
  using assms exception_code_byte [OF assms(3)] by (simp add: decode_frame pdu_from_bytes_eq)

text \<open>Frames of different PDUs differ.\<close>

lemma frame_normal_inj:
  assumes "addressable uid" "addressable uid'" "frame txn uid (pdu_body p) = frame txn' uid' (pdu_body q)"
    "pdu_wf p" "normal_code (function_code p)" "error_code p = None"
    "pdu_wf q" "normal_code (function_code q)" "error_code q = None"
  shows "p = q \<and> address_of txn uid (pdu_body p) = address_of txn' uid' (pdu_body q)"
  using decode_normal [OF bounded_vec_ok assms(1,4-6), of txn]
    decode_normal [OF bounded_vec_ok assms(2,7-9), of txn'] assms(3)
  by (auto simp: modbus_message_new_def)

end

definition mbap_of :: "u16 \<Rightarrow> u8 \<Rightarrow> bytes \<Rightarrow> AdditionalAddress" where
  "mbap_of txn uid body = AAMbapHeader (mbap_header_new txn (of_nat (length body) + 1) uid)"

interpretation tcp_framing: framing "\<lambda>_. True" tcp_frame message_from_bytes mbap_of 260
proof
  fix hv :: "u8 heapless" and uid body txn
  assume "heapless_ok hv" "body \<noteq> []" "length (body :: bytes) \<le> 253"
  then show "message_from_bytes hv (tcp_frame txn uid body) =
     bind_res (pdu_from_bytes hv body) (\<lambda>p. Ok (modbus_message_new (mbap_of txn uid body) p))"
    using message_from_bytes_tcp [of hv body txn uid "[]"] by (simp add: mbap_of_def)
qed (simp add: length_frames)

interpretation rtu_framing: framing "\<lambda>uid. uid \<le> 247" "\<lambda>_. rtu_frame" from_rtu_bytes
  "\<lambda>_ uid _. AASlaveAddress (SlaveAddress uid)" 256
  by unfold_locales (simp_all add: from_rtu_bytes_rtu length_frames)

interpretation ascii_framing: framing "\<lambda>uid. uid \<le> 247" "\<lambda>_. ascii_frame" from_ascii_bytes
  "\<lambda>_ uid _. AASlaveAddress (SlaveAddress uid)" 513
  by unfold_locales (simp_all add: from_ascii_bytes_ascii length_frames)

text \<open>The dispatch on the transport type keeps the contract of the encoding it selects.\<close>

definition adu_addressable :: "TransportType \<Rightarrow> u8 \<Rightarrow> bool" where
  "adu_addressable tt uid \<longleftrightarrow> is_tcp_type tt \<or> uid \<le> 247"

definition adu_address :: "TransportType \<Rightarrow> u16 \<Rightarrow> u8 \<Rightarrow> bytes \<Rightarrow> AdditionalAddress" where
  "adu_address tt txn uid body =
     (if is_tcp_type tt then mbap_of txn uid body else AASlaveAddress (SlaveAddress uid))"

fun adu_bound :: "TransportType \<Rightarrow> nat" where
  "adu_bound StdTcp = 260"
| "adu_bound CustomTcp = 260"
| "adu_bound (StdSerial Rtu) = 256"
| "adu_bound (CustomSerial Rtu) = 256"
| "adu_bound (StdSerial Ascii) = 513"
| "adu_bound (CustomSerial Ascii) = 513"

interpretation adu_framing: framing "adu_addressable tt" "adu_frame tt"
  "\<lambda>hv f. decompile_adu_frame hv f tt" "adu_address tt" "adu_bound tt" for tt
proof
  fix hv :: "u8 heapless" and uid body txn
  assume a: "heapless_ok hv" "adu_addressable tt uid" "body \<noteq> []" "length (body :: bytes) \<le> 253"
  show "decompile_adu_frame hv (adu_frame tt txn uid body) tt =
     bind_res (pdu_from_bytes hv body) (\<lambda>p. Ok (modbus_message_new (adu_address tt txn uid body) p))"
    by (cases tt rule: adu_bound.cases)
      (use a in \<open>simp_all add: decompile_adu_frame_def adu_address_def adu_addressable_def
        tcp_framing.decode_frame rtu_framing.decode_frame ascii_framing.decode_frame\<close>)
next
  fix uid txn and body :: bytes
  assume "length body \<le> 253"
  then show "length (adu_frame tt txn uid body) \<le> adu_bound tt"
    by (cases tt rule: adu_bound.cases) (simp_all add: length_frames)
qed

section \<open>Requests over the wire\<close>

text \<open>
  A request from the client to the server: the PDU is framed for the transport, the frame is
  decoded at the other end, and the parsing helper reads the fields of the decoded PDU.
\<close>

definition over_wire ::
    "u8 heapless \<Rightarrow> TransportType \<Rightarrow> u16 \<Rightarrow> u8 \<Rightarrow> Pdu result \<Rightarrow> (Pdu \<Rightarrow> 'v result) \<Rightarrow> 'v result" where
  "over_wire hv tt txn uid r parse =
     bind_res r (\<lambda>p.
     bind_res (compile_adu_frame hv txn uid p tt) (\<lambda>f.
     bind_res (decompile_adu_frame hv f tt) (\<lambda>m. parse (pdu m))))"

lemma over_wire_normal:
  assumes "heapless_ok hv" "adu_addressable tt uid" "pdu_wf p" "normal_code (function_code p)"
    "error_code p = None"
  shows "over_wire hv tt txn uid (Ok p) parse = parse p"
  using adu_framing.decode_normal [OF assms] assms
  by (simp add: over_wire_def compile_adu_frame_ok modbus_message_new_def)

context pdu_codec
begin

lemma over_wire_view:
  assumes "heapless_ok hv" "adu_addressable tt uid" "normal_code fc" "fits x"
  shows "over_wire hv tt txn uid (build hv x) parse = Ok (view x)"
proof -
  obtain p where p: "build hv x = Ok p" "function_code p = fc" "error_code p = None"
    using build_fits [OF assms(1,4)] by simp
  then show ?thesis
    using built_wf [OF assms(1) p(1)] built_parse [OF assms(1) p(1)] assms
    by (simp add: over_wire_normal)
qed

end

text \<open>
  C26: For every transport and every address it can carry, what the server's parsing helper reads
  from a request is what the client's builder was given: read windows, single and multiple writes,
  mask writes, read/write-multiple requests, diagnostics words, encapsulated-interface payloads and
  FIFO pointers. The payload bounds are the ones the builders accept.
\<close>

theorem requests_over_wire:
  assumes "heapless_ok hv" "adu_addressable tt uid" "normal_code fc"
    and "length vs \<le> 247" "length ws \<le> 243" "length ds \<le> 125" "length ms \<le> 251"
  shows "over_wire hv tt txn uid (build_read_window hv fc a q) read_window =
      Ok \<lparr>rw_address = a, rw_quantity = q\<rparr> \<and>
    over_wire hv tt txn uid (build_write_single_u16 hv fc a v) write_single_u16_fields =
      Ok \<lparr>ws_address = a, ws_value = v\<rparr> \<and>
    over_wire hv tt txn uid (build_write_multiple hv fc a q vs) write_multiple_fields =
      Ok \<lparr>wm_address = a, wm_quantity = q, wm_byte_count = of_nat (length vs), wm_values = vs\<rparr> \<and>
    over_wire hv tt txn uid (build_mask_write_register hv a am om) mask_write_register_fields =
      Ok \<lparr>mw_address = a, mw_and_mask = am, mw_or_mask = om\<rparr> \<and>
    over_wire hv tt txn uid (build_read_write_multiple hv a q wa wq ws) read_write_multiple_fields =
      Ok \<lparr>rwm_read_address = a, rwm_read_quantity = q, rwm_write_address = wa,
          rwm_write_quantity = wq, rwm_write_byte_count = of_nat (length ws), rwm_write_values = ws\<rparr> \<and>
    over_wire hv tt txn uid (build_sub_function hv fc sf ds) sub_function_payload =
      Ok \<lparr>sf_sub_function = sf, sf_payload = words_bytes ds\<rparr> \<and>
    over_wire hv tt txn uid (build_mei_type hv fc t ms) mei_type_payload =
      Ok \<lparr>mei_type_byte = t, mei_payload = ms\<rparr> \<and>
    over_wire hv tt txn uid (build_u16_payload hv fc v) fifo_pointer = Ok v"
  using rw_codec.over_wire_view [OF assms(1-3), where x = "(a, q)"]
    ws_codec.over_wire_view [OF assms(1-3), where x = "(a, v)"]
    wm_codec.over_wire_view [OF assms(1-3), where x = "(a, q, vs)"]
    mw_codec.over_wire_view [OF assms(1,2), where x = "(a, am, om)"]
    rwm_codec.over_wire_view [OF assms(1,2), where x = "(a, q, wa, wq, ws)"]
    sf_codec.over_wire_view [OF assms(1-3), where x = "(sf, ds)"]
    mei_codec.over_wire_view [OF assms(1-3), where x = "(t, ms)"]
    ptr_codec.over_wire_view [OF assms(1-3), where x = v] assms(4-)
  by (simp add: normal_code_def)

theorem requests_over_wire_witness:
  "over_wire bounded_vec (StdSerial Rtu) 7 17
     (build_write_multiple bounded_vec WriteMultipleRegisters 1 2 [0, 10, 1, 2]) write_multiple_fields =
   Ok \<lparr>wm_address = 1, wm_quantity = 2, wm_byte_count = 4, wm_values = [0, 10, 1, 2]\<rparr>"
proof -
  have "adu_addressable (StdSerial Rtu) 17" "normal_code WriteMultipleRegisters"
    by (simp_all add: adu_addressable_def normal_code_def)
  from requests_over_wire [OF bounded_vec_ok this, of "[0, 10, 1, 2]" "[]" "[]" "[]"]
  show ?thesis by simp
qed

section \<open>Round trips through the frames\<close>

text \<open>
  A well-formed PDU with a request or response code compiles to a frame for every transport,
  within the transport's maximal frame size (260 bytes for TCP, 256 for RTU, 513 for ASCII), and the
  frame decompiles to a message with the same PDU, unit identifier and, on TCP, transaction.
\<close>

theorem adu_roundtrip:
  assumes "heapless_ok hv" "pdu_wf p" "normal_code (function_code p)" "error_code p = None"
    and "adu_addressable tt uid"
  shows "\<exists>f m. compile_adu_frame hv txn uid p tt = Ok f \<and> length f \<le> adu_bound tt \<and>
    decompile_adu_frame hv f tt = Ok m \<and> pdu m = p \<and>
    message_transaction_id m = (if is_tcp_type tt then txn else 0) \<and>
    (case additional_address m of AAMbapHeader h \<Rightarrow> unit_id h | AASlaveAddress a \<Rightarrow> slave_address a) = uid"
proof -
  have "length (pdu_body p) \<le> 253" using assms(2) by (simp add: pdu_wf_def)
  then have "length (adu_frame tt txn uid (pdu_body p)) \<le> adu_bound tt"
    by (rule adu_framing.frame_bound)
  moreover have "decompile_adu_frame hv (adu_frame tt txn uid (pdu_body p)) tt =
      Ok (modbus_message_new (adu_address tt txn uid (pdu_body p)) p)"
    using adu_framing.decode_normal assms by blast
  moreover have "compile_adu_frame hv txn uid p tt = Ok (adu_frame tt txn uid (pdu_body p))"
    using assms by (simp add: compile_adu_frame_ok)
  ultimately show ?thesis
    by (auto simp: modbus_message_new_def message_transaction_id_def adu_address_def mbap_of_def
        mbap_header_new_def)
qed

theorem adu_roundtrip_witness:
  "\<exists>f m. compile_adu_frame bounded_vec 9 255 (pdu_new ReadCoils [0, 1, 0, 8] 4) StdTcp = Ok f \<and>
    length f \<le> 260 \<and> decompile_adu_frame bounded_vec f StdTcp = Ok m \<and>
    pdu m = pdu_new ReadCoils [0, 1, 0, 8] 4"
proof -
  have "pdu_wf (pdu_new ReadCoils [0, 1, 0, 8] 4)" "normal_code ReadCoils" "adu_addressable StdTcp 255"
    by (simp_all add: pdu_wf_def normal_code_def adu_addressable_def)
  then show ?thesis
    using adu_roundtrip [OF bounded_vec_ok, of "pdu_new ReadCoils [0, 1, 0, 8] 4" StdTcp 255 9]
    by auto
qed

lemma build_exception_adu_ok:
  assumes "heapless_ok hv" "exception_response fc = Some x"
  shows "build_exception_adu hv txn uid fc ec tt =
    Ok (adu_frame tt txn (uid_get uid) [function_code_u8 x, exception_code_u8 ec])"
  using compile_adu_frame_ok [OF assms(1) pdu_wf_new, of "[exception_code_u8 ec]" 1 txn "uid_get uid" x tt]
  by (simp add: build_exception_adu_def assms build_byte_payload_def pdu_body_def)

text \<open>
  The exception response the server builds for a request code and an exception code is decoded
  by the client, on every transport, to the code of the request with that exception code.
\<close>

theorem exception_roundtrip:
  assumes "heapless_ok hv" "normal_code fc" "adu_addressable tt (uid_get uid)"
  shows "\<exists>f m. build_exception_adu hv txn uid fc ec tt = Ok f \<and> decompile_adu_frame hv f tt = Ok m \<and>
    message_function_code m = fc \<and> error_code (pdu m) = Some (exception_code_u8 ec) \<and>
    message_transaction_id m = (if is_tcp_type tt then txn else 0)"
proof -
  let ?c = "exception_code_u8 ec"
  obtain e where e: "exception_response fc = Some e"
    using assms(2) by (auto simp: normal_code_def)
  let ?f = "adu_frame tt txn (uid_get uid) [function_code_u8 e, ?c]"
  have "build_exception_adu hv txn uid fc ec tt = Ok ?f"
    by (rule build_exception_adu_ok [OF assms(1) e])
  moreover note adu_framing.decode_exception [OF assms(1,3) e, of txn ?c]
  ultimately show ?thesis
    by (auto simp: modbus_message_new_def message_function_code_def message_transaction_id_def
        adu_address_def mbap_of_def mbap_header_new_def)
qed

theorem exception_roundtrip_witness:
  "\<exists>f m. build_exception_adu bounded_vec 3 (UnitIdOrSlaveAddr 1) ReadHoldingRegisters
      IllegalDataAddress (StdSerial Ascii) = Ok f \<and>
    decompile_adu_frame bounded_vec f (StdSerial Ascii) = Ok m \<and>
    message_function_code m = ReadHoldingRegisters \<and> error_code (pdu m) = Some 2"
  using exception_roundtrip [OF bounded_vec_ok, of ReadHoldingRegisters "StdSerial Ascii"
      "UnitIdOrSlaveAddr 1" 3 IllegalDataAddress]
  by (auto simp: normal_code_def adu_addressable_def)

text \<open>
  A gateway forwards a response by compiling the PDU it decoded. For an exception response the
  decoded PDU carries the code of the request, so that the frame it forwards is not the frame it
  received: it is the frame of a normal response whose payload is the exception code.
\<close>

theorem relayed_exception_becomes_normal:
  assumes "heapless_ok hv" "exception_response fc = Some e" "adu_addressable tt uid"
    and "adu_addressable tt' uid'"
  shows "\<exists>m f m'. decompile_adu_frame hv (adu_frame tt txn uid [function_code_u8 e, c]) tt = Ok m \<and>
    error_code (pdu m) = Some c \<and> compile_adu_frame hv txn' uid' (pdu m) tt' = Ok f \<and>
    decompile_adu_frame hv f tt' = Ok m' \<and> message_function_code m' = fc \<and>
    error_code (pdu m') = None \<and> message_data m' = [c]"
proof -
  let ?p = "\<lparr>function_code = fc, error_code = Some c, data = [c], data_len = 1\<rparr>"
  have p: "pdu_wf ?p" "normal_code fc"
    using assms(2) by (simp_all add: pdu_wf_def normal_code_def)
  have "decompile_adu_frame hv (adu_frame tt' txn' uid' (pdu_body ?p)) tt' =
      Ok (modbus_message_new (adu_address tt' txn' uid' (pdu_body ?p)) (?p\<lparr>error_code := None\<rparr>))"
    using adu_framing.decode_normal [OF assms(1,4), of "?p\<lparr>error_code := None\<rparr>" txn'] p
    by (simp add: pdu_wf_def pdu_body_def)
  then show ?thesis
    using adu_framing.decode_exception [OF assms(1,3,2), of txn c]
      compile_adu_frame_ok [OF assms(1) p(1), of txn' uid' tt']
    by (auto simp: modbus_message_new_def message_function_code_def message_data_def)
qed

theorem relayed_exception_becomes_normal_witness:
  "\<exists>m f m'. decompile_adu_frame bounded_vec (adu_frame (StdSerial Rtu) 0 1 [0x83, 2]) (StdSerial Rtu) = Ok m \<and>
    error_code (pdu m) = Some 2 \<and> compile_adu_frame bounded_vec 5 1 (pdu m) StdTcp = Ok f \<and>
    decompile_adu_frame bounded_vec f StdTcp = Ok m' \<and>
    message_function_code m' = ReadHoldingRegisters \<and> error_code (pdu m') = None \<and> message_data m' = [2]"
  using relayed_exception_becomes_normal [OF bounded_vec_ok, of ReadHoldingRegisters
      ReadHoldingRegistersException "StdSerial Rtu" 1 StdTcp 1 0 2 5]
  by (simp add: adu_addressable_def)

section \<open>Malformed input\<close>

lemma hex_char_to_nibble_no_panic [simp]: "hex_char_to_nibble c \<noteq> Panic"
  by (simp add: hex_char_to_nibble_def)

lemma take_hex_no_panic: "heapless_ok hv \<Longrightarrow> even (length cs) \<Longrightarrow> take_hex hv acc cs \<noteq> Panic"
  by (induction hv acc cs rule: take_hex.induct) (auto simp: panic_iffs hex_pair_to_byte_def)

lemma from_rtu_bytes_no_panic: "heapless_ok hv \<Longrightarrow> from_rtu_bytes hv f \<noteq> Panic"
  by (auto simp: from_rtu_bytes_def Let_def panic_iffs pdu_from_bytes_no_panic)

lemma from_ascii_bytes_no_panic: "heapless_ok hv \<Longrightarrow> from_ascii_bytes hv f \<noteq> Panic"
  by (auto simp: from_ascii_bytes_def Let_def panic_iffs pdu_from_bytes_no_panic take_hex_no_panic
      even_iff_mod_2_eq_zero)

lemma message_from_bytes_Panic_iff:
  "heapless_ok hv \<Longrightarrow> message_from_bytes hv bs = Panic \<longleftrightarrow>
   8 \<le> length bs \<and> bs ! 2 = 0 \<and> bs ! 3 = 0 \<and> bs ! 4 = 0 \<and> bs ! 5 = 0"
  by (auto simp: message_from_bytes_def Let_def panic_iffs pdu_from_bytes_no_panic
      u16_from_be_zero_iff Suc_le_eq unat_gt_0 slice_from_def split: if_splits)

lemma decompile_Panic_iff:
  "heapless_ok hv \<Longrightarrow> decompile_adu_frame hv bs tt = Panic \<longleftrightarrow>
   is_tcp_type tt \<and> 8 \<le> length bs \<and> bs ! 2 = 0 \<and> bs ! 3 = 0 \<and> bs ! 4 = 0 \<and> bs ! 5 = 0"
  by (cases tt rule: adu_bound.cases)
    (simp_all add: decompile_adu_frame_def message_from_bytes_Panic_iff from_rtu_bytes_no_panic
      from_ascii_bytes_no_panic)

text \<open>
  Decompiling never panics on an RTU or ASCII transport, whatever the bytes. On TCP it panics on
  exactly the inputs of eight bytes or more with protocol identifier 0 and a length field of 0.
\<close>

theorem decompile_panics_iff:
  "heapless_ok hv \<Longrightarrow> decompile_adu_frame hv bs tt = Panic \<longleftrightarrow>
   is_tcp_type tt \<and> 8 \<le> length bs \<and>
     u16_from_be_bytes (bs ! 2) (bs ! 3) = 0 \<and> u16_from_be_bytes (bs ! 4) (bs ! 5) = 0"
  by (auto simp: decompile_Panic_iff u16_from_be_zero_iff)

theorem decompile_panics_iff_witness:
  "decompile_adu_frame bounded_vec [0, 1, 0, 0, 0, 0, 1, 3] StdTcp = Panic"
  using decompile_panics_iff [OF bounded_vec_ok, of "[0, 1, 0, 0, 0, 0, 1, 3]" StdTcp] by simp

section \<open>The length of the next frame\<close>

lemma find_Some_in: "List.find P xs = Some x \<Longrightarrow> x \<in> set xs \<and> P x"
  by (induction xs) (auto split: if_splits)

lemma push_candidate_eq [simp]:
  "heapless_ok hc \<Longrightarrow> push_candidate hc cs x = (if length cs < 4 then cs @ [x] else cs)"
  by (simp add: push_candidate_def)

lemma pick_length_pos: "(\<forall>c \<in> set cs. 0 < c) \<Longrightarrow> pick_length f (cs, n) = Some k \<Longrightarrow> 0 < k"
  by (auto simp: pick_length_def Let_def dest!: find_Some_in split: option.splits if_splits)

lemma scan_crc_pos: "scan_crc f = Some k \<Longrightarrow> 4 \<le> k"
  by (auto simp: scan_crc_def dest!: find_Some_in)

lemma add_dyn_eq:
  "add_dyn hc f (cs, n) offset base =
   (if offset < length f then (push_candidate hc cs (base + unat (f ! offset)), n)
    else (cs, min n (offset + 1)))"
  by (simp add: add_dyn_def)

lemma get_byte_count_pos:
  assumes "heapless_ok hc" "get_byte_count_from_frame hc f fc = Some k"
  shows "0 < k"
  using assms
  by (auto simp: get_byte_count_from_frame_def add_dyn_eq Let_def dest!: scan_crc_pos
      elim!: pick_length_pos [rotated] split: if_splits)

lemma position_Some: "position x bs = Some i \<Longrightarrow> i < length bs \<and> bs ! i = x"
  by (induction bs arbitrary: i) (auto split: if_splits)

lemma position_append: "x \<notin> set xs \<Longrightarrow> position x (xs @ x # ys) = Some (length xs)"
  by (induction xs) auto

lemma derived_length_pos:
  "heapless_ok hc \<Longrightarrow> derive_length_from_bytes hc f tt = Some n \<Longrightarrow> 0 < n"
  by (cases tt rule: adu_bound.cases)
    (auto simp: derive_length_from_bytes_def Let_def usize_MAX_def
      dest: get_byte_count_pos split: if_splits)

lemma derived_slice_no_panic:
  assumes "heapless_ok hv" "derive_length_from_bytes hc f tt = Some n" "n \<le> length f"
  shows "decompile_adu_frame hv (take n f) tt \<noteq> Panic"
proof
  assume "decompile_adu_frame hv (take n f) tt = Panic"
  then have tcp: "is_tcp_type tt" "8 \<le> n" "f ! 2 = 0" "f ! 3 = 0" "f ! 4 = 0" "f ! 5 = 0"
    using assms(3) by (auto simp: decompile_Panic_iff [OF assms(1)])
  then have "derive_length_from_bytes hc f tt = Some 6"
    using assms(3) by (cases tt) (simp_all add: derive_length_from_bytes_def)
  then show False using assms(2) tcp(2) by simp
qed

text \<open>
  The length derived for the front of a buffer is never 0, so that consuming it shrinks the
  buffer; and when the buffer holds that many bytes, decompiling exactly them does not panic.
\<close>

theorem derived_length_safe:
  assumes "heapless_ok hv" "heapless_ok hc" "derive_length_from_bytes hc f tt = Some n"
  shows "0 < n \<and> (n \<le> length f \<longrightarrow> decompile_adu_frame hv (take n f) tt \<noteq> Panic)"
  using derived_length_pos [OF assms(2,3)] derived_slice_no_panic [OF assms(1,3)] by blast

theorem derived_length_safe_witness:
  "derive_length_from_bytes bounded_vec [0, 1, 0, 0, 0, 0, 1, 3] StdTcp = Some 6 \<and>
   decompile_adu_frame bounded_vec (take 6 [0, 1, 0, 0, 0, 0, 1, 3]) StdTcp \<noteq> Panic"
proof -
  have "derive_length_from_bytes bounded_vec [0, 1, 0, 0, 0, 0, 1, 3] StdTcp = Some 6"
    by (simp add: derive_length_from_bytes_def)
  with derived_length_safe [OF bounded_vec_ok bounded_vec_ok this] show ?thesis by simp
qed

lemma nibble_no_lf [simp]: "nibble_to_hex (n AND 0x0F) \<noteq> 0x0A"
  using hex_nibble_roundtrip [OF and_15_less [of n]] by (auto simp: hex_char_to_nibble_def)

lemma hex_no_lf [simp]: "0x0A \<notin> set (hex_of bs)"
  by (induction bs) (auto dest: sym)

lemma derive_length_frame:
  assumes "heapless_ok hc" "tt \<notin> {StdSerial Rtu, CustomSerial Rtu}" "body \<noteq> []" "length body \<le> 253"
  shows "derive_length_from_bytes hc (adu_frame tt txn uid body @ rest) tt =
    Some (length (adu_frame tt txn uid body))"
proof -
  have "position 0x0A (ascii_frame uid body @ rest) = Some (length (ascii_frame uid body) - 1)"
    using position_append [of "0x0A" "0x3A # hex_of (uid # body @ [lrc (uid # body)]) @ [0x0D]"]
    by (simp add: ascii_frame_def)
  moreover have "derive_length_from_bytes hc (tcp_frame txn uid body @ rest) StdTcp =
      Some (length (tcp_frame txn uid body))"
    using unat_mbap_length [OF assms(4)]
    by (simp add: derive_length_from_bytes_def tcp_frame_def u16_to_be_bytes_def be_simps)
  ultimately show ?thesis
    using assms(2,3)
    by (cases tt rule: adu_bound.cases; cases body)
      (auto simp: derive_length_from_bytes_def length_frames)
qed

text \<open>
  In a stream of TCP or ASCII frames, the length derived at the front of the buffer is the
  length of the first frame, whatever follows it.
\<close>

theorem derived_length_of_frame:
  assumes "heapless_ok hc" "tt \<notin> {StdSerial Rtu, CustomSerial Rtu}" "body \<noteq> []" "length body \<le> 253"
  shows "derive_length_from_bytes hc (adu_frame tt txn uid body @ rest) tt =
    Some (length (adu_frame tt txn uid body))"
  using assms by (rule derive_length_frame)

theorem derived_length_of_frame_witness:
  "derive_length_from_bytes bounded_vec (adu_frame StdTcp 5 1 [3, 0, 0, 0, 2] @ [0, 6, 0]) StdTcp = Some 12"
  using derived_length_of_frame [OF bounded_vec_ok, of StdTcp "[3, 0, 0, 0, 2]" 5 1 "[0, 6, 0]"]
  by (simp add: length_frames)

section \<open>RTU frames on a noisy line\<close>

lemma rtu_checksum_iff:
  assumes "2 \<le> length f"
  shows "crc16 (take (length f - 2) f) =
    u16_from_le_bytes (f ! (length f - 2)) (f ! (length f - 1)) \<longleftrightarrow> crc16 f = 0"
proof -
  obtain g h where "f = g @ [h]" using assms by (cases f rule: rev_cases) auto
  moreover from this obtain d l where "g = d @ [l]" using assms by (cases g rule: rev_cases) auto
  ultimately have "f = d @ [l, h]" by simp
  then show ?thesis by (simp add: crc16_residue nth_append)
qed

lemma from_rtu_checksum_error:
  "4 \<le> length f \<Longrightarrow> crc16 f \<noteq> 0 \<Longrightarrow> from_rtu_bytes hv f = Err ChecksumError"
  using rtu_checksum_iff [of f] by (simp add: from_rtu_bytes_def Let_def Suc_diff_Suc numeral_2_eq_2)

lemma rtu_frame_residue: "crc16 (rtu_frame uid body) = 0"
  using crc16_residue [of "uid # body"] by (simp add: rtu_frame_def u16_to_le_bytes_def be_simps)

text \<open>
  C27: When one byte, or two adjacent bytes, of an RTU frame are changed in any way, in the address,
  the PDU or the CRC itself, decompiling the frame reports a checksum error.
\<close>

theorem rtu_corruption_detected:
  assumes "rtu_frame uid body = xs @ a # b # ys" "body \<noteq> []" "(a, b) \<noteq> (a', b')"
    and "tt \<in> {StdSerial Rtu, CustomSerial Rtu}"
  shows "decompile_adu_frame hv (xs @ a' # b' # ys) tt = Err ChecksumError"
proof -
  have "crc16 (xs @ a # b # ys) = 0"
    using rtu_frame_residue [of uid body] by (simp add: assms(1))
  then have "crc16 (xs @ a' # b' # ys) \<noteq> 0"
    using crc16_detects_two_bytes [OF assms(3)] by metis
  moreover have "4 \<le> length (xs @ a' # b' # ys)"
    using arg_cong [OF assms(1), of length] assms(2)
    by (cases body) (simp_all add: length_frames)
  ultimately have "from_rtu_bytes hv (xs @ a' # b' # ys) = Err ChecksumError"
    by (rule from_rtu_checksum_error [rotated])
  then show ?thesis using assms(4) by (auto simp: decompile_adu_frame_def)
qed

theorem rtu_corruption_detected_witness:
  "decompile_adu_frame bounded_vec [1, 3, 0, 0, 4, 9, 0x84, 0x0A] (StdSerial Rtu) = Err ChecksumError"
proof -
  have "crc16 [1, 3, 0, 0, 0, 1] = 0x0A84" by code_simp
  then have "rtu_frame 1 [3, 0, 0, 0, 1] = [1, 3, 0, 0] @ 0 # 1 # [0x84, 0x0A]"
    by (simp add: rtu_frame_def u16_to_le_bytes_def)
  from rtu_corruption_detected [OF this, of 4 9 "StdSerial Rtu" bounded_vec] show ?thesis by simp
qed

lemma check_crc_iff: "4 \<le> n \<Longrightarrow> n \<le> length f \<Longrightarrow> check_crc f n \<longleftrightarrow> crc16 (take n f) = 0"
  using rtu_checksum_iff [of "take n f"]
  by (simp add: check_crc_def Let_def min_absorb1 min_absorb2 Suc_diff_Suc numeral_2_eq_2)

lemma check_crc_rtu_frame:
  "body \<noteq> [] \<Longrightarrow> check_crc (rtu_frame uid body @ rest) (3 + length body)"
  using rtu_frame_residue [of uid body] by (cases body) (simp_all add: check_crc_iff length_frames)

text \<open>
  On an RTU stream the length of a request of fixed length (function codes 1 to 6, 8, 22 and 24)
  and of an exception response is derived correctly, whatever bytes follow the frame.
\<close>

theorem derived_length_rtu_fixed:
  assumes "heapless_ok hc" "tt \<in> {StdSerial Rtu, CustomSerial Rtu}"
    and "c \<in> {1, 2, 3, 4, 5, 6, 8} \<and> length d = 4 \<or> c = 22 \<and> length d = 6 \<or> c = 24 \<and> length d = 2 \<or>
      is_exception_code c \<and> length d = 1"
  shows "derive_length_from_bytes hc (rtu_frame uid (c # d) @ rest) tt =
    Some (length (rtu_frame uid (c # d)))"
proof -
  let ?f = "rtu_frame uid (c # d) @ rest"
  have crc: "check_crc ?f (4 + length d)"
    using check_crc_rtu_frame [of "c # d" uid rest] by (simp add: numeral_eq_Suc)
  have f: "?f ! 1 = c" "length ?f \<ge> 4" by (simp_all add: rtu_frame_def)
  show ?thesis
    using assms(2,3) crc f
    by (auto simp: derive_length_from_bytes_def get_byte_count_from_frame_def Let_def assms(1)
        add_dyn_eq pick_length_def is_exception_code_def length_frames)
qed

theorem derived_length_rtu_fixed_witness:
  "derive_length_from_bytes bounded_vec (rtu_frame 1 [3, 0, 0, 0, 1] @ [1, 131]) (StdSerial Rtu) = Some 8"
  using derived_length_rtu_fixed [OF bounded_vec_ok, of "StdSerial Rtu" 3 "[0, 0, 0, 1]" 1 "[1, 131]"]
  by (simp add: length_frames)

end
