(* ===== verification/Receive_Loop.thy ===== *)
theory Receive_Loop
  imports Framing
begin

text \<open>
  What the receive loops of the client and of the server share (\<open>process_rxed_frame\<close> in
  mbus-client/src/services/mod.rs and in mbus-server/src/services/mod.rs): both take frames from the
  front of a buffer until no complete frame is left, and drop one byte after an error. The locale
  \<open>receive_loop\<close> states what the loop needs of the steps it is made of.
\<close>

section \<open>Decoding errors\<close>

text \<open>No decoding error is mistaken for an incomplete frame.\<close>

lemma pdu_from_bytes_error: "heapless_ok hv \<Longrightarrow> pdu_from_bytes hv bs \<noteq> Err BufferTooSmall"
  by (cases bs) (auto simp: pdu_from_bytes_eq res_simps fc.parse_Err_iff pdu_from_bytes_def)

lemma hex_pair_to_byte_error [simp]: "hex_pair_to_byte h l \<noteq> Err BufferTooSmall"
proof -
  have "hex_char_to_nibble x \<noteq> Err BufferTooSmall" for x by (simp add: hex_char_to_nibble_def)
  then show ?thesis by (simp add: hex_pair_to_byte_def res_simps)
qed

lemma take_hex_error:
  "heapless_ok hv \<Longrightarrow> length acc + length cs div 2 \<le> 260 \<Longrightarrow> take_hex hv acc cs \<noteq> Err BufferTooSmall"
  by (induction hv acc cs rule: take_hex.induct)
    (auto simp: res_simps)

lemma slave_address_new_error [simp]: "slave_address_new a \<noteq> Err BufferTooSmall"
  by (simp add: slave_address_new_def)

lemma decompile_error:
  assumes "heapless_ok hv" "length bs \<le> 513"
  shows "decompile_adu_frame hv bs tt \<noteq> Err BufferTooSmall"
proof -
  have "from_rtu_bytes hv bs \<noteq> Err BufferTooSmall"
    using assms(1) by (auto simp: from_rtu_bytes_def Let_def res_simps pdu_from_bytes_error
        slice_to_def slice_from_def split: if_splits)
  moreover have "message_from_bytes hv bs \<noteq> Err BufferTooSmall"
    using assms(1) by (auto simp: message_from_bytes_def Let_def res_simps pdu_from_bytes_error
        slice_to_def slice_from_def split: if_splits)
  moreover have "from_ascii_bytes hv bs \<noteq> Err BufferTooSmall"
  proof -
    have "take_hex hv [] (take (length bs - 3) (drop 1 bs)) \<noteq> Err BufferTooSmall"
      by (rule take_hex_error) (use assms in auto)
    then show ?thesis
      using assms(1) by (auto simp: from_ascii_bytes_def Let_def res_simps pdu_from_bytes_error
          slice_to_def slice_from_def split: if_splits)
  qed
  ultimately show ?thesis
    by (cases tt rule: adu_bound.cases) (simp_all add: decompile_adu_frame_def)
qed

section \<open>The length of a decoded frame\<close>

lemma check_crc_take:
  "n \<le> length f \<Longrightarrow> check_crc (take n f) c \<longleftrightarrow> c \<le> n \<and> check_crc f c"
  by (auto simp: check_crc_def Let_def min_def)

lemma find_check_crc_take:
  "n \<le> length f \<Longrightarrow> List.find (check_crc f) cs = Some n \<Longrightarrow> List.find (check_crc (take n f)) cs = Some n"
  by (induction cs) (auto simp: check_crc_take split: if_splits)

lemma fold_max_in: "0 < fold max cs (0 :: nat) \<Longrightarrow> fold max cs 0 \<in> set cs"
proof -
  have "fold max cs m = m \<or> fold max cs m \<in> set cs" for m :: nat
  proof (induction cs arbitrary: m)
    case (Cons c cs)
    show ?case using Cons [of "max c m"] by (auto simp: max_def split: if_splits)
  qed simp
  then show "0 < fold max cs (0 :: nat) \<Longrightarrow> fold max cs 0 \<in> set cs" by (metis less_irrefl)
qed

lemma pick_length_checked:
  assumes "pick_length f st = Some n" "n \<le> length f" "check_crc f n"
    "snd st = usize_MAX \<or> length f < snd st"
  shows "List.find (check_crc f) (fst st) = Some n"
proof -
  obtain cs k where st: "st = (cs, k)" by (cases st)
  show ?thesis
  proof (cases "List.find (check_crc f) cs")
    case None
    then have none: "\<forall>c \<in> set cs. \<not> check_crc f c" by (simp add: find_None_iff)
    have "n = (if k \<noteq> usize_MAX then max k (fold max cs 0) else fold max cs 0)" "0 < n"
      using assms(1) None by (auto simp: pick_length_def Let_def st split: if_splits)
    then have "n = fold max cs 0" "0 < fold max cs 0"
      using assms(2,4) by (auto split: if_splits simp: max_def st)
    then show ?thesis using fold_max_in none assms(3) by metis
  next
    case (Some m)
    then show ?thesis using assms(1) by (simp add: pick_length_def st)
  qed
qed

lemma pick_length_found: "List.find (check_crc f) cs = Some n \<Longrightarrow> pick_length f (cs, k) = Some n"
  by (simp add: pick_length_def)

lemma pick_length_take:
  "pick_length f (cs, k) = Some n \<Longrightarrow> n \<le> length f \<Longrightarrow> check_crc f n \<Longrightarrow> k = usize_MAX \<or> length f < k \<Longrightarrow>
   pick_length (take n f) (cs, k') = Some n"
  using pick_length_checked [of f "(cs, k)"] by (auto intro: pick_length_found find_check_crc_take)

lemma scan_crc_take:
  assumes "scan_crc f = Some n" "n \<le> length f"
  shows "scan_crc (take n f) = Some n"
proof -
  have n: "4 \<le> n" by (rule scan_crc_pos [OF assms(1)])
  have "[4..<length f + 1] = [4..<n + 1] @ [n + 1..<length f + 1]"
    using n assms(2) upt_add_eq_append [of 4 "n + 1" "length f - n"] by simp
  moreover have "List.find P (xs @ ys) = (case List.find P xs of None \<Rightarrow> List.find P ys | x \<Rightarrow> x)" for P and xs ys :: "nat list"
    by (induction xs) auto
  ultimately have "List.find (check_crc f) [4..<n + 1] = Some n"
    using assms by (auto simp: scan_crc_def dest: find_Some_in split: option.splits)
  then show ?thesis
    using find_check_crc_take [OF assms(2)] assms(2) by (simp add: scan_crc_def min_absorb2)
qed

lemma pick_dyn_take:
  assumes "heapless_ok hc" "pick_length f (add_dyn hc f (cs, usize_MAX) off base) = Some n"
    "n \<le> length f" "check_crc f n" "length cs < 4" "off < base" "\<forall>c \<in> set cs. off < c"
  shows "pick_length (take n f) (add_dyn hc (take n f) (cs, usize_MAX) off base) = Some n"
proof -
  have found: "List.find (check_crc f) (fst (add_dyn hc f (cs, usize_MAX) off base)) = Some n"
    by (rule pick_length_checked [OF assms(2-4)]) (auto simp: add_dyn_eq min_def)
  then have "off < n"
    using assms(1,5,6,7) by (auto simp: add_dyn_eq dest!: find_Some_in split: if_splits)
  then show ?thesis
    using found find_check_crc_take [OF assms(3) found] assms(1,3,5)
    by (simp add: add_dyn_eq pick_length_found)
qed

lemma get_byte_count_eqs:
  assumes "heapless_ok hc"
  shows "1 \<le> fc \<Longrightarrow> fc \<le> 4 \<Longrightarrow> get_byte_count_from_frame hc g fc = pick_length g (add_dyn hc g ([8], usize_MAX) 2 5)"
    and "fc \<in> {5, 6, 8} \<Longrightarrow> get_byte_count_from_frame hc g fc = pick_length g ([8], usize_MAX)"
    and "get_byte_count_from_frame hc g 7 = pick_length g ([4, 5], usize_MAX)"
    and "get_byte_count_from_frame hc g 11 = pick_length g ([4, 8], usize_MAX)"
    and "get_byte_count_from_frame hc g 22 = pick_length g ([10], usize_MAX)"
    and "fc \<in> {12, 17} \<Longrightarrow> get_byte_count_from_frame hc g fc = pick_length g (add_dyn hc g ([4], usize_MAX) 2 5)"
    and "fc \<in> {15, 16} \<Longrightarrow> get_byte_count_from_frame hc g fc = pick_length g (add_dyn hc g ([8], usize_MAX) 6 9)"
    and "fc \<in> {20, 21} \<Longrightarrow> get_byte_count_from_frame hc g fc = pick_length g (add_dyn hc g ([], usize_MAX) 2 5)"
  using assms by (auto simp: get_byte_count_from_frame_def Let_def)

lemma get_byte_count_take:
  assumes "heapless_ok hc" "get_byte_count_from_frame hc f fc = Some n" "n \<le> length f" "check_crc f n"
  shows "get_byte_count_from_frame hc (take n f) fc = Some n"
proof -
  note facts = assms(1,3,4)
  have n: "4 \<le> n" using assms(4) by (simp add: check_crc_def split: if_splits)
  note eval = get_byte_count_from_frame_def Let_def
  consider (fixed) "fc \<in> {5, 6, 8, 7, 11, 22}"
    | (counted) "1 \<le> fc \<and> fc \<le> 4 \<or> fc \<in> {12, 17, 20, 21, 15, 16}" | (read_write) "fc = 23"
    | (fifo) "fc = 24" | (mei) "fc = 43"
    | (other) "\<not> (1 \<le> fc \<and> fc \<le> 4)" "fc \<notin> {5, 6, 8, 7, 11, 22, 12, 17, 20, 21, 15, 16, 23, 24, 43}"
    by blast
  then show ?thesis
  proof cases
    case fixed
    then show ?thesis using facts assms(2) by (auto simp: get_byte_count_eqs intro: pick_length_take)
  next
    case counted
    then show ?thesis using facts assms(2) by (auto simp: get_byte_count_eqs intro!: pick_dyn_take)
  next
    case read_write
    let ?st = "add_dyn hc f (add_dyn hc f ([], usize_MAX) 2 5) 10 13"
    show ?thesis
    proof (cases "10 < n")
      case True
      then show ?thesis
        using read_write facts assms(2) by (auto simp: eval add_dyn_eq intro: pick_length_take)
    next
      case False
      have "List.find (check_crc f) (fst ?st) = Some n"
        by (rule pick_length_checked [OF _ assms(3,4)])
          (use assms(1,2) read_write in \<open>auto simp: eval add_dyn_eq min_def\<close>)
      then have "n = 5 + unat (f ! 2)" "2 < length f"
        using False n assms(1,3) by (auto simp: add_dyn_eq split: if_splits)
      then show ?thesis
        using read_write facts n
        by (simp add: eval add_dyn_eq pick_length_def check_crc_take)
    qed
  next
    case fifo
    then show ?thesis using facts assms(2) n by (auto simp: eval intro: pick_length_take)
  next
    case mei
    then show ?thesis using facts assms(2)
      by (auto simp: eval check_crc_take scan_crc_take split: if_splits)
  next
    case other
    then have "get_byte_count_from_frame hc g fc = scan_crc g" for g by (auto simp: eval)
    then show ?thesis using assms(2,3) by (simp add: scan_crc_take)
  qed
qed

text \<open>A decoded PDU is well formed.\<close>

lemma decompile_wf:
  assumes "heapless_ok hv" "decompile_adu_frame hv bs tt = Ok m"
  shows "pdu_wf (pdu m) \<and> normal_code (function_code (pdu m))"
proof -
  have "\<exists>pb p a. pdu_from_bytes hv pb = Ok p \<and> m = modbus_message_new a p"
    using assms(2)
    by (cases tt rule: adu_bound.cases)
      (auto simp: decompile_adu_frame_def from_rtu_bytes_def from_ascii_bytes_def message_from_bytes_def Let_def
        res_simps split: if_splits)
  then show ?thesis
    using pdu_from_bytes_wf [OF assms(1)] by (auto simp: modbus_message_new_def)
qed

lemma decompiled_crc:
  "from_rtu_bytes hv bs = Ok m \<Longrightarrow> check_crc bs (length bs)"
  by (auto simp: from_rtu_bytes_def check_crc_def Let_def res_simps slice_to_def slice_def idx_Ok_iff
      split: if_splits)

lemma position_take: "position x bs = Some i \<Longrightarrow> position x (take (Suc i) bs) = Some i"
  by (induction bs arbitrary: i) (auto split: if_splits)

text \<open>
  The frame that was decoded at the front of the buffer has the same length when it is looked at on
  its own.
\<close>

lemma derive_length_take:
  assumes "heapless_ok hc" "derive_length_from_bytes hc f tt = Some n" "n \<le> length f"
    "decompile_adu_frame hv (take n f) tt = Ok m"
  shows "derive_length_from_bytes hc (take n f) tt = Some n"
proof -
  have len: "length (take n f) = n" using assms(3) by simp
  consider (tcp) "is_tcp_type tt" | (rtu) "tt \<in> {StdSerial Rtu, CustomSerial Rtu}"
    | (ascii) "tt \<in> {StdSerial Ascii, CustomSerial Ascii}"
    by (cases tt rule: adu_bound.cases) auto
  then show ?thesis
  proof cases
    case tcp
    then have "6 \<le> length f" "6 \<le> n"
      using assms(2) by (cases tt; auto simp: derive_length_from_bytes_def usize_MAX_def split: if_splits)+
    then show ?thesis
      using tcp assms(2) len
      by (cases tt; simp add: derive_length_from_bytes_def split: if_splits)
  next
    case rtu
    have crc: "check_crc f n"
      using decompiled_crc [of hv "take n f" m] assms(3,4) rtu
      by (auto simp: decompile_adu_frame_def check_crc_take)
    then have "4 \<le> n" by (simp add: check_crc_def split: if_splits)
    then show ?thesis
      using rtu assms(2,3) get_byte_count_take [OF assms(1) _ assms(3) crc]
      by (auto simp: derive_length_from_bytes_def Let_def split: if_splits)
  next
    case ascii
    then have "9 \<le> n"
      using assms(4) len by (auto simp: decompile_adu_frame_def from_ascii_bytes_def split: if_splits)
    then show ?thesis
      using ascii assms(2,3) by (auto simp: derive_length_from_bytes_def position_take split: if_splits)
  qed
qed

section \<open>The loop\<close>

text \<open>A buffer whose front is not a complete frame: its end is not known yet, or not there yet.\<close>

definition incomplete_front :: "usize heapless \<Rightarrow> TransportType \<Rightarrow> bytes \<Rightarrow> bool" where
  "incomplete_front hc tt bs \<longleftrightarrow> bs = [] \<or>
     (case derive_length_from_bytes hc bs tt of None \<Rightarrow> True | Some n \<Rightarrow> length bs < n \<and> n \<le> 513)"

text \<open>
  \<open>ok\<close> is the invariant of the state, \<open>steps\<close> what the state may do, \<open>waits\<close> tells the buffers
  without a complete frame at the front.
\<close>

locale receive_loop =
  fixes ok :: "'s \<Rightarrow> bool"
    and buffer :: "'s \<Rightarrow> bytes"
    and steps :: "'s \<Rightarrow> 's \<Rightarrow> bool"
    and waits :: "bytes \<Rightarrow> bool"
    and ingest :: "'s \<Rightarrow> usize result \<times> 's"
    and consume :: "'s \<Rightarrow> usize \<Rightarrow> 's"
    and resync :: "'s \<Rightarrow> 's"
    and process :: "'s \<Rightarrow> 's result option"
  assumes process_eq:
      "process s =
         (if buffer s = [] then Some (Ok s)
          else case ingest s of
                 (Ok consumed, s') \<Rightarrow> process (consume s' consumed)
               | (Err err, s') \<Rightarrow> if err = BufferTooSmall then Some (Ok s') else process (resync s')
               | (Panic, s') \<Rightarrow> Some Panic)"
    and steps_refl: "steps s s"
    and steps_trans: "steps s s' \<Longrightarrow> steps s' s'' \<Longrightarrow> steps s s''"
    and waits_Nil: "waits []"
    and ingest_ok: "ok s \<Longrightarrow> ingest s = (r, s') \<Longrightarrow>
          ok s' \<and> steps s s' \<and> buffer s' = buffer s \<and> r \<noteq> Panic \<and> (\<forall>n. r = Ok n \<longrightarrow> 0 < n)"
    and ingest_incomplete: "ok s \<Longrightarrow> ingest s = (Err BufferTooSmall, s') \<Longrightarrow> waits (buffer s)"
    and consume_ok: "ok s \<Longrightarrow>
          ok (consume s n) \<and> steps s (consume s n) \<and> buffer (consume s n) = drop n (buffer s)"
    and resync_ok: "ok s \<Longrightarrow> ok (resync s) \<and> steps s (resync s) \<and> buffer (resync s) = drop 1 (buffer s)"
begin

definition done_with :: "'s \<Rightarrow> 's \<Rightarrow> bool" where
  "done_with s s' \<longleftrightarrow> ok s' \<and> steps s s' \<and> suffix (buffer s') (buffer s) \<and> waits (buffer s')"

text \<open>The loop ends, without a panic, on a buffer whose front is not a complete frame.\<close>

lemma process_ok: "ok s \<Longrightarrow> \<exists>s'. process s = Some (Ok s') \<and> done_with s s'"
proof (induction "length (buffer s)" arbitrary: s rule: less_induct)
  case less
  show ?case
  proof (cases "buffer s = []")
    case True
    then show ?thesis
      by (subst process_eq) (simp add: done_with_def less.prems steps_refl waits_Nil)
  next
    case False
    obtain r d where i: "ingest s = (r, d)" by (cases "ingest s")
    note d = ingest_ok [OF less.prems i]
    have again: "\<exists>s'. process d' = Some (Ok s') \<and> done_with s s'"
      if "ok d' \<and> steps d d' \<and> buffer d' = drop n (buffer d)" "0 < n" for d' n
    proof -
      have "length (buffer d') < length (buffer s)" "suffix (buffer d') (buffer s)"
        using that d False by (auto simp: suffix_drop)
      with less(1) [of d'] that d show ?thesis
        unfolding done_with_def by (meson steps_trans suffix_order.trans)
    qed
    show ?thesis
    proof (cases r)
      case (Ok n)
      then show ?thesis
        using again [of "consume d n" n] consume_ok [of d n] d False i by (subst process_eq) simp
    next
      case (Err err)
      then show ?thesis
        using again [of "resync d" 1] resync_ok [of d] d False i ingest_incomplete [OF less.prems]
        by (subst process_eq) (simp add: done_with_def)
    qed (use d in simp)
  qed
qed

end

end
