(* ===== verification/Client_Receive.thy ===== *)
theory Client_Receive
  imports Client_Core Receive_Loop
begin

text \<open>
  The client's invariant, the accounting of requests, and the receive path
  (\<open>ingest_frame\<close>, \<open>dispatch_response\<close>, the loop of \<open>process_rxed_frame\<close> in
  mbus-client/src/services/mod.rs). Every operation is shown to be a \<open>step_ok\<close>: it keeps the
  invariant, and a request that leaves the queue is reported to the application exactly once.
\<close>

section \<open>Every request is resolved exactly once\<close>

text \<open>
  \<open>pending\<close> and \<open>resolved\<close> are multisets of transaction identifiers: those of the requests in the
  queue, and those of the calls made to the application so far.
\<close>

fun call_txn :: "'h AppCall \<Rightarrow> u16" where
  "call_txn (RequestFailed txn uid err) = txn"
| "call_txn (HandlerCalled r m) = er_txn_id r"

definition pending :: "('t, 'a, 'h) ClientServices \<Rightarrow> u16 multiset" where
  "pending c = mset (map er_txn_id (expected_responses c))"

definition resolved :: "('t, 'a, 'h) ClientServices \<Rightarrow> u16 multiset" where
  "resolved c = mset (map call_txn (app_calls c))"

definition env_ok :: "('t, 'a, 'h) client_env \<Rightarrow> bool" where
  "env_ok e \<longleftrightarrow> heapless_ok (byte_vec e) \<and> heapless_ok (usize_vec e) \<and> heapless_ok (response_vec e)"

text \<open>
  The handler and the parameters of a request are safe when the handler panics on no response with a
  well-formed PDU. The requests in the queue are, and they stay so when they are retried.
\<close>

definition safe_request :: "('t, 'a, 'h) client_env \<Rightarrow> 'h \<Rightarrow> OperationMeta \<Rightarrow> bool" where
  "safe_request e h meta \<longleftrightarrow> (\<forall>a r m. er_handler r = h \<longrightarrow> operation_meta r = meta \<longrightarrow> pdu_wf (pdu m) \<longrightarrow>
     app_handler e h a r m \<noteq> None)"

definition er_context :: "'h ExpectedResponse \<Rightarrow> 'h \<times> OperationMeta" where
  "er_context r = (er_handler r, operation_meta r)"

definition contexts :: "('t, 'a, 'h) ClientServices \<Rightarrow> ('h \<times> OperationMeta) set" where
  "contexts c = er_context ` set (expected_responses c)"

definition queue_safe :: "('t, 'a, 'h) client_env \<Rightarrow> ('t, 'a, 'h) ClientServices \<Rightarrow> bool" where
  "queue_safe e c \<longleftrightarrow> (\<forall>(h, meta) \<in> contexts c. safe_request e h meta)"

text \<open>
  The budget of a request: retries sent and retries left add up to the configured number, and a retry
  is scheduled only while some are left.
\<close>

definition entry_ok :: "ModbusConfig \<Rightarrow> 'h ExpectedResponse \<Rightarrow> bool" where
  "entry_ok cfg r \<longleftrightarrow>
     unat (retries_left r) + unat (retry_attempt_index r) = unat (retry_attempts cfg) \<and>
     (next_retry_timestamp r \<noteq> None \<longrightarrow> retries_left r \<noteq> 0)"

definition client_inv :: "('t, 'a, 'h) client_env \<Rightarrow> ('t, 'a, 'h) ClientServices \<Rightarrow> bool" where
  "client_inv e c \<longleftrightarrow> length (rxed_frame c) \<le> 513 \<and>
     length (expected_responses c) \<le> queue_capacity e \<and>
     (\<forall>r \<in> set (expected_responses c). entry_ok (config c) r) \<and> queue_safe e c"

text \<open>
  A step of the client: the invariant is kept, requests leave the queue by being resolved, and a
  handler is called for a request of the queue with a well-formed PDU.
\<close>

definition calls_from :: "('t, 'a, 'h) ClientServices \<Rightarrow> ('t, 'a, 'h) ClientServices \<Rightarrow> bool" where
  "calls_from c c' \<longleftrightarrow> (\<forall>r m. HandlerCalled r m \<in> set (app_calls c') \<longrightarrow>
     HandlerCalled r m \<in> set (app_calls c) \<or> pdu_wf (pdu m) \<and> er_context r \<in> contexts c)"

definition step_ok :: "('t, 'a, 'h) client_env \<Rightarrow> ('t, 'a, 'h) ClientServices \<Rightarrow> ('t, 'a, 'h) ClientServices \<Rightarrow> bool" where
  "step_ok e c c' \<longleftrightarrow> (client_inv e c \<longrightarrow> client_inv e c') \<and> contexts c' \<subseteq> contexts c \<and> calls_from c c' \<and>
     pending c + resolved c = pending c' + resolved c' \<and> config c' = config c \<and>
     prefix (app_calls c) (app_calls c')"

lemma calls_from_same [simp]: "app_calls c' = app_calls c \<Longrightarrow> calls_from c c'"
  by (simp add: calls_from_def)

lemma contexts_cong: "expected_responses c' = expected_responses c \<Longrightarrow> contexts c' = contexts c"
  by (simp add: contexts_def)

lemma calls_from_trans:
  "calls_from a b \<Longrightarrow> calls_from b c \<Longrightarrow> contexts b \<subseteq> contexts a \<Longrightarrow> calls_from a c"
  unfolding calls_from_def by blast

lemma step_ok_refl [simp]: "step_ok e c c"
  by (simp add: step_ok_def)

lemma step_ok_trans: "step_ok e a b \<Longrightarrow> step_ok e b c \<Longrightarrow> step_ok e a c"
  by (auto simp: step_ok_def intro: prefix_order.trans calls_from_trans)

lemma step_ok_safe: "step_ok e c c' \<Longrightarrow> queue_safe e c \<Longrightarrow> queue_safe e c'"
  by (auto simp: step_ok_def queue_safe_def)

lemma env_ok_simps [simp]:
  assumes "env_ok e"
  shows "heapless_ok (byte_vec e)" "heapless_ok (usize_vec e)" "heapless_ok (response_vec e)"
  using assms by (simp_all add: env_ok_def)

lemma request_failed_simps [simp]:
  "rxed_frame (request_failed e c t u x) = rxed_frame c"
  "expected_responses (request_failed e c t u x) = expected_responses c"
  "config (request_failed e c t u x) = config c"
  "transport (request_failed e c t u x) = transport c"
  "next_timeout_check (request_failed e c t u x) = next_timeout_check c"
  "app_calls (request_failed e c t u x) = app_calls c @ [RequestFailed t u x]"
  by (simp_all add: request_failed_def)

lemma queue_safe_cong:
  "expected_responses c' = expected_responses c \<Longrightarrow> queue_safe e c' \<longleftrightarrow> queue_safe e c"
  by (simp add: queue_safe_def contexts_def)

lemma queue_safe_entry:
  "queue_safe e c \<Longrightarrow> r \<in> set (expected_responses c) \<Longrightarrow> safe_request e (er_handler r) (operation_meta r)"
  by (auto simp: queue_safe_def contexts_def er_context_def)

lemma contexts_simps [simp]:
  "contexts (c\<lparr>app := a\<rparr>) = contexts c"
  "contexts (c\<lparr>transport := t\<rparr>) = contexts c"
  "contexts (c\<lparr>rxed_frame := bs\<rparr>) = contexts c"
  "contexts (c\<lparr>next_timeout_check := n\<rparr>) = contexts c"
  by (simp_all add: contexts_def)

lemma calls_from_simps [simp]:
  "calls_from c (d\<lparr>app := a\<rparr>) = calls_from c d"
  "calls_from c (d\<lparr>transport := t\<rparr>) = calls_from c d"
  "calls_from c (d\<lparr>rxed_frame := bs\<rparr>) = calls_from c d"
  "calls_from c (d\<lparr>next_timeout_check := n\<rparr>) = calls_from c d"
  "calls_from (c\<lparr>transport := t\<rparr>) d = calls_from c d"
  by (simp_all add: calls_from_def)

lemma queue_safe_simps [simp]:
  "queue_safe e (c\<lparr>app := a\<rparr>) = queue_safe e c"
  "queue_safe e (c\<lparr>transport := t\<rparr>) = queue_safe e c"
  "queue_safe e (c\<lparr>rxed_frame := bs\<rparr>) = queue_safe e c"
  "queue_safe e (c\<lparr>next_timeout_check := n\<rparr>) = queue_safe e c"
  by (simp_all add: queue_safe_def)

lemma call_handler_ok:
  assumes "safe_request e (er_handler r) (operation_meta r)" "pdu_wf (pdu m)"
  shows "\<exists>c'. call_handler e c r m = Ok c' \<and> rxed_frame c' = rxed_frame c \<and>
    expected_responses c' = expected_responses c \<and> config c' = config c \<and>
    app_calls c' = app_calls c @ [HandlerCalled r m] \<and>
    app_handler e (er_handler r) (app c) r m = Some (app c')"
proof -
  obtain a where "app_handler e (er_handler r) (app c) r m = Some a"
    using assms unfolding safe_request_def by fast
  then show ?thesis by (simp add: call_handler_def)
qed

lemma swap_remove_ok:
  "env_ok e \<Longrightarrow> i < length (expected_responses c) \<Longrightarrow>
   swap_remove e c i = Ok (expected_responses c ! i,
     c\<lparr>expected_responses := swap_removed (expected_responses c) i\<rparr>)"
  by (simp add: swap_remove_def)

text \<open>Removing a request and making one call for it is a step.\<close>

lemma resolve_step:
  assumes i: "i < length (expected_responses c)"
    and c': "expected_responses c' = swap_removed (expected_responses c) i" "config c' = config c"
      "rxed_frame c' = rxed_frame c" "app_calls c' = app_calls c @ [call]"
    and call: "call_txn call = er_txn_id (expected_responses c ! i)"
      "\<And>r m. call = HandlerCalled r m \<Longrightarrow> r = expected_responses c ! i \<and> pdu_wf (pdu m)"
  shows "step_ok e c c'"
proof -
  have "pending c = add_mset (call_txn call) (pending c')"
    using mset_swap_removed [OF i] by (simp add: pending_def c' call)
  then have "pending c + resolved c = pending c' + resolved c'"
    by (simp add: resolved_def c')
  moreover have sub: "contexts c' \<subseteq> contexts c"
    using set_swap_removed [OF i] by (auto simp: contexts_def c')
  moreover have "calls_from c c'"
    using call(2) i by (auto simp: calls_from_def contexts_def c')
  ultimately show ?thesis
    using set_swap_removed [OF i] by (auto simp: step_ok_def client_inv_def queue_safe_def c')
qed

lemma step_ok_cong:
  "step_ok e c c' \<Longrightarrow> expected_responses d = expected_responses c' \<Longrightarrow> config d = config c' \<Longrightarrow>
   app_calls d = app_calls c' \<Longrightarrow> length (rxed_frame d) \<le> max (length (rxed_frame c')) 513 \<Longrightarrow>
   (client_inv e c \<Longrightarrow> length (rxed_frame d) \<le> 513) \<Longrightarrow> step_ok e c d"
  by (auto simp: step_ok_def client_inv_def pending_def resolved_def queue_safe_cong [of d c'] contexts_cong [of d c'] calls_from_def)

section \<open>Receiving\<close>

lemma dispatch_response_ok:
  assumes "env_ok e" "queue_safe e c" "pdu_wf (pdu m)"
  shows "\<exists>c'. dispatch_response e c m = Ok c' \<and> step_ok e c c' \<and> rxed_frame c' = rxed_frame c"
proof -
  define index where "index = (if is_tcp_type (TRANSPORT_TYPE e)
    then find_index (\<lambda>r. er_txn_id r = message_transaction_id m \<and>
      er_unit r = uid_get (unit_id_or_slave_addr m)) (expected_responses c)
    else find_index (\<lambda>r. er_unit r = uid_get (unit_id_or_slave_addr m)) (expected_responses c))"
  show ?thesis
  proof (cases index)
    case None
    then show ?thesis unfolding index_def by (simp add: dispatch_response_def)
  next
    case (Some i)
    then have i: "i < length (expected_responses c)"
      unfolding index_def by (auto dest: find_index_Some split: if_splits)
    then have safe: "safe_request e (er_handler (expected_responses c ! i)) (operation_meta (expected_responses c ! i))"
      using assms(2) queue_safe_entry by fastforce
    let ?d = "c\<lparr>expected_responses := swap_removed (expected_responses c) i\<rparr>"
    obtain d where d: "call_handler e ?d (expected_responses c ! i) m = Ok d" "rxed_frame d = rxed_frame c"
      "expected_responses d = expected_responses ?d" "config d = config c"
      "app_calls d = app_calls c @ [HandlerCalled (expected_responses c ! i) m]"
      using call_handler_ok [OF safe assms(3), of ?d] by auto
    have "step_ok e c d"
      by (rule resolve_step [OF i, where call = "HandlerCalled (expected_responses c ! i) m"])
        (use assms(3) in \<open>auto simp: d\<close>)
    moreover have "step_ok e c (request_failed e ?d (er_txn_id (expected_responses c ! i)) u x)" for u x
      by (rule resolve_step [OF i, where call = "RequestFailed (er_txn_id (expected_responses c ! i)) u x"])
        simp_all
    ultimately show ?thesis
      using Some d(1,2) unfolding index_def
      by (cases "error_code (pdu m)")
        (simp_all add: dispatch_response_def swap_remove_ok [OF assms(1) i])
  qed
qed

lemma readdress_no_panic [simp]: "readdress tt m \<noteq> Panic"
  by (auto simp: readdress_def res_simps split: AdditionalAddress.splits)

lemma readdress_pdu: "readdress tt m = Ok (Some m') \<Longrightarrow> pdu m' = pdu m"
  by (auto simp: readdress_def modbus_message_new_def res_simps split: if_splits AdditionalAddress.splits)

text \<open>The message a frame decodes to is dispatched without a panic or an error.\<close>

lemma decoded_dispatch:
  assumes "env_ok e" "queue_safe e c"
    and "bind_res (decompile_adu_frame (byte_vec e) bs tt) (readdress tt) = Ok (Some m)"
  shows "\<exists>c'. dispatch_response e c m = Ok c' \<and> step_ok e c c' \<and> rxed_frame c' = rxed_frame c"
proof -
  obtain m' where m': "decompile_adu_frame (byte_vec e) bs tt = Ok m'" "readdress tt m' = Ok (Some m)"
    using assms(3) by (auto simp: res_simps)
  have "pdu_wf (pdu m)"
    using decompile_wf [OF env_ok_simps(1) [OF assms(1)] m'(1)] readdress_pdu [OF m'(2)] by simp
  then show ?thesis by (rule dispatch_response_ok [OF assms(1,2)])
qed

lemma ingest_frame_ok:
  assumes "env_ok e" "queue_safe e c" "ingest_frame e c = (r, c')"
  shows "step_ok e c c' \<and> rxed_frame c' = rxed_frame c \<and> r \<noteq> Panic \<and>
    (\<forall>n. r = Ok n \<longrightarrow> 0 < n \<and> n \<le> length (rxed_frame c))"
proof (cases "derive_length_from_bytes (usize_vec e) (rxed_frame c) (TRANSPORT_TYPE e)")
  case None
  then show ?thesis using assms(3) by (auto simp: ingest_frame_def Let_def)
next
  case (Some n)
  let ?d = "bind_res (decompile_adu_frame (byte_vec e) (take n (rxed_frame c)) (TRANSPORT_TYPE e))
    (readdress (TRANSPORT_TYPE e))"
  have pos: "0 < n" by (rule derived_length_pos [OF env_ok_simps(2) [OF assms(1)] Some])
  show ?thesis
  proof (cases "n \<le> 513 \<and> n \<le> length (rxed_frame c)")
    case False
    then show ?thesis using assms(3) Some by (auto simp: ingest_frame_def Let_def split: if_splits)
  next
    case True
    then have safe: "?d \<noteq> Panic"
      using derived_slice_no_panic [OF env_ok_simps(1) [OF assms(1)] Some] by (simp add: res_simps)
    show ?thesis
    proof (cases ?d)
      case (Ok x)
      then show ?thesis
        using assms True Some pos decoded_dispatch [OF assms(1,2), of _ "TRANSPORT_TYPE e"]
        by (cases x) (fastforce simp: ingest_frame_def Let_def)+
    qed (use assms(3) True Some safe in \<open>auto simp: ingest_frame_def Let_def\<close>)
  qed
qed

lemma rxed_frame_shrinks:
  assumes "env_ok e"
  shows "rxed_frame (drain_rxed_frame e c n) = drop n (rxed_frame c)"
    and "rxed_frame (handle_parse_error e c) = drop 1 (rxed_frame c)"
    and "step_ok e c (drain_rxed_frame e c n)" "step_ok e c (handle_parse_error e c)"
  using assms
  by (auto simp: drain_rxed_frame_def handle_parse_error_def step_ok_def client_inv_def pending_def
      resolved_def Let_def split: if_splits)

text \<open>
  The receive loop ends without a panic; it leaves a suffix of the buffer whose frame has an end that
  is not known yet, or not there yet.
\<close>

abbreviation incomplete :: "('t, 'a, 'h) client_env \<Rightarrow> bytes \<Rightarrow> bool" where
  "incomplete e \<equiv> incomplete_front (usize_vec e) (TRANSPORT_TYPE e)"

lemma ingest_waits:
  assumes "env_ok e" "queue_safe e c" "ingest_frame e c = (Err BufferTooSmall, c')"
  shows "incomplete e (rxed_frame c)"
proof (cases "derive_length_from_bytes (usize_vec e) (rxed_frame c) (TRANSPORT_TYPE e)")
  case (Some n)
  let ?d = "bind_res (decompile_adu_frame (byte_vec e) (take n (rxed_frame c)) (TRANSPORT_TYPE e))
    (readdress (TRANSPORT_TYPE e))"
  have "\<not> (n \<le> 513 \<and> n \<le> length (rxed_frame c))"
  proof
    assume n: "n \<le> 513 \<and> n \<le> length (rxed_frame c)"
    then have "?d \<noteq> Err BufferTooSmall"
      using decompile_error [OF env_ok_simps(1) [OF assms(1)], of "take n (rxed_frame c)"]
      by (auto simp: res_simps readdress_def split: if_splits AdditionalAddress.splits)
    then show False
      using assms n Some decoded_dispatch [OF assms(1,2), of _ "TRANSPORT_TYPE e"]
      by (cases ?d) (fastforce simp: ingest_frame_def Let_def split: option.splits)+
  qed
  then show ?thesis
    using assms(3) Some by (auto simp: ingest_frame_def Let_def incomplete_front_def split: if_splits)
qed (simp add: incomplete_front_def)

interpretation client_receive: receive_loop "\<lambda>c. env_ok e \<and> queue_safe e c" rxed_frame "step_ok e" "incomplete e"
  "ingest_frame e" "drain_rxed_frame e" "handle_parse_error e" "process_rxed_frame e" for e
proof (unfold_locales, goal_cases)
  case (1 c)
  show ?case by (rule process_rxed_frame.simps)
next
  case (5 c r c')
  then show ?case using ingest_frame_ok [of e c r c'] step_ok_safe [of e c c'] by auto
next
  case (7 c n)
  then show ?case using rxed_frame_shrinks(1,3) [of e c n] step_ok_safe [of e c] by blast
next
  case (8 c)
  then show ?case using rxed_frame_shrinks(2,4) [of e c] step_ok_safe [of e c] by blast
qed (auto simp: incomplete_front_def intro: step_ok_trans dest: ingest_waits)

lemma process_rxed_frame_ok:
  assumes "env_ok e" "queue_safe e c"
  shows "\<exists>c'. process_rxed_frame e c = Some (Ok c') \<and> step_ok e c c' \<and>
    suffix (rxed_frame c') (rxed_frame c) \<and> incomplete e (rxed_frame c')"
  using client_receive.process_ok [of e c] assms unfolding client_receive.done_with_def by blast

section \<open>Matching responses to requests\<close>

text \<open>
  A response answers a request with the same unit identifier and, on TCP, the same transaction
  identifier; the first such request in the queue is the one that is resolved.
\<close>

definition answers :: "TransportType \<Rightarrow> u16 \<Rightarrow> u8 \<Rightarrow> 'h ExpectedResponse \<Rightarrow> bool" where
  "answers tt txn uid r \<longleftrightarrow> er_unit r = uid \<and> (is_tcp_type tt \<longrightarrow> er_txn_id r = txn)"

lemma unit_of_unicast:
  "1 \<le> uid \<Longrightarrow> uid \<le> 247 \<Longrightarrow>
   unit_id_or_slave_addr (modbus_message_new (adu_address tt txn uid body) p) = UnitIdOrSlaveAddr uid"
  by (auto simp: unit_id_or_slave_addr_def adu_address_def modbus_message_new_def mbap_of_def
      mbap_header_new_def unit_id_try_from_def unit_id_new_def)

lemma txn_of_address:
  "message_transaction_id (modbus_message_new (adu_address tt txn uid body) p) = (if is_tcp_type tt then txn else 0)"
  by (simp add: message_transaction_id_def adu_address_def modbus_message_new_def mbap_of_def
      mbap_header_new_def)

lemma readdress_frame:
  "uid \<le> 247 \<Longrightarrow> readdress tt (modbus_message_new (adu_address tt txn uid body) p) =
     Ok (Some (modbus_message_new (adu_address tt txn uid body) p))"
  by (auto simp: readdress_def adu_address_def modbus_message_new_def mbap_of_def slave_address_new_def)

lemma pdu_of_new [simp]: "pdu (modbus_message_new a p) = p"
  by (simp add: modbus_message_new_def)

lemma dispatch_matched:
  assumes "env_ok e" "1 \<le> uid" "uid \<le> 247" "i < length (expected_responses c)"
    and "answers (TRANSPORT_TYPE e) txn uid (expected_responses c ! i)"
    and "\<forall>j < i. \<not> answers (TRANSPORT_TYPE e) txn uid (expected_responses c ! j)"
  shows "dispatch_response e c (modbus_message_new (adu_address (TRANSPORT_TYPE e) txn uid body) p) =
    (let r = expected_responses c ! i;
         d = c\<lparr>expected_responses := swap_removed (expected_responses c) i\<rparr>
     in case error_code p of
          Some ec \<Rightarrow> Ok (request_failed e d (er_txn_id r) (UnitIdOrSlaveAddr uid) (ModbusException ec))
        | None \<Rightarrow> call_handler e d r (modbus_message_new (adu_address (TRANSPORT_TYPE e) txn uid body) p))"
proof -
  let ?P = "if is_tcp_type (TRANSPORT_TYPE e) then \<lambda>r. er_txn_id r = txn \<and> er_unit r = uid
    else (\<lambda>r. er_unit r = uid)"
  have "find_index ?P (expected_responses c) = Some i"
    by (rule find_index_first) (use assms in \<open>auto simp: answers_def\<close>)
  then show ?thesis
    using assms(1-4)
    by (cases "error_code p"; cases "is_tcp_type (TRANSPORT_TYPE e)")
      (simp_all add: dispatch_response_def unit_of_unicast txn_of_address swap_remove_ok Let_def)
qed

lemma ingest_frame_decoded:
  assumes "env_ok e" "TRANSPORT_TYPE e \<notin> {StdSerial Rtu, CustomSerial Rtu}"
    and "rxed_frame c = adu_frame (TRANSPORT_TYPE e) txn uid body @ rest"
    and "body \<noteq> []" "length body \<le> 253" "uid \<le> 247"
    and "pdu_from_bytes (byte_vec e) body = Ok p"
    and "dispatch_response e c (modbus_message_new (adu_address (TRANSPORT_TYPE e) txn uid body) p) = Ok c'"
  shows "ingest_frame e c = (Ok (length (adu_frame (TRANSPORT_TYPE e) txn uid body)), c')"
proof -
  let ?f = "adu_frame (TRANSPORT_TYPE e) txn uid body"
  have "derive_length_from_bytes (usize_vec e) (?f @ rest) (TRANSPORT_TYPE e) = Some (length ?f)"
    by (rule derive_length_frame) (use assms in auto)
  moreover have "length ?f \<le> 513"
    using adu_framing.frame_bound [OF assms(5), of "TRANSPORT_TYPE e" txn uid]
    by (cases "TRANSPORT_TYPE e" rule: adu_bound.cases) simp_all
  moreover have "decompile_adu_frame (byte_vec e) ?f (TRANSPORT_TYPE e) =
      Ok (modbus_message_new (adu_address (TRANSPORT_TYPE e) txn uid body) p)"
    using adu_framing.decode_frame [of "byte_vec e" "TRANSPORT_TYPE e" uid body txn] assms
    by (simp add: adu_addressable_def)
  ultimately show ?thesis
    using assms by (simp add: ingest_frame_def readdress_frame)
qed

lemma drain_keeps [simp]:
  "expected_responses (drain_rxed_frame e c n) = expected_responses c"
  "app_calls (drain_rxed_frame e c n) = app_calls c"
  "next_timeout_check (drain_rxed_frame e c n) = next_timeout_check c"
  "app (drain_rxed_frame e c n) = app c"
  by (simp_all add: drain_rxed_frame_def Let_def)

lemma process_incomplete: "incomplete e (rxed_frame c) \<Longrightarrow> process_rxed_frame e c = Some (Ok c)"
  by (subst process_rxed_frame.simps) (auto simp: incomplete_front_def ingest_frame_def split: option.splits)

text \<open>
  What identifies the request a response belongs to, and the call a response leads to.
\<close>

definition route :: "TransportType \<Rightarrow> 'h ExpectedResponse \<Rightarrow> u16 \<times> u8" where
  "route tt r = (if is_tcp_type tt then er_txn_id r else 0, er_unit r)"

definition response_frame :: "TransportType \<Rightarrow> 'h ExpectedResponse \<times> bytes \<times> Pdu \<Rightarrow> bytes" where
  "response_frame tt = (\<lambda>(r, body, p). adu_frame tt (er_txn_id r) (er_unit r) body)"

definition response_ok :: "('t, 'a, 'h) client_env \<Rightarrow> 'h ExpectedResponse \<times> bytes \<times> Pdu \<Rightarrow> bool" where
  "response_ok e = (\<lambda>(r, body, p). 1 \<le> er_unit r \<and> er_unit r \<le> 247 \<and> body \<noteq> [] \<and> length body \<le> 253 \<and>
     pdu_from_bytes (byte_vec e) body = Ok p)"

definition outcome :: "TransportType \<Rightarrow> 'h ExpectedResponse \<times> bytes \<times> Pdu \<Rightarrow> 'h AppCall" where
  "outcome tt = (\<lambda>(r, body, p).
     case error_code p of
       Some ec \<Rightarrow> RequestFailed (er_txn_id r) (UnitIdOrSlaveAddr (er_unit r)) (ModbusException ec)
     | None \<Rightarrow> HandlerCalled r (modbus_message_new (adu_address tt (er_txn_id r) (er_unit r) body) p))"

lemma distinct_mset_add:
  assumes "distinct (map f xs)" "mset xs = add_mset r (mset ys)"
  shows "distinct (map f ys)"
proof -
  have "mset (map f xs) = mset (map f (r # ys))" using assms(2) by simp
  then show ?thesis using assms(1) mset_eq_imp_distinct_iff by fastforce
qed

lemma receive_one:
  assumes "env_ok e" "TRANSPORT_TYPE e \<notin> {StdSerial Rtu, CustomSerial Rtu}"
    and "distinct (map (route (TRANSPORT_TYPE e)) (expected_responses c))"
    and "r \<in> set (expected_responses c)" "response_ok e (r, body, p)"
    and "rxed_frame c = response_frame (TRANSPORT_TYPE e) (r, body, p) @ rest" "queue_safe e c"
  shows "\<exists>d. process_rxed_frame e c = process_rxed_frame e d \<and> rxed_frame d = rest \<and>
    mset (expected_responses c) = add_mset r (mset (expected_responses d)) \<and>
    app_calls d = app_calls c @ [outcome (TRANSPORT_TYPE e) (r, body, p)] \<and>
    (error_code p = None \<longrightarrow> app_handler e (er_handler r) (app c) r
      (modbus_message_new (adu_address (TRANSPORT_TYPE e) (er_txn_id r) (er_unit r) body) p) = Some (app d))"
proof -
  let ?tt = "TRANSPORT_TYPE e" and ?q = "expected_responses c"
  let ?f = "adu_frame ?tt (er_txn_id r) (er_unit r) body"
  have p: "pdu_from_bytes (byte_vec e) body = Ok p"
    and b: "1 \<le> er_unit r" "er_unit r \<le> 247" "body \<noteq> []" "length body \<le> 253"
    using assms(5) by (auto simp: response_ok_def)
  let ?m = "modbus_message_new (adu_address ?tt (er_txn_id r) (er_unit r) body) p"
  have safe: "safe_request e (er_handler r) (operation_meta r)" "pdu_wf (pdu ?m)"
    using queue_safe_entry [OF assms(7,4)] pdu_from_bytes_wf [OF env_ok_simps(1) [OF assms(1)] p] by simp_all
  obtain i where i: "i < length ?q" "?q ! i = r" using assms(4) by (auto simp: in_set_conv_nth)
  have "\<forall>j < i. \<not> answers ?tt (er_txn_id r) (er_unit r) (?q ! j)"
  proof (intro allI impI notI)
    fix j assume j: "j < i" "answers ?tt (er_txn_id r) (er_unit r) (?q ! j)"
    then have "map (route ?tt) ?q ! j = map (route ?tt) ?q ! i"
      using i by (auto simp: route_def answers_def)
    then show False using nth_eq_iff_index_eq [OF assms(3), of j i] i j by simp
  qed
  then obtain d where d: "dispatch_response e c ?m = Ok d"
    "expected_responses d = swap_removed ?q i" "app_calls d = app_calls c @ [outcome (TRANSPORT_TYPE e) (r, body, p)]"
    "rxed_frame d = rxed_frame c" "error_code p = None \<longrightarrow> app_handler e (er_handler r) (app c) r ?m = Some (app d)"
    using dispatch_matched [OF assms(1) b(1,2) i(1), of "er_txn_id r" body p] i(2)
      call_handler_ok [OF safe, of "c\<lparr>expected_responses := swap_removed ?q i\<rparr>"]
    by (cases "error_code p") (auto simp: answers_def outcome_def Let_def)
  have "ingest_frame e c = (Ok (length ?f), d)"
    by (rule ingest_frame_decoded [OF assms(1,2) _ b(3,4,2) p d(1)])
      (simp add: assms(6) response_frame_def)
  moreover have "rxed_frame c \<noteq> []"
    using calculation ingest_frame_ok [OF assms(1,7)] by fastforce
  ultimately have "process_rxed_frame e c = process_rxed_frame e (drain_rxed_frame e d (length ?f))"
    by (subst process_rxed_frame.simps) simp
  then show ?thesis
    using d mset_swap_removed [OF i(1)] i(2) rxed_frame_shrinks(1) [OF assms(1), of d "length ?f"] assms(6)
    by (intro exI [of _ "drain_rxed_frame e d (length ?f)"]) (simp add: response_frame_def)
qed


lemma receive_many:
  assumes "env_ok e" "TRANSPORT_TYPE e \<notin> {StdSerial Rtu, CustomSerial Rtu}" "incomplete e rest"
  shows "queue_safe e c \<Longrightarrow> distinct (map (route (TRANSPORT_TYPE e)) (expected_responses c)) \<Longrightarrow>
    mset (map fst ps) \<subseteq># mset (expected_responses c) \<Longrightarrow> list_all (response_ok e) ps \<Longrightarrow>
    rxed_frame c = concat (map (response_frame (TRANSPORT_TYPE e)) ps) @ rest \<Longrightarrow>
    \<exists>c'. process_rxed_frame e c = Some (Ok c') \<and> rxed_frame c' = rest \<and>
      mset (expected_responses c') = mset (expected_responses c) - mset (map fst ps) \<and>
      app_calls c' = app_calls c @ map (outcome (TRANSPORT_TYPE e)) ps"
proof (induction ps arbitrary: c)
  case Nil
  then show ?case using assms(3) by (simp add: process_incomplete)
next
  case (Cons x ps)
  obtain r body p where x: "x = (r, body, p)" by (cases x)
  have "r \<in> set (expected_responses c)"
    using Cons.prems(3) by (auto simp: x dest: mset_subset_eqD)
  then obtain d where d: "process_rxed_frame e c = process_rxed_frame e d"
    "rxed_frame d = concat (map (response_frame (TRANSPORT_TYPE e)) ps) @ rest"
    "mset (expected_responses c) = add_mset r (mset (expected_responses d))"
    "app_calls d = app_calls c @ [outcome (TRANSPORT_TYPE e) x]"
    using receive_one [OF assms(1,2) Cons.prems(2), of r body p] Cons.prems(1,4,5) by (auto simp: x)
  moreover have "distinct (map (route (TRANSPORT_TYPE e)) (expected_responses d))"
    using distinct_mset_add Cons.prems(2) d(3) by metis
  moreover have "queue_safe e d"
    using Cons.prems(1) arg_cong [OF d(3), of set_mset] by (auto simp: queue_safe_def contexts_def)
  moreover have "mset (map fst ps) \<subseteq># mset (expected_responses d)"
    using Cons.prems(3) d(3) by (simp add: x)
  ultimately show ?case
    using Cons.IH [of d] Cons.prems(4) by (auto simp: x)
qed

end
