(* ===== verification/Client_Timeouts.thy ===== *)
theory Client_Timeouts
  imports Client_Receive
begin

text \<open>
  Connection loss, and the timeout and retry loop of \<open>handle_timeouts\<close>
  (mbus-client/src/services/mod.rs): the loop ends, panics nowhere, and leaves no request that is due.
\<close>

section \<open>Connection loss\<close>

lemma fail_all_loop_ok:
  assumes "env_ok e"
  shows "\<exists>c'. fail_all_loop e err c = Some c' \<and> step_ok e c c' \<and> expected_responses c' = [] \<and>
    rxed_frame c' = rxed_frame c \<and> app_calls c' = app_calls c @
      map (\<lambda>r. RequestFailed (er_txn_id r) (unit_id_from_u8 (er_unit r)) err) (rev (expected_responses c))"
proof (induction "expected_responses c" arbitrary: c rule: rev_induct)
  case Nil
  then show ?case using assms by (subst fail_all_loop.simps) (simp add: Nil[symmetric])
next
  case (snoc r rs)
  let ?d = "request_failed e (c\<lparr>expected_responses := rs\<rparr>) (er_txn_id r) (unit_id_from_u8 (er_unit r)) err"
  have i: "length rs < length (expected_responses c)" "expected_responses c ! length rs = r"
    "swap_removed (expected_responses c) (length rs) = rs"
    by (simp_all add: snoc.hyps(2)[symmetric] swap_removed_def)
  have "step_ok e c ?d"
    by (rule resolve_step [OF i(1), where
          call = "RequestFailed (er_txn_id r) (unit_id_from_u8 (er_unit r)) err"])
      (simp_all add: i)
  moreover have "fail_all_loop e err c = fail_all_loop e err ?d"
    using assms by (subst fail_all_loop.simps) (simp add: snoc.hyps(2)[symmetric])
  ultimately show ?case
    using snoc.hyps(1) [of ?d] by (auto simp: snoc.hyps(2)[symmetric] intro: step_ok_trans)
qed

lemma step_ok_update:
  "step_ok e c c' \<Longrightarrow> step_ok e c (c'\<lparr>next_timeout_check := n\<rparr>)"
  "step_ok e c c' \<Longrightarrow> step_ok e c (c'\<lparr>transport := t, rxed_frame := []\<rparr>)"
  "step_ok e c c' \<Longrightarrow> step_ok e c (c'\<lparr>transport := t\<rparr>)"
  "step_ok e c c' \<Longrightarrow> step_ok e c (c'\<lparr>rxed_frame := [], next_timeout_check := n, transport := t\<rparr>)"
  by (auto simp: step_ok_def client_inv_def pending_def resolved_def)

lemma step_ok_from_transport: "step_ok e (c\<lparr>transport := t\<rparr>) c' \<Longrightarrow> step_ok e c c'"
  by (auto simp: step_ok_def client_inv_def pending_def resolved_def)

lemma fail_all_pending_requests_ok:
  assumes "env_ok e"
  shows "\<exists>c'. fail_all_pending_requests e c err = Some c' \<and> step_ok e c c' \<and> expected_responses c' = [] \<and>
    rxed_frame c' = rxed_frame c \<and> next_timeout_check c' = None \<and> app_calls c' = app_calls c @
      map (\<lambda>r. RequestFailed (er_txn_id r) (unit_id_from_u8 (er_unit r)) err) (rev (expected_responses c))"
  using fail_all_loop_ok [OF assms, of err c]
  by (auto simp: fail_all_pending_requests_def intro: step_ok_update)

lemma handle_recv_error_ok:
  assumes "env_ok e"
  shows "\<exists>c'. handle_recv_error e c err = Some c' \<and> step_ok e c c' \<and>
    (if is_connection_loss err \<or> \<not> transport_is_connected e (transport c)
     then expected_responses c' = [] \<and> rxed_frame c' = [] \<and> next_timeout_check c' = None \<and>
       app_calls c' = app_calls c @ map (\<lambda>r. RequestFailed (er_txn_id r)
         (unit_id_from_u8 (er_unit r)) ConnectionLost) (rev (expected_responses c))
     else c' = c)"
  using fail_all_pending_requests_ok [OF assms, of c ConnectionLost]
  by (auto simp: handle_recv_error_def intro: step_ok_update)

section \<open>Timeouts\<close>

text \<open>The time at which a request needs attention, and whether it is overdue at a given time.\<close>

definition due_at :: "u64 \<Rightarrow> 'h ExpectedResponse \<Rightarrow> u64" where
  "due_at timeout r = (case next_retry_timestamp r of
     Some retry_at \<Rightarrow> retry_at | None \<Rightarrow> sat_add (sent_timestamp r) timeout)"

definition overdue :: "u64 \<Rightarrow> u64 \<Rightarrow> 'h ExpectedResponse \<Rightarrow> bool" where
  "overdue now timeout r \<longleftrightarrow> (case next_retry_timestamp r of
     Some retry_at \<Rightarrow> retry_at \<le> now | None \<Rightarrow> sat_add (sent_timestamp r) timeout < now)"

text \<open>
  (At the last representable millisecond, \<open>now = u64::MAX\<close>, a retry cannot be scheduled later than
  now; the statements below exempt it.)

  One pass of the scan over entry \<open>i\<close>: the weight of the entries still to visit decreases, the
  entries before \<open>i\<close> stay as they are, and an entry that is passed over is not overdue and is
  covered by the watermark.
\<close>

definition weight :: "'h ExpectedResponse \<Rightarrow> nat" where
  "weight r = (if next_retry_timestamp r = None then 2 else 1)"

definition work :: "usize \<Rightarrow> ('t, 'a, 'h) ClientServices \<Rightarrow> nat" where
  "work i c = sum_list (map weight (drop i (expected_responses c)))"

definition visited :: "u64 \<Rightarrow> u64 \<Rightarrow> usize \<Rightarrow> u64 \<Rightarrow> ('t, 'a, 'h) ClientServices \<Rightarrow> bool" where
  "visited now timeout i check c \<longleftrightarrow> i \<le> length (expected_responses c) \<and>
     (\<forall>j < i. (now = - 1 \<or> \<not> overdue now timeout (expected_responses c ! j)) \<and>
       check \<le> due_at timeout (expected_responses c ! j))"

lemma sat_add_ge: "a \<le> sat_add a b" for a b :: "'w::len word"
  by (simp add: word_le_nat_alt unat_sat_add) (metis One_nat_def Suc_pred less_Suc_eq_le unsigned_less
      zero_less_numeral zero_less_power)

lemma weight_pos: "0 < weight r"
  by (simp add: weight_def)

lemma drop_swap_removed: "i < length v \<Longrightarrow> drop i (swap_removed v i) = swap_removed (drop i v) 0"
  by (simp add: swap_removed_def drop_butlast drop_update_swap drop_update_cancel last_drop)

lemma work_swap_removed:
  assumes "i < length (expected_responses c)" "expected_responses c' = swap_removed (expected_responses c) i"
  shows "work i c' < work i c"
proof -
  let ?v = "drop i (expected_responses c)"
  have "mset ?v = add_mset (?v ! 0) (mset (swap_removed ?v 0))"
    by (rule mset_swap_removed) (use assms in simp)
  then have "sum_mset (image_mset weight (mset ?v)) =
      weight (?v ! 0) + sum_mset (image_mset weight (mset (swap_removed ?v 0)))"
    by simp
  then have "work i c = weight (?v ! 0) + work i c'"
    by (simp add: work_def assms drop_swap_removed sum_mset_sum_list [symmetric] flip: mset_map)
  then show ?thesis using weight_pos [of "?v ! 0"] by linarith
qed

lemma work_advance:
  assumes "i < length (expected_responses c)"
    "drop (Suc i) (expected_responses c') = drop (Suc i) (expected_responses c)"
  shows "work (Suc i) c' < work i c"
  using assms weight_pos [of "expected_responses c ! i"]
  by (simp add: work_def Cons_nth_drop_Suc [symmetric, of i])

lemma sat_add_gt: "b \<noteq> 0 \<Longrightarrow> a = - 1 \<or> a < sat_add a b" for a b :: u64
proof (cases "a = - 1")
  case False
  assume "b \<noteq> 0"
  then have "0 < unat b" by (simp add: unat_gt_0)
  moreover have "unat a \<noteq> 18446744073709551615"
    using False by (auto simp: word_unat_eq_iff unat_minus_one_word)
  moreover have "unat a < 18446744073709551616" using unsigned_less [of a] by simp
  ultimately have "unat a < min (unat a + unat b) 18446744073709551615"
    unfolding min_less_iff_conj by linarith
  then show ?thesis by (simp add: word_less_nat_alt unat_sat_add)
qed simp

lemma update_entry_step:
  assumes i: "i < length (expected_responses c)"
    and c': "expected_responses c' = (expected_responses c)[i := r']" "config c' = config c"
      "rxed_frame c' = rxed_frame c" "app_calls c' = app_calls c"
    and r': "er_txn_id r' = er_txn_id (expected_responses c ! i)"
      "er_handler r' = er_handler (expected_responses c ! i)"
      "operation_meta r' = operation_meta (expected_responses c ! i)"
      "entry_ok (config c) (expected_responses c ! i) \<Longrightarrow> entry_ok (config c) r'"
  shows "step_ok e c c'"
proof -
  have "map er_txn_id (expected_responses c') = map er_txn_id (expected_responses c)"
    using i by (simp add: c' map_update r'(1) list_update_same_conv)
  then have "pending c' = pending c" unfolding pending_def by simp
  then show ?thesis
    using i r'(2-) set_update_subset_insert [of "expected_responses c" i r']
    by (auto simp: step_ok_def client_inv_def queue_safe_def contexts_def er_context_def resolved_def c')
qed

lemma update_retries_entry:
  assumes "update_retries now timeout check r = (check', r')" "next_retry_timestamp r \<noteq> None"
  shows "entry_ok cfg r \<Longrightarrow> entry_ok cfg r'" "er_txn_id r' = er_txn_id r"
    "er_handler r' = er_handler r" "operation_meta r' = operation_meta r"
    "due_at timeout r' = sat_add now timeout" "\<not> overdue now timeout r'"
    "check' \<le> check" "check' \<le> sat_add now timeout"
proof -
  assume ok: "entry_ok cfg r"
  have "0 < unat (retries_left r)" using ok assms(2) by (simp add: entry_ok_def unat_gt_0)
  moreover have "unat (retries_left r) + unat (retry_attempt_index r) < 256"
    using ok unat_u8_lt [of "retry_attempts cfg"] by (simp add: entry_ok_def)
  ultimately have "unat (sat_sub (retries_left r) 1) + unat (sat_add (retry_attempt_index r) 1) =
      unat (retries_left r) + unat (retry_attempt_index r)"
    by (simp add: unat_sat_sub unat_sat_add)
  then show "entry_ok cfg r'"
    using ok assms(1) by (auto simp: update_retries_def Let_def entry_ok_def)
next
  show "er_txn_id r' = er_txn_id r" "er_handler r' = er_handler r" "operation_meta r' = operation_meta r" "due_at timeout r' = sat_add now timeout"
    "\<not> overdue now timeout r'" "check' \<le> check" "check' \<le> sat_add now timeout"
    using assms(1) sat_add_ge [of now timeout]
    by (auto simp: update_retries_def Let_def due_at_def overdue_def not_less)
qed

text \<open>
  The retry budget: sending a retry, scheduling one and failing a request each lower it, so that a
  request without a response is given up after finitely many timeouts.
\<close>

definition budget :: "'h ExpectedResponse \<Rightarrow> nat" where
  "budget r = 2 * unat (retries_left r) + (if next_retry_timestamp r = None then 1 else 0)"

definition potential :: "('t, 'a, 'h) ClientServices \<Rightarrow> nat" where
  "potential c = sum_list (map budget (expected_responses c))"

lemma potential_removed:
  assumes "client_inv e c" "i < length (expected_responses c)"
    "expected_responses c' = swap_removed (expected_responses c) i"
  shows "potential c' < potential c"
proof -
  let ?r = "expected_responses c ! i"
  have "sum_mset (image_mset budget (mset (expected_responses c))) =
      budget ?r + sum_mset (image_mset budget (mset (swap_removed (expected_responses c) i)))"
    by (simp add: mset_swap_removed [OF assms(2)])
  then have "potential c = budget ?r + potential c'"
    by (simp add: potential_def assms(3) sum_mset_sum_list [symmetric] flip: mset_map)
  moreover have "entry_ok (config c) ?r" using assms(1,2) by (simp add: client_inv_def)
  then have "0 < budget ?r" by (auto simp: budget_def entry_ok_def unat_gt_0)
  ultimately show ?thesis by linarith
qed

lemma potential_updated:
  assumes "i < length (expected_responses c)" "expected_responses c' = (expected_responses c)[i := r']"
    "budget r' < budget (expected_responses c ! i)"
  shows "potential c' < potential c"
proof -
  let ?q = "expected_responses c"
  have "?q = take i ?q @ ?q ! i # drop (Suc i) ?q" using assms(1) by (rule id_take_nth_drop)
  then have "potential c = sum_list (map budget (take i ?q)) + budget (?q ! i) +
      sum_list (map budget (drop (Suc i) ?q))"
    unfolding potential_def by (metis add.assoc list.simps(9) map_append sum_list.Cons sum_list.append)
  moreover have "potential c' = sum_list (map budget (take i ?q)) + budget r' +
      sum_list (map budget (drop (Suc i) ?q))"
    using assms(1) by (simp add: potential_def assms(2) upd_conv_take_nth_drop)
  ultimately show ?thesis using assms(3) by simp
qed

lemma budget_retry:
  assumes "update_retries now timeout check r = (check', r')" "next_retry_timestamp r \<noteq> None"
    "entry_ok cfg r"
  shows "budget r' < budget r"
proof -
  have "0 < unat (retries_left r)" using assms(2,3) by (simp add: entry_ok_def unat_gt_0)
  then show ?thesis using assms(1,2) by (auto simp: budget_def update_retries_def Let_def unat_sat_sub)
qed

definition progress ::
    "('t, 'a, 'h) client_env \<Rightarrow> u64 \<Rightarrow> u64 \<Rightarrow> usize \<Rightarrow> LoopAction \<Rightarrow> ('t, 'a, 'h) ClientServices \<Rightarrow>
     ('t, 'a, 'h) ClientServices \<Rightarrow> bool" where
  "progress e now timeout i action c c' \<longleftrightarrow> (client_inv e c \<longrightarrow>
     potential c' < potential c \<or>
     action \<noteq> Repeat \<and> expected_responses c' = expected_responses c \<and>
     \<not> overdue now timeout (expected_responses c ! i))"

definition moved ::
    "('t, 'a, 'h) client_env \<Rightarrow> u64 \<Rightarrow> u64 \<Rightarrow> usize \<Rightarrow> ('t, 'a, 'h) ClientServices \<Rightarrow>
     ('t, 'a, 'h) ClientServices \<Rightarrow> bool" where
  "moved e now timeout i c c' \<longleftrightarrow> (client_inv e c \<longrightarrow>
     potential c' \<le> potential c \<and>
     ((\<exists>j. i \<le> j \<and> j < length (expected_responses c) \<and> overdue now timeout (expected_responses c ! j)) \<longrightarrow>
      potential c' < potential c))"

lemma moved_step:
  assumes "progress e now timeout i action c c'" "step_ok e c c'"
    "moved e now timeout (if action = Repeat then i else Suc i) c' d"
  shows "moved e now timeout i c d"
  unfolding moved_def
proof
  assume "client_inv e c"
  moreover from this have "client_inv e c'" using assms(2) by (simp add: step_ok_def)
  ultimately consider "potential d \<le> potential c'" "potential c' < potential c"
    | "potential d \<le> potential c'" "expected_responses c' = expected_responses c" "action \<noteq> Repeat"
      "\<not> overdue now timeout (expected_responses c ! i)"
      "(\<exists>j. Suc i \<le> j \<and> j < length (expected_responses c) \<and>
        overdue now timeout (expected_responses c ! j)) \<longrightarrow> potential d < potential c'"
    using assms(1,3) by (auto simp: progress_def moved_def)
  then show "potential d \<le> potential c \<and>
     ((\<exists>j. i \<le> j \<and> j < length (expected_responses c) \<and> overdue now timeout (expected_responses c ! j)) \<longrightarrow>
      potential d < potential c)"
  proof cases
    case 2
    have "Suc i \<le> j" if "i \<le> j" "overdue now timeout (expected_responses c ! j)" for j
      using that 2(4) by (cases "i = j") auto
    moreover have "potential c' = potential c" using 2(2) by (simp add: potential_def)
    ultimately show ?thesis using 2(1,5) by metis
  qed simp
qed

text \<open>What one branch of the loop body establishes, by the action it returns.\<close>

definition branch_ok ::
    "('t, 'a, 'h) client_env \<Rightarrow> u64 \<Rightarrow> u64 \<Rightarrow> usize \<Rightarrow> ('t, 'a, 'h) ClientServices \<Rightarrow>
     LoopAction \<times> u64 \<times> ('t, 'a, 'h) ClientServices \<Rightarrow> bool" where
  "branch_ok e now timeout i c = (\<lambda>(action, check, c').
     step_ok e c c' \<and> progress e now timeout i action c c' \<and>
     (if action = Repeat then visited now timeout i check c' \<and> work i c' < work i c
      else visited now timeout (Suc i) check c' \<and> work (Suc i) c' < work i c))"

lemma visited_removed:
  assumes "visited now timeout i check c" "i < length (expected_responses c)"
    "expected_responses c' = swap_removed (expected_responses c) i"
  shows "visited now timeout i check c'"
  using assms by (auto simp: visited_def swap_removed_prefix)

lemma visited_advance:
  assumes "visited now timeout i check c" "i < length (expected_responses c)"
    "\<forall>j < i. expected_responses c' ! j = expected_responses c ! j"
    "length (expected_responses c') = length (expected_responses c)"
    "check' \<le> check" "check' \<le> due_at timeout (expected_responses c' ! i)"
    "now = - 1 \<or> \<not> overdue now timeout (expected_responses c' ! i)"
  shows "visited now timeout (Suc i) check' c'"
  using assms by (auto simp: visited_def less_Suc_eq intro: order_trans)

lemma remove_branch:
  assumes "env_ok e" "i < length (expected_responses c)" "visited now timeout i check c"
    and "d = request_failed e (c'\<lparr>expected_responses := swap_removed (expected_responses c) i\<rparr>)
      (er_txn_id (expected_responses c ! i)) uid err"
    and "config c' = config c" "rxed_frame c' = rxed_frame c" "app_calls c' = app_calls c"
  shows "branch_ok e now timeout i c (Repeat, check, d)"
proof -
  have "step_ok e c d"
    by (rule resolve_step [OF assms(2), where
          call = "RequestFailed (er_txn_id (expected_responses c ! i)) uid err"])
      (simp_all add: assms(4-))
  then show ?thesis
    using visited_removed [OF assms(3,2), of d] work_swap_removed [OF assms(2), of d]
      potential_removed [OF _ assms(2), of e d]
    by (simp add: branch_ok_def progress_def assms(4))
qed

lemma send_due_retry_ok:
  assumes "env_ok e" "i < length (expected_responses c)" "visited now timeout i check c"
    and "next_retry_timestamp (expected_responses c ! i) \<noteq> None"
  shows "\<exists>x. send_due_retry e c i now timeout check = Ok x \<and> fst x \<noteq> NotHandled \<and>
    branch_ok e now timeout i c x"
proof -
  let ?r = "expected_responses c ! i"
  obtain t sent where s: "transport_send e (transport c) (original_adu ?r) = (t, sent)"
    by (cases "transport_send e (transport c) (original_adu ?r)")
  obtain check' r' where u: "update_retries now timeout check ?r = (check', r')"
    by (cases "update_retries now timeout check ?r")
  note r' = update_retries_entry [OF u assms(4)]
  show ?thesis
  proof (cases sent)
    case (Inl err)
    then show ?thesis
      using remove_branch [OF assms(1-3), where c' = "c\<lparr>transport := t\<rparr>"] assms(2) s
        swap_remove_ok [OF assms(1), of i "c\<lparr>transport := t\<rparr>"]
      by (auto simp: send_due_retry_def)
  next
    case (Inr ok)
    let ?d = "c\<lparr>transport := t, expected_responses := (expected_responses c)[i := r']\<rparr>"
    have "step_ok e c ?d"
      by (rule update_entry_step [OF assms(2), of _ r']) (simp_all add: r'(1-4))
    moreover have "visited now timeout (Suc i) check' ?d"
      by (rule visited_advance [OF assms(3,2)]) (use assms(2) r' in simp_all)
    moreover have "work (Suc i) ?d < work i c"
      by (rule work_advance [OF assms(2)]) simp
    moreover have "progress e now timeout i Advance c ?d"
      using potential_updated [OF assms(2), of ?d r'] budget_retry [OF u assms(4), of "config c"] assms(2)
      by (simp add: progress_def client_inv_def)
    ultimately show ?thesis
      using Inr s u assms(2) by (simp add: send_due_retry_def branch_ok_def)
  qed
qed

lemma scheduled_retry_ok:
  assumes "env_ok e" "i < length (expected_responses c)" "visited now timeout i check c"
  shows "\<exists>action check' c'. try_process_scheduled_retry e c i now timeout check = Ok (action, check', c') \<and>
    (if action = NotHandled
     then c' = c \<and> check' = check \<and> next_retry_timestamp (expected_responses c ! i) = None
     else branch_ok e now timeout i c (action, check', c'))"
proof (cases "next_retry_timestamp (expected_responses c ! i)")
  case None
  then show ?thesis using assms(2) by (simp add: try_process_scheduled_retry_def)
next
  case (Some retry_at)
  show ?thesis
  proof (cases "retry_at \<le> now")
    case True
    then show ?thesis
      using Some assms(2) send_due_retry_ok [OF assms] by (force simp: try_process_scheduled_retry_def)
  next
    case False
    let ?check = "if retry_at < check then retry_at else check"
    have "visited now timeout (Suc i) ?check c"
      by (rule visited_advance [OF assms(3,2)])
        (use False Some in \<open>auto simp: due_at_def overdue_def\<close>)
    then show ?thesis
      using Some False assms(2) work_advance [OF assms(2) refl]
      by (simp add: try_process_scheduled_retry_def branch_ok_def progress_def overdue_def)
  qed
qed

lemma schedule_next_retry_ok:
  assumes "env_ok e" "i < length (expected_responses c)" "visited now timeout i check c"
    and "next_retry_timestamp (expected_responses c ! i) = None" "retries_left (expected_responses c ! i) \<noteq> 0"
  shows "\<exists>x. schedule_next_retry e c i now policy check = Ok x \<and> branch_ok e now timeout i c x"
proof -
  let ?r = "expected_responses c ! i"
  define delay :: u64 where "delay = ucast (jitter_apply (rp_jitter policy)
    (delay_ms_for_retry (rp_backoff policy) (sat_add (retry_attempt_index ?r) 1))
    (map_option (\<lambda>f. f (random_calls c)) (rp_random_fn policy)))"
  let ?r' = "?r\<lparr>next_retry_timestamp := Some (sat_add now delay)\<rparr>"
  define d where "d = c\<lparr>expected_responses := (expected_responses c)[i := ?r'],
    random_calls := random_calls c +
      (if jitter_delta (rp_jitter policy)
            (delay_ms_for_retry (rp_backoff policy) (sat_add (retry_attempt_index ?r) 1)) \<noteq> None \<and>
          map_option (\<lambda>f. f (random_calls c)) (rp_random_fn policy) \<noteq> None then 1 else 0)\<rparr>"
  have d: "expected_responses d = (expected_responses c)[i := ?r']" by (simp add: d_def)
  have step: "step_ok e c d"
    by (rule update_entry_step [OF assms(2), of _ ?r'])
      (use assms(5) in \<open>simp_all add: d_def entry_ok_def\<close>)
  have progress: "progress e now timeout i action c d" for action
    using potential_updated [OF assms(2) d] assms(4) by (simp add: progress_def budget_def)
  have eq: "schedule_next_retry e c i now policy check =
      (if delay = 0 then Ok (Repeat, check, d)
       else Ok (Advance, if sat_add now delay < check then sat_add now delay else check, d))"
    using assms(2) unfolding schedule_next_retry_def delay_def d_def by (simp add: Let_def)
  show ?thesis
  proof (cases "delay = 0")
    case True
    have "work i d < work i c"
      using assms(2,4) by (simp add: work_def d drop_update_swap Cons_nth_drop_Suc [symmetric] weight_def)
    moreover have "visited now timeout i check d"
      using assms(3) by (auto simp: visited_def d)
    ultimately show ?thesis using True step progress eq by (simp add: branch_ok_def)
  next
    case False
    have "now = - 1 \<or> now < sat_add now delay"
      using False by (rule sat_add_gt)
    then have "visited now timeout (Suc i) (if sat_add now delay < check then sat_add now delay else check) d"
      by (intro visited_advance [OF assms(3,2)])
        (use assms(2) in \<open>auto simp: d due_at_def overdue_def\<close>)
    moreover have "work (Suc i) d < work i c"
      by (rule work_advance [OF assms(2)]) (simp add: d)
    ultimately show ?thesis using False step progress eq by (simp add: branch_ok_def)
  qed
qed

lemma request_timeout_ok:
  assumes "env_ok e" "i < length (expected_responses c)" "visited now timeout i check c"
    and "next_retry_timestamp (expected_responses c ! i) = None"
  shows "\<exists>x. try_handle_request_timeout e c i now timeout policy check = Ok x \<and>
    branch_ok e now timeout i c x"
proof -
  let ?r = "expected_responses c ! i" and ?x = "sat_add (sent_timestamp (expected_responses c ! i)) timeout"
  consider "now \<le> ?x" | "\<not> now \<le> ?x" "retries_left ?r = 0" | "\<not> now \<le> ?x" "retries_left ?r \<noteq> 0"
    by blast
  then show ?thesis
  proof cases
    case 1
    have "visited now timeout (Suc i) (if ?x < check then ?x else check) c"
      by (rule visited_advance [OF assms(3,2)])
        (use 1 assms(4) in \<open>auto simp: due_at_def overdue_def\<close>)
    then show ?thesis
      using 1 assms(2) work_advance [OF assms(2) refl]
      by (auto simp: try_handle_request_timeout_def branch_ok_def progress_def overdue_def assms(4) Let_def)
  next
    case 2
    then show ?thesis
      using remove_branch [OF assms(1-3) _ refl refl refl] swap_remove_ok [OF assms(1,2)] assms(2)
      by (simp add: try_handle_request_timeout_def fail_exhausted_request_def)
  next
    case 3
    then show ?thesis
      using schedule_next_retry_ok [OF assms] assms(2) by (simp add: try_handle_request_timeout_def)
  qed
qed

lemma timeouts_loop_ok:
  assumes "env_ok e"
  shows "visited now timeout i check c \<Longrightarrow>
    \<exists>check' c'. timeouts_loop e now timeout policy i check c = Some (Ok (check', c')) \<and> step_ok e c c' \<and>
      visited now timeout (length (expected_responses c')) check' c' \<and> moved e now timeout i c c'"
proof (induction "work i c" arbitrary: i check c rule: less_induct)
  case less
  show ?case
  proof (cases "i < length (expected_responses c)")
    case False
    then have "i = length (expected_responses c)" using less.prems by (simp add: visited_def)
    then show ?thesis using less.prems by (subst timeouts_loop.simps) (simp add: moved_def)
  next
    case True
    have again: "\<exists>check' d. timeouts_loop e now timeout policy (if a = Repeat then i else Suc i) k c' =
          Some (Ok (check', d)) \<and> step_ok e c d \<and>
          visited now timeout (length (expected_responses d)) check' d \<and> moved e now timeout i c d"
      if "branch_ok e now timeout i c (a, k, c')" for a k c'
    proof -
      have b: "progress e now timeout i a c c'" "step_ok e c c'" using that by (auto simp: branch_ok_def)
      have "visited now timeout (if a = Repeat then i else Suc i) k c'"
        "work (if a = Repeat then i else Suc i) c' < work i c"
        using that by (auto simp: branch_ok_def)
      with less.hyps [OF this(2,1)] show ?thesis
        using b step_ok_trans moved_step by blast
    qed
    obtain a k c' where s: "try_process_scheduled_retry e c i now timeout check = Ok (a, k, c')"
      "if a = NotHandled
       then c' = c \<and> k = check \<and> next_retry_timestamp (expected_responses c ! i) = None
       else branch_ok e now timeout i c (a, k, c')"
      using scheduled_retry_ok [OF assms True less.prems] by blast
    show ?thesis
    proof (cases "a = NotHandled")
      case False
      then show ?thesis
        using again [of a k c'] s True by (cases a) (subst timeouts_loop.simps, simp)+
    next
      case nh: True
      then obtain x where x: "try_handle_request_timeout e c i now timeout policy check = Ok x"
        "branch_ok e now timeout i c x"
        using request_timeout_ok [OF assms True less.prems, of policy] s(2) by metis
      obtain a' k' d' where "x = (a', k', d')" by (cases x)
      then show ?thesis
        using again [of a' k' d'] s x nh True
        by (subst timeouts_loop.simps) (simp split: if_splits)
    qed
  qed
qed

end
