(* ===== verification/Client.thy ===== *)
theory Client
  imports Client_Timeouts
begin

text \<open>
  The guarantees of the client state machine. \<open>client_op\<close> is the contract every operation of the
  client keeps; it is interpreted on \<open>poll\<close>, the receive loop, \<open>handle_timeouts\<close>, the failing of all
  requests, \<open>disconnect\<close> and \<open>reconnect\<close>. \<open>client_run\<close> is the life of a client under any order of
  calls.
\<close>

section \<open>Operations that resolve requests\<close>

text \<open>
  The contract of the client's operations: on any client whose requests are safe they end without a
  panic or an error, and are a \<open>step_ok\<close>.
\<close>

fun finished :: "'c result option \<Rightarrow> 'c option" where
  "finished (Some (Ok c)) = Some c"
| "finished _ = None"

locale client_op =
  fixes run_op :: "('t, 'a, 'h) client_env \<Rightarrow> ('t, 'a, 'h) ClientServices \<Rightarrow>
    ('t, 'a, 'h) ClientServices option"
  assumes op_step: "env_ok e \<Longrightarrow> queue_safe e c \<Longrightarrow> \<exists>c'. run_op e c = Some c' \<and> step_ok e c c'"
begin

lemma op_keeps:
  assumes "env_ok e" "queue_safe e c" "run_op e c = Some c'"
  shows "client_inv e c \<Longrightarrow> client_inv e c'" "pending c' + resolved c' = pending c + resolved c"
    "config c' = config c" "prefix (app_calls c) (app_calls c')"
  using op_step [OF assms(1,2)] assms(3) by (auto simp: step_ok_def)

text \<open>A request that is no longer in the queue has been reported.\<close>

lemma op_reports:
  assumes "env_ok e" "queue_safe e c" "run_op e c = Some c'" "txn \<in># pending c" "txn \<notin># pending c'"
  shows "\<exists>call \<in> set (drop (length (app_calls c)) (app_calls c')). call_txn call = txn"
proof -
  obtain new where new: "app_calls c' = app_calls c @ new"
    using op_keeps(4) [OF assms(1-3)] by (auto elim: prefixE)
  then have "pending c' + mset (map call_txn new) = pending c"
    using op_keeps(2) [OF assms(1-3)] by (simp add: resolved_def)
  then have "txn \<in># mset (map call_txn new)" using assms(4,5) by (metis union_iff)
  then show ?thesis using new by auto
qed

end

lemma append_step:
  assumes "env_ok e"
  shows "step_ok e c (append_to_rxed_frame e c bs)"
  using assms
  by (auto simp: append_to_rxed_frame_def step_ok_def client_inv_def pending_def resolved_def)

text \<open>Whether \<open>handle_timeouts\<close> scans the queue, and what a scan leaves behind.\<close>

definition scan_due :: "('t, 'a, 'h) client_env \<Rightarrow> ('t, 'a, 'h) ClientServices \<Rightarrow> bool" where
  "scan_due e c \<longleftrightarrow> expected_responses c \<noteq> [] \<and>
     (case next_timeout_check c of None \<Rightarrow> True | Some t \<Rightarrow> t \<le> app_current_millis e (app c))"

definition scanned :: "u64 \<Rightarrow> u64 \<Rightarrow> ('t, 'a, 'h) ClientServices \<Rightarrow> bool" where
  "scanned now timeout c \<longleftrightarrow> (\<forall>r \<in> set (expected_responses c).
     (now = - 1 \<or> \<not> overdue now timeout r) \<and>
     (case next_timeout_check c of Some t \<Rightarrow> t \<le> due_at timeout r | None \<Rightarrow> due_at timeout r = - 1))"

lemma scan_ok:
  assumes "env_ok e" "scan_due e c"
  defines "now \<equiv> app_current_millis e (app c)" and "timeout \<equiv> response_timeout_ms (config c)"
  shows "\<exists>c'. handle_timeouts e c = Some (Ok c') \<and> step_ok e c c' \<and> scanned now timeout c' \<and>
    moved e now timeout 0 c c'"
proof -
  have "visited now timeout 0 (- 1) c" by (simp add: visited_def)
  from timeouts_loop_ok [OF assms(1) this, of "retry_policy (config c)"]
  obtain check c' where c': "timeouts_loop e now timeout (retry_policy (config c)) 0 (- 1) c = Some (Ok (check, c'))"
    "step_ok e c c'" "visited now timeout (length (expected_responses c')) check c'"
    "moved e now timeout 0 c c'"
    by blast
  let ?d = "c'\<lparr>next_timeout_check := (if check \<noteq> - 1 then Some check else None)\<rparr>"
  have "handle_timeouts e c = Some (Ok ?d)"
    using assms(2) c'(1) unfolding handle_timeouts_def scan_due_def now_def timeout_def
    by (cases "next_timeout_check c") (simp_all add: Let_def not_less [symmetric])
  moreover have "scanned now timeout ?d"
    using c'(3) by (auto simp: scanned_def visited_def in_set_conv_nth word_order.extremum_unique)
  moreover have "moved e now timeout 0 c ?d"
    using c'(4) by (simp add: moved_def potential_def)
  ultimately show ?thesis using step_ok_update(1) [OF c'(2)] by blast
qed

lemma handle_timeouts_ok:
  assumes "env_ok e"
  shows "\<exists>c'. handle_timeouts e c = Some (Ok c') \<and> step_ok e c c'"
proof (cases "scan_due e c")
  case False
  then show ?thesis
    by (cases "expected_responses c = []"; cases "next_timeout_check c")
      (auto simp: handle_timeouts_def scan_due_def Let_def not_le intro: step_ok_update)
qed (use scan_ok [OF assms] in blast)

text \<open>The first half of \<open>poll\<close>: what was received, or the error.\<close>

lemma receive_ok:
  assumes "env_ok e" "queue_safe e c"
  shows "\<exists>d. (case received of
        Inr frame \<Rightarrow> process_rxed_frame e (append_to_rxed_frame e c frame)
      | Inl err \<Rightarrow> map_option Ok (handle_recv_error e c err)) = Some (Ok d) \<and> step_ok e c d"
proof (cases received)
  case (Inl err)
  then show ?thesis using handle_recv_error_ok [OF assms(1), of c err] by auto
next
  case (Inr frame)
  have append: "step_ok e c (append_to_rxed_frame e c frame)" by (rule append_step [OF assms(1)])
  then have "queue_safe e (append_to_rxed_frame e c frame)" using assms(2) by (rule step_ok_safe)
  then obtain d where "process_rxed_frame e (append_to_rxed_frame e c frame) = Some (Ok d)"
    "step_ok e (append_to_rxed_frame e c frame) d"
    using process_rxed_frame_ok [OF assms(1)] by blast
  then show ?thesis using Inr step_ok_trans [OF append] by auto
qed

lemma poll_ok:
  assumes "env_ok e" "queue_safe e c"
  shows "\<exists>c'. poll e c = Some (Ok c') \<and> step_ok e c c'"
proof -
  obtain t received where t: "transport_recv e (transport c) = (t, received)"
    by (cases "transport_recv e (transport c)")
  obtain d where d: "(case received of
        Inr frame \<Rightarrow> process_rxed_frame e (append_to_rxed_frame e (c\<lparr>transport := t\<rparr>) frame)
      | Inl err \<Rightarrow> map_option Ok (handle_recv_error e (c\<lparr>transport := t\<rparr>) err)) = Some (Ok d)"
      "step_ok e (c\<lparr>transport := t\<rparr>) d"
    using receive_ok [OF assms(1), of "c\<lparr>transport := t\<rparr>"] unfolding queue_safe_simps using assms(2) by blast
  obtain c' where c': "handle_timeouts e d = Some (Ok c')" "step_ok e d c'"
    using handle_timeouts_ok [OF assms(1)] by blast
  have "poll e c = Some (Ok c')"
    by (simp only: poll_def t Let_def prod.case d c' option.case res.case)
  then show ?thesis
    using step_ok_trans [OF step_ok_from_transport [OF d(2)] c'(2)] by blast
qed

interpretation poll_op: client_op "\<lambda>e c. finished (poll e c)"
  by unfold_locales (metis finished.simps(1) poll_ok)

interpretation timeouts_op: client_op "\<lambda>e c. finished (handle_timeouts e c)"
  by unfold_locales (metis finished.simps(1) handle_timeouts_ok)

interpretation receive_op: client_op "\<lambda>e c. finished (process_rxed_frame e c)"
  by unfold_locales (metis finished.simps(1) process_rxed_frame_ok)

interpretation fail_all_op: client_op "\<lambda>e c. fail_all_pending_requests e c err" for err
  by unfold_locales (metis fail_all_pending_requests_ok)

interpretation recv_error_op: client_op "\<lambda>e c. handle_recv_error e c err" for err
  by unfold_locales (metis handle_recv_error_ok)

interpretation disconnect_op: client_op client_disconnect
proof (standard, goal_cases)
  case (1 e c)
  then show ?case
    using fail_all_pending_requests_ok [of e c ConnectionLost]
    by (auto simp: client_disconnect_def intro: step_ok_update)
qed

interpretation reconnect_op: client_op "\<lambda>e c. map_option fst (client_reconnect e c)"
proof (standard, goal_cases)
  case (1 e c)
  then show ?case
    using fail_all_pending_requests_ok [of e c ConnectionLost]
    by (auto simp: client_reconnect_def client_connect_def Let_def case_prod_beta intro: step_ok_update)
qed

section \<open>Runs of a client\<close>

text \<open>
  A client from its construction on, with the transaction identifiers of the requests it has
  registered so far. A request method registers an expectation (unless it is a broadcast) and sends
  the frame; whether sending works does not matter here. Between two calls the application and the
  transport may change in any way: time passes, bytes arrive.
\<close>

inductive client_run ::
    "('t, 'a, 'h) client_env \<Rightarrow> ('t, 'a, 'h) ClientServices \<Rightarrow> u16 multiset \<Rightarrow> bool" for e where
  started: "client_new e t a cfg = Ok c \<Longrightarrow> client_run e c {#}"
| started_serial: "client_new_serial e t a scfg = Ok c \<Longrightarrow> client_run e c {#}"
| registered: "client_run e c A \<Longrightarrow> safe_request e h meta \<Longrightarrow>
    add_an_expectation e c txn uid frame meta h = Ok c' \<Longrightarrow> client_run e c' (add_mset txn A)"
| sent: "client_run e c A \<Longrightarrow> client_run e (fst (dispatch_request_frame e c frame)) A"
| polled: "client_run e c A \<Longrightarrow> poll e c = Some (Ok c') \<Longrightarrow> client_run e c' A"
| connected: "client_run e c A \<Longrightarrow> client_run e (fst (client_connect e c)) A"
| disconnected: "client_run e c A \<Longrightarrow> client_disconnect e c = Some c' \<Longrightarrow> client_run e c' A"
| reconnected: "client_run e c A \<Longrightarrow> client_reconnect e c = Some (c', r) \<Longrightarrow> client_run e c' A"
| world: "client_run e c A \<Longrightarrow> client_run e (c\<lparr>app := a, transport := t\<rparr>) A"

definition accounted :: "('t, 'a, 'h) client_env \<Rightarrow> ('t, 'a, 'h) ClientServices \<Rightarrow> u16 multiset \<Rightarrow> bool" where
  "accounted e c A \<longleftrightarrow> client_inv e c \<and> A = pending c + resolved c"

lemma accounted_safe: "accounted e c A \<Longrightarrow> queue_safe e c"
  by (simp add: accounted_def client_inv_def)

lemma accounted_step: "accounted e c A \<Longrightarrow> step_ok e c c' \<Longrightarrow> accounted e c' A"
  by (simp add: accounted_def step_ok_def)

lemma accounted_cong:
  "accounted e c A \<Longrightarrow> expected_responses c' = expected_responses c \<Longrightarrow> app_calls c' = app_calls c \<Longrightarrow>
   config c' = config c \<Longrightarrow> rxed_frame c' = rxed_frame c \<Longrightarrow> accounted e c' A"
  by (simp add: accounted_def client_inv_def pending_def resolved_def queue_safe_cong [of c' c])

lemma accounted_registered:
  assumes "accounted e c A" "env_ok e" "safe_request e h meta" "add_an_expectation e c txn uid frame meta h = Ok c'"
  shows "accounted e c' (add_mset txn A)"
  using assms
  by (auto simp: accounted_def add_an_expectation_def client_inv_def pending_def resolved_def
      queue_safe_def contexts_def er_context_def entry_ok_def res_simps split: if_splits)

lemma client_run_accounted: "client_run e c A \<Longrightarrow> env_ok e \<Longrightarrow> accounted e c A"
proof (induction rule: client_run.induct)
  case (started t a cfg c)
  then show ?case by (auto simp: client_new_def accounted_def client_inv_def pending_def resolved_def
        queue_safe_def contexts_def split: if_splits)
next
  case (started_serial t a scfg c)
  then show ?case by (auto simp: client_new_serial_def accounted_def client_inv_def pending_def
        resolved_def queue_safe_def contexts_def split: if_splits)
next
  case (registered c A txn uid frame meta h c')
  then show ?case by (blast intro: accounted_registered)
next
  case (sent c A frame)
  have "accounted e (c\<lparr>transport := t\<rparr>) A" for t
    by (rule accounted_cong [of e c]) (use sent in simp_all)
  then show ?case by (simp add: dispatch_request_frame_def Let_def case_prod_beta split: sum.split)
next
  case (connected c A)
  have "accounted e (c\<lparr>transport := t\<rparr>) A" for t
    by (rule accounted_cong [of e c]) (use connected in simp_all)
  then show ?case by (simp add: client_connect_def case_prod_beta)
next
  case (polled c A c')
  then show ?case using poll_ok [of e c] accounted_safe by (fastforce intro: accounted_step)
next
  case (disconnected c A c')
  then show ?case using disconnect_op.op_step [of e c] accounted_safe by (fastforce intro: accounted_step)
next
  case (reconnected c A c' r)
  then show ?case using reconnect_op.op_step [of e c] accounted_safe by (fastforce intro: accounted_step)
next
  case (world c A a t)
  then show ?case by (auto intro: accounted_cong)
qed

section \<open>The retry budget of the queue\<close>

lemma potential_empty:
  assumes "client_inv e c"
  shows "potential c = 0 \<longleftrightarrow> expected_responses c = []"
proof -
  have "budget r \<noteq> 0" if "r \<in> set (expected_responses c)" for r
    using assms that by (auto simp: budget_def client_inv_def entry_ok_def unat_gt_0 split: if_splits)
  then show ?thesis by (cases "expected_responses c") (auto simp: potential_def)
qed

lemma potential_bound:
  assumes "client_inv e c"
  shows "potential c \<le> (2 * unat (retry_attempts (config c)) + 1) * length (expected_responses c)"
proof -
  let ?n = "2 * unat (retry_attempts (config c)) + 1"
  have "budget r \<le> ?n" if "r \<in> set (expected_responses c)" for r
    using assms that by (force simp: budget_def client_inv_def entry_ok_def)
  then have "sum_list (map budget (expected_responses c)) \<le> sum_list (map (\<lambda>r. ?n) (expected_responses c))"
    by (rule sum_list_mono)
  then show ?thesis by (simp add: potential_def sum_list_triv mult.commute)
qed

section \<open>Examples of a client and its surroundings\<close>

text \<open>A concrete surrounding: a TCP transport that hands out the listed chunks, and a clock.\<close>

definition sample_env :: "(bytes list \<times> bytes list, u64, unit) client_env" where
  "sample_env =
     \<lparr>TRANSPORT_TYPE = StdTcp, transport_connect = (\<lambda>t cfg. (t, Inr ())),
      transport_disconnect = (\<lambda>t. (t, Inr ())), transport_send = (\<lambda>(i, s) f. ((i, s @ [f]), Inr ())),
      transport_recv = (\<lambda>(i, s). case i of [] \<Rightarrow> (([], s), Inl Timeout) | f # i \<Rightarrow> ((i, s), Inr f)),
      transport_is_connected = (\<lambda>t. True), app_request_failed = (\<lambda>a txn uid err. a),
      app_current_millis = (\<lambda>a. a), app_handler = (\<lambda>h a r m. Some a), queue_capacity = 4,
      byte_vec = bounded_vec, usize_vec = bounded_vec, response_vec = bounded_vec\<rparr>"

lemma sample_env_ok [simp]: "env_ok sample_env"
  by (simp add: env_ok_def sample_env_def)

lemma sample_safe [simp]: "safe_request sample_env h meta" "queue_safe sample_env c"
  by (simp_all add: queue_safe_def safe_request_def sample_env_def)

lemma sample_env_simps [simp]:
  "TRANSPORT_TYPE sample_env = StdTcp" "queue_capacity sample_env = 4"
  "app_current_millis sample_env a = a" "byte_vec sample_env = bounded_vec"
  "usize_vec sample_env = bounded_vec" "response_vec sample_env = bounded_vec"
  "transport_is_connected sample_env t = True"
  by (simp_all add: sample_env_def)

lemma sample_config_simps [simp]:
  "response_timeout_ms sample_config = 1000" "retry_attempts sample_config = 1"
  by (simp_all add: sample_config_def)

text \<open>A request for transaction \<open>txn\<close> to unit \<open>uid\<close> sent at time 0, and a client with such requests.\<close>

definition sample_request :: "u16 \<Rightarrow> u8 \<Rightarrow> unit ExpectedResponse" where
  "sample_request txn uid =
     \<lparr>er_txn_id = txn, er_unit = uid, original_adu = [], sent_timestamp = 0, retries_left = 1,
      retry_attempt_index = 0, next_retry_timestamp = None, er_handler = (), operation_meta = OM_Other\<rparr>"

definition sample_client ::
    "u64 \<Rightarrow> bytes \<Rightarrow> unit ExpectedResponse list \<Rightarrow> (bytes list \<times> bytes list, u64, unit) ClientServices" where
  "sample_client now buffer queue =
     \<lparr>app = now, transport = ([], []), config = sample_config, rxed_frame = buffer,
      expected_responses = queue, next_timeout_check = None, random_calls = 0, app_calls = []\<rparr>"

lemma sample_inv:
  "length q \<le> 4 \<Longrightarrow> length b \<le> 513 \<Longrightarrow> client_inv sample_env (sample_client now b (map (\<lambda>(t, u). sample_request t u) q))"
  by (auto simp: client_inv_def sample_client_def sample_request_def entry_ok_def)

section \<open>What the client guarantees\<close>

text \<open>
  C1: At every moment of a client's life the requests it accepted are, as a multiset of transaction
  identifiers, those still in the queue together with those for which the application was called
  (\<open>request_failed\<close> or a response handler): no request is lost and none is reported twice. The
  receive buffer and the queue stay within their capacities, and no request is retried more often
  than configured.
\<close>

theorem requests_accounted:
  assumes "env_ok e" "client_run e c A"
  shows "A = pending c + resolved c \<and> length (rxed_frame c) \<le> 513 \<and>
    length (expected_responses c) \<le> queue_capacity e \<and>
    (\<forall>r \<in> set (expected_responses c).
      unat (retries_left r) + unat (retry_attempt_index r) = unat (retry_attempts (config c)))"
  using client_run_accounted [OF assms(2,1)] by (simp add: accounted_def client_inv_def entry_ok_def)

theorem requests_accounted_witness:
  "\<exists>c. client_run sample_env c {#7#} \<and> pending c + resolved c = {#7#}"
proof -
  let ?c = "sample_client 0 [] []"
  obtain c where c: "add_an_expectation sample_env ?c 7 (UnitIdOrSlaveAddr 1) [] OM_Other () = Ok c"
    by (simp add: add_an_expectation_def sample_client_def)
  have "client_run sample_env ?c {#}"
    by (rule client_run.started [of _ "([], [])" 0 sample_config]) (simp add: client_new_def sample_client_def)
  then have "client_run sample_env c (add_mset 7 {#})" by (rule client_run.registered [OF _ sample_safe(1) c])
  from this requests_accounted [OF sample_env_ok this] show ?thesis by auto
qed




text \<open>
  C4: On TCP and ASCII, when the receive buffer holds the responses to some of the pending requests, in
  any order and followed by a partial frame, the receive loop consumes exactly these frames. It
  removes exactly the requests they answer and calls the application once for each, in the order
  of the frames: the request's own handler with the decoded PDU, or \<open>request_failed\<close> with the
  exception code of an exception response. The requests are told apart by transaction identifier
  and unit identifier on TCP, by unit identifier on a serial line.
\<close>

theorem responses_resolved:
  assumes "env_ok e" "queue_safe e c" "TRANSPORT_TYPE e \<notin> {StdSerial Rtu, CustomSerial Rtu}" "incomplete e rest"
    and "distinct (map (route (TRANSPORT_TYPE e)) (expected_responses c))"
    and "mset (map fst ps) \<subseteq># mset (expected_responses c)" "list_all (response_ok e) ps"
    and "rxed_frame c = concat (map (response_frame (TRANSPORT_TYPE e)) ps) @ rest"
  shows "\<exists>c'. process_rxed_frame e c = Some (Ok c') \<and> rxed_frame c' = rest \<and>
      mset (expected_responses c') = mset (expected_responses c) - mset (map fst ps) \<and>
      app_calls c' = app_calls c @ map (outcome (TRANSPORT_TYPE e)) ps"
  using receive_many assms by blast

theorem responses_resolved_witness:
  "\<exists>c'. process_rxed_frame sample_env (sample_client 0
      (adu_frame StdTcp 8 2 [5, 0, 1, 255, 0] @ adu_frame StdTcp 7 1 [0x83, 2] @ [0, 9, 0])
      [sample_request 7 1, sample_request 8 2]) = Some (Ok c') \<and>
    rxed_frame c' = [0, 9, 0] \<and> expected_responses c' = [] \<and>
    app_calls c' =
      [HandlerCalled (sample_request 8 2) (modbus_message_new (adu_address StdTcp 8 2 [5, 0, 1, 255, 0])
         \<lparr>function_code = WriteSingleCoil, error_code = None, data = [0, 1, 255, 0], data_len = 4\<rparr>),
       RequestFailed 7 (UnitIdOrSlaveAddr 1) (ModbusException 2)]"
proof -
  let ?f = "adu_frame StdTcp 8 2 [5, 0, 1, 255, 0] @ adu_frame StdTcp 7 1 [0x83, 2] @ [0, 9, 0]"
  let ?c = "sample_client 0 ?f [sample_request 7 1, sample_request 8 2]"
  let ?ps = "[(sample_request 8 2, [5, 0, 1, 255, 0],
      \<lparr>function_code = WriteSingleCoil, error_code = None, data = [0, 1, 255, 0], data_len = 4\<rparr>),
    (sample_request 7 1, [0x83, 2],
      \<lparr>function_code = ReadHoldingRegisters, error_code = Some 2, data = [2], data_len = 1\<rparr>)]"
  have "incomplete sample_env [0, 9, 0]"
    by (simp add: incomplete_front_def derive_length_from_bytes_def)
  moreover have "distinct (map (route (TRANSPORT_TYPE sample_env)) (expected_responses ?c))"
    by (simp add: route_def sample_client_def sample_request_def)
  moreover have "list_all (response_ok sample_env) ?ps"
    by (simp add: response_ok_def sample_request_def pdu_from_bytes_eq is_exception_code_def
        clear_exception_bit_def function_code_try_from_def)
  ultimately show ?thesis
    using responses_resolved [OF sample_env_ok sample_safe(2), of "[0, 9, 0]" ?c ?ps]
    by (simp add: sample_client_def response_frame_def outcome_def sample_request_def)
qed

text \<open>
  C24: When the cached check time does not postpone it, \<open>handle_timeouts\<close> leaves no overdue request
  behind: every request still in the queue waits for a response within its timeout or for a
  retry that is due later. The new cached check time is not later than the time at which any of
  them needs attention. (At \<open>u64::MAX\<close> milliseconds no later time exists.)
\<close>

theorem timeouts_scanned:
  assumes "env_ok e" "scan_due e c"
  shows "\<exists>c'. handle_timeouts e c = Some (Ok c') \<and> (\<forall>r \<in> set (expected_responses c').
    (app_current_millis e (app c) = - 1 \<or>
      \<not> overdue (app_current_millis e (app c)) (response_timeout_ms (config c)) r) \<and>
    (case next_timeout_check c' of
       Some t \<Rightarrow> t \<le> due_at (response_timeout_ms (config c)) r
     | None \<Rightarrow> due_at (response_timeout_ms (config c)) r = - 1))"
  using scan_ok [OF assms] by (auto simp: scanned_def)

theorem timeouts_scanned_witness:
  "\<exists>c'. handle_timeouts sample_env (sample_client 1001 [] [sample_request 7 1]) = Some (Ok c') \<and>
    (\<forall>r \<in> set (expected_responses c'). \<not> overdue 1001 1000 r)"
proof -
  have "scan_due sample_env (sample_client 1001 [] [sample_request 7 1])"
    by (simp add: scan_due_def sample_client_def)
  from timeouts_scanned [OF sample_env_ok this] show ?thesis by (auto simp: sample_client_def)
qed

text \<open>
  C25: Every scan that finds an overdue request lowers the retry budget of the queue, which is at
  most twice the configured retries plus one for each request and is 0 only for the empty queue. So
  a request that gets no response is given up, with a call of \<open>request_failed\<close>, after finitely many
  timeouts.
\<close>

theorem timeouts_progress:
  assumes "env_ok e" "client_inv e c" "scan_due e c" "r \<in> set (expected_responses c)"
    and "overdue (app_current_millis e (app c)) (response_timeout_ms (config c)) r"
  shows "\<exists>c'. handle_timeouts e c = Some (Ok c') \<and> client_inv e c' \<and> potential c' < potential c \<and>
    (potential c' = 0 \<longleftrightarrow> expected_responses c' = []) \<and>
    potential c' \<le> (2 * unat (retry_attempts (config c)) + 1) * length (expected_responses c')"
proof -
  obtain c' where c': "handle_timeouts e c = Some (Ok c')" "step_ok e c c'"
    "moved e (app_current_millis e (app c)) (response_timeout_ms (config c)) 0 c c'"
    using scan_ok [OF assms(1,3)] by blast
  have "potential c' < potential c"
    using c'(3) assms(2,4,5) by (auto simp: moved_def in_set_conv_nth)
  moreover have "client_inv e c'" "config c' = config c" using c'(2) assms(2) by (auto simp: step_ok_def)
  ultimately show ?thesis
    using c'(1) potential_empty potential_bound by metis
qed

theorem timeouts_progress_witness:
  "\<exists>c'. handle_timeouts sample_env (sample_client 1001 [] [sample_request 7 1]) = Some (Ok c') \<and>
    potential c' < 3"
proof -
  let ?c = "sample_client 1001 [] [sample_request 7 1]"
  have "client_inv sample_env ?c" using sample_inv [of "[(7, 1)]" "[]" 1001] by simp
  moreover have "scan_due sample_env ?c" by (simp add: scan_due_def sample_client_def)
  moreover have "overdue 1001 1000 (sample_request 7 1)"
    by (simp add: overdue_def sample_request_def sat_add_def)
  ultimately show ?thesis
    using timeouts_progress [OF sample_env_ok, of ?c "sample_request 7 1"]
    by (auto simp: sample_client_def potential_def budget_def sample_request_def)
qed

text \<open>
  When receiving fails with a connection error, or the transport is no longer connected, every
  pending request is failed exactly once with \<open>ConnectionLost\<close>, and the queue, the receive buffer
  and the cached check time are cleared. Any other receive error, such as a timeout, changes nothing.
\<close>

theorem connection_loss_fails_all:
  assumes "env_ok e"
  shows "\<exists>c'. handle_recv_error e c err = Some c' \<and>
    (if is_connection_loss err \<or> \<not> transport_is_connected e (transport c)
     then expected_responses c' = [] \<and> rxed_frame c' = [] \<and> next_timeout_check c' = None \<and>
       app_calls c' = app_calls c @ map (\<lambda>r. RequestFailed (er_txn_id r)
         (unit_id_from_u8 (er_unit r)) ConnectionLost) (rev (expected_responses c))
     else c' = c)"
  using handle_recv_error_ok [OF assms, of c err] by blast

theorem connection_loss_fails_all_witness:
  "\<exists>c'. handle_recv_error sample_env (sample_client 0 [1] [sample_request 7 1]) ConnectionClosed = Some c' \<and>
    expected_responses c' = [] \<and> app_calls c' = [RequestFailed 7 (UnitIdOrSlaveAddr 1) ConnectionLost]"
  using connection_loss_fails_all [OF sample_env_ok, of "sample_client 0 [1] [sample_request 7 1]" ConnectionClosed]
  by (auto simp: is_connection_loss_def sample_client_def sample_request_def unit_id_from_u8_def unit_id_new_def)

text \<open>
  The receive loop ends for every buffer content. It leaves a suffix of the buffer: nothing, or
  bytes for which no frame length can be derived yet, or the start of a frame of at most 513 bytes
  that is not complete.
\<close>

theorem receive_loop_ends:
  assumes "env_ok e" "queue_safe e c"
  shows "\<exists>c'. process_rxed_frame e c = Some (Ok c') \<and> suffix (rxed_frame c') (rxed_frame c) \<and>
    (rxed_frame c' = [] \<or>
     (case derive_length_from_bytes (usize_vec e) (rxed_frame c') (TRANSPORT_TYPE e) of
        None \<Rightarrow> True | Some n \<Rightarrow> length (rxed_frame c') < n \<and> n \<le> 513))"
  using process_rxed_frame_ok [OF assms] by (auto simp: incomplete_front_def)

theorem receive_loop_ends_witness:
  "\<exists>c'. process_rxed_frame sample_env (sample_client 0 [1, 2, 3, 4, 5, 6, 7, 8] []) = Some (Ok c')"
  using receive_loop_ends [OF sample_env_ok sample_safe(2), of "sample_client 0 [1, 2, 3, 4, 5, 6, 7, 8] []"] by blast

text \<open>
  Registering a request does not bring the cached check time forward. While the clock is before
  the time cached for older requests, \<open>handle_timeouts\<close> returns at once, and a request registered
  meanwhile stays in the queue although its own response timeout has passed.
\<close>

theorem new_request_waits_for_cache:
  assumes "env_ok e" "add_an_expectation e c txn uid frame meta h = Ok c'"
    and "next_timeout_check c = Some t" "app_current_millis e a < t"
    and "sat_add (app_current_millis e (app c)) (response_timeout_ms (config c)) < app_current_millis e a"
  shows "handle_timeouts e (c'\<lparr>app := a\<rparr>) = Some (Ok (c'\<lparr>app := a\<rparr>)) \<and>
    (\<exists>r \<in> set (expected_responses c').
      er_txn_id r = txn \<and> overdue (app_current_millis e a) (response_timeout_ms (config c)) r)"
  using assms
  by (auto simp: add_an_expectation_def handle_timeouts_def overdue_def res_simps Let_def
      split: if_splits)

theorem new_request_waits_for_cache_witness:
  "\<exists>c'. add_an_expectation sample_env ((sample_client 1100 [] [])\<lparr>next_timeout_check := Some 6001\<rparr>)
      9 (UnitIdOrSlaveAddr 1) [] OM_Other () = Ok c' \<and>
    handle_timeouts sample_env (c'\<lparr>app := 6000\<rparr>) = Some (Ok (c'\<lparr>app := 6000\<rparr>)) \<and>
    (\<exists>r \<in> set (expected_responses c'). er_txn_id r = 9 \<and> overdue 6000 1000 r)"
proof -
  let ?c = "(sample_client 1100 [] [])\<lparr>next_timeout_check := Some 6001\<rparr>"
  obtain c' where c': "add_an_expectation sample_env ?c 9 (UnitIdOrSlaveAddr 1) [] OM_Other () = Ok c'"
    by (simp add: add_an_expectation_def sample_client_def)
  from new_request_waits_for_cache [OF sample_env_ok this, of 6001 6000] c' show ?thesis
    by (simp add: sample_client_def sat_add_def)
qed

end
