(* ===== verification/File_Requests.thy ===== *)
theory File_Requests
  imports Pdu
begin

text \<open>
  File-record requests from the client to the server: the request PDUs of
  mbus-client/src/services/file_record/request.rs over the sub-request collections of
  \<open>File_Record\<close>, and what the parsing helpers of \<open>Pdu\<close> recover from them. \<open>reads_built\<close> and
  \<open>writes_built\<close> are the collections that sequences of successful \<open>add_read_sub_request\<close> or
  \<open>add_write_sub_request\<close> calls produce.
\<close>

section \<open>Requests\<close>

definition read_file_record_request :: "u8 heapless \<Rightarrow> SubRequest \<Rightarrow> Pdu result" where
  "read_file_record_request hv s =
     bind_res (to_sub_req_pdu_bytes hv s) (\<lambda>d. Ok (pdu_new ReadFileRecord d (of_nat (length d))))"

definition write_file_record_request :: "u8 heapless \<Rightarrow> SubRequest \<Rightarrow> Pdu result" where
  "write_file_record_request hv s =
     bind_res (to_sub_req_pdu_bytes hv s) (\<lambda>d. Ok (pdu_new WriteFileRecord d (of_nat (length d))))"

section \<open>Collections that the operations build\<close>

text \<open>The collections a sequence of successful \<open>add_\<close> calls produces; \<open>oc\<close> is the build's setting.\<close>

inductive reads_built :: "SubRequestParams heapless \<Rightarrow> bool \<Rightarrow> SubRequest \<Rightarrow> bool" for hv oc where
  reads_new: "reads_built hv oc sub_request_new"
| reads_add: "reads_built hv oc s \<Longrightarrow> add_read_sub_request hv oc s file rec len = Ok s' \<Longrightarrow>
    reads_built hv oc s'"

inductive writes_built :: "SubRequestParams heapless \<Rightarrow> bool \<Rightarrow> SubRequest \<Rightarrow> bool" for hv oc where
  writes_new: "writes_built hv oc sub_request_new"
| writes_add: "writes_built hv oc s \<Longrightarrow> add_write_sub_request hv oc s file rec len vs = Ok s' \<Longrightarrow>
    writes_built hv oc s'"

lemma add_read_Ok_params:
  "heapless_ok hv \<Longrightarrow> add_read_sub_request hv oc s file rec len = Ok s' \<Longrightarrow>
   length (params s) < 35 \<and> params s' = params s @
     [\<lparr>file_number = file, record_number = rec, record_length = len, record_data = None\<rparr>]"
  by (auto simp: add_read_sub_request_def res_simps split: if_splits)

text \<open>With overflow checks the running total is exact, whatever the arguments.\<close>

lemma add_ovf_True_Ok_iff:
  "add_ovf True a b = Ok c \<longleftrightarrow> unat a + unat b < 2 ^ LENGTH('w) \<and> c = a + (b :: 'w::len word)"
  by (auto simp: add_ovf_def)

lemma add_read_Ok_total:
  assumes "heapless_ok hv" "add_read_sub_request hv True s file rec len = Ok s'"
  shows "unat (total_read_bytes_length s') = unat (total_read_bytes_length s) + unat len"
    and "length (params s') + unat (total_read_bytes_length s') \<le> 125"
  using assms add_read_Ok_params [OF assms]
  by (auto simp: add_read_sub_request_def res_simps add_ovf_True_Ok_iff unat_add_no_overflow
      unat_of_nat_u16 word_less_nat_alt split: if_splits)

lemma reads_built_params:
  assumes "heapless_ok hv" "reads_built hv oc s"
  shows "length (params s) \<le> 35 \<and> (\<forall>p \<in> set (params s). record_data p = None)"
  using assms(2)
  by induction (auto simp: sub_request_new_def dest!: add_read_Ok_params [OF assms(1)])

lemma reads_built_total:
  assumes "heapless_ok hv" "reads_built hv True s"
  shows "unat (total_read_bytes_length s) = sum_list (map (unat \<circ> record_length) (params s)) \<and>
    length (params s) + unat (total_read_bytes_length s) \<le> 125"
  using assms(2)
proof induction
  case (reads_add s f r len s')
  then show ?case
    using add_read_Ok_total [OF assms(1) reads_add(2)] add_read_Ok_params [OF assms(1) reads_add(2)]
    by simp
qed (simp add: sub_request_new_def)

lemma writes_built_params:
  assumes "heapless_ok hv" "writes_built hv oc s"
  shows "length (params s) \<le> 35 \<and> byte_count s \<le> 251 \<and>
    (\<forall>p \<in> set (params s). \<exists>ws. record_data p = Some ws \<and> length ws = unat (record_length p))"
  using assms(2)
  by induction (auto simp: sub_request_new_def byte_count_def add_write_sub_request_def Let_def
      res_simps assms(1) split: if_splits)

lemma reads_byte_count:
  "\<forall>p \<in> set (params s). record_data p = None \<Longrightarrow> byte_count s = 7 * length (params s)"
proof -
  have "\<forall>p \<in> set ps. record_data p = None \<Longrightarrow>
    sum_list (map (\<lambda>p. 7 + (case record_data p of None \<Rightarrow> 0 | Some d \<Rightarrow> length d * 2)) ps)
      = 7 * length ps" for ps
    by (induction ps) auto
  then show "\<forall>p \<in> set (params s). record_data p = None \<Longrightarrow> byte_count s = 7 * length (params s)"
    by (simp add: byte_count_def)
qed

text \<open>A collection of two read sub-requests, and one of a single write sub-request.\<close>

definition example_reads :: SubRequest where
  "example_reads = \<lparr>params =
     [\<lparr>file_number = 4, record_number = 1, record_length = 2, record_data = None\<rparr>,
      \<lparr>file_number = 3, record_number = 9, record_length = 2, record_data = None\<rparr>],
     total_read_bytes_length = 4\<rparr>"

definition example_writes :: SubRequest where
  "example_writes = \<lparr>params =
     [\<lparr>file_number = 4, record_number = 7, record_length = 3, record_data = Some [0x06AF, 0x04BE, 0x100D]\<rparr>],
     total_read_bytes_length = 3\<rparr>"

lemma example_reads_built: "reads_built bounded_vec True example_reads"
proof -
  let ?p = "\<lparr>file_number = 4, record_number = 1, record_length = 2, record_data = None\<rparr>"
  let ?s = "\<lparr>params = [?p], total_read_bytes_length = 2\<rparr>"
  have "add_read_sub_request bounded_vec True sub_request_new 4 1 2 = Ok ?s"
    and "add_read_sub_request bounded_vec True ?s 3 9 2 = Ok example_reads"
    by (simp_all add: add_read_sub_request_def sub_request_new_def add_ovf_def example_reads_def)
  then show ?thesis by (metis reads_built.intros)
qed

lemma example_writes_built: "writes_built bounded_vec True example_writes"
proof -
  have "add_write_sub_request bounded_vec True sub_request_new 4 7 3 [0x06AF, 0x04BE, 0x100D] =
      Ok example_writes"
    by (simp add: add_write_sub_request_def sub_request_new_def add_ovf_def example_writes_def
        byte_count_def)
  then show ?thesis by (metis writes_built.intros)
qed

section \<open>What the server decodes\<close>

definition read_view :: "SubRequestParams \<Rightarrow> FileRecordReadSubRequest" where
  "read_view p = \<lparr>frr_file_number = file_number p, frr_record_number = record_number p,
     frr_record_length = record_length p\<rparr>"

definition write_view :: "SubRequestParams \<Rightarrow> FileRecordWriteSubRequest" where
  "write_view p = \<lparr>frw_file_number = file_number p, frw_record_number = record_number p,
     frw_record_length = record_length p,
     frw_record_data_bytes = (case record_data p of None \<Rightarrow> [] | Some ws \<Rightarrow> words_bytes ws)\<rparr>"

lemma param_header:
  fixes p :: SubRequestParams and pre post :: bytes
  defines "bs \<equiv> pre @ param_bytes p @ post"
  shows "bs ! length pre = 0x06"
    and "be16_at bs (length pre + 1) = (Ok (file_number p) :: u16 result)"
    and "be16_at bs (length pre + 3) = (Ok (record_number p) :: u16 result)"
    and "be16_at bs (length pre + 5) = (Ok (record_length p) :: u16 result)"
    and "length pre < length bs"
  unfolding bs_def by (simp_all add: param_bytes_def u16_to_be_bytes_def nth_append be_simps)

lemma read_loop_encoded:
  assumes "heapless_ok hv"
  shows "\<forall>p \<in> set ps. record_data p = None \<and> record_length p \<noteq> 0 \<Longrightarrow>
    length out + length ps \<le> 35 \<Longrightarrow> d = pre @ concat (map param_bytes ps) \<Longrightarrow>
    read_sub_requests_loop hv d (length d) (length pre) out = Ok (out @ map read_view ps)"
proof (induction ps arbitrary: pre out)
  case Nil
  then show ?case by (subst read_sub_requests_loop.simps) simp
next
  case (Cons p ps)
  let ?pre = "pre @ param_bytes p"
  have d: "pre @ param_bytes p @ concat (map param_bytes ps) = d"
    using Cons.prems(3) by simp
  have len: "length (param_bytes p) = 7"
    using Cons.prems(1) by (simp add: length_param_bytes)
  have "read_sub_requests_loop hv d (length d) (length ?pre) (out @ [read_view p]) =
      Ok ((out @ [read_view p]) @ map read_view ps)"
    by (rule Cons.IH) (use Cons.prems in auto)
  then show ?case
    using Cons.prems(1,2) param_header [of pre p "concat (map param_bytes ps)"]
    by (subst read_sub_requests_loop.simps) (simp add: assms len read_view_def d)
qed

lemma write_loop_encoded:
  assumes "heapless_ok hv"
  shows "\<forall>p \<in> set ps. record_length p \<noteq> 0 \<and>
      (\<exists>ws. record_data p = Some ws \<and> length ws = unat (record_length p)) \<Longrightarrow>
    length out + length ps \<le> 35 \<Longrightarrow> d = pre @ concat (map param_bytes ps) \<Longrightarrow>
    write_sub_requests_loop hv d (length d) (length pre) out = Ok (out @ map write_view ps)"
proof (induction ps arbitrary: pre out)
  case Nil
  then show ?case by (subst write_sub_requests_loop.simps) simp
next
  case (Cons p ps)
  let ?pre = "pre @ param_bytes p"
  have d: "pre @ param_bytes p @ concat (map param_bytes ps) = d"
    using Cons.prems(3) by simp
  obtain ws where ws: "record_data p = Some ws" "length ws = unat (record_length p)"
    using Cons.prems(1) by auto
  have len: "length (param_bytes p) = 7 + unat (record_length p) * 2"
    by (simp add: length_param_bytes ws)
  have le: "length pre + (7 + unat (record_length p) * 2) \<le> length d"
    by (simp add: Cons.prems(3) len)
  have "write_sub_requests_loop hv d (length d) (length ?pre) (out @ [write_view p]) =
      Ok ((out @ [write_view p]) @ map write_view ps)"
    by (rule Cons.IH) (use Cons.prems in auto)
  moreover have "slice d (length pre + 7) (length pre + (7 + unat (record_length p) * 2)) =
      (Ok (words_bytes ws) :: bytes result)"
    using ws by (simp add: Cons.prems(3) param_bytes_def)
  ultimately show ?case
    using Cons.prems(1,2) ws len le param_header [of pre p "concat (map param_bytes ps)"]
    by (subst write_sub_requests_loop.simps) (simp add: assms Let_def write_view_def d del: slice_ok)
qed

text \<open>The two parsers on a PDU whose first byte counts the bytes that follow it.\<close>

lemma counted_pdu:
  assumes "length ds \<le> 251" "p = pdu_new fc (of_nat (length ds) # ds) (of_nat (length ds + 1))"
  shows "data p ! 0 = of_nat (length ds)" "unat (data_len p) = Suc (length ds)"
    "unat (of_nat (length ds) :: u8) = length ds" "length (data p) = Suc (length ds)" "pdu_wf p"
  using assms(1) unat_of_nat_u8 [of "length ds + 1"] unfolding assms(2)
  by (simp_all add: unat_of_nat_u8 pdu_wf_new)

lemma read_parser_counted:
  assumes "length ds \<le> 245" "length ds mod 7 = 0" "ds \<noteq> []"
    and p: "p = pdu_new fc (of_nat (length ds) # ds) (of_nat (length ds + 1))"
  shows "file_record_read_sub_requests hv p =
    read_sub_requests_loop hv (data p) (length (data p)) 1 []"
proof -
  have "7 \<le> length ds" using assms(2,3) by (meson dvd_imp_le length_greater_0_conv mod_0_imp_dvd)
  moreover have "length ds \<le> 251" using assms(1) by simp
  ultimately show ?thesis
    using assms(1,2) counted_pdu [OF _ p] by (simp add: file_record_read_sub_requests_def Let_def)
qed

lemma write_parser_counted:
  assumes "length ds \<le> 251" "9 \<le> length ds"
    and p: "p = pdu_new fc (of_nat (length ds) # ds) (of_nat (length ds + 1))"
  shows "file_record_write_sub_requests hv p =
    (if length ds \<le> 245 then
       bind_res (write_sub_requests_loop hv (data p) (length (data p)) 1 []) (\<lambda>out.
         if out = [] then Err InvalidPduLength else Ok out)
     else Err InvalidByteCount)"
  using assms(1,2) counted_pdu [OF _ p] by (simp add: file_record_write_sub_requests_def Let_def)

lemma file_record_requests_eq:
  assumes "heapless_ok hb" "byte_count s \<le> 251" "ds = concat (map param_bytes (params s))"
  shows "read_file_record_request hb s =
      Ok (pdu_new ReadFileRecord (of_nat (length ds) # ds) (of_nat (length ds + 1)))"
    and "write_file_record_request hb s =
      Ok (pdu_new WriteFileRecord (of_nat (length ds) # ds) (of_nat (length ds + 1)))"
  using assms(1,2)
  by (simp_all add: read_file_record_request_def write_file_record_request_def
      to_sub_req_pdu_bytes_ok byte_count_eq assms(3))

text \<open>
  A read-file request built by any sequence of accepted \<open>add_read_sub_request\<close> calls, with
  record lengths other than 0, is serialised, and the server-side parser recovers from the PDU
  exactly the file, record and length of every sub-request, in order. This holds with and without
  overflow checks.
\<close>

theorem read_file_record_roundtrip:
  assumes "heapless_ok hb" "heapless_ok hs" "heapless_ok hr"
    and "reads_built hs oc s" "params s \<noteq> []" "\<forall>p \<in> set (params s). record_length p \<noteq> 0"
  shows "\<exists>p. read_file_record_request hb s = Ok p \<and> pdu_wf p \<and>
    file_record_read_sub_requests hr p = Ok (map read_view (params s))"
proof -
  define ds where "ds = concat (map param_bytes (params s))"
  define p where "p = pdu_new ReadFileRecord (of_nat (length ds) # ds) (of_nat (length ds + 1))"
  have ps: "length (params s) \<le> 35" "\<forall>p \<in> set (params s). record_data p = None"
    using reads_built_params assms by blast+
  then have bc: "byte_count s = length ds" "length ds = 7 * length (params s)"
    using reads_byte_count by (simp_all add: byte_count_eq ds_def)
  have "read_sub_requests_loop hr (data p) (length (data p)) (length [of_nat (length ds) :: u8]) [] =
      Ok ([] @ map read_view (params s))"
    by (rule read_loop_encoded) (use assms ps in \<open>auto simp: p_def ds_def\<close>)
  then have "file_record_read_sub_requests hr p = Ok (map read_view (params s))"
    using read_parser_counted [OF _ _ _ p_def] ps bc assms(5) by (cases "ds = []") auto
  moreover have "read_file_record_request hb s = Ok p" "pdu_wf p"
    using file_record_requests_eq(1) [OF assms(1) _ ds_def] counted_pdu(5) [OF _ p_def] ps bc
    by (auto simp: p_def)
  ultimately show ?thesis by blast
qed

theorem read_file_record_roundtrip_witness:
  "\<exists>p. read_file_record_request bounded_vec example_reads = Ok p \<and> pdu_wf p \<and>
    file_record_read_sub_requests bounded_vec p =
      Ok [\<lparr>frr_file_number = 4, frr_record_number = 1, frr_record_length = 2\<rparr>,
          \<lparr>frr_file_number = 3, frr_record_number = 9, frr_record_length = 2\<rparr>]"
  using read_file_record_roundtrip [OF bounded_vec_ok bounded_vec_ok bounded_vec_ok
      example_reads_built]
  by (simp add: example_reads_def read_view_def)

text \<open>
  With overflow checks, the server's answer to an accepted read-file request fits into one PDU:
  the response carries a length byte, and per sub-request a length byte, a reference type and the
  requested registers, at most 251 bytes in all.
\<close>

theorem read_file_record_response_fits:
  assumes "heapless_ok hs" "reads_built hs True s"
  shows "1 + sum_list (map (\<lambda>p. 2 + 2 * unat (record_length p)) (params s)) \<le> 251"
proof -
  have "sum_list (map (\<lambda>p. 2 + 2 * unat (record_length p)) ps) =
      2 * (length ps + sum_list (map (unat \<circ> record_length) ps))" for ps
    by (induction ps) auto
  moreover have "a = 2 * (n + t) \<Longrightarrow> u = t \<Longrightarrow> n + u \<le> 125 \<Longrightarrow> 1 + a \<le> 251" for a n t u :: nat
    by simp
  ultimately show ?thesis
    using reads_built_total [OF assms] by blast
qed

theorem read_file_record_response_fits_witness:
  "reads_built bounded_vec True example_reads \<and>
   1 + sum_list (map (\<lambda>p. 2 + 2 * unat (record_length p)) (params example_reads)) \<le> 251"
  using read_file_record_response_fits [OF bounded_vec_ok example_reads_built] example_reads_built
  by blast

text \<open>
  A write-file request built by accepted \<open>add_write_sub_request\<close> calls, with record lengths other
  than 0, always serialises into a well-formed PDU. The server-side parser recovers every
  sub-request, data included, when the serialised sub-requests take at most 245 bytes, and rejects
  the PDU with \<open>InvalidByteCount\<close> when they take 246 to 251 bytes, which the builder still accepts.
\<close>

theorem write_file_record_roundtrip:
  assumes "heapless_ok hb" "heapless_ok hs" "heapless_ok hw"
    and "writes_built hs oc s" "params s \<noteq> []" "\<forall>p \<in> set (params s). record_length p \<noteq> 0"
  shows "byte_count s \<le> 251 \<and> (\<exists>p. write_file_record_request hb s = Ok p \<and> pdu_wf p \<and>
    file_record_write_sub_requests hw p =
      (if byte_count s \<le> 245 then Ok (map write_view (params s)) else Err InvalidByteCount))"
proof -
  define ds where "ds = concat (map param_bytes (params s))"
  define p where "p = pdu_new WriteFileRecord (of_nat (length ds) # ds) (of_nat (length ds + 1))"
  have ps: "length (params s) \<le> 35" "byte_count s \<le> 251"
    "\<forall>p \<in> set (params s). \<exists>ws. record_data p = Some ws \<and> length ws = unat (record_length p)"
    using writes_built_params assms by blast+
  have bc: "byte_count s = length ds"
    by (simp add: byte_count_eq ds_def)
  obtain q qs where q: "params s = q # qs" using assms(5) by (cases "params s") auto
  then have "0 < unat (record_length q)"
    using assms(6) by (simp add: unat_gt_0)
  then have pos: "9 \<le> length ds"
    using ps(3) unfolding bc [symmetric] by (auto simp: byte_count_def q)
  have "write_sub_requests_loop hw (data p) (length (data p)) (length [of_nat (length ds) :: u8]) [] =
      Ok ([] @ map write_view (params s))"
    by (rule write_loop_encoded) (use assms ps in \<open>auto simp: p_def ds_def\<close>)
  then have "file_record_write_sub_requests hw p =
      (if byte_count s \<le> 245 then Ok (map write_view (params s)) else Err InvalidByteCount)"
    using write_parser_counted [OF _ pos p_def] ps(2) bc assms(5) by simp
  moreover have "write_file_record_request hb s = Ok p" "pdu_wf p"
    using file_record_requests_eq(2) [OF assms(1) ps(2) ds_def] counted_pdu(5) [OF _ p_def] ps bc
    by (auto simp: p_def)
  ultimately show ?thesis using ps(2) by blast
qed

theorem write_file_record_roundtrip_witness:
  "\<exists>p. write_file_record_request bounded_vec example_writes = Ok p \<and> pdu_wf p \<and>
    file_record_write_sub_requests bounded_vec p =
      Ok [\<lparr>frw_file_number = 4, frw_record_number = 7, frw_record_length = 3,
           frw_record_data_bytes = words_bytes [0x06AF, 0x04BE, 0x100D]\<rparr>]"
  using write_file_record_roundtrip [OF bounded_vec_ok bounded_vec_ok bounded_vec_ok
      example_writes_built]
  by (simp add: example_writes_def write_view_def byte_count_def)

text \<open>
  Without overflow checks the size guard of \<open>add_read_sub_request\<close> can be passed by wrapping
  around: a record length of 65535 is accepted into an empty collection.
\<close>

lemma add_read_sub_request_wraps:
  "heapless_ok hv \<Longrightarrow> \<exists>s'. add_read_sub_request hv False sub_request_new f r 65535 = Ok s' \<and>
     total_read_bytes_length s' = 65535"
  by (simp add: add_read_sub_request_def sub_request_new_def add_ovf_def)

end
