(* ===== verification/Data_Models.thy ===== *)
theory Data_Models
  imports Pdu
begin

text \<open>
  The data blocks a client receives (mbus-core/src/models): coils, discrete inputs, registers and
  FIFO queues. Fixed-size arrays are lists of that length. \<open>oc\<close> is the \<open>overflow-checks\<close> setting
  of the build. The locale \<open>addressed_block\<close> states what a block promises, a list of values read
  and written by address, and is interpreted for coils and registers.
\<close>

section \<open>Coils\<close>

abbreviation (input) MAX_COILS_PER_PDU :: usize where "MAX_COILS_PER_PDU \<equiv> 2000"
abbreviation (input) MAX_COIL_BYTES :: usize where "MAX_COIL_BYTES \<equiv> 250"

record Coils =
  coils_from_address :: u16
  coils_quantity :: u16
  coils_values :: bytes

definition coils_new :: "u16 \<Rightarrow> u16 \<Rightarrow> Coils result" where
  "coils_new from_address quantity =
     (if quantity > of_nat MAX_COILS_PER_PDU then Err InvalidQuantity
      else Ok \<lparr>coils_from_address = from_address, coils_quantity = quantity,
               coils_values = replicate MAX_COIL_BYTES 0\<rparr>)"

text \<open>
  The guard \<open>address < self.from_address || address >= self.from_address + self.quantity\<close> that
  all blocks share. The addition is evaluated only when the first comparison is false.
\<close>

definition out_of_block :: "bool \<Rightarrow> u16 \<Rightarrow> u16 \<Rightarrow> u16 \<Rightarrow> bool result" where
  "out_of_block oc from_address quantity address =
     (if address < from_address then Ok True
      else bind_res (add_ovf oc from_address quantity) (\<lambda>e. Ok (address \<ge> e)))"

definition coils_set_value :: "bool \<Rightarrow> Coils \<Rightarrow> u16 \<Rightarrow> bool \<Rightarrow> Coils result" where
  "coils_set_value oc c address v =
     bind_res (out_of_block oc (coils_from_address c) (coils_quantity c) address) (\<lambda>out.
     if out then Err InvalidAddress
     else
       let bit_index = unat (address - coils_from_address c);
           byte_index = bit_index div 8;
           bit_in_byte = bit_index mod 8
       in bind_res (idx (coils_values c) byte_index) (\<lambda>b.
          bind_res (store (coils_values c) byte_index
            (if v then b OR push_bit bit_in_byte 1 else b AND NOT (push_bit bit_in_byte 1))) (\<lambda>vs.
          Ok (c\<lparr>coils_values := vs\<rparr>))))"

definition coils_with_values :: "Coils \<Rightarrow> bytes \<Rightarrow> u16 \<Rightarrow> Coils result" where
  "coils_with_values c vals bits_length =
     (if bits_length \<noteq> coils_quantity c then Err InvalidQuantity
      else
        let byte_length = div_ceil (unat bits_length) 8 in
        bind_res (slice_to vals byte_length) (\<lambda>src.
        bind_res (copy_prefix (coils_values c) byte_length src) (\<lambda>vs.
        Ok (c\<lparr>coils_values := vs\<rparr>))))"

definition coils_value :: "bool \<Rightarrow> Coils \<Rightarrow> u16 \<Rightarrow> bool result" where
  "coils_value oc c address =
     bind_res (out_of_block oc (coils_from_address c) (coils_quantity c) address) (\<lambda>out.
     if out then Err InvalidAddress
     else
       let bit_index = unat (address - coils_from_address c);
           byte_index = bit_index div 8;
           bit_mask = push_bit (bit_index mod 8) 1
       in bind_res (idx (coils_values c) byte_index) (\<lambda>b. Ok (b AND bit_mask \<noteq> 0)))"

section \<open>Discrete inputs\<close>

abbreviation (input) MAX_DISCRETE_INPUTS_PER_PDU :: usize where "MAX_DISCRETE_INPUTS_PER_PDU \<equiv> 2000"
abbreviation (input) MAX_DISCRETE_INPUT_BYTES :: usize where "MAX_DISCRETE_INPUT_BYTES \<equiv> 250"

record DiscreteInputs =
  inputs_from_address :: u16
  inputs_quantity :: u16
  inputs_values :: bytes

definition inputs_new :: "u16 \<Rightarrow> u16 \<Rightarrow> DiscreteInputs result" where
  "inputs_new from_address quantity =
     (if quantity > of_nat MAX_DISCRETE_INPUTS_PER_PDU then Err InvalidQuantity
      else Ok \<lparr>inputs_from_address = from_address, inputs_quantity = quantity,
               inputs_values = replicate MAX_DISCRETE_INPUT_BYTES 0\<rparr>)"

definition inputs_with_values :: "DiscreteInputs \<Rightarrow> bytes \<Rightarrow> u16 \<Rightarrow> DiscreteInputs result" where
  "inputs_with_values c vals bits_length =
     (if bits_length > inputs_quantity c then Err InvalidQuantity
      else if bits_length < inputs_quantity c then Err InvalidQuantity
      else
        let byte_length = div_ceil (unat bits_length) 8 in
        bind_res (slice_to vals byte_length) (\<lambda>src.
        bind_res (copy_prefix (inputs_values c) byte_length src) (\<lambda>vs.
        Ok (c\<lparr>inputs_values := vs\<rparr>))))"

definition inputs_active_values :: "DiscreteInputs \<Rightarrow> bytes result" where
  "inputs_active_values c = slice_to (inputs_values c) (div_ceil (unat (inputs_quantity c)) 8)"

definition inputs_value :: "bool \<Rightarrow> DiscreteInputs \<Rightarrow> u16 \<Rightarrow> bool result" where
  "inputs_value oc c address =
     bind_res (out_of_block oc (inputs_from_address c) (inputs_quantity c) address) (\<lambda>out.
     if out then Err InvalidAddress
     else
       let bit_index = unat (address - inputs_from_address c);
           byte_index = bit_index div 8;
           bit_mask = push_bit (bit_index mod 8) 1
       in bind_res (idx (inputs_values c) byte_index) (\<lambda>b. Ok (b AND bit_mask \<noteq> 0)))"

section \<open>Registers\<close>

text \<open>
  The array \<open>[u16; N]\<close> of a block fixes its capacity \<open>N\<close>, which is the length of \<open>reg_values\<close>. The
  mode marker \<open>Holding\<close> or \<open>Input\<close> exists at compile time only.
\<close>

record Registers =
  reg_from_address :: u16
  reg_quantity :: u16
  reg_values :: "u16 list"

definition registers_new :: "usize \<Rightarrow> u16 \<Rightarrow> u16 \<Rightarrow> Registers result" where
  "registers_new n from_address quantity =
     (if unat quantity > n then Err InvalidQuantity
      else Ok \<lparr>reg_from_address = from_address, reg_quantity = quantity, reg_values = replicate n 0\<rparr>)"

definition registers_with_values :: "Registers \<Rightarrow> u16 list \<Rightarrow> u16 \<Rightarrow> Registers result" where
  "registers_with_values r vals len =
     (if len > of_nat (length (reg_values r)) then Err InvalidQuantity
      else if len > reg_quantity r then Err InvalidQuantity
      else bind_res (copy_prefix (reg_values r) (unat len) vals) (\<lambda>vs. Ok (r\<lparr>reg_values := vs\<rparr>)))"

text \<open>\<open>bytes.chunks_exact(2).take(n)\<close>, and the loop that stores the decoded registers.\<close>

fun chunks_exact2 :: "bytes \<Rightarrow> (u8 \<times> u8) list" where
  "chunks_exact2 (h # l # bs) = (h, l) # chunks_exact2 bs"
| "chunks_exact2 _ = []"

fun store_registers :: "u16 list \<Rightarrow> usize \<Rightarrow> (u8 \<times> u8) list \<Rightarrow> u16 list result" where
  "store_registers vs i [] = Ok vs"
| "store_registers vs i ((h, l) # cs) =
     bind_res (store vs i (u16_from_be_bytes h l)) (\<lambda>vs. store_registers vs (i + 1) cs)"

definition registers_new_from_be_bytes :: "usize \<Rightarrow> u16 \<Rightarrow> u16 \<Rightarrow> bytes \<Rightarrow> Registers result" where
  "registers_new_from_be_bytes n from_address quantity bs =
     bind_res (registers_new n from_address quantity) (\<lambda>reg.
     bind_res (store_registers (reg_values reg) 0 (take (unat quantity) (chunks_exact2 bs))) (\<lambda>vs.
     Ok (reg\<lparr>reg_values := vs\<rparr>)))"

definition registers_value :: "bool \<Rightarrow> Registers \<Rightarrow> u16 \<Rightarrow> u16 result" where
  "registers_value oc r address =
     bind_res (out_of_block oc (reg_from_address r) (reg_quantity r) address) (\<lambda>out.
     if out then Err InvalidAddress
     else
       let index = unat (address - reg_from_address r) in
       ok_or InvalidAddress
         (if index < length (reg_values r) then Some (reg_values r ! index) else None))"

definition registers_set_value :: "bool \<Rightarrow> Registers \<Rightarrow> u16 \<Rightarrow> u16 \<Rightarrow> Registers result" where
  "registers_set_value oc r address v =
     bind_res (out_of_block oc (reg_from_address r) (reg_quantity r) address) (\<lambda>out.
     if out then Err InvalidAddress
     else
       let index = unat (address - reg_from_address r) in
       bind_res (store (reg_values r) index v) (\<lambda>vs. Ok (r\<lparr>reg_values := vs\<rparr>)))"

section \<open>FIFO queues\<close>

abbreviation (input) MAX_FIFO_QUEUE_COUNT_PER_PDU :: usize where "MAX_FIFO_QUEUE_COUNT_PER_PDU \<equiv> 31"

record FifoQueue =
  ptr_address :: u16
  fifo_queue :: "u16 list"
  fifo_length :: usize

definition fifo_queue_new :: "u16 \<Rightarrow> FifoQueue" where
  "fifo_queue_new a =
     \<lparr>ptr_address = a, fifo_queue = replicate MAX_FIFO_QUEUE_COUNT_PER_PDU 0, fifo_length = 0\<rparr>"

definition fifo_queue_values :: "FifoQueue \<Rightarrow> u16 list result" where
  "fifo_queue_values q = slice_to (fifo_queue q) (fifo_length q)"

definition fifo_queue_with_values :: "FifoQueue \<Rightarrow> u16 list \<Rightarrow> usize \<Rightarrow> FifoQueue" where
  "fifo_queue_with_values q vals len =
     q\<lparr>fifo_queue := vals, fifo_length := min len MAX_FIFO_QUEUE_COUNT_PER_PDU\<rparr>"

section \<open>Addressed blocks as a contract\<close>

text \<open>
  What a block promises to its clients: it is a list of values that are read and written by address.
  \<open>base\<close> and \<open>quantity\<close> delimit the addresses, \<open>view\<close> is the list of values, \<open>valid\<close> the invariant.
\<close>

definition in_block :: "u16 \<Rightarrow> u16 \<Rightarrow> u16 \<Rightarrow> bool" where
  "in_block base quantity a \<longleftrightarrow> unat base \<le> unat a \<and> unat a < unat base + unat quantity"

locale addressed_block =
  fixes valid :: "'b \<Rightarrow> bool"
    and base :: "'b \<Rightarrow> u16"
    and quantity :: "'b \<Rightarrow> u16"
    and view :: "'b \<Rightarrow> 'v list"
    and get :: "bool \<Rightarrow> 'b \<Rightarrow> u16 \<Rightarrow> 'v result"
    and set_at :: "bool \<Rightarrow> 'b \<Rightarrow> u16 \<Rightarrow> 'v \<Rightarrow> 'b result"
  assumes length_view: "valid b \<Longrightarrow> length (view b) = unat (quantity b)"
    and get_eq: "valid b \<Longrightarrow> get oc b a =
      (if in_block (base b) (quantity b) a then Ok (view b ! (unat a - unat (base b)))
       else Err InvalidAddress)"
    and set_in: "valid b \<Longrightarrow> in_block (base b) (quantity b) a \<Longrightarrow>
      \<exists>b'. set_at oc b a v = Ok b' \<and> valid b' \<and> base b' = base b \<and> quantity b' = quantity b \<and>
        view b' = (view b)[unat a - unat (base b) := v]"
    and set_out: "valid b \<Longrightarrow> \<not> in_block (base b) (quantity b) a \<Longrightarrow>
      set_at oc b a v = Err InvalidAddress"
begin

text \<open>A write succeeds exactly inside the block, keeps it valid, and changes one value only.\<close>

lemma get_set:
  assumes "valid b" "set_at oc b a v = Ok b'"
  shows "valid b' \<and> get oc' b' x = (if x = a then Ok v else get oc' b x)"
proof -
  have "in_block (base b) (quantity b) a"
    using assms set_out [of b a oc v] by auto
  moreover from set_in [OF assms(1) this, of oc v] assms(2) have
    "valid b'" "base b' = base b" "quantity b' = quantity b"
    "view b' = (view b)[unat a - unat (base b) := v]"
    by auto
  moreover have "unat x - unat (base b) \<noteq> unat a - unat (base b)"
    if "in_block (base b) (quantity b) x" "in_block (base b) (quantity b) a" "x \<noteq> a"
    using that by (auto simp: in_block_def word_unat_eq_iff)
  ultimately show ?thesis
    using length_view [OF assms(1)] assms(1)
    by (auto simp: get_eq in_block_def)
qed

lemma set_is_ok: "valid b \<Longrightarrow> is_ok (set_at oc b a v) \<longleftrightarrow> in_block (base b) (quantity b) a"
  using set_in set_out by (metis is_ok_simps(1) is_ok_simps(2))

end

section \<open>The blocks satisfy it\<close>

text \<open>
  The invariant of a block: the values fit, and the addresses end below 65536. A block that reaches
  the last address is excluded; the last section shows what happens there.
\<close>

lemma out_of_block_eq:
  assumes "unat base + unat quantity < 65536"
  shows "out_of_block oc base quantity a = Ok (\<not> in_block base quantity a)"
proof -
  have "unat (base + quantity) = unat base + unat quantity"
    using assms by (simp add: unat_add_no_overflow)
  then show ?thesis
    using assms by (auto simp: out_of_block_def in_block_def add_ovf_def word_less_nat_alt
        word_le_nat_alt)
qed

lemma block_index: "in_block base quantity a \<Longrightarrow> unat (a - base) = unat a - unat base"
  by (simp add: in_block_def unat_sub word_le_nat_alt)

text \<open>Bits packed into bytes, least significant bit first.\<close>

definition unpack :: "bytes \<Rightarrow> nat \<Rightarrow> bool list" where
  "unpack bs n = map (\<lambda>i. bit (bs ! (i div 8)) (i mod 8)) [0..<n]"

lemma bit_test_mask: "(b :: u8) AND 2 ^ k = 0 \<longleftrightarrow> \<not> bit b k"
proof
  assume "b AND 2 ^ k = 0"
  then have "\<not> bit (b AND 2 ^ k) k" by simp
  then show "\<not> bit b k" by (auto simp: bit_simps dest: bit_imp_le_length)
qed (rule bit_word_eqI, auto simp: bit_simps)

lemma bit_set_mask:
  assumes "k < 8"
  shows "bit (if v then (b :: u8) OR push_bit k 1 else b AND NOT (push_bit k 1)) j =
    (if j = k then v else bit b j)"
  using assms by (auto simp: bit_simps dest: bit_imp_le_length)

lemma unpack_update:
  assumes "i < n" "n \<le> 8 * length bs"
  shows "unpack (bs[i div 8 := (if v then bs ! (i div 8) OR push_bit (i mod 8) 1
      else bs ! (i div 8) AND NOT (push_bit (i mod 8) 1))]) n = (unpack bs n)[i := v]"
proof (rule nth_equalityI)
  fix j assume "j < length (unpack (bs[i div 8 := (if v then bs ! (i div 8) OR push_bit (i mod 8) 1
      else bs ! (i div 8) AND NOT (push_bit (i mod 8) 1))]) n)"
  then have j: "j < n" by (simp add: unpack_def)
  have div: "i div 8 < length bs" using assms by (simp add: less_mult_imp_div_less)
  have "j = i" if "j div 8 = i div 8" "j mod 8 = i mod 8"
    using that by (metis mult_div_mod_eq)
  then show "unpack (bs[i div 8 := (if v then bs ! (i div 8) OR push_bit (i mod 8) 1
      else bs ! (i div 8) AND NOT (push_bit (i mod 8) 1))]) n ! j = (unpack bs n)[i := v] ! j"
    using assms j div
    by (cases "j div 8 = i div 8") (auto simp: unpack_def nth_list_update bit_set_mask)
qed (simp add: unpack_def)

definition coils_valid :: "Coils \<Rightarrow> bool" where
  "coils_valid c \<longleftrightarrow> length (coils_values c) = 250 \<and> unat (coils_quantity c) \<le> 2000 \<and>
     unat (coils_from_address c) + unat (coils_quantity c) < 65536"

definition coils_view :: "Coils \<Rightarrow> bool list" where
  "coils_view c = unpack (coils_values c) (unat (coils_quantity c))"

interpretation coils: addressed_block coils_valid coils_from_address coils_quantity coils_view
  coils_value coils_set_value
proof
  fix b oc v and a :: u16
  assume valid: "coils_valid b"
  let ?base = "coils_from_address b" and ?q = "coils_quantity b"
  let ?i = "unat a - unat ?base"
  have out: "out_of_block oc ?base ?q a = Ok (\<not> in_block ?base ?q a)" for oc
    using valid by (simp add: out_of_block_eq coils_valid_def)
  have i: "?i div 8 < length (coils_values b)" "?i < unat ?q" if "in_block ?base ?q a"
    using that valid by (auto simp: in_block_def coils_valid_def less_mult_imp_div_less)
  show "length (coils_view b) = unat ?q"
    by (simp add: coils_view_def unpack_def)
  show "coils_value oc b a =
      (if in_block ?base ?q a then Ok (coils_view b ! ?i) else Err InvalidAddress)"
    using i by (auto simp: coils_value_def out block_index Let_def bit_test_mask coils_view_def unpack_def)
  show "coils_set_value oc b a v = Err InvalidAddress" if "\<not> in_block ?base ?q a"
    using that by (simp add: coils_set_value_def out)
  show "\<exists>b'. coils_set_value oc b a v = Ok b' \<and> coils_valid b' \<and> coils_from_address b' = ?base \<and>
      coils_quantity b' = ?q \<and> coils_view b' = (coils_view b)[?i := v]" if "in_block ?base ?q a"
    using that i [OF that] valid unpack_update [of ?i "unat ?q" "coils_values b" v]
    by (auto simp: coils_set_value_def out block_index Let_def coils_valid_def coils_view_def)
qed

definition registers_valid :: "Registers \<Rightarrow> bool" where
  "registers_valid r \<longleftrightarrow> unat (reg_quantity r) \<le> length (reg_values r) \<and>
     unat (reg_from_address r) + unat (reg_quantity r) < 65536"

definition registers_view :: "Registers \<Rightarrow> u16 list" where
  "registers_view r = take (unat (reg_quantity r)) (reg_values r)"

interpretation registers: addressed_block registers_valid reg_from_address reg_quantity
  registers_view registers_value registers_set_value
proof
  fix b oc v and a :: u16
  assume valid: "registers_valid b"
  let ?base = "reg_from_address b" and ?q = "reg_quantity b"
  let ?i = "unat a - unat ?base"
  have out: "out_of_block oc ?base ?q a = Ok (\<not> in_block ?base ?q a)" for oc
    using valid by (simp add: out_of_block_eq registers_valid_def)
  have i: "?i < length (reg_values b)" "?i < unat ?q" if "in_block ?base ?q a"
    using that valid by (auto simp: in_block_def registers_valid_def)
  show "length (registers_view b) = unat ?q"
    using valid by (simp add: registers_view_def registers_valid_def)
  show "registers_value oc b a =
      (if in_block ?base ?q a then Ok (registers_view b ! ?i) else Err InvalidAddress)"
    using i by (auto simp: registers_value_def out block_index Let_def registers_view_def)
  show "registers_set_value oc b a v = Err InvalidAddress" if "\<not> in_block ?base ?q a"
    using that by (simp add: registers_set_value_def out)
  show "\<exists>b'. registers_set_value oc b a v = Ok b' \<and> registers_valid b' \<and> reg_from_address b' = ?base \<and>
      reg_quantity b' = ?q \<and> registers_view b' = (registers_view b)[?i := v]" if "in_block ?base ?q a"
    using that i [OF that] valid
    by (auto simp: registers_set_value_def out block_index Let_def registers_valid_def
        registers_view_def take_update_swap)
qed

section \<open>Loading blocks from a response\<close>

lemma div_ceil_8: "n \<le> 8 * div_ceil n 8" "n \<le> 2000 \<Longrightarrow> div_ceil n 8 \<le> 250"
  by (simp_all add: div_ceil_def)

lemma unpack_prefix: "n \<le> 8 * m \<Longrightarrow> m \<le> length bs \<Longrightarrow> unpack (take m bs @ ys) n = unpack bs n"
  by (auto simp: unpack_def nth_append less_mult_imp_div_less intro!: nth_equalityI)

text \<open>
  Coils created for an address range and loaded with the packed bytes of a response form a valid
  block: the value at each address of the range is the corresponding bit of the bytes, least
  significant bit first, other addresses are rejected, and a write changes exactly the coil at its
  address.
\<close>

theorem coils_read_write:
  assumes "unat quantity \<le> 2000" "unat base + unat quantity < 65536"
    and "div_ceil (unat quantity) 8 \<le> length vals"
  shows "\<exists>c. bind_res (coils_new base quantity) (\<lambda>c. coils_with_values c vals quantity) = Ok c \<and>
    (\<forall>oc a. coils_value oc c a =
      (if in_block base quantity a then Ok (unpack vals (unat quantity) ! (unat a - unat base))
       else Err InvalidAddress)) \<and>
    (\<forall>oc a v. if in_block base quantity a
       then \<exists>c'. coils_set_value oc c a v = Ok c' \<and>
         (\<forall>oc' x. coils_value oc' c' x = (if x = a then Ok v else coils_value oc' c x))
       else coils_set_value oc c a v = Err InvalidAddress)"
proof -
  let ?n = "div_ceil (unat quantity) 8"
  let ?c = "\<lparr>coils_from_address = base, coils_quantity = quantity,
      coils_values = take ?n vals @ replicate (250 - ?n) 0\<rparr>"
  have n: "?n \<le> 250" "unat quantity \<le> 8 * ?n" using assms(1) div_ceil_8 by simp_all
  have load: "bind_res (coils_new base quantity) (\<lambda>c. coils_with_values c vals quantity) = Ok ?c"
    using assms(1,3) n
    by (simp add: coils_new_def coils_with_values_def Let_def word_less_nat_alt)
  have valid: "coils_valid ?c" using assms n by (simp add: coils_valid_def)
  have view: "coils_view ?c = unpack vals (unat quantity)"
    using assms(3) n by (simp add: coils_view_def unpack_prefix)
  have upd: "if in_block base quantity a
       then \<exists>c'. coils_set_value oc ?c a v = Ok c' \<and>
         (\<forall>oc' x. coils_value oc' c' x = (if x = a then Ok v else coils_value oc' ?c x))
       else coils_set_value oc ?c a v = Err InvalidAddress" for oc a v
  proof (cases "in_block base quantity a")
    case True
    then obtain c' where "coils_set_value oc ?c a v = Ok c'"
      using coils.set_in [OF valid, of a oc v] by auto
    then show ?thesis using coils.get_set [OF valid] True by auto
  qed (use coils.set_out [OF valid] in simp)
  show ?thesis
    using load coils.get_eq [OF valid] view upd by auto
qed

theorem coils_read_write_witness:
  "\<exists>c. bind_res (coils_new 200 16) (\<lambda>c. coils_with_values c [0xAA, 0x55] 16) = Ok c \<and>
     coils_value True c 208 = Ok True \<and> coils_value True c 200 = Ok False \<and>
     coils_value True c 216 = Err InvalidAddress"
proof -
  have "div_ceil (unat (16 :: u16)) 8 \<le> length [0xAA, 0x55 :: u8]" by (simp add: div_ceil_def)
  from coils_read_write [OF _ _ this, of 200] obtain c where
    c: "bind_res (coils_new 200 16) (\<lambda>c. coils_with_values c [0xAA, 0x55] 16) = Ok c"
      "\<And>oc a. coils_value oc c a =
        (if in_block 200 16 a then Ok (unpack [0xAA, 0x55] 16 ! (unat a - 200)) else Err InvalidAddress)"
    by auto
  show ?thesis
    by (rule exI [of _ c]) (use c(1) in \<open>simp add: c(2) in_block_def unpack_def bit_numeral_rec\<close>)
qed

text \<open>Discrete inputs are read the same way; they have no write operation.\<close>

lemma inputs_loaded:
  assumes "unat quantity \<le> 2000" "unat base + unat quantity < 65536"
    and "div_ceil (unat quantity) 8 \<le> length vals"
  shows "\<exists>c. bind_res (inputs_new base quantity) (\<lambda>c. inputs_with_values c vals quantity) = Ok c \<and>
    inputs_active_values c = Ok (take (div_ceil (unat quantity) 8) vals) \<and>
    (\<forall>oc a. inputs_value oc c a =
      (if in_block base quantity a then Ok (unpack vals (unat quantity) ! (unat a - unat base))
       else Err InvalidAddress))"
proof -
  let ?n = "div_ceil (unat quantity) 8"
  let ?vs = "take ?n vals @ replicate (250 - ?n) 0"
  let ?c = "\<lparr>inputs_from_address = base, inputs_quantity = quantity, inputs_values = ?vs\<rparr>"
  have n: "?n \<le> 250" "unat quantity \<le> 8 * ?n" using assms(1) div_ceil_8 by simp_all
  have "bind_res (inputs_new base quantity) (\<lambda>c. inputs_with_values c vals quantity) = Ok ?c"
    using assms(1,3) n
    by (simp add: inputs_new_def inputs_with_values_def Let_def word_less_nat_alt)
  moreover have "inputs_active_values ?c = Ok (take ?n vals)"
    using assms(3) n by (simp add: inputs_active_values_def)
  moreover have "inputs_value oc ?c a =
      (if in_block base quantity a then Ok (unpack vals (unat quantity) ! (unat a - unat base))
       else Err InvalidAddress)" for oc a
  proof -
    let ?i = "unat a - unat base"
    have "unpack ?vs (unat quantity) ! ?i = unpack vals (unat quantity) ! ?i"
      using unpack_prefix [of "unat quantity" ?n vals "replicate (250 - ?n) 0"] n assms(3) by simp
    moreover have "?i < unat quantity" "?i div 8 < 250" if "in_block base quantity a"
      using that assms(1) by (auto simp: in_block_def less_mult_imp_div_less)
    ultimately show ?thesis
      using out_of_block_eq [OF assms(2)] n assms(3)
      by (auto simp: inputs_value_def block_index Let_def bit_test_mask unpack_def)
  qed
  ultimately show ?thesis by blast
qed

lemma chunks_exact2_words: "chunks_exact2 (words_bytes ws) = map (\<lambda>w. (ucast (drop_bit 8 w), ucast w)) ws"
  by (induction ws) (simp_all add: words_bytes_def u16_to_be_bytes_def)

lemma store_registers_ok:
  "i + length cs \<le> length vs \<Longrightarrow> store_registers vs i cs =
   Ok (take i vs @ map (\<lambda>(h, l). u16_from_be_bytes h l) cs @ drop (i + length cs) vs)"
proof (induction cs arbitrary: vs i)
  case (Cons c cs)
  then show ?case
    by (cases c) (simp add: upd_conv_take_nth_drop take_Suc_conv_app_nth add.commute)
qed simp

text \<open>
  Registers decoded from the big-endian words of a response form a valid block that holds exactly
  those words at the addresses from the start address on; addresses outside are rejected, and a write
  changes exactly the register at its address.
\<close>

theorem registers_read_write:
  assumes "length ws = unat quantity" "unat quantity \<le> n" "unat base + unat quantity < 65536"
  shows "\<exists>r. registers_new_from_be_bytes n base quantity (words_bytes ws) = Ok r \<and>
    (\<forall>oc a. registers_value oc r a =
      (if in_block base quantity a then Ok (ws ! (unat a - unat base)) else Err InvalidAddress)) \<and>
    (\<forall>oc a v. if in_block base quantity a
       then \<exists>r'. registers_set_value oc r a v = Ok r' \<and>
         (\<forall>oc' x. registers_value oc' r' x = (if x = a then Ok v else registers_value oc' r x))
       else registers_set_value oc r a v = Err InvalidAddress)"
proof -
  let ?r = "\<lparr>reg_from_address = base, reg_quantity = quantity,
      reg_values = ws @ replicate (n - length ws) 0\<rparr>"
  have words: "map ((\<lambda>(h, l). u16_from_be_bytes h l) \<circ> (\<lambda>w. (ucast (drop_bit 8 w), ucast w))) ws = ws"
    by (simp add: map_idI be_simps)
  have load: "registers_new_from_be_bytes n base quantity (words_bytes ws) = Ok ?r"
    using assms by (simp add: registers_new_from_be_bytes_def registers_new_def chunks_exact2_words
        store_registers_ok words)
  have valid: "registers_valid ?r" using assms by (simp add: registers_valid_def)
  have view: "registers_view ?r = ws" using assms by (simp add: registers_view_def)
  have upd: "if in_block base quantity a
       then \<exists>r'. registers_set_value oc ?r a v = Ok r' \<and>
         (\<forall>oc' x. registers_value oc' r' x = (if x = a then Ok v else registers_value oc' ?r x))
       else registers_set_value oc ?r a v = Err InvalidAddress" for oc a v
  proof (cases "in_block base quantity a")
    case True
    then obtain r' where "registers_set_value oc ?r a v = Ok r'"
      using registers.set_in [OF valid, of a oc v] by auto
    then show ?thesis using registers.get_set [OF valid] True by auto
  qed (use registers.set_out [OF valid] in simp)
  show ?thesis
    using load registers.get_eq [OF valid] view upd by auto
qed

theorem registers_read_write_witness:
  "\<exists>r. registers_new_from_be_bytes 125 40 2 (words_bytes [0x1234, 0xABCD]) = Ok r \<and>
     registers_value True r 41 = Ok 0xABCD \<and> registers_value True r 42 = Err InvalidAddress"
  using registers_read_write [of "[0x1234, 0xABCD]" 2 125 40] by (auto simp: in_block_def)

text \<open>
  A block that reaches the last address 65535 cannot be used: with overflow checks reading any of
  its addresses panics, and without them reading any address at all is rejected.
\<close>

theorem blocks_at_last_address:
  assumes "unat base + unat quantity = 65536" "base \<le> a"
    and "coils_from_address c = base" "coils_quantity c = quantity"
    and "reg_from_address r = base" "reg_quantity r = quantity"
  shows "coils_value True c a = Panic \<and> registers_value True r a = Panic \<and>
    coils_value False c x = Err InvalidAddress \<and> registers_value False r x = Err InvalidAddress"
proof -
  have "unat (base + quantity) = 0" using assms(1) by (simp add: unat_word_ariths)
  then have "base + quantity = 0" by (simp add: unat_eq_0)
  then have "out_of_block True base quantity a = Panic" "out_of_block False base quantity x = Ok True"
    using assms(1,2) by (auto simp: out_of_block_def add_ovf_def)
  then show ?thesis
    by (simp add: coils_value_def registers_value_def assms)
qed

theorem blocks_at_last_address_witness:
  "coils_value True \<lparr>coils_from_address = 65535, coils_quantity = 1, coils_values = replicate 250 0\<rparr> 65535 = Panic"
  using blocks_at_last_address [of 65535 1 65535
      "\<lparr>coils_from_address = 65535, coils_quantity = 1, coils_values = replicate 250 0\<rparr>"
      "\<lparr>reg_from_address = 65535, reg_quantity = 1, reg_values = [0]\<rparr>"]
  by simp

section \<open>FIFO queues hold at most 31 registers\<close>

lemma fifo_queue_loaded:
  "length vals = 31 \<Longrightarrow> fifo_queue_values (fifo_queue_with_values q vals n) = Ok (take (min n 31) vals)"
  "fifo_queue_values (fifo_queue_new a) = Ok []"
  by (simp_all add: fifo_queue_values_def fifo_queue_with_values_def fifo_queue_new_def)

end
