(* ===== verification/Client_Requests.thy ===== *)
theory Client_Requests
  imports File_Requests Device_Id Data_Models Framing
begin

text \<open>
  What the client sends (mbus-client/src/services, \<open>request.rs\<close> and the \<open>ServiceBuilder\<close> of
  \<open>service.rs\<close> of each service): the checks on the parameters of a request, its PDU and its frame.
  \<open>hv\<close> are the operations of a byte vector. The builders have the prefix \<open>service\<close>, since the
  methods of the client have the same names.
\<close>

section \<open>Coils\<close>

definition read_coils_request :: "u8 heapless \<Rightarrow> u16 \<Rightarrow> u16 \<Rightarrow> Pdu result" where
  "read_coils_request hv address quantity =
     (if \<not> (1 \<le> quantity \<and> quantity \<le> 2000) then Err InvalidQuantity
      else build_read_window hv ReadCoils address quantity)"

definition write_single_coil_request :: "u8 heapless \<Rightarrow> u16 \<Rightarrow> bool \<Rightarrow> Pdu result" where
  "write_single_coil_request hv address v =
     (let coil_value = if v then 0xFF00 else 0x0000 in
      build_write_single_u16 hv WriteSingleCoil address coil_value)"

definition write_multiple_coils_request :: "u8 heapless \<Rightarrow> u16 \<Rightarrow> u16 \<Rightarrow> Coils \<Rightarrow> Pdu result" where
  "write_multiple_coils_request hv address quantity vals =
     (if \<not> (1 \<le> quantity \<and> quantity \<le> 1968) then Err InvalidPduLength
      else
        let byte_count = div_ceil (unat quantity) 8 in
        bind_res (slice_to (coils_values vals) byte_count) (\<lambda>vs.
        build_write_multiple hv WriteMultipleCoils address quantity vs))"

definition service_read_coils ::
    "u8 heapless \<Rightarrow> u16 \<Rightarrow> u8 \<Rightarrow> u16 \<Rightarrow> u16 \<Rightarrow> TransportType \<Rightarrow> bytes result" where
  "service_read_coils hv txn uid address quantity tt =
     bind_res (read_coils_request hv address quantity) (\<lambda>p. compile_adu_frame hv txn uid p tt)"

definition service_write_single_coil ::
    "u8 heapless \<Rightarrow> u16 \<Rightarrow> u8 \<Rightarrow> u16 \<Rightarrow> bool \<Rightarrow> TransportType \<Rightarrow> bytes result" where
  "service_write_single_coil hv txn uid address v tt =
     bind_res (write_single_coil_request hv address v) (\<lambda>p. compile_adu_frame hv txn uid p tt)"

definition service_write_multiple_coils ::
    "u8 heapless \<Rightarrow> u16 \<Rightarrow> u8 \<Rightarrow> u16 \<Rightarrow> u16 \<Rightarrow> Coils \<Rightarrow> TransportType \<Rightarrow> bytes result" where
  "service_write_multiple_coils hv txn uid address quantity vals tt =
     bind_res (write_multiple_coils_request hv address quantity vals) (\<lambda>p. compile_adu_frame hv txn uid p tt)"

section \<open>Discrete inputs\<close>

definition read_discrete_inputs_request :: "u8 heapless \<Rightarrow> u16 \<Rightarrow> u16 \<Rightarrow> Pdu result" where
  "read_discrete_inputs_request hv address quantity =
     (if \<not> (1 \<le> quantity \<and> quantity \<le> 2000) then Err InvalidPduLength
      else build_read_window hv ReadDiscreteInputs address quantity)"

definition service_read_discrete_inputs ::
    "u8 heapless \<Rightarrow> u16 \<Rightarrow> u8 \<Rightarrow> u16 \<Rightarrow> u16 \<Rightarrow> TransportType \<Rightarrow> bytes result" where
  "service_read_discrete_inputs hv txn uid address quantity tt =
     bind_res (read_discrete_inputs_request hv address quantity) (\<lambda>p. compile_adu_frame hv txn uid p tt)"

section \<open>Registers\<close>

definition read_holding_registers_request :: "u8 heapless \<Rightarrow> u16 \<Rightarrow> u16 \<Rightarrow> Pdu result" where
  "read_holding_registers_request hv address quantity =
     (if \<not> (1 \<le> quantity \<and> quantity \<le> 125) then Err InvalidPduLength
      else build_read_window hv ReadHoldingRegisters address quantity)"

definition read_input_registers_request :: "u8 heapless \<Rightarrow> u16 \<Rightarrow> u16 \<Rightarrow> Pdu result" where
  "read_input_registers_request hv address quantity =
     (if \<not> (1 \<le> quantity \<and> quantity \<le> 125) then Err InvalidPduLength
      else build_read_window hv ReadInputRegisters address quantity)"

definition write_single_register_request :: "u8 heapless \<Rightarrow> u16 \<Rightarrow> u16 \<Rightarrow> Pdu result" where
  "write_single_register_request hv address v = build_write_single_u16 hv WriteSingleRegister address v"

text \<open>\<open>put_words\<close> is the loop that packs the values.\<close>

definition write_multiple_registers_request :: "u8 heapless \<Rightarrow> u16 \<Rightarrow> u16 \<Rightarrow> u16 list \<Rightarrow> Pdu result" where
  "write_multiple_registers_request hv address quantity vals =
     (if \<not> (1 \<le> quantity \<and> quantity \<le> 123) then Err InvalidPduLength
      else if of_nat (length vals) \<noteq> quantity then Err InvalidPduLength
      else bind_res (put_words hv [] vals) (\<lambda>packed.
           build_write_multiple hv WriteMultipleRegisters address quantity packed))"

definition read_write_multiple_registers_request ::
    "u8 heapless \<Rightarrow> u16 \<Rightarrow> u16 \<Rightarrow> u16 \<Rightarrow> u16 list \<Rightarrow> Pdu result" where
  "read_write_multiple_registers_request hv read_address read_quantity write_address write_values =
     (if \<not> (1 \<le> read_quantity \<and> read_quantity \<le> 125) then Err InvalidPduLength
      else
        let write_quantity = of_nat (length write_values) in
        if \<not> (1 \<le> write_quantity \<and> write_quantity \<le> 121) then Err InvalidPduLength
        else bind_res (put_words hv [] write_values) (\<lambda>packed.
             build_read_write_multiple hv read_address read_quantity write_address write_quantity packed))"

definition mask_write_register_request :: "u8 heapless \<Rightarrow> u16 \<Rightarrow> u16 \<Rightarrow> u16 \<Rightarrow> Pdu result" where
  "mask_write_register_request hv address and_mask or_mask = build_mask_write_register hv address and_mask or_mask"

definition service_read_holding_registers ::
    "u8 heapless \<Rightarrow> u16 \<Rightarrow> u8 \<Rightarrow> u16 \<Rightarrow> u16 \<Rightarrow> TransportType \<Rightarrow> bytes result" where
  "service_read_holding_registers hv txn uid address quantity tt =
     bind_res (read_holding_registers_request hv address quantity) (\<lambda>p. compile_adu_frame hv txn uid p tt)"

definition service_read_input_registers ::
    "u8 heapless \<Rightarrow> u16 \<Rightarrow> u8 \<Rightarrow> u16 \<Rightarrow> u16 \<Rightarrow> TransportType \<Rightarrow> bytes result" where
  "service_read_input_registers hv txn uid address quantity tt =
     bind_res (read_input_registers_request hv address quantity) (\<lambda>p. compile_adu_frame hv txn uid p tt)"

definition service_write_single_register ::
    "u8 heapless \<Rightarrow> u16 \<Rightarrow> u8 \<Rightarrow> u16 \<Rightarrow> u16 \<Rightarrow> TransportType \<Rightarrow> bytes result" where
  "service_write_single_register hv txn uid address v tt =
     bind_res (write_single_register_request hv address v) (\<lambda>p. compile_adu_frame hv txn uid p tt)"

definition service_write_multiple_registers ::
    "u8 heapless \<Rightarrow> u16 \<Rightarrow> u8 \<Rightarrow> u16 \<Rightarrow> u16 \<Rightarrow> u16 list \<Rightarrow> TransportType \<Rightarrow> bytes result" where
  "service_write_multiple_registers hv txn uid address quantity vals tt =
     bind_res (write_multiple_registers_request hv address quantity vals) (\<lambda>p.
     compile_adu_frame hv txn uid p tt)"

definition service_read_write_multiple_registers ::
    "u8 heapless \<Rightarrow> u16 \<Rightarrow> u8 \<Rightarrow> u16 \<Rightarrow> u16 \<Rightarrow> u16 \<Rightarrow> u16 list \<Rightarrow> TransportType \<Rightarrow> bytes result" where
  "service_read_write_multiple_registers hv txn uid read_address read_quantity write_address write_values tt =
     bind_res (read_write_multiple_registers_request hv read_address read_quantity write_address write_values)
       (\<lambda>p. compile_adu_frame hv txn uid p tt)"

definition service_mask_write_register ::
    "u8 heapless \<Rightarrow> u16 \<Rightarrow> u8 \<Rightarrow> u16 \<Rightarrow> u16 \<Rightarrow> u16 \<Rightarrow> TransportType \<Rightarrow> bytes result" where
  "service_mask_write_register hv txn uid address and_mask or_mask tt =
     bind_res (mask_write_register_request hv address and_mask or_mask) (\<lambda>p. compile_adu_frame hv txn uid p tt)"

section \<open>FIFO queues and file records\<close>

definition read_fifo_queue_request :: "u8 heapless \<Rightarrow> u16 \<Rightarrow> Pdu result" where
  "read_fifo_queue_request hv address = build_u16_payload hv ReadFifoQueue address"

definition service_read_fifo_queue :: "u8 heapless \<Rightarrow> u16 \<Rightarrow> u8 \<Rightarrow> u16 \<Rightarrow> TransportType \<Rightarrow> bytes result" where
  "service_read_fifo_queue hv txn uid address tt =
     bind_res (read_fifo_queue_request hv address) (\<lambda>p. compile_adu_frame hv txn uid p tt)"

definition service_read_file_record ::
    "u8 heapless \<Rightarrow> u16 \<Rightarrow> u8 \<Rightarrow> SubRequest \<Rightarrow> TransportType \<Rightarrow> bytes result" where
  "service_read_file_record hv txn uid sub_request tt =
     bind_res (read_file_record_request hv sub_request) (\<lambda>p. compile_adu_frame hv txn uid p tt)"

definition service_write_file_record ::
    "u8 heapless \<Rightarrow> u16 \<Rightarrow> u8 \<Rightarrow> SubRequest \<Rightarrow> TransportType \<Rightarrow> bytes result" where
  "service_write_file_record hv txn uid sub_request tt =
     bind_res (write_file_record_request hv sub_request) (\<lambda>p. compile_adu_frame hv txn uid p tt)"

section \<open>Diagnostics\<close>

definition read_exception_status_request :: "Pdu result" where
  "read_exception_status_request = Ok (build_empty ReadExceptionStatus)"

definition diagnostics_request :: "u8 heapless \<Rightarrow> DiagnosticSubFunction \<Rightarrow> u16 list \<Rightarrow> Pdu result" where
  "diagnostics_request hv sub_function words =
     (if length words > 125 then Err InvalidPduLength
      else build_sub_function hv Diagnostics (diagnostic_sub_function_u16 sub_function) words)"

definition get_comm_event_counter_request :: "Pdu result" where
  "get_comm_event_counter_request = Ok (build_empty GetCommEventCounter)"

definition get_comm_event_log_request :: "Pdu result" where
  "get_comm_event_log_request = Ok (build_empty GetCommEventLog)"

definition report_server_id_request :: "Pdu result" where
  "report_server_id_request = Ok (build_empty ReportServerId)"

definition encapsulated_interface_transport_request ::
    "u8 heapless \<Rightarrow> EncapsulatedInterfaceType \<Rightarrow> bytes \<Rightarrow> Pdu result" where
  "encapsulated_interface_transport_request hv mei_type payload =
     build_mei_type hv EncapsulatedInterfaceTransport (encapsulated_interface_type_u8 mei_type) payload"

definition read_device_identification_request ::
    "u8 heapless \<Rightarrow> ReadDeviceIdCode \<Rightarrow> ObjectId \<Rightarrow> Pdu result" where
  "read_device_identification_request hv code oid =
     build_mei_type hv EncapsulatedInterfaceTransport
       (encapsulated_interface_type_u8 ReadDeviceIdentification)
       [read_device_id_code_u8 code, object_id_u8 oid]"

definition check_serial :: "TransportType \<Rightarrow> unit result" where
  "check_serial tt =
     (case tt of StdSerial _ \<Rightarrow> Ok () | CustomSerial _ \<Rightarrow> Ok () | _ \<Rightarrow> Err InvalidTransport)"

definition service_read_device_identification ::
    "u8 heapless \<Rightarrow> u16 \<Rightarrow> u8 \<Rightarrow> ReadDeviceIdCode \<Rightarrow> ObjectId \<Rightarrow> TransportType \<Rightarrow> bytes result" where
  "service_read_device_identification hv txn uid code oid tt =
     bind_res (read_device_identification_request hv code oid) (\<lambda>p. compile_adu_frame hv txn uid p tt)"

definition service_encapsulated_interface_transport ::
    "u8 heapless \<Rightarrow> u16 \<Rightarrow> u8 \<Rightarrow> EncapsulatedInterfaceType \<Rightarrow> bytes \<Rightarrow> TransportType \<Rightarrow> bytes result" where
  "service_encapsulated_interface_transport hv txn uid mei_type payload tt =
     bind_res (encapsulated_interface_transport_request hv mei_type payload) (\<lambda>p.
     compile_adu_frame hv txn uid p tt)"

text \<open>The serial-only requests; their frames carry no transaction identifier.\<close>

definition service_read_exception_status :: "u8 heapless \<Rightarrow> u8 \<Rightarrow> TransportType \<Rightarrow> bytes result" where
  "service_read_exception_status hv uid tt =
     bind_res (check_serial tt) (\<lambda>_.
     bind_res read_exception_status_request (\<lambda>p. compile_adu_frame hv 0 uid p tt))"

definition service_diagnostics ::
    "u8 heapless \<Rightarrow> u8 \<Rightarrow> DiagnosticSubFunction \<Rightarrow> u16 list \<Rightarrow> TransportType \<Rightarrow> bytes result" where
  "service_diagnostics hv uid sub_function words tt =
     bind_res (check_serial tt) (\<lambda>_.
     bind_res (diagnostics_request hv sub_function words) (\<lambda>p. compile_adu_frame hv 0 uid p tt))"

definition service_get_comm_event_counter :: "u8 heapless \<Rightarrow> u8 \<Rightarrow> TransportType \<Rightarrow> bytes result" where
  "service_get_comm_event_counter hv uid tt =
     bind_res (check_serial tt) (\<lambda>_.
     bind_res get_comm_event_counter_request (\<lambda>p. compile_adu_frame hv 0 uid p tt))"

definition service_get_comm_event_log :: "u8 heapless \<Rightarrow> u8 \<Rightarrow> TransportType \<Rightarrow> bytes result" where
  "service_get_comm_event_log hv uid tt =
     bind_res (check_serial tt) (\<lambda>_.
     bind_res get_comm_event_log_request (\<lambda>p. compile_adu_frame hv 0 uid p tt))"

definition service_report_server_id :: "u8 heapless \<Rightarrow> u8 \<Rightarrow> TransportType \<Rightarrow> bytes result" where
  "service_report_server_id hv uid tt =
     bind_res (check_serial tt) (\<lambda>_.
     bind_res report_server_id_request (\<lambda>p. compile_adu_frame hv 0 uid p tt))"

end
