(* ===== verification/Client_Responses.thy ===== *)
theory Client_Responses
  imports Client_Core Client_Requests
begin

text \<open>
  What the client makes of a response (mbus-client/src/services, \<open>response.rs\<close> and the decompilers
  of \<open>service.rs\<close> of each service): the parsers, and the handlers that report the result to the
  application.

  A handler reads the request and the message and calls methods of the application, which return
  nothing; it is a function to the list of these calls. \<open>None\<close> is a panic. \<open>service_build\<close> holds the
  \<open>overflow-checks\<close> setting of the build and the vector operations.
\<close>

section \<open>Calls to the application\<close>

datatype Reply =
    request_failed_cb MbusError
  | read_coils_response Coils
  | read_single_coil_response u16 bool
  | write_single_coil_response u16 bool
  | write_multiple_coils_response u16 u16
  | read_multiple_discrete_inputs_response DiscreteInputs
  | read_single_discrete_input_response u16 bool
  | read_multiple_holding_registers_response Registers
  | read_single_holding_register_response u16 u16
  | read_multiple_input_registers_response Registers
  | read_single_input_register_response u16 u16
  | write_single_register_response u16 u16
  | write_multiple_registers_response u16 u16
  | read_write_multiple_registers_response Registers
  | mask_write_register_response
  | read_fifo_queue_response FifoQueue
  | read_file_record_response "SubRequestParams list"
  | write_file_record_response
  | read_device_identification_response DeviceIdentificationResponse
  | encapsulated_interface_transport_response EncapsulatedInterfaceType bytes
  | read_exception_status_response u8
  | diagnostics_response DiagnosticSubFunction "u16 list"
  | get_comm_event_counter_response u16 u16
  | get_comm_event_log_response u16 u16 u16 bytes
  | report_server_id_response bytes

text \<open>Every callback starts with the transaction identifier and the unit of the request.\<close>

record AppCallback =
  cb_txn :: u16
  cb_unit :: UnitIdOrSlaveAddr
  cb_reply :: Reply

record service_build =
  overflow_checks :: bool
  v_bytes :: "u8 heapless"
  v_words :: "u16 heapless"
  v_params :: "SubRequestParams heapless"

text \<open>\<open>self.app.<callback>(ctx.txn_id, message.unit_id_or_slave_addr(), ..)\<close>\<close>

definition notify :: "'h ExpectedResponse \<Rightarrow> ModbusMessage \<Rightarrow> Reply \<Rightarrow> AppCallback list option" where
  "notify ctx m reply =
     Some [\<lparr>cb_txn = er_txn_id ctx, cb_unit = unit_id_or_slave_addr m, cb_reply = reply\<rparr>]"

text \<open>\<open>match r { Ok(x) => .., Err(e) => .. }\<close>, where evaluating \<open>r\<close> may panic.\<close>

definition match_result :: "'x result \<Rightarrow> ('x \<Rightarrow> 'y option) \<Rightarrow> (MbusError \<Rightarrow> 'y option) \<Rightarrow> 'y option" where
  "match_result r ok err = (case r of Ok x \<Rightarrow> ok x | Err e \<Rightarrow> err e | Panic \<Rightarrow> None)"

text \<open>\<open>if r.is_ok() { Ok(()) } else { Err(e) }\<close>\<close>

definition check_ok :: "MbusError \<Rightarrow> 'x result \<Rightarrow> unit result" where
  "check_ok e r = (case r of Ok _ \<Rightarrow> Ok () | Err _ \<Rightarrow> Err e | Panic \<Rightarrow> Panic)"

section \<open>Coils\<close>

definition parse_write_multiple_coils_response :: "Pdu \<Rightarrow> u16 \<Rightarrow> u16 \<Rightarrow> unit result" where
  "parse_write_multiple_coils_response p expected_address expected_quantity =
     (if function_code p \<noteq> WriteMultipleCoils then Err ParseError
      else bind_res (read_window p) (\<lambda>fields.
        if rw_address fields \<noteq> expected_address then Err InvalidAddress
        else if rw_quantity fields \<noteq> expected_quantity then Err InvalidQuantity
        else Ok ()))"

definition parse_read_coils_response :: "service_build \<Rightarrow> Pdu \<Rightarrow> u16 \<Rightarrow> bytes result" where
  "parse_read_coils_response b p expected_quantity =
     (if function_code p \<noteq> ReadCoils then Err InvalidFunctionCode
      else bind_res (byte_count_payload p) (\<lambda>bcp.
        let expected_byte_count = div_ceil (unat expected_quantity) 8 in
        if unat (bc_byte_count bcp) \<noteq> expected_byte_count then Err InvalidQuantity
        else extend_or (v_bytes b) MAX_COIL_BYTES BufferLenMissmatch [] (bc_payload bcp)))"

definition handle_coil_response :: "service_build \<Rightarrow> Pdu \<Rightarrow> u16 \<Rightarrow> u16 \<Rightarrow> Coils result" where
  "handle_coil_response b p expected_quantity from_address =
     bind_res (parse_read_coils_response b p expected_quantity) (\<lambda>coil_response.
     bind_res (coils_new from_address expected_quantity) (\<lambda>c.
     coils_with_values c coil_response expected_quantity))"

definition parse_write_single_coil_response :: "Pdu \<Rightarrow> u16 \<Rightarrow> bool \<Rightarrow> unit result" where
  "parse_write_single_coil_response p expected_address expected_value =
     (if function_code p \<noteq> WriteSingleCoil then Err InvalidFunctionCode
      else bind_res (write_single_u16_fields p) (\<lambda>fields.
        if ws_address fields \<noteq> expected_address then Err InvalidAddress
        else
          let expected_response_value = if expected_value then 0xFF00 else 0x0000 in
          if ws_value fields \<noteq> expected_response_value then Err InvalidValue
          else Ok ()))"

definition handle_read_coil_rsp :: "service_build \<Rightarrow> Pdu \<Rightarrow> u16 \<Rightarrow> u16 \<Rightarrow> Coils result" where
  "handle_read_coil_rsp b p expected_quantity from_address =
     (if function_code p \<noteq> ReadCoils then Err InvalidFunctionCode
      else handle_coil_response b p expected_quantity from_address)"

definition handle_write_single_coil_rsp :: "FunctionCode \<Rightarrow> Pdu \<Rightarrow> u16 \<Rightarrow> bool \<Rightarrow> unit result" where
  "handle_write_single_coil_rsp fc p address v =
     (if fc \<noteq> WriteSingleCoil then Err InvalidFunctionCode
      else check_ok ParseError (parse_write_single_coil_response p address v))"

definition handle_write_multiple_coils_rsp :: "FunctionCode \<Rightarrow> Pdu \<Rightarrow> u16 \<Rightarrow> u16 \<Rightarrow> unit result" where
  "handle_write_multiple_coils_rsp fc p address quantity =
     (if fc \<noteq> WriteMultipleCoils then Err InvalidFunctionCode
      else check_ok ParseError (parse_write_multiple_coils_response p address quantity))"

definition handle_read_coils_response ::
    "service_build \<Rightarrow> 'h ExpectedResponse \<Rightarrow> ModbusMessage \<Rightarrow> AppCallback list option" where
  "handle_read_coils_response b ctx m =
     (let expected_quantity = meta_quantity (operation_meta ctx);
          from_address = meta_address (operation_meta ctx)
      in match_result (handle_read_coil_rsp b (pdu m) expected_quantity from_address)
           (\<lambda>coil_rsp.
              if meta_is_single (operation_meta ctx) then
                match_result (coils_value (overflow_checks b) coil_rsp from_address)
                  (\<lambda>coil_value. notify ctx m (read_single_coil_response from_address coil_value))
                  (\<lambda>_. Some [])
              else notify ctx m (read_coils_response coil_rsp))
           (\<lambda>e. notify ctx m (request_failed_cb e)))"

definition handle_write_single_coil_response ::
    "'h ExpectedResponse \<Rightarrow> ModbusMessage \<Rightarrow> AppCallback list option" where
  "handle_write_single_coil_response ctx m =
     (let address = meta_address (operation_meta ctx);
          v = (meta_value (operation_meta ctx) \<noteq> 0)
      in match_result (handle_write_single_coil_rsp (function_code (pdu m)) (pdu m) address v)
           (\<lambda>_. notify ctx m (write_single_coil_response address v))
           (\<lambda>_. notify ctx m (request_failed_cb ParseError)))"

definition handle_write_multiple_coils_response ::
    "'h ExpectedResponse \<Rightarrow> ModbusMessage \<Rightarrow> AppCallback list option" where
  "handle_write_multiple_coils_response ctx m =
     (let address = meta_address (operation_meta ctx);
          quantity = meta_quantity (operation_meta ctx)
      in match_result (handle_write_multiple_coils_rsp (function_code (pdu m)) (pdu m) address quantity)
           (\<lambda>_. notify ctx m (write_multiple_coils_response address quantity))
           (\<lambda>_. notify ctx m (request_failed_cb ParseError)))"

section \<open>Discrete inputs\<close>

definition parse_read_discrete_inputs_response :: "Pdu \<Rightarrow> u16 \<Rightarrow> u16 \<Rightarrow> DiscreteInputs result" where
  "parse_read_discrete_inputs_response p from_address expected_quantity =
     (if function_code p \<noteq> ReadDiscreteInputs then Err InvalidFunctionCode
      else bind_res (byte_count_payload p) (\<lambda>bcp.
        let expected_byte_count = div_ceil (unat expected_quantity) 8 in
        if unat (bc_byte_count bcp) \<noteq> expected_byte_count then Err InvalidQuantity
        else bind_res (copy_prefix (replicate MAX_DISCRETE_INPUT_BYTES 0) (unat (bc_byte_count bcp))
                 (bc_payload bcp)) (\<lambda>inputs.
             bind_res (inputs_new from_address expected_quantity) (\<lambda>d.
             inputs_with_values d inputs expected_quantity))))"

definition handle_read_discrete_inputs_rsp ::
    "FunctionCode \<Rightarrow> Pdu \<Rightarrow> u16 \<Rightarrow> u16 \<Rightarrow> DiscreteInputs result" where
  "handle_read_discrete_inputs_rsp fc p from_address expected_quantity =
     (if fc \<noteq> ReadDiscreteInputs then Err InvalidFunctionCode
      else parse_read_discrete_inputs_response p from_address expected_quantity)"

definition handle_read_discrete_inputs_response ::
    "service_build \<Rightarrow> 'h ExpectedResponse \<Rightarrow> ModbusMessage \<Rightarrow> AppCallback list option" where
  "handle_read_discrete_inputs_response b ctx m =
     (let expected_quantity = meta_quantity (operation_meta ctx);
          from_address = meta_address (operation_meta ctx)
      in match_result
           (handle_read_discrete_inputs_rsp (function_code (pdu m)) (pdu m) from_address expected_quantity)
           (\<lambda>discrete_inputs.
              if meta_is_single (operation_meta ctx) then
                match_result (inputs_value (overflow_checks b) discrete_inputs from_address)
                  (\<lambda>v. notify ctx m (read_single_discrete_input_response from_address v))
                  (\<lambda>_. notify ctx m (request_failed_cb Unexpected))
              else notify ctx m (read_multiple_discrete_inputs_response discrete_inputs))
           (\<lambda>e. notify ctx m (request_failed_cb e)))"

section \<open>Registers\<close>

abbreviation (input) MAX_REGISTERS_PER_PDU :: usize where "MAX_REGISTERS_PER_PDU \<equiv> 125"

text \<open>The loop over \<open>payload.chunks(2)\<close>, which skips a last chunk of one byte.\<close>

fun push_registers :: "u16 heapless \<Rightarrow> u16 list \<Rightarrow> bytes \<Rightarrow> u16 list result" where
  "push_registers hv vals (h # l # bs) =
     bind_res (push_or hv MAX_REGISTERS_PER_PDU BufferLenMissmatch vals (u16_from_be_bytes h l)) (\<lambda>vals.
     push_registers hv vals bs)"
| "push_registers hv vals _ = Ok vals"

definition parse_read_registers_response ::
    "service_build \<Rightarrow> Pdu \<Rightarrow> FunctionCode \<Rightarrow> u16 \<Rightarrow> u16 list result" where
  "parse_read_registers_response b p expected_fc expected_quantity =
     (if function_code p \<noteq> expected_fc then Err InvalidFunctionCode
      else bind_res (byte_count_payload p) (\<lambda>bcp.
        bind_res (mul_ovf (overflow_checks b) expected_quantity 2) (\<lambda>expected_bytes.
        if unat (bc_byte_count bcp) \<noteq> unat expected_bytes then Err InvalidQuantity
        else push_registers (v_words b) [] (bc_payload bcp))))"

definition parse_read_holding_registers_response :: "service_build \<Rightarrow> Pdu \<Rightarrow> u16 \<Rightarrow> u16 list result" where
  "parse_read_holding_registers_response b p expected_quantity =
     parse_read_registers_response b p ReadHoldingRegisters expected_quantity"

definition parse_read_input_registers_response :: "service_build \<Rightarrow> Pdu \<Rightarrow> u16 \<Rightarrow> u16 list result" where
  "parse_read_input_registers_response b p expected_quantity =
     parse_read_registers_response b p ReadInputRegisters expected_quantity"

definition parse_read_write_multiple_registers_response ::
    "service_build \<Rightarrow> Pdu \<Rightarrow> u16 \<Rightarrow> u16 list result" where
  "parse_read_write_multiple_registers_response b p expected_quantity =
     parse_read_registers_response b p ReadWriteMultipleRegisters expected_quantity"

definition parse_write_single_register_response :: "Pdu \<Rightarrow> u16 \<Rightarrow> u16 \<Rightarrow> unit result" where
  "parse_write_single_register_response p expected_address expected_value =
     (if function_code p \<noteq> WriteSingleRegister then Err ParseError
      else bind_res (write_single_u16_fields p) (\<lambda>fields.
        if ws_address fields \<noteq> expected_address then Err InvalidAddress
        else if ws_value fields \<noteq> expected_value then Err InvalidValue
        else Ok ()))"

definition parse_write_multiple_registers_response :: "Pdu \<Rightarrow> u16 \<Rightarrow> u16 \<Rightarrow> unit result" where
  "parse_write_multiple_registers_response p expected_address expected_quantity =
     (if function_code p \<noteq> WriteMultipleRegisters then Err ParseError
      else bind_res (read_window p) (\<lambda>fields.
        if rw_address fields \<noteq> expected_address then Err InvalidAddress
        else if rw_quantity fields \<noteq> expected_quantity then Err InvalidQuantity
        else Ok ()))"

definition parse_mask_write_register_response :: "Pdu \<Rightarrow> u16 \<Rightarrow> u16 \<Rightarrow> u16 \<Rightarrow> unit result" where
  "parse_mask_write_register_response p expected_address expected_and_mask expected_or_mask =
     (if function_code p \<noteq> MaskWriteRegister then Err InvalidFunctionCode
      else bind_res (mask_write_register_fields p) (\<lambda>fields.
        if mw_address fields \<noteq> expected_address then Err InvalidAddress
        else if mw_and_mask fields \<noteq> expected_and_mask then Err InvalidAndMask
        else if mw_or_mask fields \<noteq> expected_or_mask then Err InvalidOrMask
        else Ok ()))"

definition handle_write_single_register_rsp :: "Pdu \<Rightarrow> u16 \<Rightarrow> u16 \<Rightarrow> unit result" where
  "handle_write_single_register_rsp p address v =
     (if function_code p \<noteq> WriteSingleRegister then Err InvalidFunctionCode
      else parse_write_single_register_response p address v)"

definition handle_read_holding_register_rsp :: "service_build \<Rightarrow> Pdu \<Rightarrow> u16 \<Rightarrow> u16 \<Rightarrow> Registers result" where
  "handle_read_holding_register_rsp b p expected_quantity from_address =
     (if function_code p \<noteq> ReadHoldingRegisters then Err InvalidFunctionCode
      else bind_res (parse_read_holding_registers_response b p expected_quantity) (\<lambda>vals.
           bind_res (registers_new MAX_REGISTERS_PER_PDU from_address expected_quantity) (\<lambda>r.
           registers_with_values r vals (of_nat (length vals)))))"

definition handle_read_input_register_rsp :: "service_build \<Rightarrow> Pdu \<Rightarrow> u16 \<Rightarrow> u16 \<Rightarrow> Registers result" where
  "handle_read_input_register_rsp b p expected_quantity from_address =
     (if function_code p \<noteq> ReadInputRegisters then Err InvalidFunctionCode
      else bind_res (parse_read_input_registers_response b p expected_quantity) (\<lambda>vals.
           bind_res (registers_new MAX_REGISTERS_PER_PDU from_address expected_quantity) (\<lambda>r.
           registers_with_values r vals (of_nat (length vals)))))"

definition handle_write_multiple_registers_rsp :: "Pdu \<Rightarrow> u16 \<Rightarrow> u16 \<Rightarrow> unit result" where
  "handle_write_multiple_registers_rsp p expected_address expected_quantity =
     (if function_code p \<noteq> WriteMultipleRegisters then Err InvalidFunctionCode
      else parse_write_multiple_registers_response p expected_address expected_quantity)"

definition handle_read_write_multiple_registers_rsp ::
    "service_build \<Rightarrow> Pdu \<Rightarrow> u16 \<Rightarrow> u16 \<Rightarrow> Registers result" where
  "handle_read_write_multiple_registers_rsp b p expected_quantity from_address =
     (if function_code p \<noteq> ReadWriteMultipleRegisters then Err InvalidFunctionCode
      else bind_res (parse_read_write_multiple_registers_response b p expected_quantity) (\<lambda>vals.
           bind_res (registers_new MAX_REGISTERS_PER_PDU from_address expected_quantity) (\<lambda>r.
           registers_with_values r vals (of_nat (length vals)))))"

definition handle_mask_write_register_rsp :: "Pdu \<Rightarrow> u16 \<Rightarrow> u16 \<Rightarrow> u16 \<Rightarrow> unit result" where
  "handle_mask_write_register_rsp p address and_mask or_mask =
     (if function_code p \<noteq> MaskWriteRegister then Err InvalidFunctionCode
      else parse_mask_write_register_response p address and_mask or_mask)"

text \<open>\<open>values().first().cloned().unwrap_or(0)\<close>\<close>

fun first_or_zero :: "u16 list \<Rightarrow> u16" where
  "first_or_zero [] = 0"
| "first_or_zero (v # vs) = v"

definition handle_read_holding_registers_response ::
    "service_build \<Rightarrow> 'h ExpectedResponse \<Rightarrow> ModbusMessage \<Rightarrow> AppCallback list option" where
  "handle_read_holding_registers_response b ctx m =
     (let from_address = meta_address (operation_meta ctx);
          expected_quantity = meta_quantity (operation_meta ctx)
      in match_result (handle_read_holding_register_rsp b (pdu m) expected_quantity from_address)
           (\<lambda>register_rsp.
              if meta_is_single (operation_meta ctx) then
                notify ctx m (read_single_holding_register_response from_address
                  (first_or_zero (reg_values register_rsp)))
              else notify ctx m (read_multiple_holding_registers_response register_rsp))
           (\<lambda>e. notify ctx m (request_failed_cb e)))"

definition handle_read_input_registers_response ::
    "service_build \<Rightarrow> 'h ExpectedResponse \<Rightarrow> ModbusMessage \<Rightarrow> AppCallback list option" where
  "handle_read_input_registers_response b ctx m =
     (let from_address = meta_address (operation_meta ctx);
          quantity = meta_quantity (operation_meta ctx)
      in match_result (handle_read_input_register_rsp b (pdu m) quantity from_address)
           (\<lambda>register_rsp.
              if meta_is_single (operation_meta ctx) then
                match_result (registers_value (overflow_checks b) register_rsp from_address)
                  (\<lambda>v. notify ctx m (read_single_input_register_response from_address v))
                  (\<lambda>err. notify ctx m (request_failed_cb err))
              else notify ctx m (read_multiple_input_registers_response register_rsp))
           (\<lambda>err. notify ctx m (request_failed_cb err)))"

definition handle_write_single_register_response ::
    "'h ExpectedResponse \<Rightarrow> ModbusMessage \<Rightarrow> AppCallback list option" where
  "handle_write_single_register_response ctx m =
     (let address = meta_address (operation_meta ctx);
          v = meta_single_value (operation_meta ctx)
      in match_result (handle_write_single_register_rsp (pdu m) address v)
           (\<lambda>_. notify ctx m (write_single_register_response address v))
           (\<lambda>_. notify ctx m (request_failed_cb ParseError)))"

definition handle_write_multiple_registers_response ::
    "'h ExpectedResponse \<Rightarrow> ModbusMessage \<Rightarrow> AppCallback list option" where
  "handle_write_multiple_registers_response ctx m =
     (let from_address = meta_address (operation_meta ctx);
          quantity = meta_quantity (operation_meta ctx)
      in match_result (handle_write_multiple_registers_rsp (pdu m) from_address quantity)
           (\<lambda>_. notify ctx m (write_multiple_registers_response from_address quantity))
           (\<lambda>_. notify ctx m (request_failed_cb ParseError)))"

definition handle_read_write_multiple_registers_response ::
    "service_build \<Rightarrow> 'h ExpectedResponse \<Rightarrow> ModbusMessage \<Rightarrow> AppCallback list option" where
  "handle_read_write_multiple_registers_response b ctx m =
     (let from_address = meta_address (operation_meta ctx);
          read_quantity = meta_quantity (operation_meta ctx)
      in match_result (handle_read_write_multiple_registers_rsp b (pdu m) read_quantity from_address)
           (\<lambda>register_rsp. notify ctx m (read_write_multiple_registers_response register_rsp))
           (\<lambda>e. notify ctx m (request_failed_cb e)))"

definition handle_mask_write_register_response ::
    "'h ExpectedResponse \<Rightarrow> ModbusMessage \<Rightarrow> AppCallback list option" where
  "handle_mask_write_register_response ctx m =
     (let ref_address = meta_address (operation_meta ctx);
          and_mask = meta_and_mask (operation_meta ctx);
          or_mask = meta_or_mask (operation_meta ctx)
      in match_result (handle_mask_write_register_rsp (pdu m) ref_address and_mask or_mask)
           (\<lambda>_. notify ctx m mask_write_register_response)
           (\<lambda>_. notify ctx m (request_failed_cb ParseError)))"

section \<open>FIFO queues\<close>

text \<open>The loop over \<open>fp.values.chunks_exact(2)\<close>.\<close>

fun store_fifo :: "u16 list \<Rightarrow> usize \<Rightarrow> (u8 \<times> u8) list \<Rightarrow> (u16 list \<times> usize) result" where
  "store_fifo vals index [] = Ok (vals, index)"
| "store_fifo vals index ((h, l) # cs) =
     (if index \<ge> MAX_FIFO_QUEUE_COUNT_PER_PDU then Err BufferLenMissmatch
      else bind_res (store vals index (u16_from_be_bytes h l)) (\<lambda>vals. store_fifo vals (index + 1) cs))"

definition parse_read_fifo_queue_response :: "Pdu \<Rightarrow> (u16 list \<times> usize) result" where
  "parse_read_fifo_queue_response p =
     (if function_code p \<noteq> ReadFifoQueue then Err InvalidFunctionCode
      else bind_res (fifo_payload p) (\<lambda>fp.
        let byte_count = unat (fifo_byte_count fp);
            count = unat (fifo_count fp)
        in if length (fifo_values fp) + 2 \<noteq> byte_count then Err InvalidAduLength
           else if byte_count \<noteq> 2 + count * 2 then Err ParseError
           else if count > MAX_FIFO_QUEUE_COUNT_PER_PDU then Err BufferLenMissmatch
           else bind_res (store_fifo (replicate MAX_FIFO_QUEUE_COUNT_PER_PDU 0) 0
                    (chunks_exact2 (fifo_values fp))) (\<lambda>(vals, index).
                if index \<noteq> count then Err ParseError else Ok (vals, count))))"

definition handle_read_fifo_queue_rsp :: "FunctionCode \<Rightarrow> Pdu \<Rightarrow> FifoQueue result" where
  "handle_read_fifo_queue_rsp fc p =
     (if fc \<noteq> ReadFifoQueue then Err InvalidFunctionCode
      else bind_res (parse_read_fifo_queue_response p) (\<lambda>(vals, len).
           Ok (fifo_queue_with_values (fifo_queue_new 0) vals len)))"

definition handle_read_fifo_queue_response ::
    "'h ExpectedResponse \<Rightarrow> ModbusMessage \<Rightarrow> AppCallback list option" where
  "handle_read_fifo_queue_response ctx m =
     match_result (handle_read_fifo_queue_rsp (function_code (pdu m)) (pdu m))
       (\<lambda>register_rsp. notify ctx m (read_fifo_queue_response register_rsp))
       (\<lambda>e. notify ctx m (request_failed_cb e))"

section \<open>File records\<close>

text \<open>
  A loop over \<open>chunks(2)\<close> that reads both bytes of a chunk and pushes the word into a vector of
  capacity \<open>n\<close>; a last chunk of one byte would panic.
\<close>

fun push_chunks :: "u16 heapless \<Rightarrow> usize \<Rightarrow> MbusError \<Rightarrow> u16 list \<Rightarrow> bytes \<Rightarrow> u16 list result" where
  "push_chunks hv n e vals [] = Ok vals"
| "push_chunks hv n e vals [h] = Panic"
| "push_chunks hv n e vals (h # l # bs) =
     bind_res (push_or hv n e vals (u16_from_be_bytes h l)) (\<lambda>vals. push_chunks hv n e vals bs)"

text \<open>The \<open>while i < bcp.payload.len()\<close> loops of the two parsers.\<close>

function read_file_record_loop ::
    "service_build \<Rightarrow> bytes \<Rightarrow> usize \<Rightarrow> SubRequestParams list \<Rightarrow> SubRequestParams list result" where
  "read_file_record_loop b payload i sub_requests =
     (if i < length payload then
        if i + 2 > length payload then Err ParseError
        else
          bind_res (idx payload i) (\<lambda>len_byte.
          bind_res (idx payload (i + 1)) (\<lambda>ref_type.
          let file_resp_len = unat len_byte in
          if ref_type \<noteq> FILE_RECORD_REF_TYPE then Err ParseError
          else if file_resp_len < 1 then Err ParseError
          else
            let data_len = file_resp_len - 1 in
            if i + 1 + file_resp_len > length payload then Err ParseError
            else
              bind_res (slice payload (i + 2) (i + 2 + data_len)) (\<lambda>raw_data.
              if length raw_data mod 2 \<noteq> 0 then Err ParseError
              else
                bind_res (push_chunks (v_words b) MAX_PDU_DATA_LEN BufferTooSmall [] raw_data) (\<lambda>vals.
                bind_res (push_or (v_params b) MAX_SUB_REQUESTS_PER_PDU BufferTooSmall sub_requests
                  \<lparr>file_number = 0, record_number = 0, record_length = of_nat (length vals),
                   record_data = Some vals\<rparr>) (\<lambda>sub_requests.
                read_file_record_loop b payload (i + (1 + file_resp_len)) sub_requests)))))
      else Ok sub_requests)"
  by pat_completeness auto

termination read_file_record_loop
  by (relation "measure (\<lambda>(b, payload, i, sub_requests). length payload - i)") auto

definition parse_read_file_record_response :: "service_build \<Rightarrow> Pdu \<Rightarrow> SubRequestParams list result" where
  "parse_read_file_record_response b p =
     (if function_code p \<noteq> ReadFileRecord then Err ParseError
      else bind_res (byte_count_payload p) (\<lambda>bcp. read_file_record_loop b (bc_payload bcp) 0 []))"

function write_file_record_loop :: "bytes \<Rightarrow> usize \<Rightarrow> unit result" where
  "write_file_record_loop payload i =
     (if i < length payload then
        if i + SUB_REQ_PARAM_BYTE_LEN > length payload then Err InvalidPduLength
        else
          bind_res (idx payload i) (\<lambda>ref_type.
          if ref_type \<noteq> FILE_RECORD_REF_TYPE then Err ParseError
          else
            bind_res (be16_at payload (i + 5)) (\<lambda>record_len.
            let data_byte_len = unat record_len * 2;
                sub_req_len = SUB_REQ_PARAM_BYTE_LEN + data_byte_len
            in if i + sub_req_len > length payload then Err ParseError
               else write_file_record_loop payload (i + sub_req_len)))
      else Ok ())"
  by pat_completeness auto

termination write_file_record_loop
  by (relation "measure (\<lambda>(payload, i). length payload - i)") auto

declare read_file_record_loop.simps [simp del] write_file_record_loop.simps [simp del]

definition parse_write_file_record_response :: "Pdu \<Rightarrow> unit result" where
  "parse_write_file_record_response p =
     (if function_code p \<noteq> WriteFileRecord then Err ParseError
      else bind_res (byte_count_payload p) (\<lambda>bcp. write_file_record_loop (bc_payload bcp) 0))"

definition handle_read_file_record_rsp ::
    "service_build \<Rightarrow> FunctionCode \<Rightarrow> Pdu \<Rightarrow> SubRequestParams list result" where
  "handle_read_file_record_rsp b fc p =
     (if fc \<noteq> ReadFileRecord then Err InvalidFunctionCode else parse_read_file_record_response b p)"

definition handle_write_file_record_rsp :: "FunctionCode \<Rightarrow> Pdu \<Rightarrow> unit result" where
  "handle_write_file_record_rsp fc p =
     (if fc \<noteq> WriteFileRecord then Err InvalidFunctionCode else parse_write_file_record_response p)"

definition handle_read_file_record_response ::
    "service_build \<Rightarrow> 'h ExpectedResponse \<Rightarrow> ModbusMessage \<Rightarrow> AppCallback list option" where
  "handle_read_file_record_response b ctx m =
     match_result (handle_read_file_record_rsp b (message_function_code m) (pdu m))
       (\<lambda>d. notify ctx m (read_file_record_response d))
       (\<lambda>e. notify ctx m (request_failed_cb e))"

definition handle_write_file_record_response ::
    "'h ExpectedResponse \<Rightarrow> ModbusMessage \<Rightarrow> AppCallback list option" where
  "handle_write_file_record_response ctx m =
     match_result (handle_write_file_record_rsp (message_function_code m) (pdu m))
       (\<lambda>_. notify ctx m write_file_record_response)
       (\<lambda>_. notify ctx m (request_failed_cb ParseError))"

section \<open>Diagnostics\<close>

definition parse_get_comm_event_log_response :: "service_build \<Rightarrow> Pdu \<Rightarrow> (u16 \<times> u16 \<times> u16 \<times> bytes) result" where
  "parse_get_comm_event_log_response b p =
     (if function_code p \<noteq> GetCommEventLog then Err InvalidFunctionCode
      else bind_res (byte_count_payload p) (\<lambda>bcp.
        if bc_byte_count bcp < 6 then Err InvalidByteCount
        else
          let payload = bc_payload bcp in
          bind_res (be16_at payload 0) (\<lambda>status.
          bind_res (be16_at payload 2) (\<lambda>event_count.
          bind_res (be16_at payload 4) (\<lambda>message_count.
          bind_res
            (if length payload > 6 then
               bind_res (slice_from payload 6) (\<lambda>rest.
               extend_or (v_bytes b) MAX_PDU_DATA_LEN BufferTooSmall [] rest)
             else Ok []) (\<lambda>events.
          Ok (status, event_count, message_count, events)))))))"

definition parse_report_server_id_response :: "service_build \<Rightarrow> Pdu \<Rightarrow> bytes result" where
  "parse_report_server_id_response b p =
     (if function_code p \<noteq> ReportServerId then Err InvalidFunctionCode
      else bind_res (byte_count_payload p) (\<lambda>bcp.
        if bc_payload bcp \<noteq> []
        then extend_or (v_bytes b) MAX_PDU_DATA_LEN BufferTooSmall [] (bc_payload bcp)
        else Ok []))"

definition parse_encapsulated_interface_transport_response ::
    "service_build \<Rightarrow> Pdu \<Rightarrow> (EncapsulatedInterfaceType \<times> bytes) result" where
  "parse_encapsulated_interface_transport_response b p =
     (if function_code p \<noteq> EncapsulatedInterfaceTransport then Err InvalidFunctionCode
      else bind_res (mei_type_payload p) (\<lambda>mtp.
        bind_res (encapsulated_interface_type_try_from (mei_type_byte mtp)) (\<lambda>mei_type.
        bind_res
          (if mei_payload mtp \<noteq> []
           then extend_or (v_bytes b) MAX_PDU_DATA_LEN BufferTooSmall [] (mei_payload mtp)
           else Ok []) (\<lambda>response_data.
        Ok (mei_type, response_data)))))"

definition parse_read_exception_status_response :: "Pdu \<Rightarrow> u8 result" where
  "parse_read_exception_status_response p =
     (if function_code p \<noteq> ReadExceptionStatus then Err InvalidFunctionCode else single_byte_payload p)"

definition parse_diagnostics_response :: "service_build \<Rightarrow> Pdu \<Rightarrow> (u16 \<times> u16 list) result" where
  "parse_diagnostics_response b p =
     (if function_code p \<noteq> Diagnostics then Err InvalidFunctionCode
      else bind_res (sub_function_payload p) (\<lambda>sfp.
        bind_res (push_chunks (v_words b) 125 BufferLenMissmatch [] (sf_payload sfp)) (\<lambda>vals.
        Ok (sf_sub_function sfp, vals))))"

definition parse_get_comm_event_counter_response :: "Pdu \<Rightarrow> (u16 \<times> u16) result" where
  "parse_get_comm_event_counter_response p =
     (if function_code p \<noteq> GetCommEventCounter then Err InvalidFunctionCode
      else bind_res (u16_pair_fields p) (\<lambda>pair. Ok (up_first pair, up_second pair)))"

definition handle_read_device_identification_rsp ::
    "'h ExpectedResponse \<Rightarrow> ModbusMessage \<Rightarrow> AppCallback list option" where
  "handle_read_device_identification_rsp ctx m =
     match_result
       (parse_read_device_identification_response (meta_device_id_code (operation_meta ctx)) (pdu m))
       (\<lambda>response. notify ctx m (read_device_identification_response response))
       (\<lambda>e. notify ctx m (request_failed_cb e))"

definition handle_encapsulated_interface_transport_rsp ::
    "service_build \<Rightarrow> 'h ExpectedResponse \<Rightarrow> ModbusMessage \<Rightarrow> AppCallback list option" where
  "handle_encapsulated_interface_transport_rsp b ctx m =
     match_result (parse_encapsulated_interface_transport_response b (pdu m))
       (\<lambda>(mei_type, response).
          if mei_type \<noteq> meta_encap_type (operation_meta ctx)
          then notify ctx m (request_failed_cb InvalidMeiType)
          else notify ctx m (encapsulated_interface_transport_response mei_type response))
       (\<lambda>e. notify ctx m (request_failed_cb e))"

definition handle_read_exception_status_rsp ::
    "'h ExpectedResponse \<Rightarrow> ModbusMessage \<Rightarrow> AppCallback list option" where
  "handle_read_exception_status_rsp ctx m =
     match_result (parse_read_exception_status_response (pdu m))
       (\<lambda>response. notify ctx m (read_exception_status_response response))
       (\<lambda>e. notify ctx m (request_failed_cb e))"

definition handle_diagnostics_rsp ::
    "service_build \<Rightarrow> 'h ExpectedResponse \<Rightarrow> ModbusMessage \<Rightarrow> AppCallback list option" where
  "handle_diagnostics_rsp b ctx m =
     match_result (parse_diagnostics_response b (pdu m))
       (\<lambda>(code, vals).
          match_result (diagnostic_sub_function_try_from code)
            (\<lambda>sub_function. notify ctx m (diagnostics_response sub_function vals))
            (\<lambda>e. notify ctx m (request_failed_cb e)))
       (\<lambda>e. notify ctx m (request_failed_cb e))"

definition handle_get_comm_event_counter_rsp ::
    "'h ExpectedResponse \<Rightarrow> ModbusMessage \<Rightarrow> AppCallback list option" where
  "handle_get_comm_event_counter_rsp ctx m =
     match_result (parse_get_comm_event_counter_response (pdu m))
       (\<lambda>(status, event_count). notify ctx m (get_comm_event_counter_response status event_count))
       (\<lambda>e. notify ctx m (request_failed_cb e))"

definition handle_get_comm_event_log_rsp ::
    "service_build \<Rightarrow> 'h ExpectedResponse \<Rightarrow> ModbusMessage \<Rightarrow> AppCallback list option" where
  "handle_get_comm_event_log_rsp b ctx m =
     match_result (parse_get_comm_event_log_response b (pdu m))
       (\<lambda>(status, event_count, message_count, events).
          notify ctx m (get_comm_event_log_response status event_count message_count events))
       (\<lambda>e. notify ctx m (request_failed_cb e))"

definition handle_report_server_id_rsp ::
    "service_build \<Rightarrow> 'h ExpectedResponse \<Rightarrow> ModbusMessage \<Rightarrow> AppCallback list option" where
  "handle_report_server_id_rsp b ctx m =
     match_result (parse_report_server_id_response b (pdu m))
       (\<lambda>response. notify ctx m (report_server_id_response response))
       (\<lambda>e. notify ctx m (request_failed_cb e))"

end
