(* ===== verification/Client_Services.thy ===== *)
theory Client_Services
  imports Client_Responses
begin

text \<open>
  The request methods of the client (\<open>apis.rs\<close> of each service under mbus-client/src/services). A
  method checks the address, compiles the frame, registers the expected response and hands the
  frame to the transport. It returns the client and the result; an early return leaves the client
  as it was. \<open>Handler\<close> names the functions that the methods store in a request.
\<close>

section \<open>Handlers\<close>

datatype Handler =
    H_read_coils | H_write_single_coil | H_write_multiple_coils
  | H_read_discrete_inputs
  | H_read_holding_registers | H_read_input_registers | H_write_single_register
  | H_write_multiple_registers | H_read_write_multiple_registers | H_mask_write_register
  | H_read_fifo_queue | H_read_file_record | H_write_file_record
  | H_read_device_identification | H_encapsulated_interface_transport | H_read_exception_status
  | H_diagnostics | H_get_comm_event_counter | H_get_comm_event_log | H_report_server_id

text \<open>The call \<open>(expected.handler)(self, &expected, message)\<close>.\<close>

fun run_handler ::
    "service_build \<Rightarrow> Handler \<Rightarrow> Handler ExpectedResponse \<Rightarrow> ModbusMessage \<Rightarrow> AppCallback list option" where
  "run_handler b H_read_coils = handle_read_coils_response b"
| "run_handler b H_write_single_coil = handle_write_single_coil_response"
| "run_handler b H_write_multiple_coils = handle_write_multiple_coils_response"
| "run_handler b H_read_discrete_inputs = handle_read_discrete_inputs_response b"
| "run_handler b H_read_holding_registers = handle_read_holding_registers_response b"
| "run_handler b H_read_input_registers = handle_read_input_registers_response b"
| "run_handler b H_write_single_register = handle_write_single_register_response"
| "run_handler b H_write_multiple_registers = handle_write_multiple_registers_response"
| "run_handler b H_read_write_multiple_registers = handle_read_write_multiple_registers_response b"
| "run_handler b H_mask_write_register = handle_mask_write_register_response"
| "run_handler b H_read_fifo_queue = handle_read_fifo_queue_response"
| "run_handler b H_read_file_record = handle_read_file_record_response b"
| "run_handler b H_write_file_record = handle_write_file_record_response"
| "run_handler b H_read_device_identification = handle_read_device_identification_rsp"
| "run_handler b H_encapsulated_interface_transport = handle_encapsulated_interface_transport_rsp b"
| "run_handler b H_read_exception_status = handle_read_exception_status_rsp"
| "run_handler b H_diagnostics = handle_diagnostics_rsp b"
| "run_handler b H_get_comm_event_counter = handle_get_comm_event_counter_rsp"
| "run_handler b H_get_comm_event_log = handle_get_comm_event_log_rsp b"
| "run_handler b H_report_server_id = handle_report_server_id_rsp b"

text \<open>
  The client with its services, for an application whose state changes by \<open>callback\<close>.
\<close>

definition with_services ::
    "service_build \<Rightarrow> ('a \<Rightarrow> AppCallback \<Rightarrow> 'a) \<Rightarrow> ('t, 'a, Handler) client_env \<Rightarrow> ('t, 'a, Handler) client_env" where
  "with_services b callback e =
     e\<lparr>app_request_failed := (\<lambda>a txn uid err.
         callback a \<lparr>cb_txn = txn, cb_unit = uid, cb_reply = request_failed_cb err\<rparr>),
       app_handler := (\<lambda>h a ctx m. map_option (foldl callback a) (run_handler b h ctx m)),
       byte_vec := v_bytes b\<rparr>"

section \<open>Sending a request\<close>

type_synonym ('t, 'a) client = "('t, 'a, Handler) ClientServices"
type_synonym ('t, 'a) api_result = "('t, 'a) client \<times> unit result"

text \<open>\<open>let x = r?;\<close> in a method that has not changed the client yet.\<close>

definition try_or_return :: "('t, 'a) client \<Rightarrow> 'x result \<Rightarrow> ('x \<Rightarrow> ('t, 'a) api_result) \<Rightarrow> ('t, 'a) api_result" where
  "try_or_return c r f = (case r of Ok x \<Rightarrow> f x | Err e \<Rightarrow> (c, Err e) | Panic \<Rightarrow> (c, Panic))"

text \<open>\<open>self.add_an_expectation(..)?; self.dispatch_request_frame(..)?; Ok(())\<close>\<close>

definition expect_and_send ::
    "('t, 'a, Handler) client_env \<Rightarrow> ('t, 'a) client \<Rightarrow> u16 \<Rightarrow> UnitIdOrSlaveAddr \<Rightarrow> bytes \<Rightarrow> OperationMeta \<Rightarrow>
     Handler \<Rightarrow> ('t, 'a) api_result" where
  "expect_and_send e c txn uid frame meta h =
     try_or_return c (add_an_expectation e c txn uid frame meta h) (\<lambda>c. dispatch_request_frame e c frame)"

text \<open>
  The last part of the methods that allow broadcasts: a broadcast is refused on TCP and is sent
  without an expectation on a serial line.
\<close>

definition write_and_send ::
    "('t, 'a, Handler) client_env \<Rightarrow> ('t, 'a) client \<Rightarrow> u16 \<Rightarrow> UnitIdOrSlaveAddr \<Rightarrow> bytes \<Rightarrow> OperationMeta \<Rightarrow>
     Handler \<Rightarrow> ('t, 'a) api_result" where
  "write_and_send e c txn uid frame meta h =
     (if is_broadcast uid then
        if is_tcp_type (TRANSPORT_TYPE e) then (c, Err BroadcastNotAllowed)
        else dispatch_request_frame e c frame
      else expect_and_send e c txn uid frame meta h)"

section \<open>Coils\<close>

definition read_multiple_coils ::
    "('t, 'a, Handler) client_env \<Rightarrow> ('t, 'a) client \<Rightarrow> u16 \<Rightarrow> UnitIdOrSlaveAddr \<Rightarrow> u16 \<Rightarrow> u16 \<Rightarrow> ('t, 'a) api_result" where
  "read_multiple_coils e c txn uid address quantity =
     (if is_broadcast uid then (c, Err BroadcastNotAllowed)
      else try_or_return c
        (service_read_coils (byte_vec e) txn (uid_get uid) address quantity (TRANSPORT_TYPE e)) (\<lambda>frame.
        expect_and_send e c txn uid frame (OM_Multiple address quantity) H_read_coils))"

definition read_single_coil ::
    "('t, 'a, Handler) client_env \<Rightarrow> ('t, 'a) client \<Rightarrow> u16 \<Rightarrow> UnitIdOrSlaveAddr \<Rightarrow> u16 \<Rightarrow> ('t, 'a) api_result" where
  "read_single_coil e c txn uid address =
     (if is_broadcast uid then (c, Err BroadcastNotAllowed)
      else try_or_return c
        (service_read_coils (byte_vec e) txn (uid_get uid) address 1 (TRANSPORT_TYPE e)) (\<lambda>frame.
        expect_and_send e c txn uid frame (OM_Single address 0) H_read_coils))"

definition write_single_coil ::
    "('t, 'a, Handler) client_env \<Rightarrow> ('t, 'a) client \<Rightarrow> u16 \<Rightarrow> UnitIdOrSlaveAddr \<Rightarrow> u16 \<Rightarrow> bool \<Rightarrow> ('t, 'a) api_result" where
  "write_single_coil e c txn uid address v =
     try_or_return c
       (service_write_single_coil (byte_vec e) txn (uid_get uid) address v (TRANSPORT_TYPE e)) (\<lambda>frame.
       write_and_send e c txn uid frame (OM_Single address (if v then 1 else 0)) H_write_single_coil)"

definition write_multiple_coils ::
    "('t, 'a, Handler) client_env \<Rightarrow> ('t, 'a) client \<Rightarrow> u16 \<Rightarrow> UnitIdOrSlaveAddr \<Rightarrow> u16 \<Rightarrow> Coils \<Rightarrow> ('t, 'a) api_result" where
  "write_multiple_coils e c txn uid address vals =
     try_or_return c
       (service_write_multiple_coils (byte_vec e) txn (uid_get uid) address (coils_quantity vals) vals
         (TRANSPORT_TYPE e)) (\<lambda>frame.
       write_and_send e c txn uid frame (OM_Multiple address (coils_quantity vals)) H_write_multiple_coils)"

section \<open>Discrete inputs\<close>

definition read_discrete_inputs ::
    "('t, 'a, Handler) client_env \<Rightarrow> ('t, 'a) client \<Rightarrow> u16 \<Rightarrow> UnitIdOrSlaveAddr \<Rightarrow> u16 \<Rightarrow> u16 \<Rightarrow> ('t, 'a) api_result" where
  "read_discrete_inputs e c txn uid address quantity =
     (if is_broadcast uid then (c, Err BroadcastNotAllowed)
      else try_or_return c
        (service_read_discrete_inputs (byte_vec e) txn (uid_get uid) address quantity (TRANSPORT_TYPE e))
        (\<lambda>frame. expect_and_send e c txn uid frame (OM_Multiple address quantity) H_read_discrete_inputs))"

definition read_single_discrete_input ::
    "('t, 'a, Handler) client_env \<Rightarrow> ('t, 'a) client \<Rightarrow> u16 \<Rightarrow> UnitIdOrSlaveAddr \<Rightarrow> u16 \<Rightarrow> ('t, 'a) api_result" where
  "read_single_discrete_input e c txn uid address =
     (if is_broadcast uid then (c, Err BroadcastNotAllowed)
      else try_or_return c
        (service_read_discrete_inputs (byte_vec e) txn (uid_get uid) address 1 (TRANSPORT_TYPE e))
        (\<lambda>frame. expect_and_send e c txn uid frame (OM_Single address 0) H_read_discrete_inputs))"

section \<open>Registers\<close>

definition read_holding_registers ::
    "('t, 'a, Handler) client_env \<Rightarrow> ('t, 'a) client \<Rightarrow> u16 \<Rightarrow> UnitIdOrSlaveAddr \<Rightarrow> u16 \<Rightarrow> u16 \<Rightarrow> ('t, 'a) api_result" where
  "read_holding_registers e c txn uid from_address quantity =
     (if is_broadcast uid then (c, Err BroadcastNotAllowed)
      else try_or_return c
        (service_read_holding_registers (byte_vec e) txn (uid_get uid) from_address quantity (TRANSPORT_TYPE e))
        (\<lambda>frame.
          expect_and_send e c txn uid frame (OM_Multiple from_address quantity) H_read_holding_registers))"

definition read_single_holding_register ::
    "('t, 'a, Handler) client_env \<Rightarrow> ('t, 'a) client \<Rightarrow> u16 \<Rightarrow> UnitIdOrSlaveAddr \<Rightarrow> u16 \<Rightarrow> ('t, 'a) api_result" where
  "read_single_holding_register e c txn uid address =
     (if is_broadcast uid then (c, Err BroadcastNotAllowed)
      else try_or_return c
        (service_read_holding_registers (byte_vec e) txn (uid_get uid) address 1 (TRANSPORT_TYPE e))
        (\<lambda>frame. expect_and_send e c txn uid frame (OM_Single address 0) H_read_holding_registers))"

definition read_input_registers ::
    "('t, 'a, Handler) client_env \<Rightarrow> ('t, 'a) client \<Rightarrow> u16 \<Rightarrow> UnitIdOrSlaveAddr \<Rightarrow> u16 \<Rightarrow> u16 \<Rightarrow> ('t, 'a) api_result" where
  "read_input_registers e c txn uid address quantity =
     (if is_broadcast uid then (c, Err BroadcastNotAllowed)
      else try_or_return c
        (service_read_input_registers (byte_vec e) txn (uid_get uid) address quantity (TRANSPORT_TYPE e))
        (\<lambda>frame. expect_and_send e c txn uid frame (OM_Multiple address quantity) H_read_input_registers))"

definition read_single_input_register ::
    "('t, 'a, Handler) client_env \<Rightarrow> ('t, 'a) client \<Rightarrow> u16 \<Rightarrow> UnitIdOrSlaveAddr \<Rightarrow> u16 \<Rightarrow> ('t, 'a) api_result" where
  "read_single_input_register e c txn uid address =
     (if is_broadcast uid then (c, Err BroadcastNotAllowed)
      else try_or_return c
        (service_read_input_registers (byte_vec e) txn (uid_get uid) address 1 (TRANSPORT_TYPE e))
        (\<lambda>frame. expect_and_send e c txn uid frame (OM_Single address 0) H_read_input_registers))"

definition write_single_register ::
    "('t, 'a, Handler) client_env \<Rightarrow> ('t, 'a) client \<Rightarrow> u16 \<Rightarrow> UnitIdOrSlaveAddr \<Rightarrow> u16 \<Rightarrow> u16 \<Rightarrow> ('t, 'a) api_result" where
  "write_single_register e c txn uid address v =
     try_or_return c
       (service_write_single_register (byte_vec e) txn (uid_get uid) address v (TRANSPORT_TYPE e)) (\<lambda>frame.
       write_and_send e c txn uid frame (OM_Single address v) H_write_single_register)"

definition write_multiple_registers ::
    "('t, 'a, Handler) client_env \<Rightarrow> ('t, 'a) client \<Rightarrow> u16 \<Rightarrow> UnitIdOrSlaveAddr \<Rightarrow> u16 \<Rightarrow> u16 \<Rightarrow> u16 list \<Rightarrow>
     ('t, 'a) api_result" where
  "write_multiple_registers e c txn uid address quantity vals =
     try_or_return c
       (service_write_multiple_registers (byte_vec e) txn (uid_get uid) address quantity vals
         (TRANSPORT_TYPE e)) (\<lambda>frame.
       write_and_send e c txn uid frame (OM_Multiple address quantity) H_write_multiple_registers)"

definition read_write_multiple_registers ::
    "('t, 'a, Handler) client_env \<Rightarrow> ('t, 'a) client \<Rightarrow> u16 \<Rightarrow> UnitIdOrSlaveAddr \<Rightarrow> u16 \<Rightarrow> u16 \<Rightarrow> u16 \<Rightarrow> u16 list \<Rightarrow>
     ('t, 'a) api_result" where
  "read_write_multiple_registers e c txn uid read_address read_quantity write_address write_values =
     (if is_broadcast uid then (c, Err BroadcastNotAllowed)
      else try_or_return c
        (service_read_write_multiple_registers (byte_vec e) txn (uid_get uid) read_address read_quantity
          write_address write_values (TRANSPORT_TYPE e)) (\<lambda>frame.
        expect_and_send e c txn uid frame (OM_Multiple read_address read_quantity)
          H_read_write_multiple_registers))"

definition mask_write_register ::
    "('t, 'a, Handler) client_env \<Rightarrow> ('t, 'a) client \<Rightarrow> u16 \<Rightarrow> UnitIdOrSlaveAddr \<Rightarrow> u16 \<Rightarrow> u16 \<Rightarrow> u16 \<Rightarrow>
     ('t, 'a) api_result" where
  "mask_write_register e c txn uid address and_mask or_mask =
     try_or_return c
       (service_mask_write_register (byte_vec e) txn (uid_get uid) address and_mask or_mask
         (TRANSPORT_TYPE e)) (\<lambda>frame.
       write_and_send e c txn uid frame (OM_Masking address and_mask or_mask) H_mask_write_register)"

section \<open>FIFO queues and file records\<close>

definition read_fifo_queue ::
    "('t, 'a, Handler) client_env \<Rightarrow> ('t, 'a) client \<Rightarrow> u16 \<Rightarrow> UnitIdOrSlaveAddr \<Rightarrow> u16 \<Rightarrow> ('t, 'a) api_result" where
  "read_fifo_queue e c txn uid address =
     (if is_broadcast uid then (c, Err BroadcastNotAllowed)
      else try_or_return c
        (service_read_fifo_queue (byte_vec e) txn (uid_get uid) address (TRANSPORT_TYPE e)) (\<lambda>frame.
        expect_and_send e c txn uid frame OM_Other H_read_fifo_queue))"

definition read_file_record ::
    "('t, 'a, Handler) client_env \<Rightarrow> ('t, 'a) client \<Rightarrow> u16 \<Rightarrow> UnitIdOrSlaveAddr \<Rightarrow> SubRequest \<Rightarrow> ('t, 'a) api_result" where
  "read_file_record e c txn uid sub_request =
     (if is_broadcast uid then (c, Err broadcast_not_allowed)
      else try_or_return c
        (service_read_file_record (byte_vec e) txn (uid_get uid) sub_request (TRANSPORT_TYPE e)) (\<lambda>frame.
        expect_and_send e c txn uid frame OM_Other H_read_file_record))"

definition write_file_record ::
    "('t, 'a, Handler) client_env \<Rightarrow> ('t, 'a) client \<Rightarrow> u16 \<Rightarrow> UnitIdOrSlaveAddr \<Rightarrow> SubRequest \<Rightarrow> ('t, 'a) api_result" where
  "write_file_record e c txn uid sub_request =
     (if is_broadcast uid then (c, Err broadcast_not_allowed)
      else try_or_return c
        (service_write_file_record (byte_vec e) txn (uid_get uid) sub_request (TRANSPORT_TYPE e)) (\<lambda>frame.
        expect_and_send e c txn uid frame OM_Other H_write_file_record))"

section \<open>Diagnostics\<close>

definition read_device_identification ::
    "('t, 'a, Handler) client_env \<Rightarrow> ('t, 'a) client \<Rightarrow> u16 \<Rightarrow> UnitIdOrSlaveAddr \<Rightarrow> ReadDeviceIdCode \<Rightarrow> ObjectId \<Rightarrow>
     ('t, 'a) api_result" where
  "read_device_identification e c txn uid code oid =
     (if is_broadcast uid then (c, Err BroadcastNotAllowed)
      else try_or_return c
        (service_read_device_identification (byte_vec e) txn (uid_get uid) code oid (TRANSPORT_TYPE e))
        (\<lambda>frame. expect_and_send e c txn uid frame (OM_Diag code EIT_Err) H_read_device_identification))"

definition encapsulated_interface_transport ::
    "('t, 'a, Handler) client_env \<Rightarrow> ('t, 'a) client \<Rightarrow> u16 \<Rightarrow> UnitIdOrSlaveAddr \<Rightarrow> EncapsulatedInterfaceType \<Rightarrow>
     bytes \<Rightarrow> ('t, 'a) api_result" where
  "encapsulated_interface_transport e c txn uid mei_type payload =
     try_or_return c
       (service_encapsulated_interface_transport (byte_vec e) txn (uid_get uid) mei_type payload
         (TRANSPORT_TYPE e)) (\<lambda>frame.
       write_and_send e c txn uid frame (OM_Diag RDI_Err mei_type) H_encapsulated_interface_transport)"

definition read_exception_status ::
    "('t, 'a, Handler) client_env \<Rightarrow> ('t, 'a) client \<Rightarrow> u16 \<Rightarrow> UnitIdOrSlaveAddr \<Rightarrow> ('t, 'a) api_result" where
  "read_exception_status e c txn uid =
     (if is_broadcast uid then (c, Err BroadcastNotAllowed)
      else try_or_return c
        (service_read_exception_status (byte_vec e) (uid_get uid) (TRANSPORT_TYPE e)) (\<lambda>frame.
        expect_and_send e c txn uid frame OM_Other H_read_exception_status))"

abbreviation (input) ALLOWED_BROADCAST_SUB_FUNCTIONS :: "DiagnosticSubFunction list" where
  "ALLOWED_BROADCAST_SUB_FUNCTIONS \<equiv>
     [RestartCommunicationsOption, ForceListenOnlyMode, ClearCountersAndDiagnosticRegister,
      ClearOverrunCounterAndFlag]"

definition diagnostics ::
    "('t, 'a, Handler) client_env \<Rightarrow> ('t, 'a) client \<Rightarrow> u16 \<Rightarrow> UnitIdOrSlaveAddr \<Rightarrow> DiagnosticSubFunction \<Rightarrow>
     u16 list \<Rightarrow> ('t, 'a) api_result" where
  "diagnostics e c txn uid sub_function words =
     (if is_broadcast uid \<and> sub_function \<notin> set ALLOWED_BROADCAST_SUB_FUNCTIONS
      then (c, Err BroadcastNotAllowed)
      else try_or_return c
        (service_diagnostics (byte_vec e) (uid_get uid) sub_function words (TRANSPORT_TYPE e)) (\<lambda>frame.
        if \<not> is_broadcast uid then expect_and_send e c txn uid frame OM_Other H_diagnostics
        else dispatch_request_frame e c frame))"

definition get_comm_event_counter ::
    "('t, 'a, Handler) client_env \<Rightarrow> ('t, 'a) client \<Rightarrow> u16 \<Rightarrow> UnitIdOrSlaveAddr \<Rightarrow> ('t, 'a) api_result" where
  "get_comm_event_counter e c txn uid =
     (if is_broadcast uid then (c, Err BroadcastNotAllowed)
      else try_or_return c
        (service_get_comm_event_counter (byte_vec e) (uid_get uid) (TRANSPORT_TYPE e)) (\<lambda>frame.
        expect_and_send e c txn uid frame OM_Other H_get_comm_event_counter))"

definition get_comm_event_log ::
    "('t, 'a, Handler) client_env \<Rightarrow> ('t, 'a) client \<Rightarrow> u16 \<Rightarrow> UnitIdOrSlaveAddr \<Rightarrow> ('t, 'a) api_result" where
  "get_comm_event_log e c txn uid =
     (if is_broadcast uid then (c, Err BroadcastNotAllowed)
      else try_or_return c
        (service_get_comm_event_log (byte_vec e) (uid_get uid) (TRANSPORT_TYPE e)) (\<lambda>frame.
        expect_and_send e c txn uid frame OM_Other H_get_comm_event_log))"

definition report_server_id ::
    "('t, 'a, Handler) client_env \<Rightarrow> ('t, 'a) client \<Rightarrow> u16 \<Rightarrow> UnitIdOrSlaveAddr \<Rightarrow> ('t, 'a) api_result" where
  "report_server_id e c txn uid =
     (if is_broadcast uid then (c, Err BroadcastNotAllowed)
      else try_or_return c
        (service_report_server_id (byte_vec e) (uid_get uid) (TRANSPORT_TYPE e)) (\<lambda>frame.
        expect_and_send e c txn uid frame OM_Other H_report_server_id))"

end
