(* ===== verification/Client_Callbacks.thy ===== *)
theory Client_Callbacks
  imports Client_Services
begin

text \<open>
  The callback contract of the application traits (mbus-client/src/app/app_trait.rs), as far as the
  handlers go: for every response with a well-formed PDU, and the parameters the request methods
  register, a handler panics nowhere and calls the application exactly once. Each group of handlers
  has its lemma in \<open>notifies\<close>; \<open>handler_notifies\<close> collects them.
\<close>

section \<open>One call for every response\<close>

definition build_ok :: "service_build \<Rightarrow> bool" where
  "build_ok b \<longleftrightarrow> heapless_ok (v_bytes b) \<and> heapless_ok (v_words b) \<and> heapless_ok (v_params b)"

lemma build_ok_simps [simp]:
  assumes "build_ok b"
  shows "heapless_ok (v_bytes b)" "heapless_ok (v_words b)" "heapless_ok (v_params b)"
  using assms by (simp_all add: build_ok_def)

text \<open>
  The parameters a method may register for a handler: at most 2000 values, and not the last address
  for the reads of a single value that compute the end of the block.
\<close>

definition last_address_read :: "Handler \<Rightarrow> OperationMeta \<Rightarrow> bool" where
  "last_address_read h meta \<longleftrightarrow> h \<in> {H_read_coils, H_read_discrete_inputs, H_read_input_registers} \<and>
     meta_is_single meta \<and> meta_address meta = - 1"

definition meta_ok :: "Handler \<Rightarrow> OperationMeta \<Rightarrow> bool" where
  "meta_ok h meta \<longleftrightarrow> meta_quantity meta \<le> 2000 \<and> \<not> last_address_read h meta"

named_theorems notifies \<open>handlers that call the application once\<close>

definition notified :: "'h ExpectedResponse \<Rightarrow> ModbusMessage \<Rightarrow> AppCallback list option \<Rightarrow> bool" where
  "notified ctx m calls \<longleftrightarrow> (\<exists>reply. calls = notify ctx m reply)"

lemma notified_notify [simp]: "notified ctx m (notify ctx m reply)"
  by (auto simp: notified_def)

lemma notified_match [notifies]:
  "r \<noteq> Panic \<Longrightarrow> (\<And>x. r = Ok x \<Longrightarrow> notified ctx m (ok x)) \<Longrightarrow> (\<And>e. r = Err e \<Longrightarrow> notified ctx m (err e)) \<Longrightarrow>
   notified ctx m (match_result r ok err)"
  by (cases r) (simp_all add: match_result_def)

lemma check_ok_no_panic [simp]: "check_ok e r = Panic \<longleftrightarrow> r = Panic"
  by (cases r) (simp_all add: check_ok_def)

lemma byte_count_payload_wf:
  "pdu_wf p \<Longrightarrow> byte_count_payload p = Ok x \<Longrightarrow>
   length (bc_payload x) = unat (bc_byte_count x) \<and> unat (bc_byte_count x) \<le> 251"
  by (auto simp: byte_count_payload_def pdu_wf_def res_simps Let_def slice_def split: if_splits)

lemma push_registers_ok:
  "heapless_ok hv \<Longrightarrow> push_registers hv vals bs \<noteq> Panic"
  "heapless_ok hv \<Longrightarrow> push_registers hv vals bs = Ok ws \<Longrightarrow> length ws = length vals + length bs div 2"
  by (induction hv vals bs rule: push_registers.induct) (auto simp: res_simps panic_iffs split: if_splits)

lemma push_chunks_no_panic:
  "heapless_ok hv \<Longrightarrow> even (length bs) \<Longrightarrow> push_chunks hv n e vals bs \<noteq> Panic"
  by (induction hv n e vals bs rule: push_chunks.induct) (auto simp: panic_iffs)

lemma single_in_block:
  "a \<noteq> - 1 \<Longrightarrow> out_of_block oc a 1 a = Ok False" for a :: u16
proof -
  assume "a \<noteq> - 1"
  then have "unat a \<noteq> 65535" by (simp add: word_unat_eq_iff unat_minus_one_word)
  then have "unat a + 1 < 65536" using unat_u16_lt [of a] by linarith
  then show ?thesis
    by (auto simp: out_of_block_def add_ovf_def word_le_nat_alt unat_add_no_overflow)
qed


lemma coil_response_ok:
  assumes "build_ok b" "pdu_wf p"
  shows "handle_read_coil_rsp b p q a \<noteq> Panic"
    and "handle_read_coil_rsp b p q a = Ok x \<Longrightarrow>
      length (coils_values x) = 250 \<and> coils_from_address x = a \<and> coils_quantity x = q"
proof -
  have "unat q \<le> 2000 \<Longrightarrow> div_ceil (unat q) 8 \<le> 250" by (simp add: div_ceil_def)
  then show "handle_read_coil_rsp b p q a \<noteq> Panic"
    using assms variable_parsers_no_panic(2) [OF assms(2)]
    by (auto simp: handle_read_coil_rsp_def handle_coil_response_def parse_read_coils_response_def panic_iffs
        coils_new_def coils_with_values_def slice_to_def slice_def copy_prefix_def Let_def res_simps
        word_le_nat_alt word_less_nat_alt dest!: byte_count_payload_wf [OF assms(2)] split: if_splits)
next
  assume "handle_read_coil_rsp b p q a = Ok x"
  then show "length (coils_values x) = 250 \<and> coils_from_address x = a \<and> coils_quantity x = q"
    by (auto simp: handle_read_coil_rsp_def handle_coil_response_def coils_new_def coils_with_values_def
        slice_to_def slice_def copy_prefix_def Let_def res_simps split: if_splits)
qed

lemma coils_value_single:
  "coils_from_address x = a \<Longrightarrow> coils_quantity x = 1 \<Longrightarrow> length (coils_values x) = 250 \<Longrightarrow> a \<noteq> - 1 \<Longrightarrow>
   \<exists>v. coils_value oc x a = Ok v"
  by (simp add: coils_value_def single_in_block)

lemma single_quantity: "meta_is_single meta \<Longrightarrow> meta_quantity meta = 1"
  by (cases meta) simp_all

lemma read_coils_notified [notifies]:
  assumes "build_ok b" "pdu_wf (pdu m)" "meta_ok H_read_coils (operation_meta ctx)"
  shows "notified ctx m (handle_read_coils_response b ctx m)"
  unfolding handle_read_coils_response_def Let_def
proof (rule notified_match)
  show "handle_read_coil_rsp b (pdu m) (meta_quantity (operation_meta ctx)) (meta_address (operation_meta ctx)) \<noteq> Panic"
    by (rule coil_response_ok(1) [OF assms(1,2)])
next
  fix x
  assume "handle_read_coil_rsp b (pdu m) (meta_quantity (operation_meta ctx))
    (meta_address (operation_meta ctx)) = Ok x"
  then have x: "length (coils_values x) = 250" "coils_from_address x = meta_address (operation_meta ctx)"
    "coils_quantity x = meta_quantity (operation_meta ctx)"
    using coil_response_ok(2) [OF assms(1,2)] by blast+
  show "notified ctx m (if meta_is_single (operation_meta ctx)
    then match_result (coils_value (overflow_checks b) x (meta_address (operation_meta ctx)))
      (\<lambda>v. notify ctx m (read_single_coil_response (meta_address (operation_meta ctx)) v)) (\<lambda>_. Some [])
    else notify ctx m (read_coils_response x))"
  proof (cases "meta_is_single (operation_meta ctx)")
    case True
    then obtain v where "coils_value (overflow_checks b) x (meta_address (operation_meta ctx)) = Ok v"
      using coils_value_single [OF x(2) _ x(1)] x(3) assms(3)
      by (auto simp: meta_ok_def last_address_read_def single_quantity)
    then show ?thesis using True by (simp add: match_result_def)
  qed simp
qed simp

lemma inputs_response_ok:
  assumes "pdu_wf p" "q \<le> 2000"
  shows "handle_read_discrete_inputs_rsp fc p a q \<noteq> Panic"
    and "handle_read_discrete_inputs_rsp fc p a q = Ok x \<Longrightarrow>
      length (inputs_values x) = 250 \<and> inputs_from_address x = a \<and> inputs_quantity x = q"
proof -
  have "div_ceil (unat q) 8 \<le> 250" using assms(2) by (simp add: div_ceil_def word_le_nat_alt)
  then show "handle_read_discrete_inputs_rsp fc p a q \<noteq> Panic"
    using assms(1) variable_parsers_no_panic(2) [OF assms(1)]
    by (auto simp: handle_read_discrete_inputs_rsp_def parse_read_discrete_inputs_response_def panic_iffs
        inputs_new_def inputs_with_values_def slice_to_def slice_def copy_prefix_def Let_def res_simps
        dest!: byte_count_payload_wf [OF assms(1)] split: if_splits)
next
  assume "handle_read_discrete_inputs_rsp fc p a q = Ok x"
  then show "length (inputs_values x) = 250 \<and> inputs_from_address x = a \<and> inputs_quantity x = q"
    by (auto simp: handle_read_discrete_inputs_rsp_def parse_read_discrete_inputs_response_def inputs_new_def
        inputs_with_values_def slice_to_def slice_def copy_prefix_def Let_def res_simps split: if_splits)
qed

lemma inputs_value_single:
  "inputs_from_address x = a \<Longrightarrow> inputs_quantity x = 1 \<Longrightarrow> length (inputs_values x) = 250 \<Longrightarrow> a \<noteq> - 1 \<Longrightarrow>
   inputs_value oc x a \<noteq> Panic"
  by (simp add: inputs_value_def single_in_block)

lemma read_discrete_inputs_notified [notifies]:
  assumes "pdu_wf (pdu m)" "meta_ok H_read_discrete_inputs (operation_meta ctx)"
  shows "notified ctx m (handle_read_discrete_inputs_response b ctx m)"
proof -
  let ?a = "meta_address (operation_meta ctx)" and ?q = "meta_quantity (operation_meta ctx)"
  note ok = inputs_response_ok [OF assms(1), of ?q]
  have q: "?q \<le> 2000" using assms(2) by (simp add: meta_ok_def)
  have "inputs_value (overflow_checks b) x ?a \<noteq> Panic"
    if "handle_read_discrete_inputs_rsp (function_code (pdu m)) (pdu m) ?a ?q = Ok x"
      "meta_is_single (operation_meta ctx)" for x
    using ok(2) [OF q that(1)] single_quantity [OF that(2)] assms(2) that(2)
    by (intro inputs_value_single) (auto simp: meta_ok_def last_address_read_def)
  then show ?thesis
    unfolding handle_read_discrete_inputs_response_def Let_def
    using ok(1) [OF q] by (auto intro!: notified_match)
qed

lemma mul_two_no_panic: "q \<le> 2000 \<Longrightarrow> mul_ovf oc q 2 = Ok (q * 2)" for q :: u16
  by (simp add: mul_ovf_def word_le_nat_alt)

lemma registers_response_ok:
  assumes "build_ok b" "pdu_wf p" "q \<le> 2000"
  shows "parse_read_registers_response b p fc q \<noteq> Panic"
    and "parse_read_registers_response b p fc q = Ok ws \<Longrightarrow> length ws = unat q"
proof -
  show "parse_read_registers_response b p fc q \<noteq> Panic"
    using assms variable_parsers_no_panic(2) [OF assms(2)] push_registers_ok(1)
    by (auto simp: parse_read_registers_response_def panic_iffs mul_two_no_panic)
next
  assume "parse_read_registers_response b p fc q = Ok ws"
  then show "length ws = unat q"
    using assms
    by (auto simp: parse_read_registers_response_def res_simps mul_two_no_panic unat_word_ariths word_le_nat_alt
        dest!: byte_count_payload_wf [OF assms(2)] push_registers_ok(2) [of "v_words b", rotated] split: if_splits)
qed

text \<open>The block a register response is copied into.\<close>

definition filled_block :: "u16 \<Rightarrow> u16 \<Rightarrow> u16 list \<Rightarrow> Registers" where
  "filled_block a q ws =
     \<lparr>reg_from_address = a, reg_quantity = q, reg_values = ws @ replicate (125 - length ws) 0\<rparr>"

lemma registers_filled:
  assumes "length ws = unat q"
  shows "bind_res (registers_new 125 a q) (\<lambda>r. registers_with_values r ws (of_nat (length ws))) =
    (if unat q \<le> 125 then Ok (filled_block a q ws) else Err InvalidQuantity)"
  using assms
  by (simp add: registers_new_def registers_with_values_def copy_prefix_def word_less_nat_alt
      not_less filled_block_def)

lemma read_block:
  assumes "build_ok b" "pdu_wf p" "q \<le> 2000"
  shows "bind_res (parse_read_registers_response b p fc q) (\<lambda>ws.
      bind_res (registers_new 125 a q) (\<lambda>r. registers_with_values r ws (of_nat (length ws)))) \<noteq> Panic"
    and "bind_res (parse_read_registers_response b p fc q) (\<lambda>ws.
      bind_res (registers_new 125 a q) (\<lambda>r. registers_with_values r ws (of_nat (length ws)))) = Ok x \<Longrightarrow>
      length (reg_values x) = 125 \<and> reg_from_address x = a \<and> reg_quantity x = q"
  using registers_response_ok [OF assms, of fc] registers_filled [of _ q a]
  by (cases "parse_read_registers_response b p fc q"; force simp: filled_block_def split: if_splits)+

lemmas register_parsers = handle_read_holding_register_rsp_def handle_read_input_register_rsp_def
  handle_read_write_multiple_registers_rsp_def parse_read_holding_registers_response_def
  parse_read_input_registers_response_def parse_read_write_multiple_registers_response_def

lemma register_responses_ok:
  assumes "build_ok b" "pdu_wf p" "q \<le> 2000"
  shows "handle_read_holding_register_rsp b p q a \<noteq> Panic" "handle_read_input_register_rsp b p q a \<noteq> Panic"
    "handle_read_write_multiple_registers_rsp b p q a \<noteq> Panic"
    "handle_read_input_register_rsp b p q a = Ok x \<Longrightarrow>
      length (reg_values x) = 125 \<and> reg_from_address x = a \<and> reg_quantity x = q"
  using read_block [OF assms] by (simp_all add: register_parsers split: if_splits)

lemma registers_value_single:
  "reg_from_address x = a \<Longrightarrow> reg_quantity x = 1 \<Longrightarrow> length (reg_values x) = 125 \<Longrightarrow> a \<noteq> - 1 \<Longrightarrow>
   registers_value oc x a \<noteq> Panic"
  by (simp add: registers_value_def single_in_block)

lemma register_reads_notified [notifies]:
  assumes "build_ok b" "pdu_wf (pdu m)" "meta_ok h (operation_meta ctx)"
  shows "notified ctx m (handle_read_holding_registers_response b ctx m)"
    and "h = H_read_input_registers \<Longrightarrow> notified ctx m (handle_read_input_registers_response b ctx m)"
    and "notified ctx m (handle_read_write_multiple_registers_response b ctx m)"
proof -
  let ?a = "meta_address (operation_meta ctx)" and ?q = "meta_quantity (operation_meta ctx)"
  have q: "?q \<le> 2000" using assms(3) by (simp add: meta_ok_def)
  note ok = register_responses_ok [OF assms(1,2) q]
  show "notified ctx m (handle_read_holding_registers_response b ctx m)"
    "notified ctx m (handle_read_write_multiple_registers_response b ctx m)"
    unfolding handle_read_holding_registers_response_def handle_read_write_multiple_registers_response_def Let_def
    using ok(1,3) by (auto intro!: notified_match)
  assume h: "h = H_read_input_registers"
  have "registers_value (overflow_checks b) x ?a \<noteq> Panic"
    if "handle_read_input_register_rsp b (pdu m) ?q ?a = Ok x" "meta_is_single (operation_meta ctx)" for x
    using ok(4) [OF that(1)] single_quantity [OF that(2)] assms(3) that(2) h
    by (intro registers_value_single) (auto simp: meta_ok_def last_address_read_def)
  then show "notified ctx m (handle_read_input_registers_response b ctx m)"
    unfolding handle_read_input_registers_response_def Let_def
    using ok(2) by (auto intro!: notified_match)
qed

lemma write_responses_notified [notifies]:
  assumes "pdu_wf (pdu m)"
  shows "notified ctx m (handle_write_single_coil_response ctx m)"
    "notified ctx m (handle_write_multiple_coils_response ctx m)"
    "notified ctx m (handle_write_single_register_response ctx m)"
    "notified ctx m (handle_write_multiple_registers_response ctx m)"
    "notified ctx m (handle_mask_write_register_response ctx m)"
  unfolding handle_write_single_coil_response_def handle_write_multiple_coils_response_def
    handle_write_single_register_response_def handle_write_multiple_registers_response_def
    handle_mask_write_register_response_def Let_def
  using fixed_parsers_no_panic [OF assms]
  by (auto intro!: notified_match simp: handle_write_single_coil_rsp_def handle_write_multiple_coils_rsp_def
      handle_write_single_register_rsp_def handle_write_multiple_registers_rsp_def
      handle_mask_write_register_rsp_def parse_write_single_coil_response_def
      parse_write_multiple_coils_response_def parse_write_single_register_response_def
      parse_write_multiple_registers_response_def parse_mask_write_register_response_def panic_iffs Let_def
      split: if_splits)

lemma store_fifo_no_panic: "length vals = 31 \<Longrightarrow> store_fifo vals i cs \<noteq> Panic"
  by (induction vals i cs rule: store_fifo.induct) (auto simp: store_def res_simps split: if_splits)

lemma fifo_notified [notifies]:
  assumes "pdu_wf (pdu m)"
  shows "notified ctx m (handle_read_fifo_queue_response ctx m)"
  unfolding handle_read_fifo_queue_response_def
  using variable_parsers_no_panic(6) [OF assms] store_fifo_no_panic
  by (auto intro!: notified_match simp: handle_read_fifo_queue_rsp_def parse_read_fifo_queue_response_def
      panic_iffs Let_def split: prod.splits if_splits)

lemma read_file_record_loop_no_panic:
  "build_ok b \<Longrightarrow> read_file_record_loop b payload i subs \<noteq> Panic"
proof (induction b payload i subs rule: read_file_record_loop.induct)
  case (1 b payload i subs)
  then show ?case
    by (subst read_file_record_loop.simps) (auto simp: panic_iffs Let_def slice_def push_chunks_no_panic)
qed

lemma write_file_record_loop_no_panic: "write_file_record_loop payload i \<noteq> Panic"
  by (induction payload i rule: write_file_record_loop.induct)
    (subst write_file_record_loop.simps, auto simp: panic_iffs Let_def)

lemma file_records_notified [notifies]:
  assumes "build_ok b" "pdu_wf (pdu m)"
  shows "notified ctx m (handle_read_file_record_response b ctx m)"
    "notified ctx m (handle_write_file_record_response ctx m)"
  unfolding handle_read_file_record_response_def handle_write_file_record_response_def
  using variable_parsers_no_panic(2) [OF assms(2)] read_file_record_loop_no_panic
    write_file_record_loop_no_panic assms(1)
  by (auto intro!: notified_match simp: handle_read_file_record_rsp_def handle_write_file_record_rsp_def
      parse_read_file_record_response_def parse_write_file_record_response_def panic_iffs)

lemma extend_or_no_panic: "heapless_ok hv \<Longrightarrow> extend_or hv n e v xs \<noteq> Panic"
  by simp

lemma sub_function_payload_even: "sub_function_payload p = Ok x \<Longrightarrow> even (length (sf_payload x))"
  by (auto simp: sub_function_payload_def res_simps slice_def min_absorb2 diff_le_mono split: if_splits)

lemma device_id_parser_no_panic:
  "pdu_wf p \<Longrightarrow> parse_read_device_identification_response code p \<noteq> Panic"
  using read_device_id_fields_no_panic
  by (auto simp: parse_read_device_identification_response_def panic_iffs read_device_id_code_try_from_def
      conformity_level_try_from_def split: if_splits)

lemma diagnostic_parsers_no_panic:
  assumes "build_ok b" "pdu_wf p"
  shows "parse_get_comm_event_log_response b p \<noteq> Panic" "parse_report_server_id_response b p \<noteq> Panic"
    "parse_encapsulated_interface_transport_response b p \<noteq> Panic" "parse_diagnostics_response b p \<noteq> Panic"
    "parse_read_exception_status_response p \<noteq> Panic" "parse_get_comm_event_counter_response p \<noteq> Panic"
proof -
  note ps = variable_parsers_no_panic [OF assms(2)] fixed_parsers_no_panic [OF assms(2)]
  show "parse_get_comm_event_log_response b p \<noteq> Panic" "parse_report_server_id_response b p \<noteq> Panic"
    using ps(2) assms(1)
    by (auto simp: parse_get_comm_event_log_response_def parse_report_server_id_response_def panic_iffs Let_def
        slice_from_def word_less_nat_alt dest!: byte_count_payload_wf [OF assms(2)] split: if_splits)
  show "parse_encapsulated_interface_transport_response b p \<noteq> Panic"
    using ps(5) assms(1)
    by (auto simp: parse_encapsulated_interface_transport_response_def panic_iffs
        encapsulated_interface_type_try_from_def split: if_splits)
  show "parse_diagnostics_response b p \<noteq> Panic"
    using ps(4) assms(1)
    by (auto simp: parse_diagnostics_response_def panic_iffs push_chunks_no_panic
        dest!: sub_function_payload_even split: if_splits)
  show "parse_read_exception_status_response p \<noteq> Panic" "parse_get_comm_event_counter_response p \<noteq> Panic"
    using ps(11,12)
    by (auto simp: parse_read_exception_status_response_def parse_get_comm_event_counter_response_def panic_iffs)
qed

lemma diagnostics_notified [notifies]:
  assumes "build_ok b" "pdu_wf (pdu m)"
  shows "notified ctx m (handle_read_device_identification_rsp ctx m)"
    "notified ctx m (handle_encapsulated_interface_transport_rsp b ctx m)"
    "notified ctx m (handle_read_exception_status_rsp ctx m)"
    "notified ctx m (handle_diagnostics_rsp b ctx m)"
    "notified ctx m (handle_get_comm_event_counter_rsp ctx m)"
    "notified ctx m (handle_get_comm_event_log_rsp b ctx m)"
    "notified ctx m (handle_report_server_id_rsp b ctx m)"
  unfolding handle_read_device_identification_rsp_def handle_encapsulated_interface_transport_rsp_def
    handle_read_exception_status_rsp_def handle_diagnostics_rsp_def handle_get_comm_event_counter_rsp_def
    handle_get_comm_event_log_rsp_def handle_report_server_id_rsp_def
  using diagnostic_parsers_no_panic [OF assms] device_id_parser_no_panic [OF assms(2)]
  by (auto intro!: notified_match simp: dsf.parse_no_panic split: prod.splits)

lemma handler_notifies:
  assumes "build_ok b" "pdu_wf (pdu m)" "meta_ok h (operation_meta ctx)"
  shows "notified ctx m (run_handler b h ctx m)"
  using assms by (cases h) (simp_all add: notifies)

end
