(* ===== verification/Client_Methods.thy ===== *)
theory Client_Methods
  imports Client_Callbacks Client
begin

text \<open>
  The request methods against their specification. \<open>ClientRequest\<close> is a call of a method with its
  parameters, \<open>perform\<close> makes it, and \<open>submit_spec\<close> is what all of them promise. \<open>service_run\<close> is
  the life of a client that is used through its methods.
\<close>

section \<open>The methods and their specification\<close>

text \<open>A call of a request method with its parameters.\<close>

datatype ClientRequest =
    Rq_read_multiple_coils u16 u16
  | Rq_read_single_coil u16
  | Rq_write_single_coil u16 bool
  | Rq_write_multiple_coils u16 Coils
  | Rq_read_discrete_inputs u16 u16
  | Rq_read_single_discrete_input u16
  | Rq_read_holding_registers u16 u16
  | Rq_read_single_holding_register u16
  | Rq_read_input_registers u16 u16
  | Rq_read_single_input_register u16
  | Rq_write_single_register u16 u16
  | Rq_write_multiple_registers u16 u16 "u16 list"
  | Rq_read_write_multiple_registers u16 u16 u16 "u16 list"
  | Rq_mask_write_register u16 u16 u16
  | Rq_read_fifo_queue u16
  | Rq_read_file_record SubRequest
  | Rq_write_file_record SubRequest
  | Rq_read_device_identification ReadDeviceIdCode ObjectId
  | Rq_encapsulated_interface_transport EncapsulatedInterfaceType bytes
  | Rq_read_exception_status
  | Rq_diagnostics DiagnosticSubFunction "u16 list"
  | Rq_get_comm_event_counter
  | Rq_get_comm_event_log
  | Rq_report_server_id

fun perform ::
    "('t, 'a, Handler) client_env \<Rightarrow> ('t, 'a) client \<Rightarrow> u16 \<Rightarrow> UnitIdOrSlaveAddr \<Rightarrow> ClientRequest \<Rightarrow>
     ('t, 'a) api_result" where
  "perform e c txn uid (Rq_read_multiple_coils a q) = read_multiple_coils e c txn uid a q"
| "perform e c txn uid (Rq_read_single_coil a) = read_single_coil e c txn uid a"
| "perform e c txn uid (Rq_write_single_coil a v) = write_single_coil e c txn uid a v"
| "perform e c txn uid (Rq_write_multiple_coils a vs) = write_multiple_coils e c txn uid a vs"
| "perform e c txn uid (Rq_read_discrete_inputs a q) = read_discrete_inputs e c txn uid a q"
| "perform e c txn uid (Rq_read_single_discrete_input a) = read_single_discrete_input e c txn uid a"
| "perform e c txn uid (Rq_read_holding_registers a q) = read_holding_registers e c txn uid a q"
| "perform e c txn uid (Rq_read_single_holding_register a) = read_single_holding_register e c txn uid a"
| "perform e c txn uid (Rq_read_input_registers a q) = read_input_registers e c txn uid a q"
| "perform e c txn uid (Rq_read_single_input_register a) = read_single_input_register e c txn uid a"
| "perform e c txn uid (Rq_write_single_register a v) = write_single_register e c txn uid a v"
| "perform e c txn uid (Rq_write_multiple_registers a q vs) = write_multiple_registers e c txn uid a q vs"
| "perform e c txn uid (Rq_read_write_multiple_registers ra rq wa vs) =
     read_write_multiple_registers e c txn uid ra rq wa vs"
| "perform e c txn uid (Rq_mask_write_register a am om) = mask_write_register e c txn uid a am om"
| "perform e c txn uid (Rq_read_fifo_queue a) = read_fifo_queue e c txn uid a"
| "perform e c txn uid (Rq_read_file_record sr) = read_file_record e c txn uid sr"
| "perform e c txn uid (Rq_write_file_record sr) = write_file_record e c txn uid sr"
| "perform e c txn uid (Rq_read_device_identification code oid) =
     read_device_identification e c txn uid code oid"
| "perform e c txn uid (Rq_encapsulated_interface_transport t pl) =
     encapsulated_interface_transport e c txn uid t pl"
| "perform e c txn uid Rq_read_exception_status = read_exception_status e c txn uid"
| "perform e c txn uid (Rq_diagnostics sf ws) = diagnostics e c txn uid sf ws"
| "perform e c txn uid Rq_get_comm_event_counter = get_comm_event_counter e c txn uid"
| "perform e c txn uid Rq_get_comm_event_log = get_comm_event_log e c txn uid"
| "perform e c txn uid Rq_report_server_id = report_server_id e c txn uid"

text \<open>
  What the methods promise. A request has a PDU, which may be refused, the context that is kept for
  its response, and the handler of the response. Some requests may be broadcast, some exist on a
  serial line only.
\<close>

fun request_pdu :: "u8 heapless \<Rightarrow> ClientRequest \<Rightarrow> Pdu result" where
  "request_pdu hv (Rq_read_multiple_coils a q) = read_coils_request hv a q"
| "request_pdu hv (Rq_read_single_coil a) = read_coils_request hv a 1"
| "request_pdu hv (Rq_write_single_coil a v) = write_single_coil_request hv a v"
| "request_pdu hv (Rq_write_multiple_coils a vs) = write_multiple_coils_request hv a (coils_quantity vs) vs"
| "request_pdu hv (Rq_read_discrete_inputs a q) = read_discrete_inputs_request hv a q"
| "request_pdu hv (Rq_read_single_discrete_input a) = read_discrete_inputs_request hv a 1"
| "request_pdu hv (Rq_read_holding_registers a q) = read_holding_registers_request hv a q"
| "request_pdu hv (Rq_read_single_holding_register a) = read_holding_registers_request hv a 1"
| "request_pdu hv (Rq_read_input_registers a q) = read_input_registers_request hv a q"
| "request_pdu hv (Rq_read_single_input_register a) = read_input_registers_request hv a 1"
| "request_pdu hv (Rq_write_single_register a v) = write_single_register_request hv a v"
| "request_pdu hv (Rq_write_multiple_registers a q vs) = write_multiple_registers_request hv a q vs"
| "request_pdu hv (Rq_read_write_multiple_registers ra rq wa vs) =
     read_write_multiple_registers_request hv ra rq wa vs"
| "request_pdu hv (Rq_mask_write_register a am om) = mask_write_register_request hv a am om"
| "request_pdu hv (Rq_read_fifo_queue a) = read_fifo_queue_request hv a"
| "request_pdu hv (Rq_read_file_record sr) = read_file_record_request hv sr"
| "request_pdu hv (Rq_write_file_record sr) = write_file_record_request hv sr"
| "request_pdu hv (Rq_read_device_identification code oid) = read_device_identification_request hv code oid"
| "request_pdu hv (Rq_encapsulated_interface_transport t pl) =
     encapsulated_interface_transport_request hv t pl"
| "request_pdu hv Rq_read_exception_status = read_exception_status_request"
| "request_pdu hv (Rq_diagnostics sf ws) = diagnostics_request hv sf ws"
| "request_pdu hv Rq_get_comm_event_counter = get_comm_event_counter_request"
| "request_pdu hv Rq_get_comm_event_log = get_comm_event_log_request"
| "request_pdu hv Rq_report_server_id = report_server_id_request"

fun request_context :: "ClientRequest \<Rightarrow> OperationMeta \<times> Handler" where
  "request_context (Rq_read_multiple_coils a q) = (OM_Multiple a q, H_read_coils)"
| "request_context (Rq_read_single_coil a) = (OM_Single a 0, H_read_coils)"
| "request_context (Rq_write_single_coil a v) = (OM_Single a (if v then 1 else 0), H_write_single_coil)"
| "request_context (Rq_write_multiple_coils a vs) = (OM_Multiple a (coils_quantity vs), H_write_multiple_coils)"
| "request_context (Rq_read_discrete_inputs a q) = (OM_Multiple a q, H_read_discrete_inputs)"
| "request_context (Rq_read_single_discrete_input a) = (OM_Single a 0, H_read_discrete_inputs)"
| "request_context (Rq_read_holding_registers a q) = (OM_Multiple a q, H_read_holding_registers)"
| "request_context (Rq_read_single_holding_register a) = (OM_Single a 0, H_read_holding_registers)"
| "request_context (Rq_read_input_registers a q) = (OM_Multiple a q, H_read_input_registers)"
| "request_context (Rq_read_single_input_register a) = (OM_Single a 0, H_read_input_registers)"
| "request_context (Rq_write_single_register a v) = (OM_Single a v, H_write_single_register)"
| "request_context (Rq_write_multiple_registers a q vs) = (OM_Multiple a q, H_write_multiple_registers)"
| "request_context (Rq_read_write_multiple_registers ra rq wa vs) =
     (OM_Multiple ra rq, H_read_write_multiple_registers)"
| "request_context (Rq_mask_write_register a am om) = (OM_Masking a am om, H_mask_write_register)"
| "request_context (Rq_read_fifo_queue a) = (OM_Other, H_read_fifo_queue)"
| "request_context (Rq_read_file_record sr) = (OM_Other, H_read_file_record)"
| "request_context (Rq_write_file_record sr) = (OM_Other, H_write_file_record)"
| "request_context (Rq_read_device_identification code oid) = (OM_Diag code EIT_Err, H_read_device_identification)"
| "request_context (Rq_encapsulated_interface_transport t pl) =
     (OM_Diag RDI_Err t, H_encapsulated_interface_transport)"
| "request_context Rq_read_exception_status = (OM_Other, H_read_exception_status)"
| "request_context (Rq_diagnostics sf ws) = (OM_Other, H_diagnostics)"
| "request_context Rq_get_comm_event_counter = (OM_Other, H_get_comm_event_counter)"
| "request_context Rq_get_comm_event_log = (OM_Other, H_get_comm_event_log)"
| "request_context Rq_report_server_id = (OM_Other, H_report_server_id)"

fun serial_only :: "ClientRequest \<Rightarrow> bool" where
  "serial_only Rq_read_exception_status = True"
| "serial_only (Rq_diagnostics sf ws) = True"
| "serial_only Rq_get_comm_event_counter = True"
| "serial_only Rq_get_comm_event_log = True"
| "serial_only Rq_report_server_id = True"
| "serial_only _ = False"

fun may_broadcast :: "ClientRequest \<Rightarrow> bool" where
  "may_broadcast (Rq_write_single_coil a v) = True"
| "may_broadcast (Rq_write_multiple_coils a vs) = True"
| "may_broadcast (Rq_write_single_register a v) = True"
| "may_broadcast (Rq_write_multiple_registers a q vs) = True"
| "may_broadcast (Rq_mask_write_register a am om) = True"
| "may_broadcast (Rq_encapsulated_interface_transport t pl) = True"
| "may_broadcast (Rq_diagnostics sf ws) = (sf \<in> set ALLOWED_BROADCAST_SUB_FUNCTIONS)"
| "may_broadcast _ = False"

text \<open>
  A request is refused, and nothing changes, when it is a broadcast that is not allowed, does not
  exist on the transport, or has no PDU; when the queue is full it is refused, too. Otherwise its
  frame goes to the transport, and unless it is a broadcast the request is in the queue, whether or
  not the transport accepts the frame.
\<close>

definition queued_request ::
    "('t, 'a, Handler) client_env \<Rightarrow> ('t, 'a) client \<Rightarrow> u16 \<Rightarrow> UnitIdOrSlaveAddr \<Rightarrow> ClientRequest \<Rightarrow> bytes \<Rightarrow>
     Handler ExpectedResponse" where
  "queued_request e c txn uid rq frame =
     \<lparr>er_txn_id = txn, er_unit = uid_get uid, original_adu = frame,
      sent_timestamp = app_current_millis e (app c), retries_left = retry_attempts (config c),
      retry_attempt_index = 0, next_retry_timestamp = None, er_handler = snd (request_context rq),
      operation_meta = fst (request_context rq)\<rparr>"

definition send_spec ::
    "('t, 'a, Handler) client_env \<Rightarrow> ('t, 'a) client \<Rightarrow> u16 \<Rightarrow> UnitIdOrSlaveAddr \<Rightarrow> ClientRequest \<Rightarrow> bytes \<Rightarrow>
     ('t, 'a) api_result" where
  "send_spec e c txn uid rq frame =
     (if is_broadcast uid then
        if is_tcp_type (TRANSPORT_TYPE e) then (c, Err BroadcastNotAllowed) else dispatch_request_frame e c frame
      else if length (expected_responses c) < queue_capacity e then
        dispatch_request_frame e
          (c\<lparr>expected_responses := expected_responses c @ [queued_request e c txn uid rq frame]\<rparr>) frame
      else (c, Err TooManyRequests))"

definition submit_spec ::
    "('t, 'a, Handler) client_env \<Rightarrow> ('t, 'a) client \<Rightarrow> u16 \<Rightarrow> UnitIdOrSlaveAddr \<Rightarrow> ClientRequest \<Rightarrow>
     ('t, 'a) api_result" where
  "submit_spec e c txn uid rq =
     (if is_broadcast uid \<and> \<not> may_broadcast rq then (c, Err BroadcastNotAllowed)
      else if serial_only rq \<and> is_tcp_type (TRANSPORT_TYPE e) then (c, Err InvalidTransport)
      else case request_pdu (byte_vec e) rq of
             Panic \<Rightarrow> (c, Panic)
           | Err err \<Rightarrow> (c, Err err)
           | Ok p \<Rightarrow> send_spec e c txn uid rq (adu_frame (TRANSPORT_TYPE e) txn (uid_get uid) (pdu_body p)))"

lemma put_params_length:
  "heapless_ok hv \<Longrightarrow> put_words hv bs ws = Ok d \<Longrightarrow> length bs \<le> 252 \<Longrightarrow> length d \<le> 252"
  "heapless_ok hv \<Longrightarrow> put_params hv bs ps = Ok d \<Longrightarrow> length bs \<le> 252 \<Longrightarrow> length d \<le> 252"
proof -
  show words: "heapless_ok hv \<Longrightarrow> put_words hv bs ws = Ok d \<Longrightarrow> length bs \<le> 252 \<Longrightarrow> length d \<le> 252" for bs ws d
    by (induction hv bs ws arbitrary: d rule: put_words.induct) (auto simp: res_simps split: if_splits)
  show "heapless_ok hv \<Longrightarrow> put_params hv bs ps = Ok d \<Longrightarrow> length bs \<le> 252 \<Longrightarrow> length d \<le> 252"
  proof (induction ps arbitrary: bs)
    case (Cons p ps)
    then have "\<exists>x. put_params hv x ps = Ok d \<and> length x \<le> 252"
      by (auto simp: res_simps dest: words split: if_splits option.splits)
    then show ?case using Cons.IH Cons.prems(1) by blast
  qed simp
qed

lemma file_request_wf:
  assumes "heapless_ok hv"
  shows "read_file_record_request hv sr = Ok p \<Longrightarrow> pdu_wf p" "write_file_record_request hv sr = Ok p \<Longrightarrow> pdu_wf p"
proof -
  have "length d \<le> 252" if "to_sub_req_pdu_bytes hv sr = Ok d" for d
    using that assms by (auto simp: to_sub_req_pdu_bytes_def res_simps dest: put_params_length(2) split: if_splits)
  then show "read_file_record_request hv sr = Ok p \<Longrightarrow> pdu_wf p" "write_file_record_request hv sr = Ok p \<Longrightarrow> pdu_wf p"
    by (auto simp: read_file_record_request_def write_file_record_request_def res_simps intro!: pdu_wf_new)
qed

lemmas request_defs = read_coils_request_def write_single_coil_request_def write_multiple_coils_request_def
  read_discrete_inputs_request_def read_holding_registers_request_def read_input_registers_request_def
  write_single_register_request_def write_multiple_registers_request_def
  read_write_multiple_registers_request_def mask_write_register_request_def read_fifo_queue_request_def
  read_device_identification_request_def encapsulated_interface_transport_request_def
  read_exception_status_request_def diagnostics_request_def get_comm_event_counter_request_def
  get_comm_event_log_request_def report_server_id_request_def

lemma request_pdu_wf:
  assumes "heapless_ok hv" "request_pdu hv rq = Ok p"
  shows "pdu_wf p"
  using assms(2) build_wf [OF assms(1)] file_request_wf [OF assms(1)]
  by (cases rq) (auto simp: request_defs res_simps Let_def split: if_splits)

lemma framed:
  assumes "heapless_ok hv" "request_pdu hv rq = r"
  shows "bind_res r (\<lambda>p. compile_adu_frame hv txn uid p tt) =
    bind_res r (\<lambda>p. Ok (adu_frame tt txn uid (pdu_body p)))"
  using assms request_pdu_wf [OF assms(1)] by (cases r) (simp_all add: compile_adu_frame_ok)

lemma adu_frame_txn:
  "\<not> is_tcp_type tt \<Longrightarrow> adu_frame tt txn uid body = adu_frame tt txn' uid body"
  by (cases tt rule: adu_bound.cases) simp_all

lemmas service_defs = service_read_coils_def service_write_single_coil_def service_write_multiple_coils_def
  service_read_discrete_inputs_def service_read_holding_registers_def service_read_input_registers_def
  service_write_single_register_def service_write_multiple_registers_def
  service_read_write_multiple_registers_def service_mask_write_register_def service_read_fifo_queue_def
  service_read_file_record_def service_write_file_record_def service_read_device_identification_def
  service_encapsulated_interface_transport_def

lemmas serial_service_defs = service_read_exception_status_def service_diagnostics_def
  service_get_comm_event_counter_def service_get_comm_event_log_def service_report_server_id_def

lemmas method_defs = read_multiple_coils_def read_single_coil_def write_single_coil_def write_multiple_coils_def
  read_discrete_inputs_def read_single_discrete_input_def read_holding_registers_def
  read_single_holding_register_def read_input_registers_def read_single_input_register_def
  write_single_register_def write_multiple_registers_def read_write_multiple_registers_def
  mask_write_register_def read_fifo_queue_def read_file_record_def write_file_record_def
  read_device_identification_def encapsulated_interface_transport_def

lemmas serial_method_defs = read_exception_status_def diagnostics_def get_comm_event_counter_def
  get_comm_event_log_def report_server_id_def

lemma expect_and_send_eq:
  assumes "heapless_ok (response_vec e)" "request_context rq = (meta, h)"
  shows "\<not> is_broadcast uid \<Longrightarrow> expect_and_send e c txn uid frame meta h = send_spec e c txn uid rq frame"
    and "write_and_send e c txn uid frame meta h = send_spec e c txn uid rq frame"
  using assms
  by (simp_all add: expect_and_send_def write_and_send_def send_spec_def add_an_expectation_def
      try_or_return_def queued_request_def)

lemma try_framed:
  assumes "heapless_ok (byte_vec e)"
  shows "try_or_return c (bind_res (request_pdu (byte_vec e) rq) (\<lambda>p. compile_adu_frame (byte_vec e) txn uid p tt)) f =
    (case request_pdu (byte_vec e) rq of
       Panic \<Rightarrow> (c, Panic) | Err err \<Rightarrow> (c, Err err) | Ok p \<Rightarrow> f (adu_frame tt txn uid (pdu_body p)))"
  using framed [OF assms refl, of rq txn uid tt]
  by (cases "request_pdu (byte_vec e) rq") (simp_all add: try_or_return_def)

lemma check_serial_eq: "check_serial tt = (if is_tcp_type tt then Err InvalidTransport else Ok ())"
  by (cases tt) (simp_all add: check_serial_def)

lemma tcp_methods:
  assumes "heapless_ok (byte_vec e)" "heapless_ok (response_vec e)" "\<not> serial_only rq"
  shows "perform e c txn uid rq = submit_spec e c txn uid rq"
  using assms(3) expect_and_send_eq [OF assms(2), of rq] try_framed [OF assms(1), where rq = rq]
  by (cases rq) (auto simp: method_defs service_defs submit_spec_def broadcast_not_allowed_def)

lemma serial_methods:
  assumes "heapless_ok (byte_vec e)" "heapless_ok (response_vec e)" "serial_only rq"
  shows "perform e c txn uid rq = submit_spec e c txn uid rq"
proof (cases "is_tcp_type (TRANSPORT_TYPE e)")
  case True
  then show ?thesis
    using assms(3)
    by (cases rq) (auto simp: serial_method_defs serial_service_defs submit_spec_def check_serial_eq try_or_return_def)
next
  case False
  have "try_or_return c (bind_res (request_pdu (byte_vec e) rq)
        (\<lambda>p. compile_adu_frame (byte_vec e) 0 (uid_get uid) p (TRANSPORT_TYPE e))) f =
      (case request_pdu (byte_vec e) rq of Panic \<Rightarrow> (c, Panic) | Err err \<Rightarrow> (c, Err err)
       | Ok p \<Rightarrow> f (adu_frame (TRANSPORT_TYPE e) txn (uid_get uid) (pdu_body p)))" for f
    by (simp only: try_framed [OF assms(1)] adu_frame_txn [OF False, of 0 _ _ txn])
  moreover have "(if \<not> is_broadcast uid then expect_and_send e c txn uid frame OM_Other h
      else dispatch_request_frame e c frame) = send_spec e c txn uid rq frame"
    if "request_context rq = (OM_Other, h)" for frame h
    using that False expect_and_send_eq(1) [OF assms(2)] by (auto simp: send_spec_def)
  moreover note expect_and_send_eq(1) [OF assms(2), of rq]
  ultimately show ?thesis
    using assms(3) False
    by (cases rq) (auto simp: serial_method_defs serial_service_defs submit_spec_def check_serial_eq)
qed

end
