(* ===== verification/Client_Usage.thy ===== *)
theory Client_Usage
  imports Client_Methods
begin

text \<open>
  The client as it is used: the state machine with the real handlers (\<open>with_services\<close>), its life under any
  order of request methods, polls, connects and disconnects (\<open>service_run\<close>), and the callback
  contract that the application relies on.
\<close>

section \<open>The client with its services\<close>

text \<open>The client with its services is a client whose handlers are safe.\<close>

definition services_ok :: "service_build \<Rightarrow> ('t, 'a, Handler) client_env \<Rightarrow> bool" where
  "services_ok b e \<longleftrightarrow> build_ok b \<and> heapless_ok (usize_vec e) \<and> heapless_ok (response_vec e)"

lemma with_services_simps [simp]:
  "byte_vec (with_services b cb e) = v_bytes b" "usize_vec (with_services b cb e) = usize_vec e"
  "response_vec (with_services b cb e) = response_vec e" "TRANSPORT_TYPE (with_services b cb e) = TRANSPORT_TYPE e"
  "queue_capacity (with_services b cb e) = queue_capacity e"
  by (simp_all add: with_services_def)

lemma with_services_ok: "services_ok b e \<Longrightarrow> env_ok (with_services b cb e)"
  unfolding env_ok_def services_ok_def by simp

lemma with_services_safe:
  assumes "services_ok b e" "meta_ok h meta"
  shows "safe_request (with_services b cb e) h meta"
  unfolding safe_request_def
proof (intro allI impI)
  fix a and r :: "Handler ExpectedResponse" and m :: ModbusMessage
  assume "er_handler r = h" "operation_meta r = meta" "pdu_wf (pdu m)"
  then have "notified r m (run_handler b h r m)"
    using assms by (auto simp: services_ok_def intro: handler_notifies)
  then show "app_handler (with_services b cb e) h a r m \<noteq> None"
    by (auto simp: with_services_def notified_def notify_def)
qed

text \<open>The parameters the methods register, with one exception.\<close>

fun reads_last_address :: "ClientRequest \<Rightarrow> bool" where
  "reads_last_address (Rq_read_single_coil a) = (a = - 1)"
| "reads_last_address (Rq_read_single_discrete_input a) = (a = - 1)"
| "reads_last_address (Rq_read_single_input_register a) = (a = - 1)"
| "reads_last_address _ = False"

lemma request_context_ok:
  assumes "request_pdu hv rq = Ok p" "\<not> reads_last_address rq" "request_context rq = (meta, h)"
  shows "meta_ok h meta"
  using assms
  by (cases rq)
    (auto simp: request_defs meta_ok_def last_address_read_def word_le_nat_alt Let_def res_simps split: if_splits)

text \<open>What a method does to the client.\<close>

lemma method_cases:
  assumes "heapless_ok (byte_vec e)" "heapless_ok (response_vec e)" "perform e c txn uid rq = (c', r)"
  obtains (refused) "c' = c" "\<forall>x. r \<noteq> Ok x"
  | (broadcast) frame where "is_broadcast uid" "(c', r) = dispatch_request_frame e c frame"
  | (queued) p meta h frame c1 where "request_pdu (byte_vec e) rq = Ok p" "request_context rq = (meta, h)"
      "add_an_expectation e c txn uid frame meta h = Ok c1" "(c', r) = dispatch_request_frame e c1 frame"
proof -
  have "submit_spec e c txn uid rq = (c', r)"
    using assms tcp_methods serial_methods by metis
  then show ?thesis
    using that assms(2)
    by (auto simp: submit_spec_def send_spec_def add_an_expectation_def queued_request_def prod_eq_iff
        split: if_splits res.splits)
qed

section \<open>Runs of a client with its services\<close>

text \<open>
  The life of a client that is used through its methods, with the transaction identifiers of the
  requests that entered its queue. Between two calls the application and the transport may change
  in any way.
\<close>

inductive service_run ::
    "('t, 'a, Handler) client_env \<Rightarrow> ('t, 'a) client \<Rightarrow> u16 multiset \<Rightarrow> bool" for e where
  started: "client_new e t a cfg = Ok c \<Longrightarrow> service_run e c {#}"
| started_serial: "client_new_serial e t a scfg = Ok c \<Longrightarrow> service_run e c {#}"
| requested: "service_run e c A \<Longrightarrow> \<not> reads_last_address rq \<Longrightarrow> perform e c txn uid rq = (c', r) \<Longrightarrow>
    service_run e c' (A + (pending c' - pending c))"
| polled: "service_run e c A \<Longrightarrow> poll e c = Some (Ok c') \<Longrightarrow> service_run e c' A"
| connected: "service_run e c A \<Longrightarrow> service_run e (fst (client_connect e c)) A"
| disconnected: "service_run e c A \<Longrightarrow> client_disconnect e c = Some c' \<Longrightarrow> service_run e c' A"
| reconnected: "service_run e c A \<Longrightarrow> client_reconnect e c = Some (c', r) \<Longrightarrow> service_run e c' A"
| world: "service_run e c A \<Longrightarrow> service_run e (c\<lparr>app := a, transport := t\<rparr>) A"

definition contexts_ok :: "('t, 'a) client \<Rightarrow> bool" where
  "contexts_ok c \<longleftrightarrow> (\<forall>(h, meta) \<in> contexts c. meta_ok h meta) \<and>
     (\<forall>r m. HandlerCalled r m \<in> set (app_calls c) \<longrightarrow>
       pdu_wf (pdu m) \<and> meta_ok (er_handler r) (operation_meta r))"

lemma contexts_ok_step: "step_ok e c c' \<Longrightarrow> contexts_ok c \<Longrightarrow> contexts_ok c'"
  unfolding step_ok_def calls_from_def contexts_ok_def er_context_def by blast

lemma contexts_ok_cong:
  "contexts_ok c \<Longrightarrow> expected_responses c' = expected_responses c \<Longrightarrow> app_calls c' = app_calls c \<Longrightarrow> contexts_ok c'"
  by (simp add: contexts_ok_def contexts_def)

lemma dispatch_keeps:
  assumes "(c', r) = dispatch_request_frame e c frame"
  shows "expected_responses c' = expected_responses c" "app_calls c' = app_calls c" "pending c' = pending c"
    "c' = fst (dispatch_request_frame e c frame)"
  using assms by (auto simp: dispatch_request_frame_def Let_def pending_def split: prod.splits sum.splits)

lemma connect_keeps:
  "expected_responses (fst (client_connect e c)) = expected_responses c"
  "app_calls (fst (client_connect e c)) = app_calls c"
  by (simp_all add: client_connect_def case_prod_beta)

lemma registered_request:
  assumes "heapless_ok (response_vec e)" "add_an_expectation e c txn uid frame meta h = Ok c'"
  shows "contexts c' = insert (h, meta) (contexts c)" "app_calls c' = app_calls c"
    "pending c' = add_mset txn (pending c)"
  using assms
  by (auto simp: add_an_expectation_def res_simps contexts_def er_context_def pending_def split: if_splits)

lemma method_step:
  assumes "services_ok b e" "\<not> reads_last_address rq"
    and "perform (with_services b cb e) c txn uid rq = (c', r)"
    and "client_run (with_services b cb e) c A" "contexts_ok c"
  shows "client_run (with_services b cb e) c' (A + (pending c' - pending c)) \<and> contexts_ok c'"
proof -
  let ?e = "with_services b cb e"
  have hv: "heapless_ok (byte_vec ?e)" "heapless_ok (response_vec ?e)"
    using assms(1) unfolding services_ok_def by simp_all
  from hv assms(3) show ?thesis
  proof (cases rule: method_cases)
    case refused
    then show ?thesis using assms(4,5) by simp
  next
    case (broadcast frame)
    note keeps = dispatch_keeps [OF broadcast(2)]
    show ?thesis
      using client_run.sent [OF assms(4), of frame] contexts_ok_cong [OF assms(5) keeps(1,2)] keeps(3,4) by simp
  next
    case (queued p meta h frame c1)
    note keeps = dispatch_keeps [OF queued(4)] and reg = registered_request [OF hv(2) queued(3)]
    have ok: "meta_ok h meta" by (rule request_context_ok [OF queued(1) assms(2) queued(2)])
    have "client_run ?e c1 (add_mset txn A)"
      by (rule client_run.registered [OF assms(4) with_services_safe [OF assms(1) ok] queued(3)])
    from client_run.sent [OF this, of frame] have "client_run ?e c' (A + (pending c' - pending c))"
      using keeps(3,4) reg(3) by simp
    moreover have "contexts_ok c1" using assms(5) ok by (simp add: contexts_ok_def reg)
    then have "contexts_ok c'" by (rule contexts_ok_cong [OF _ keeps(1,2)])
    ultimately show ?thesis by simp
  qed
qed

lemma service_run_client:
  assumes "services_ok b e" "service_run (with_services b cb e) c A"
  shows "client_run (with_services b cb e) c A \<and> contexts_ok c"
  using assms(2)
proof (induction rule: service_run.induct)
  let ?e = "with_services b cb e"
  note env = with_services_ok [OF assms(1), of cb]
  {
    case (started t a cfg c)
    then show ?case
      by (auto intro: client_run.started simp: contexts_ok_def contexts_def client_new_def split: if_splits)
  next
    case (started_serial t a scfg c)
    then show ?case
      by (auto intro: client_run.started_serial simp: contexts_ok_def contexts_def client_new_serial_def split: if_splits)
  next
    case (requested c A rq txn uid c' r)
    then show ?case using method_step [OF assms(1)] by blast
  next
    case (polled c A c')
    then have "queue_safe ?e c" using client_run_accounted [of ?e c A] env accounted_safe by blast
    then show ?case
      using polled poll_ok [OF env] contexts_ok_step by (fastforce intro: client_run.polled)
  next
    case (connected c A)
    then show ?case using connect_keeps contexts_ok_cong by (blast intro: client_run.connected)
  next
    case (disconnected c A c')
    then have "queue_safe ?e c" using client_run_accounted [of ?e c A] env accounted_safe by blast
    then show ?case
      using disconnected disconnect_op.op_step [OF env] contexts_ok_step by (fastforce intro: client_run.disconnected)
  next
    case (reconnected c A c' r)
    then have "queue_safe ?e c" using client_run_accounted [of ?e c A] env accounted_safe by blast
    then show ?case
      using reconnected reconnect_op.op_step [OF env] contexts_ok_step by (fastforce intro: client_run.reconnected)
  next
    case (world c A a t)
    then show ?case by (auto intro: client_run.world elim: contexts_ok_cong)
  }
qed

text \<open>The callbacks that a call of the client machine makes.\<close>

fun callbacks :: "service_build \<Rightarrow> Handler AppCall \<Rightarrow> AppCallback list" where
  "callbacks b (RequestFailed txn uid err) = [\<lparr>cb_txn = txn, cb_unit = uid, cb_reply = request_failed_cb err\<rparr>]"
| "callbacks b (HandlerCalled r m) = (case run_handler b (er_handler r) r m of None \<Rightarrow> [] | Some cs \<Rightarrow> cs)"

lemma callbacks_one:
  assumes "services_ok b e" "contexts_ok c" "call \<in> set (app_calls c)"
  shows "\<exists>cb. callbacks b call = [cb] \<and> cb_txn cb = call_txn call"
proof (cases call)
  case (HandlerCalled r m)
  then have "notified r m (run_handler b (er_handler r) r m)"
    using assms by (intro handler_notifies) (auto simp: services_ok_def contexts_ok_def)
  then show ?thesis using HandlerCalled by (auto simp: notified_def notify_def)
qed simp

lemma callbacks_txns:
  assumes "\<forall>call \<in> set calls. \<exists>cb. callbacks b call = [cb] \<and> cb_txn cb = call_txn call"
  shows "map cb_txn (concat (map (callbacks b) calls)) = map call_txn calls"
  using assms by (induction calls) auto

section \<open>What the services guarantee\<close>

text \<open>A client whose application records its callbacks, and a TCP transport that accepts every frame.\<close>

definition sample_build :: "bool \<Rightarrow> service_build" where
  "sample_build oc =
     \<lparr>overflow_checks = oc, v_bytes = bounded_vec, v_words = bounded_vec, v_params = bounded_vec\<rparr>"

definition sample_base_env :: "TransportType \<Rightarrow> (bytes list, AppCallback list, Handler) client_env" where
  "sample_base_env tt =
     \<lparr>TRANSPORT_TYPE = tt, transport_connect = (\<lambda>t cfg. (t, Inr ())),
      transport_disconnect = (\<lambda>t. (t, Inr ())), transport_send = (\<lambda>t f. (t @ [f], Inr ())),
      transport_recv = (\<lambda>t. (t, Inl Timeout)), transport_is_connected = (\<lambda>t. True),
      app_request_failed = (\<lambda>a txn uid err. a), app_current_millis = (\<lambda>a. 0),
      app_handler = (\<lambda>h a r m. None), queue_capacity = 1, byte_vec = bounded_vec,
      usize_vec = bounded_vec, response_vec = bounded_vec\<rparr>"

definition sample_service_env ::
    "TransportType \<Rightarrow> bool \<Rightarrow> (bytes list, AppCallback list, Handler) client_env" where
  "sample_service_env tt oc =
     with_services (sample_build oc) (\<lambda>calls call. calls @ [call]) (sample_base_env tt)"

definition idle_client :: "(bytes list, AppCallback list) client" where
  "idle_client = \<lparr>app = [], transport = [], config = sample_config, rxed_frame = [], expected_responses = [],
     next_timeout_check = None, random_calls = 0, app_calls = []\<rparr>"

lemma sample_build_ok [simp]: "build_ok (sample_build oc)"
  by (simp add: build_ok_def sample_build_def)

lemma sample_build_checks [simp]: "overflow_checks (sample_build oc) = oc"
  by (simp add: sample_build_def)

lemma sample_services_ok: "services_ok (sample_build oc) (sample_base_env tt)"
  unfolding services_ok_def by (simp add: sample_base_env_def)

lemma sample_write_sent:
  "\<exists>c'. submit_spec (sample_service_env StdTcp True) idle_client 7 (UnitIdOrSlaveAddr 1)
      (Rq_write_single_register 5 9) = (c', Ok ()) \<and>
    transport c' = [[0, 7, 0, 0, 0, 6, 1, 6, 0, 5, 0, 9]] \<and>
    map er_txn_id (expected_responses c') = [7] \<and> app_calls c' = []"
  by (simp add: sample_service_env_def sample_base_env_def sample_build_def idle_client_def submit_spec_def
      send_spec_def dispatch_request_frame_def queued_request_def request_defs build_write_single_u16_def
      is_broadcast_def tcp_frame_def pdu_body_def u16_to_be_bytes_def with_services_def)

text \<open>
  C5: Every request method of the client behaves as specified. A broadcast that is not allowed, a
  serial-only request on TCP and invalid parameters are refused without a change of the client, and so is
  a request when the queue is full. Otherwise the frame of the request goes to the transport, and the request
  is in the queue unless it is a broadcast; it stays there when the transport refuses the frame.
\<close>

theorem methods_meet_specification:
  assumes "heapless_ok (byte_vec e)" "heapless_ok (response_vec e)"
  shows "perform e c txn uid rq = submit_spec e c txn uid rq"
  using tcp_methods [OF assms] serial_methods [OF assms] by blast

theorem methods_meet_specification_witness:
  "\<exists>c'. perform (sample_service_env StdTcp True) idle_client 7 (UnitIdOrSlaveAddr 1)
      (Rq_write_single_register 5 9) = (c', Ok ()) \<and>
    transport c' = [[0, 7, 0, 0, 0, 6, 1, 6, 0, 5, 0, 9]] \<and>
    map er_txn_id (expected_responses c') = [7]"
  using methods_meet_specification [of "sample_service_env StdTcp True" idle_client 7 "UnitIdOrSlaveAddr 1"
      "Rq_write_single_register 5 9"] sample_write_sent
  by (auto simp: sample_service_env_def sample_base_env_def sample_build_def)

text \<open>
  C3: The callback contract: over every life of a client that is used through its methods, with no read of
  a single value at address 65535, each request that entered the queue is still there or has led to exactly
  one callback with its transaction identifier, a success callback or \<open>request_failed\<close>.
\<close>

theorem callback_contract:
  assumes "services_ok b e" "service_run (with_services b cb e) c A"
  shows "A = pending c + mset (map cb_txn (concat (map (callbacks b) (app_calls c))))"
    (is "_ = _ + mset ?txns")
proof -
  have run: "client_run (with_services b cb e) c A" "contexts_ok c"
    using service_run_client [OF assms] by simp_all
  have "?txns = map call_txn (app_calls c)"
    by (rule callbacks_txns) (use callbacks_one [OF assms(1) run(2)] in blast)
  then show ?thesis
    using client_run_accounted [OF run(1) with_services_ok [OF assms(1)]]
    by (simp add: accounted_def resolved_def)
qed

theorem callback_contract_witness:
  "\<exists>c. service_run (sample_service_env StdTcp True) c {#7#} \<and> pending c = {#} \<and>
    mset (map cb_txn (concat (map (callbacks (sample_build True)) (app_calls c)))) = {#7#}"
proof -
  let ?e = "sample_service_env StdTcp True"
  have env: "env_ok ?e"
    using with_services_ok [OF sample_services_ok] by (simp add: sample_service_env_def)
  have "service_run ?e idle_client {#}"
    by (rule service_run.started [of _ "[]" "[]" sample_config])
      (simp add: client_new_def idle_client_def sample_service_env_def sample_base_env_def)
  moreover obtain c1 where c1: "perform ?e idle_client 7 (UnitIdOrSlaveAddr 1) (Rq_write_single_register 5 9) = (c1, Ok ())"
      "map er_txn_id (expected_responses c1) = [7]"
    using sample_write_sent tcp_methods [OF env_ok_simps(1,3) [OF env], of "Rq_write_single_register 5 9"]
    by auto
  ultimately have "service_run ?e c1 ({#} + (pending c1 - pending idle_client))"
    by (intro service_run.requested [OF _ _ c1(1)]) simp_all
  then have run1: "service_run ?e c1 {#7#}" by (simp add: pending_def c1(2) idle_client_def flip: mset_map)
  obtain d where d: "fail_all_pending_requests ?e c1 ConnectionLost = Some d" "expected_responses d = []"
    using fail_all_pending_requests_ok [OF env] by blast
  then obtain c where c: "client_disconnect ?e c1 = Some c" "pending c = {#}"
    by (auto simp: client_disconnect_def pending_def)
  have run: "service_run ?e c {#7#}" by (rule service_run.disconnected [OF run1 c(1)])
  then show ?thesis
    using callback_contract [OF sample_services_ok, of True "\<lambda>calls call. calls @ [call]" StdTcp c "{#7#}"] c(2)
    by (auto simp: sample_service_env_def)
qed

text \<open>
  The exception to the contract. A valid response to the read of a single coil is reported with the
  value of the coil, except at address 65535: there the application is not called at all, and with overflow
  checks the client panics, since the end of the block is computed in 16 bits.
\<close>

theorem single_coil_at_last_address:
  assumes "build_ok b" "operation_meta r = OM_Single a 0"
    and "pdu m = \<lparr>function_code = ReadCoils, error_code = None, data = [1, v], data_len = 2\<rparr>"
  shows "run_handler b H_read_coils r m =
    (if a = - 1 then if overflow_checks b then None else Some []
     else notify r m (read_single_coil_response a (v AND 1 \<noteq> 0)))"
proof -
  have "handle_read_coil_rsp b (pdu m) 1 a = Ok \<lparr>coils_from_address = a, coils_quantity = 1,
      coils_values = v # replicate 249 0\<rparr>"
    using assms(1)
    by (simp add: assms(3) handle_read_coil_rsp_def handle_coil_response_def parse_read_coils_response_def
        byte_count_payload_def coils_new_def coils_with_values_def slice_def slice_to_def copy_prefix_def div_ceil_def
        Let_def)
  then show ?thesis
    by (simp add: handle_read_coils_response_def assms(2) coils_value_def single_in_block match_result_def)
      (simp add: out_of_block_def add_ovf_def unat_minus_one_word)
qed

theorem single_coil_at_last_address_witness:
  "\<exists>r m. run_handler (sample_build False) H_read_coils r m = Some [] \<and>
    run_handler (sample_build True) H_read_coils r m = None"
proof -
  let ?m = "modbus_message_new (AASlaveAddress (SlaveAddress 1))
    \<lparr>function_code = ReadCoils, error_code = None, data = [1, 1], data_len = 2\<rparr>"
  let ?r = "\<lparr>er_txn_id = 7, er_unit = 1, original_adu = [], sent_timestamp = 0, retries_left = 1,
    retry_attempt_index = 0, next_retry_timestamp = None, er_handler = H_read_coils, operation_meta = OM_Single (- 1) 0\<rparr>"
  have "run_handler (sample_build oc) H_read_coils ?r ?m = (if oc then None else Some [])" for oc
    using single_coil_at_last_address [OF sample_build_ok, of ?r "- 1" ?m 1 oc]
    by (simp add: modbus_message_new_def)
  then show ?thesis by (metis (full_types))
qed

end
