(* ===== verification/Server_Framing.thy ===== *)
theory Server_Framing
  imports Adu File_Record
begin

text \<open>
  Request parsing and response building of the server (mbus-server/src/services/framing.rs). The
  transport argument of the code only selects the transport kind \<open>tt\<close>.
\<close>

section \<open>Requests\<close>

definition parse_read_window :: "ModbusMessage \<Rightarrow> (u16 \<times> u16) result" where
  "parse_read_window m =
     bind_res (read_window (pdu m)) (\<lambda>rw. Ok (rw_address rw, rw_quantity rw))"

definition parse_empty_request :: "ModbusMessage \<Rightarrow> unit result" where
  "parse_empty_request m = (if data_len (pdu m) \<noteq> 0 then Err InvalidPduLength else Ok ())"

definition parse_write_single_request :: "ModbusMessage \<Rightarrow> (u16 \<times> u16) result" where
  "parse_write_single_request m =
     bind_res (write_single_u16_fields (pdu m)) (\<lambda>f. Ok (ws_address f, ws_value f))"

definition parse_write_multiple_request :: "ModbusMessage \<Rightarrow> (u16 \<times> u16 \<times> u8 \<times> bytes) result" where
  "parse_write_multiple_request m =
     bind_res (write_multiple_fields (pdu m)) (\<lambda>f.
     Ok (wm_address f, wm_quantity f, wm_byte_count f, wm_values f))"

definition parse_mask_write_request :: "ModbusMessage \<Rightarrow> (u16 \<times> u16 \<times> u16) result" where
  "parse_mask_write_request m =
     bind_res (mask_write_register_fields (pdu m)) (\<lambda>f.
     Ok (mw_address f, mw_and_mask f, mw_or_mask f))"

definition parse_read_write_multiple_request :: "ModbusMessage \<Rightarrow> ReadWriteMultipleFields result" where
  "parse_read_write_multiple_request m = read_write_multiple_fields (pdu m)"

definition parse_file_record_read_request ::
    "FileRecordReadSubRequest heapless \<Rightarrow> ModbusMessage \<Rightarrow> FileRecordReadSubRequest list result" where
  "parse_file_record_read_request hv m = file_record_read_sub_requests hv (pdu m)"

definition parse_file_record_write_request ::
    "FileRecordWriteSubRequest heapless \<Rightarrow> ModbusMessage \<Rightarrow> FileRecordWriteSubRequest list result" where
  "parse_file_record_write_request hv m = file_record_write_sub_requests hv (pdu m)"

definition parse_read_fifo_pointer_request :: "ModbusMessage \<Rightarrow> u16 result" where
  "parse_read_fifo_pointer_request m = fifo_pointer (pdu m)"

definition parse_diagnostics_request :: "ModbusMessage \<Rightarrow> (u16 \<times> u16) result" where
  "parse_diagnostics_request m = diagnostics_fields (pdu m)"

definition parse_fc2b_request :: "ModbusMessage \<Rightarrow> MeiTypePayload result" where
  "parse_fc2b_request m = mei_type_payload (pdu m)"

section \<open>Responses\<close>

definition build_byte_count_prefixed_response ::
    "u8 heapless \<Rightarrow> TransportType \<Rightarrow> u16 \<Rightarrow> UnitIdOrSlaveAddr \<Rightarrow> FunctionCode \<Rightarrow> bytes \<Rightarrow> bytes result" where
  "build_byte_count_prefixed_response hv tt txn_id uid fc payload =
     bind_res (build_byte_count_payload hv fc payload) (\<lambda>p.
     compile_adu_frame hv txn_id (uid_get uid) p tt)"

definition build_single_byte_response ::
    "u8 heapless \<Rightarrow> TransportType \<Rightarrow> u16 \<Rightarrow> UnitIdOrSlaveAddr \<Rightarrow> FunctionCode \<Rightarrow> u8 \<Rightarrow> bytes result" where
  "build_single_byte_response hv tt txn_id uid fc v =
     bind_res (build_byte_payload hv fc v) (\<lambda>p.
     compile_adu_frame hv txn_id (uid_get uid) p tt)"

definition build_two_u16_response ::
    "u8 heapless \<Rightarrow> TransportType \<Rightarrow> u16 \<Rightarrow> UnitIdOrSlaveAddr \<Rightarrow> FunctionCode \<Rightarrow> u16 \<Rightarrow> u16 \<Rightarrow> bytes result" where
  "build_two_u16_response hv tt txn_id uid fc first second =
     bind_res (build_write_single_u16 hv fc first second) (\<lambda>p.
     compile_adu_frame hv txn_id (uid_get uid) p tt)"

definition build_echo_u16_response ::
    "u8 heapless \<Rightarrow> TransportType \<Rightarrow> u16 \<Rightarrow> UnitIdOrSlaveAddr \<Rightarrow> FunctionCode \<Rightarrow> u16 \<Rightarrow> u16 \<Rightarrow> bytes result" where
  "build_echo_u16_response hv tt txn_id uid fc first second =
     bind_res (build_write_single_u16 hv fc first second) (\<lambda>p.
     compile_adu_frame hv txn_id (uid_get uid) p tt)"

definition build_mask_write_echo_response ::
    "u8 heapless \<Rightarrow> TransportType \<Rightarrow> u16 \<Rightarrow> UnitIdOrSlaveAddr \<Rightarrow> u16 \<Rightarrow> u16 \<Rightarrow> u16 \<Rightarrow> bytes result" where
  "build_mask_write_echo_response hv tt txn_id uid address and_mask or_mask =
     bind_res (build_mask_write_register hv address and_mask or_mask) (\<lambda>p.
     compile_adu_frame hv txn_id (uid_get uid) p tt)"

abbreviation (input) FILE_RECORD_RESPONSE_MAX_PAYLOAD_LEN :: usize where
  "FILE_RECORD_RESPONSE_MAX_PAYLOAD_LEN \<equiv> 251"

definition build_file_record_read_response ::
    "u8 heapless \<Rightarrow> TransportType \<Rightarrow> u16 \<Rightarrow> UnitIdOrSlaveAddr \<Rightarrow> bytes \<Rightarrow> bytes result" where
  "build_file_record_read_response hv tt txn_id uid payload =
     (if length payload > FILE_RECORD_RESPONSE_MAX_PAYLOAD_LEN then Err FileReadPduOverflow
      else bind_res (build_byte_count_payload hv ReadFileRecord payload) (\<lambda>p.
           compile_adu_frame hv txn_id (uid_get uid) p tt))"

definition build_file_record_write_echo_response ::
    "u8 heapless \<Rightarrow> TransportType \<Rightarrow> u16 \<Rightarrow> UnitIdOrSlaveAddr \<Rightarrow> bytes \<Rightarrow> bytes result" where
  "build_file_record_write_echo_response hv tt txn_id uid request_pdu_data =
     (if length request_pdu_data > MAX_PDU_DATA_LEN then Err BufferTooSmall
      else bind_res (extend_or hv MAX_PDU_DATA_LEN BufferLenMissmatch [] request_pdu_data) (\<lambda>d.
           compile_adu_frame hv txn_id (uid_get uid)
             (pdu_new WriteFileRecord d (of_nat (length request_pdu_data))) tt))"

definition build_fifo_response ::
    "u8 heapless \<Rightarrow> TransportType \<Rightarrow> u16 \<Rightarrow> UnitIdOrSlaveAddr \<Rightarrow> bytes \<Rightarrow> bytes result" where
  "build_fifo_response hv tt txn_id uid app_payload =
     bind_res (build_fifo_payload hv app_payload) (\<lambda>p.
     compile_adu_frame hv txn_id (uid_get uid) p tt)"

definition build_diagnostics_response ::
    "u8 heapless \<Rightarrow> TransportType \<Rightarrow> u16 \<Rightarrow> UnitIdOrSlaveAddr \<Rightarrow> u16 \<Rightarrow> u16 \<Rightarrow> bytes result" where
  "build_diagnostics_response hv tt txn_id uid sub_function r =
     bind_res (build_diagnostics hv sub_function r) (\<lambda>p.
     compile_adu_frame hv txn_id (uid_get uid) p tt)"

text \<open>The loop of \<open>count_fc2b_objects\<close>; \<open>checked_add\<close> fails at 255 objects.\<close>

function count_objects_loop :: "bytes \<Rightarrow> usize \<Rightarrow> u8 \<Rightarrow> u8 result" where
  "count_objects_loop payload offset n =
     (if offset < length payload then
        if offset + 2 > length payload then Err InvalidPduLength
        else bind_res (idx payload (offset + 1)) (\<lambda>l.
          let val_len = unat l; offset' = offset + (2 + val_len) in
          if offset' > length payload then Err InvalidPduLength
          else if n = 255 then Err InvalidPduLength
          else count_objects_loop payload offset' (n + 1))
      else Ok n)"
  by pat_completeness auto
termination
  by (relation "measure (\<lambda>(payload, offset, n). length payload - offset)") auto

declare count_objects_loop.simps [simp del]

definition count_fc2b_objects :: "bytes \<Rightarrow> u8 result" where
  "count_fc2b_objects payload = count_objects_loop payload 0 0"

definition build_fc2b_read_device_id_response ::
    "u8 heapless \<Rightarrow> TransportType \<Rightarrow> u16 \<Rightarrow> UnitIdOrSlaveAddr \<Rightarrow> u8 \<Rightarrow> u8 \<Rightarrow> bool \<Rightarrow> u8 \<Rightarrow> bytes \<Rightarrow>
     bytes result" where
  "build_fc2b_read_device_id_response hv tt txn_id uid code conformity_level more_follows
     next_object_id objects_payload =
     bind_res (count_fc2b_objects objects_payload) (\<lambda>n_objects.
     let more_byte = (if more_follows then 0xFF else 0x00);
         header = [code, conformity_level, more_byte, next_object_id, n_objects];
         mei_data_len = length header + length objects_payload
     in if mei_data_len > MAX_PDU_DATA_LEN - 1 then Err BufferTooSmall
        else bind_res (extend_or hv MAX_PDU_DATA_LEN BufferTooSmall [] header) (\<lambda>mei_data.
             bind_res (extend_or hv MAX_PDU_DATA_LEN BufferTooSmall mei_data objects_payload) (\<lambda>mei_data.
             bind_res (build_mei_type hv EncapsulatedInterfaceTransport
               (encapsulated_interface_type_u8 ReadDeviceIdentification) mei_data) (\<lambda>p.
             compile_adu_frame hv txn_id (uid_get uid) p tt))))"

end
