(* ===== verification/Server_Queues.thy ===== *)
theory Server_Queues
  imports Transport Function_Codes
begin

text \<open>
  The resilience settings of the server and its two queues (mbus-server/src/services/resilience.rs):
  requests wait in a bounded priority queue, responses that could not be sent in a bounded FIFO.
  The clock \<open>fn() -> u64\<close> is supplied by the application; it is a function of the number of
  calls made to it so far.
\<close>

section \<open>Settings\<close>

type_synonym ClockFn = "nat \<Rightarrow> u64"

datatype OverflowPolicy = DropResponse | RejectRequest

record TimeoutConfig =
  app_callback_ms :: u32
  send_ms :: u32
  response_retry_interval_ms :: u32
  request_deadline_ms :: u32
  strict_mode :: bool
  overflow_policy :: OverflowPolicy

definition timeout_config_default :: TimeoutConfig where
  "timeout_config_default =
     \<lparr>app_callback_ms = 0, send_ms = 0, response_retry_interval_ms = 0, request_deadline_ms = 0,
      strict_mode = False, overflow_policy = DropResponse\<rparr>"

datatype RequestPriority = PrioOther | PrioRead | PrioWrite | PrioMaintenance

fun priority_rank :: "RequestPriority \<Rightarrow> nat" where
  "priority_rank PrioOther = 0"
| "priority_rank PrioRead = 1"
| "priority_rank PrioWrite = 2"
| "priority_rank PrioMaintenance = 3"

text \<open>The derived \<open>Ord\<close> of the enum compares the discriminants.\<close>

instantiation RequestPriority :: linorder
begin

definition less_eq_RequestPriority :: "RequestPriority \<Rightarrow> RequestPriority \<Rightarrow> bool" where
  "less_eq_RequestPriority a b \<longleftrightarrow> priority_rank a \<le> priority_rank b"

definition less_RequestPriority :: "RequestPriority \<Rightarrow> RequestPriority \<Rightarrow> bool" where
  "less_RequestPriority a b \<longleftrightarrow> priority_rank a < priority_rank b"

instance
proof
  fix a b :: RequestPriority
  show "a \<le> b \<Longrightarrow> b \<le> a \<Longrightarrow> a = b"
    by (cases a; cases b) (simp_all add: less_eq_RequestPriority_def)
qed (auto simp: less_eq_RequestPriority_def less_RequestPriority_def)

end

fun from_function_code :: "FunctionCode \<Rightarrow> RequestPriority" where
  "from_function_code ReadCoils = PrioRead"
| "from_function_code ReadDiscreteInputs = PrioRead"
| "from_function_code ReadHoldingRegisters = PrioRead"
| "from_function_code ReadInputRegisters = PrioRead"
| "from_function_code ReadFifoQueue = PrioRead"
| "from_function_code ReadFileRecord = PrioRead"
| "from_function_code WriteSingleCoil = PrioWrite"
| "from_function_code WriteSingleRegister = PrioWrite"
| "from_function_code WriteMultipleCoils = PrioWrite"
| "from_function_code WriteMultipleRegisters = PrioWrite"
| "from_function_code MaskWriteRegister = PrioWrite"
| "from_function_code ReadWriteMultipleRegisters = PrioWrite"
| "from_function_code WriteFileRecord = PrioWrite"
| "from_function_code Diagnostics = PrioMaintenance"
| "from_function_code GetCommEventCounter = PrioMaintenance"
| "from_function_code GetCommEventLog = PrioMaintenance"
| "from_function_code ReportServerId = PrioMaintenance"
| "from_function_code EncapsulatedInterfaceTransport = PrioMaintenance"
| "from_function_code _ = PrioOther"

record ResilienceConfig =
  timeouts :: TimeoutConfig
  clock_fn :: "ClockFn option"
  max_send_retries :: u8
  enable_priority_queue :: bool
  enable_broadcast_writes :: bool
  turnaround_delay_us :: u64

definition resilience_config_default :: ResilienceConfig where
  "resilience_config_default =
     \<lparr>timeouts = timeout_config_default, clock_fn = None, max_send_retries = 3,
      enable_priority_queue = False, enable_broadcast_writes = False, turnaround_delay_us = 0\<rparr>"

section \<open>The request queue\<close>

record PendingRequest =
  pr_frame :: bytes
  pr_priority :: RequestPriority
  received_at_us :: u64

definition request_push ::
    "PendingRequest heapless \<Rightarrow> usize \<Rightarrow> PendingRequest list \<Rightarrow> PendingRequest \<Rightarrow>
     bool \<times> PendingRequest list" where
  "request_push hv n items req =
     (case hv_push hv n items req of Some items \<Rightarrow> (True, items) | None \<Rightarrow> (False, items))"

text \<open>The loop of \<open>pop_highest_priority\<close>; \<open>max_idx\<close> is always an index of the list.\<close>

definition highest_index :: "PendingRequest list \<Rightarrow> usize" where
  "highest_index items =
     foldl (\<lambda>max_idx i. if pr_priority (items ! i) > pr_priority (items ! max_idx) then i else max_idx)
       0 [0..<length items]"

definition pop_highest_priority ::
    "PendingRequest heapless \<Rightarrow> PendingRequest list \<Rightarrow> (PendingRequest \<times> PendingRequest list) option result" where
  "pop_highest_priority hv items =
     (if items = [] then Ok None
      else bind_res (or_panic (hv_swap_remove hv items (highest_index items))) (\<lambda>x. Ok (Some x)))"

definition is_stale :: "u64 \<Rightarrow> u32 \<Rightarrow> PendingRequest \<Rightarrow> bool" where
  "is_stale now deadline_ms r \<longleftrightarrow> sat_sub now (received_at_us r) > ucast deadline_ms * 1000"

partial_function (option) expire_loop ::
    "PendingRequest heapless \<Rightarrow> u64 \<Rightarrow> u32 \<Rightarrow> usize \<Rightarrow> PendingRequest list \<Rightarrow>
     PendingRequest list result option" where
  "expire_loop hv now deadline_ms i items =
     (if i < length items then
        (if is_stale now deadline_ms (items ! i) then
           (case hv_swap_remove hv items i of
              None \<Rightarrow> Some Panic
            | Some (item, items) \<Rightarrow> expire_loop hv now deadline_ms i items)
         else expire_loop hv now deadline_ms (i + 1) items)
      else Some (Ok items))"

text \<open>The number of expired requests and the queue after it.\<close>

definition expire_stale ::
    "PendingRequest heapless \<Rightarrow> PendingRequest list \<Rightarrow> u64 \<Rightarrow> u32 \<Rightarrow>
     (usize \<times> PendingRequest list) result option" where
  "expire_stale hv items now deadline_ms =
     (if deadline_ms = 0 then Some (Ok (0, items))
      else map_option (\<lambda>r. bind_res r (\<lambda>items'. Ok (length items - length items', items')))
             (expire_loop hv now deadline_ms 0 items))"

partial_function (option) take_expired_loop ::
    "PendingRequest heapless \<Rightarrow> usize \<Rightarrow> u64 \<Rightarrow> u32 \<Rightarrow> usize \<Rightarrow> PendingRequest list \<Rightarrow>
     PendingRequest list \<Rightarrow> (PendingRequest list \<times> PendingRequest list) result option" where
  "take_expired_loop hv n now deadline_ms i expired items =
     (if i < length items then
        (if is_stale now deadline_ms (items ! i) then
           (case hv_swap_remove hv items i of
              None \<Rightarrow> Some Panic
            | Some (item, items) \<Rightarrow>
                take_expired_loop hv n now deadline_ms i (snd (request_push hv n expired item)) items)
         else take_expired_loop hv n now deadline_ms (i + 1) expired items)
      else Some (Ok (expired, items)))"

text \<open>The expired requests and the queue after it.\<close>

definition take_expired ::
    "PendingRequest heapless \<Rightarrow> usize \<Rightarrow> PendingRequest list \<Rightarrow> u64 \<Rightarrow> u32 \<Rightarrow>
     (PendingRequest list \<times> PendingRequest list) result option" where
  "take_expired hv n items now deadline_ms =
     (if deadline_ms = 0 then Some (Ok ([], items))
      else take_expired_loop hv n now deadline_ms 0 [] items)"

section \<open>The response queue\<close>

record PendingResponse =
  ps_frame :: bytes
  ps_txn_id :: u16
  ps_unit :: UnitIdOrSlaveAddr
  retry_count :: u8
  queued_at_us :: u64
  is_turnaround_delay :: bool

definition response_push_back ::
    "PendingResponse deque \<Rightarrow> usize \<Rightarrow> PendingResponse list \<Rightarrow> PendingResponse \<Rightarrow>
     bool \<times> PendingResponse list" where
  "response_push_back dq n items resp =
     (case dq_push_back dq n items resp of Some items \<Rightarrow> (True, items) | None \<Rightarrow> (False, items))"

section \<open>The request queue is a priority queue\<close>

text \<open>
  What a bounded priority queue promises: \<open>pop\<close> returns an element of the highest priority, \<open>push\<close>
  adds an element unless the queue is full. \<open>valid\<close> tells the queues the laws are about.
\<close>

locale priority_queue =
  fixes valid :: "'q \<Rightarrow> bool"
    and elems :: "'q \<Rightarrow> 'x multiset"
    and prio :: "'x \<Rightarrow> 'p::linorder"
    and capacity :: nat
    and push :: "'q \<Rightarrow> 'x \<Rightarrow> bool \<times> 'q"
    and pop :: "'q \<Rightarrow> ('x \<times> 'q) option result"
  assumes pop_empty: "valid q \<Longrightarrow> elems q = {#} \<Longrightarrow> pop q = Ok None"
    and pop_highest: "valid q \<Longrightarrow> elems q \<noteq> {#} \<Longrightarrow>
      \<exists>x q'. pop q = Ok (Some (x, q')) \<and> valid q' \<and> elems q = add_mset x (elems q') \<and>
        (\<forall>y \<in># elems q'. prio y \<le> prio x)"
    and push_room: "valid q \<Longrightarrow> size (elems q) < capacity \<Longrightarrow>
      \<exists>q'. push q x = (True, q') \<and> valid q' \<and> elems q' = add_mset x (elems q)"
    and push_full: "valid q \<Longrightarrow> capacity \<le> size (elems q) \<Longrightarrow> push q x = (False, q)"
begin

text \<open>The elements in the order in which repeated calls of \<open>pop\<close> return them.\<close>

inductive served :: "'q \<Rightarrow> 'x list \<Rightarrow> bool" where
  served_Nil: "pop q = Ok None \<Longrightarrow> served q []"
| served_Cons: "pop q = Ok (Some (x, q')) \<Longrightarrow> served q' xs \<Longrightarrow> served q (x # xs)"

lemma served_order:
  assumes "served q xs" "valid q"
  shows "mset xs = elems q \<and> sorted_wrt (\<lambda>x y. prio y \<le> prio x) xs"
  using assms
proof (induction rule: served.induct)
  case (served_Nil q)
  then show ?case using pop_highest [of q] by fastforce
next
  case (served_Cons q x q' xs)
  then have "elems q \<noteq> {#}" using pop_empty by fastforce
  then have q': "valid q'" "elems q = add_mset x (elems q')" "\<forall>y \<in># elems q'. prio y \<le> prio x"
    using pop_highest [OF served_Cons.prems] served_Cons.hyps(1) by auto
  have "set xs = set_mset (elems q')"
    using served_Cons.IH [OF q'(1)] by (metis set_mset_mset)
  then show ?case using served_Cons.IH [OF q'(1)] q'(2,3) by simp
qed

lemma popped:
  assumes "valid q" "pop q = Ok (Some (x, q'))"
  shows "valid q' \<and> elems q = add_mset x (elems q')"
proof -
  have "elems q \<noteq> {#}" using assms pop_empty by fastforce
  then show ?thesis using pop_highest [OF assms(1)] assms(2) by auto
qed

lemma pop_cases:
  assumes "valid q"
  obtains (empty) "pop q = Ok None" "elems q = {#}"
  | (more) x q' where "pop q = Ok (Some (x, q'))" "valid q'" "elems q = add_mset x (elems q')"
  using pop_empty [OF assms] pop_highest [OF assms] by (cases "elems q = {#}") auto

end

lemma highest_index_upto:
  assumes "n \<le> length items" "0 < length items"
  shows "let k = foldl (\<lambda>m i. if pr_priority (items ! i) > pr_priority (items ! m) then i else m) 0 [0..<n] in
    k < length items \<and> (\<forall>j < n. pr_priority (items ! j) \<le> pr_priority (items ! k))"
  using assms by (induction n) (auto simp: Let_def less_Suc_eq)

lemma highest_index_max:
  assumes "items \<noteq> []"
  shows "highest_index items < length items"
    and "y \<in> set items \<Longrightarrow> pr_priority y \<le> pr_priority (items ! highest_index items)"
  using highest_index_upto [of "length items" items] assms
  by (auto simp: highest_index_def Let_def in_set_conv_nth)

interpretation request_queue: priority_queue "\<lambda>_. heapless_ok hv" mset pr_priority n
  "request_push hv n" "pop_highest_priority hv" for hv n
proof (unfold_locales, goal_cases)
  case (2 q)
  then have q: "q \<noteq> []" by auto
  note k = highest_index_max [OF q]
  show ?case
    using 2 q k mset_swap_removed [OF k(1)] set_swap_removed [OF k(1)]
    by (auto simp: pop_highest_priority_def)
qed (auto simp: pop_highest_priority_def request_push_def)

text \<open>Of two requests of the same priority the one that was queued first is returned.\<close>

lemma equal_priority_oldest:
  "heapless_ok hv \<Longrightarrow> pr_priority p = pr_priority q \<Longrightarrow> pop_highest_priority hv [p, q] = Ok (Some (p, [q]))"
  by (simp add: pop_highest_priority_def highest_index_def swap_removed_def upt_rec)

section \<open>Expiry\<close>

lemma kept_prefix:
  "\<forall>j<i. \<not> is_stale now d (items ! j) \<Longrightarrow> i < length items \<Longrightarrow>
   \<forall>j<i. \<not> is_stale now d (swap_removed items i ! j)"
  by (simp add: swap_removed_prefix)

lemma expiry_loops_ok:
  assumes "heapless_ok hv" "i \<le> length items" "\<forall>j<i. \<not> is_stale now d (items ! j)"
    "length expired + length items \<le> n"
  shows "\<exists>out rest. take_expired_loop hv n now d i expired items = Some (Ok (out, rest)) \<and>
    expire_loop hv now d i items = Some (Ok rest) \<and>
    mset out = mset expired + filter_mset (is_stale now d) (mset items) \<and>
    mset rest = filter_mset (\<lambda>r. \<not> is_stale now d r) (mset items)"
  using assms
proof (induction "length items - i" arbitrary: i items expired rule: less_induct)
  case less
  show ?case
  proof (cases "i < length items")
    case False
    then have "\<forall>r \<in> set items. \<not> is_stale now d r"
      using less.prems(2,3) by (auto simp: in_set_conv_nth)
    then have "filter (is_stale now d) items = []" "filter (\<lambda>r. \<not> is_stale now d r) items = items"
      by (simp_all add: filter_empty_conv)
    then show ?thesis
      using False by (subst take_expired_loop.simps, subst expire_loop.simps) (simp flip: mset_filter)
  next
    case True
    show ?thesis
    proof (cases "is_stale now d (items ! i)")
      case stale: True
      note less.hyps [of "swap_removed items i" i "expired @ [items ! i]"]
      then show ?thesis
        using less.prems True stale mset_swap_removed [OF True] kept_prefix [OF less.prems(3) True]
        by (subst take_expired_loop.simps, subst expire_loop.simps) (simp add: request_push_def)
    next
      case fresh: False
      have "\<forall>j < i + 1. \<not> is_stale now d (items ! j)"
        using less.prems(3) fresh by (simp add: less_Suc_eq)
      then show ?thesis
        using less.hyps [of items "i + 1" expired] less.prems True fresh
        by (subst take_expired_loop.simps, subst expire_loop.simps) simp
    qed
  qed
qed

lemma expiry_ok:
  assumes "heapless_ok hv" "length items \<le> n" "deadline_ms \<noteq> 0"
  shows "\<exists>expired rest. take_expired hv n items now deadline_ms = Some (Ok (expired, rest)) \<and>
    expire_stale hv items now deadline_ms = Some (Ok (length expired, rest)) \<and>
    mset expired = filter_mset (is_stale now deadline_ms) (mset items) \<and>
    mset rest = filter_mset (\<lambda>r. \<not> is_stale now deadline_ms r) (mset items)"
proof -
  obtain expired rest where loop:
      "take_expired_loop hv n now deadline_ms 0 [] items = Some (Ok (expired, rest))"
      "expire_loop hv now deadline_ms 0 items = Some (Ok rest)"
      "mset expired = filter_mset (is_stale now deadline_ms) (mset items)"
      "mset rest = filter_mset (\<lambda>r. \<not> is_stale now deadline_ms r) (mset items)"
    using expiry_loops_ok [OF assms(1), of 0 items now deadline_ms "[]" n] assms(2) by auto
  have "length items = length expired + length rest"
    using loop(3,4) by (metis multiset_partition size_mset size_union)
  then show ?thesis
    using loop assms(3) by (simp add: take_expired_def expire_stale_def)
qed

text \<open>
  C29: Expiry, in its collecting and its counting form: the loops end without a panic, every request
  older than the deadline is taken out and no other, the requests that stay are the same in both forms, and
  the number reported is the number of requests taken out.
\<close>

theorem requests_expire:
  assumes "heapless_ok hv" "length items \<le> n" "deadline_ms \<noteq> 0"
  shows "\<exists>expired rest. take_expired hv n items now deadline_ms = Some (Ok (expired, rest)) \<and>
    expire_stale hv items now deadline_ms = Some (Ok (length expired, rest)) \<and>
    mset expired = filter_mset (is_stale now deadline_ms) (mset items) \<and>
    mset rest = filter_mset (\<lambda>r. \<not> is_stale now deadline_ms r) (mset items)"
  using assms by (rule expiry_ok)

theorem requests_expire_witness:
  "let old = \<lparr>pr_frame = [1], pr_priority = PrioRead, received_at_us = 0\<rparr>;
       new = \<lparr>pr_frame = [2], pr_priority = PrioWrite, received_at_us = 9000\<rparr>
   in \<exists>expired rest. take_expired bounded_vec 4 [old, new, old] 10000 5 = Some (Ok (expired, rest)) \<and>
        expire_stale bounded_vec [old, new, old] 10000 5 = Some (Ok (length expired, rest)) \<and>
        mset expired = {#old, old#} \<and> mset rest = {#new#}"
  using requests_expire [OF bounded_vec_ok, of
      "[\<lparr>pr_frame = [1], pr_priority = PrioRead, received_at_us = 0\<rparr>,
        \<lparr>pr_frame = [2], pr_priority = PrioWrite, received_at_us = 9000\<rparr>,
        \<lparr>pr_frame = [1], pr_priority = PrioRead, received_at_us = 0\<rparr>]" 4 5 10000]
  by (simp add: is_stale_def sat_sub_def)

end
