(* ===== verification/Server_Core.thy ===== *)
theory Server_Core
  imports Server_Framing Server_Queues
begin

text \<open>
  The server's state and its send path (mbus-server/src/services/mod.rs, default features, so without
  \<open>traffic\<close>, \<open>logging\<close> and \<open>diagnostics-stats\<close>).

  \<^item> The transport and the application are implemented by the user of the library; their methods
    are fields of \<open>server_env\<close>, with the transport's error already converted into \<open>MbusError\<close>. A
    callback with an \<open>out: &mut [u8]\<close> argument gets the buffer and returns what it wrote to it;
    \<open>fill\<close> writes that into the buffer, whose length cannot change.
  \<^item> \<open>QUEUE_DEPTH\<close> is the capacity of both queues. The vector and queue operations of \<open>heapless\<close>
    are fields of \<open>server_env\<close> too.
  \<^item> \<open>clock_calls\<close> counts the calls of the clock. \<open>responses\<close> lists the responses handed to
    \<open>try_send_or_queue\<close>, in order; the code does not have these two fields.
\<close>

section \<open>State and surroundings\<close>

record ('t, 'a) ServerServices =
  own_address :: UnitIdOrSlaveAddr
  srv_app :: 'a
  srv_transport :: 't
  srv_config :: ModbusConfig
  srv_rxed_frame :: bytes
  last_recv_us :: u64
  resilience :: ResilienceConfig
  request_queue :: "PendingRequest list"
  response_queue :: "PendingResponse list"
  dropped_response_count :: u32
  rejected_request_count :: u32
  peak_response_queue_size :: usize
  listen_only_mode :: bool
  comm_event_counter :: u16
  comm_message_count :: u16
  comm_event_log :: bytes
  clock_calls :: nat
  responses :: "(u16 \<times> UnitIdOrSlaveAddr \<times> bytes) list"

record ('t, 'a) server_env =
  SRV_TRANSPORT_TYPE :: TransportType
  SUPPORTS_BROADCAST_WRITES :: bool
  srv_transport_connect :: "'t \<Rightarrow> ModbusConfig \<Rightarrow> 't \<times> (MbusError + unit)"
  srv_transport_disconnect :: "'t \<Rightarrow> 't \<times> (MbusError + unit)"
  srv_transport_send :: "'t \<Rightarrow> bytes \<Rightarrow> 't \<times> (MbusError + unit)"
  srv_transport_recv :: "'t \<Rightarrow> 't \<times> (MbusError + bytes)"
  srv_transport_is_connected :: "'t \<Rightarrow> bool"
  QUEUE_DEPTH :: usize
  srv_bytes :: "u8 heapless"
  srv_usizes :: "usize heapless"
  srv_requests :: "PendingRequest heapless"
  srv_responses :: "PendingResponse deque"
  srv_events :: "u8 deque"
  srv_read_subs :: "FileRecordReadSubRequest heapless"
  srv_write_subs :: "FileRecordWriteSubRequest heapless"
  on_exception :: "'a \<Rightarrow> u16 \<Rightarrow> UnitIdOrSlaveAddr \<Rightarrow> FunctionCode \<Rightarrow> ExceptionCode \<Rightarrow> MbusError \<Rightarrow> 'a"
  read_coils_request_cb ::
    "'a \<Rightarrow> u16 \<Rightarrow> UnitIdOrSlaveAddr \<Rightarrow> u16 \<Rightarrow> u16 \<Rightarrow> bytes \<Rightarrow> 'a \<times> bytes \<times> (MbusError + u8)"
  write_single_coil_request_cb ::
    "'a \<Rightarrow> u16 \<Rightarrow> UnitIdOrSlaveAddr \<Rightarrow> u16 \<Rightarrow> bool \<Rightarrow> 'a \<times> (MbusError + unit)"
  write_multiple_coils_request_cb ::
    "'a \<Rightarrow> u16 \<Rightarrow> UnitIdOrSlaveAddr \<Rightarrow> u16 \<Rightarrow> u16 \<Rightarrow> bytes \<Rightarrow> 'a \<times> (MbusError + unit)"
  read_discrete_inputs_request_cb ::
    "'a \<Rightarrow> u16 \<Rightarrow> UnitIdOrSlaveAddr \<Rightarrow> u16 \<Rightarrow> u16 \<Rightarrow> bytes \<Rightarrow> 'a \<times> bytes \<times> (MbusError + u8)"
  read_multiple_holding_registers_request_cb ::
    "'a \<Rightarrow> u16 \<Rightarrow> UnitIdOrSlaveAddr \<Rightarrow> u16 \<Rightarrow> u16 \<Rightarrow> bytes \<Rightarrow> 'a \<times> bytes \<times> (MbusError + u8)"
  read_multiple_input_registers_request_cb ::
    "'a \<Rightarrow> u16 \<Rightarrow> UnitIdOrSlaveAddr \<Rightarrow> u16 \<Rightarrow> u16 \<Rightarrow> bytes \<Rightarrow> 'a \<times> bytes \<times> (MbusError + u8)"
  write_single_register_request_cb ::
    "'a \<Rightarrow> u16 \<Rightarrow> UnitIdOrSlaveAddr \<Rightarrow> u16 \<Rightarrow> u16 \<Rightarrow> 'a \<times> (MbusError + unit)"
  write_multiple_registers_request_cb ::
    "'a \<Rightarrow> u16 \<Rightarrow> UnitIdOrSlaveAddr \<Rightarrow> u16 \<Rightarrow> u16 list \<Rightarrow> 'a \<times> (MbusError + unit)"
  mask_write_register_request_cb ::
    "'a \<Rightarrow> u16 \<Rightarrow> UnitIdOrSlaveAddr \<Rightarrow> u16 \<Rightarrow> u16 \<Rightarrow> u16 \<Rightarrow> 'a \<times> (MbusError + unit)"
  read_write_multiple_registers_request_cb ::
    "'a \<Rightarrow> u16 \<Rightarrow> UnitIdOrSlaveAddr \<Rightarrow> u16 \<Rightarrow> u16 \<Rightarrow> u16 \<Rightarrow> u16 list \<Rightarrow> bytes \<Rightarrow>
     'a \<times> bytes \<times> (MbusError + u8)"
  read_fifo_queue_request_cb ::
    "'a \<Rightarrow> u16 \<Rightarrow> UnitIdOrSlaveAddr \<Rightarrow> u16 \<Rightarrow> bytes \<Rightarrow> 'a \<times> bytes \<times> (MbusError + u8)"
  read_file_record_request_cb ::
    "'a \<Rightarrow> u16 \<Rightarrow> UnitIdOrSlaveAddr \<Rightarrow> u16 \<Rightarrow> u16 \<Rightarrow> u16 \<Rightarrow> bytes \<Rightarrow> 'a \<times> bytes \<times> (MbusError + u8)"
  write_file_record_request_cb ::
    "'a \<Rightarrow> u16 \<Rightarrow> UnitIdOrSlaveAddr \<Rightarrow> u16 \<Rightarrow> u16 \<Rightarrow> u16 \<Rightarrow> u16 list \<Rightarrow> 'a \<times> (MbusError + unit)"
  read_exception_status_request_cb :: "'a \<Rightarrow> u16 \<Rightarrow> UnitIdOrSlaveAddr \<Rightarrow> 'a \<times> (MbusError + u8)"
  diagnostics_request_cb ::
    "'a \<Rightarrow> u16 \<Rightarrow> UnitIdOrSlaveAddr \<Rightarrow> DiagnosticSubFunction \<Rightarrow> u16 \<Rightarrow> 'a \<times> (MbusError + u16)"
  get_comm_event_counter_request_cb ::
    "'a \<Rightarrow> u16 \<Rightarrow> UnitIdOrSlaveAddr \<Rightarrow> 'a \<times> (MbusError + (u16 \<times> u16))"
  get_comm_event_log_request_cb ::
    "'a \<Rightarrow> u16 \<Rightarrow> UnitIdOrSlaveAddr \<Rightarrow> bytes \<Rightarrow> 'a \<times> bytes \<times> (MbusError + (u16 \<times> u16 \<times> u16 \<times> u8))"
  report_server_id_request_cb ::
    "'a \<Rightarrow> u16 \<Rightarrow> UnitIdOrSlaveAddr \<Rightarrow> bytes \<Rightarrow> 'a \<times> bytes \<times> (MbusError + (u8 \<times> u8))"
  read_device_identification_request_cb ::
    "'a \<Rightarrow> u16 \<Rightarrow> UnitIdOrSlaveAddr \<Rightarrow> u8 \<Rightarrow> u8 \<Rightarrow> bytes \<Rightarrow>
     'a \<times> bytes \<times> (MbusError + (u8 \<times> u8 \<times> bool \<times> u8))"

type_synonym ('t, 'a) server = "('t, 'a) ServerServices"

definition fill :: "bytes \<Rightarrow> bytes \<Rightarrow> bytes" where
  "fill out written = take (length out) written @ drop (length written) out"

definition with_queue_depth ::
    "'t \<Rightarrow> 'a \<Rightarrow> ModbusConfig \<Rightarrow> UnitIdOrSlaveAddr \<Rightarrow> ResilienceConfig \<Rightarrow> ('t, 'a) server" where
  "with_queue_depth t a cfg addr res =
     \<lparr>own_address = addr, srv_app = a, srv_transport = t, srv_config = cfg, srv_rxed_frame = [],
      last_recv_us = 0, resilience = res, request_queue = [], response_queue = [],
      dropped_response_count = 0, rejected_request_count = 0, peak_response_queue_size = 0,
      listen_only_mode = False, comm_event_counter = 0, comm_message_count = 0, comm_event_log = [],
      clock_calls = 0, responses = []\<rparr>"

definition now_us :: "('t, 'a) server \<Rightarrow> u64 \<times> ('t, 'a) server" where
  "now_us s =
     (case clock_fn (resilience s) of
        Some f \<Rightarrow> (f (clock_calls s), s\<lparr>clock_calls := clock_calls s + 1\<rparr>)
      | None \<Rightarrow> (0, s))"

section \<open>Connecting\<close>

definition server_connect :: "('t, 'a) server_env \<Rightarrow> ('t, 'a) server \<Rightarrow> ('t, 'a) server \<times> (MbusError + unit)" where
  "server_connect e s =
     (let (t, r) = srv_transport_connect e (srv_transport s) (srv_config s)
      in (s\<lparr>srv_transport := t\<rparr>, r))"

definition server_disconnect :: "('t, 'a) server_env \<Rightarrow> ('t, 'a) server \<Rightarrow> ('t, 'a) server" where
  "server_disconnect e s =
     s\<lparr>srv_rxed_frame := [], srv_transport := fst (srv_transport_disconnect e (srv_transport s))\<rparr>"

definition server_reconnect :: "('t, 'a) server_env \<Rightarrow> ('t, 'a) server \<Rightarrow> ('t, 'a) server \<times> (MbusError + unit)" where
  "server_reconnect e s = server_connect e (server_disconnect e s)"

section \<open>Sending responses\<close>

definition handle_send_success :: "('t, 'a) server \<Rightarrow> ('t, 'a) server" where
  "handle_send_success s = snd (now_us s)"

definition queue_response_for_retry ::
    "('t, 'a) server_env \<Rightarrow> ('t, 'a) server \<Rightarrow> bytes \<Rightarrow> u16 \<Rightarrow> UnitIdOrSlaveAddr \<Rightarrow> ('t, 'a) server" where
  "queue_response_for_retry e s frame txn_id uid =
     (case hv_extend (srv_bytes e) MAX_ADU_FRAME_LEN [] frame of
        None \<Rightarrow> s
      | Some queued \<Rightarrow>
          let (queued_at, s) = now_us s;
              (pushed, q) = response_push_back (srv_responses e) (QUEUE_DEPTH e) (response_queue s)
                \<lparr>ps_frame = queued, ps_txn_id = txn_id, ps_unit = uid, retry_count = 0,
                 queued_at_us = queued_at, is_turnaround_delay = False\<rparr>
          in if pushed then s\<lparr>response_queue := q\<rparr>
             else s\<lparr>dropped_response_count := sat_add (dropped_response_count s) 1\<rparr>)"

definition update_peak_response_queue_size :: "('t, 'a) server \<Rightarrow> ('t, 'a) server" where
  "update_peak_response_queue_size s =
     (let current_size = length (response_queue s) in
      if current_size > peak_response_queue_size s
      then s\<lparr>peak_response_queue_size := current_size\<rparr> else s)"

definition handle_send_failure ::
    "('t, 'a) server_env \<Rightarrow> ('t, 'a) server \<Rightarrow> bytes \<Rightarrow> u16 \<Rightarrow> UnitIdOrSlaveAddr \<Rightarrow> ('t, 'a) server" where
  "handle_send_failure e s frame txn_id uid =
     (if QUEUE_DEPTH e > 0
      then update_peak_response_queue_size (queue_response_for_retry e s frame txn_id uid)
      else s)"

text \<open>The branch of \<open>try_send_or_queue\<close> that delays a response for the turnaround time.\<close>

definition delay_for_turnaround ::
    "('t, 'a) server_env \<Rightarrow> ('t, 'a) server \<Rightarrow> bytes \<Rightarrow> u16 \<Rightarrow> UnitIdOrSlaveAddr \<Rightarrow> ('t, 'a) server" where
  "delay_for_turnaround e s frame txn_id uid =
     (let raw_frame = (case hv_extend (srv_bytes e) MAX_ADU_FRAME_LEN [] frame of None \<Rightarrow> [] | Some f \<Rightarrow> f);
          (pushed, q) = response_push_back (srv_responses e) (QUEUE_DEPTH e) (response_queue s)
            \<lparr>ps_frame = raw_frame, ps_txn_id = txn_id, ps_unit = uid, retry_count = 0,
             queued_at_us = last_recv_us s, is_turnaround_delay = True\<rparr>
      in if pushed
         then s\<lparr>response_queue := q,
                peak_response_queue_size := max (peak_response_queue_size s) (length q)\<rparr>
         else s\<lparr>dropped_response_count := sat_add (dropped_response_count s) 1\<rparr>)"

definition try_send_or_queue ::
    "('t, 'a) server_env \<Rightarrow> ('t, 'a) server \<Rightarrow> bytes \<Rightarrow> u16 \<Rightarrow> UnitIdOrSlaveAddr \<Rightarrow> ('t, 'a) server" where
  "try_send_or_queue e s frame txn_id uid =
     (let s = s\<lparr>responses := responses s @ [(txn_id, uid, frame)]\<rparr>;
          (now, s) = now_us s
      in if turnaround_delay_us (resilience s) > 0 \<and>
            sat_sub now (last_recv_us s) < turnaround_delay_us (resilience s)
         then delay_for_turnaround e s frame txn_id uid
         else
           let (t, r) = srv_transport_send e (srv_transport s) frame;
               s = s\<lparr>srv_transport := t\<rparr>
           in case r of
                Inr _ \<Rightarrow> handle_send_success s
              | Inl _ \<Rightarrow> handle_send_failure e s frame txn_id uid)"

text \<open>
  \<open>send_exception_response\<close> and \<open>send_exception_response_for_frame\<close> differ in a \<open>traffic\<close> callback
  only. A failure to build the exception frame is logged and nothing is sent.
\<close>

definition send_exception_response ::
    "('t, 'a) server_env \<Rightarrow> ('t, 'a) server \<Rightarrow> u16 \<Rightarrow> UnitIdOrSlaveAddr \<Rightarrow> FunctionCode \<Rightarrow> MbusError \<Rightarrow>
     ('t, 'a) server result" where
  "send_exception_response e s txn_id uid fc err =
     (let exception_code = exception_code_for_error fc err;
          s = s\<lparr>srv_app := on_exception e (srv_app s) txn_id uid fc exception_code err\<rparr>
      in case build_exception_adu (srv_bytes e) txn_id uid fc exception_code (SRV_TRANSPORT_TYPE e) of
           Ok adu \<Rightarrow> Ok (try_send_or_queue e s adu txn_id uid)
         | Err _ \<Rightarrow> Ok s
         | Panic \<Rightarrow> Panic)"

text \<open>
  The pattern of the request handlers: \<open>match x { Ok(v) => v, Err(err) => {
  self.send_exception_response(.., err); return; } }\<close>, for a call that may panic and for the result
  of a callback.
\<close>

definition or_exception ::
    "('t, 'a) server_env \<Rightarrow> ('t, 'a) server \<Rightarrow> u16 \<Rightarrow> UnitIdOrSlaveAddr \<Rightarrow> FunctionCode \<Rightarrow> 'v result \<Rightarrow>
     ('v \<Rightarrow> ('t, 'a) server result) \<Rightarrow> ('t, 'a) server result" where
  "or_exception e s txn_id uid fc r k =
     (case r of
        Ok v \<Rightarrow> k v
      | Err err \<Rightarrow> send_exception_response e s txn_id uid fc err
      | Panic \<Rightarrow> Panic)"

fun from_callback :: "MbusError + 'v \<Rightarrow> 'v result" where
  "from_callback (Inl err) = Err err"
| "from_callback (Inr v) = Ok v"

text \<open>The end of every handler: build the response, or an exception when that fails, and send it.\<close>

definition respond ::
    "('t, 'a) server_env \<Rightarrow> ('t, 'a) server \<Rightarrow> u16 \<Rightarrow> UnitIdOrSlaveAddr \<Rightarrow> FunctionCode \<Rightarrow> bytes result \<Rightarrow>
     ('t, 'a) server result" where
  "respond e s txn_id uid fc r =
     or_exception e s txn_id uid fc r (\<lambda>frame. Ok (try_send_or_queue e s frame txn_id uid))"

end
