(* ===== verification/Server_Handlers.thy ===== *)
theory Server_Handlers
  imports Server_Core Data_Models Device_Id
begin

text \<open>
  The request handlers of the server (mbus-server/src/services: coils, discrete_input, register, fifo,
  file_record, diagnostics and device_info). A handler returns the server after it, or \<open>Panic\<close>.
\<close>

text \<open>\<open>a.checked_add(b).is_none()\<close>\<close>

definition add_overflows :: "u16 \<Rightarrow> u16 \<Rightarrow> bool" where
  "add_overflows a b \<longleftrightarrow> unat a + unat b \<ge> 2 ^ 16"

definition packed_bit_len :: "u16 \<Rightarrow> usize" where
  "packed_bit_len quantity = div_ceil (unat quantity) 8"

text \<open>The register array of \<open>n\<close> words with the big-endian words of \<open>vals\<close> stored at its front.\<close>

definition decode_registers :: "usize \<Rightarrow> bytes \<Rightarrow> u16 list result" where
  "decode_registers n vals = store_registers (replicate n 0) 0 (chunks_exact2 vals)"

section \<open>Coils\<close>

definition handle_read_coils_request ::
    "('t, 'a) server_env \<Rightarrow> ('t, 'a) server \<Rightarrow> u16 \<Rightarrow> UnitIdOrSlaveAddr \<Rightarrow> ModbusMessage \<Rightarrow>
     ('t, 'a) server result" where
  "handle_read_coils_request e s txn uid m =
     or_exception e s txn uid ReadCoils (parse_read_window m) (\<lambda>(address, quantity).
     if \<not> (1 \<le> quantity \<and> quantity \<le> 2000) then
       send_exception_response e s txn uid ReadCoils InvalidQuantity
     else if add_overflows address (quantity - 1) then
       send_exception_response e s txn uid ReadCoils InvalidAddress
     else
       let expected_len = packed_bit_len quantity;
           buf = replicate MAX_PDU_DATA_LEN 0;
           (a, out, r) = read_coils_request_cb e (srv_app s) txn uid address quantity buf;
           s = s\<lparr>srv_app := a\<rparr>;
           buf = fill buf out
       in or_exception e s txn uid ReadCoils (from_callback r) (\<lambda>len.
          if unat len > length buf \<or> len \<noteq> of_nat expected_len then
            send_exception_response e s txn uid ReadCoils InvalidByteCount
          else
            bind_res (slice_to buf (unat len)) (\<lambda>payload.
            respond e s txn uid ReadCoils
              (build_byte_count_prefixed_response (srv_bytes e) (SRV_TRANSPORT_TYPE e) txn uid
                 ReadCoils payload))))"

fun coil_value :: "u16 \<Rightarrow> bool option" where
  "coil_value raw_value =
     (if raw_value = 0xFF00 then Some True else if raw_value = 0x0000 then Some False else None)"

definition handle_write_single_coil_request ::
    "('t, 'a) server_env \<Rightarrow> ('t, 'a) server \<Rightarrow> u16 \<Rightarrow> UnitIdOrSlaveAddr \<Rightarrow> ModbusMessage \<Rightarrow>
     ('t, 'a) server result" where
  "handle_write_single_coil_request e s txn uid m =
     or_exception e s txn uid WriteSingleCoil (parse_write_single_request m) (\<lambda>(address, raw_value).
     case coil_value raw_value of
       None \<Rightarrow> send_exception_response e s txn uid WriteSingleCoil InvalidValue
     | Some v \<Rightarrow>
         let (a, r) = write_single_coil_request_cb e (srv_app s) txn uid address v;
             s = s\<lparr>srv_app := a\<rparr>
         in or_exception e s txn uid WriteSingleCoil (from_callback r) (\<lambda>_.
            respond e s txn uid WriteSingleCoil
              (build_echo_u16_response (srv_bytes e) (SRV_TRANSPORT_TYPE e) txn uid WriteSingleCoil
                 address raw_value)))"

text \<open>
  A broadcast handler ignores every error. \<open>ignore_errors\<close> is its \<open>match x { Ok(v) => v, Err(_) =>
  return }\<close>.
\<close>

definition ignore_errors ::
    "('t, 'a) server \<Rightarrow> 'v result \<Rightarrow> ('v \<Rightarrow> ('t, 'a) server result) \<Rightarrow> ('t, 'a) server result" where
  "ignore_errors s r k = (case r of Ok v \<Rightarrow> k v | Err _ \<Rightarrow> Ok s | Panic \<Rightarrow> Panic)"

definition handle_broadcast_write_single_coil_request ::
    "('t, 'a) server_env \<Rightarrow> ('t, 'a) server \<Rightarrow> ModbusMessage \<Rightarrow> ('t, 'a) server result" where
  "handle_broadcast_write_single_coil_request e s m =
     (let txn = message_transaction_id m; uid = unit_id_or_slave_addr m in
      ignore_errors s (parse_write_single_request m) (\<lambda>(address, raw_value).
      case coil_value raw_value of
        None \<Rightarrow> Ok s
      | Some v \<Rightarrow>
          let (a, r) = write_single_coil_request_cb e (srv_app s) txn uid address v
          in Ok (s\<lparr>srv_app := a\<rparr>)))"

text \<open>The validation that \<open>handle_write_multiple_coils_request\<close> and its broadcast form share.\<close>

definition check_write_coils :: "u16 \<Rightarrow> u16 \<Rightarrow> u8 \<Rightarrow> bytes \<Rightarrow> unit result" where
  "check_write_coils address quantity bc vals =
     (if \<not> (1 \<le> quantity \<and> quantity \<le> 1968) then Err InvalidQuantity
      else if add_overflows address (quantity - 1) then Err InvalidAddress
      else
        let expected_byte_count = packed_bit_len quantity in
        if unat bc \<noteq> expected_byte_count \<or> length vals \<noteq> expected_byte_count
        then Err InvalidByteCount
        else Ok ())"

definition handle_write_multiple_coils_request ::
    "('t, 'a) server_env \<Rightarrow> ('t, 'a) server \<Rightarrow> u16 \<Rightarrow> UnitIdOrSlaveAddr \<Rightarrow> ModbusMessage \<Rightarrow>
     ('t, 'a) server result" where
  "handle_write_multiple_coils_request e s txn uid m =
     or_exception e s txn uid WriteMultipleCoils (parse_write_multiple_request m)
       (\<lambda>(address, quantity, bc, vals).
     or_exception e s txn uid WriteMultipleCoils (check_write_coils address quantity bc vals) (\<lambda>_.
     let (a, r) = write_multiple_coils_request_cb e (srv_app s) txn uid address quantity vals;
         s = s\<lparr>srv_app := a\<rparr>
     in or_exception e s txn uid WriteMultipleCoils (from_callback r) (\<lambda>_.
        respond e s txn uid WriteMultipleCoils
          (build_echo_u16_response (srv_bytes e) (SRV_TRANSPORT_TYPE e) txn uid WriteMultipleCoils
             address quantity))))"

definition handle_broadcast_write_multiple_coils_request ::
    "('t, 'a) server_env \<Rightarrow> ('t, 'a) server \<Rightarrow> ModbusMessage \<Rightarrow> ('t, 'a) server result" where
  "handle_broadcast_write_multiple_coils_request e s m =
     (let txn = message_transaction_id m; uid = unit_id_or_slave_addr m in
      ignore_errors s (parse_write_multiple_request m) (\<lambda>(address, quantity, bc, vals).
      ignore_errors s (check_write_coils address quantity bc vals) (\<lambda>_.
      let (a, r) = write_multiple_coils_request_cb e (srv_app s) txn uid address quantity vals
      in Ok (s\<lparr>srv_app := a\<rparr>))))"

section \<open>Discrete inputs\<close>

definition handle_read_discrete_inputs_request ::
    "('t, 'a) server_env \<Rightarrow> ('t, 'a) server \<Rightarrow> u16 \<Rightarrow> UnitIdOrSlaveAddr \<Rightarrow> ModbusMessage \<Rightarrow>
     ('t, 'a) server result" where
  "handle_read_discrete_inputs_request e s txn uid m =
     or_exception e s txn uid ReadDiscreteInputs (parse_read_window m) (\<lambda>(address, quantity).
     if \<not> (1 \<le> quantity \<and> quantity \<le> 2000) then
       send_exception_response e s txn uid ReadDiscreteInputs InvalidQuantity
     else if add_overflows address (quantity - 1) then
       send_exception_response e s txn uid ReadDiscreteInputs InvalidAddress
     else
       let expected_len = packed_bit_len quantity;
           buf = replicate MAX_PDU_DATA_LEN 0;
           (a, out, r) = read_discrete_inputs_request_cb e (srv_app s) txn uid address quantity buf;
           s = s\<lparr>srv_app := a\<rparr>;
           buf = fill buf out
       in or_exception e s txn uid ReadDiscreteInputs (from_callback r) (\<lambda>len.
          if unat len > length buf \<or> len \<noteq> of_nat expected_len then
            send_exception_response e s txn uid ReadDiscreteInputs InvalidByteCount
          else
            bind_res (slice_to buf (unat len)) (\<lambda>payload.
            respond e s txn uid ReadDiscreteInputs
              (build_byte_count_prefixed_response (srv_bytes e) (SRV_TRANSPORT_TYPE e) txn uid
                 ReadDiscreteInputs payload))))"

section \<open>Registers\<close>

definition handle_register_read ::
    "('t, 'a) server_env \<Rightarrow> ('t, 'a) server \<Rightarrow> u16 \<Rightarrow> UnitIdOrSlaveAddr \<Rightarrow> ModbusMessage \<Rightarrow> FunctionCode \<Rightarrow>
     u16 \<Rightarrow> u16 \<Rightarrow> ('a \<Rightarrow> u16 \<Rightarrow> u16 \<Rightarrow> bytes \<Rightarrow> 'a \<times> bytes \<times> (MbusError + u8)) \<Rightarrow> ('t, 'a) server result" where
  "handle_register_read e s txn uid m fc min_quantity max_quantity callback =
     or_exception e s txn uid fc (parse_read_window m) (\<lambda>(address, quantity).
     if \<not> (min_quantity \<le> quantity \<and> quantity \<le> max_quantity) then
       send_exception_response e s txn uid fc InvalidQuantity
     else if add_overflows address (quantity - 1) then
       send_exception_response e s txn uid fc InvalidAddress
     else
       let buf = replicate MAX_PDU_DATA_LEN 0;
           (a, out, r) = callback (srv_app s) address quantity buf;
           s = s\<lparr>srv_app := a\<rparr>;
           buf = fill buf out
       in or_exception e s txn uid fc (from_callback r) (\<lambda>len.
          let expected_len = unat quantity * 2 in
          if unat len > length buf \<or> unat len \<noteq> expected_len then
            send_exception_response e s txn uid fc InvalidByteCount
          else
            bind_res (slice_to buf (unat len)) (\<lambda>payload.
            respond e s txn uid fc
              (build_byte_count_prefixed_response (srv_bytes e) (SRV_TRANSPORT_TYPE e) txn uid fc
                 payload))))"

definition handle_read_holding_registers_request ::
    "('t, 'a) server_env \<Rightarrow> ('t, 'a) server \<Rightarrow> u16 \<Rightarrow> UnitIdOrSlaveAddr \<Rightarrow> ModbusMessage \<Rightarrow>
     ('t, 'a) server result" where
  "handle_read_holding_registers_request e s txn uid m =
     handle_register_read e s txn uid m ReadHoldingRegisters 1 125
       (\<lambda>a. read_multiple_holding_registers_request_cb e a txn uid)"

definition handle_read_input_registers_request ::
    "('t, 'a) server_env \<Rightarrow> ('t, 'a) server \<Rightarrow> u16 \<Rightarrow> UnitIdOrSlaveAddr \<Rightarrow> ModbusMessage \<Rightarrow>
     ('t, 'a) server result" where
  "handle_read_input_registers_request e s txn uid m =
     handle_register_read e s txn uid m ReadInputRegisters 1 125
       (\<lambda>a. read_multiple_input_registers_request_cb e a txn uid)"

definition handle_write_single_register_request ::
    "('t, 'a) server_env \<Rightarrow> ('t, 'a) server \<Rightarrow> u16 \<Rightarrow> UnitIdOrSlaveAddr \<Rightarrow> ModbusMessage \<Rightarrow>
     ('t, 'a) server result" where
  "handle_write_single_register_request e s txn uid m =
     or_exception e s txn uid WriteSingleRegister (parse_write_single_request m) (\<lambda>(address, v).
     let (a, r) = write_single_register_request_cb e (srv_app s) txn uid address v;
         s = s\<lparr>srv_app := a\<rparr>
     in or_exception e s txn uid WriteSingleRegister (from_callback r) (\<lambda>_.
        respond e s txn uid WriteSingleRegister
          (build_echo_u16_response (srv_bytes e) (SRV_TRANSPORT_TYPE e) txn uid WriteSingleRegister
             address v)))"

definition handle_broadcast_write_single_register_request ::
    "('t, 'a) server_env \<Rightarrow> ('t, 'a) server \<Rightarrow> ModbusMessage \<Rightarrow> ('t, 'a) server result" where
  "handle_broadcast_write_single_register_request e s m =
     (let txn = message_transaction_id m; uid = unit_id_or_slave_addr m in
      ignore_errors s (parse_write_single_request m) (\<lambda>(address, v).
      let (a, r) = write_single_register_request_cb e (srv_app s) txn uid address v
      in Ok (s\<lparr>srv_app := a\<rparr>)))"

text \<open>The validation that \<open>handle_write_multiple_registers_request\<close> and its broadcast form share.\<close>

definition check_write_registers :: "u16 \<Rightarrow> u16 \<Rightarrow> u8 \<Rightarrow> bytes \<Rightarrow> unit result" where
  "check_write_registers address quantity bc vals =
     (if \<not> (1 \<le> quantity \<and> quantity \<le> 123) then Err InvalidQuantity
      else if add_overflows address (quantity - 1) then Err InvalidAddress
      else
        let expected_byte_count = unat quantity * 2 in
        if unat bc \<noteq> expected_byte_count \<or> length vals \<noteq> expected_byte_count
        then Err InvalidByteCount
        else Ok ())"

definition handle_write_multiple_registers_request ::
    "('t, 'a) server_env \<Rightarrow> ('t, 'a) server \<Rightarrow> u16 \<Rightarrow> UnitIdOrSlaveAddr \<Rightarrow> ModbusMessage \<Rightarrow>
     ('t, 'a) server result" where
  "handle_write_multiple_registers_request e s txn uid m =
     or_exception e s txn uid WriteMultipleRegisters (parse_write_multiple_request m)
       (\<lambda>(address, quantity, bc, vals).
     or_exception e s txn uid WriteMultipleRegisters (check_write_registers address quantity bc vals) (\<lambda>_.
     bind_res (decode_registers 123 vals) (\<lambda>registers.
     bind_res (slice_to registers (unat quantity)) (\<lambda>ws.
     let (a, r) = write_multiple_registers_request_cb e (srv_app s) txn uid address ws;
         s = s\<lparr>srv_app := a\<rparr>
     in or_exception e s txn uid WriteMultipleRegisters (from_callback r) (\<lambda>_.
        respond e s txn uid WriteMultipleRegisters
          (build_echo_u16_response (srv_bytes e) (SRV_TRANSPORT_TYPE e) txn uid WriteMultipleRegisters
             address quantity))))))"

definition handle_broadcast_write_multiple_registers_request ::
    "('t, 'a) server_env \<Rightarrow> ('t, 'a) server \<Rightarrow> ModbusMessage \<Rightarrow> ('t, 'a) server result" where
  "handle_broadcast_write_multiple_registers_request e s m =
     (let txn = message_transaction_id m; uid = unit_id_or_slave_addr m in
      ignore_errors s (parse_write_multiple_request m) (\<lambda>(address, quantity, bc, vals).
      ignore_errors s (check_write_registers address quantity bc vals) (\<lambda>_.
      bind_res (decode_registers 123 vals) (\<lambda>registers.
      bind_res (slice_to registers (unat quantity)) (\<lambda>ws.
      let (a, r) = write_multiple_registers_request_cb e (srv_app s) txn uid address ws
      in Ok (s\<lparr>srv_app := a\<rparr>))))))"

definition handle_mask_write_register_request ::
    "('t, 'a) server_env \<Rightarrow> ('t, 'a) server \<Rightarrow> u16 \<Rightarrow> UnitIdOrSlaveAddr \<Rightarrow> ModbusMessage \<Rightarrow>
     ('t, 'a) server result" where
  "handle_mask_write_register_request e s txn uid m =
     or_exception e s txn uid MaskWriteRegister (parse_mask_write_request m)
       (\<lambda>(address, and_mask, or_mask).
     let (a, r) = mask_write_register_request_cb e (srv_app s) txn uid address and_mask or_mask;
         s = s\<lparr>srv_app := a\<rparr>
     in or_exception e s txn uid MaskWriteRegister (from_callback r) (\<lambda>_.
        respond e s txn uid MaskWriteRegister
          (build_mask_write_echo_response (srv_bytes e) (SRV_TRANSPORT_TYPE e) txn uid address
             and_mask or_mask)))"

definition handle_read_write_multiple_registers_request ::
    "('t, 'a) server_env \<Rightarrow> ('t, 'a) server \<Rightarrow> u16 \<Rightarrow> UnitIdOrSlaveAddr \<Rightarrow> ModbusMessage \<Rightarrow>
     ('t, 'a) server result" where
  "handle_read_write_multiple_registers_request e s txn uid m =
     (let fc = ReadWriteMultipleRegisters in
      or_exception e s txn uid fc (parse_read_write_multiple_request m) (\<lambda>fields.
      if \<not> (1 \<le> rwm_read_quantity fields \<and> rwm_read_quantity fields \<le> 125) then
        send_exception_response e s txn uid fc InvalidQuantity
      else if \<not> (1 \<le> rwm_write_quantity fields \<and> rwm_write_quantity fields \<le> 121) then
        send_exception_response e s txn uid fc InvalidQuantity
      else if add_overflows (rwm_read_address fields) (rwm_read_quantity fields - 1) then
        send_exception_response e s txn uid fc InvalidAddress
      else if add_overflows (rwm_write_address fields) (rwm_write_quantity fields - 1) then
        send_exception_response e s txn uid fc InvalidAddress
      else
        let expected_write_byte_count = unat (rwm_write_quantity fields) * 2 in
        if unat (rwm_write_byte_count fields) \<noteq> expected_write_byte_count \<or>
           length (rwm_write_values fields) \<noteq> expected_write_byte_count then
          send_exception_response e s txn uid fc InvalidByteCount
        else
          bind_res (decode_registers 121 (rwm_write_values fields)) (\<lambda>write_registers.
          bind_res (slice_to write_registers (unat (rwm_write_quantity fields))) (\<lambda>ws.
          let buf = replicate MAX_PDU_DATA_LEN 0;
              (a, out, r) = read_write_multiple_registers_request_cb e (srv_app s) txn uid
                (rwm_read_address fields) (rwm_read_quantity fields) (rwm_write_address fields) ws buf;
              s = s\<lparr>srv_app := a\<rparr>;
              buf = fill buf out
          in or_exception e s txn uid fc (from_callback r) (\<lambda>len.
             let expected_read_len = unat (rwm_read_quantity fields) * 2 in
             if unat len > length buf \<or> unat len \<noteq> expected_read_len then
               send_exception_response e s txn uid fc InvalidByteCount
             else
               bind_res (slice_to buf (unat len)) (\<lambda>payload.
               respond e s txn uid fc
                 (build_byte_count_prefixed_response (srv_bytes e) (SRV_TRANSPORT_TYPE e) txn uid fc
                    payload)))))))"

section \<open>FIFO queues\<close>

definition handle_read_fifo_queue_request ::
    "('t, 'a) server_env \<Rightarrow> ('t, 'a) server \<Rightarrow> u16 \<Rightarrow> UnitIdOrSlaveAddr \<Rightarrow> ModbusMessage \<Rightarrow>
     ('t, 'a) server result" where
  "handle_read_fifo_queue_request e s txn uid m =
     or_exception e s txn uid ReadFifoQueue (parse_read_fifo_pointer_request m) (\<lambda>pointer_address.
     let buf = replicate MAX_PDU_DATA_LEN 0;
         (a, out, r) = read_fifo_queue_request_cb e (srv_app s) txn uid pointer_address buf;
         s = s\<lparr>srv_app := a\<rparr>;
         buf = fill buf out
     in or_exception e s txn uid ReadFifoQueue (from_callback r) (\<lambda>n.
        let returned_len = unat n in
        if returned_len < 2 then send_exception_response e s txn uid ReadFifoQueue InvalidByteCount
        else
          bind_res (be16_at buf 0) (\<lambda>fifo_count.
          if fifo_count > 31 then send_exception_response e s txn uid ReadFifoQueue InvalidQuantity
          else
            let expected_len = 2 + unat fifo_count * 2 in
            if returned_len \<noteq> expected_len then
              send_exception_response e s txn uid ReadFifoQueue InvalidByteCount
            else
              bind_res (slice_to buf returned_len) (\<lambda>payload.
              respond e s txn uid ReadFifoQueue
                (build_fifo_response (srv_bytes e) (SRV_TRANSPORT_TYPE e) txn uid payload)))))"

end
