(* ===== verification/Server_Diagnostics.thy ===== *)
theory Server_Diagnostics
  imports Server_Handlers
begin

text \<open>
  The handlers for file records, diagnostics and device identification
  (mbus-server/src/services: file_record, diagnostics and device_info).
\<close>

section \<open>File records\<close>

text \<open>
  The loop of \<open>handle_read_file_record_request\<close> over the sub-requests, followed by the response. The
  \<open>usize::checked_add\<close> calls of the code cannot overflow: a record has at most 131070 bytes.
\<close>

fun read_records_loop ::
    "('t, 'a) server_env \<Rightarrow> ('t, 'a) server \<Rightarrow> u16 \<Rightarrow> UnitIdOrSlaveAddr \<Rightarrow> bytes \<Rightarrow> bytes \<Rightarrow>
     FileRecordReadSubRequest list \<Rightarrow> ('t, 'a) server result" where
  "read_records_loop e s txn uid payload app_out [] =
     respond e s txn uid ReadFileRecord
       (build_file_record_read_response (srv_bytes e) (SRV_TRANSPORT_TYPE e) txn uid payload)"
| "read_records_loop e s txn uid payload app_out (sub # subs) =
     (if add_overflows (frr_record_number sub) (sat_sub (frr_record_length sub) 1) then
        send_exception_response e s txn uid ReadFileRecord InvalidAddress
      else
        let (a, out, r) = read_file_record_request_cb e (srv_app s) txn uid (frr_file_number sub)
              (frr_record_number sub) (frr_record_length sub) app_out;
            s = s\<lparr>srv_app := a\<rparr>;
            app_out = fill app_out out
        in or_exception e s txn uid ReadFileRecord (from_callback r) (\<lambda>written.
           let expected_data_len = unat (frr_record_length sub) * 2 in
           if unat written \<noteq> expected_data_len \<or> expected_data_len > length app_out then
             send_exception_response e s txn uid ReadFileRecord InvalidByteCount
           else
             let sub_len = 1 + expected_data_len in
             if sub_len > 255 then send_exception_response e s txn uid ReadFileRecord InvalidByteCount
             else if length payload + (1 + sub_len) > 251 then
               send_exception_response e s txn uid ReadFileRecord FileReadPduOverflow
             else
               bind_res (slice_to app_out (unat written)) (\<lambda>record.
               or_exception e s txn uid ReadFileRecord
                 (bind_res (push_or (srv_bytes e) MAX_PDU_DATA_LEN BufferTooSmall payload (of_nat sub_len)) (\<lambda>payload.
                  bind_res (push_or (srv_bytes e) MAX_PDU_DATA_LEN BufferTooSmall payload FILE_RECORD_REF_TYPE) (\<lambda>payload.
                  extend_or (srv_bytes e) MAX_PDU_DATA_LEN BufferTooSmall payload record))) (\<lambda>payload.
               read_records_loop e s txn uid payload app_out subs))))"

definition handle_read_file_record_request ::
    "('t, 'a) server_env \<Rightarrow> ('t, 'a) server \<Rightarrow> u16 \<Rightarrow> UnitIdOrSlaveAddr \<Rightarrow> ModbusMessage \<Rightarrow>
     ('t, 'a) server result" where
  "handle_read_file_record_request e s txn uid m =
     or_exception e s txn uid ReadFileRecord (parse_file_record_read_request (srv_read_subs e) m) (\<lambda>subs.
     read_records_loop e s txn uid [] (replicate MAX_PDU_DATA_LEN 0) subs)"

text \<open>The loop of \<open>handle_write_file_record_request\<close>, followed by the echo of the request data.\<close>

fun write_records_loop ::
    "('t, 'a) server_env \<Rightarrow> ('t, 'a) server \<Rightarrow> u16 \<Rightarrow> UnitIdOrSlaveAddr \<Rightarrow> ModbusMessage \<Rightarrow> u16 list \<Rightarrow>
     FileRecordWriteSubRequest list \<Rightarrow> ('t, 'a) server result" where
  "write_records_loop e s txn uid m registers [] =
     bind_res (slice_to (data (pdu m)) (unat (data_len (pdu m)))) (\<lambda>pdu_data.
     respond e s txn uid WriteFileRecord
       (build_file_record_write_echo_response (srv_bytes e) (SRV_TRANSPORT_TYPE e) txn uid pdu_data))"
| "write_records_loop e s txn uid m registers (sub # subs) =
     (if add_overflows (frw_record_number sub) (sat_sub (frw_record_length sub) 1) then
        send_exception_response e s txn uid WriteFileRecord InvalidAddress
      else if length (frw_record_data_bytes sub) \<noteq> unat (frw_record_length sub) * 2 then
        send_exception_response e s txn uid WriteFileRecord InvalidByteCount
      else
        bind_res (store_registers registers 0 (chunks_exact2 (frw_record_data_bytes sub))) (\<lambda>registers.
        bind_res (slice_to registers (unat (frw_record_length sub))) (\<lambda>ws.
        let (a, r) = write_file_record_request_cb e (srv_app s) txn uid (frw_file_number sub)
              (frw_record_number sub) (frw_record_length sub) ws;
            s = s\<lparr>srv_app := a\<rparr>
        in or_exception e s txn uid WriteFileRecord (from_callback r) (\<lambda>_.
           write_records_loop e s txn uid m registers subs))))"

definition handle_write_file_record_request ::
    "('t, 'a) server_env \<Rightarrow> ('t, 'a) server \<Rightarrow> u16 \<Rightarrow> UnitIdOrSlaveAddr \<Rightarrow> ModbusMessage \<Rightarrow>
     ('t, 'a) server result" where
  "handle_write_file_record_request e s txn uid m =
     or_exception e s txn uid WriteFileRecord (parse_file_record_write_request (srv_write_subs e) m) (\<lambda>subs.
     write_records_loop e s txn uid m (replicate (MAX_PDU_DATA_LEN div 2) 0) subs)"

section \<open>Diagnostics\<close>

definition handle_read_exception_status_request ::
    "('t, 'a) server_env \<Rightarrow> ('t, 'a) server \<Rightarrow> u16 \<Rightarrow> UnitIdOrSlaveAddr \<Rightarrow> ModbusMessage \<Rightarrow>
     ('t, 'a) server result" where
  "handle_read_exception_status_request e s txn uid m =
     (let fc = ReadExceptionStatus in
      if \<not> is_serial_type (SRV_TRANSPORT_TYPE e) then
        send_exception_response e s txn uid fc InvalidFunctionCode
      else
        or_exception e s txn uid fc (parse_empty_request m) (\<lambda>_.
        let (a, r) = read_exception_status_request_cb e (srv_app s) txn uid;
            s = s\<lparr>srv_app := a\<rparr>
        in or_exception e s txn uid fc (from_callback r) (\<lambda>status.
           respond e s txn uid fc
             (build_single_byte_response (srv_bytes e) (SRV_TRANSPORT_TYPE e) txn uid fc status))))"

text \<open>\<open>Err(MbusError::InvalidFunctionCode) => default\<close>\<close>

fun or_default :: "'v \<Rightarrow> 'v result \<Rightarrow> 'v result" where
  "or_default d (Err InvalidFunctionCode) = Ok d"
| "or_default d r = r"

definition handle_get_comm_event_counter_request ::
    "('t, 'a) server_env \<Rightarrow> ('t, 'a) server \<Rightarrow> u16 \<Rightarrow> UnitIdOrSlaveAddr \<Rightarrow> ModbusMessage \<Rightarrow>
     ('t, 'a) server result" where
  "handle_get_comm_event_counter_request e s txn uid m =
     (let fc = GetCommEventCounter in
      if \<not> is_serial_type (SRV_TRANSPORT_TYPE e) then
        send_exception_response e s txn uid fc InvalidFunctionCode
      else
        or_exception e s txn uid fc (parse_empty_request m) (\<lambda>_.
        let dflt = (0x8000, comm_event_counter s);
            (a, r) = get_comm_event_counter_request_cb e (srv_app s) txn uid;
            s = s\<lparr>srv_app := a\<rparr>
        in or_exception e s txn uid fc (or_default dflt (from_callback r)) (\<lambda>(status_word, event_count).
           respond e s txn uid fc
             (build_two_u16_response (srv_bytes e) (SRV_TRANSPORT_TYPE e) txn uid fc status_word
                event_count))))"

text \<open>The loop that copies the event log into an array of 64 bytes, with the number of bytes copied.\<close>

fun copy_events :: "bytes \<Rightarrow> u8 \<Rightarrow> bytes \<Rightarrow> (bytes \<times> u8) result" where
  "copy_events events len [] = Ok (events, len)"
| "copy_events events len (event # rest) =
     bind_res (store events (unat len) event) (\<lambda>events. copy_events events (sat_add len 1) rest)"

definition handle_get_comm_event_log_request ::
    "('t, 'a) server_env \<Rightarrow> ('t, 'a) server \<Rightarrow> u16 \<Rightarrow> UnitIdOrSlaveAddr \<Rightarrow> ModbusMessage \<Rightarrow>
     ('t, 'a) server result" where
  "handle_get_comm_event_log_request e s txn uid m =
     (let fc = GetCommEventLog in
      if \<not> is_serial_type (SRV_TRANSPORT_TYPE e) then
        send_exception_response e s txn uid fc InvalidFunctionCode
      else
        or_exception e s txn uid fc (parse_empty_request m) (\<lambda>_.
        bind_res (copy_events (replicate 64 0) 0 (comm_event_log s)) (\<lambda>(default_events, default_event_len).
        let app_events = replicate 64 0;
            (a, out, r) = get_comm_event_log_request_cb e (srv_app s) txn uid app_events;
            app_events = fill app_events out;
            chosen =
              (case from_callback r of
                 Ok (status, event_count, message_count, event_len) \<Rightarrow>
                   bind_res (slice_to app_events (unat (min event_len 64))) (\<lambda>ev.
                   Ok (status, event_count, message_count, ev))
               | Err err \<Rightarrow>
                   if err = InvalidFunctionCode then
                     bind_res (slice_to default_events (unat default_event_len)) (\<lambda>ev.
                     Ok (0x8000, comm_event_counter s, comm_message_count s, ev))
                   else Err err
               | Panic \<Rightarrow> Panic);
            s = s\<lparr>srv_app := a\<rparr>;
            hv = srv_bytes e
        in or_exception e s txn uid fc chosen (\<lambda>(status_word, event_count, message_count, events).
           or_exception e s txn uid fc
             (bind_res (extend_or hv MAX_PDU_DATA_LEN BufferTooSmall [] (u16_to_be_bytes status_word)) (\<lambda>p.
              bind_res (extend_or hv MAX_PDU_DATA_LEN BufferTooSmall p (u16_to_be_bytes event_count)) (\<lambda>p.
              bind_res (extend_or hv MAX_PDU_DATA_LEN BufferTooSmall p (u16_to_be_bytes message_count)) (\<lambda>p.
              extend_or hv MAX_PDU_DATA_LEN BufferTooSmall p events)))) (\<lambda>payload.
           respond e s txn uid fc
             (build_byte_count_prefixed_response hv (SRV_TRANSPORT_TYPE e) txn uid fc payload))))))"

definition handle_report_server_id_request ::
    "('t, 'a) server_env \<Rightarrow> ('t, 'a) server \<Rightarrow> u16 \<Rightarrow> UnitIdOrSlaveAddr \<Rightarrow> ModbusMessage \<Rightarrow>
     ('t, 'a) server result" where
  "handle_report_server_id_request e s txn uid m =
     (let fc = ReportServerId in
      if \<not> is_serial_type (SRV_TRANSPORT_TYPE e) then
        send_exception_response e s txn uid fc InvalidFunctionCode
      else
        or_exception e s txn uid fc (parse_empty_request m) (\<lambda>_.
        let server_id_bytes = replicate (MAX_PDU_DATA_LEN - 2) 0;
            (a, out, r) = report_server_id_request_cb e (srv_app s) txn uid server_id_bytes;
            s = s\<lparr>srv_app := a\<rparr>;
            server_id_bytes = fill server_id_bytes out
        in or_exception e s txn uid fc (from_callback r) (\<lambda>(server_id_len, run_indicator_status).
           let server_id_len = min (unat server_id_len) (length server_id_bytes) in
           bind_res (slice_to server_id_bytes server_id_len) (\<lambda>server_id.
           or_exception e s txn uid fc
             (bind_res (extend_or (srv_bytes e) MAX_PDU_DATA_LEN BufferTooSmall [] server_id) (\<lambda>p.
              push_or (srv_bytes e) MAX_PDU_DATA_LEN BufferTooSmall p run_indicator_status)) (\<lambda>payload.
           respond e s txn uid fc
             (build_byte_count_prefixed_response (srv_bytes e) (SRV_TRANSPORT_TYPE e) txn uid fc
                payload))))))"

definition send_diagnostics_value_response ::
    "('t, 'a) server_env \<Rightarrow> ('t, 'a) server \<Rightarrow> u16 \<Rightarrow> UnitIdOrSlaveAddr \<Rightarrow> u16 \<Rightarrow> u16 \<Rightarrow>
     ('t, 'a) server result" where
  "send_diagnostics_value_response e s txn uid sub_function_raw v =
     respond e s txn uid Diagnostics
       (build_diagnostics_response (srv_bytes e) (SRV_TRANSPORT_TYPE e) txn uid sub_function_raw v)"

definition enable_listen_only_mode :: "('t, 'a) server \<Rightarrow> ('t, 'a) server" where
  "enable_listen_only_mode s = s\<lparr>listen_only_mode := True\<rparr>"

definition forward_diagnostics_to_app ::
    "('t, 'a) server_env \<Rightarrow> ('t, 'a) server \<Rightarrow> u16 \<Rightarrow> UnitIdOrSlaveAddr \<Rightarrow> DiagnosticSubFunction \<Rightarrow> u16 \<Rightarrow>
     u16 \<Rightarrow> ('t, 'a) server result" where
  "forward_diagnostics_to_app e s txn uid sub_function sub_function_raw d =
     (let (a, r) = diagnostics_request_cb e (srv_app s) txn uid sub_function d;
          s = s\<lparr>srv_app := a\<rparr>
      in or_exception e s txn uid Diagnostics (from_callback r) (\<lambda>v.
         send_diagnostics_value_response e s txn uid sub_function_raw v))"

definition dispatch_diagnostics_sub_function ::
    "('t, 'a) server_env \<Rightarrow> ('t, 'a) server \<Rightarrow> u16 \<Rightarrow> UnitIdOrSlaveAddr \<Rightarrow> DiagnosticSubFunction \<Rightarrow> u16 \<Rightarrow>
     u16 \<Rightarrow> ('t, 'a) server result" where
  "dispatch_diagnostics_sub_function e s txn uid sub_function sub_function_raw d =
     (case sub_function of
        ReturnQueryData \<Rightarrow> send_diagnostics_value_response e s txn uid sub_function_raw d
      | RestartCommunicationsOption \<Rightarrow>
          send_diagnostics_value_response e (s\<lparr>listen_only_mode := False\<rparr>) txn uid sub_function_raw d
      | ForceListenOnlyMode \<Rightarrow> Ok (enable_listen_only_mode s)
      | _ \<Rightarrow> forward_diagnostics_to_app e s txn uid sub_function sub_function_raw d)"

definition handle_diagnostics_request ::
    "('t, 'a) server_env \<Rightarrow> ('t, 'a) server \<Rightarrow> u16 \<Rightarrow> UnitIdOrSlaveAddr \<Rightarrow> ModbusMessage \<Rightarrow>
     ('t, 'a) server result" where
  "handle_diagnostics_request e s txn uid m =
     (if \<not> is_serial_type (SRV_TRANSPORT_TYPE e) then
        send_exception_response e s txn uid Diagnostics InvalidFunctionCode
      else
        or_exception e s txn uid Diagnostics (parse_diagnostics_request m) (\<lambda>(sub_function_raw, d).
        or_exception e s txn uid Diagnostics (diagnostic_sub_function_try_from sub_function_raw) (\<lambda>sub_function.
        dispatch_diagnostics_sub_function e s txn uid sub_function sub_function_raw d)))"

section \<open>Device identification\<close>

abbreviation (input) MAX_DEVICE_ID_OBJECTS_LEN :: usize where "MAX_DEVICE_ID_OBJECTS_LEN \<equiv> 246"

definition handle_read_device_identification ::
    "('t, 'a) server_env \<Rightarrow> ('t, 'a) server \<Rightarrow> u16 \<Rightarrow> UnitIdOrSlaveAddr \<Rightarrow> bytes \<Rightarrow>
     ('t, 'a) server result" where
  "handle_read_device_identification e s txn uid request_data =
     (let fc = EncapsulatedInterfaceTransport in
      if length request_data < 2 then send_exception_response e s txn uid fc InvalidPduLength
      else
        bind_res (idx request_data 0) (\<lambda>code.
        bind_res (idx request_data 1) (\<lambda>start_object_id.
        if \<not> is_ok (read_device_id_code_try_from code) then
          send_exception_response e s txn uid fc InvalidDeviceIdCode
        else
          let buf = replicate MAX_DEVICE_ID_OBJECTS_LEN 0;
              (a, out, r) = read_device_identification_request_cb e (srv_app s) txn uid code
                start_object_id buf;
              s = s\<lparr>srv_app := a\<rparr>;
              buf = fill buf out
          in or_exception e s txn uid fc (from_callback r)
               (\<lambda>(bytes_written, conformity_level, more_follows, next_object_id).
             bind_res (slice_to buf (unat bytes_written)) (\<lambda>objects.
             respond e s txn uid fc
               (build_fc2b_read_device_id_response (srv_bytes e) (SRV_TRANSPORT_TYPE e) txn uid code
                  conformity_level more_follows next_object_id objects))))))"

definition handle_encapsulated_interface_transport_request ::
    "('t, 'a) server_env \<Rightarrow> ('t, 'a) server \<Rightarrow> u16 \<Rightarrow> UnitIdOrSlaveAddr \<Rightarrow> ModbusMessage \<Rightarrow>
     ('t, 'a) server result" where
  "handle_encapsulated_interface_transport_request e s txn uid m =
     or_exception e s txn uid EncapsulatedInterfaceTransport (parse_fc2b_request m) (\<lambda>mei.
     if encapsulated_interface_type_try_from (mei_type_byte mei) = Ok ReadDeviceIdentification then
       handle_read_device_identification e s txn uid (mei_payload mei)
     else send_exception_response e s txn uid EncapsulatedInterfaceTransport InvalidFunctionCode)"

end
