(* ===== verification/Server_Loop.thy ===== *)
theory Server_Loop
  imports Server_Diagnostics
begin

text \<open>
  The receive and dispatch pipeline of the server (mbus-server/src/services/mod.rs): address filtering,
  broadcasts, listen-only mode, the request queue with its deadline and back-pressure, the retry of
  responses, and \<open>poll\<close>. A loop of the code is a \<open>partial_function\<close>: \<open>None\<close> would be a loop that does
  not end.
\<close>

section \<open>Filtering\<close>

definition should_drop_for_address :: "('t, 'a) server \<Rightarrow> ModbusMessage \<Rightarrow> bool" where
  "should_drop_for_address s m \<longleftrightarrow> uid_get (unit_id_or_slave_addr m) \<noteq> uid_get (own_address s)"

fun is_supported_broadcast_write_function :: "FunctionCode \<Rightarrow> bool" where
  "is_supported_broadcast_write_function WriteSingleCoil = True"
| "is_supported_broadcast_write_function WriteMultipleCoils = True"
| "is_supported_broadcast_write_function WriteSingleRegister = True"
| "is_supported_broadcast_write_function WriteMultipleRegisters = True"
| "is_supported_broadcast_write_function _ = False"

definition should_handle_broadcast_write ::
    "('t, 'a) server_env \<Rightarrow> ('t, 'a) server \<Rightarrow> ModbusMessage \<Rightarrow> bool" where
  "should_handle_broadcast_write e s m =
     (if \<not> enable_broadcast_writes (resilience s) \<or> \<not> is_broadcast (unit_id_or_slave_addr m) then False
      else if \<not> SUPPORTS_BROADCAST_WRITES e then False
      else if \<not> is_serial_type (SRV_TRANSPORT_TYPE e) then False
      else is_supported_broadcast_write_function (function_code (pdu m)))"

definition dispatch_broadcast_write_no_response ::
    "('t, 'a) server_env \<Rightarrow> ('t, 'a) server \<Rightarrow> ModbusMessage \<Rightarrow> ('t, 'a) server result" where
  "dispatch_broadcast_write_no_response e s m =
     (case function_code (pdu m) of
        WriteSingleCoil \<Rightarrow> handle_broadcast_write_single_coil_request e s m
      | WriteSingleRegister \<Rightarrow> handle_broadcast_write_single_register_request e s m
      | WriteMultipleCoils \<Rightarrow> handle_broadcast_write_multiple_coils_request e s m
      | WriteMultipleRegisters \<Rightarrow> handle_broadcast_write_multiple_registers_request e s m
      | _ \<Rightarrow> Ok s)"

definition should_apply_back_pressure :: "('t, 'a) server_env \<Rightarrow> ('t, 'a) server \<Rightarrow> bool" where
  "should_apply_back_pressure e s =
     (if QUEUE_DEPTH e = 0 then False
      else if overflow_policy (timeouts (resilience s)) \<noteq> RejectRequest then False
      else (length (response_queue s) * 100) div QUEUE_DEPTH e \<ge> 80)"

section \<open>Dispatch\<close>

text \<open>
  The \<open>match function_code\<close> of \<open>dispatch_request_for_frame\<close>; \<open>None\<close> is a code without a handler.
\<close>

definition request_handler ::
    "FunctionCode \<Rightarrow>
     (('t, 'a) server_env \<Rightarrow> ('t, 'a) server \<Rightarrow> u16 \<Rightarrow> UnitIdOrSlaveAddr \<Rightarrow> ModbusMessage \<Rightarrow>
      ('t, 'a) server result) option" where
  "request_handler fc =
     (case fc of
        ReadCoils \<Rightarrow> Some handle_read_coils_request
      | ReadDiscreteInputs \<Rightarrow> Some handle_read_discrete_inputs_request
      | ReadHoldingRegisters \<Rightarrow> Some handle_read_holding_registers_request
      | ReadInputRegisters \<Rightarrow> Some handle_read_input_registers_request
      | WriteSingleCoil \<Rightarrow> Some handle_write_single_coil_request
      | WriteSingleRegister \<Rightarrow> Some handle_write_single_register_request
      | WriteMultipleCoils \<Rightarrow> Some handle_write_multiple_coils_request
      | WriteMultipleRegisters \<Rightarrow> Some handle_write_multiple_registers_request
      | MaskWriteRegister \<Rightarrow> Some handle_mask_write_register_request
      | ReadWriteMultipleRegisters \<Rightarrow> Some handle_read_write_multiple_registers_request
      | ReadFifoQueue \<Rightarrow> Some handle_read_fifo_queue_request
      | ReadFileRecord \<Rightarrow> Some handle_read_file_record_request
      | WriteFileRecord \<Rightarrow> Some handle_write_file_record_request
      | ReadExceptionStatus \<Rightarrow> Some handle_read_exception_status_request
      | Diagnostics \<Rightarrow> Some handle_diagnostics_request
      | GetCommEventCounter \<Rightarrow> Some handle_get_comm_event_counter_request
      | GetCommEventLog \<Rightarrow> Some handle_get_comm_event_log_request
      | ReportServerId \<Rightarrow> Some handle_report_server_id_request
      | EncapsulatedInterfaceTransport \<Rightarrow> Some handle_encapsulated_interface_transport_request
      | _ \<Rightarrow> None)"

definition dispatch_request_for_frame ::
    "('t, 'a) server_env \<Rightarrow> ('t, 'a) server \<Rightarrow> ModbusMessage \<Rightarrow> ('t, 'a) server result" where
  "dispatch_request_for_frame e s m =
     (let wire_txn_id = message_transaction_id m;
          uid = unit_id_or_slave_addr m;
          fc = function_code (pdu m)
      in if should_handle_broadcast_write e s m then dispatch_broadcast_write_no_response e s m
         else if listen_only_mode s \<and> fc \<noteq> Diagnostics then Ok s
         else if should_drop_for_address s m then Ok s
         else case request_handler fc of
                Some h \<Rightarrow> h e s wire_txn_id uid m
              | None \<Rightarrow> send_exception_response e s wire_txn_id uid fc InvalidFunctionCode)"

text \<open>
  \<open>dispatch_immediately\<close>, and the same steps in \<open>try_enqueue_request\<close> and \<open>dispatch_pending_request\<close>:
  the clock is read before and after the dispatch, for a log message.
\<close>

definition dispatch_immediately ::
    "('t, 'a) server_env \<Rightarrow> ('t, 'a) server \<Rightarrow> ModbusMessage \<Rightarrow> ('t, 'a) server result" where
  "dispatch_immediately e s m =
     (let (start, s) = now_us s in
      bind_res (dispatch_request_for_frame e s m) (\<lambda>s. Ok (snd (now_us s))))"

definition try_enqueue_request ::
    "('t, 'a) server_env \<Rightarrow> ('t, 'a) server \<Rightarrow> ModbusMessage \<Rightarrow> usize \<Rightarrow> ('t, 'a) server result" where
  "try_enqueue_request e s m expected_length =
     bind_res (slice_to (srv_rxed_frame s) expected_length) (\<lambda>bs.
     if should_apply_back_pressure e s then
       let s = s\<lparr>rejected_request_count := sat_add (rejected_request_count s) 1\<rparr>
       in send_exception_response e s (message_transaction_id m) (unit_id_or_slave_addr m)
            (function_code (pdu m)) TooManyRequests
     else
       let priority = from_function_code (function_code (pdu m));
           raw_frame = (case hv_extend (srv_bytes e) MAX_ADU_FRAME_LEN [] bs of None \<Rightarrow> [] | Some f \<Rightarrow> f);
           (received_at, s) = now_us s;
           (pushed, q) = request_push (srv_requests e) (QUEUE_DEPTH e) (request_queue s)
             \<lparr>pr_frame = raw_frame, pr_priority = priority, received_at_us = received_at\<rparr>
       in if pushed then Ok (s\<lparr>request_queue := q\<rparr>) else dispatch_immediately e s m)"

definition enqueue_or_dispatch_inbound ::
    "('t, 'a) server_env \<Rightarrow> ('t, 'a) server \<Rightarrow> ModbusMessage \<Rightarrow> usize \<Rightarrow> ('t, 'a) server result" where
  "enqueue_or_dispatch_inbound e s m expected_length =
     (if QUEUE_DEPTH e > 0 \<and> enable_priority_queue (resilience s)
      then try_enqueue_request e s m expected_length
      else dispatch_immediately e s m)"

definition record_comm_event :: "('t, 'a) server_env \<Rightarrow> ('t, 'a) server \<Rightarrow> u8 \<Rightarrow> ('t, 'a) server" where
  "record_comm_event e s event_code =
     (let s = s\<lparr>comm_event_counter := sat_add (comm_event_counter s) 1,
               comm_message_count := sat_add (comm_message_count s) 1\<rparr>
      in case dq_push_back (srv_events e) 64 (comm_event_log s) event_code of
           Some log \<Rightarrow> s\<lparr>comm_event_log := log\<rparr>
         | None \<Rightarrow>
             let log = (case dq_pop_front (srv_events e) (comm_event_log s) of
                          None \<Rightarrow> comm_event_log s | Some (_, log) \<Rightarrow> log)
             in s\<lparr>comm_event_log :=
                    (case dq_push_back (srv_events e) 64 log event_code of None \<Rightarrow> log | Some log \<Rightarrow> log)\<rparr>)"

section \<open>Receiving\<close>

text \<open>
  \<open>reframe_message\<close>, and the same \<open>match\<close> in \<open>ingest_frame\<close>: \<open>Ok None\<close> for a message with the wrong
  kind of address, the error of \<open>SlaveAddress::new\<close> otherwise.
\<close>

definition server_readdress :: "TransportType \<Rightarrow> ModbusMessage \<Rightarrow> ModbusMessage option result" where
  "server_readdress tt m =
     (if is_tcp_type tt then
        (case additional_address m of
           AAMbapHeader header \<Rightarrow> Ok (Some (modbus_message_new (AAMbapHeader header) (pdu m)))
         | AASlaveAddress _ \<Rightarrow> Ok None)
      else
        (case additional_address m of
           AASlaveAddress addr \<Rightarrow>
             bind_res (slave_address_new (slave_address addr)) (\<lambda>sa.
             Ok (Some (modbus_message_new (AASlaveAddress sa) (pdu m))))
         | AAMbapHeader _ \<Rightarrow> Ok None))"

definition reframe_message :: "TransportType \<Rightarrow> ModbusMessage \<Rightarrow> ModbusMessage option" where
  "reframe_message tt m = (case server_readdress tt m of Ok r \<Rightarrow> r | _ \<Rightarrow> None)"

text \<open>
  The reply to a function code the server does not know, on TCP: a hand-made exception frame that is
  sent without the send path.
\<close>

definition unsupported_function_frame :: "bytes \<Rightarrow> u8 \<Rightarrow> bytes result" where
  "unsupported_function_frame rx fc_byte =
     bind_res (idx rx 0) (\<lambda>txn_hi.
     bind_res (idx rx 1) (\<lambda>txn_lo.
     bind_res (idx rx 6) (\<lambda>uid.
     Ok [txn_hi, txn_lo, 0x00, 0x00, 0x00, 0x03, uid, fc_byte OR 0x80, 0x01])))"

definition handle_inbound ::
    "('t, 'a) server_env \<Rightarrow> ('t, 'a) server \<Rightarrow> ModbusMessage \<Rightarrow> usize \<Rightarrow> ('t, 'a) server result" where
  "handle_inbound e s m expected_length =
     (if should_handle_broadcast_write e s m then dispatch_broadcast_write_no_response e s m
      else if should_drop_for_address s m then Ok s
      else enqueue_or_dispatch_inbound e (record_comm_event e s 0x04) m expected_length)"

text \<open>The result of \<open>ingest_frame\<close> and the server after it.\<close>

definition server_ingest_frame ::
    "('t, 'a) server_env \<Rightarrow> ('t, 'a) server \<Rightarrow> usize result \<times> ('t, 'a) server" where
  "server_ingest_frame e s =
     (let rx = srv_rxed_frame s; tt = SRV_TRANSPORT_TYPE e in
      case derive_length_from_bytes (srv_usizes e) rx tt of
        None \<Rightarrow> (Err BufferTooSmall, s)
      | Some expected_length \<Rightarrow>
          if expected_length > MAX_ADU_FRAME_LEN then (Err BasicParseError, s)
          else if length rx < expected_length then (Err BufferTooSmall, s)
          else
            (case decompile_adu_frame (srv_bytes e) (take expected_length rx) tt of
               Panic \<Rightarrow> (Panic, s)
             | Err (UnsupportedFunction fc_byte) \<Rightarrow>
                 if expected_length \<ge> 8 \<and> is_tcp_type tt then
                   (case unsupported_function_frame rx fc_byte of
                      Ok exc_frame \<Rightarrow>
                        (Ok expected_length,
                         s\<lparr>srv_transport := fst (srv_transport_send e (srv_transport s) exc_frame)\<rparr>)
                    | Err err \<Rightarrow> (Err err, s)
                    | Panic \<Rightarrow> (Panic, s))
                 else (Err (UnsupportedFunction fc_byte), s)
             | Err err \<Rightarrow> (Err err, s)
             | Ok m \<Rightarrow>
                 (case server_readdress tt m of
                    Panic \<Rightarrow> (Panic, s)
                  | Err err \<Rightarrow> (Err err, s)
                  | Ok None \<Rightarrow> (Ok expected_length, s)
                  | Ok (Some m) \<Rightarrow>
                      (case handle_inbound e s m expected_length of
                         Ok s \<Rightarrow> (Ok expected_length, s)
                       | Err err \<Rightarrow> (Err err, s)
                       | Panic \<Rightarrow> (Panic, s)))))"

definition server_handle_parse_error ::
    "('t, 'a) server_env \<Rightarrow> ('t, 'a) server \<Rightarrow> ('t, 'a) server" where
  "server_handle_parse_error e s =
     (let len = length (srv_rxed_frame s) in
      if len > 1 then s\<lparr>srv_rxed_frame := shift_left (srv_bytes e) (srv_rxed_frame s) 1\<rparr>
      else s\<lparr>srv_rxed_frame := []\<rparr>)"

definition server_drain_rxed_frame ::
    "('t, 'a) server_env \<Rightarrow> ('t, 'a) server \<Rightarrow> usize \<Rightarrow> ('t, 'a) server" where
  "server_drain_rxed_frame e s consumed =
     (let len = length (srv_rxed_frame s) in
      if consumed < len then s\<lparr>srv_rxed_frame := shift_left (srv_bytes e) (srv_rxed_frame s) consumed\<rparr>
      else s\<lparr>srv_rxed_frame := []\<rparr>)"

definition server_append_to_rxed_frame ::
    "('t, 'a) server_env \<Rightarrow> ('t, 'a) server \<Rightarrow> bytes \<Rightarrow> ('t, 'a) server" where
  "server_append_to_rxed_frame e s frame =
     (case hv_extend (srv_bytes e) MAX_ADU_FRAME_LEN (srv_rxed_frame s) frame of
        Some bs \<Rightarrow> s\<lparr>srv_rxed_frame := bs\<rparr>
      | None \<Rightarrow> s\<lparr>srv_rxed_frame := []\<rparr>)"

partial_function (option) server_process_rxed_frame ::
    "('t, 'a) server_env \<Rightarrow> ('t, 'a) server \<Rightarrow> ('t, 'a) server result option" where
  "server_process_rxed_frame e s =
     (if srv_rxed_frame s = [] then Some (Ok s)
      else case server_ingest_frame e s of
             (Ok consumed, s') \<Rightarrow> server_process_rxed_frame e (server_drain_rxed_frame e s' consumed)
           | (Err err, s') \<Rightarrow>
               if err = BufferTooSmall then Some (Ok s')
               else server_process_rxed_frame e (server_handle_parse_error e s')
           | (Panic, s') \<Rightarrow> Some Panic)"

definition server_is_connection_loss :: "MbusError \<Rightarrow> bool" where
  "server_is_connection_loss err \<longleftrightarrow>
     err = ConnectionClosed \<or> err = ConnectionFailed \<or> err = ConnectionLost \<or> err = IoError"

definition server_handle_recv_error ::
    "('t, 'a) server_env \<Rightarrow> ('t, 'a) server \<Rightarrow> MbusError \<Rightarrow> ('t, 'a) server" where
  "server_handle_recv_error e s recv_error =
     (if recv_error = FramingError then s\<lparr>srv_rxed_frame := []\<rparr>
      else if server_is_connection_loss recv_error \<or> \<not> srv_transport_is_connected e (srv_transport s)
      then s\<lparr>srv_transport := fst (srv_transport_disconnect e (srv_transport s)), srv_rxed_frame := []\<rparr>
      else s)"

section \<open>Queued requests\<close>

text \<open>
  The first steps of \<open>dispatch_pending_request\<close> and of \<open>handle_expired_request_strict\<close>: the message of a
  queued frame, or \<open>None\<close> where the code returns.
\<close>

definition pending_message :: "('t, 'a) server_env \<Rightarrow> bytes \<Rightarrow> ModbusMessage option result" where
  "pending_message e frame =
     (let tt = SRV_TRANSPORT_TYPE e in
      case derive_length_from_bytes (srv_usizes e) frame tt of
        None \<Rightarrow> Ok None
      | Some expected_length \<Rightarrow>
          bind_res (slice_to frame expected_length) (\<lambda>bs.
          case decompile_adu_frame (srv_bytes e) bs tt of
            Ok m \<Rightarrow> Ok (reframe_message tt m)
          | Err _ \<Rightarrow> Ok None
          | Panic \<Rightarrow> Panic))"

definition dispatch_pending_request ::
    "('t, 'a) server_env \<Rightarrow> ('t, 'a) server \<Rightarrow> PendingRequest \<Rightarrow> ('t, 'a) server result" where
  "dispatch_pending_request e s pending =
     bind_res (pending_message e (pr_frame pending)) (\<lambda>r.
     case r of None \<Rightarrow> Ok s | Some m \<Rightarrow> dispatch_immediately e s m)"

definition handle_expired_request_strict ::
    "('t, 'a) server_env \<Rightarrow> ('t, 'a) server \<Rightarrow> PendingRequest \<Rightarrow> ('t, 'a) server result" where
  "handle_expired_request_strict e s pending =
     bind_res (pending_message e (pr_frame pending)) (\<lambda>r.
     case r of
       None \<Rightarrow> Ok s
     | Some m \<Rightarrow>
         send_exception_response e s (message_transaction_id m) (unit_id_or_slave_addr m)
           (function_code (pdu m)) Timeout)"

fun expired_requests_loop ::
    "('t, 'a) server_env \<Rightarrow> ('t, 'a) server \<Rightarrow> PendingRequest list \<Rightarrow> ('t, 'a) server result" where
  "expired_requests_loop e s [] = Ok s"
| "expired_requests_loop e s (p # ps) =
     bind_res (handle_expired_request_strict e s p) (\<lambda>s. expired_requests_loop e s ps)"

definition expire_stale_queued_requests ::
    "('t, 'a) server_env \<Rightarrow> ('t, 'a) server \<Rightarrow> ('t, 'a) server result option" where
  "expire_stale_queued_requests e s =
     (let deadline = request_deadline_ms (timeouts (resilience s)) in
      if deadline = 0 then Some (Ok s)
      else
        let (now, s) = now_us s in
        if strict_mode (timeouts (resilience s)) then
          map_option (\<lambda>r. bind_res r (\<lambda>(expired, q).
              expired_requests_loop e (s\<lparr>request_queue := q\<rparr>) expired))
            (take_expired (srv_requests e) (QUEUE_DEPTH e) (request_queue s) now deadline)
        else
          map_option (\<lambda>r. bind_res r (\<lambda>(n, q). Ok (s\<lparr>request_queue := q\<rparr>)))
            (expire_stale (srv_requests e) (request_queue s) now deadline))"

partial_function (option) dispatch_queue_loop ::
    "('t, 'a) server_env \<Rightarrow> ('t, 'a) server \<Rightarrow> ('t, 'a) server result option" where
  "dispatch_queue_loop e s =
     (case pop_highest_priority (srv_requests e) (request_queue s) of
        Panic \<Rightarrow> Some Panic
      | Err err \<Rightarrow> Some (Err err)
      | Ok None \<Rightarrow> Some (Ok s)
      | Ok (Some (pending, q)) \<Rightarrow>
          (case dispatch_pending_request e (s\<lparr>request_queue := q\<rparr>) pending of
             Ok s \<Rightarrow> dispatch_queue_loop e s
           | Err err \<Rightarrow> Some (Err err)
           | Panic \<Rightarrow> Some Panic))"

section \<open>Retrying responses\<close>

definition should_drop_exhausted_response_retry :: "('t, 'a) server \<Rightarrow> PendingResponse \<Rightarrow> bool" where
  "should_drop_exhausted_response_retry s pending \<longleftrightarrow>
     retry_count pending \<ge> max_send_retries (resilience s)"

definition should_delay_response_retry ::
    "('t, 'a) server \<Rightarrow> PendingResponse \<Rightarrow> u64 \<Rightarrow> bool \<Rightarrow> bool \<times> ('t, 'a) server" where
  "should_delay_response_retry s pending retry_interval_ms has_clock =
     (if \<not> has_clock then (False, s)
      else
        let (now, s) = now_us s in
        if is_turnaround_delay pending \<and> turnaround_delay_us (resilience s) > 0 \<and>
           sat_sub now (last_recv_us s) < turnaround_delay_us (resilience s)
        then (True, s)
        else if \<not> is_turnaround_delay pending \<and> retry_interval_ms > 0 \<and>
           sat_sub now (queued_at_us pending) < retry_interval_ms * 1000
        then (True, s)
        else (False, s))"

text \<open>\<open>retry_count += 1\<close> cannot overflow: the count is below \<open>max_send_retries\<close>.\<close>

definition on_queued_response_retry_failure ::
    "('t, 'a) server_env \<Rightarrow> ('t, 'a) server \<Rightarrow> PendingResponse \<Rightarrow> ('t, 'a) server" where
  "on_queued_response_retry_failure e s pending =
     (let (now, s) = now_us s;
          pending = pending\<lparr>retry_count := retry_count pending + 1, queued_at_us := now\<rparr>
      in s\<lparr>response_queue :=
             snd (response_push_back (srv_responses e) (QUEUE_DEPTH e) (response_queue s) pending)\<rparr>)"

definition try_send_queued_response ::
    "('t, 'a) server_env \<Rightarrow> ('t, 'a) server \<Rightarrow> PendingResponse \<Rightarrow> bool \<times> ('t, 'a) server" where
  "try_send_queued_response e s pending =
     (let (t, r) = srv_transport_send e (srv_transport s) (ps_frame pending);
          s = s\<lparr>srv_transport := t\<rparr>
      in case r of
           Inr _ \<Rightarrow> (True, s)
         | Inl _ \<Rightarrow>
             (False, on_queued_response_retry_failure e s (pending\<lparr>is_turnaround_delay := False\<rparr>)))"

fun drain_loop ::
    "('t, 'a) server_env \<Rightarrow> u64 \<Rightarrow> bool \<Rightarrow> nat \<Rightarrow> ('t, 'a) server \<Rightarrow> ('t, 'a) server" where
  "drain_loop e retry_interval_ms has_clock 0 s = s"
| "drain_loop e retry_interval_ms has_clock (Suc n) s =
     (case dq_pop_front (srv_responses e) (response_queue s) of
        None \<Rightarrow> s
      | Some (pending, q) \<Rightarrow>
          let s = s\<lparr>response_queue := q\<rparr> in
          if should_drop_exhausted_response_retry s pending
          then drain_loop e retry_interval_ms has_clock n s
          else
            let (delay, s) = should_delay_response_retry s pending retry_interval_ms has_clock in
            if delay then
              s\<lparr>response_queue :=
                  snd (response_push_back (srv_responses e) (QUEUE_DEPTH e) (response_queue s) pending)\<rparr>
            else
              let (sent, s) = try_send_queued_response e s pending in
              if sent then drain_loop e retry_interval_ms has_clock n s else s)"

definition drain_response_queue :: "('t, 'a) server_env \<Rightarrow> ('t, 'a) server \<Rightarrow> ('t, 'a) server" where
  "drain_response_queue e s =
     drain_loop e (ucast (response_retry_interval_ms (timeouts (resilience s))))
       (clock_fn (resilience s) \<noteq> None) (length (response_queue s)) s"

section \<open>The main loop\<close>

text \<open>Steps 4 and 5 of \<open>poll\<close>.\<close>

definition run_request_queue ::
    "('t, 'a) server_env \<Rightarrow> ('t, 'a) server \<Rightarrow> ('t, 'a) server result option" where
  "run_request_queue e s =
     (if QUEUE_DEPTH e > 0 \<and> enable_priority_queue (resilience s) then
        (case expire_stale_queued_requests e s of
           Some (Ok s) \<Rightarrow> dispatch_queue_loop e s
         | r \<Rightarrow> r)
      else Some (Ok s))"

definition server_poll :: "('t, 'a) server_env \<Rightarrow> ('t, 'a) server \<Rightarrow> ('t, 'a) server result option" where
  "server_poll e s =
     (let s = (if QUEUE_DEPTH e > 0 then drain_response_queue e s else s);
          (t, received) = srv_transport_recv e (srv_transport s);
          s = s\<lparr>srv_transport := t\<rparr>
      in case received of
           Inl err \<Rightarrow> Some (Ok (server_handle_recv_error e s err))
         | Inr frame \<Rightarrow>
             let (now, s) = now_us s;
                 s = server_append_to_rxed_frame e (s\<lparr>last_recv_us := now\<rparr>) frame
             in case server_process_rxed_frame e s of
                  Some (Ok s) \<Rightarrow> run_request_queue e s
                | r \<Rightarrow> r)"

end
