(* ===== verification/Server_Answers.thy ===== *)
theory Server_Answers
  imports Server_Loop Receive_Loop
begin

text \<open>
  The contract of the server's request handlers. A handler \<open>answered\<close> a request when it hands exactly
  one response to the send path, with the transaction and the unit of the request, and that response is
  a frame with the function code of the request or an exception response to it. The collection
  \<open>answers\<close> holds the rules that follow the structure of the handlers.
\<close>

named_theorems answers \<open>rules for the answers of the request handlers\<close>

section \<open>The contract of a handler\<close>

definition server_env_ok :: "('t, 'a) server_env \<Rightarrow> bool" where
  "server_env_ok e \<longleftrightarrow>
     heapless_ok (srv_bytes e) \<and> heapless_ok (srv_usizes e) \<and> heapless_ok (srv_requests e) \<and>
     heapless_ok (srv_read_subs e) \<and> heapless_ok (srv_write_subs e) \<and>
     deque_ok (srv_responses e) \<and> deque_ok (srv_events e) \<and>
     (\<forall>a txn uid code object buf n rest.
        snd (snd (read_device_identification_request_cb e a txn uid code object buf)) = Inr (n, rest) \<longrightarrow>
        n \<le> 246)"

text \<open>What no request changes.\<close>

definition keeps :: "('t, 'a) server \<Rightarrow> ('t, 'a) server \<Rightarrow> bool" where
  "keeps s s' \<longleftrightarrow> own_address s' = own_address s \<and> srv_config s' = srv_config s \<and>
     srv_rxed_frame s' = srv_rxed_frame s \<and> resilience s' = resilience s \<and>
     request_queue s' = request_queue s \<and> comm_event_log s' = comm_event_log s"

definition same :: "('t, 'a) server \<Rightarrow> ('t, 'a) server \<Rightarrow> bool" where
  "same s s' \<longleftrightarrow> keeps s s' \<and> responses s' = responses s \<and> listen_only_mode s' = listen_only_mode s"

text \<open>A frame that answers a request: a response with its function code, or an exception response.\<close>

definition answer :: "('t, 'a) server_env \<Rightarrow> u16 \<Rightarrow> UnitIdOrSlaveAddr \<Rightarrow> FunctionCode \<Rightarrow> bytes \<Rightarrow> bool" where
  "answer e txn uid fc f \<longleftrightarrow>
     (\<exists>p. pdu_wf p \<and> function_code p = fc \<and> error_code p = None \<and>
        f = adu_frame (SRV_TRANSPORT_TYPE e) txn (uid_get uid) (pdu_body p)) \<or>
     (\<exists>x ec. exception_response fc = Some x \<and>
        f = adu_frame (SRV_TRANSPORT_TYPE e) txn (uid_get uid) [function_code_u8 x, exception_code_u8 ec])"

definition answered ::
    "('t, 'a) server_env \<Rightarrow> u16 \<Rightarrow> UnitIdOrSlaveAddr \<Rightarrow> FunctionCode \<Rightarrow> ('t, 'a) server \<Rightarrow>
     ('t, 'a) server result \<Rightarrow> bool" where
  "answered e txn uid fc s r \<longleftrightarrow>
     (\<exists>s' f. r = Ok s' \<and> keeps s s' \<and> (listen_only_mode s' \<longrightarrow> listen_only_mode s) \<and>
        responses s' = responses s @ [(txn, uid, f)] \<and> answer e txn uid fc f)"

lemma server_env_ok_simps [simp]:
  assumes "server_env_ok e"
  shows "heapless_ok (srv_bytes e)" "heapless_ok (srv_usizes e)" "heapless_ok (srv_requests e)"
    "heapless_ok (srv_read_subs e)" "heapless_ok (srv_write_subs e)"
    "deque_ok (srv_responses e)" "deque_ok (srv_events e)"
  using assms by (simp_all add: server_env_ok_def)

lemma keeps_refl [simp]: "keeps s s"
  by (simp add: keeps_def)

lemma keeps_trans: "keeps a b \<Longrightarrow> keeps b c \<Longrightarrow> keeps a c"
  by (simp add: keeps_def)

lemma same_refl [answers]: "same s s"
  by (simp add: same_def)

lemma same_app [answers]: "same s s' \<Longrightarrow> same s (s'\<lparr>srv_app := a\<rparr>)"
  by (simp add: same_def keeps_def)

lemma now_us_keeps:
  "now_us s = (t, s') \<Longrightarrow> same s s' \<and> last_recv_us s' = last_recv_us s \<and> response_queue s' = response_queue s"
  by (auto simp: now_us_def same_def keeps_def split: option.splits)

lemma handle_send_failure_keeps: "same s (handle_send_failure e s f txn uid)"
  by (auto simp: handle_send_failure_def update_peak_response_queue_size_def queue_response_for_retry_def
      Let_def same_def keeps_def dest!: now_us_keeps split: option.splits prod.splits)

lemma delay_keeps: "same s (delay_for_turnaround e s f txn uid)"
  by (auto simp: delay_for_turnaround_def Let_def same_def keeps_def split: option.splits prod.splits)

lemma same_trans: "same a b \<Longrightarrow> same b c \<Longrightarrow> same a c"
  by (simp add: same_def keeps_def)

lemma same_transport: "same s (s\<lparr>srv_transport := t\<rparr>)"
  by (simp add: same_def keeps_def)

lemma same_now: "same s (snd (now_us s))"
  using now_us_keeps by (metis prod.collapse)

lemma try_send_or_queue_keeps:
  "same (s\<lparr>responses := responses s @ [(txn, uid, f)]\<rparr>) (try_send_or_queue e s f txn uid)"
proof -
  let ?s = "s\<lparr>responses := responses s @ [(txn, uid, f)]\<rparr>"
  define s1 where "s1 = snd (now_us ?s)"
  define s2 where "s2 = s1\<lparr>srv_transport := fst (srv_transport_send e (srv_transport s1) f)\<rparr>"
  have "try_send_or_queue e s f txn uid \<in>
      {delay_for_turnaround e s1 f txn uid, handle_send_success s2, handle_send_failure e s2 f txn uid}"
    by (simp add: try_send_or_queue_def Let_def s1_def s2_def split: prod.split sum.split)
  moreover have s1: "same ?s s1" by (simp add: s1_def same_now)
  moreover from this have s2: "same ?s s2"
    unfolding s2_def by (rule same_trans) (rule same_transport)
  ultimately show ?thesis
    using same_trans [OF s1 delay_keeps] same_trans [OF s2 same_now] same_trans [OF s2 handle_send_failure_keeps]
    by (auto simp: handle_send_success_def)
qed

lemma sent_answered:
  assumes "same s s1" "answer e txn uid fc f"
  shows "answered e txn uid fc s (Ok (try_send_or_queue e s1 f txn uid))"
  using assms try_send_or_queue_keeps [of s1 txn uid f e]
  by (auto simp: answered_def same_def keeps_def)

lemma send_exception_response_answered [answers]:
  assumes "server_env_ok e" "normal_code fc" "same s s1"
  shows "answered e txn uid fc s (send_exception_response e s1 txn uid fc err)"
proof -
  obtain x where x: "exception_response fc = Some x" using assms(2) by (auto simp: normal_code_def)
  then have "answer e txn uid fc (adu_frame (SRV_TRANSPORT_TYPE e) txn (uid_get uid)
      [function_code_u8 x, exception_code_u8 (exception_code_for_error fc err)])"
    by (auto simp: answer_def)
  then show ?thesis
    using assms(1) sent_answered [OF same_app [OF assms(3)]]
    by (simp add: send_exception_response_def Let_def build_exception_adu_ok x)
qed

lemma or_exception_answered [answers]:
  assumes "server_env_ok e" "normal_code fc" "same s s1" "r \<noteq> Panic"
    "\<And>v. r = Ok v \<Longrightarrow> answered e txn uid fc s (k v)"
  shows "answered e txn uid fc s (or_exception e s1 txn uid fc r k)"
  using assms by (cases r) (auto simp: or_exception_def intro: answers)

lemma respond_answered [answers]:
  assumes "server_env_ok e" "normal_code fc" "same s s1" "r \<noteq> Panic"
    "\<And>f. r = Ok f \<Longrightarrow> answer e txn uid fc f"
  shows "answered e txn uid fc s (respond e s1 txn uid fc r)"
  unfolding respond_def using assms by (auto intro!: or_exception_answered sent_answered)

lemma from_callback_no_panic [simp]: "from_callback r \<noteq> Panic"
  by (cases r) simp_all

lemma from_callback_Ok_iff [simp]: "from_callback r = Ok v \<longleftrightarrow> r = Inr v"
  by (cases r) simp_all

text \<open>The client decodes an answer to the function code and the transaction of the request.\<close>

lemma answer_decodes:
  assumes "server_env_ok e" "normal_code fc" "adu_addressable (SRV_TRANSPORT_TYPE e) (uid_get uid)"
    "answer e txn uid fc f"
  shows "\<exists>r. decompile_adu_frame (srv_bytes e) f (SRV_TRANSPORT_TYPE e) = Ok r \<and>
    function_code (pdu r) = fc \<and>
    message_transaction_id r = (if is_tcp_type (SRV_TRANSPORT_TYPE e) then txn else 0)"
proof -
  note hv = server_env_ok_simps(1) [OF assms(1)]
  have txn: "message_transaction_id (modbus_message_new (adu_address tt txn uid body) p) =
      (if is_tcp_type tt then txn else 0)" for tt uid body p
    by (simp add: modbus_message_new_def message_transaction_id_def adu_address_def mbap_of_def
        mbap_header_new_def)
  from assms(4) show ?thesis
    unfolding answer_def
  proof (elim disjE exE conjE)
    fix p
    assume "pdu_wf p" "function_code p = fc" "error_code p = None"
      "f = adu_frame (SRV_TRANSPORT_TYPE e) txn (uid_get uid) (pdu_body p)"
    then show ?thesis
      using adu_framing.decode_normal [OF hv assms(3), of p txn] assms(2) txn
      by (auto simp: modbus_message_new_def)
  next
    fix x ec
    assume "exception_response fc = Some x"
      "f = adu_frame (SRV_TRANSPORT_TYPE e) txn (uid_get uid) [function_code_u8 x, exception_code_u8 ec]"
    then show ?thesis
      using adu_framing.decode_exception [OF hv assms(3), of fc x txn] txn
      by (auto simp: modbus_message_new_def)
  qed
qed

section \<open>The response builders\<close>

text \<open>A response builder answers the request: it does not panic and a frame it returns is an answer.\<close>

definition builds :: "('t, 'a) server_env \<Rightarrow> u16 \<Rightarrow> UnitIdOrSlaveAddr \<Rightarrow> FunctionCode \<Rightarrow> bytes result \<Rightarrow> bool" where
  "builds e txn uid fc r \<longleftrightarrow> r \<noteq> Panic \<and> (\<forall>f. r = Ok f \<longrightarrow> answer e txn uid fc f)"

lemma pdu_answer:
  assumes "server_env_ok e" "r \<noteq> Panic"
    "\<And>p. r = Ok p \<Longrightarrow> pdu_wf p \<and> function_code p = fc \<and> error_code p = None"
  shows "builds e txn uid fc
    (bind_res r (\<lambda>p. compile_adu_frame (srv_bytes e) txn (uid_get uid) p (SRV_TRANSPORT_TYPE e)))"
  using assms by (auto simp: builds_def res_simps compile_adu_frame_ok answer_def)

context pdu_codec
begin

lemma builds_response:
  "server_env_ok e \<Longrightarrow> builds e txn uid fc
    (bind_res (build (srv_bytes e) x) (\<lambda>p. compile_adu_frame (srv_bytes e) txn (uid_get uid) p (SRV_TRANSPORT_TYPE e)))"
  by (rule pdu_answer) (auto simp: build_no_panic build_Ok_iff intro!: pdu_wf_new enc_bound)

end

lemma fifo_builds: "server_env_ok e \<Longrightarrow>
  builds e txn uid ReadFifoQueue (build_fifo_response (srv_bytes e) (SRV_TRANSPORT_TYPE e) txn uid pl)"
  unfolding build_fifo_response_def
  by (rule pdu_answer) (auto simp: build_eqs intro!: pdu_wf_new split: if_splits)

lemma responses_built [answers]:
  assumes "server_env_ok e"
  shows "builds e txn uid fc (build_byte_count_prefixed_response (srv_bytes e) (SRV_TRANSPORT_TYPE e) txn uid fc pl)"
    "builds e txn uid fc (build_single_byte_response (srv_bytes e) (SRV_TRANSPORT_TYPE e) txn uid fc b)"
    "builds e txn uid fc (build_two_u16_response (srv_bytes e) (SRV_TRANSPORT_TYPE e) txn uid fc a v)"
    "builds e txn uid fc (build_echo_u16_response (srv_bytes e) (SRV_TRANSPORT_TYPE e) txn uid fc a v)"
    "builds e txn uid MaskWriteRegister
       (build_mask_write_echo_response (srv_bytes e) (SRV_TRANSPORT_TYPE e) txn uid a am om)"
    "builds e txn uid Diagnostics (build_diagnostics_response (srv_bytes e) (SRV_TRANSPORT_TYPE e) txn uid a v)"
  unfolding build_byte_count_prefixed_response_def build_single_byte_response_def build_two_u16_response_def
    build_echo_u16_response_def build_mask_write_echo_response_def build_diagnostics_response_def
  using bc_codec.builds_response byte_codec.builds_response ws_codec.builds_response [of _ _ _ _ "(a, v)"]
    mw_codec.builds_response [of _ _ _ "(a, am, om)"] diag_codec.builds_response [of _ _ _ "(a, v)"] assms
  by auto

lemma read_file_record_builds [answers]:
  "server_env_ok e \<Longrightarrow> builds e txn uid ReadFileRecord
     (build_file_record_read_response (srv_bytes e) (SRV_TRANSPORT_TYPE e) txn uid pl)"
  using bc_codec.builds_response [of e txn uid ReadFileRecord pl]
  by (simp add: build_file_record_read_response_def builds_def)

lemma write_file_record_builds [answers]:
  assumes "server_env_ok e"
  shows "builds e txn uid WriteFileRecord
     (build_file_record_write_echo_response (srv_bytes e) (SRV_TRANSPORT_TYPE e) txn uid d)"
proof -
  have "answer e txn uid WriteFileRecord
      (adu_frame (SRV_TRANSPORT_TYPE e) txn (uid_get uid) (pdu_body (pdu_new WriteFileRecord d (of_nat (length d)))))"
    if "length d \<le> 252"
    unfolding answer_def using that by (intro disjI1 exI conjI, rule pdu_wf_new) simp_all
  then show ?thesis
    using assms by (auto simp: build_file_record_write_echo_response_def builds_def compile_adu_frame_ok pdu_wf_new)
qed

lemma count_objects_loop_no_panic: "count_objects_loop pl offset n \<noteq> Panic"
  by (induction pl offset n rule: count_objects_loop.induct)
    (subst count_objects_loop.simps, auto simp: panic_iffs Let_def)

lemma device_id_builds [answers]:
  assumes "server_env_ok e"
  shows "builds e txn uid EncapsulatedInterfaceTransport
     (build_fc2b_read_device_id_response (srv_bytes e) (SRV_TRANSPORT_TYPE e) txn uid code level mf nxt pl)"
  using assms count_objects_loop_no_panic
    mei_codec.builds_response [of e txn uid EncapsulatedInterfaceTransport "(t, d)" for t d]
  by (cases "count_fc2b_objects pl")
    (auto simp: build_fc2b_read_device_id_response_def Let_def count_fc2b_objects_def builds_def)

lemma respond_built [answers]:
  "server_env_ok e \<Longrightarrow> normal_code fc \<Longrightarrow> same s s1 \<Longrightarrow> builds e txn uid fc r \<Longrightarrow>
   answered e txn uid fc s (respond e s1 txn uid fc r)"
  by (auto simp: builds_def intro: respond_answered)

end
