(* ===== verification/Server_Requests.thy ===== *)
theory Server_Requests
  imports Server_Answers
begin

text \<open>
  Every request handler of the server satisfies the contract of \<open>Server_Answers\<close>: the locale
  \<open>answering_handler\<close> is interpreted on each of them. The one exception is the diagnostics sub-function
  that forces listen-only mode, which is not answered.
\<close>

section \<open>Parsing\<close>

lemma length_fill [simp]: "length (fill out w) = length out"
  by (simp add: fill_def)

lemma normal_codes [simp]:
  "normal_code ReadCoils" "normal_code WriteSingleCoil" "normal_code WriteMultipleCoils"
  "normal_code ReadDiscreteInputs" "normal_code ReadHoldingRegisters" "normal_code ReadInputRegisters"
  "normal_code WriteSingleRegister" "normal_code WriteMultipleRegisters" "normal_code MaskWriteRegister"
  "normal_code ReadWriteMultipleRegisters" "normal_code ReadFifoQueue" "normal_code ReadFileRecord"
  "normal_code WriteFileRecord" "normal_code ReadExceptionStatus" "normal_code Diagnostics"
  "normal_code GetCommEventCounter" "normal_code GetCommEventLog" "normal_code ReportServerId"
  "normal_code EncapsulatedInterfaceTransport"
  by (simp_all add: normal_code_def)

lemma parse_requests_no_panic [simp]:
  assumes "pdu_wf (pdu m)"
  shows "parse_read_window m \<noteq> Panic" "parse_empty_request m \<noteq> Panic" "parse_write_single_request m \<noteq> Panic"
    "parse_write_multiple_request m \<noteq> Panic" "parse_mask_write_request m \<noteq> Panic"
    "parse_read_write_multiple_request m \<noteq> Panic" "parse_read_fifo_pointer_request m \<noteq> Panic"
    "parse_diagnostics_request m \<noteq> Panic" "parse_fc2b_request m \<noteq> Panic"
    "heapless_ok hr \<Longrightarrow> parse_file_record_read_request hr m \<noteq> Panic"
    "heapless_ok hw \<Longrightarrow> parse_file_record_write_request hw m \<noteq> Panic"
  using fixed_parsers_no_panic [OF assms] variable_parsers_no_panic [OF assms] file_parsers_no_panic [OF assms]
  by (auto simp: parse_read_window_def parse_empty_request_def parse_write_single_request_def
      parse_write_multiple_request_def parse_mask_write_request_def parse_read_write_multiple_request_def
      parse_read_fifo_pointer_request_def parse_diagnostics_request_def parse_fc2b_request_def
      parse_file_record_read_request_def parse_file_record_write_request_def res_simps)

locale answering_handler =
  fixes fc :: FunctionCode
    and handle :: "('t, 'a) server_env \<Rightarrow> ('t, 'a) server \<Rightarrow> u16 \<Rightarrow> UnitIdOrSlaveAddr \<Rightarrow> ModbusMessage \<Rightarrow>
      ('t, 'a) server result"
  assumes normal: "normal_code fc"
    and handle_answers: "server_env_ok e \<Longrightarrow> pdu_wf (pdu m) \<Longrightarrow> length (comm_event_log s) \<le> 64 \<Longrightarrow>
      answered e txn uid fc s (handle e s txn uid m)"
begin

text \<open>One response is handed to the send path, and the client can match it with its request.\<close>

lemma handle_reply:
  assumes "server_env_ok e" "pdu_wf (pdu m)" "length (comm_event_log s) \<le> 64"
    "adu_addressable (SRV_TRANSPORT_TYPE e) (uid_get uid)"
  shows "\<exists>s' f r. handle e s txn uid m = Ok s' \<and> responses s' = responses s @ [(txn, uid, f)] \<and>
    decompile_adu_frame (srv_bytes e) f (SRV_TRANSPORT_TYPE e) = Ok r \<and> function_code (pdu r) = fc"
proof -
  obtain s' f where "handle e s txn uid m = Ok s'" "responses s' = responses s @ [(txn, uid, f)]"
      "answer e txn uid fc f"
    using handle_answers [OF assms(1-3), of txn uid] by (auto simp: answered_def)
  then show ?thesis using answer_decodes [OF assms(1) normal assms(4)] by blast
qed

end

interpretation read_coils: answering_handler ReadCoils handle_read_coils_request
  by unfold_locales
    (auto simp: handle_read_coils_request_def Let_def intro!: answers split: prod.splits)

interpretation read_inputs: answering_handler ReadDiscreteInputs handle_read_discrete_inputs_request
  by unfold_locales
    (auto simp: handle_read_discrete_inputs_request_def Let_def intro!: answers split: prod.splits)

interpretation write_coil: answering_handler WriteSingleCoil handle_write_single_coil_request
  by unfold_locales
    (auto simp: handle_write_single_coil_request_def Let_def intro!: answers split: prod.splits option.splits)

lemma check_writes_no_panic [simp]:
  "check_write_coils a q bc vals \<noteq> Panic" "check_write_registers a q bc vals \<noteq> Panic"
  by (simp_all add: check_write_coils_def check_write_registers_def Let_def)

interpretation write_coils: answering_handler WriteMultipleCoils handle_write_multiple_coils_request
  by unfold_locales
    (auto simp: handle_write_multiple_coils_request_def Let_def intro!: answers split: prod.splits)

lemma length_chunks_exact2: "length (chunks_exact2 vs) = length vs div 2"
  by (induction vs rule: chunks_exact2.induct) simp_all

lemma decode_registers_ok:
  "length vals div 2 \<le> n \<Longrightarrow> \<exists>rs. decode_registers n vals = Ok rs \<and> length rs = n"
  by (simp add: decode_registers_def store_registers_ok length_chunks_exact2)

lemma check_write_registers_Ok_iff:
  "check_write_registers a q bc vals = Ok u \<longleftrightarrow>
   1 \<le> q \<and> q \<le> 123 \<and> \<not> add_overflows a (q - 1) \<and> unat bc = unat q * 2 \<and> length vals = unat q * 2"
  by (auto simp: check_write_registers_def Let_def)

text \<open>The words a write request carries are decoded into an array that has room for them.\<close>

lemma decoded_words:
  fixes q :: u16
  assumes "length vals = unat q * 2" "q \<le> of_nat n" "n < 65536"
  shows "\<exists>ws. bind_res (decode_registers n vals) (\<lambda>registers. bind_res (slice_to registers (unat q)) k) = k ws"
proof -
  have "unat q \<le> n" using assms(2,3) by (simp add: word_le_nat_alt unat_of_nat_u16)
  then show ?thesis
    using decode_registers_ok [of vals n] assms(1) by auto
qed

lemma decoded_words_answers [answers]:
  fixes q :: u16
  assumes "length vals = unat q * 2" "q \<le> of_nat n" "n < 65536"
    "\<And>ws. answered e txn uid fc s (k ws)"
  shows "answered e txn uid fc s
    (bind_res (decode_registers n vals) (\<lambda>registers. bind_res (slice_to registers (unat q)) k))"
  using decoded_words [OF assms(1-3), of k] assms(4) by auto

lemma register_read_answers [answers]:
  "server_env_ok e \<Longrightarrow> normal_code fc \<Longrightarrow> pdu_wf (pdu m) \<Longrightarrow>
   answered e txn uid fc s (handle_register_read e s txn uid m fc lo hi cb)"
  by (auto simp: handle_register_read_def Let_def intro!: answers split: prod.splits)

interpretation read_holding_registers: answering_handler ReadHoldingRegisters handle_read_holding_registers_request
  by unfold_locales (auto simp: handle_read_holding_registers_request_def intro!: answers)

interpretation read_input_registers: answering_handler ReadInputRegisters handle_read_input_registers_request
  by unfold_locales (auto simp: handle_read_input_registers_request_def intro!: answers)

interpretation write_register: answering_handler WriteSingleRegister handle_write_single_register_request
  by unfold_locales
    (auto simp: handle_write_single_register_request_def Let_def intro!: answers split: prod.splits)

interpretation mask_write: answering_handler MaskWriteRegister handle_mask_write_register_request
  by unfold_locales
    (auto simp: handle_mask_write_register_request_def Let_def intro!: answers split: prod.splits)

interpretation write_registers: answering_handler WriteMultipleRegisters handle_write_multiple_registers_request
  by unfold_locales
    (auto simp: handle_write_multiple_registers_request_def check_write_registers_Ok_iff Let_def
      intro!: answers split: prod.splits)

interpretation read_write_registers: answering_handler ReadWriteMultipleRegisters
  handle_read_write_multiple_registers_request
  by unfold_locales
    (auto simp: handle_read_write_multiple_registers_request_def Let_def intro!: answers split: prod.splits)

interpretation read_fifo: answering_handler ReadFifoQueue handle_read_fifo_queue_request
proof (unfold_locales, goal_cases)
  case (2 e m s txn uid)
  then show ?case
    by (auto simp: handle_read_fifo_queue_request_def Let_def word_less_nat_alt
        intro!: answers fifo_builds split: prod.splits)
qed simp

lemma read_records_loop_answers:
  assumes "server_env_ok e"
  shows "same s0 s \<Longrightarrow>
    answered e txn uid ReadFileRecord s0 (read_records_loop e s txn uid payload app_out subs)"
proof (induction subs arbitrary: s payload app_out)
  case Nil
  then show ?case using assms by (auto intro!: answers)
next
  case (Cons sub subs)
  then show ?case
    using assms by (auto simp: Let_def res_simps intro!: answers Cons.IH split: prod.splits if_splits)
qed

interpretation read_file: answering_handler ReadFileRecord handle_read_file_record_request
  by unfold_locales (auto simp: handle_read_file_record_request_def intro!: answers read_records_loop_answers)

lemma write_sub_requests_bound:
  assumes "heapless_ok hw"
  shows "write_sub_requests_loop hw d (length d) index out = Ok subs \<Longrightarrow>
   \<forall>sub \<in> set out. length (frw_record_data_bytes sub) \<le> length d \<Longrightarrow>
   \<forall>sub \<in> set subs. length (frw_record_data_bytes sub) \<le> length d"
proof (induction "length d - index" arbitrary: index out rule: less_induct)
  case less
  note step = less.prems(1) [unfolded write_sub_requests_loop.simps [of hw d "length d" index out]]
  show ?case
    using assms less.prems(2) step
    by (auto simp: res_simps Let_def slice_def be16_at_def split: if_splits dest!: less.hyps [rotated])
qed

lemma write_records_loop_answers:
  assumes "server_env_ok e" "pdu_wf (pdu m)"
  shows "same s0 s \<Longrightarrow> length registers = 126 \<Longrightarrow>
   \<forall>sub \<in> set subs. length (frw_record_data_bytes sub) \<le> 252 \<Longrightarrow>
   answered e txn uid WriteFileRecord s0 (write_records_loop e s txn uid m registers subs)"
proof (induction subs arbitrary: s registers)
  case Nil
  then show ?case using assms by (auto simp: pdu_wf_def intro!: answers)
next
  case (Cons sub subs)
  then show ?case
    using assms
    by (auto simp: Let_def length_chunks_exact2 store_registers_ok intro!: answers Cons.IH split: prod.splits)
qed

interpretation write_file: answering_handler WriteFileRecord handle_write_file_record_request
proof (unfold_locales, goal_cases)
  case (2 e m s txn uid)
  have "\<forall>sub \<in> set subs. length (frw_record_data_bytes sub) \<le> 252"
    if "parse_file_record_write_request (srv_write_subs e) m = Ok subs" for subs
    using that write_sub_requests_bound [of "srv_write_subs e" "data (pdu m)"] 2
    by (fastforce simp: parse_file_record_write_request_def file_record_write_sub_requests_def Let_def
        res_simps pdu_wf_def split: if_splits)
  then show ?case
    using 2 by (auto simp: handle_write_file_record_request_def intro!: answers write_records_loop_answers)
qed simp

interpretation exception_status: answering_handler ReadExceptionStatus handle_read_exception_status_request
  by unfold_locales
    (auto simp: handle_read_exception_status_request_def Let_def intro!: answers split: prod.splits)

lemma or_default_no_panic [simp]: "r \<noteq> Panic \<Longrightarrow> or_default d r \<noteq> Panic"
  by (cases "(d, r)" rule: or_default.cases) simp_all

interpretation event_counter: answering_handler GetCommEventCounter handle_get_comm_event_counter_request
  by unfold_locales
    (auto simp: handle_get_comm_event_counter_request_def Let_def intro!: answers split: prod.splits)

interpretation server_id: answering_handler ReportServerId handle_report_server_id_request
  by unfold_locales
    (auto simp: handle_report_server_id_request_def Let_def res_simps intro!: answers
      split: prod.splits if_splits)

lemma idx_answers [answers]:
  "i < length xs \<Longrightarrow> answered e txn uid fc s (k (xs ! i)) \<Longrightarrow> answered e txn uid fc s (bind_res (idx xs i) k)"
  by simp

interpretation device_id: answering_handler EncapsulatedInterfaceTransport
  handle_encapsulated_interface_transport_request
proof (unfold_locales, goal_cases)
  case (2 e m s txn uid)
  have "unat n \<le> 246" if "read_device_identification_request_cb e a txn uid code ob buf = (a', out, Inr (n, rest))"
    for a code ob buf a' out n rest
  proof -
    have "n \<le> 246"
      using 2(1) that unfolding server_env_ok_def by (metis snd_conv)
    then show ?thesis by (simp add: word_le_nat_alt)
  qed
  then show ?case
    using 2 by (auto simp: handle_encapsulated_interface_transport_request_def
        handle_read_device_identification_def Let_def intro!: answers split: prod.splits)
qed simp

lemma copy_events_ok:
  "unat len + length rest \<le> length events \<Longrightarrow> length events \<le> 64 \<Longrightarrow>
   \<exists>out n. copy_events events len rest = Ok (out, n) \<and> length out = length events \<and>
     unat n = unat len + length rest"
proof (induction rest arbitrary: events len)
  case (Cons event rest)
  have "unat (sat_add len 1) = unat len + 1"
    using Cons.prems by (simp add: unat_sat_add)
  then show ?case using Cons.IH [of "sat_add len 1" "events[unat len := event]"] Cons.prems by simp
qed simp

interpretation event_log: answering_handler GetCommEventLog handle_get_comm_event_log_request
proof (unfold_locales, goal_cases)
  case (2 e m s txn uid)
  obtain events n where ev: "copy_events (replicate 64 0) 0 (comm_event_log s) = Ok (events, n)"
    "length events = 64" "unat n \<le> 64"
    using copy_events_ok [of 0 "comm_event_log s" "replicate 64 0"] 2(3) by auto
  have "unat (min k 64) \<le> 64" for k :: u8 by (simp add: unat_min_word)
  then show ?case
    using 2 ev
    by (auto simp: handle_get_comm_event_log_request_def Let_def res_simps intro!: answers
        split: prod.splits if_splits res.splits)
qed simp

section \<open>Diagnostics\<close>

text \<open>
  The sub-function that switches to listen-only mode is the one request that is not answered.
\<close>

lemma answered_listen:
  "answered e txn uid fc (s\<lparr>listen_only_mode := False\<rparr>) r \<Longrightarrow> answered e txn uid fc s r"
  by (auto simp: answered_def keeps_def)

definition diagnostics_silent :: "ModbusMessage \<Rightarrow> bool" where
  "diagnostics_silent m \<longleftrightarrow> (\<exists>raw d. parse_diagnostics_request m = Ok (raw, d) \<and>
     diagnostic_sub_function_try_from raw = Ok ForceListenOnlyMode)"

lemma send_diagnostics_answered [answers]:
  "server_env_ok e \<Longrightarrow> same s s1 \<Longrightarrow>
   answered e txn uid Diagnostics s (send_diagnostics_value_response e s1 txn uid raw v)"
  by (auto simp: send_diagnostics_value_response_def intro!: answers)

lemma forward_diagnostics_answered [answers]:
  "server_env_ok e \<Longrightarrow> same s s1 \<Longrightarrow>
   answered e txn uid Diagnostics s (forward_diagnostics_to_app e s1 txn uid sf raw d)"
  by (auto simp: forward_diagnostics_to_app_def Let_def intro!: answers split: prod.splits)

lemma dispatch_diagnostics_answered [answers]:
  assumes "server_env_ok e" "sf \<noteq> ForceListenOnlyMode"
  shows "answered e txn uid Diagnostics s (dispatch_diagnostics_sub_function e s txn uid sf raw d)"
proof -
  have "answered e txn uid Diagnostics (s\<lparr>listen_only_mode := False\<rparr>)
      (send_diagnostics_value_response e (s\<lparr>listen_only_mode := False\<rparr>) txn uid raw d)"
    by (rule send_diagnostics_answered [OF assms(1) same_refl])
  note answered_listen [OF this]
  then show ?thesis
    using assms
    by (cases sf) (simp_all add: dispatch_diagnostics_sub_function_def answers)
qed

lemma diagnostics_answered:
  assumes "server_env_ok e" "pdu_wf (pdu m)" "is_serial_type (SRV_TRANSPORT_TYPE e) \<Longrightarrow> \<not> diagnostics_silent m"
  shows "answered e txn uid Diagnostics s (handle_diagnostics_request e s txn uid m)"
  using assms
  by (auto simp: handle_diagnostics_request_def diagnostics_silent_def dsf.parse_no_panic intro!: answers)

lemma diagnostics_silenced:
  "is_serial_type (SRV_TRANSPORT_TYPE e) \<Longrightarrow> diagnostics_silent m \<Longrightarrow>
   handle_diagnostics_request e s txn uid m = Ok (s\<lparr>listen_only_mode := True\<rparr>)"
  by (auto simp: handle_diagnostics_request_def diagnostics_silent_def or_exception_def
      dispatch_diagnostics_sub_function_def enable_listen_only_mode_def)

section \<open>Dispatch\<close>

lemma request_handler_answers:
  assumes "server_env_ok e" "pdu_wf (pdu m)" "length (comm_event_log s) \<le> 64"
    "request_handler fc = Some h" "fc = Diagnostics \<Longrightarrow> is_serial_type (SRV_TRANSPORT_TYPE e) \<Longrightarrow> \<not> diagnostics_silent m"
  shows "answered e txn uid fc s (h e s txn uid m)"
  using assms(4)
  by (cases fc)
    (use assms(1-3,5) in \<open>auto simp: request_handler_def intro: diagnostics_answered
      read_coils.handle_answers read_inputs.handle_answers read_holding_registers.handle_answers
      read_input_registers.handle_answers write_coil.handle_answers write_register.handle_answers
      write_coils.handle_answers write_registers.handle_answers mask_write.handle_answers
      read_write_registers.handle_answers read_fifo.handle_answers read_file.handle_answers
      write_file.handle_answers exception_status.handle_answers event_counter.handle_answers
      event_log.handle_answers server_id.handle_answers device_id.handle_answers\<close>)

end
