(* ===== verification/Server_Dispatch.thy ===== *)
theory Server_Dispatch
  imports Server_Requests
begin

text \<open>
  Dispatching a request (mbus-server/src/services/mod.rs): broadcast writes are executed silently, a
  request for this server is answered once, and the invariant of the server covers the requests that
  wait in the queue: each is a complete frame that decodes to a request for this server.
\<close>

named_theorems silent \<open>rules for handlers that do not respond\<close>

section \<open>Broadcasts\<close>

definition silently :: "('t, 'a) server \<Rightarrow> ('t, 'a) server result \<Rightarrow> bool" where
  "silently s r \<longleftrightarrow> (\<exists>s'. r = Ok s' \<and> same s s' \<and> srv_transport s' = srv_transport s \<and>
     response_queue s' = response_queue s)"

lemma silently_Ok [silent]: "silently s (Ok s)" "silently s (Ok (s\<lparr>srv_app := a\<rparr>))"
  by (auto simp: silently_def intro: answers)

lemma ignore_errors_silent [silent]:
  "r \<noteq> Panic \<Longrightarrow> (\<And>v. r = Ok v \<Longrightarrow> silently s (k v)) \<Longrightarrow> silently s (ignore_errors s r k)"
  by (cases r) (auto simp: ignore_errors_def intro: silent)

lemma decoded_words_silent [silent]:
  fixes q :: u16
  assumes "length vals = unat q * 2" "q \<le> of_nat n" "n < 65536" "\<And>ws. silently s (k ws)"
  shows "silently s (bind_res (decode_registers n vals) (\<lambda>registers. bind_res (slice_to registers (unat q)) k))"
  using decoded_words [OF assms(1-3), of k] assms(4) by auto

lemma broadcast_silent:
  "pdu_wf (pdu m) \<Longrightarrow> silently s (dispatch_broadcast_write_no_response e s m)"
  by (cases "function_code (pdu m)")
    (auto simp: dispatch_broadcast_write_no_response_def handle_broadcast_write_single_coil_request_def
      handle_broadcast_write_single_register_request_def handle_broadcast_write_multiple_coils_request_def
      handle_broadcast_write_multiple_registers_request_def check_write_registers_Ok_iff Let_def
      intro!: silent split: prod.splits option.splits)

section \<open>Dispatch\<close>

definition request_txn :: "ModbusMessage \<Rightarrow> u16 \<times> UnitIdOrSlaveAddr" where
  "request_txn m = (message_transaction_id m, unit_id_or_slave_addr m)"

text \<open>The requests a server answers: addressed to it, and not made to be silent.\<close>

definition expects_answer :: "('t, 'a) server_env \<Rightarrow> ('t, 'a) server \<Rightarrow> ModbusMessage \<Rightarrow> bool" where
  "expects_answer e s m \<longleftrightarrow> \<not> should_handle_broadcast_write e s m \<and> \<not> should_drop_for_address s m \<and>
     (listen_only_mode s \<longrightarrow> function_code (pdu m) = Diagnostics) \<and>
     \<not> (function_code (pdu m) = Diagnostics \<and> is_serial_type (SRV_TRANSPORT_TYPE e) \<and> diagnostics_silent m)"

lemma dispatch_answered:
  assumes "server_env_ok e" "pdu_wf (pdu m)" "normal_code (function_code (pdu m))"
    "length (comm_event_log s) \<le> 64" "expects_answer e s m"
  shows "answered e (message_transaction_id m) (unit_id_or_slave_addr m) (function_code (pdu m)) s
    (dispatch_request_for_frame e s m)"
  using assms request_handler_answers [OF assms(1,2,4), of "function_code (pdu m)"]
  by (auto simp: dispatch_request_for_frame_def expects_answer_def Let_def intro!: answers split: option.splits)

definition server_step :: "('t, 'a) server \<Rightarrow> ('t, 'a) server \<Rightarrow> bool" where
  "server_step s s' \<longleftrightarrow> own_address s' = own_address s \<and> srv_config s' = srv_config s \<and>
     resilience s' = resilience s \<and> prefix (responses s) (responses s')"

lemma server_step_refl [simp]: "server_step s s"
  by (simp add: server_step_def)

lemma server_step_trans: "server_step a b \<Longrightarrow> server_step b c \<Longrightarrow> server_step a c"
  by (auto simp: server_step_def intro: prefix_order.trans)

lemma answered_step: "answered e txn uid fc s r \<Longrightarrow> \<exists>s'. r = Ok s' \<and> keeps s s' \<and> server_step s s'"
  by (auto simp: answered_def server_step_def keeps_def)

lemma same_step: "same s s' \<Longrightarrow> keeps s s' \<and> server_step s s'"
  by (simp add: same_def server_step_def keeps_def)

lemma silently_step: "silently s r \<Longrightarrow> \<exists>s'. r = Ok s' \<and> keeps s s' \<and> server_step s s'"
  by (auto simp: silently_def dest: same_step)

lemma dispatch_step:
  assumes "server_env_ok e" "pdu_wf (pdu m)" "normal_code (function_code (pdu m))"
    "length (comm_event_log s) \<le> 64"
  shows "\<exists>s'. dispatch_request_for_frame e s m = Ok s' \<and> keeps s s' \<and> server_step s s'"
proof (cases "expects_answer e s m")
  case True
  then show ?thesis using dispatch_answered [OF assms] answered_step by blast
next
  case False
  have "keeps s (s\<lparr>listen_only_mode := True\<rparr>) \<and> server_step s (s\<lparr>listen_only_mode := True\<rparr>)"
    by (simp add: keeps_def server_step_def)
  then show ?thesis
    using False silently_step [OF broadcast_silent [OF assms(2), of s e]]
      diagnostics_silenced [of e m s]
    by (auto simp: dispatch_request_for_frame_def expects_answer_def Let_def request_handler_def)
qed

lemma dispatch_immediately_step:
  assumes "server_env_ok e" "pdu_wf (pdu m)" "normal_code (function_code (pdu m))"
    "length (comm_event_log s) \<le> 64"
  shows "\<exists>s'. dispatch_immediately e s m = Ok s' \<and> keeps s s' \<and> server_step s s'"
proof -
  have s1: "keeps s (snd (now_us s)) \<and> server_step s (snd (now_us s))" by (rule same_step [OF same_now])
  then have "length (comm_event_log (snd (now_us s))) \<le> 64" using assms(4) by (simp add: keeps_def)
  from dispatch_step [OF assms(1-3) this] obtain s' where s':
      "dispatch_request_for_frame e (snd (now_us s)) m = Ok s'" "keeps (snd (now_us s)) s'"
      "server_step (snd (now_us s)) s'" by blast
  have "keeps s' (snd (now_us s')) \<and> server_step s' (snd (now_us s'))" by (rule same_step [OF same_now])
  then show ?thesis
    using s1 s' by (auto simp: dispatch_immediately_def Let_def case_prod_beta
        intro: keeps_trans server_step_trans)
qed

section \<open>The invariant\<close>

definition pending_ok :: "('t, 'a) server_env \<Rightarrow> ('t, 'a) server \<Rightarrow> PendingRequest \<Rightarrow> bool" where
  "pending_ok e s p \<longleftrightarrow>
     (\<exists>m. pending_message e (pr_frame p) = Ok (Some m) \<and>
        pr_priority p = from_function_code (function_code (pdu m)) \<and> pdu_wf (pdu m) \<and>
        normal_code (function_code (pdu m)) \<and> \<not> should_drop_for_address s m \<and>
        \<not> should_handle_broadcast_write e s m)"

definition server_inv :: "('t, 'a) server_env \<Rightarrow> ('t, 'a) server \<Rightarrow> bool" where
  "server_inv e s \<longleftrightarrow> length (srv_rxed_frame s) \<le> 513 \<and> length (comm_event_log s) \<le> 64 \<and>
     length (request_queue s) \<le> QUEUE_DEPTH e \<and> (\<forall>p \<in> set (request_queue s). pending_ok e s p)"

lemma pending_ok_cong:
  "own_address s' = own_address s \<Longrightarrow> resilience s' = resilience s \<Longrightarrow> pending_ok e s' p = pending_ok e s p"
  by (simp add: pending_ok_def should_drop_for_address_def should_handle_broadcast_write_def)

lemma keeps_inv: "keeps s s' \<Longrightarrow> server_inv e s \<Longrightarrow> server_inv e s'"
  using pending_ok_cong [of s' s e] by (auto simp: server_inv_def keeps_def)

text \<open>What an operation of the receive path does: the invariant is kept and the buffer stays as it is.\<close>

definition receives :: "('t, 'a) server_env \<Rightarrow> ('t, 'a) server \<Rightarrow> ('t, 'a) server result \<Rightarrow> bool" where
  "receives e s r \<longleftrightarrow> (\<exists>s'. r = Ok s' \<and> server_inv e s' \<and> server_step s s' \<and>
     srv_rxed_frame s' = srv_rxed_frame s)"

lemma keeps_receives:
  "server_inv e s \<Longrightarrow> (\<exists>s'. r = Ok s' \<and> keeps s s' \<and> server_step s s') \<Longrightarrow> receives e s r"
  by (auto simp: receives_def keeps_inv) (auto simp: keeps_def)

lemma receives_from:
  "receives e s' r \<Longrightarrow> server_step s s' \<Longrightarrow> srv_rxed_frame s' = srv_rxed_frame s \<Longrightarrow> receives e s r"
  by (auto simp: receives_def intro: server_step_trans)

section \<open>Decoded requests\<close>

lemma server_readdress_pdu: "server_readdress tt m = Ok (Some m') \<Longrightarrow> pdu m' = pdu m"
  by (auto simp: server_readdress_def modbus_message_new_def res_simps split: if_splits AdditionalAddress.splits)

text \<open>A complete request at the front of the buffer.\<close>

definition front_request :: "('t, 'a) server_env \<Rightarrow> ('t, 'a) server \<Rightarrow> usize \<Rightarrow> ModbusMessage \<Rightarrow> bool" where
  "front_request e s n m \<longleftrightarrow> derive_length_from_bytes (srv_usizes e) (srv_rxed_frame s) (SRV_TRANSPORT_TYPE e) = Some n \<and>
     n \<le> 513 \<and> n \<le> length (srv_rxed_frame s) \<and>
     (\<exists>m0. decompile_adu_frame (srv_bytes e) (take n (srv_rxed_frame s)) (SRV_TRANSPORT_TYPE e) = Ok m0 \<and>
        server_readdress (SRV_TRANSPORT_TYPE e) m0 = Ok (Some m))"

lemma front_request_ok:
  assumes "server_env_ok e" "front_request e s n m"
  shows "pdu_wf (pdu m)" "normal_code (function_code (pdu m))"
    "pending_message e (take n (srv_rxed_frame s)) = Ok (Some m)"
proof -
  obtain m0 where m0: "decompile_adu_frame (srv_bytes e) (take n (srv_rxed_frame s)) (SRV_TRANSPORT_TYPE e) = Ok m0"
      "server_readdress (SRV_TRANSPORT_TYPE e) m0 = Ok (Some m)"
    using assms(2) by (auto simp: front_request_def)
  note n = assms(2) [unfolded front_request_def]
  show "pdu_wf (pdu m)" "normal_code (function_code (pdu m))"
    using decompile_wf [OF _ m0(1)] server_readdress_pdu [OF m0(2)] assms(1) by simp_all
  have "derive_length_from_bytes (srv_usizes e) (take n (srv_rxed_frame s)) (SRV_TRANSPORT_TYPE e) = Some n"
    using derive_length_take [OF _ _ _ m0(1), of "srv_usizes e"] assms(1) n by simp
  then show "pending_message e (take n (srv_rxed_frame s)) = Ok (Some m)"
    using m0 n by (simp add: pending_message_def reframe_message_def)
qed

lemma now_us_receives: "server_inv e s \<Longrightarrow> receives e s (Ok (snd (now_us s)))"
  using same_step [OF same_now] by (intro keeps_receives) auto

lemma try_enqueue_receives:
  assumes e: "server_env_ok e" and s: "server_inv e s" and m: "front_request e s n m"
    and addr: "\<not> should_drop_for_address s m" "\<not> should_handle_broadcast_write e s m"
  shows "receives e s (try_enqueue_request e s m n)"
proof (cases "should_apply_back_pressure e s")
  case True
  let ?s = "s\<lparr>rejected_request_count := sat_add (rejected_request_count s) 1\<rparr>"
  have "answered e (message_transaction_id m) (unit_id_or_slave_addr m) (function_code (pdu m)) ?s
      (send_exception_response e ?s (message_transaction_id m) (unit_id_or_slave_addr m)
         (function_code (pdu m)) TooManyRequests)"
    using e front_request_ok(2) [OF e m] by (auto intro!: answers)
  then have "receives e ?s (try_enqueue_request e s m n)"
    using True m s answered_step
    by (intro keeps_receives) (auto simp: try_enqueue_request_def front_request_def server_inv_def
        pending_ok_cong [of ?s s])
  then show ?thesis by (rule receives_from) (simp_all add: server_step_def)
next
  case False
  define s1 where "s1 = snd (now_us s)"
  let ?p = "\<lparr>pr_frame = take n (srv_rxed_frame s), pr_priority = from_function_code (function_code (pdu m)),
    received_at_us = fst (now_us s)\<rparr>"
  have s1: "keeps s s1" "server_step s s1" using same_step [OF same_now, of s] by (simp_all add: s1_def)
  have inv: "server_inv e s1" by (rule keeps_inv [OF s1(1) s])
  have p: "pending_ok e s1 ?p"
    unfolding pending_ok_def
    by (rule exI [of _ m])
      (use front_request_ok [OF e m] addr s1(1) in \<open>simp add: should_drop_for_address_def
        should_handle_broadcast_write_def keeps_def\<close>)
  show ?thesis
  proof (cases "length (request_queue s1) < QUEUE_DEPTH e")
    case True
    have "server_inv e (s1\<lparr>request_queue := request_queue s1 @ [?p]\<rparr>)"
      using inv p True by (auto simp: server_inv_def pending_ok_def should_drop_for_address_def
          should_handle_broadcast_write_def)
    moreover have "try_enqueue_request e s m n = Ok (s1\<lparr>request_queue := request_queue s1 @ [?p]\<rparr>)"
      using e m False True
      by (simp add: try_enqueue_request_def front_request_def request_push_def Let_def case_prod_beta s1_def)
    ultimately show ?thesis
      using s1 by (auto simp: receives_def server_step_def keeps_def)
  next
    case full: False
    have "try_enqueue_request e s m n = dispatch_immediately e s1 m"
      using e m False full
      by (simp add: try_enqueue_request_def front_request_def request_push_def Let_def case_prod_beta s1_def)
    moreover have "receives e s1 (dispatch_immediately e s1 m)"
      using inv front_request_ok [OF e m] by (intro keeps_receives dispatch_immediately_step e)
        (auto simp: server_inv_def)
    ultimately show ?thesis
      using s1 by (auto simp: keeps_def intro: receives_from)
  qed
qed

lemma record_comm_event_inv:
  assumes "server_env_ok e" "server_inv e s"
  shows "server_inv e (record_comm_event e s c)" "server_step s (record_comm_event e s c)"
    "srv_rxed_frame (record_comm_event e s c) = srv_rxed_frame s"
    "own_address (record_comm_event e s c) = own_address s" "resilience (record_comm_event e s c) = resilience s"
  using assms
  by (auto simp: record_comm_event_def Let_def server_step_def server_inv_def pending_ok_def
      should_drop_for_address_def should_handle_broadcast_write_def split: list.splits)

lemma handle_inbound_receives:
  assumes e: "server_env_ok e" and s: "server_inv e s" and m: "front_request e s n m"
  shows "receives e s (handle_inbound e s m n)"
proof -
  let ?s = "record_comm_event e s 4"
  note r = record_comm_event_inv [OF e s, of 4]
  have "front_request e ?s n m" using m r(3) by (simp add: front_request_def)
  then have enq: "receives e ?s (enqueue_or_dispatch_inbound e ?s m n)"
    if "\<not> should_drop_for_address s m" "\<not> should_handle_broadcast_write e s m"
    using that try_enqueue_receives [OF e r(1), of n m] front_request_ok [OF e m] r
      dispatch_immediately_step [OF e, of m ?s]
    by (auto simp: enqueue_or_dispatch_inbound_def should_drop_for_address_def
        should_handle_broadcast_write_def server_inv_def intro!: keeps_receives)
  show ?thesis
    using receives_from [OF enq r(2,3)] keeps_receives [OF s silently_step [OF broadcast_silent]]
      front_request_ok(1) [OF e m] s
    by (auto simp: handle_inbound_def receives_def)
qed

end
