(* ===== verification/Server_Receive.thy ===== *)
theory Server_Receive
  imports Server_Dispatch
begin

text \<open>
  The receive loop of the server and the loop over its request queue
  (\<open>process_rxed_frame\<close>, \<open>ingest_frame\<close> and step 5 of \<open>poll\<close> in mbus-server/src/services/mod.rs).
\<close>

section \<open>The receive loop\<close>

abbreviation server_incomplete :: "('t, 'a) server_env \<Rightarrow> bytes \<Rightarrow> bool" where
  "server_incomplete e \<equiv> incomplete_front (srv_usizes e) (SRV_TRANSPORT_TYPE e)"

definition server_ok :: "('t, 'a) server_env \<Rightarrow> ('t, 'a) server \<Rightarrow> bool" where
  "server_ok e s \<longleftrightarrow> server_env_ok e \<and> server_inv e s"

lemma server_readdress_no_panic [simp]: "server_readdress tt m \<noteq> Panic"
  by (auto simp: server_readdress_def res_simps split: AdditionalAddress.splits)

lemma transport_update_ok: "server_inv e s \<Longrightarrow> server_inv e (s\<lparr>srv_transport := t\<rparr>)"
  by (rule keeps_inv) (simp_all add: keeps_def)

lemma server_ingest_ok:
  assumes "server_ok e s" "server_ingest_frame e s = (r, s')"
  shows "server_ok e s' \<and> server_step s s' \<and> srv_rxed_frame s' = srv_rxed_frame s \<and> r \<noteq> Panic \<and>
    (\<forall>n. r = Ok n \<longrightarrow> 0 < n) \<and> (r = Err BufferTooSmall \<longrightarrow> server_incomplete e (srv_rxed_frame s))"
proof -
  let ?rx = "srv_rxed_frame s" and ?tt = "SRV_TRANSPORT_TYPE e"
  have e: "server_env_ok e" and s: "server_inv e s" using assms(1) by (simp_all add: server_ok_def)
  show ?thesis
  proof (cases "derive_length_from_bytes (srv_usizes e) ?rx ?tt")
    case None
    then show ?thesis using assms by (auto simp: server_ingest_frame_def Let_def incomplete_front_def)
  next
    case (Some n)
    have pos: "0 < n" by (rule derived_length_pos [OF _ Some]) (simp add: e)
    show ?thesis
    proof (cases "n \<le> 513 \<and> n \<le> length ?rx")
      case False
      then show ?thesis
        using assms Some by (auto simp: server_ingest_frame_def Let_def incomplete_front_def split: if_splits)
    next
      case True
      note run = assms(2) [unfolded server_ingest_frame_def Let_def]
      have safe: "decompile_adu_frame (srv_bytes e) (take n ?rx) ?tt \<noteq> Panic"
        using derived_slice_no_panic [OF _ Some] True e by simp
      have err: "decompile_adu_frame (srv_bytes e) (take n ?rx) ?tt \<noteq> Err BufferTooSmall"
        using decompile_error [of "srv_bytes e" "take n ?rx"] True e by simp
      show ?thesis
      proof (cases "decompile_adu_frame (srv_bytes e) (take n ?rx) ?tt")
        case (Ok m0)
        have inbound: "receives e s (handle_inbound e s m n)" if "server_readdress ?tt m0 = Ok (Some m)" for m
          by (rule handle_inbound_receives [OF e s]) (use Some True Ok that in \<open>auto simp: front_request_def\<close>)
        have "server_readdress ?tt m0 \<noteq> Err BufferTooSmall"
          by (auto simp: server_readdress_def res_simps split: if_splits AdditionalAddress.splits)
        then show ?thesis
          using run Some True Ok pos inbound assms(1) e
          by (auto simp: receives_def server_ok_def split: res.splits option.splits)
      next
        case (Err err')
        have "\<exists>f. unsupported_function_frame ?rx b = Ok f" if "8 \<le> n" for b
        proof -
          have "?rx \<noteq> []" "1 < length ?rx" "6 < length ?rx" using that True by auto
          then show ?thesis by (simp add: unsupported_function_frame_def)
        qed
        then obtain g where "\<And>b. 8 \<le> n \<Longrightarrow> unsupported_function_frame ?rx b = Ok (g b)" by metis
        then show ?thesis
          using run Some True Err pos err assms(1) transport_update_ok [OF s]
          by (cases err') (auto simp: server_ok_def server_step_def split: if_splits res.splits)
      qed (use safe in simp)
    qed
  qed
qed

lemma rx_update_ok:
  "server_ok e s \<Longrightarrow> length bs \<le> 513 \<Longrightarrow> server_ok e (s\<lparr>srv_rxed_frame := bs\<rparr>)"
  by (auto simp: server_ok_def server_inv_def pending_ok_cong [of "s\<lparr>srv_rxed_frame := bs\<rparr>" s])

lemma server_buffer_shrinks:
  assumes "server_ok e s"
  shows "server_ok e (server_drain_rxed_frame e s n) \<and> server_step s (server_drain_rxed_frame e s n) \<and>
      srv_rxed_frame (server_drain_rxed_frame e s n) = drop n (srv_rxed_frame s)"
    and "server_ok e (server_handle_parse_error e s) \<and> server_step s (server_handle_parse_error e s) \<and>
      srv_rxed_frame (server_handle_parse_error e s) = drop 1 (srv_rxed_frame s)"
proof -
  have hv: "heapless_ok (srv_bytes e)" and len: "length (srv_rxed_frame s) \<le> 513"
    using assms by (auto simp: server_ok_def server_inv_def)
  have "server_drain_rxed_frame e s n = s\<lparr>srv_rxed_frame := drop n (srv_rxed_frame s)\<rparr>"
    "server_handle_parse_error e s = s\<lparr>srv_rxed_frame := drop 1 (srv_rxed_frame s)\<rparr>"
    using hv by (simp_all add: server_drain_rxed_frame_def server_handle_parse_error_def Let_def)
  then show "server_ok e (server_drain_rxed_frame e s n) \<and> server_step s (server_drain_rxed_frame e s n) \<and>
      srv_rxed_frame (server_drain_rxed_frame e s n) = drop n (srv_rxed_frame s)"
    "server_ok e (server_handle_parse_error e s) \<and> server_step s (server_handle_parse_error e s) \<and>
      srv_rxed_frame (server_handle_parse_error e s) = drop 1 (srv_rxed_frame s)"
    using rx_update_ok [OF assms] len by (simp_all add: server_step_def)
qed

interpretation server_receive: receive_loop "server_ok e" srv_rxed_frame server_step "server_incomplete e"
  "server_ingest_frame e" "server_drain_rxed_frame e" "server_handle_parse_error e"
  "server_process_rxed_frame e" for e
proof (unfold_locales, goal_cases)
  case (1 s)
  show ?case by (rule server_process_rxed_frame.simps)
next
  case (5 s r s')
  then show ?case using server_ingest_ok [OF 5] by blast
next
  case (6 s s')
  then show ?case using server_ingest_ok [OF 6] by blast
qed (auto simp: incomplete_front_def server_buffer_shrinks intro: server_step_trans)

section \<open>The request queue\<close>

lemma queue_update_inv:
  "server_inv e s \<Longrightarrow> set q \<subseteq> set (request_queue s) \<Longrightarrow> length q \<le> QUEUE_DEPTH e \<Longrightarrow>
   server_inv e (s\<lparr>request_queue := q\<rparr>)"
  by (auto simp: server_inv_def pending_ok_cong [of "s\<lparr>request_queue := q\<rparr>" s])

text \<open>The message of a queued request.\<close>

definition queued_message :: "('t, 'a) server_env \<Rightarrow> PendingRequest \<Rightarrow> ModbusMessage" where
  "queued_message e p = (case pending_message e (pr_frame p) of Ok (Some m) \<Rightarrow> m)"

lemma dispatch_pending_step:
  assumes "server_env_ok e" "pending_ok e s p" "length (comm_event_log s) \<le> 64"
  shows "\<exists>s'. dispatch_pending_request e s p = Ok s' \<and> keeps s s' \<and> server_step s s'"
  using assms dispatch_immediately_step [OF assms(1)]
  by (auto simp: pending_ok_def dispatch_pending_request_def)

text \<open>A queued request that may switch the server to listen-only mode.\<close>

definition may_silence :: "('t, 'a) server_env \<Rightarrow> PendingRequest \<Rightarrow> bool" where
  "may_silence e p \<longleftrightarrow> function_code (pdu (queued_message e p)) = Diagnostics \<and>
     is_serial_type (SRV_TRANSPORT_TYPE e) \<and> diagnostics_silent (queued_message e p)"

definition response_ids :: "('t, 'a) server \<Rightarrow> (u16 \<times> UnitIdOrSlaveAddr) list" where
  "response_ids s = map (\<lambda>(txn, uid, f). (txn, uid)) (responses s)"

lemma dispatch_pending_answers:
  assumes "server_env_ok e" "pending_ok e s p" "length (comm_event_log s) \<le> 64" "\<not> listen_only_mode s"
    "\<not> may_silence e p"
  shows "\<exists>s'. dispatch_pending_request e s p = Ok s' \<and> keeps s s' \<and> server_step s s' \<and> \<not> listen_only_mode s' \<and>
    response_ids s' = response_ids s @ [request_txn (queued_message e p)]"
proof -
  obtain m where m: "pending_message e (pr_frame p) = Ok (Some m)" "pdu_wf (pdu m)"
      "normal_code (function_code (pdu m))" "\<not> should_drop_for_address s m" "\<not> should_handle_broadcast_write e s m"
    using assms(2) by (auto simp: pending_ok_def)
  then have q: "queued_message e p = m" by (simp add: queued_message_def)
  define s1 where "s1 = snd (now_us s)"
  have s1: "same s s1" by (simp add: s1_def same_now)
  have "expects_answer e s1 m"
    using m(4,5) assms(4,5) s1 q
    by (auto simp: expects_answer_def should_drop_for_address_def should_handle_broadcast_write_def same_def
        keeps_def may_silence_def)
  then have "answered e (message_transaction_id m) (unit_id_or_slave_addr m) (function_code (pdu m)) s1
      (dispatch_request_for_frame e s1 m)"
    using assms(1,3) m(2,3) s1 by (intro dispatch_answered) (simp_all add: same_def keeps_def)
  then obtain s2 f where s2: "dispatch_request_for_frame e s1 m = Ok s2" "keeps s1 s2"
      "listen_only_mode s2 \<longrightarrow> listen_only_mode s1"
      "responses s2 = responses s1 @ [(message_transaction_id m, unit_id_or_slave_addr m, f)]"
    by (auto simp: answered_def)
  have s3: "same s2 (snd (now_us s2))" by (rule same_now)
  have "dispatch_pending_request e s p = Ok (snd (now_us s2))"
    using m(1) s2(1) by (simp add: dispatch_pending_request_def dispatch_immediately_def case_prod_beta s1_def)
  then show ?thesis
    using s1 s2 s3 assms(4) q
    by (auto simp: same_def keeps_def server_step_def response_ids_def request_txn_def)
qed

text \<open>
  The loop over the queue: every request is dispatched once, in the order in which the queue returns
  them, and unless one of them silences the server each is answered before the next one.
\<close>

lemma dispatch_queue_loop_ok:
  "server_ok e s \<Longrightarrow>
   \<exists>s' ps. dispatch_queue_loop e s = Some (Ok s') \<and> request_queue.served (srv_requests e) (request_queue s) ps \<and>
     server_ok e s' \<and> server_step s s' \<and> request_queue s' = [] \<and> srv_rxed_frame s' = srv_rxed_frame s \<and>
     (\<not> listen_only_mode s \<and> (\<forall>p \<in> set (request_queue s). \<not> may_silence e p) \<longrightarrow>
        response_ids s' = response_ids s @ map (request_txn \<circ> queued_message e) ps)"
proof (induction "length (request_queue s)" arbitrary: s rule: less_induct)
  case less
  then have e: "server_env_ok e" and s: "server_inv e s" by (simp_all add: server_ok_def)
  have hv: "heapless_ok (srv_requests e)" using e by simp
  show ?case
  proof (cases rule: request_queue.pop_cases [OF hv, of "request_queue s", case_names empty more])
    case empty
    then show ?thesis
      using less.prems by (subst dispatch_queue_loop.simps) (auto intro: request_queue.served_Nil)
  next
    case (more p q)
    let ?s = "s\<lparr>request_queue := q\<rparr>"
    have "size (mset (request_queue s)) = Suc (size (mset q))" "set_mset (mset (request_queue s)) = insert p (set q)"
      using more(3) by simp_all
    then have q: "set (request_queue s) = insert p (set q)" "length (request_queue s) = Suc (length q)"
      by simp_all
    have inv: "server_inv e ?s"
      by (rule queue_update_inv [OF s]) (use s q in \<open>auto simp: server_inv_def\<close>)
    have p: "pending_ok e ?s p" using s q(1) by (simp add: server_inv_def pending_ok_cong [of ?s s])
    have log: "length (comm_event_log ?s) \<le> 64" using s by (simp add: server_inv_def)
    obtain s1 where s1: "dispatch_pending_request e ?s p = Ok s1" "keeps ?s s1" "server_step ?s s1"
      using dispatch_pending_step [OF e p log] by blast
    have ids: "\<not> listen_only_mode s1 \<and> response_ids s1 = response_ids s @ [request_txn (queued_message e p)]"
      if "\<not> listen_only_mode s" "\<not> may_silence e p"
      using dispatch_pending_answers [OF e p log] that s1(1) by (auto simp: response_ids_def)
    have "server_ok e s1" "length (request_queue s1) < length (request_queue s)"
      using keeps_inv [OF s1(2) inv] e s1(2) q(2) by (simp_all add: server_ok_def keeps_def)
    from less.hyps [OF this(2,1)] obtain s' ps where s': "dispatch_queue_loop e s1 = Some (Ok s')"
        "request_queue.served (srv_requests e) (request_queue s1) ps" "server_ok e s'" "server_step s1 s'"
        "request_queue s' = []" "srv_rxed_frame s' = srv_rxed_frame s1"
        "\<not> listen_only_mode s1 \<and> (\<forall>p \<in> set (request_queue s1). \<not> may_silence e p) \<longrightarrow>
           response_ids s' = response_ids s1 @ map (request_txn \<circ> queued_message e) ps"
      by blast
    have "request_queue.served (srv_requests e) (request_queue s) (p # ps)"
      using more(1) s'(2) s1(2) by (auto simp: keeps_def intro: request_queue.served_Cons)
    moreover have "server_step s s'" using s1(3) s'(4) server_step_trans by (fastforce simp: server_step_def)
    ultimately show ?thesis
      using s' more(1) s1 q(1) ids by (subst dispatch_queue_loop.simps) (auto simp: keeps_def)
  qed
qed

section \<open>Expiry and the retry of responses\<close>

lemma handle_expired_step:
  assumes "server_env_ok e" "pending_ok e s p"
  shows "\<exists>s'. handle_expired_request_strict e s p = Ok s' \<and> keeps s s' \<and> server_step s s'"
proof -
  obtain m where m: "pending_message e (pr_frame p) = Ok (Some m)" "normal_code (function_code (pdu m))"
    using assms(2) by (auto simp: pending_ok_def)
  then show ?thesis
    using answered_step [OF send_exception_response_answered [OF assms(1) m(2) same_refl]]
    by (simp add: handle_expired_request_strict_def)
qed

lemma expired_requests_loop_step:
  "server_env_ok e \<Longrightarrow> \<forall>p \<in> set ps. pending_ok e s p \<Longrightarrow>
   \<exists>s'. expired_requests_loop e s ps = Ok s' \<and> keeps s s' \<and> server_step s s'"
proof (induction ps arbitrary: s)
  case (Cons p ps)
  then obtain s1 where s1: "handle_expired_request_strict e s p = Ok s1" "keeps s s1" "server_step s s1"
    using handle_expired_step [of e s p] by auto
  then have "\<forall>p \<in> set ps. pending_ok e s1 p"
    using Cons.prems(2) pending_ok_cong [of s1 s e] by (simp add: keeps_def)
  from Cons.IH [OF Cons.prems(1) this] s1 show ?case
    by (auto intro: keeps_trans server_step_trans)
qed simp

end
