(* ===== verification/Server_Poll.thy ===== *)
theory Server_Poll
  imports Server_Receive
begin

text \<open>
  Expiry of queued requests, the retry of responses and \<open>poll\<close> (mbus-server/src/services/mod.rs): none of
  them panics or runs forever, and all keep the invariant.
\<close>

section \<open>Expiry\<close>

lemma expire_queued_ok:
  assumes "server_ok e s"
  shows "\<exists>s'. expire_stale_queued_requests e s = Some (Ok s') \<and> server_ok e s' \<and> server_step s s' \<and>
    set (request_queue s') \<subseteq> set (request_queue s) \<and> srv_rxed_frame s' = srv_rxed_frame s"
proof -
  let ?deadline = "request_deadline_ms (timeouts (resilience s))"
  define s1 where "s1 = snd (now_us s)"
  have e: "server_env_ok e" and s: "server_inv e s" using assms by (simp_all add: server_ok_def)
  have s1: "keeps s s1" "server_step s s1" using same_step [OF same_now, of s] by (simp_all add: s1_def)
  show ?thesis
  proof (cases "?deadline = 0")
    case True
    then show ?thesis using assms by (simp add: expire_stale_queued_requests_def)
  next
    case False
    obtain expired q where q: "take_expired (srv_requests e) (QUEUE_DEPTH e) (request_queue s) (fst (now_us s)) ?deadline =
          Some (Ok (expired, q))"
        "expire_stale (srv_requests e) (request_queue s) (fst (now_us s)) ?deadline = Some (Ok (length expired, q))"
        "mset expired \<subseteq># mset (request_queue s)" "mset q \<subseteq># mset (request_queue s)"
      using expiry_ok [of "srv_requests e" "request_queue s" "QUEUE_DEPTH e" ?deadline] e s False
      by (fastforce simp: server_inv_def)
    let ?s = "s1\<lparr>request_queue := q\<rparr>"
    have sub: "set expired \<subseteq> set (request_queue s)" "set q \<subseteq> set (request_queue s)"
        "length q \<le> length (request_queue s)"
      using set_mset_mono [OF q(3)] set_mset_mono [OF q(4)] size_mset_mono [OF q(4)] by simp_all
    have inv: "server_inv e ?s"
      using queue_update_inv [OF keeps_inv [OF s1(1) s], of q] sub s s1(1)
      by (simp add: keeps_def server_inv_def)
    have "\<forall>p \<in> set expired. pending_ok e ?s p"
      using sub(1) s s1(1) pending_ok_cong [of ?s s e] by (auto simp: server_inv_def keeps_def)
    then obtain s' where s': "expired_requests_loop e ?s expired = Ok s'" "keeps ?s s'" "server_step ?s s'"
      using expired_requests_loop_step [OF e] by blast
    have step: "server_step s ?s" using s1(2) by (simp add: server_step_def)
    have "server_ok e ?s" "server_ok e s'" "server_step s s'"
      using inv keeps_inv [OF s'(2) inv] e server_step_trans [OF step s'(3)] by (simp_all add: server_ok_def)
    then show ?thesis
      using q False s' sub s1 step
      by (auto simp: expire_stale_queued_requests_def Let_def case_prod_beta s1_def keeps_def)
  qed
qed

lemma run_request_queue_ok:
  assumes "server_ok e s"
  shows "\<exists>s'. run_request_queue e s = Some (Ok s') \<and> server_ok e s' \<and> server_step s s' \<and>
    srv_rxed_frame s' = srv_rxed_frame s \<and>
    (0 < QUEUE_DEPTH e \<and> enable_priority_queue (resilience s) \<longrightarrow> request_queue s' = [])"
proof -
  obtain s1 where s1: "expire_stale_queued_requests e s = Some (Ok s1)" "server_ok e s1" "server_step s s1"
      "srv_rxed_frame s1 = srv_rxed_frame s"
    using expire_queued_ok [OF assms] by blast
  obtain s2 where s2: "dispatch_queue_loop e s1 = Some (Ok s2)" "server_ok e s2" "server_step s1 s2"
      "request_queue s2 = []" "srv_rxed_frame s2 = srv_rxed_frame s1"
    using dispatch_queue_loop_ok [OF s1(2)] by blast
  show ?thesis
    using s1 s2 assms server_step_trans [OF s1(3) s2(3)] by (simp add: run_request_queue_def)
qed

section \<open>The retry of responses\<close>

lemma should_delay_same:
  "should_delay_response_retry s p t h = (d, s') \<Longrightarrow> same s s'"
  using same_now [of s]
  by (auto simp: should_delay_response_retry_def case_prod_beta same_refl split: if_splits)

lemma retry_failure_same: "same s (on_queued_response_retry_failure e s p)"
  using same_now [of s] by (auto simp: on_queued_response_retry_failure_def case_prod_beta same_def keeps_def)

lemma try_send_queued_same: "try_send_queued_response e s p = (b, s') \<Longrightarrow> same s s'"
proof -
  assume a: "try_send_queued_response e s p = (b, s')"
  define s1 where "s1 = s\<lparr>srv_transport := fst (srv_transport_send e (srv_transport s) (ps_frame p))\<rparr>"
  have "s' \<in> {s1, on_queued_response_retry_failure e s1 (p\<lparr>is_turnaround_delay := False\<rparr>)}"
    using a by (auto simp: try_send_queued_response_def Let_def case_prod_beta s1_def split: sum.splits)
  moreover have "same s s1" by (simp add: s1_def same_transport)
  moreover from this have "same s (on_queued_response_retry_failure e s1 (p\<lparr>is_turnaround_delay := False\<rparr>))"
    by (rule same_trans [OF _ retry_failure_same])
  ultimately show "same s s'" by auto
qed

lemma same_response_queue: "same s s' \<Longrightarrow> same s (s'\<lparr>response_queue := q\<rparr>)"
  by (simp add: same_def keeps_def)

lemma drain_loop_same: "same s (drain_loop e t h n s)"
proof (induction n arbitrary: s)
  case (Suc n)
  show ?case
  proof (cases "dq_pop_front (srv_responses e) (response_queue s)")
    case (Some x)
    obtain p q where x: "x = (p, q)" by (cases x)
    let ?s = "s\<lparr>response_queue := q\<rparr>"
    have s0: "same s ?s" by (rule same_response_queue [OF same_refl])
    obtain d s1 where d: "should_delay_response_retry ?s p t h = (d, s1)"
      by (cases "should_delay_response_retry ?s p t h")
    obtain b s2 where b: "try_send_queued_response e s1 p = (b, s2)"
      by (cases "try_send_queued_response e s1 p")
    have s1: "same s s1" by (rule same_trans [OF s0 should_delay_same [OF d]])
    have s2: "same s s2" by (rule same_trans [OF s1 try_send_queued_same [OF b]])
    show ?thesis
      using Some x d b s1 s2 same_trans [OF s0 Suc] same_trans [OF s2 Suc] same_response_queue [OF s1]
      by (simp add: Let_def)
  qed (simp add: same_refl)
qed (simp add: same_refl)

lemma server_append_ok:
  assumes "server_ok e s"
  shows "server_ok e (server_append_to_rxed_frame e s f) \<and> server_step s (server_append_to_rxed_frame e s f)"
  using assms rx_update_ok [OF assms, of "[]"] rx_update_ok [OF assms, of "srv_rxed_frame s @ f"]
  by (auto simp: server_append_to_rxed_frame_def server_ok_def server_step_def)

lemma server_recv_error_ok:
  assumes "server_ok e s"
  shows "server_ok e (server_handle_recv_error e s err) \<and> server_step s (server_handle_recv_error e s err)"
  using assms pending_ok_cong
  by (auto simp: server_handle_recv_error_def server_ok_def server_step_def server_inv_def pending_ok_def
      should_drop_for_address_def should_handle_broadcast_write_def)

lemma same_ok: "same s s' \<Longrightarrow> server_ok e s \<Longrightarrow> server_ok e s' \<and> server_step s s'"
  by (auto simp: server_ok_def dest: same_step keeps_inv)

section \<open>One call of poll\<close>

lemma server_poll_ok:
  assumes "server_ok e s"
  shows "\<exists>s'. server_poll e s = Some (Ok s') \<and> server_ok e s' \<and> server_step s s' \<and>
    (case snd (srv_transport_recv e (srv_transport (if 0 < QUEUE_DEPTH e then drain_response_queue e s else s))) of
       Inl err \<Rightarrow> True
     | Inr f \<Rightarrow> server_incomplete e (srv_rxed_frame s') \<and>
         (0 < QUEUE_DEPTH e \<and> enable_priority_queue (resilience s) \<longrightarrow> request_queue s' = []))"
proof -
  define s1 where "s1 = (if 0 < QUEUE_DEPTH e then drain_response_queue e s else s)"
  define s2 where "s2 = s1\<lparr>srv_transport := fst (srv_transport_recv e (srv_transport s1))\<rparr>"
  have "same s s1" by (simp add: s1_def drain_response_queue_def drain_loop_same same_refl)
  then have "same s s2" unfolding s2_def by (rule same_trans [OF _ same_transport])
  then have s2: "server_ok e s2" "server_step s s2" using same_ok assms by blast+
  show ?thesis
  proof (cases "snd (srv_transport_recv e (srv_transport s1))")
    case (Inl err)
    then show ?thesis
      using server_recv_error_ok [OF s2(1), of err] server_step_trans [OF s2(2)]
      by (auto simp: server_poll_def case_prod_beta Let_def s1_def [symmetric] s2_def [symmetric])
  next
    case (Inr f)
    let ?s3 = "(snd (now_us s2))\<lparr>last_recv_us := fst (now_us s2)\<rparr>"
    let ?s4 = "server_append_to_rxed_frame e ?s3 f"
    have "same s2 ?s3" using same_now [of s2] by (simp add: same_def keeps_def)
    then have s3: "server_ok e ?s3" "server_step s ?s3"
      using same_ok [of s2 ?s3 e] s2 server_step_trans by blast+
    have s4: "server_ok e ?s4" "server_step s ?s4"
      using server_append_ok [OF s3(1), of f] server_step_trans [OF s3(2)] by blast+
    obtain s5 where s5: "server_process_rxed_frame e ?s4 = Some (Ok s5)" "server_receive.done_with e ?s4 s5"
      using server_receive.process_ok [OF s4(1)] by blast
    then have ok5: "server_ok e s5" "server_step ?s4 s5" "server_incomplete e (srv_rxed_frame s5)"
      by (simp_all add: server_receive.done_with_def)
    obtain s6 where s6: "run_request_queue e s5 = Some (Ok s6)" "server_ok e s6" "server_step s5 s6"
        "srv_rxed_frame s6 = srv_rxed_frame s5"
        "0 < QUEUE_DEPTH e \<and> enable_priority_queue (resilience s5) \<longrightarrow> request_queue s6 = []"
      using run_request_queue_ok [OF ok5(1)] by blast
    have step: "server_step s s5" by (rule server_step_trans [OF s4(2) ok5(2)])
    have "server_poll e s = Some (Ok s6)"
      using Inr s5(1) s6(1)
      by (simp add: server_poll_def case_prod_beta Let_def s1_def [symmetric] s2_def [symmetric])
    then show ?thesis
      using s6 ok5(3) step server_step_trans [OF step s6(3)] Inr
      by (auto simp: s1_def [symmetric] server_step_def)
  qed
qed

end
