(* ===== verification/Server.thy ===== *)
theory Server
  imports Server_Poll
begin

text \<open>
  The properties of the server (mbus-server/src/services) as a whole, with a sample server on which they
  are evaluated.
\<close>

section \<open>A sample server\<close>

text \<open>
  A server on TCP with an inbox and a list of frames sent; its application serves zeros, accepts every
  write and has one identification object.
\<close>

definition sample_server_env :: "(bytes list \<times> bytes list, unit) server_env" where
  "sample_server_env =
     \<lparr>SRV_TRANSPORT_TYPE = StdTcp, SUPPORTS_BROADCAST_WRITES = False,
      srv_transport_connect = (\<lambda>t c. (t, Inr ())), srv_transport_disconnect = (\<lambda>t. (t, Inr ())),
      srv_transport_send = (\<lambda>(inbox, sent) f. ((inbox, sent @ [f]), Inr ())),
      srv_transport_recv = (\<lambda>(inbox, sent). case inbox of
         [] \<Rightarrow> (([], sent), Inl Timeout) | f # fs \<Rightarrow> ((fs, sent), Inr f)),
      srv_transport_is_connected = (\<lambda>t. True), QUEUE_DEPTH = 4,
      srv_bytes = bounded_vec, srv_usizes = bounded_vec, srv_requests = bounded_vec,
      srv_responses = bounded_deque, srv_events = bounded_deque,
      srv_read_subs = bounded_vec, srv_write_subs = bounded_vec,
      on_exception = (\<lambda>a txn uid fc ec err. a),
      read_coils_request_cb = (\<lambda>a txn uid addr q buf. (a, buf, Inr (of_nat (packed_bit_len q)))),
      write_single_coil_request_cb = (\<lambda>a txn uid addr v. (a, Inr ())),
      write_multiple_coils_request_cb = (\<lambda>a txn uid addr q vs. (a, Inr ())),
      read_discrete_inputs_request_cb = (\<lambda>a txn uid addr q buf. (a, buf, Inr (of_nat (packed_bit_len q)))),
      read_multiple_holding_registers_request_cb = (\<lambda>a txn uid addr q buf. (a, buf, Inr (2 * ucast q))),
      read_multiple_input_registers_request_cb = (\<lambda>a txn uid addr q buf. (a, buf, Inr (2 * ucast q))),
      write_single_register_request_cb = (\<lambda>a txn uid addr v. (a, Inr ())),
      write_multiple_registers_request_cb = (\<lambda>a txn uid addr vs. (a, Inr ())),
      mask_write_register_request_cb = (\<lambda>a txn uid addr am om. (a, Inr ())),
      read_write_multiple_registers_request_cb = (\<lambda>a txn uid ra rq wa vs buf. (a, buf, Inr (2 * ucast rq))),
      read_fifo_queue_request_cb = (\<lambda>a txn uid addr buf. (a, buf, Inr 2)),
      read_file_record_request_cb = (\<lambda>a txn uid fnum rnum n buf. (a, buf, Inr (2 * ucast n))),
      write_file_record_request_cb = (\<lambda>a txn uid fnum rnum n vs. (a, Inr ())),
      read_exception_status_request_cb = (\<lambda>a txn uid. (a, Inr 0)),
      diagnostics_request_cb = (\<lambda>a txn uid sf d. (a, Inr d)),
      get_comm_event_counter_request_cb = (\<lambda>a txn uid. (a, Inl InvalidFunctionCode)),
      get_comm_event_log_request_cb = (\<lambda>a txn uid buf. (a, buf, Inl InvalidFunctionCode)),
      report_server_id_request_cb = (\<lambda>a txn uid buf. (a, buf, Inr (1, 0xFF))),
      read_device_identification_request_cb = (\<lambda>a txn uid code ob buf. (a, [0, 1, 65], Inr (3, 1, False, 0)))\<rparr>"

definition sample_server :: "bytes list \<Rightarrow> ResilienceConfig \<Rightarrow> (bytes list \<times> bytes list, unit) server" where
  "sample_server inbox res =
     with_queue_depth (inbox, []) () sample_config (UnitIdOrSlaveAddr 1) res"

lemma sample_server_env_ok: "server_env_ok sample_server_env"
  by (simp add: server_env_ok_def sample_server_env_def)

lemma sample_server_env_simps [simp]:
  "SRV_TRANSPORT_TYPE sample_server_env = StdTcp" "QUEUE_DEPTH sample_server_env = 4"
  "srv_bytes sample_server_env = bounded_vec" "srv_usizes sample_server_env = bounded_vec"
  "srv_requests sample_server_env = bounded_vec" "srv_responses sample_server_env = bounded_deque"
  by (simp_all add: sample_server_env_def)

lemma sample_server_simps [simp]:
  "own_address (sample_server inbox res) = UnitIdOrSlaveAddr 1" "resilience (sample_server inbox res) = res"
  "request_queue (sample_server inbox res) = []" "response_queue (sample_server inbox res) = []"
  "listen_only_mode (sample_server inbox res) = False" "comm_event_log (sample_server inbox res) = []"
  "responses (sample_server inbox res) = []" "srv_rxed_frame (sample_server inbox res) = []"
  "srv_transport (sample_server inbox res) = (inbox, [])" "clock_calls (sample_server inbox res) = 0"
  "last_recv_us (sample_server inbox res) = 0"
  by (simp_all add: sample_server_def with_queue_depth_def)

lemma new_server_ok: "server_env_ok e \<Longrightarrow> server_ok e (with_queue_depth t a cfg addr res)"
  by (simp add: server_ok_def server_inv_def with_queue_depth_def)

definition sample_read :: "u16 \<Rightarrow> ModbusMessage" where
  "sample_read txn = modbus_message_new (AAMbapHeader (mbap_header_new txn 6 1))
     (pdu_new ReadHoldingRegisters [0, 0, 0, 2] 4)"

lemma sample_read_simps [simp]:
  "pdu (sample_read txn) = pdu_new ReadHoldingRegisters [0, 0, 0, 2] 4"
  "message_transaction_id (sample_read txn) = txn" "unit_id_or_slave_addr (sample_read txn) = UnitIdOrSlaveAddr 1"
  by (simp_all add: sample_read_def modbus_message_new_def message_transaction_id_def mbap_header_new_def
      unit_id_or_slave_addr_def unit_id_try_from_def unit_id_new_def)

section \<open>Requests are answered\<close>



text \<open>
  The reply to a valid read of holding registers: when the application returns as many bytes as were
  asked for, the client decodes the response to exactly the bytes the application wrote into the buffer.
\<close>

theorem holding_registers_reply:
  assumes "server_env_ok e" "adu_addressable (SRV_TRANSPORT_TYPE e) (uid_get uid)"
    and "parse_read_window m = Ok (address, quantity)" "1 \<le> quantity" "quantity \<le> 125"
    and "unat address + unat quantity \<le> 65536"
    and "read_multiple_holding_registers_request_cb e (srv_app s) txn uid address quantity (replicate 252 0) =
      (app', out, Inr (of_nat (2 * unat quantity)))"
    and "2 * unat quantity \<le> length out"
  shows "\<exists>s' f r. handle_read_holding_registers_request e s txn uid m = Ok s' \<and>
    responses s' = responses s @ [(txn, uid, f)] \<and>
    decompile_adu_frame (srv_bytes e) f (SRV_TRANSPORT_TYPE e) = Ok r \<and>
    function_code (pdu r) = ReadHoldingRegisters \<and> error_code (pdu r) = None \<and>
    byte_count_payload (pdu r) = Ok \<lparr>bc_byte_count = of_nat (2 * unat quantity),
      bc_payload = take (2 * unat quantity) out\<rparr>"
proof -
  let ?n = "2 * unat quantity" and ?tt = "SRV_TRANSPORT_TYPE e"
  let ?pl = "take ?n out"
  let ?p = "pdu_new ReadHoldingRegisters (of_nat (length ?pl) # ?pl) (of_nat (Suc (length ?pl)))"
  note hv = server_env_ok_simps(1) [OF assms(1)]
  have q: "1 \<le> unat quantity" "unat quantity \<le> 125"
    using assms(4,5) by (simp_all add: word_le_nat_alt)
  have wf: "pdu_wf ?p" using q assms(8) by (intro pdu_wf_new) simp_all
  have "\<not> add_overflows address (quantity - 1)"
    using assms(4,6) q by (simp add: add_overflows_def unat_sub)
  moreover have "take ?n (fill (replicate 252 0) out) = ?pl"
    using q assms(8) by (simp add: fill_def min_absorb1)
  moreover have "unat (of_nat ?n :: u8) = ?n" using q by (intro unat_of_nat_u8) simp
  ultimately have "handle_read_holding_registers_request e s txn uid m =
      Ok (try_send_or_queue e (s\<lparr>srv_app := app'\<rparr>) (adu_frame ?tt txn (uid_get uid) (pdu_body ?p)) txn uid)"
    using assms(3,4,5,7) q hv wf
    by (simp add: handle_read_holding_registers_request_def handle_register_read_def or_exception_def
        respond_def build_byte_count_prefixed_response_def build_eqs compile_adu_frame_ok assms(8))
  moreover have "decompile_adu_frame (srv_bytes e) (adu_frame ?tt txn (uid_get uid) (pdu_body ?p)) ?tt =
      Ok (modbus_message_new (adu_address ?tt txn (uid_get uid) (pdu_body ?p)) ?p)"
    by (rule adu_framing.decode_normal [OF hv assms(2) wf]) simp_all
  moreover have "byte_count_payload ?p = Ok \<lparr>bc_byte_count = of_nat (length ?pl), bc_payload = ?pl\<rparr>"
    using bc_codec.built_parse [OF hv, of ReadHoldingRegisters ?pl ?p] q hv
    by (simp add: build_eqs assms(8))
  ultimately show ?thesis
    using try_send_or_queue_keeps [of "s\<lparr>srv_app := app'\<rparr>" txn uid _ e] assms(8)
    by (fastforce simp: same_def modbus_message_new_def)
qed

theorem holding_registers_reply_witness:
  "\<exists>s' f r. handle_read_holding_registers_request sample_server_env (sample_server [] resilience_config_default)
       7 (UnitIdOrSlaveAddr 1) (sample_read 7) = Ok s' \<and> responses s' = [(7, UnitIdOrSlaveAddr 1, f)] \<and>
     decompile_adu_frame bounded_vec f StdTcp = Ok r \<and>
     byte_count_payload (pdu r) = Ok \<lparr>bc_byte_count = 4, bc_payload = [0, 0, 0, 0]\<rparr>"
proof -
  have "parse_read_window (sample_read 7) = Ok (0, 2)"
    by (simp add: parse_read_window_def parse_defs u16_from_be_bytes_def)
  moreover have "read_multiple_holding_registers_request_cb sample_server_env () 7 (UnitIdOrSlaveAddr 1) 0 2
      (replicate 252 0) = ((), replicate 252 0, Inr (of_nat (2 * unat (2 :: u16))))"
    by (simp add: sample_server_env_def)
  moreover have "take 4 (replicate 252 0) = [0, 0, 0, 0 :: u8]" by (simp add: numeral_eq_Suc)
  ultimately show ?thesis
    using holding_registers_reply [OF sample_server_env_ok, of "UnitIdOrSlaveAddr 1" "sample_read 7" 0 2
        "sample_server [] resilience_config_default" 7 "()" "replicate 252 0"]
    by (auto simp: adu_addressable_def)
qed

text \<open>
  C11: The requests in the queue are served by priority: the loop ends with an empty queue, every request is
  answered exactly once, and the responses come in an order in which no request precedes one of a higher
  priority (unless a request forces listen-only mode).
\<close>

theorem requests_served_by_priority:
  assumes "server_ok e s" "\<not> listen_only_mode s" "\<forall>p \<in> set (request_queue s). \<not> may_silence e p"
  shows "\<exists>s' ps. dispatch_queue_loop e s = Some (Ok s') \<and> request_queue s' = [] \<and>
    mset ps = mset (request_queue s) \<and> sorted_wrt (\<lambda>p q. pr_priority q \<le> pr_priority p) ps \<and>
    response_ids s' = response_ids s @ map (request_txn \<circ> queued_message e) ps"
proof -
  have "heapless_ok (srv_requests e)" using assms(1) by (simp add: server_ok_def)
  then show ?thesis
    using dispatch_queue_loop_ok [OF assms(1)] request_queue.served_order assms(2,3) by blast
qed

definition sample_frame :: "u16 \<Rightarrow> bytes \<Rightarrow> bytes" where
  "sample_frame txn body = adu_frame StdTcp txn 1 body"

definition sample_pending :: "u16 \<Rightarrow> FunctionCode \<Rightarrow> PendingRequest" where
  "sample_pending txn fc = \<lparr>pr_frame = sample_frame txn [function_code_u8 fc, 0, 0, 0, 2],
     pr_priority = from_function_code fc, received_at_us = 0\<rparr>"

lemma sample_pending_message:
  assumes "normal_code fc"
  shows "pending_message sample_server_env (pr_frame (sample_pending txn fc)) =
    Ok (Some (modbus_message_new (AAMbapHeader (mbap_header_new txn 6 1)) (pdu_new fc [0, 0, 0, 2] 4)))"
proof -
  let ?p = "pdu_new fc [0, 0, 0, 2] 4"
  have body: "[function_code_u8 fc, 0, 0, 0, 2] = pdu_body ?p" by (simp add: pdu_body_def)
  have "pdu_wf ?p" by (rule pdu_wf_new) simp_all
  then have "decompile_adu_frame bounded_vec (adu_frame StdTcp txn 1 (pdu_body ?p)) StdTcp =
      Ok (modbus_message_new (adu_address StdTcp txn 1 (pdu_body ?p)) ?p)"
    using assms by (intro adu_framing.decode_normal) (simp_all add: adu_addressable_def)
  moreover have "derive_length_from_bytes bounded_vec (adu_frame StdTcp txn 1 (pdu_body ?p)) StdTcp =
      Some (length (adu_frame StdTcp txn 1 (pdu_body ?p)))"
    using derive_length_frame [of bounded_vec StdTcp "pdu_body ?p" txn 1 "[]"] by (simp add: pdu_body_def)
  ultimately show ?thesis
    unfolding sample_pending_def sample_frame_def body pending_message_def
    by (simp add: reframe_message_def server_readdress_def modbus_message_new_def adu_address_def mbap_of_def
        del: adu_frame.simps)
qed

definition sample_queue :: "(bytes list \<times> bytes list, unit) server" where
  "sample_queue = (sample_server [] resilience_config_default)
     \<lparr>request_queue := [sample_pending 1 ReadHoldingRegisters, sample_pending 2 WriteSingleRegister]\<rparr>"

lemma sample_queue_ok:
  "server_ok sample_server_env sample_queue"
  "queued_message sample_server_env (sample_pending txn ReadHoldingRegisters) =
     modbus_message_new (AAMbapHeader (mbap_header_new txn 6 1)) (pdu_new ReadHoldingRegisters [0, 0, 0, 2] 4)"
  "queued_message sample_server_env (sample_pending txn WriteSingleRegister) =
     modbus_message_new (AAMbapHeader (mbap_header_new txn 6 1)) (pdu_new WriteSingleRegister [0, 0, 0, 2] 4)"
  by (auto simp: server_ok_def server_inv_def sample_server_env_ok sample_queue_def pending_ok_def
      sample_pending_message queued_message_def modbus_message_new_def pdu_wf_new should_drop_for_address_def
      should_handle_broadcast_write_def unit_id_or_slave_addr_def mbap_header_new_def unit_id_try_from_def
      unit_id_new_def resilience_config_default_def) (simp_all add: sample_pending_def)

theorem requests_served_by_priority_witness:
  "\<exists>s'. dispatch_queue_loop sample_server_env sample_queue = Some (Ok s') \<and> request_queue s' = [] \<and>
     response_ids s' = [(2, UnitIdOrSlaveAddr 1), (1, UnitIdOrSlaveAddr 1)]"
proof -
  let ?r = "sample_pending 1 ReadHoldingRegisters" and ?w = "sample_pending 2 WriteSingleRegister"
  have "\<forall>p \<in> set (request_queue sample_queue). \<not> may_silence sample_server_env p"
    by (simp add: may_silence_def)
  then obtain s' ps where s': "dispatch_queue_loop sample_server_env sample_queue = Some (Ok s')"
      "request_queue s' = []" "mset ps = {#?r, ?w#}" "sorted_wrt (\<lambda>p q. pr_priority q \<le> pr_priority p) ps"
      "response_ids s' = response_ids sample_queue @ map (request_txn \<circ> queued_message sample_server_env) ps"
    using requests_served_by_priority [OF sample_queue_ok(1)] by (auto simp: sample_queue_def)
  have "length ps = 2" using s'(3) by (metis size_mset size_add_mset size_empty numeral_2_eq_2)
  then obtain a b where ps: "ps = [a, b]" by (auto simp: length_Suc_conv numeral_2_eq_2)
  have "\<not> pr_priority ?w \<le> pr_priority ?r" by (simp add: sample_pending_def less_eq_RequestPriority_def)
  then have "ps = [?w, ?r]" using s'(3,4) by (auto simp: ps add_eq_conv_ex)
  then show ?thesis
    using s'(1,2,5)
    by (simp add: response_ids_def sample_queue_def sample_queue_ok request_txn_def modbus_message_new_def
        message_transaction_id_def unit_id_or_slave_addr_def mbap_header_new_def unit_id_try_from_def unit_id_new_def)
qed

text \<open>
  C10: \<open>poll\<close> ends on every server, whatever the transport delivers and the application returns, without a
  panic (provided the application does not claim to have written more identification bytes than the buffer
  holds). It keeps the invariant and the responses already handed out, leaves a buffer without a complete
  frame at its front, and leaves no request in the queue when it received something.
\<close>

theorem server_poll_total:
  assumes "server_ok e s"
  shows "\<exists>s'. server_poll e s = Some (Ok s') \<and> server_ok e s' \<and> prefix (responses s) (responses s') \<and>
    own_address s' = own_address s \<and> resilience s' = resilience s \<and>
    (case snd (srv_transport_recv e (srv_transport (if 0 < QUEUE_DEPTH e then drain_response_queue e s else s))) of
       Inl err \<Rightarrow> True
     | Inr f \<Rightarrow> server_incomplete e (srv_rxed_frame s') \<and>
         (0 < QUEUE_DEPTH e \<and> enable_priority_queue (resilience s) \<longrightarrow> request_queue s' = []))"
  using server_poll_ok [OF assms] by (auto simp: server_step_def)

theorem server_poll_total_witness:
  "\<exists>s'. server_poll sample_server_env (sample_server [[0, 1, 0, 0, 0, 6, 1, 3, 0, 0, 0, 2, 9]] resilience_config_default) =
       Some (Ok s') \<and> server_incomplete sample_server_env (srv_rxed_frame s')"
  using server_poll_total [OF new_server_ok [OF sample_server_env_ok], of
      "([[0, 1, 0, 0, 0, 6, 1, 3, 0, 0, 0, 2, 9]], [])" "()" sample_config "UnitIdOrSlaveAddr 1"
      resilience_config_default]
  by (auto simp: sample_server_def [symmetric] drain_response_queue_def) (simp add: sample_server_env_def)

text \<open>
  C30: A broadcast write is executed without a response: nothing is handed to the send path, nothing is
  sent and nothing is queued, whatever the request holds.
\<close>

theorem broadcasts_not_answered:
  assumes "pdu_wf (pdu m)" "should_handle_broadcast_write e s m"
  shows "\<exists>s'. dispatch_request_for_frame e s m = Ok s' \<and> responses s' = responses s \<and>
    srv_transport s' = srv_transport s \<and> response_queue s' = response_queue s"
  using broadcast_silent [OF assms(1), of s e] assms(2)
  by (auto simp: dispatch_request_for_frame_def silently_def same_def)

theorem broadcasts_not_answered_witness:
  "let e = sample_server_env\<lparr>SRV_TRANSPORT_TYPE := StdSerial Rtu, SUPPORTS_BROADCAST_WRITES := True\<rparr>;
       s = sample_server [] (resilience_config_default\<lparr>enable_broadcast_writes := True\<rparr>);
       m = modbus_message_new (AASlaveAddress (SlaveAddress 0)) (pdu_new WriteSingleRegister [0, 5, 0, 9] 4)
   in \<exists>s'. dispatch_request_for_frame e s m = Ok s' \<and> responses s' = [] \<and> srv_transport s' = ([], [])"
  using broadcasts_not_answered [of
      "modbus_message_new (AASlaveAddress (SlaveAddress 0)) (pdu_new WriteSingleRegister [0, 5, 0, 9] 4)"
      "sample_server_env\<lparr>SRV_TRANSPORT_TYPE := StdSerial Rtu, SUPPORTS_BROADCAST_WRITES := True\<rparr>"
      "sample_server [] (resilience_config_default\<lparr>enable_broadcast_writes := True\<rparr>)"]
  by (auto simp: Let_def modbus_message_new_def pdu_wf_new should_handle_broadcast_write_def
      unit_id_or_slave_addr_def is_broadcast_def new_broadcast_address_def)

section \<open>The retry queue\<close>

text \<open>
  A response at the front of the retry queue that is not due yet is moved to the back, so that the
  responses behind it overtake it: the order of the responses is not kept.
\<close>

theorem delayed_response_overtaken:
  assumes "deque_ok (srv_responses e)" "response_queue s = p # ps" "length ps < QUEUE_DEPTH e"
    and "retry_count p < max_send_retries (resilience s)" "clock_fn (resilience s) = Some clock"
    and "\<not> is_turnaround_delay p" "response_retry_interval_ms (timeouts (resilience s)) = interval"
    and "sat_sub (clock (clock_calls s)) (queued_at_us p) < ucast interval * 1000"
  shows "response_queue (drain_response_queue e s) = ps @ [p] \<and>
    srv_transport (drain_response_queue e s) = srv_transport s"
proof -
  have "ucast interval > (0 :: u64)"
    using assms(8) by (auto simp: word_gt_0)
  then show ?thesis
    using assms not_le [THEN iffD2, OF assms(4)]
    by (auto simp add: drain_response_queue_def should_drop_exhausted_response_retry_def Let_def
        should_delay_response_retry_def now_us_def response_push_back_def)
qed

theorem delayed_response_overtaken_witness:
  "let p = (\<lambda>txn at. \<lparr>ps_frame = [], ps_txn_id = txn, ps_unit = UnitIdOrSlaveAddr 1, retry_count = 0,
              queued_at_us = at, is_turnaround_delay = False\<rparr>);
       res = resilience_config_default\<lparr>clock_fn := Some (\<lambda>_. 15000),
              timeouts := timeout_config_default\<lparr>response_retry_interval_ms := 10\<rparr>\<rparr>;
       s = (sample_server [] res)\<lparr>response_queue := [p 1 9000, p 2 0]\<rparr>
   in response_queue (drain_response_queue sample_server_env s) = [p 2 0, p 1 9000]"
  using delayed_response_overtaken [of sample_server_env "(sample_server [] (resilience_config_default
        \<lparr>clock_fn := Some (\<lambda>_. 15000), timeouts := timeout_config_default\<lparr>response_retry_interval_ms := 10\<rparr>\<rparr>))
      \<lparr>response_queue := [\<lparr>ps_frame = [], ps_txn_id = 1, ps_unit = UnitIdOrSlaveAddr 1, retry_count = 0,
        queued_at_us = 9000, is_turnaround_delay = False\<rparr>, \<lparr>ps_frame = [], ps_txn_id = 2,
        ps_unit = UnitIdOrSlaveAddr 1, retry_count = 0, queued_at_us = 0, is_turnaround_delay = False\<rparr>]\<rparr>"]
  by (simp add: Let_def resilience_config_default_def timeout_config_default_def sat_sub_def)

lemma zero_retries_loop:
  assumes "deque_ok (srv_responses e)"
  shows "max_send_retries (resilience s) = 0 \<Longrightarrow> length (response_queue s) \<le> n \<Longrightarrow>
    drain_loop e t h n s = s\<lparr>response_queue := []\<rparr>"
  using assms
  by (induction n arbitrary: s)
    (auto simp: should_drop_exhausted_response_retry_def Let_def split: list.splits)

text \<open>
  With a retry limit of 0 a response that waits for the turnaround delay is never sent: it is queued
  with a retry count of 0 and the next \<open>poll\<close> discards it, without a call of the transport and without
  counting it as dropped.
\<close>

theorem zero_retries_discard_delayed:
  fixes frame :: bytes and txn :: u16 and uid :: UnitIdOrSlaveAddr
  assumes "deque_ok (srv_responses e)" "max_send_retries (resilience s) = 0"
    and "length (response_queue s) < QUEUE_DEPTH e" "clock_fn (resilience s) = Some clock"
    and "sat_sub (clock (clock_calls s)) (last_recv_us s) < turnaround_delay_us (resilience s)"
  defines "s1 \<equiv> try_send_or_queue e s frame txn uid"
  shows "srv_transport s1 = srv_transport s \<and> length (response_queue s1) = Suc (length (response_queue s)) \<and>
    srv_transport (drain_response_queue e s1) = srv_transport s \<and>
    response_queue (drain_response_queue e s1) = [] \<and>
    dropped_response_count (drain_response_queue e s1) = dropped_response_count s"
proof -
  have pos: "turnaround_delay_us (resilience s) > 0" using assms(5) by (auto simp: word_gt_0)
  have s1: "srv_transport s1 = srv_transport s" "resilience s1 = resilience s"
      "length (response_queue s1) = Suc (length (response_queue s))"
      "dropped_response_count s1 = dropped_response_count s"
    using assms(1,3-5) pos
    by (simp_all add: s1_def try_send_or_queue_def Let_def now_us_def delay_for_turnaround_def response_push_back_def)
  then show ?thesis
    using zero_retries_loop [OF assms(1), of s1 "length (response_queue s1)"] assms(2)
    by (simp add: drain_response_queue_def del: drain_loop.simps)
qed

theorem zero_retries_discard_delayed_witness:
  "let res = resilience_config_default\<lparr>clock_fn := Some (\<lambda>_. 50), max_send_retries := 0,
         turnaround_delay_us := 1000\<rparr>;
       s = try_send_or_queue sample_server_env (sample_server [] res) [1, 2] 7 (UnitIdOrSlaveAddr 1)
   in length (response_queue s) = 1 \<and> response_queue (drain_response_queue sample_server_env s) = [] \<and>
      srv_transport (drain_response_queue sample_server_env s) = ([], [])"
  using zero_retries_discard_delayed [of sample_server_env "sample_server [] (resilience_config_default
      \<lparr>clock_fn := Some (\<lambda>_. 50), max_send_retries := 0, turnaround_delay_us := 1000\<rparr>)" "\<lambda>_. 50" "[1, 2]" 7
      "UnitIdOrSlaveAddr 1"]
  by (simp add: Let_def resilience_config_default_def sat_sub_def)

end
