(* ===== verification/Gateway_Translation.thy ===== *)
theory Gateway_Translation
  imports Receive_Loop
begin

text \<open>
  The transports of the gateway that wrap a TCP socket or a serial line: \<open>GatewayTransport\<close> for the
  downstream side (mbus-gateway/src/gateway_async/downstream.rs) and \<open>GatewayUpstream\<close> for the upstream
  side (gateway_sync/upstream.rs). On a serial line they translate between TCP frames, which the
  gateway is meant to see, and the frames of the line. The sockets and serial ports belong to other crates and
  are parameters.
\<close>

section \<open>Translation\<close>

definition tcp_to_serial :: "u8 heapless \<Rightarrow> TransportType \<Rightarrow> bytes \<Rightarrow> bytes result" where
  "tcp_to_serial hv serial_type adu =
     bind_res (decompile_adu_frame hv adu StdTcp) (\<lambda>msg.
     compile_adu_frame hv 0 (uid_get (unit_id_or_slave_addr msg)) (pdu msg) serial_type)"

definition serial_to_tcp :: "u8 heapless \<Rightarrow> TransportType \<Rightarrow> bytes \<Rightarrow> bytes result" where
  "serial_to_tcp hv serial_type wire =
     bind_res (decompile_adu_frame hv wire serial_type) (\<lambda>msg.
     compile_adu_frame hv 0 (uid_get (unit_id_or_slave_addr msg)) (pdu msg) StdTcp)"

section \<open>Transports\<close>

text \<open>The sending and receiving of the transports inside, with errors converted into \<open>MbusError\<close>.\<close>

record ('t, 'r, 'a) wrapped_env =
  tcp_send :: "'t \<Rightarrow> bytes \<Rightarrow> 't \<times> (MbusError + unit)"
  tcp_recv :: "'t \<Rightarrow> 't \<times> (MbusError + bytes)"
  rtu_send :: "'r \<Rightarrow> bytes \<Rightarrow> 'r \<times> (MbusError + unit)"
  rtu_recv :: "'r \<Rightarrow> 'r \<times> (MbusError + bytes)"
  ascii_send :: "'a \<Rightarrow> bytes \<Rightarrow> 'a \<times> (MbusError + unit)"
  ascii_recv :: "'a \<Rightarrow> 'a \<times> (MbusError + bytes)"
  wrap_bytes :: "u8 heapless"

text \<open>\<open>send\<close> of a serial line: an error of the translation is returned before anything is sent.\<close>

definition serial_send ::
    "u8 heapless \<Rightarrow> TransportType \<Rightarrow> ('p \<Rightarrow> bytes \<Rightarrow> 'p \<times> (MbusError + unit)) \<Rightarrow> 'p \<Rightarrow> bytes \<Rightarrow>
     ('p \<times> (MbusError + unit)) result" where
  "serial_send hv serial_type send port adu =
     (case tcp_to_serial hv serial_type adu of
        Panic \<Rightarrow> Panic
      | Err err \<Rightarrow> Ok (port, Inl err)
      | Ok wire \<Rightarrow> Ok (send port wire))"

definition serial_recv ::
    "u8 heapless \<Rightarrow> TransportType \<Rightarrow> ('p \<Rightarrow> 'p \<times> (MbusError + bytes)) \<Rightarrow> 'p \<Rightarrow> ('p \<times> (MbusError + bytes)) result" where
  "serial_recv hv serial_type recv port =
     (case recv port of
        (port, Inl err) \<Rightarrow> Ok (port, Inl err)
      | (port, Inr wire) \<Rightarrow>
          (case serial_to_tcp hv serial_type wire of
             Panic \<Rightarrow> Panic
           | Err err \<Rightarrow> Ok (port, Inl err)
           | Ok adu \<Rightarrow> Ok (port, Inr adu)))"




datatype ('t, 'r, 'a) GatewayUpstream = UpTcp 't | UpRtu 'r | UpAscii 'a

fun gateway_upstream_type :: "('t, 'r, 'a) GatewayUpstream \<Rightarrow> TransportType" where
  "gateway_upstream_type (UpTcp _) = StdTcp"
| "gateway_upstream_type (UpRtu _) = StdSerial Rtu"
| "gateway_upstream_type (UpAscii _) = StdSerial Ascii"

fun gateway_upstream_send ::
    "('t, 'r, 'a) wrapped_env \<Rightarrow> ('t, 'r, 'a) GatewayUpstream \<Rightarrow> bytes \<Rightarrow>
     (('t, 'r, 'a) GatewayUpstream \<times> (MbusError + unit)) result" where
  "gateway_upstream_send e (UpTcp t) adu = (let (t, r) = tcp_send e t adu in Ok (UpTcp t, r))"
| "gateway_upstream_send e (UpRtu t) adu =
     bind_res (serial_send (wrap_bytes e) (StdSerial Rtu) (rtu_send e) t adu) (\<lambda>(t, r). Ok (UpRtu t, r))"
| "gateway_upstream_send e (UpAscii t) adu =
     bind_res (serial_send (wrap_bytes e) (StdSerial Ascii) (ascii_send e) t adu) (\<lambda>(t, r). Ok (UpAscii t, r))"

fun gateway_upstream_recv ::
    "('t, 'r, 'a) wrapped_env \<Rightarrow> ('t, 'r, 'a) GatewayUpstream \<Rightarrow>
     (('t, 'r, 'a) GatewayUpstream \<times> (MbusError + bytes)) result" where
  "gateway_upstream_recv e (UpTcp t) = (let (t, r) = tcp_recv e t in Ok (UpTcp t, r))"
| "gateway_upstream_recv e (UpRtu t) =
     bind_res (serial_recv (wrap_bytes e) (StdSerial Rtu) (rtu_recv e) t) (\<lambda>(t, r). Ok (UpRtu t, r))"
| "gateway_upstream_recv e (UpAscii t) =
     bind_res (serial_recv (wrap_bytes e) (StdSerial Ascii) (ascii_recv e) t) (\<lambda>(t, r). Ok (UpAscii t, r))"

section \<open>The translation keeps the PDU\<close>

definition serial_type :: "TransportType \<Rightarrow> bool" where
  "serial_type tt \<longleftrightarrow> tt = StdSerial Rtu \<or> tt = StdSerial Ascii"

lemma unit_of_frame:
  "uid \<le> 247 \<Longrightarrow> uid_get (unit_id_or_slave_addr (modbus_message_new (adu_address tt txn uid body) p)) = uid"
  by (auto simp: unit_id_or_slave_addr_def modbus_message_new_def adu_address_def mbap_of_def mbap_header_new_def
      new_broadcast_address_def unit_id_try_from_def unit_id_new_def word_le_nat_alt)
    (metis One_nat_def Suc_leI unat_gt_0)

lemma translated_frame:
  assumes "heapless_ok hv" "pdu_wf p" "normal_code (function_code p)" "error_code p = None" "uid \<le> 247" "adu_addressable tt uid"
  shows "bind_res (decompile_adu_frame hv (adu_frame tt txn uid (pdu_body p)) tt) (\<lambda>msg.
      compile_adu_frame hv 0 (uid_get (unit_id_or_slave_addr msg)) (pdu msg) tt') = Ok (adu_frame tt' 0 uid (pdu_body p))"
  using adu_framing.decode_normal [OF assms(1,6,2,3,4), of txn] unit_of_frame [OF assms(5)] compile_adu_frame_ok [OF assms(1,2)]
  by (simp add: modbus_message_new_def)



section \<open>A serial upstream\<close>

lemma no_code_zero: "heapless_ok hv \<Longrightarrow> pdu_from_bytes hv (0 # bs) \<noteq> Ok p"
  by (simp add: pdu_from_bytes_eq is_exception_code_def clear_exception_bit_def function_code_try_from_def)

lemma not_serial:
  assumes "heapless_ok hv" "serial_type tt" "\<And>i. i < length f \<Longrightarrow> i < 2 \<Longrightarrow> f ! i = 0"
  shows "decompile_adu_frame hv f tt \<noteq> Ok m"
proof
  assume d: "decompile_adu_frame hv f tt = Ok m"
  from assms(2) consider "tt = StdSerial Rtu" | "tt = StdSerial Ascii" by (auto simp: serial_type_def)
  then show False
  proof cases
    case 1
    then have r: "from_rtu_bytes hv f = Ok m" using d by (simp add: decompile_adu_frame_def)
    then have len: "4 \<le> length f" by (auto simp: from_rtu_bytes_def split: if_splits)
    then obtain b bs where "f = 0 # 0 # b # bs"
      using assms(3) [of 0] assms(3) [of 1] by (cases f rule: remdups_adj.cases; cases "tl (tl f)") auto
    moreover from this len have "bs \<noteq> []" by auto
    ultimately show False
      using r no_code_zero [OF assms(1)]
      by (auto simp: from_rtu_bytes_def Let_def res_simps slice_from_def slice_to_def take_Cons' split: if_splits)
  next
    case 2
    then have "from_ascii_bytes hv f = Ok m" using d by (simp add: decompile_adu_frame_def)
    then have "f ! 0 = 0x3A" "0 < length f"
      by (auto simp: from_ascii_bytes_def res_simps idx_Ok_iff split: if_splits)
    then show False using assms(3) [of 0] by simp
  qed
qed

text \<open>
  A serial upstream of the synchronous gateway is never understood: the bytes that its \<open>recv\<close> returns
  are a TCP frame, but the gateway reads them with the type of the line; and no front of the buffer that
  starts with them decodes as a frame of the line, whatever follows.
\<close>

theorem serial_upstream_not_understood:
  assumes "heapless_ok (wrap_bytes e)" "heapless_ok hv" "gateway_upstream_recv e up = Ok (up2, Inr adu)" "up = UpRtu r \<or> up = UpAscii a"
  shows "decompile_adu_frame hv (take n (adu @ rest)) (gateway_upstream_type up2) \<noteq> Ok m"
proof -
  have translated: "\<exists>uid body. adu = tcp_frame 0 uid body" if "serial_to_tcp (wrap_bytes e) tt wire = Ok adu" for tt wire
    using that decompile_wf [OF assms(1), of wire tt] compile_adu_frame_ok [OF assms(1)]
    by (fastforce simp: serial_to_tcp_def res_simps)
  have "(\<exists>uid body. adu = tcp_frame 0 uid body) \<and> serial_type (gateway_upstream_type up2)"
    using assms(3,4) translated
    by (auto simp: serial_recv_def serial_type_def res_simps split: prod.splits sum.splits res.splits)
  then obtain uid body where "adu = tcp_frame 0 uid body" "serial_type (gateway_upstream_type up2)" by blast
  then show ?thesis
    by (intro not_serial [OF assms(2)]) (auto simp: tcp_frame_def u16_to_be_bytes_def less_2_cases_iff)
qed

theorem serial_upstream_not_understood_witness:
  "\<exists>adu. gateway_upstream_recv
      \<lparr>tcp_send = (\<lambda>(t :: unit) f. (t, Inr ())), tcp_recv = (\<lambda>t. (t, Inl Timeout)),
       rtu_send = (\<lambda>(t :: unit) f. (t, Inr ())), rtu_recv = (\<lambda>t. (t, Inr (rtu_frame 17 [3, 0, 0, 0, 1]))),
       ascii_send = (\<lambda>(t :: unit) f. (t, Inr ())), ascii_recv = (\<lambda>t. (t, Inl Timeout)), wrap_bytes = bounded_vec\<rparr> (UpRtu ()) =
      Ok (UpRtu (), Inr adu) \<and>
    (\<forall>n m. decompile_adu_frame bounded_vec (take n (adu @ [])) (StdSerial Rtu) \<noteq> Ok m)"
proof -
  let ?e = "\<lparr>tcp_send = (\<lambda>(t :: unit) f. (t, Inr ())), tcp_recv = (\<lambda>t. (t, Inl Timeout)),
       rtu_send = (\<lambda>(t :: unit) f. (t, Inr ())), rtu_recv = (\<lambda>t. (t, Inr (rtu_frame 17 [3, 0, 0, 0, 1]))),
       ascii_send = (\<lambda>(t :: unit) f. (t, Inr ())), ascii_recv = (\<lambda>t. (t, Inl Timeout)), wrap_bytes = bounded_vec\<rparr>"
  have "pdu_wf (pdu_new ReadHoldingRegisters [0, 0, 0, 1] 4)" "normal_code ReadHoldingRegisters" "adu_addressable (StdSerial Rtu) 17"
    by (simp_all add: pdu_wf_def pdu_new_def normal_code_def adu_addressable_def)
  then have "gateway_upstream_recv ?e (UpRtu ()) = Ok (UpRtu (), Inr (tcp_frame 0 17 [3, 0, 0, 0, 1]))"
    using translated_frame [OF bounded_vec_ok, of "pdu_new ReadHoldingRegisters [0, 0, 0, 1] 4" 17 "StdSerial Rtu" 0 StdTcp]
    by (simp add: serial_recv_def serial_to_tcp_def pdu_new_def pdu_body_def)
  moreover from this have "decompile_adu_frame bounded_vec (take n (tcp_frame 0 17 [3, 0, 0, 0, 1] @ [])) (StdSerial Rtu) \<noteq> Ok m" for n m
    using serial_upstream_not_understood [where e = ?e and up = "UpRtu ()" and ?up2.0 = "UpRtu ()" and r = "()" and rest = "[]" and n = n and m = m, OF _ bounded_vec_ok]
    by (simp del: gateway_upstream_recv.simps)
  ultimately show ?thesis by blast
qed

end
