(* ===== verification/Gateway_Routing.thy ===== *)
theory Gateway_Routing
  imports Transport
begin

text \<open>
  The routing policies of the gateway (mbus-gateway/src/common/router_static.rs and
  router_dynamic.rs). A policy maps a unit identifier to the index of a downstream channel and may
  rewrite the identifier. The static tables are bounded vectors of \<open>heapless\<close>, the dynamic ones
  vectors of the standard library. The implementations for \<open>Arc<RwLock<_>>\<close>, \<open>Arc<Mutex<_>>\<close> and
  \<open>Box<dyn _>\<close> forward to the policy inside and need no definitions.
\<close>

section \<open>Policies\<close>

record GatewayRoutingPolicy =
  rt_route :: "UnitIdOrSlaveAddr \<Rightarrow> usize option"
  rt_rewrite :: "UnitIdOrSlaveAddr \<Rightarrow> UnitIdOrSlaveAddr result"

record UnitRouteEntry =
  re_unit :: u8
  re_channel :: usize

record UnitRangeRoute =
  rr_min :: u8
  rr_max :: u8
  rr_channel :: usize

definition unit_table_new :: "UnitRouteEntry list" where
  "unit_table_new = []"

definition unit_table_add ::
    "UnitRouteEntry heapless \<Rightarrow> usize \<Rightarrow> UnitRouteEntry list \<Rightarrow> UnitIdOrSlaveAddr \<Rightarrow> usize \<Rightarrow>
     UnitRouteEntry list result" where
  "unit_table_add hv n entries unit channel =
     (if \<exists>e \<in> set entries. re_unit e = uid_get unit then Err InvalidAddress
      else push_or hv n TooManyRequests entries \<lparr>re_unit = uid_get unit, re_channel = channel\<rparr>)"

definition unit_table_route :: "UnitRouteEntry list \<Rightarrow> UnitIdOrSlaveAddr \<Rightarrow> usize option" where
  "unit_table_route entries unit = map_option re_channel (List.find (\<lambda>e. re_unit e = uid_get unit) entries)"

definition range_table_new :: "UnitRangeRoute list" where
  "range_table_new = []"

definition range_table_add ::
    "UnitRangeRoute heapless \<Rightarrow> usize \<Rightarrow> UnitRangeRoute list \<Rightarrow> u8 \<Rightarrow> u8 \<Rightarrow> usize \<Rightarrow> UnitRangeRoute list result" where
  "range_table_add hv n ranges lo hi channel =
     (if lo > hi then Err InvalidAddress
      else if \<exists>r \<in> set ranges. \<not> (rr_max r < lo \<or> rr_min r > hi) then Err InvalidAddress
      else push_or hv n TooManyRequests ranges \<lparr>rr_min = lo, rr_max = hi, rr_channel = channel\<rparr>)"

definition range_table_route :: "UnitRangeRoute list \<Rightarrow> UnitIdOrSlaveAddr \<Rightarrow> usize option" where
  "range_table_route ranges unit =
     (let v = uid_get unit in map_option rr_channel (List.find (\<lambda>r. rr_min r \<le> v \<and> v \<le> rr_max r) ranges))"

text \<open>The tables over \<open>std::vec::Vec\<close> have no capacity.\<close>

definition dynamic_unit_table_add ::
    "UnitRouteEntry list \<Rightarrow> UnitIdOrSlaveAddr \<Rightarrow> usize \<Rightarrow> UnitRouteEntry list result" where
  "dynamic_unit_table_add entries unit channel =
     (if \<exists>e \<in> set entries. re_unit e = uid_get unit then Err InvalidAddress
      else Ok (entries @ [\<lparr>re_unit = uid_get unit, re_channel = channel\<rparr>]))"

definition dynamic_unit_table_route :: "UnitRouteEntry list \<Rightarrow> UnitIdOrSlaveAddr \<Rightarrow> usize option" where
  "dynamic_unit_table_route entries unit =
     map_option re_channel (List.find (\<lambda>e. re_unit e = uid_get unit) entries)"

definition dynamic_range_table_add ::
    "UnitRangeRoute list \<Rightarrow> u8 \<Rightarrow> u8 \<Rightarrow> usize \<Rightarrow> UnitRangeRoute list result" where
  "dynamic_range_table_add ranges lo hi channel =
     (if lo > hi then Err InvalidAddress
      else if \<exists>r \<in> set ranges. \<not> (rr_max r < lo \<or> rr_min r > hi) then Err InvalidAddress
      else Ok (ranges @ [\<lparr>rr_min = lo, rr_max = hi, rr_channel = channel\<rparr>]))"

definition dynamic_range_table_route :: "UnitRangeRoute list \<Rightarrow> UnitIdOrSlaveAddr \<Rightarrow> usize option" where
  "dynamic_range_table_route ranges unit =
     (let v = uid_get unit in map_option rr_channel (List.find (\<lambda>r. rr_min r \<le> v \<and> v \<le> rr_max r) ranges))"

text \<open>The policies. \<open>rewrite\<close> returns the identifier unchanged unless a policy defines it.\<close>

definition unit_table_policy :: "UnitRouteEntry list \<Rightarrow> GatewayRoutingPolicy" where
  "unit_table_policy entries = \<lparr>rt_route = unit_table_route entries, rt_rewrite = Ok\<rparr>"

definition range_table_policy :: "UnitRangeRoute list \<Rightarrow> GatewayRoutingPolicy" where
  "range_table_policy ranges = \<lparr>rt_route = range_table_route ranges, rt_rewrite = Ok\<rparr>"

definition passthrough_router :: GatewayRoutingPolicy where
  "passthrough_router = \<lparr>rt_route = (\<lambda>_. Some 0), rt_rewrite = Ok\<rparr>"

text \<open>\<open>i16\<close> values are integers; their addition panics or wraps out of range.\<close>

definition add_i16 :: "bool \<Rightarrow> int \<Rightarrow> int \<Rightarrow> int result" where
  "add_i16 oc a b =
     (if - 32768 \<le> a + b \<and> a + b \<le> 32767 then Ok (a + b)
      else if oc then Panic else Ok ((a + b + 32768) mod 65536 - 32768))"

definition rewrite_unit :: "bool \<Rightarrow> int \<Rightarrow> UnitIdOrSlaveAddr \<Rightarrow> UnitIdOrSlaveAddr result" where
  "rewrite_unit oc offset unit =
     bind_res (add_i16 oc (uint (uid_get unit)) offset) (\<lambda>raw.
     let clamped = word_of_int (max 1 (min 247 raw)) in
     Ok (case unit_id_new clamped of Ok u \<Rightarrow> u | _ \<Rightarrow> unit))"

definition rewrite_router :: "bool \<Rightarrow> GatewayRoutingPolicy \<Rightarrow> int \<Rightarrow> GatewayRoutingPolicy" where
  "rewrite_router oc inner offset =
     \<lparr>rt_route = rt_route inner, rt_rewrite = rewrite_unit oc offset\<rparr>"

section \<open>The tables are finite maps\<close>

text \<open>The calls of \<open>add\<close> that set a table up.\<close>

fun add_routes :: "('t \<Rightarrow> 'k \<Rightarrow> usize \<Rightarrow> 't result) \<Rightarrow> 't \<Rightarrow> ('k \<times> usize) list \<Rightarrow> 't result" where
  "add_routes add t [] = Ok t"
| "add_routes add t ((k, c) # rs) = bind_res (add t k c) (\<lambda>t. add_routes add t rs)"

text \<open>
  What a routing table promises. \<open>units\<close> are the unit identifiers a key stands for, \<open>room\<close> tells
  whether one more entry fits.
\<close>

locale routing_table =
  fixes wf :: "'t \<Rightarrow> bool"
    and room :: "'t \<Rightarrow> bool"
    and units :: "'k \<Rightarrow> UnitIdOrSlaveAddr set"
    and add :: "'t \<Rightarrow> 'k \<Rightarrow> usize \<Rightarrow> 't result"
    and lookup :: "'t \<Rightarrow> UnitIdOrSlaveAddr \<Rightarrow> usize option"
  assumes add_free: "wf t \<Longrightarrow> room t \<Longrightarrow> units k \<noteq> {} \<Longrightarrow> \<forall>u \<in> units k. lookup t u = None \<Longrightarrow>
      \<exists>t'. add t k c = Ok t' \<and> wf t' \<and> lookup t' = (\<lambda>u. if u \<in> units k then Some c else lookup t u)"
    and add_full: "wf t \<Longrightarrow> \<not> room t \<Longrightarrow> units k \<noteq> {} \<Longrightarrow> \<forall>u \<in> units k. lookup t u = None \<Longrightarrow>
      add t k c = Err TooManyRequests"
    and add_conflict: "wf t \<Longrightarrow> units k = {} \<or> (\<exists>u \<in> units k. lookup t u \<noteq> None) \<Longrightarrow>
      add t k c = Err InvalidAddress"
begin

lemma added:
  assumes "wf t" "add t k c = Ok t'"
  shows "wf t' \<and> units k \<noteq> {} \<and> (\<forall>u \<in> units k. lookup t u = None) \<and>
    lookup t' = (\<lambda>u. if u \<in> units k then Some c else lookup t u)"
proof -
  have "\<not> (units k = {} \<or> (\<exists>u \<in> units k. lookup t u \<noteq> None))"
    using add_conflict [OF assms(1), of k c] assms(2) by fastforce
  then have free: "units k \<noteq> {}" "\<forall>u \<in> units k. lookup t u = None" by blast+
  moreover have "room t" using add_full [OF assms(1) _ free, of c] assms(2) by auto
  ultimately show ?thesis using add_free [OF assms(1), of k c] assms(2) by auto
qed

text \<open>After the calls, exactly the added routes are there, each unit identifier in one of them.\<close>

lemma add_routes_routes:
  assumes "wf t" "add_routes add t rs = Ok t'"
  shows "wf t' \<and> (lookup t' u = Some c \<longleftrightarrow> lookup t u = Some c \<or> (\<exists>k. (k, c) \<in> set rs \<and> u \<in> units k))"
  using assms
proof (induction rs arbitrary: t)
  case (Cons x rs)
  obtain k d where x: "x = (k, d)" by (cases x)
  then obtain s where s: "add t k d = Ok s" "add_routes add s rs = Ok t'"
    using Cons.prems(2) by (auto simp: res_simps)
  note a = added [OF Cons.prems(1) s(1)]
  then have "wf t' \<and> (lookup t' u = Some c \<longleftrightarrow> lookup s u = Some c \<or> (\<exists>k. (k, c) \<in> set rs \<and> u \<in> units k))"
    using Cons.IH s(2) by blast
  then show ?case using a x by auto
qed simp

lemma add_routes_same_routes:
  assumes "wf t" "\<forall>u. lookup t u = None" "add_routes add t rs = Ok t1" "add_routes add t rs' = Ok t2" "set rs = set rs'"
  shows "lookup t1 = lookup t2"
proof
  fix u
  have "lookup t1 u = Some c \<longleftrightarrow> lookup t2 u = Some c" for c
    using add_routes_routes [OF assms(1,3)] add_routes_routes [OF assms(1,4)] assms(2,5) by simp
  then show "lookup t1 u = lookup t2 u" by (metis not_Some_eq)
qed

lemma routes_unique:
  assumes "wf t" "\<forall>u. lookup t u = None" "add_routes add t rs = Ok t'" "(k, c) \<in> set rs" "(k', c') \<in> set rs"
    "u \<in> units k" "u \<in> units k'"
  shows "c = c'"
  using add_routes_routes [OF assms(1,3), of u c] add_routes_routes [OF assms(1,3), of u c'] assms by auto

end

lemma find_append: "List.find P (xs @ ys) = (case List.find P xs of None \<Rightarrow> List.find P ys | x \<Rightarrow> x)"
  by (induction xs) auto

lemma uid_get_inj [simp]: "uid_get a = uid_get b \<longleftrightarrow> a = b"
  by (cases a; cases b) simp

lemma unit_conflict: "(\<exists>e \<in> set es. re_unit e = uid_get u) \<longleftrightarrow> unit_table_route es u \<noteq> None"
  by (auto simp: unit_table_route_def find_None_iff)

lemma range_route_None:
  "range_table_route rs u = None \<longleftrightarrow> (\<forall>r \<in> set rs. \<not> (rr_min r \<le> uid_get u \<and> uid_get u \<le> rr_max r))"
  by (auto simp: range_table_route_def find_None_iff Let_def)

lemma unit_route_append:
  "unit_table_route (es @ [\<lparr>re_unit = uid_get k, re_channel = c\<rparr>]) u =
    (case unit_table_route es u of None \<Rightarrow> if u = k then Some c else None | x \<Rightarrow> x)"
  by (auto simp: unit_table_route_def find_append split: option.splits)

lemma range_route_append:
  "range_table_route (rs @ [\<lparr>rr_min = lo, rr_max = hi, rr_channel = c\<rparr>]) u =
    (case range_table_route rs u of
       None \<Rightarrow> if lo \<le> uid_get u \<and> uid_get u \<le> hi then Some c else None
     | x \<Rightarrow> x)"
  by (auto simp: range_table_route_def find_append Let_def split: option.splits)

text \<open>The units of a range, and when two ranges share one.\<close>

fun range_units :: "u8 \<times> u8 \<Rightarrow> UnitIdOrSlaveAddr set" where
  "range_units (lo, hi) = {u. lo \<le> uid_get u \<and> uid_get u \<le> hi}"

lemma range_units_empty: "range_units (lo, hi) = {} \<longleftrightarrow> hi < lo"
proof
  assume "range_units (lo, hi) = {}"
  then have "UnitIdOrSlaveAddr lo \<notin> range_units (lo, hi)" by blast
  then show "hi < lo" by (simp add: not_le)
qed auto

definition ranges_wf :: "UnitRangeRoute list \<Rightarrow> bool" where
  "ranges_wf rs \<longleftrightarrow> (\<forall>r \<in> set rs. rr_min r \<le> rr_max r)"

lemma range_conflict:
  assumes "ranges_wf rs" "lo \<le> hi"
  shows "(\<exists>r \<in> set rs. \<not> (rr_max r < lo \<or> rr_min r > hi)) \<longleftrightarrow>
    (\<exists>u \<in> range_units (lo, hi). range_table_route rs u \<noteq> None)"
proof -
  have "\<not> (rr_max r < lo \<or> rr_min r > hi) \<longleftrightarrow>
      (\<exists>u \<in> range_units (lo, hi). rr_min r \<le> uid_get u \<and> uid_get u \<le> rr_max r)" if "r \<in> set rs" for r
    using that assms by (auto simp: ranges_wf_def not_less intro!: exI [of _ "UnitIdOrSlaveAddr (max (rr_min r) lo)"])
  then show ?thesis by (auto simp: range_route_None simp del: range_units.simps)
qed

interpretation unit_routes: routing_table "\<lambda>_. heapless_ok hv" "\<lambda>es. length es < n" "\<lambda>u. {u}"
  "unit_table_add hv n" unit_table_route for hv n
  by unfold_locales
    (auto simp: unit_table_add_def unit_conflict unit_route_append fun_eq_iff split: option.splits)

interpretation range_routes: routing_table "\<lambda>rs. heapless_ok hv \<and> ranges_wf rs" "\<lambda>rs. length rs < n"
  range_units "\<lambda>rs (lo, hi). range_table_add hv n rs lo hi" range_table_route for hv n
proof (unfold_locales, goal_cases)
  case (1 t k c)
  then show ?case
    using range_conflict [of t "fst k" "snd k"] range_units_empty [of "fst k" "snd k"]
    by (cases k)
      (auto simp: range_table_add_def range_route_append fun_eq_iff ranges_wf_def not_less simp del: not_None_eq split: option.splits)
next
  case (2 t k c)
  then show ?case
    using range_conflict [of t "fst k" "snd k"] range_units_empty [of "fst k" "snd k"]
    by (cases k) (auto simp: range_table_add_def not_less simp del: range_units.simps)
next
  case (3 t k c)
  then show ?case
    using range_conflict [of t "fst k" "snd k"] range_units_empty [of "fst k" "snd k"]
    by (cases k) (auto simp: range_table_add_def not_less simp del: range_units.simps)
qed

interpretation dynamic_unit_routes: routing_table "\<lambda>_. True" "\<lambda>_. True" "\<lambda>u. {u}"
  dynamic_unit_table_add dynamic_unit_table_route
  using unit_routes.add_conflict [OF bounded_vec_ok]
  by unfold_locales
    (auto simp: dynamic_unit_table_add_def dynamic_unit_table_route_def unit_conflict unit_route_append fun_eq_iff
      simp flip: unit_table_route_def split: option.splits)

lemma dynamic_range_table_eq:
  "dynamic_range_table_route = range_table_route"
  "dynamic_range_table_add rs lo hi c = range_table_add bounded_vec (length rs + 1) rs lo hi c"
proof -
  show "dynamic_range_table_route = range_table_route"
    by (intro ext) (simp add: dynamic_range_table_route_def range_table_route_def)
qed (auto simp: dynamic_range_table_add_def range_table_add_def)

interpretation dynamic_range_routes: routing_table ranges_wf "\<lambda>_. True" range_units
  "\<lambda>rs (lo, hi). dynamic_range_table_add rs lo hi" dynamic_range_table_route
proof (unfold_locales, goal_cases)
  case (1 t k c)
  then show ?case
    using range_routes.add_free [of bounded_vec t "length t + 1" k c]
    unfolding dynamic_range_table_eq(1) by (cases k) (simp add: dynamic_range_table_eq(2))
next
  case (3 t k c)
  then show ?case
    using range_routes.add_conflict [of bounded_vec t k "length t + 1" c]
    by (cases k) (simp add: dynamic_range_table_eq)
qed simp

section \<open>Rewriting\<close>

lemma rewrite_unit_ok:
  assumes "- 32768 \<le> offset" "uint (uid_get u) + offset \<le> 32767"
  shows "rewrite_unit oc offset u =
    Ok (UnitIdOrSlaveAddr (word_of_int (max 1 (min 247 (uint (uid_get u) + offset)))))"
proof -
  let ?c = "max 1 (min 247 (uint (uid_get u) + offset))"
  have "uint (word_of_int ?c :: u8) = ?c"
    by (rule word_of_int_inverse [OF refl]) (auto simp: min_def max_def)
  then have "unit_id_new (word_of_int ?c) = Ok (UnitIdOrSlaveAddr (word_of_int ?c))"
    by (simp add: unit_id_new_def word_le_def)
  moreover have "- 32768 \<le> uint (uid_get u) + offset" using assms(1) add_increasing [OF uint_ge_0] by blast
  ultimately show ?thesis using assms(2) by (simp add: rewrite_unit_def add_i16_def Let_def)
qed

text \<open>Whatever the offset, the downstream identifier addresses one unit.\<close>

lemma rewrite_unit_unicast:
  assumes "rewrite_unit oc offset u = Ok u'"
  shows "unit_id_new (uid_get u') = Ok u'"
proof -
  obtain raw where "u' = (case unit_id_new (word_of_int (max 1 (min 247 raw))) of Ok v \<Rightarrow> v | _ \<Rightarrow> u)"
    using assms by (auto simp: rewrite_unit_def res_simps Let_def)
  moreover have "uint (word_of_int (max 1 (min 247 raw)) :: u8) = max 1 (min 247 raw)"
    by (rule word_of_int_inverse [OF refl]) (auto simp: min_def max_def)
  ultimately show ?thesis by (simp add: unit_id_new_def word_le_def)
qed

lemma rewrite_unit_Panic_iff:
  "- 32768 \<le> offset \<Longrightarrow> rewrite_unit oc offset u = Panic \<longleftrightarrow> oc \<and> 32767 < uint (uid_get u) + offset"
  using add_increasing [OF uint_ge_0, of "- 32768" offset "uid_get u"]
  by (auto simp: rewrite_unit_def add_i16_def Let_def res_simps)

text \<open>
  A routing table routes a unit to the channel it was registered with and no other: after any
  sequence of accepted calls of \<open>add\<close>, the exact table routes a unit to a channel exactly if the pair was
  added, and the range table exactly if a range with the unit was added for the channel.
\<close>

theorem routes_as_registered:
  assumes "heapless_ok hu" "add_routes (unit_table_add hu n) unit_table_new us = Ok ut"
    and "heapless_ok hr" "add_routes (\<lambda>t (lo, hi). range_table_add hr m t lo hi) range_table_new rs = Ok rt"
  shows "(rt_route (unit_table_policy ut) u = Some c \<longleftrightarrow> (u, c) \<in> set us) \<and>
    (rt_route (range_table_policy rt) u = Some c \<longleftrightarrow>
      (\<exists>lo hi. ((lo, hi), c) \<in> set rs \<and> lo \<le> uid_get u \<and> uid_get u \<le> hi))"
proof -
  have "unit_table_route ut u = Some c \<longleftrightarrow> (u, c) \<in> set us"
    using unit_routes.add_routes_routes [OF assms(1,2), of u c]
    by (auto simp: unit_table_new_def unit_table_route_def)
  moreover have "range_table_route rt u = Some c \<longleftrightarrow>
      (\<exists>lo hi. ((lo, hi), c) \<in> set rs \<and> lo \<le> uid_get u \<and> uid_get u \<le> hi)"
    using range_routes.add_routes_routes [OF _ assms(4), of u c] assms(3)
    by (auto simp: range_table_new_def range_table_route_def ranges_wf_def)
  ultimately show ?thesis by (simp add: unit_table_policy_def range_table_policy_def)
qed

theorem routes_as_registered_witness:
  "\<exists>ut rt. add_routes (unit_table_add bounded_vec 4) unit_table_new
      [(UnitIdOrSlaveAddr 1, 0), (UnitIdOrSlaveAddr 2, 1)] = Ok ut \<and>
    add_routes (\<lambda>t (lo, hi). range_table_add bounded_vec 4 t lo hi) range_table_new
      [((1, 32), 0), ((33, 64), 1)] = Ok rt \<and>
    rt_route (unit_table_policy ut) (UnitIdOrSlaveAddr 2) = Some 1 \<and>
    rt_route (range_table_policy rt) (UnitIdOrSlaveAddr 50) = Some 1"
proof -
  obtain ut where ut: "add_routes (unit_table_add bounded_vec 4) unit_table_new
      [(UnitIdOrSlaveAddr 1, 0), (UnitIdOrSlaveAddr 2, 1)] = Ok ut"
    by (simp add: unit_table_add_def unit_table_new_def)
  obtain rt where rt: "add_routes (\<lambda>t (lo, hi). range_table_add bounded_vec 4 t lo hi) range_table_new
      [((1, 32), 0), ((33, 64), 1)] = Ok rt"
    by (simp add: range_table_add_def range_table_new_def)
  show ?thesis
    using routes_as_registered [OF bounded_vec_ok ut bounded_vec_ok rt, of "UnitIdOrSlaveAddr 2" 1]
      routes_as_registered [OF bounded_vec_ok ut bounded_vec_ok rt, of "UnitIdOrSlaveAddr 50" 1] ut rt by auto
qed

end
