(* ===== verification/Gateway_Queues.thy ===== *)
theory Gateway_Queues
  imports Framing
begin

text \<open>
  The bookkeeping of the gateway: the transaction tables, which give a request an identifier that is
  its own on the downstream side (mbus-gateway/src/common/txn_map_static.rs and txn_map_dynamic.rs),
  and the queue of requests that wait for a channel (gateway_sync/pending_queue.rs).
\<close>

section \<open>Transaction tables\<close>

record TxnEntry =
  te_internal_txn :: u16
  te_upstream_txn :: u16
  te_session_id :: u8

record TxnMap =
  txn_entries :: "TxnEntry list"
  next_internal :: u16

definition txn_map_new :: TxnMap where
  "txn_map_new = \<lparr>txn_entries = [], next_internal = 0\<rparr>"

definition txn_allocate ::
    "TxnEntry heapless \<Rightarrow> usize \<Rightarrow> TxnMap \<Rightarrow> u16 \<Rightarrow> u8 \<Rightarrow> TxnMap \<times> u16 option" where
  "txn_allocate hv n m upstream_txn session_id =
     (if length (txn_entries m) = n then (m, None)
      else
        let internal = next_internal m;
            m = m\<lparr>next_internal := next_internal m + 1\<rparr>
        in case hv_push hv n (txn_entries m)
                  \<lparr>te_internal_txn = internal, te_upstream_txn = upstream_txn, te_session_id = session_id\<rparr> of
             None \<Rightarrow> (m, None)
           | Some entries \<Rightarrow> (m\<lparr>txn_entries := entries\<rparr>, Some internal))"

definition txn_lookup :: "TxnMap \<Rightarrow> u16 \<Rightarrow> TxnEntry option" where
  "txn_lookup m internal_txn = List.find (\<lambda>e. te_internal_txn e = internal_txn) (txn_entries m)"

definition txn_remove :: "TxnEntry heapless \<Rightarrow> TxnMap \<Rightarrow> u16 \<Rightarrow> (TxnMap \<times> TxnEntry option) result" where
  "txn_remove hv m internal_txn =
     (case find_index (\<lambda>e. te_internal_txn e = internal_txn) (txn_entries m) of
        None \<Rightarrow> Ok (m, None)
      | Some pos \<Rightarrow>
          bind_res (or_panic (hv_swap_remove hv (txn_entries m) pos)) (\<lambda>(entry, entries).
            Ok (m\<lparr>txn_entries := entries\<rparr>, Some entry)))"

partial_function (option) remove_session_loop ::
    "TxnEntry heapless \<Rightarrow> u8 \<Rightarrow> usize \<Rightarrow> usize \<Rightarrow> TxnEntry list \<Rightarrow> (usize \<times> TxnEntry list) result option" where
  "remove_session_loop hv session_id removed i entries =
     (if i < length entries then
        (if te_session_id (entries ! i) = session_id then
           (case hv_swap_remove hv entries i of
              None \<Rightarrow> Some Panic
            | Some (_, entries) \<Rightarrow> remove_session_loop hv session_id (removed + 1) i entries)
         else remove_session_loop hv session_id removed (i + 1) entries)
      else Some (Ok (removed, entries)))"

definition txn_remove_by_session ::
    "TxnEntry heapless \<Rightarrow> TxnMap \<Rightarrow> u8 \<Rightarrow> (TxnMap \<times> usize) result option" where
  "txn_remove_by_session hv m session_id =
     map_option (\<lambda>r. bind_res r (\<lambda>(removed, entries). Ok (m\<lparr>txn_entries := entries\<rparr>, removed)))
       (remove_session_loop hv session_id 0 0 (txn_entries m))"

text \<open>The table over \<open>std::vec::Vec\<close>, whose \<open>swap_remove\<close> panics out of range.\<close>

definition dynamic_txn_allocate :: "TxnMap \<Rightarrow> u16 \<Rightarrow> u8 \<Rightarrow> TxnMap \<times> u16 option" where
  "dynamic_txn_allocate m upstream_txn session_id =
     (let internal = next_internal m in
      (m\<lparr>next_internal := next_internal m + 1,
         txn_entries := txn_entries m @
           [\<lparr>te_internal_txn = internal, te_upstream_txn = upstream_txn, te_session_id = session_id\<rparr>]\<rparr>,
       Some internal))"

definition dynamic_txn_remove :: "TxnMap \<Rightarrow> u16 \<Rightarrow> (TxnMap \<times> TxnEntry option) result" where
  "dynamic_txn_remove m internal_txn =
     (case find_index (\<lambda>e. te_internal_txn e = internal_txn) (txn_entries m) of
        None \<Rightarrow> Ok (m, None)
      | Some pos \<Rightarrow>
          bind_res (idx (txn_entries m) pos) (\<lambda>entry.
            Ok (m\<lparr>txn_entries := swap_removed (txn_entries m) pos\<rparr>, Some entry)))"

section \<open>Waiting requests\<close>

record GwPendingRequest =
  pq_session_idx :: usize
  pq_upstream_txn :: u16
  pq_unit :: UnitIdOrSlaveAddr
  pq_downstream_unit :: UnitIdOrSlaveAddr
  pq_fc :: FunctionCode
  pq_pdu :: Pdu
  pq_upstream_type :: TransportType

definition pending_push ::
    "GwPendingRequest heapless \<Rightarrow> usize \<Rightarrow> GwPendingRequest list \<Rightarrow> GwPendingRequest \<Rightarrow>
     bool \<times> GwPendingRequest list" where
  "pending_push hv n q req = (case hv_push hv n q req of Some q \<Rightarrow> (True, q) | None \<Rightarrow> (False, q))"

text \<open>\<open>self.queue.swap(i, j)\<close> panics out of range.\<close>

definition swap :: "usize \<Rightarrow> usize \<Rightarrow> 'x list \<Rightarrow> 'x list result" where
  "swap i j xs =
     bind_res (idx xs i) (\<lambda>a. bind_res (idx xs j) (\<lambda>b. Ok (xs[i := b, j := a])))"

definition pending_pop_front ::
    "GwPendingRequest heapless \<Rightarrow> GwPendingRequest list \<Rightarrow>
     (GwPendingRequest option \<times> GwPendingRequest list) result" where
  "pending_pop_front hv q =
     (if length q = 0 then Ok (None, q)
      else bind_res (for_each (\<lambda>i. swap i (i + 1)) [0..<length q - 1] q) (\<lambda>q.
        Ok (case hv_pop hv q of None \<Rightarrow> (None, q) | Some (req, q) \<Rightarrow> (Some req, q))))"

section \<open>The tables map identifiers to requests\<close>

text \<open>
  What a transaction table promises: \<open>entries\<close> are the requests in flight, \<open>next_id\<close> the identifier
  the next one gets, \<open>room\<close> tells whether one more fits.
\<close>

locale txn_table =
  fixes valid :: "'t \<Rightarrow> bool"
    and entries :: "'t \<Rightarrow> TxnEntry multiset"
    and next_id :: "'t \<Rightarrow> u16"
    and room :: "'t \<Rightarrow> bool"
    and allocate :: "'t \<Rightarrow> u16 \<Rightarrow> u8 \<Rightarrow> 't \<times> u16 option"
    and remove :: "'t \<Rightarrow> u16 \<Rightarrow> ('t \<times> TxnEntry option) result"
  assumes allocate_room: "valid t \<Longrightarrow> room t \<Longrightarrow> \<exists>t'. allocate t txn sid = (t', Some (next_id t)) \<and> valid t' \<and>
      entries t' = add_mset \<lparr>te_internal_txn = next_id t, te_upstream_txn = txn, te_session_id = sid\<rparr> (entries t) \<and>
      next_id t' = next_id t + 1"
    and allocate_full: "valid t \<Longrightarrow> \<not> room t \<Longrightarrow> allocate t txn sid = (t, None)"
    and remove_present: "valid t \<Longrightarrow> e \<in># entries t \<Longrightarrow> te_internal_txn e = i \<Longrightarrow>
      \<exists>t' e'. remove t i = Ok (t', Some e') \<and> valid t' \<and> te_internal_txn e' = i \<and>
        entries t = add_mset e' (entries t') \<and> next_id t' = next_id t"
    and remove_absent: "valid t \<Longrightarrow> \<forall>e \<in># entries t. te_internal_txn e \<noteq> i \<Longrightarrow> remove t i = Ok (t, None)"
begin

definition ids :: "'t \<Rightarrow> u16 multiset" where
  "ids t = image_mset te_internal_txn (entries t)"

lemma remove_cases:
  assumes "valid t"
  obtains (absent) "remove t i = Ok (t, None)" "i \<notin># ids t"
  | (present) t' e where "remove t i = Ok (t', Some e)" "valid t'" "te_internal_txn e = i"
      "entries t = add_mset e (entries t')" "ids t = add_mset i (ids t')" "next_id t' = next_id t"
proof (cases "i \<in># ids t")
  case True
  then obtain e where "e \<in># entries t" "te_internal_txn e = i" by (auto simp: ids_def)
  from remove_present [OF assms this] show ?thesis using present by (force simp: ids_def)
next
  case False
  then have "remove t i = Ok (t, None)" by (intro remove_absent [OF assms]) (auto simp: ids_def)
  then show ?thesis using absent False by blast
qed

lemma allocate_cases:
  assumes "valid t"
  obtains (full) "allocate t txn sid = (t, None)" "\<not> room t"
  | (room) t' where "allocate t txn sid = (t', Some (next_id t))" "valid t'" "next_id t' = next_id t + 1"
      "entries t' = add_mset \<lparr>te_internal_txn = next_id t, te_upstream_txn = txn, te_session_id = sid\<rparr> (entries t)"
      "ids t' = add_mset (next_id t) (ids t)"
  using allocate_full [OF assms] allocate_room [OF assms, of txn sid] by (cases "room t") (auto simp: ids_def)

text \<open>
  The use of a table, with the serial number of every entry: the number of requests that were
  allocated before it. \<open>n\<close> requests have been allocated in all.
\<close>

inductive used :: "'t \<Rightarrow> (nat \<times> TxnEntry) list \<Rightarrow> nat \<Rightarrow> bool" where
  used_start: "valid t \<Longrightarrow> entries t = {#} \<Longrightarrow> next_id t = of_nat n \<Longrightarrow> used t [] n"
| used_allocate: "used t H n \<Longrightarrow> allocate t txn sid = (t', Some i) \<Longrightarrow>
    used t' ((n, \<lparr>te_internal_txn = i, te_upstream_txn = txn, te_session_id = sid\<rparr>) # H) (n + 1)"
| used_remove: "used t H n \<Longrightarrow> (k, e) \<in> set H \<Longrightarrow> remove t i = Ok (t', Some e) \<Longrightarrow>
    used t' (filter (\<lambda>x. fst x \<noteq> k) H) n"

lemma mset_remove_key:
  "distinct (map fst H) \<Longrightarrow> (k, e) \<in> set H \<Longrightarrow>
   mset (map snd H) = add_mset e (mset (map snd (filter (\<lambda>x. fst x \<noteq> k) H)))"
proof (induction H)
  case (Cons x H)
  have "filter (\<lambda>x. fst x \<noteq> k) H = H" if "k \<notin> fst ` set H"
    using that by (intro filter_True) auto
  then show ?case using Cons by (cases x) (auto simp: rev_image_eqI simp del: mset_map mset_filter)
qed simp

lemma used_serials:
  "used t H n \<Longrightarrow> valid t \<and> mset (map snd H) = entries t \<and> next_id t = of_nat n \<and>
    (\<forall>(k, e) \<in> set H. k < n \<and> te_internal_txn e = of_nat k) \<and> distinct (map fst H)"
proof (induction rule: used.induct)
  case (used_allocate t H n txn sid t' i)
  then have v: "valid t" by simp
  from v show ?case
  proof (cases rule: allocate_cases [where txn = txn and sid = sid])
    case (room s)
    have "n \<notin> fst ` set H" using used_allocate.IH by fastforce
    then show ?thesis using room used_allocate by (auto simp: less_SucI)
  qed (use used_allocate in simp)
next
  case (used_remove t H n k e i t')
  then have v: "valid t" by simp
  have d: "distinct (map fst (filter (\<lambda>x. fst x \<noteq> k) H))" using used_remove.IH by (simp add: distinct_map_filter)
  from v show ?case
  proof (cases rule: remove_cases [where i = i])
    case (present s x)
    then have "mset (map snd (filter (\<lambda>x. fst x \<noteq> k) H)) = entries t'"
      using mset_remove_key [of H k e] used_remove by auto
    then show ?thesis using present used_remove d by auto
  qed (use used_remove in simp)
qed simp

lemma serial_of_id:
  fixes k l n :: nat
  assumes "(of_nat k :: u16) = of_nat l" "k < n" "l < n" "n \<le> k + 65536" "n \<le> l + 65536"
  shows "k = l"
proof -
  have turn: "a = b" if "a \<le> b" "a mod 65536 = b mod 65536" "b < a + 65536" for a b :: nat
  proof (rule ccontr)
    assume "a \<noteq> b"
    then have "0 < b - a" "b - a < 65536" using that by auto
    moreover have "65536 dvd b - a" using that mod_eq_dvd_iff_nat [of a b 65536] by metis
    ultimately show False by (meson nat_dvd_not_less)
  qed
  have "k mod 65536 = l mod 65536" using assms(1) by (simp add: word_of_nat_eq_iff take_bit_eq_mod)
  then show ?thesis using turn [of k l] turn [of l k] assms by (cases "k \<le> l") auto
qed

text \<open>
  The identifier of a request is translated back to this request, as long as fewer than 65536
  requests were forwarded since the oldest request in flight.
\<close>

lemma translated_back:
  assumes "used t H n" "\<forall>(k, e) \<in> set H. n \<le> k + 65536" "(k, e) \<in> set H"
  shows "\<exists>t'. remove t (te_internal_txn e) = Ok (t', Some e) \<and> used t' (filter (\<lambda>x. fst x \<noteq> k) H) n"
proof -
  note s = used_serials [OF assms(1)]
  have snds: "set (map snd H) = set_mset (entries t)" using s by (metis set_mset_mset)
  then have "e \<in># entries t" using assms(3) by force
  then obtain t' e' where r: "remove t (te_internal_txn e) = Ok (t', Some e')"
      "te_internal_txn e' = te_internal_txn e" "entries t = add_mset e' (entries t')"
    using remove_present s by blast
  then have "e' \<in> set (map snd H)" using snds by simp
  then obtain l where l: "(l, e') \<in> set H" by auto
  moreover have "k < n" "te_internal_txn e = of_nat k" "l < n" "te_internal_txn e' = of_nat l"
    using s assms(3) l by auto
  ultimately have "l = k" using serial_of_id [of l k n] r(2) assms(2,3) by auto
  then have "e' = e" using l assms(3) s by (auto dest: eq_key_imp_eq_value)
  then show ?thesis using r(1) used_remove [OF assms(1,3)] by blast
qed

end

lemma txn_remove_laws:
  assumes "heapless_ok hv"
  shows "e \<in># mset (txn_entries m) \<Longrightarrow> te_internal_txn e = i \<Longrightarrow>
      \<exists>m' e'. txn_remove hv m i = Ok (m', Some e') \<and> te_internal_txn e' = i \<and>
        mset (txn_entries m) = add_mset e' (mset (txn_entries m')) \<and> next_internal m' = next_internal m"
    and "\<forall>e \<in># mset (txn_entries m). te_internal_txn e \<noteq> i \<Longrightarrow> txn_remove hv m i = Ok (m, None)"
proof -
  assume e: "e \<in># mset (txn_entries m)" "te_internal_txn e = i"
  then obtain k where k: "find_index (\<lambda>e. te_internal_txn e = i) (txn_entries m) = Some k"
    using find_index_None [of "\<lambda>e. te_internal_txn e = i" "txn_entries m"] by fastforce
  then show "\<exists>m' e'. txn_remove hv m i = Ok (m', Some e') \<and> te_internal_txn e' = i \<and>
        mset (txn_entries m) = add_mset e' (mset (txn_entries m')) \<and> next_internal m' = next_internal m"
    using find_index_Some [OF k] mset_swap_removed assms by (auto simp: txn_remove_def)
next
  assume "\<forall>e \<in># mset (txn_entries m). te_internal_txn e \<noteq> i"
  then show "txn_remove hv m i = Ok (m, None)"
    using find_index_None [of "\<lambda>e. te_internal_txn e = i" "txn_entries m"] by (simp add: txn_remove_def)
qed

lemma dynamic_txn_eq: "dynamic_txn_remove = txn_remove bounded_vec"
proof (intro ext)
  fix m i
  show "dynamic_txn_remove m i = txn_remove bounded_vec m i"
    using find_index_Some [of _ "txn_entries m"]
    by (fastforce simp: dynamic_txn_remove_def txn_remove_def split: option.splits)
qed

interpretation static_txns: txn_table "\<lambda>m. heapless_ok hv \<and> length (txn_entries m) \<le> n"
  "\<lambda>m. mset (txn_entries m)" next_internal "\<lambda>m. length (txn_entries m) < n" "txn_allocate hv n" "txn_remove hv" for hv n
proof (unfold_locales, goal_cases)
  case (3 t e i)
  then obtain t' e' where r: "txn_remove hv t i = Ok (t', Some e')" "te_internal_txn e' = i"
      "mset (txn_entries t) = add_mset e' (mset (txn_entries t'))" "next_internal t' = next_internal t"
    using txn_remove_laws(1) by blast
  then have "length (txn_entries t) = Suc (length (txn_entries t'))"
    by (metis size_add_mset size_mset)
  then show ?case using r 3 by auto
qed (auto simp: txn_allocate_def Let_def txn_remove_laws(2))

interpretation dynamic_txns: txn_table "\<lambda>m. True" "\<lambda>m. mset (txn_entries m)" next_internal "\<lambda>m. True"
  dynamic_txn_allocate dynamic_txn_remove
proof (unfold_locales, goal_cases)
  case (3 t e i)
  then show ?case using txn_remove_laws(1) [OF bounded_vec_ok] by (simp add: dynamic_txn_eq)
next
  case (4 t i)
  then show ?case using txn_remove_laws(2) [OF bounded_vec_ok] by (simp add: dynamic_txn_eq)
qed (auto simp: dynamic_txn_allocate_def Let_def)

lemma remove_session_loop_ok:
  assumes "heapless_ok hv" "i \<le> length es" "\<forall>j<i. te_session_id (es ! j) \<noteq> sid"
  shows "\<exists>k rest. remove_session_loop hv sid r i es = Some (Ok (k, rest)) \<and>
    mset rest = filter_mset (\<lambda>e. te_session_id e \<noteq> sid) (mset es)"
  using assms
proof (induction "length es - i" arbitrary: i es r rule: less_induct)
  case less
  show ?case
  proof (cases "i < length es")
    case False
    then have "\<forall>e \<in> set es. te_session_id e \<noteq> sid" using less.prems(2,3) by (auto simp: in_set_conv_nth)
    then have "filter (\<lambda>e. te_session_id e \<noteq> sid) es = es" by (simp add: filter_id_conv)
    then show ?thesis using False by (subst remove_session_loop.simps) (simp flip: mset_filter)
  next
    case True
    show ?thesis
    proof (cases "te_session_id (es ! i) = sid")
      case there: True
      have "\<forall>j<i. te_session_id (swap_removed es i ! j) \<noteq> sid"
        using less.prems(3) True by (simp add: swap_removed_prefix)
      then show ?thesis
        using less.hyps [of "swap_removed es i" i "r + 1"] less.prems True there mset_swap_removed [OF True]
        by (subst remove_session_loop.simps) simp
    next
      case False
      then have "\<forall>j < i + 1. te_session_id (es ! j) \<noteq> sid" using less.prems(3) by (simp add: less_Suc_eq)
      then show ?thesis
        using less.hyps [of es "i + 1" r] less.prems True False by (subst remove_session_loop.simps) simp
    qed
  qed
qed

lemma txn_remove_by_session_ok:
  assumes "heapless_ok hv"
  shows "\<exists>m' k. txn_remove_by_session hv m sid = Some (Ok (m', k)) \<and> next_internal m' = next_internal m \<and>
    mset (txn_entries m') = filter_mset (\<lambda>e. te_session_id e \<noteq> sid) (mset (txn_entries m))"
  using remove_session_loop_ok [OF assms, of 0 "txn_entries m" sid 0] by (auto simp: txn_remove_by_session_def)

section \<open>The queue is a FIFO queue\<close>

locale fifo_queue =
  fixes valid :: "'q \<Rightarrow> bool"
    and elems :: "'q \<Rightarrow> 'x list"
    and capacity :: nat
    and push :: "'q \<Rightarrow> 'x \<Rightarrow> bool \<times> 'q"
    and pop :: "'q \<Rightarrow> ('x option \<times> 'q) result"
  assumes push_room: "valid q \<Longrightarrow> length (elems q) < capacity \<Longrightarrow>
      \<exists>q'. push q x = (True, q') \<and> valid q' \<and> elems q' = elems q @ [x]"
    and push_full: "valid q \<Longrightarrow> capacity \<le> length (elems q) \<Longrightarrow> push q x = (False, q)"
    and pop_empty: "valid q \<Longrightarrow> elems q = [] \<Longrightarrow> pop q = Ok (None, q)"
    and pop_oldest: "valid q \<Longrightarrow> elems q = x # xs \<Longrightarrow> \<exists>q'. pop q = Ok (Some x, q') \<and> valid q' \<and> elems q' = xs"
begin

lemma pop_cases:
  assumes "valid q"
  obtains (empty) "pop q = Ok (None, q)" "elems q = []"
  | (oldest) x q' where "pop q = Ok (Some x, q')" "valid q'" "elems q = x # elems q'"
  using pop_empty [OF assms] pop_oldest [OF assms] by (cases "elems q") auto

lemma push_cases:
  assumes "valid q"
  obtains (room) q' where "push q x = (True, q')" "valid q'" "elems q' = elems q @ [x]" "length (elems q) < capacity"
  | (full) "push q x = (False, q)" "capacity \<le> length (elems q)"
  using push_room [OF assms, of x] push_full [OF assms, of x] by (cases "length (elems q) < capacity") auto

end

lemma swaps_rotate:
  "for_each (\<lambda>i. swap i (i + 1)) [k..<k + length ys] (xs @ x # ys) = Ok (xs @ ys @ [x])" if "length xs = k"
  using that
proof (induction ys arbitrary: xs k)
  case (Cons y ys)
  have "swap k (k + 1) (xs @ x # y # ys) = Ok ((xs @ [y]) @ x # ys)"
    using Cons.prems by (simp add: swap_def nth_append list_update_append)
  moreover have "[k..<k + length (y # ys)] = k # [Suc k..<Suc k + length ys]"
    by (simp del: upt_Suc add: upt_conv_Cons)
  ultimately show ?case using Cons.IH [of "xs @ [y]" "Suc k"] Cons.prems by (simp del: upt_Suc)
qed simp

lemma pending_pop_front_eq:
  "heapless_ok hv \<Longrightarrow> pending_pop_front hv q = Ok (case q of [] \<Rightarrow> (None, []) | x # xs \<Rightarrow> (Some x, xs))"
  using swaps_rotate [of "[]" 0 "tl q" "hd q"] by (cases q) (simp_all add: pending_pop_front_def)

interpretation pending_queue: fifo_queue "\<lambda>_. heapless_ok hv" "\<lambda>q. q" n "pending_push hv n" "pending_pop_front hv"
  for hv n
  by unfold_locales (auto simp: pending_push_def pending_pop_front_eq)

section \<open>The translation of transaction identifiers\<close>

text \<open>
  C37: Transaction identifiers are translated back correctly: while fewer than 65536 requests are
  forwarded during the time any one request is in flight, the internal identifier of a request leads back to the
  transaction identifier and the session of this request, whatever else was allocated and removed.
\<close>

theorem transactions_translated_back:
  assumes "static_txns.used hv n m H allocated" "\<forall>(k, e) \<in> set H. allocated \<le> k + 65536" "(k, e) \<in> set H"
  shows "\<exists>m'. txn_remove hv m (te_internal_txn e) = Ok (m', Some e)"
  using static_txns.translated_back [OF assms] by blast

theorem transactions_translated_back_witness:
  "\<exists>m1 i1 m2 i2 m'. txn_allocate bounded_vec 4 \<lparr>txn_entries = [], next_internal = - 1\<rparr> 1 0 = (m1, Some i1) \<and>
    txn_allocate bounded_vec 4 m1 1 5 = (m2, Some i2) \<and>
    txn_remove bounded_vec m2 i1 =
      Ok (m', Some \<lparr>te_internal_txn = i1, te_upstream_txn = 1, te_session_id = 0\<rparr>)"
proof -
  let ?m0 = "\<lparr>txn_entries = [], next_internal = - 1\<rparr>"
  let ?e1 = "\<lparr>te_internal_txn = - 1, te_upstream_txn = 1, te_session_id = 0\<rparr>"
  let ?e2 = "\<lparr>te_internal_txn = 0, te_upstream_txn = 1, te_session_id = 5\<rparr>"
  obtain m1 where m1: "txn_allocate bounded_vec 4 ?m0 1 0 = (m1, Some (- 1))"
      "m1 = \<lparr>txn_entries = [?e1], next_internal = 0\<rparr>"
    by (simp add: txn_allocate_def Let_def)
  obtain m2 where m2: "txn_allocate bounded_vec 4 m1 1 5 = (m2, Some 0)"
    by (simp add: m1(2) txn_allocate_def Let_def)
  have "static_txns.used bounded_vec 4 ?m0 [] 65535" by (rule static_txns.used_start) simp_all
  from static_txns.used_allocate [OF static_txns.used_allocate [OF this m1(1)] m2]
  have "static_txns.used bounded_vec 4 m2 [(65536, ?e2), (65535, ?e1)] 65537" by simp
  from transactions_translated_back [OF this, of 65535 ?e1]
  obtain m' where "txn_remove bounded_vec m2 (- 1) = Ok (m', Some ?e1)" by auto
  then show ?thesis using m1(1) m2 by blast
qed

end
