(* ===== verification/Gateway_Core.thy ===== *)
theory Gateway_Core
  imports Adu Gateway_Routing Gateway_Queues
begin

text \<open>
  The synchronous gateway (mbus-gateway/src/gateway_sync/services.rs, channel_state.rs,
  upstream_channel.rs, common/downstream_channel.rs and common/event.rs).

  \<^item> The transports belong to other crates; their methods are fields of \<open>gateway_env\<close>, with the error
    converted into \<open>MbusError\<close>, as are the vectors of \<open>heapless\<close>.
  \<^item> The event handler returns nothing to the gateway. Its calls are recorded in \<open>gw_log\<close>, in order,
    together with the requests taken from the receive buffers of the upstreams (\<open>RequestTaken\<close>) and the
    frames handed to a downstream (\<open>FrameForwarded\<close>) or an upstream transport (\<open>FrameReturned\<close>, with
    the session); the code does not have this field.
  \<^item> The callbacks of the optional feature \<open>traffic\<close> are left out.
\<close>

section \<open>State and surroundings\<close>

record Awaiting =
  aw_internal_txn :: u16
  aw_session_idx :: usize
  aw_deadline_ms :: u64
  aw_upstream_txn :: u16
  aw_unit :: UnitIdOrSlaveAddr
  aw_fc :: FunctionCode
  aw_upstream_type :: TransportType

datatype ChannelState = ChannelIdle | AwaitingResponse Awaiting

fun is_idle :: "ChannelState \<Rightarrow> bool" where
  "is_idle ChannelIdle = True"
| "is_idle (AwaitingResponse _) = False"

record 'u UpstreamChannel =
  up_transport :: 'u
  up_rxbuf :: bytes
  up_session_id :: u8

record 'd DownstreamChannel =
  ds_transport :: 'd
  ds_rxbuf :: bytes
  ds_state :: ChannelState

definition upstream_channel_new :: "'u \<Rightarrow> u8 \<Rightarrow> 'u UpstreamChannel" where
  "upstream_channel_new t session_id = \<lparr>up_transport = t, up_rxbuf = [], up_session_id = session_id\<rparr>"

definition downstream_channel_new :: "'d \<Rightarrow> 'd DownstreamChannel" where
  "downstream_channel_new t = \<lparr>ds_transport = t, ds_rxbuf = [], ds_state = ChannelIdle\<rparr>"

datatype GatewayAction =
    on_forward u8 UnitIdOrSlaveAddr usize
  | on_response_returned u8 u16
  | on_routing_miss u8 UnitIdOrSlaveAddr
  | on_downstream_timeout u8 u16
  | on_upstream_disconnect u8
  | on_downstream_busy u8 UnitIdOrSlaveAddr bool
  | RequestTaken usize u16
  | FrameForwarded usize bytes
  | FrameReturned usize bytes

record ('u, 'd) GatewayServices =
  gw_upstreams :: "'u UpstreamChannel list"
  gw_downstreams :: "'d DownstreamChannel list"
  gw_router :: GatewayRoutingPolicy
  gw_txn_map :: TxnMap
  gw_pending :: "GwPendingRequest list"
  gw_response_timeout_ms :: u64
  gw_log :: "GatewayAction list"

record ('u, 'd) gateway_env =
  up_recv :: "'u \<Rightarrow> 'u \<times> (MbusError + bytes)"
  up_send :: "'u \<Rightarrow> bytes \<Rightarrow> 'u \<times> (MbusError + unit)"
  up_transport_type_rt :: "'u \<Rightarrow> TransportType"
  ds_recv :: "'d \<Rightarrow> 'd \<times> (MbusError + bytes)"
  ds_send :: "'d \<Rightarrow> bytes \<Rightarrow> 'd \<times> (MbusError + unit)"
  DS_TRANSPORT_TYPE :: TransportType
  N_UPSTREAM :: usize
  N_DOWNSTREAM :: usize
  TXN_SIZE :: usize
  N_PENDING :: usize
  gw_overflow_checks :: bool
  gw_bytes :: "u8 heapless"
  gw_usizes :: "usize heapless"
  gw_up_vec :: "'u UpstreamChannel heapless"
  gw_ds_vec :: "'d DownstreamChannel heapless"
  gw_txn_vec :: "TxnEntry heapless"
  gw_pend_vec :: "GwPendingRequest heapless"

type_synonym ('u, 'd) gateway = "('u, 'd) GatewayServices"

datatype PollOutcome = OutcomeIdle | OutcomeActive | AllUpstreamsDisconnected

definition log_action :: "GatewayAction \<Rightarrow> ('u, 'd) gateway \<Rightarrow> ('u, 'd) gateway" where
  "log_action a g = g\<lparr>gw_log := gw_log g @ [a]\<rparr>"

definition gateway_new :: "GatewayRoutingPolicy \<Rightarrow> u64 \<Rightarrow> ('u, 'd) gateway" where
  "gateway_new router response_timeout_ms =
     \<lparr>gw_upstreams = [], gw_downstreams = [], gw_router = router, gw_txn_map = txn_map_new,
      gw_pending = [], gw_response_timeout_ms = response_timeout_ms, gw_log = []\<rparr>"

definition add_upstream :: "('u, 'd) gateway_env \<Rightarrow> ('u, 'd) gateway \<Rightarrow> 'u \<Rightarrow> ('u, 'd) gateway result" where
  "add_upstream e g t =
     (let session_id = of_nat (length (gw_upstreams g)) in
      bind_res (push_or (gw_up_vec e) (N_UPSTREAM e) TooManyRequests (gw_upstreams g)
          (upstream_channel_new t session_id)) (\<lambda>ups.
      Ok (g\<lparr>gw_upstreams := ups\<rparr>)))"

definition add_downstream ::
    "('u, 'd) gateway_env \<Rightarrow> ('u, 'd) gateway \<Rightarrow> 'd DownstreamChannel \<Rightarrow> ('u, 'd) gateway result" where
  "add_downstream e g channel =
     bind_res (push_or (gw_ds_vec e) (N_DOWNSTREAM e) TooManyRequests (gw_downstreams g) channel) (\<lambda>dss.
     Ok (g\<lparr>gw_downstreams := dss\<rparr>))"

section \<open>Sending\<close>

text \<open>\<open>iter().find(|up| up.session_id as usize == session_idx)\<close>, as a position.\<close>

definition find_session :: "'u UpstreamChannel list \<Rightarrow> usize \<Rightarrow> usize option" where
  "find_session ups session_idx = find_index (\<lambda>up. unat (up_session_id up) = session_idx) ups"

definition send_up ::
    "('u, 'd) gateway_env \<Rightarrow> ('u, 'd) gateway \<Rightarrow> usize \<Rightarrow> bytes \<Rightarrow> (('u, 'd) gateway \<times> (MbusError + unit)) result" where
  "send_up e g i frame =
     bind_res (idx (gw_upstreams g) i) (\<lambda>up.
     let (t, r) = up_send e (up_transport up) frame in
     Ok (log_action (FrameReturned (unat (up_session_id up)) frame)
           (g\<lparr>gw_upstreams := (gw_upstreams g)[i := up\<lparr>up_transport := t\<rparr>]\<rparr>), r))"

definition send_down ::
    "('u, 'd) gateway_env \<Rightarrow> ('u, 'd) gateway \<Rightarrow> usize \<Rightarrow> bytes \<Rightarrow> (('u, 'd) gateway \<times> (MbusError + unit)) result" where
  "send_down e g i frame =
     bind_res (idx (gw_downstreams g) i) (\<lambda>ds.
     let (t, r) = ds_send e (ds_transport ds) frame in
     Ok (log_action (FrameForwarded i frame)
           (g\<lparr>gw_downstreams := (gw_downstreams g)[i := ds\<lparr>ds_transport := t\<rparr>]\<rparr>), r))"

text \<open>Every caller ignores the error of \<open>send_exception_upstream\<close>, so only the state is returned.\<close>

definition send_exception_upstream ::
    "('u, 'd) gateway_env \<Rightarrow> ('u, 'd) gateway \<Rightarrow> usize option \<Rightarrow> u16 \<Rightarrow> UnitIdOrSlaveAddr \<Rightarrow> FunctionCode \<Rightarrow>
     ExceptionCode \<Rightarrow> TransportType \<Rightarrow> ('u, 'd) gateway result" where
  "send_exception_upstream e g upstream txn_id unit fc exception_code transport_type =
     (case upstream of
        None \<Rightarrow> Ok g
      | Some i \<Rightarrow>
          (case exception_response fc of
             None \<Rightarrow> Ok g
           | Some exception_fc \<Rightarrow>
               (case bind_res (build_byte_payload (gw_bytes e) exception_fc (exception_code_u8 exception_code)) (\<lambda>p.
                       compile_adu_frame (gw_bytes e) txn_id (uid_get unit) p transport_type) of
                  Err _ \<Rightarrow> Ok g
                | Panic \<Rightarrow> Panic
                | Ok adu \<Rightarrow> bind_res (send_up e g i adu) (\<lambda>(g, _). Ok g))))"

text \<open>The exception response for a request that cannot be forwarded.\<close>

definition reject_request ::
    "('u, 'd) gateway_env \<Rightarrow> ('u, 'd) gateway \<Rightarrow> GwPendingRequest \<Rightarrow> ExceptionCode \<Rightarrow> ('u, 'd) gateway result" where
  "reject_request e g req exception_code =
     send_exception_upstream e g (find_session (gw_upstreams g) (pq_session_idx req)) (pq_upstream_txn req)
       (pq_unit req) (pq_fc req) exception_code (pq_upstream_type req)"

text \<open>\<open>let _ = self.txn_map.remove(internal_txn)\<close>\<close>

definition forget_txn ::
    "('u, 'd) gateway_env \<Rightarrow> ('u, 'd) gateway \<Rightarrow> u16 \<Rightarrow> (('u, 'd) gateway \<times> TxnEntry option) result" where
  "forget_txn e g internal_txn =
     bind_res (txn_remove (gw_txn_vec e) (gw_txn_map g) internal_txn) (\<lambda>(m, entry).
       Ok (g\<lparr>gw_txn_map := m\<rparr>, entry))"

definition set_channel_state :: "('u, 'd) gateway \<Rightarrow> usize \<Rightarrow> ChannelState \<Rightarrow> ('u, 'd) gateway result" where
  "set_channel_state g i st =
     bind_res (idx (gw_downstreams g) i) (\<lambda>ds.
       Ok (g\<lparr>gw_downstreams := (gw_downstreams g)[i := ds\<lparr>ds_state := st\<rparr>]\<rparr>))"

section \<open>Forwarding requests\<close>

definition dispatch_to_downstream ::
    "('u, 'd) gateway_env \<Rightarrow> ('u, 'd) gateway \<Rightarrow> usize \<Rightarrow> GwPendingRequest \<Rightarrow> u64 \<Rightarrow> ('u, 'd) gateway result" where
  "dispatch_to_downstream e g channel_idx req now_ms =
     (case txn_allocate (gw_txn_vec e) (TXN_SIZE e) (gw_txn_map g) (pq_upstream_txn req)
             (of_nat (pq_session_idx req)) of
        (m, None) \<Rightarrow> reject_request e (g\<lparr>gw_txn_map := m\<rparr>) req GatewayTargetDeviceFailedToRespond
      | (m, Some internal_txn) \<Rightarrow>
          let g = g\<lparr>gw_txn_map := m\<rparr> in
          (case compile_adu_frame (gw_bytes e) internal_txn (uid_get (pq_downstream_unit req)) (pq_pdu req)
                  (DS_TRANSPORT_TYPE e) of
             Panic \<Rightarrow> Panic
           | Err _ \<Rightarrow> bind_res (forget_txn e g internal_txn) (\<lambda>(g, _). Ok g)
           | Ok downstream_adu \<Rightarrow>
               bind_res (send_down e g channel_idx downstream_adu) (\<lambda>(g, sent).
               case sent of
                 Inl _ \<Rightarrow>
                   bind_res (forget_txn e g internal_txn) (\<lambda>(g, _).
                   reject_request e g req GatewayPathUnavailable)
               | Inr _ \<Rightarrow>
                   bind_res (add_ovf (gw_overflow_checks e) now_ms (gw_response_timeout_ms g)) (\<lambda>deadline_ms.
                   set_channel_state
                     (log_action (on_forward (of_nat (pq_session_idx req)) (pq_unit req) channel_idx) g) channel_idx
                     (AwaitingResponse
                        \<lparr>aw_internal_txn = internal_txn, aw_session_idx = pq_session_idx req,
                         aw_deadline_ms = deadline_ms, aw_upstream_txn = pq_upstream_txn req,
                         aw_unit = pq_unit req, aw_fc = pq_fc req, aw_upstream_type = pq_upstream_type req\<rparr>)))))"

text \<open>The request is queued, or rejected when the queue is full; the code has this twice.\<close>

definition queue_or_reject ::
    "('u, 'd) gateway_env \<Rightarrow> ('u, 'd) gateway \<Rightarrow> GwPendingRequest \<Rightarrow> ('u, 'd) gateway result" where
  "queue_or_reject e g req =
     (let (queued, q) = pending_push (gw_pend_vec e) (N_PENDING e) (gw_pending g) req;
          g = log_action (on_downstream_busy (of_nat (pq_session_idx req)) (pq_unit req) queued) (g\<lparr>gw_pending := q\<rparr>)
      in if queued then Ok g else reject_request e g req GatewayTargetDeviceFailedToRespond)"

definition route_or_queue_request ::
    "('u, 'd) gateway_env \<Rightarrow> ('u, 'd) gateway \<Rightarrow> GwPendingRequest \<Rightarrow> u64 \<Rightarrow> ('u, 'd) gateway result" where
  "route_or_queue_request e g req now_ms =
     (if gw_pending g \<noteq> [] then queue_or_reject e g req
      else
        bind_res (or_panic (rt_route (gw_router g) (pq_unit req))) (\<lambda>channel_idx.
        bind_res (idx (gw_downstreams g) channel_idx) (\<lambda>ds.
        if is_idle (ds_state ds) then dispatch_to_downstream e g channel_idx req now_ms
        else queue_or_reject e g req)))"

text \<open>What the loop of \<open>try_service_pending\<close> does with a request taken from the queue.\<close>

definition service_request ::
    "('u, 'd) gateway_env \<Rightarrow> ('u, 'd) gateway \<Rightarrow> GwPendingRequest \<Rightarrow> u64 \<Rightarrow> ('u, 'd) gateway result" where
  "service_request e g req now_ms =
     (case rt_route (gw_router g) (pq_unit req) of
        None \<Rightarrow> reject_request e g req GatewayPathUnavailable
      | Some channel_idx \<Rightarrow>
          if channel_idx < length (gw_downstreams g) then
            if is_idle (ds_state (gw_downstreams g ! channel_idx))
            then dispatch_to_downstream e g channel_idx req now_ms
            else Ok (g\<lparr>gw_pending := snd (pending_push (gw_pend_vec e) (N_PENDING e) (gw_pending g) req)\<rparr>)
          else reject_request e g req GatewayPathUnavailable)"

text \<open>\<open>limit\<close> goes down in every round of the loop.\<close>

fun service_pending_loop ::
    "('u, 'd) gateway_env \<Rightarrow> u64 \<Rightarrow> nat \<Rightarrow> ('u, 'd) gateway \<Rightarrow> ('u, 'd) gateway result" where
  "service_pending_loop e now_ms 0 g = Ok g"
| "service_pending_loop e now_ms (Suc limit) g =
     (if gw_pending g = [] then Ok g
      else
        bind_res (pending_pop_front (gw_pend_vec e) (gw_pending g)) (\<lambda>(front, q).
        let g = g\<lparr>gw_pending := q\<rparr> in
        bind_res (case front of None \<Rightarrow> Ok g | Some req \<Rightarrow> service_request e g req now_ms)
          (service_pending_loop e now_ms limit)))"

definition try_service_pending ::
    "('u, 'd) gateway_env \<Rightarrow> ('u, 'd) gateway \<Rightarrow> u64 \<Rightarrow> ('u, 'd) gateway result" where
  "try_service_pending e g now_ms = service_pending_loop e now_ms (N_PENDING e) g"

end
