(* ===== verification/Gateway_Poll.thy ===== *)
theory Gateway_Poll
  imports Gateway_Core
begin

text \<open>
  One cycle of the gateway, \<open>GatewayServices::poll\<close>: the downstream channels are looked at first, then
  the upstream channels, then the sessions whose connection was lost are removed.
\<close>

section \<open>Downstream channels\<close>

definition update_down ::
    "usize \<Rightarrow> ('d DownstreamChannel \<Rightarrow> 'd DownstreamChannel) \<Rightarrow> ('u, 'd) gateway \<Rightarrow> ('u, 'd) gateway" where
  "update_down i f g = g\<lparr>gw_downstreams := (gw_downstreams g)[i := f (gw_downstreams g ! i)]\<rparr>"

definition update_up ::
    "usize \<Rightarrow> ('u UpstreamChannel \<Rightarrow> 'u UpstreamChannel) \<Rightarrow> ('u, 'd) gateway \<Rightarrow> ('u, 'd) gateway" where
  "update_up i f g = g\<lparr>gw_upstreams := (gw_upstreams g)[i := f (gw_upstreams g ! i)]\<rparr>"

text \<open>\<open>rxbuf.extend_from_slice(&bytes)\<close>; a buffer that would overflow is cleared.\<close>

definition append_or_clear :: "u8 heapless \<Rightarrow> bytes \<Rightarrow> bytes \<Rightarrow> bytes" where
  "append_or_clear hv rxbuf bs = (case hv_extend hv MAX_ADU_FRAME_LEN rxbuf bs of None \<Rightarrow> [] | Some buf \<Rightarrow> buf)"

text \<open>The new state, and the error that ends the request.\<close>

definition downstream_recv ::
    "('u, 'd) gateway_env \<Rightarrow> ('u, 'd) gateway \<Rightarrow> usize \<Rightarrow> ('u, 'd) gateway \<times> MbusError option" where
  "downstream_recv e g i =
     (case ds_recv e (ds_transport (gw_downstreams g ! i)) of
        (t, Inr bs) \<Rightarrow>
          (update_down i (\<lambda>ds. ds\<lparr>ds_transport := t, ds_rxbuf := append_or_clear (gw_bytes e) (ds_rxbuf ds) bs\<rparr>) g,
           None)
      | (t, Inl err) \<Rightarrow>
          (update_down i (\<lambda>ds. ds\<lparr>ds_transport := t\<rparr>) g, if err = Timeout then None else Some err))"

text \<open>The length of the first frame of a buffer when the whole frame is there.\<close>

definition complete_frame :: "usize heapless \<Rightarrow> bytes \<Rightarrow> TransportType \<Rightarrow> usize option" where
  "complete_frame hc rxbuf tt =
     (case derive_length_from_bytes hc rxbuf tt of
        None \<Rightarrow> None
      | Some expected_len \<Rightarrow> if length rxbuf \<ge> expected_len then Some expected_len else None)"

text \<open>The response goes back to the session of the request.\<close>

definition return_response ::
    "('u, 'd) gateway_env \<Rightarrow> Awaiting \<Rightarrow> ModbusMessage result \<Rightarrow> ('u, 'd) gateway \<times> PollOutcome \<Rightarrow>
     (('u, 'd) gateway \<times> PollOutcome) result" where
  "return_response e aw response_msg_result =
     (\<lambda>(g, outcome).
        bind_res (forget_txn e g (aw_internal_txn aw)) (\<lambda>(g, removed).
        case (response_msg_result, removed) of
          (Ok response_msg, Some entry) \<Rightarrow>
            (case (compile_adu_frame (gw_bytes e) (te_upstream_txn entry) (uid_get (aw_unit aw)) (pdu response_msg)
                     (aw_upstream_type aw),
                   find_session (gw_upstreams g) (aw_session_idx aw)) of
               (Panic, _) \<Rightarrow> Panic
             | (Ok upstream_response_adu, Some up) \<Rightarrow>
                 bind_res (send_up e g up upstream_response_adu) (\<lambda>(g, sent).
                 case sent of
                   Inl _ \<Rightarrow> Ok (g, outcome)
                 | Inr _ \<Rightarrow>
                     Ok (log_action (on_response_returned (te_session_id entry) (te_upstream_txn entry)) g, OutcomeActive))
             | _ \<Rightarrow> Ok (g, outcome))
        | _ \<Rightarrow> Ok (g, outcome)))"

definition complete_request ::
    "('u, 'd) gateway_env \<Rightarrow> u64 \<Rightarrow> usize \<Rightarrow> Awaiting \<Rightarrow> usize \<Rightarrow> ('u, 'd) gateway \<times> PollOutcome \<Rightarrow>
     (('u, 'd) gateway \<times> PollOutcome) result" where
  "complete_request e now_ms i aw expected_len =
     (\<lambda>(g, outcome).
        let rxbuf = ds_rxbuf (gw_downstreams g ! i) in
        bind_res (slice_to rxbuf expected_len) (\<lambda>frame.
        let response_msg_result = decompile_adu_frame (gw_bytes e) frame (DS_TRANSPORT_TYPE e);
            g = update_down i (\<lambda>ds. ds\<lparr>ds_rxbuf := shift_left (gw_bytes e) rxbuf expected_len\<rparr>) g
        in if response_msg_result = Panic then Panic
           else
             bind_res (return_response e aw response_msg_result (g, outcome)) (\<lambda>(g, outcome).
             bind_res (set_channel_state g i ChannelIdle) (\<lambda>g.
             bind_res (try_service_pending e g now_ms) (\<lambda>g. Ok (g, outcome))))))"

definition fail_request ::
    "('u, 'd) gateway_env \<Rightarrow> u64 \<Rightarrow> usize \<Rightarrow> Awaiting \<Rightarrow> ('u, 'd) gateway \<Rightarrow>
     (('u, 'd) gateway \<times> PollOutcome) result" where
  "fail_request e now_ms i aw g =
     (let g = log_action (on_downstream_timeout (of_nat (aw_session_idx aw)) (aw_internal_txn aw)) g in
      bind_res (forget_txn e g (aw_internal_txn aw)) (\<lambda>(g, _).
      bind_res (send_exception_upstream e g (find_session (gw_upstreams g) (aw_session_idx aw)) (aw_upstream_txn aw)
          (aw_unit aw) (aw_fc aw) GatewayPathUnavailable (aw_upstream_type aw)) (\<lambda>g.
      bind_res (set_channel_state (update_down i (\<lambda>ds. ds\<lparr>ds_rxbuf := []\<rparr>) g) i ChannelIdle) (\<lambda>g.
      bind_res (try_service_pending e g now_ms) (\<lambda>g. Ok (g, OutcomeActive))))))"

definition drain_downstream ::
    "('u, 'd) gateway_env \<Rightarrow> u64 \<Rightarrow> usize \<Rightarrow> ('u, 'd) gateway \<times> PollOutcome \<Rightarrow>
     (('u, 'd) gateway \<times> PollOutcome) result" where
  "drain_downstream e now_ms i =
     (\<lambda>(g, outcome).
        bind_res (idx (gw_downstreams g) i) (\<lambda>ds.
        case ds_state ds of
          ChannelIdle \<Rightarrow> Ok (g, outcome)
        | AwaitingResponse aw \<Rightarrow>
            if now_ms \<ge> aw_deadline_ms aw then fail_request e now_ms i aw g
            else
              (case downstream_recv e g i of
                 (g, Some _) \<Rightarrow> fail_request e now_ms i aw g
               | (g, None) \<Rightarrow>
                   (case complete_frame (gw_usizes e) (ds_rxbuf (gw_downstreams g ! i)) (DS_TRANSPORT_TYPE e) of
                      None \<Rightarrow> Ok (g, outcome)
                    | Some expected_len \<Rightarrow> complete_request e now_ms i aw expected_len (g, outcome)))))"

section \<open>Upstream channels\<close>

text \<open>A request from the session of the channel \<open>i\<close>; all branches count as activity.\<close>

definition take_request ::
    "('u, 'd) gateway_env \<Rightarrow> u64 \<Rightarrow> usize \<Rightarrow> usize \<Rightarrow> TransportType \<Rightarrow> ModbusMessage \<Rightarrow> ('u, 'd) gateway \<Rightarrow>
     ('u, 'd) gateway result" where
  "take_request e now_ms i session_idx up_type upstream_msg g =
     (let unit = unit_id_or_slave_addr upstream_msg;
          upstream_txn = message_transaction_id upstream_msg;
          fc = function_code (pdu upstream_msg);
          g = log_action (RequestTaken session_idx upstream_txn) g
      in case rt_route (gw_router g) unit of
           None \<Rightarrow>
             send_exception_upstream e (log_action (on_routing_miss (of_nat session_idx) unit) g) (Some i) upstream_txn
               unit fc GatewayPathUnavailable up_type
         | Some channel_idx \<Rightarrow>
             if channel_idx \<ge> length (gw_downstreams g) then
               send_exception_upstream e g (Some i) upstream_txn unit fc GatewayPathUnavailable up_type
             else
               bind_res (rt_rewrite (gw_router g) unit) (\<lambda>downstream_unit.
               route_or_queue_request e g
                 \<lparr>pq_session_idx = session_idx, pq_upstream_txn = upstream_txn, pq_unit = unit,
                  pq_downstream_unit = downstream_unit, pq_fc = fc, pq_pdu = pdu upstream_msg,
                  pq_upstream_type = up_type\<rparr> now_ms))"

text \<open>One frame is taken from the buffer of the channel \<open>i\<close>; a frame that cannot be decoded is dropped.\<close>

definition take_frame ::
    "('u, 'd) gateway_env \<Rightarrow> u64 \<Rightarrow> usize \<Rightarrow> usize \<Rightarrow> TransportType \<Rightarrow> usize \<Rightarrow> ('u, 'd) gateway \<times> PollOutcome \<Rightarrow>
     (('u, 'd) gateway \<times> PollOutcome) result" where
  "take_frame e now_ms i session_idx up_type expected_len =
     (\<lambda>(g, outcome).
        let rxbuf = up_rxbuf (gw_upstreams g ! i) in
        bind_res (slice_to rxbuf expected_len) (\<lambda>front.
        let raw_frame = (case hv_extend (gw_bytes e) MAX_ADU_FRAME_LEN [] front of None \<Rightarrow> [] | Some f \<Rightarrow> f);
            g = update_up i (\<lambda>up. up\<lparr>up_rxbuf := shift_left (gw_bytes e) rxbuf expected_len\<rparr>) g
        in case decompile_adu_frame (gw_bytes e) raw_frame up_type of
             Panic \<Rightarrow> Panic
           | Err _ \<Rightarrow> Ok (g, outcome)
           | Ok upstream_msg \<Rightarrow>
               bind_res (take_request e now_ms i session_idx up_type upstream_msg g) (\<lambda>g. Ok (g, OutcomeActive))))"

partial_function (option) take_frames ::
    "('u, 'd) gateway_env \<Rightarrow> u64 \<Rightarrow> usize \<Rightarrow> usize \<Rightarrow> TransportType \<Rightarrow> ('u, 'd) gateway \<times> PollOutcome \<Rightarrow>
     (('u, 'd) gateway \<times> PollOutcome) result option" where
  "take_frames e now_ms i session_idx up_type st =
     (case complete_frame (gw_usizes e) (up_rxbuf (gw_upstreams (fst st) ! i)) up_type of
        None \<Rightarrow> Some (Ok st)
      | Some expected_len \<Rightarrow>
          (case take_frame e now_ms i session_idx up_type expected_len st of
             Ok st \<Rightarrow> take_frames e now_ms i session_idx up_type st
           | Err err \<Rightarrow> Some (Err err)
           | Panic \<Rightarrow> Some Panic))"

text \<open>The new state, and whether the connection was lost.\<close>

definition upstream_recv ::
    "('u, 'd) gateway_env \<Rightarrow> ('u, 'd) gateway \<Rightarrow> usize \<Rightarrow> ('u, 'd) gateway \<times> bool" where
  "upstream_recv e g i =
     (case up_recv e (up_transport (gw_upstreams g ! i)) of
        (t, Inr bs) \<Rightarrow>
          (update_up i (\<lambda>up. up\<lparr>up_transport := t, up_rxbuf := append_or_clear (gw_bytes e) (up_rxbuf up) bs\<rparr>) g, False)
      | (t, Inl err) \<Rightarrow>
          (update_up i (\<lambda>up. up\<lparr>up_transport := t\<rparr>) g, err \<in> {ConnectionClosed, ConnectionLost, IoError}))"

definition drain_upstream ::
    "('u, 'd) gateway_env \<Rightarrow> u64 \<Rightarrow> usize \<Rightarrow> ('u, 'd) gateway \<times> PollOutcome \<times> usize list \<Rightarrow>
     (('u, 'd) gateway \<times> PollOutcome \<times> usize list) result option" where
  "drain_upstream e now_ms i =
     (\<lambda>(g, outcome, disconnected).
        if i < length (gw_upstreams g) then
          let session_idx = unat (up_session_id (gw_upstreams g ! i));
              (g, lost) = upstream_recv e g i;
              disconnected =
                (if lost then (case hv_push (gw_usizes e) (N_UPSTREAM e) disconnected session_idx of
                                 None \<Rightarrow> disconnected | Some d \<Rightarrow> d)
                 else disconnected);
              up_type = up_transport_type_rt e (up_transport (gw_upstreams g ! i))
          in map_option (\<lambda>r. bind_res r (\<lambda>(g, outcome). Ok (g, outcome, disconnected)))
               (take_frames e now_ms i session_idx up_type (g, outcome))
        else Some Panic)"

section \<open>Lost sessions\<close>

definition remove_session ::
    "('u, 'd) gateway_env \<Rightarrow> usize \<Rightarrow> ('u, 'd) gateway \<Rightarrow> ('u, 'd) gateway result option" where
  "remove_session e session_idx g =
     (case (case find_session (gw_upstreams g) session_idx of
              None \<Rightarrow> Some (gw_upstreams g)
            | Some pos \<Rightarrow> map_option snd (hv_swap_remove (gw_up_vec e) (gw_upstreams g) pos)) of
        None \<Rightarrow> Some Panic
      | Some ups \<Rightarrow>
          map_option (\<lambda>r. bind_res r (\<lambda>(m, _).
              Ok (log_action (on_upstream_disconnect (of_nat session_idx))
                    (g\<lparr>gw_upstreams := ups, gw_txn_map := m\<rparr>))))
            (txn_remove_by_session (gw_txn_vec e) (gw_txn_map g) (of_nat session_idx)))"

section \<open>The cycle\<close>

definition then_opt :: "('e, 's) res option \<Rightarrow> ('s \<Rightarrow> ('e, 't) res option) \<Rightarrow> ('e, 't) res option" where
  "then_opt r f =
     (case r of
        None \<Rightarrow> None
      | Some (Ok s) \<Rightarrow> f s
      | Some (Err x) \<Rightarrow> Some (Err x)
      | Some Panic \<Rightarrow> Some Panic)"

fun for_each_opt :: "('x \<Rightarrow> 's \<Rightarrow> ('e, 's) res option) \<Rightarrow> 'x list \<Rightarrow> 's \<Rightarrow> ('e, 's) res option" where
  "for_each_opt f [] s = Some (Ok s)"
| "for_each_opt f (x # xs) s = then_opt (f x s) (for_each_opt f xs)"

definition drain_downstreams ::
    "('u, 'd) gateway_env \<Rightarrow> u64 \<Rightarrow> ('u, 'd) gateway \<Rightarrow> (('u, 'd) gateway \<times> PollOutcome) result" where
  "drain_downstreams e now_ms g =
     for_each (drain_downstream e now_ms) [0..<length (gw_downstreams g)] (g, OutcomeIdle)"

definition drain_upstreams ::
    "('u, 'd) gateway_env \<Rightarrow> u64 \<Rightarrow> ('u, 'd) gateway \<times> PollOutcome \<Rightarrow>
     (('u, 'd) gateway \<times> PollOutcome \<times> usize list) result option" where
  "drain_upstreams e now_ms = (\<lambda>(g, outcome).
     for_each_opt (drain_upstream e now_ms) [0..<length (gw_upstreams g)] (g, outcome, []))"

definition gateway_poll ::
    "('u, 'd) gateway_env \<Rightarrow> ('u, 'd) gateway \<Rightarrow> u64 \<Rightarrow> (('u, 'd) gateway \<times> PollOutcome) result option" where
  "gateway_poll e g now_ms =
     then_opt (Some (drain_downstreams e now_ms g)) (\<lambda>st.
     then_opt (drain_upstreams e now_ms st) (\<lambda>(g, outcome, disconnected).
     then_opt (for_each_opt (remove_session e) disconnected g) (\<lambda>g.
     Some (Ok (g,
       if gw_upstreams g = [] \<and> disconnected \<noteq> [] then AllUpstreamsDisconnected
       else if disconnected \<noteq> [] then OutcomeActive else outcome)))))"

end
