(* ===== verification/Gateway_Steps.thy ===== *)
theory Gateway_Steps
  imports Gateway_Poll Receive_Loop
begin

text \<open>
  The invariant of the gateway and the account of its requests: what every operation on the way of a
  request does to the state. \<open>owed\<close> counts the requests of a session that the gateway has not answered yet,
  \<open>taken\<close> those it has taken, \<open>returned\<close> the frames it has sent to the session.
\<close>

section \<open>The invariant\<close>

fun busy :: "ChannelState \<Rightarrow> Awaiting list" where
  "busy ChannelIdle = []"
| "busy (AwaitingResponse aw) = [aw]"

definition states :: "('u, 'd) gateway \<Rightarrow> ChannelState list" where
  "states g = map ds_state (gw_downstreams g)"

definition awaiting_of :: "ChannelState list \<Rightarrow> Awaiting multiset" where
  "awaiting_of sts = mset (concat (map busy sts))"

abbreviation awaiting :: "('u, 'd) gateway \<Rightarrow> Awaiting multiset" where
  "awaiting g \<equiv> awaiting_of (states g)"

definition txn_ids :: "('u, 'd) gateway \<Rightarrow> u16 multiset" where
  "txn_ids g = image_mset te_internal_txn (mset (txn_entries (gw_txn_map g)))"

definition gateway_env_ok :: "('u, 'd) gateway_env \<Rightarrow> bool" where
  "gateway_env_ok e \<longleftrightarrow> heapless_ok (gw_bytes e) \<and> heapless_ok (gw_usizes e) \<and> heapless_ok (gw_up_vec e) \<and>
     heapless_ok (gw_ds_vec e) \<and> heapless_ok (gw_txn_vec e) \<and> heapless_ok (gw_pend_vec e)"

definition request_ok :: "GwPendingRequest \<Rightarrow> bool" where
  "request_ok r \<longleftrightarrow> pq_session_idx r < 256 \<and> pdu_wf (pq_pdu r) \<and> normal_code (pq_fc r)"

definition policy_ok :: "GatewayRoutingPolicy \<Rightarrow> bool" where
  "policy_ok p \<longleftrightarrow> (\<forall>u. \<exists>u'. rt_rewrite p u = Ok u')"

text \<open>
  The vectors are within their capacities, every waiting request can be sent, and every identifier in
  the transaction table belongs to a channel that waits for it.
\<close>

definition gw_ok :: "('u, 'd) gateway_env \<Rightarrow> ('u, 'd) gateway \<Rightarrow> bool" where
  "gw_ok e g \<longleftrightarrow>
     length (gw_upstreams g) \<le> N_UPSTREAM e \<and> length (gw_downstreams g) \<le> N_DOWNSTREAM e \<and>
     length (txn_entries (gw_txn_map g)) \<le> TXN_SIZE e \<and> length (gw_pending g) \<le> N_PENDING e \<and>
     (\<forall>up \<in> set (gw_upstreams g). length (up_rxbuf up) \<le> 513) \<and>
     (\<forall>ds \<in> set (gw_downstreams g). length (ds_rxbuf ds) \<le> 513) \<and>
     (\<forall>r \<in> set (gw_pending g). request_ok r) \<and>
     (\<forall>aw \<in># awaiting g. aw_session_idx aw < 256 \<and> normal_code (aw_fc aw)) \<and>
     txn_ids g \<subseteq># image_mset aw_internal_txn (awaiting g) \<and> policy_ok (gw_router g)"

definition time_ok :: "('u, 'd) gateway_env \<Rightarrow> ('u, 'd) gateway \<Rightarrow> u64 \<Rightarrow> bool" where
  "time_ok e g now_ms \<longleftrightarrow>
     (gw_overflow_checks e \<longrightarrow> unat now_ms + unat (gw_response_timeout_ms g) < 2 ^ 64)"

section \<open>The account\<close>

definition owed :: "('u, 'd) gateway \<Rightarrow> usize \<Rightarrow> nat" where
  "owed g s = count (image_mset aw_session_idx (awaiting g)) s + count_list (map pq_session_idx (gw_pending g)) s"

fun taken_from :: "GatewayAction \<Rightarrow> usize list" where
  "taken_from (RequestTaken s txn) = [s]"
| "taken_from _ = []"

fun returned_to :: "GatewayAction \<Rightarrow> usize list" where
  "returned_to (FrameReturned s f) = [s]"
| "returned_to _ = []"

definition taken :: "('u, 'd) gateway \<Rightarrow> usize \<Rightarrow> nat" where
  "taken g s = count_list (concat (map taken_from (gw_log g))) s"

definition returned :: "('u, 'd) gateway \<Rightarrow> usize \<Rightarrow> nat" where
  "returned g s = count_list (concat (map returned_to (gw_log g))) s"

definition sessions :: "('u, 'd) gateway \<Rightarrow> u8 list" where
  "sessions g = map up_session_id (gw_upstreams g)"

definition rx :: "('u, 'd) gateway \<Rightarrow> bytes list" where
  "rx g = map up_rxbuf (gw_upstreams g)"

text \<open>
  A step of the gateway keeps the invariant and answers no more than it owes or takes; \<open>k\<close> is the
  number of requests of each session that are in the hand of the operation.
\<close>

definition gw_step :: "('u, 'd) gateway_env \<Rightarrow> (usize \<Rightarrow> nat) \<Rightarrow> ('u, 'd) gateway \<Rightarrow> ('u, 'd) gateway \<Rightarrow> bool" where
  "gw_step e k g g' \<longleftrightarrow>
     gw_ok e g' \<and> length (gw_downstreams g') = length (gw_downstreams g) \<and> sessions g' = sessions g \<and>
     gw_router g' = gw_router g \<and> gw_response_timeout_ms g' = gw_response_timeout_ms g \<and>
     (\<forall>s. owed g' s + returned g' s + taken g s \<le> owed g s + returned g s + taken g' s + k s)"

definition forwards :: "('u, 'd) gateway_env \<Rightarrow> (usize \<Rightarrow> nat) \<Rightarrow> ('u, 'd) gateway \<Rightarrow> ('u, 'd) gateway \<Rightarrow> bool" where
  "forwards e k g g' \<longleftrightarrow> gw_step e k g g' \<and> rx g' = rx g"

definition one :: "usize \<Rightarrow> usize \<Rightarrow> nat" where
  "one s t = (if t = s then 1 else 0)"

abbreviation "none \<equiv> \<lambda>_ :: usize. 0 :: nat"

lemma gateway_env_ok_simps [simp]:
  "gateway_env_ok e \<Longrightarrow> heapless_ok (gw_bytes e)" "gateway_env_ok e \<Longrightarrow> heapless_ok (gw_usizes e)"
  "gateway_env_ok e \<Longrightarrow> heapless_ok (gw_up_vec e)" "gateway_env_ok e \<Longrightarrow> heapless_ok (gw_ds_vec e)"
  "gateway_env_ok e \<Longrightarrow> heapless_ok (gw_txn_vec e)" "gateway_env_ok e \<Longrightarrow> heapless_ok (gw_pend_vec e)"
  by (simp_all add: gateway_env_ok_def)

lemma gw_step_refl: "gw_ok e g \<Longrightarrow> gw_step e none g g"
  by (simp add: gw_step_def)

lemma gw_step_trans:
  assumes "gw_step e k g g'" "gw_step e l g' g''"
  shows "gw_step e (\<lambda>s. k s + l s) g g''"
proof -
  have "owed g'' s + returned g'' s + taken g s \<le> owed g s + returned g s + taken g'' s + (k s + l s)" for s
  proof -
    have "owed g' s + returned g' s + taken g s \<le> owed g s + returned g s + taken g' s + k s"
      using assms(1) by (simp add: gw_step_def)
    moreover have "owed g'' s + returned g'' s + taken g' s \<le> owed g' s + returned g' s + taken g'' s + l s"
      using assms(2) by (simp add: gw_step_def)
    ultimately show ?thesis by linarith
  qed
  then show ?thesis using assms by (simp add: gw_step_def)
qed

lemma forwards_trans: "forwards e k g g' \<Longrightarrow> forwards e l g' g'' \<Longrightarrow> forwards e (\<lambda>s. k s + l s) g g''"
  unfolding forwards_def using gw_step_trans by metis

lemma forwards_weaken: "forwards e k g g' \<Longrightarrow> (\<And>s. k s \<le> l s) \<Longrightarrow> forwards e l g g'"
  unfolding forwards_def gw_step_def by (meson add_left_mono le_trans)

lemma forwards_ok: "forwards e k g g' \<Longrightarrow> gw_ok e g'"
  by (simp add: forwards_def gw_step_def)

section \<open>Views of a changed state\<close>

lemma log_action_simps [simp]:
  "gw_upstreams (log_action a g) = gw_upstreams g" "gw_downstreams (log_action a g) = gw_downstreams g"
  "gw_router (log_action a g) = gw_router g" "gw_txn_map (log_action a g) = gw_txn_map g"
  "gw_pending (log_action a g) = gw_pending g" "gw_response_timeout_ms (log_action a g) = gw_response_timeout_ms g"
  "gw_log (log_action a g) = gw_log g @ [a]"
  by (simp_all add: log_action_def)

lemma log_views [simp]:
  "states (log_action a g) = states g" "txn_ids (log_action a g) = txn_ids g" "gw_ok e (log_action a g) = gw_ok e g"
  "owed (log_action a g) s = owed g s" "sessions (log_action a g) = sessions g" "rx (log_action a g) = rx g"
  "taken (log_action a g) s = taken g s + count_list (taken_from a) s"
  "returned (log_action a g) s = returned g s + count_list (returned_to a) s"
  by (simp_all add: states_def txn_ids_def gw_ok_def owed_def sessions_def rx_def taken_def returned_def)

lemma awaiting_of_update:
  assumes "i < length sts"
  shows "awaiting_of (sts[i := st]) + mset (busy (sts ! i)) = awaiting_of sts + mset (busy st)"
proof -
  have sts: "sts = take i sts @ sts ! i # drop (Suc i) sts" by (rule id_take_nth_drop [OF assms])
  have "sts[i := st] = take i sts @ st # drop (Suc i) sts" by (rule upd_conv_take_nth_drop [OF assms])
  moreover have "awaiting_of sts = awaiting_of (take i sts @ sts ! i # drop (Suc i) sts)" using sts by simp
  ultimately show ?thesis by (simp add: awaiting_of_def del: append_take_drop_id)
qed

lemma awaiting_member: "i < length sts \<Longrightarrow> sts ! i = AwaitingResponse aw \<Longrightarrow> aw \<in># awaiting_of sts"
  by (auto simp: awaiting_of_def intro!: bexI [of _ "AwaitingResponse aw"] simp: in_set_conv_nth)

lemma map_update_same: "(i < length xs \<Longrightarrow> f y = f (xs ! i)) \<Longrightarrow> map f (xs[i := y]) = map f xs"
  by (metis list_update_beyond list_update_id map_update not_le)

lemma set_update_all: "\<forall>x \<in> set xs. P x \<Longrightarrow> (i < length xs \<Longrightarrow> P y) \<Longrightarrow> \<forall>x \<in> set (xs[i := y]). P x"
  by (metis in_set_conv_nth length_list_update nth_list_update_eq nth_list_update_neq)

text \<open>A change of a channel that leaves its state and the size of its buffer alone.\<close>

lemma down_views:
  assumes "\<And>ds. ds_state (f ds) = ds_state ds"
  shows "states (update_down i f g) = states g" "txn_ids (update_down i f g) = txn_ids g"
    "owed (update_down i f g) s = owed g s" "sessions (update_down i f g) = sessions g"
    "rx (update_down i f g) = rx g" "taken (update_down i f g) s = taken g s" "returned (update_down i f g) s = returned g s"
  using assms
  by (simp_all add: states_def update_down_def map_update_same txn_ids_def owed_def sessions_def rx_def taken_def returned_def)

lemma update_down_simps [simp]:
  "gw_upstreams (update_down i f g) = gw_upstreams g" "gw_router (update_down i f g) = gw_router g"
  "gw_txn_map (update_down i f g) = gw_txn_map g" "gw_pending (update_down i f g) = gw_pending g"
  "gw_response_timeout_ms (update_down i f g) = gw_response_timeout_ms g" "gw_log (update_down i f g) = gw_log g"
  "length (gw_downstreams (update_down i f g)) = length (gw_downstreams g)"
  "i < length (gw_downstreams g) \<Longrightarrow> gw_downstreams (update_down i f g) ! i = f (gw_downstreams g ! i)"
  by (simp_all add: update_down_def)

lemma update_up_simps [simp]:
  "gw_downstreams (update_up i f g) = gw_downstreams g" "gw_router (update_up i f g) = gw_router g"
  "gw_txn_map (update_up i f g) = gw_txn_map g" "gw_pending (update_up i f g) = gw_pending g"
  "gw_response_timeout_ms (update_up i f g) = gw_response_timeout_ms g" "gw_log (update_up i f g) = gw_log g"
  "length (gw_upstreams (update_up i f g)) = length (gw_upstreams g)"
  "i < length (gw_upstreams g) \<Longrightarrow> gw_upstreams (update_up i f g) ! i = f (gw_upstreams g ! i)"
  by (simp_all add: update_up_def)

lemma up_views:
  assumes "\<And>up. up_session_id (f up) = up_session_id up"
  shows "states (update_up i f g) = states g" "txn_ids (update_up i f g) = txn_ids g"
    "owed (update_up i f g) s = owed g s" "sessions (update_up i f g) = sessions g"
    "taken (update_up i f g) s = taken g s" "returned (update_up i f g) s = returned g s"
  using assms
  by (simp_all add: states_def update_up_def map_update_same txn_ids_def owed_def sessions_def taken_def returned_def)

lemma updated_channels:
  "gw_downstreams (update_down i f g) = (gw_downstreams g)[i := f (gw_downstreams g ! i)]"
  "gw_upstreams (update_up i h g) = (gw_upstreams g)[i := h (gw_upstreams g ! i)]"
  by (simp_all add: update_down_def update_up_def)

lemma update_down_step:
  assumes "gw_ok e g" "\<And>ds. ds_state (f ds) = ds_state ds" "\<And>ds. length (ds_rxbuf ds) \<le> 513 \<Longrightarrow> length (ds_rxbuf (f ds)) \<le> 513"
  shows "forwards e none g (update_down i f g)"
proof -
  have "\<forall>ds \<in> set (gw_downstreams (update_down i f g)). length (ds_rxbuf ds) \<le> 513"
    unfolding updated_channels
    by (rule set_update_all) (use assms(1,3) in \<open>simp_all add: gw_ok_def\<close>)
  then show ?thesis
    using assms(1) by (simp add: forwards_def gw_step_def gw_ok_def down_views [OF assms(2)])
qed

lemma update_up_step:
  assumes "gw_ok e g" "\<And>up. up_session_id (f up) = up_session_id up" "\<And>up. length (up_rxbuf up) \<le> 513 \<Longrightarrow> length (up_rxbuf (f up)) \<le> 513"
  shows "gw_step e none g (update_up i f g)"
proof -
  have "\<forall>up \<in> set (gw_upstreams (update_up i f g)). length (up_rxbuf up) \<le> 513"
    unfolding updated_channels
    by (rule set_update_all) (use assms(1,3) in \<open>simp_all add: gw_ok_def\<close>)
  then show ?thesis
    using assms(1) by (simp add: gw_step_def gw_ok_def up_views [OF assms(2)])
qed

end
