(* ===== verification/Gateway_Forward.thy ===== *)
theory Gateway_Forward
  imports Gateway_Steps
begin

text \<open>
  The operations that forward, queue and reject a request, and the service of the queue. Each keeps
  the invariant and accounts for the request it has in hand.
\<close>

section \<open>Sending\<close>

lemma send_up_eq:
  "i < length (gw_upstreams g) \<Longrightarrow> send_up e g i f =
    Ok (log_action (FrameReturned (unat (up_session_id (gw_upstreams g ! i))) f)
          (update_up i (\<lambda>up. up\<lparr>up_transport := fst (up_send e (up_transport up) f)\<rparr>) g),
        snd (up_send e (up_transport (gw_upstreams g ! i)) f))"
  by (simp add: send_up_def update_up_def case_prod_beta)

lemma send_down_eq:
  "i < length (gw_downstreams g) \<Longrightarrow> send_down e g i f =
    Ok (log_action (FrameForwarded i f)
          (update_down i (\<lambda>ds. ds\<lparr>ds_transport := fst (ds_send e (ds_transport ds) f)\<rparr>) g),
        snd (ds_send e (ds_transport (gw_downstreams g ! i)) f))"
  by (simp add: send_down_def update_down_def case_prod_beta)

lemma set_channel_state_eq:
  "i < length (gw_downstreams g) \<Longrightarrow> set_channel_state g i st = Ok (update_down i (\<lambda>ds. ds\<lparr>ds_state := st\<rparr>) g)"
  by (simp add: set_channel_state_def update_down_def)

lemma states_length [simp]: "length (states g) = length (gw_downstreams g)"
  by (simp add: states_def)

lemma states_nth [simp]: "i < length (gw_downstreams g) \<Longrightarrow> states g ! i = ds_state (gw_downstreams g ! i)"
  by (simp add: states_def)

lemma states_update [simp]: "states (update_down i (\<lambda>ds. ds\<lparr>ds_state := st\<rparr>) g) = (states g)[i := st]"
  by (simp add: states_def update_down_def map_update)

lemma awaiting_set_busy:
  "i < length sts \<Longrightarrow> sts ! i = ChannelIdle \<Longrightarrow> awaiting_of (sts[i := AwaitingResponse aw]) = add_mset aw (awaiting_of sts)"
  using awaiting_of_update [of i sts "AwaitingResponse aw"] by simp

lemma awaiting_set_idle:
  "i < length sts \<Longrightarrow> sts ! i = AwaitingResponse aw \<Longrightarrow> awaiting_of sts = add_mset aw (awaiting_of (sts[i := ChannelIdle]))"
  using awaiting_of_update [of i sts ChannelIdle] by simp

text \<open>An operation on the upstream side.\<close>

definition upstream_only :: "('u, 'd) gateway \<Rightarrow> ('u, 'd) gateway \<Rightarrow> bool" where
  "upstream_only g g' \<longleftrightarrow> gw_downstreams g' = gw_downstreams g \<and> gw_pending g' = gw_pending g \<and>
     gw_txn_map g' = gw_txn_map g"

lemma upstream_only_refl [simp]: "upstream_only g g"
  by (simp add: upstream_only_def)

lemma upstream_only_states: "upstream_only g g' \<Longrightarrow> states g' = states g"
  by (simp add: upstream_only_def states_def)

lemma send_up_ok:
  assumes "gw_ok e g" "i < length (gw_upstreams g)"
  shows "\<exists>g' r. send_up e g i f = Ok (g', r) \<and> forwards e (one (unat (up_session_id (gw_upstreams g ! i)))) g g' \<and>
    upstream_only g g'"
proof -
  let ?f = "\<lambda>up. up\<lparr>up_transport := fst (up_send e (up_transport up) f)\<rparr>"
  have "gw_step e none g (update_up i ?f g)" by (rule update_up_step [OF assms(1)]) simp_all
  moreover have "rx (update_up i ?f g) = rx g" by (simp add: rx_def update_up_def map_update_same)
  ultimately show ?thesis
    using assms(2) by (simp add: send_up_eq upstream_only_def forwards_def gw_step_def one_def)
qed

lemma build_exception_ok:
  assumes "heapless_ok hv" "normal_code fc"
  shows "\<exists>x. exception_response fc = Some x \<and>
    bind_res (build_byte_payload hv x (exception_code_u8 ec)) (\<lambda>p. compile_adu_frame hv txn uid p tt) =
      Ok (adu_frame tt txn uid [function_code_u8 x, exception_code_u8 ec])"
proof -
  obtain x where x: "exception_response fc = Some x" using assms(2) by (auto simp: normal_code_def)
  then show ?thesis
    using build_exception_adu_ok [OF assms(1) x, of txn "UnitIdOrSlaveAddr uid" ec tt] assms(1)
    by (simp add: build_exception_adu_def build_byte_payload_def)
qed

lemma send_exception_ok:
  assumes "gateway_env_ok e" "gw_ok e g" "normal_code fc"
    and "\<And>i. upstream = Some i \<Longrightarrow> i < length (gw_upstreams g) \<and> unat (up_session_id (gw_upstreams g ! i)) = s"
  shows "\<exists>g'. send_exception_upstream e g upstream txn unit fc ec tt = Ok g' \<and> forwards e (one s) g g' \<and>
    upstream_only g g'"
proof (cases upstream)
  case None
  then show ?thesis
    using gw_step_refl [OF assms(2)] forwards_weaken [of e none g g "one s"]
    by (auto simp: send_exception_upstream_def forwards_def)
next
  case (Some i)
  obtain x where "exception_response fc = Some x"
      "bind_res (build_byte_payload (gw_bytes e) x (exception_code_u8 ec))
         (\<lambda>p. compile_adu_frame (gw_bytes e) txn (uid_get unit) p tt) =
       Ok (adu_frame tt txn (uid_get unit) [function_code_u8 x, exception_code_u8 ec])"
    using build_exception_ok [OF gateway_env_ok_simps(1) [OF assms(1)] assms(3)] by blast
  then show ?thesis
    using send_up_ok [OF assms(2), of i "adu_frame tt txn (uid_get unit) [function_code_u8 x, exception_code_u8 ec]"]
      assms(4) [OF Some] Some
    by (auto simp: send_exception_upstream_def)
qed

lemma find_session_Some:
  "find_session (gw_upstreams g) s = Some i \<Longrightarrow>
   i < length (gw_upstreams g) \<and> unat (up_session_id (gw_upstreams g ! i)) = s"
  unfolding find_session_def by (drule find_index_Some) simp

lemma reject_request_ok:
  assumes "gateway_env_ok e" "gw_ok e g" "request_ok req"
  shows "\<exists>g'. reject_request e g req ec = Ok g' \<and> forwards e (one (pq_session_idx req)) g g' \<and> upstream_only g g'"
  unfolding reject_request_def
  by (rule send_exception_ok [OF assms(1,2)]) (use assms(3) find_session_Some in \<open>auto simp: request_ok_def\<close>)

section \<open>Transactions\<close>

lemma forget_txn_ok:
  assumes "gateway_env_ok e" "length (txn_entries (gw_txn_map g)) \<le> TXN_SIZE e"
  obtains (absent) "forget_txn e g i = Ok (g, None)" "i \<notin># txn_ids g"
  | (present) m en where "forget_txn e g i = Ok (g\<lparr>gw_txn_map := m\<rparr>, Some en)" "te_internal_txn en = i"
      "en \<in> set (txn_entries (gw_txn_map g))"
      "txn_ids g = add_mset i (txn_ids (g\<lparr>gw_txn_map := m\<rparr>))" "length (txn_entries m) \<le> TXN_SIZE e"
proof -
  let ?m = "gw_txn_map g"
  have valid: "heapless_ok (gw_txn_vec e) \<and> length (txn_entries ?m) \<le> TXN_SIZE e" using assms by simp
  from valid show ?thesis
  proof (cases rule: static_txns.remove_cases [where i = i])
    case absent
    then show ?thesis using that(1) by (simp add: forget_txn_def txn_ids_def static_txns.ids_def)
  next
    case (present m en)
    from present(4) have "en \<in> set (txn_entries ?m)" by (metis set_mset_mset union_single_eq_member)
    then show ?thesis
      using that(2) [of m en] present by (simp add: forget_txn_def txn_ids_def static_txns.ids_def)
  qed
qed

lemma gw_ok_forget:
  "gw_ok e g \<Longrightarrow> txn_ids g = add_mset i (txn_ids (g\<lparr>gw_txn_map := m\<rparr>)) \<Longrightarrow> length (txn_entries m) \<le> TXN_SIZE e \<Longrightarrow>
   gw_ok e (g\<lparr>gw_txn_map := m\<rparr>)"
  unfolding gw_ok_def by (auto simp: states_def dest: mset_subset_eq_insertD subset_mset.order_trans subset_mset.less_imp_le)

section \<open>Forwarding\<close>

text \<open>Forwarding leaves every channel as it is, or makes an idle channel wait until \<open>d\<close>.\<close>

definition restart :: "u64 \<Rightarrow> ChannelState \<Rightarrow> ChannelState \<Rightarrow> bool" where
  "restart d st st' \<longleftrightarrow> st' = st \<or> st = ChannelIdle \<and> (\<exists>aw. st' = AwaitingResponse aw \<and> aw_deadline_ms aw = d)"

abbreviation restarts :: "u64 \<Rightarrow> ('u, 'd) gateway \<Rightarrow> ('u, 'd) gateway \<Rightarrow> bool" where
  "restarts now g g' \<equiv> list_all2 (restart (now + gw_response_timeout_ms g)) (states g) (states g')"

lemma restarts_refl: "states g' = states g \<Longrightarrow> restarts now g g'"
  by (simp add: list.rel_refl restart_def)

lemma restarts_trans:
  "restarts now g g' \<Longrightarrow> restarts now g' g'' \<Longrightarrow> gw_response_timeout_ms g' = gw_response_timeout_ms g \<Longrightarrow> restarts now g g''"
  by (simp, rule list_all2_trans [of "restart (now + gw_response_timeout_ms g)" "restart (now + gw_response_timeout_ms g)"])
    (auto simp: restart_def)

lemma restarts_set_busy:
  assumes "i < length (states g)" "states g ! i = ChannelIdle" "aw_deadline_ms aw = now + gw_response_timeout_ms g"
    and "states g' = (states g)[i := AwaitingResponse aw]"
  shows "restarts now g g'"
  using assms by (auto simp: list_all2_conv_all_nth nth_list_update restart_def)

lemma restarts_nth: "restarts now g g' \<Longrightarrow> i < length (gw_downstreams g) \<Longrightarrow>
    restart (now + gw_response_timeout_ms g) (states g ! i) (states g' ! i)"
  by (erule list_all2_nthD) simp

text \<open>A state that differs in the channels' transports and the table, which has the same identifiers.\<close>

lemma same_ids_step:
  assumes "gw_ok e g" "states g' = states g" "txn_ids g' = txn_ids g" "length (txn_entries (gw_txn_map g')) \<le> TXN_SIZE e"
    and "gw_upstreams g' = gw_upstreams g" "gw_pending g' = gw_pending g" "gw_router g' = gw_router g"
    "gw_response_timeout_ms g' = gw_response_timeout_ms g" "length (gw_downstreams g') = length (gw_downstreams g)"
    "\<forall>ds \<in> set (gw_downstreams g'). length (ds_rxbuf ds) \<le> 513" "\<And>s. taken g' s = taken g s" "\<And>s. returned g' s = returned g s"
  shows "forwards e none g g'"
  using assms by (simp add: forwards_def gw_step_def gw_ok_def owed_def sessions_def rx_def)

lemma set_busy_step:
  assumes "gw_ok e g" "i < length (gw_downstreams g)" "ds_state (gw_downstreams g ! i) = ChannelIdle"
    and "aw_session_idx aw < 256" "normal_code (aw_fc aw)" "length (txn_entries m) \<le> TXN_SIZE e"
    and "txn_ids (g\<lparr>gw_txn_map := m\<rparr>) = add_mset (aw_internal_txn aw) (txn_ids g)"
  shows "forwards e (one (aw_session_idx aw)) g
    (update_down i (\<lambda>ds. ds\<lparr>ds_state := AwaitingResponse aw\<rparr>) (g\<lparr>gw_txn_map := m\<rparr>))"
proof -
  let ?g = "update_down i (\<lambda>ds. ds\<lparr>ds_state := AwaitingResponse aw\<rparr>) (g\<lparr>gw_txn_map := m\<rparr>)"
  have states: "states (g\<lparr>gw_txn_map := m\<rparr>) = states g" by (simp add: states_def)
  have aw: "awaiting ?g = add_mset aw (awaiting g)" using assms(2,3) by (simp add: awaiting_set_busy states)
  have ids: "txn_ids ?g = add_mset (aw_internal_txn aw) (txn_ids g)"
    using assms(7) by (simp add: txn_ids_def)
  have rxbufs: "\<forall>ds \<in> set (gw_downstreams ?g). length (ds_rxbuf ds) \<le> 513"
    unfolding updated_channels by (rule set_update_all) (use assms(1) in \<open>simp_all add: gw_ok_def\<close>)
  have "txn_ids ?g \<subseteq># image_mset aw_internal_txn (awaiting ?g)"
    unfolding ids aw using assms(1) by (simp add: gw_ok_def)
  moreover have "\<forall>a \<in># awaiting ?g. aw_session_idx a < 256 \<and> normal_code (aw_fc a)"
    unfolding aw using assms(1,4,5) by (simp add: gw_ok_def)
  ultimately have "gw_ok e ?g" using assms(1,6) rxbufs unfolding gw_ok_def by simp
  moreover have "owed ?g s = owed g s + one (aw_session_idx aw) s" for s
    unfolding owed_def aw by (simp add: one_def)
  moreover have "sessions ?g = sessions g" "rx ?g = rx g" "taken ?g = taken g" "returned ?g = returned g"
    by (simp_all add: sessions_def rx_def taken_def returned_def fun_eq_iff)
  ultimately show ?thesis by (simp add: forwards_def gw_step_def)
qed

lemma table_updates:
  "update_down i f (g\<lparr>gw_txn_map := m\<rparr>) = (update_down i f g)\<lparr>gw_txn_map := m\<rparr>"
  "log_action a (g\<lparr>gw_txn_map := m\<rparr>) = (log_action a g)\<lparr>gw_txn_map := m\<rparr>"
  by (cases g; simp add: update_down_def log_action_def)+

lemma states_table [simp]: "states (g\<lparr>gw_txn_map := m\<rparr>) = states g"
  by (simp add: states_def)

lemma dispatch_ok:
  assumes "gateway_env_ok e" "gw_ok e g" "time_ok e g now" "request_ok req" "i < length (gw_downstreams g)"
    and "ds_state (gw_downstreams g ! i) = ChannelIdle"
  shows "\<exists>g'. dispatch_to_downstream e g i req now = Ok g' \<and> forwards e (one (pq_session_idx req)) g g' \<and>
    gw_pending g' = gw_pending g \<and> restarts now g g'"
proof -
  let ?m = "gw_txn_map g" and ?f = "\<lambda>adu ds. ds\<lparr>ds_transport := fst (ds_send e (ds_transport ds) adu)\<rparr>"
  have caps: "length (txn_entries ?m) \<le> TXN_SIZE e" using assms(2) by (simp add: gw_ok_def)
  then have valid: "heapless_ok (gw_txn_vec e) \<and> length (txn_entries ?m) \<le> TXN_SIZE e" using assms(1) by simp
  from valid show ?thesis
  proof (cases rule: static_txns.allocate_cases [where txn = "pq_upstream_txn req" and sid = "of_nat (pq_session_idx req)"])
    case full
    obtain g' where g': "reject_request e g req GatewayTargetDeviceFailedToRespond = Ok g'"
        "forwards e (one (pq_session_idx req)) g g'" "upstream_only g g'"
      using reject_request_ok [OF assms(1,2,4)] by blast
    moreover have "restarts now g g'" by (rule restarts_refl [OF upstream_only_states [OF g'(3)]])
    moreover have "gw_pending g' = gw_pending g" using g'(3) by (simp add: upstream_only_def)
    ultimately show ?thesis using full(1) by (auto simp: dispatch_to_downstream_def)
  next
    case (room m)
    let ?t = "next_internal ?m" and ?g1 = "g\<lparr>gw_txn_map := m\<rparr>"
    let ?adu = "adu_frame (DS_TRANSPORT_TYPE e) ?t (uid_get (pq_downstream_unit req)) (pdu_body (pq_pdu req))"
    let ?g2 = "log_action (FrameForwarded i ?adu) (update_down i (?f ?adu) ?g1)"
    have ids1: "txn_ids ?g1 = add_mset ?t (txn_ids g)" using room(5) by (simp add: txn_ids_def static_txns.ids_def)
    have compiled: "compile_adu_frame (gw_bytes e) ?t (uid_get (pq_downstream_unit req)) (pq_pdu req) (DS_TRANSPORT_TYPE e) = Ok ?adu"
      using compile_adu_frame_ok assms(1,4) by (simp add: request_ok_def)
    have sent: "send_down e ?g1 i ?adu = Ok (?g2, snd (ds_send e (ds_transport (gw_downstreams g ! i)) ?adu))"
      using assms(5) by (simp add: send_down_eq)
    note run = dispatch_to_downstream_def room(1) compiled sent
    have rx2: "\<forall>ds \<in> set (gw_downstreams ?g2). length (ds_rxbuf ds) \<le> 513"
      unfolding log_action_simps updated_channels
      by (rule set_update_all) (use assms(2) in \<open>simp_all add: gw_ok_def\<close>)
    have ids2: "txn_ids ?g2 = add_mset ?t (txn_ids g)" using ids1 by (simp add: txn_ids_def)
    have st2: "states ?g2 = states g" by (simp add: down_views states_def updated_channels map_update_same)
    show ?thesis
    proof (cases "snd (ds_send e (ds_transport (gw_downstreams g ! i)) ?adu)")
      case (Inl err)
      have "length (txn_entries (gw_txn_map ?g2)) \<le> TXN_SIZE e" using room(2) by simp
      from assms(1) this obtain m' en where f: "forget_txn e ?g2 ?t = Ok (?g2\<lparr>gw_txn_map := m'\<rparr>, Some en)"
          "txn_ids ?g2 = add_mset ?t (txn_ids (?g2\<lparr>gw_txn_map := m'\<rparr>))" "length (txn_entries m') \<le> TXN_SIZE e"
        using ids2 by (cases rule: forget_txn_ok [where i = ?t]) auto
      let ?g3 = "?g2\<lparr>gw_txn_map := m'\<rparr>"
      have step: "forwards e none g ?g3"
        using f(2,3) ids2 st2 rx2 by (intro same_ids_step [OF assms(2)]) (auto simp: states_def taken_def returned_def)
      obtain g' where g': "reject_request e ?g3 req GatewayPathUnavailable = Ok g'"
          "forwards e (one (pq_session_idx req)) ?g3 g'" "upstream_only ?g3 g'"
        using reject_request_ok [OF assms(1) forwards_ok [OF step] assms(4)] by blast
      have "states g' = states g" using upstream_only_states [OF g'(3)] st2 by (simp add: states_def)
      then have "restarts now g g'" by (rule restarts_refl)
      moreover have "gw_pending g' = gw_pending g" using g'(3) by (simp add: upstream_only_def)
      ultimately show ?thesis
        using forwards_trans [OF step g'(2)] g'(1) f(1) by (auto simp: run Inl)
    next
      case (Inr u)
      obtain deadline where d: "add_ovf (gw_overflow_checks e) now (gw_response_timeout_ms g) = (Ok deadline :: u64 result)"
          "deadline = now + gw_response_timeout_ms g"
        using assms(3) by (auto simp: add_ovf_def time_ok_def)
      let ?aw = "\<lparr>aw_internal_txn = ?t, aw_session_idx = pq_session_idx req, aw_deadline_ms = deadline,
        aw_upstream_txn = pq_upstream_txn req, aw_unit = pq_unit req, aw_fc = pq_fc req,
        aw_upstream_type = pq_upstream_type req\<rparr>"
      let ?g0 = "log_action (on_forward (of_nat (pq_session_idx req)) (pq_unit req) i)
        (log_action (FrameForwarded i ?adu) (update_down i (?f ?adu) g))"
      have g0: "forwards e none g ?g0"
        using rx2 by (intro same_ids_step [OF assms(2)]) (auto simp: down_views states_def updated_channels map_update_same txn_ids_def taken_def returned_def caps)
      have "forwards e (one (aw_session_idx ?aw)) ?g0
          (update_down i (\<lambda>ds. ds\<lparr>ds_state := AwaitingResponse ?aw\<rparr>) (?g0\<lparr>gw_txn_map := m\<rparr>))"
        by (rule set_busy_step [OF forwards_ok [OF g0]])
          (use assms(4-6) room(2) ids1 in \<open>auto simp: request_ok_def txn_ids_def\<close>)
      note step = forwards_trans [OF g0 this]
      have "states (?g0\<lparr>gw_txn_map := m\<rparr>) = states g"
        by (simp add: down_views)
      then have "restarts now g (update_down i (\<lambda>ds. ds\<lparr>ds_state := AwaitingResponse ?aw\<rparr>) (?g0\<lparr>gw_txn_map := m\<rparr>))"
        using assms(5,6) d(2) by (intro restarts_set_busy [of i g ?aw]) simp_all
      then show ?thesis
        using assms(5) step by (auto simp: run Inr d(1) set_channel_state_eq table_updates)
    qed
  qed
qed

section \<open>Queueing\<close>

definition no_stall :: "('u, 'd) gateway \<Rightarrow> bool" where
  "no_stall g \<longleftrightarrow> (gw_pending g \<noteq> [] \<longrightarrow> awaiting g \<noteq> {#})"

text \<open>A waiting request whose channel is busy.\<close>

definition stuck :: "('u, 'd) gateway \<Rightarrow> GwPendingRequest \<Rightarrow> bool" where
  "stuck g r \<longleftrightarrow> (\<exists>c. rt_route (gw_router g) (pq_unit r) = Some c \<and> c < length (gw_downstreams g) \<and>
     ds_state (gw_downstreams g ! c) \<noteq> ChannelIdle)"

lemma stuck_awaiting: "stuck g r \<Longrightarrow> awaiting g \<noteq> {#}"
proof -
  assume "stuck g r"
  then obtain c where c: "c < length (states g)" "states g ! c \<noteq> ChannelIdle" by (auto simp: stuck_def)
  then obtain aw where "states g ! c = AwaitingResponse aw" by (cases "states g ! c") simp_all
  from awaiting_member [OF c(1) this] show ?thesis by auto
qed

lemma no_stall_if_stuck: "\<forall>r \<in> set (gw_pending g). stuck g r \<Longrightarrow> no_stall g"
  unfolding no_stall_def using stuck_awaiting by (metis list.set_intros(1) neq_Nil_conv)

lemma stuck_mono:
  assumes "stuck g r" "gw_router g' = gw_router g" "restarts now g g'"
  shows "stuck g' r"
proof -
  obtain c where c: "rt_route (gw_router g) (pq_unit r) = Some c" "c < length (gw_downstreams g)" "states g ! c \<noteq> ChannelIdle"
    using assms(1) by (auto simp: stuck_def)
  then have "states g' ! c = states g ! c" using restarts_nth [OF assms(3)] by (auto simp: restart_def)
  moreover have "length (gw_downstreams g') = length (gw_downstreams g)"
    using list_all2_lengthD [OF assms(3)] by simp
  ultimately show ?thesis using c assms(2) by (auto simp: stuck_def)
qed

lemma pending_views [simp]:
  "states (g\<lparr>gw_pending := q\<rparr>) = states g" "txn_ids (g\<lparr>gw_pending := q\<rparr>) = txn_ids g"
  "sessions (g\<lparr>gw_pending := q\<rparr>) = sessions g" "rx (g\<lparr>gw_pending := q\<rparr>) = rx g"
  "taken (g\<lparr>gw_pending := q\<rparr>) s = taken g s" "returned (g\<lparr>gw_pending := q\<rparr>) s = returned g s"
  by (simp_all add: states_def txn_ids_def sessions_def rx_def taken_def returned_def)

lemma pending_update_ok:
  "gw_ok e g \<Longrightarrow> length q \<le> N_PENDING e \<Longrightarrow> \<forall>r \<in> set q. request_ok r \<Longrightarrow> gw_ok e (g\<lparr>gw_pending := q\<rparr>)"
  by (simp add: gw_ok_def)

lemma pending_push_step:
  assumes "gw_ok e g" "request_ok req" "length (gw_pending g) < N_PENDING e"
  shows "forwards e (one (pq_session_idx req)) g (g\<lparr>gw_pending := gw_pending g @ [req]\<rparr>)"
proof -
  have "gw_ok e (g\<lparr>gw_pending := gw_pending g @ [req]\<rparr>)"
    using assms by (intro pending_update_ok) (auto simp: gw_ok_def)
  then show ?thesis by (auto simp: forwards_def gw_step_def owed_def one_def)
qed

lemma queue_or_reject_ok:
  assumes "gateway_env_ok e" "gw_ok e g" "request_ok req"
  shows "\<exists>g'. queue_or_reject e g req = Ok g' \<and> forwards e (one (pq_session_idx req)) g g' \<and> states g' = states g"
proof -
  let ?a = "on_downstream_busy (of_nat (pq_session_idx req)) (pq_unit req)"
  have valid: "heapless_ok (gw_pend_vec e)" using assms(1) by simp
  from valid show ?thesis
  proof (cases rule: pending_queue.push_cases [where n = "N_PENDING e" and q = "gw_pending g" and x = req])
    case (room q)
    let ?g = "g\<lparr>gw_pending := gw_pending g @ [req]\<rparr>"
    have "forwards e (one (pq_session_idx req)) g (log_action (?a True) ?g)"
      using pending_push_step [OF assms(2,3) room(4)] by (simp add: forwards_def gw_step_def)
    then show ?thesis using room by (simp add: queue_or_reject_def)
  next
    case full
    let ?g = "log_action (?a False) g"
    have ok: "gw_ok e ?g" using assms(2) by simp
    have step: "forwards e none g ?g" using gw_step_refl [OF assms(2)] by (simp add: forwards_def gw_step_def)
    obtain g' where g': "reject_request e ?g req GatewayTargetDeviceFailedToRespond = Ok g'"
        "forwards e (one (pq_session_idx req)) ?g g'" "upstream_only ?g g'"
      using reject_request_ok [OF assms(1) ok assms(3)] by blast
    then show ?thesis
      using full(1) forwards_trans [OF step g'(2)] upstream_only_states [OF g'(3)]
      by (auto simp: queue_or_reject_def)
  qed
qed

lemma route_or_queue_ok:
  assumes "gateway_env_ok e" "gw_ok e g" "time_ok e g now" "request_ok req" "no_stall g"
    and "rt_route (gw_router g) (pq_unit req) = Some c" "c < length (gw_downstreams g)"
  shows "\<exists>g'. route_or_queue_request e g req now = Ok g' \<and> forwards e (one (pq_session_idx req)) g g' \<and> no_stall g' \<and>
    restarts now g g'"
proof -
  obtain q where q: "queue_or_reject e g req = Ok q" "forwards e (one (pq_session_idx req)) g q" "states q = states g"
    using queue_or_reject_ok [OF assms(1,2,4)] by blast
  note same = restarts_refl [OF q(3)]
  consider (waiting) "gw_pending g \<noteq> []" | (busy) "gw_pending g = []" "ds_state (gw_downstreams g ! c) \<noteq> ChannelIdle"
    | (idle) "gw_pending g = []" "ds_state (gw_downstreams g ! c) = ChannelIdle" by blast
  then show ?thesis
  proof cases
    case waiting
    then have "no_stall q" using assms(5) q(3) by (simp add: no_stall_def)
    then show ?thesis using waiting q same by (simp add: route_or_queue_request_def)
  next
    case busy
    then have "stuck g req" using assms(6,7) by (simp add: stuck_def)
    then have "no_stall q" using stuck_awaiting q(3) unfolding no_stall_def by metis
    moreover have "\<not> is_idle (ds_state (gw_downstreams g ! c))" using busy(2) by (cases "ds_state (gw_downstreams g ! c)") simp_all
    ultimately show ?thesis using busy q same assms(6,7) by (simp add: route_or_queue_request_def)
  next
    case idle
    then show ?thesis
      using dispatch_ok [OF assms(1-4,7)] assms(6,7) by (auto simp: route_or_queue_request_def no_stall_def)
  qed
qed

section \<open>The service of the queue\<close>

text \<open>A request taken from the front of the queue.\<close>

lemma pending_pop_step:
  assumes "gw_ok e g" "gw_pending g = r # q" "forwards e (one (pq_session_idx r)) (g\<lparr>gw_pending := q\<rparr>) g'"
  shows "forwards e none g g'"
proof -
  have "owed g s = owed (g\<lparr>gw_pending := q\<rparr>) s + one (pq_session_idx r) s" for s
    using assms(2) by (auto simp: owed_def one_def)
  moreover have "owed g' s + returned g' s + taken g s \<le>
      owed (g\<lparr>gw_pending := q\<rparr>) s + returned g s + taken g' s + one (pq_session_idx r) s" for s
    using assms(3) by (simp add: forwards_def gw_step_def)
  ultimately have "owed g' s + returned g' s + taken g s \<le> owed g s + returned g s + taken g' s" for s
    by (simp add: add.assoc add.left_commute add.commute)
  then show ?thesis using assms(3) by (simp add: forwards_def gw_step_def)
qed

text \<open>The queue gets shorter, or nothing happens to the channels.\<close>

definition serviced :: "u64 \<Rightarrow> ('u, 'd) gateway \<Rightarrow> ('u, 'd) gateway \<Rightarrow> bool" where
  "serviced now g g' \<longleftrightarrow> restarts now g g' \<and>
     (length (gw_pending g') < length (gw_pending g) \<or>
      length (gw_pending g') = length (gw_pending g) \<and> states g' = states g)"

lemma serviced_refl: "states g' = states g \<Longrightarrow> gw_pending g' = gw_pending g \<Longrightarrow> serviced now g g'"
  by (simp add: serviced_def restarts_refl)

lemma serviced_trans:
  assumes "serviced now g g'" "serviced now g' g''" "gw_response_timeout_ms g' = gw_response_timeout_ms g"
  shows "serviced now g g''"
proof -
  have "restarts now g g''"
    using restarts_trans [of now g g' g''] assms by (simp add: serviced_def)
  then show ?thesis using assms(1,2) unfolding serviced_def by force
qed

lemma service_one:
  assumes "gateway_env_ok e" "gw_ok e g" "time_ok e g now" "gw_pending g = r # q"
  shows "\<exists>g'. service_request e (g\<lparr>gw_pending := q\<rparr>) r now = Ok g' \<and> forwards e none g g' \<and> serviced now g g' \<and>
    (gw_pending g' = q \<and> \<not> stuck g r \<or> gw_pending g' = q @ [r] \<and> stuck g r)"
proof -
  let ?g = "g\<lparr>gw_pending := q\<rparr>"
  have r: "request_ok r" and q: "length q < N_PENDING e" using assms(2,4) by (simp_all add: gw_ok_def)
  have ok: "gw_ok e ?g" using assms(2,4) by (intro pending_update_ok) (auto simp: gw_ok_def)
  note pop = pending_pop_step [OF assms(2,4)]
  obtain g1 where g1: "reject_request e ?g r GatewayPathUnavailable = Ok g1" "forwards e (one (pq_session_idx r)) ?g g1"
      "upstream_only ?g g1"
    using reject_request_ok [OF assms(1) ok r] by blast
  have rejected: "forwards e none g g1 \<and> serviced now g g1 \<and> gw_pending g1 = q"
    using pop [OF g1(2)] g1(3) restarts_refl [OF upstream_only_states [OF g1(3)]] assms(4)
    by (simp add: upstream_only_def serviced_def)
  consider (miss) "rt_route (gw_router g) (pq_unit r) = None"
    | (outside) c where "rt_route (gw_router g) (pq_unit r) = Some c" "\<not> c < length (gw_downstreams g)"
    | (idle) c where "rt_route (gw_router g) (pq_unit r) = Some c" "c < length (gw_downstreams g)"
        "ds_state (gw_downstreams g ! c) = ChannelIdle"
    | (busy) c where "rt_route (gw_router g) (pq_unit r) = Some c" "c < length (gw_downstreams g)"
        "ds_state (gw_downstreams g ! c) \<noteq> ChannelIdle"
    by (cases "rt_route (gw_router g) (pq_unit r)") auto
  then show ?thesis
  proof cases
    case miss
    then show ?thesis using g1(1) rejected by (auto simp: service_request_def stuck_def)
  next
    case outside
    then show ?thesis using g1(1) rejected by (auto simp: service_request_def stuck_def)
  next
    case (idle c)
    have "time_ok e ?g now" using assms(3) by (simp add: time_ok_def)
    then obtain g2 where g2: "dispatch_to_downstream e ?g c r now = Ok g2"
        "forwards e (one (pq_session_idx r)) ?g g2" "gw_pending g2 = q" "restarts now g g2"
      using dispatch_ok [OF assms(1) ok _ r, of now c] idle by auto
    then show ?thesis using idle pop [OF g2(2)] assms(4) by (auto simp: service_request_def serviced_def stuck_def)
  next
    case (busy c)
    have "forwards e (one (pq_session_idx r)) ?g (?g\<lparr>gw_pending := q @ [r]\<rparr>)"
      using pending_push_step [OF ok r] q by simp
    note step = pop [OF this]
    have push: "pending_push (gw_pend_vec e) (N_PENDING e) q r = (True, q @ [r])"
      using assms(1) q by (simp add: pending_push_def)
    have nidle: "\<not> is_idle (ds_state (gw_downstreams g ! c))" using busy(3) by (cases "ds_state (gw_downstreams g ! c)") simp_all
    have "serviced now g (g\<lparr>gw_pending := q @ [r]\<rparr>)" using assms(4) by (simp add: serviced_def restarts_refl)
    then show ?thesis using busy step push nidle by (auto simp: service_request_def stuck_def)
  qed
qed

lemma service_pending_loop_ok:
  assumes "gateway_env_ok e" "gw_ok e g" "time_ok e g now" "gw_pending g = xs @ ys" "length xs \<le> limit"
    "\<forall>r \<in> set ys. stuck g r"
  shows "\<exists>g'. service_pending_loop e now limit g = Ok g' \<and> forwards e none g g' \<and> serviced now g g' \<and>
    (\<forall>r \<in> set (gw_pending g'). stuck g' r)"
  using assms(2-)
proof (induction limit arbitrary: g xs ys)
  case 0
  then show ?case using gw_step_refl by (auto simp: forwards_def serviced_refl)
next
  case (Suc limit)
  show ?case
  proof (cases "gw_pending g")
    case Nil
    then show ?thesis using Suc.prems(1) gw_step_refl by (auto simp: forwards_def serviced_refl)
  next
    case (Cons r q)
    obtain g1 where g1: "service_request e (g\<lparr>gw_pending := q\<rparr>) r now = Ok g1"
        "forwards e none g g1" "serviced now g g1"
        "gw_pending g1 = q \<and> \<not> stuck g r \<or> gw_pending g1 = q @ [r] \<and> stuck g r"
      using service_one [OF assms(1) Suc.prems(1,2) Cons] by blast
    have run: "service_pending_loop e now (Suc limit) g = service_pending_loop e now limit g1"
      using g1(1) Cons assms(1) by (simp add: pending_pop_front_eq Let_def)
    have same: "gw_router g1 = gw_router g" "gw_response_timeout_ms g1 = gw_response_timeout_ms g" "time_ok e g1 now"
      using g1(2) Suc.prems(2) by (simp_all add: forwards_def gw_step_def time_ok_def)
    have stuck: "stuck g1 x" if "stuck g x" for x
      by (rule stuck_mono [OF that same(1), of now]) (use g1(3) in \<open>simp add: serviced_def\<close>)
    obtain xs' ys' where rest: "gw_pending g1 = xs' @ ys'" "length xs' \<le> limit" "\<forall>x \<in> set ys'. stuck g1 x"
    proof (cases xs)
      case Nil
      then have "\<forall>x \<in> set (gw_pending g1). stuck g1 x" using Suc.prems(3,5) Cons g1(4) stuck by auto
      then show ?thesis using that [of "[]" "gw_pending g1"] by simp
    next
      case (Cons x xs'')
      then have "q = xs'' @ ys" "r = x" using Suc.prems(3) \<open>gw_pending g = r # q\<close> by simp_all
      then show ?thesis
        using g1(4) that [of xs'' ys] that [of xs'' "ys @ [r]"] Suc.prems(4,5) Cons stuck by auto
    qed
    obtain g' where g': "service_pending_loop e now limit g1 = Ok g'" "forwards e none g1 g'" "serviced now g1 g'"
        "\<forall>x \<in> set (gw_pending g'). stuck g' x"
      using Suc.IH [OF forwards_ok [OF g1(2)] same(3) rest] by blast
    then show ?thesis
      using run forwards_trans [OF g1(2) g'(2)] serviced_trans [OF g1(3) g'(3) same(2)] by auto
  qed
qed

lemma try_service_pending_ok:
  assumes "gateway_env_ok e" "gw_ok e g" "time_ok e g now"
  shows "\<exists>g'. try_service_pending e g now = Ok g' \<and> forwards e none g g' \<and> serviced now g g' \<and> no_stall g'"
proof -
  have "gw_pending g = gw_pending g @ [] \<and> length (gw_pending g) \<le> N_PENDING e" using assms(2) by (simp add: gw_ok_def)
  then show ?thesis
    using service_pending_loop_ok [OF assms, of "gw_pending g" "[]"] no_stall_if_stuck
    unfolding try_service_pending_def by fastforce
qed

end
