(* ===== verification/Gateway_Downstream.thy ===== *)
theory Gateway_Downstream
  imports Gateway_Forward
begin

text \<open>
  The downstream half of a cycle: a response, an error or the deadline ends the request of a channel,
  its session is answered at most once, and the queue is serviced.
\<close>

section \<open>The end of a request\<close>

lemma subset_without: "A \<subseteq># add_mset x B \<Longrightarrow> x \<notin># A \<Longrightarrow> A \<subseteq># B"
  unfolding subseteq_mset_def by (metis count_add_mset not_in_iff zero_le)

lemma forget_step:
  assumes "gateway_env_ok e" "gw_ok e g" "aw \<in># awaiting g"
  shows "\<exists>g' en. forget_txn e g (aw_internal_txn aw) = Ok (g', en) \<and> forwards e none g g' \<and>
    gw_downstreams g' = gw_downstreams g \<and> gw_upstreams g' = gw_upstreams g \<and> gw_pending g' = gw_pending g \<and>
    txn_ids g' \<subseteq># image_mset aw_internal_txn (awaiting g - {#aw#})"
proof -
  have caps: "length (txn_entries (gw_txn_map g)) \<le> TXN_SIZE e" using assms(2) by (simp add: gw_ok_def)
  have ids: "txn_ids g \<subseteq># add_mset (aw_internal_txn aw) (image_mset aw_internal_txn (awaiting g - {#aw#}))"
    using assms(2,3) by (simp add: gw_ok_def flip: image_mset_add_mset)
  from assms(1) caps show ?thesis
  proof (cases rule: forget_txn_ok [where i = "aw_internal_txn aw"])
    case absent
    then show ?thesis
      using gw_step_refl [OF assms(2)] subset_without [OF ids absent(2)] by (simp add: forwards_def)
  next
    case (present m en)
    let ?g = "g\<lparr>gw_txn_map := m\<rparr>"
    have "gw_ok e ?g" by (rule gw_ok_forget [OF assms(2) present(4,5)])
    then have "forwards e none g ?g"
      by (simp add: forwards_def gw_step_def owed_def sessions_def rx_def taken_def returned_def)
    then show ?thesis using present(1,4) ids by simp
  qed
qed

text \<open>The answer of a request that is in hand makes its channel idle.\<close>

lemma set_idle_step:
  assumes "forwards e (one (aw_session_idx aw)) g g1" "i < length (gw_downstreams g1)"
    and "ds_state (gw_downstreams g1 ! i) = AwaitingResponse aw"
    and "txn_ids g1 \<subseteq># image_mset aw_internal_txn (awaiting g1 - {#aw#})"
  shows "forwards e none g (update_down i (\<lambda>ds. ds\<lparr>ds_state := ChannelIdle\<rparr>) g1)"
proof -
  let ?g = "update_down i (\<lambda>ds. ds\<lparr>ds_state := ChannelIdle\<rparr>) g1"
  have aw: "awaiting g1 = add_mset aw (awaiting ?g)" using assms(2,3) awaiting_set_idle by simp
  have views: "txn_ids ?g = txn_ids g1" "sessions ?g = sessions g1" "rx ?g = rx g1" "taken ?g s = taken g1 s"
      "returned ?g s = returned g1 s" for s
    by (simp_all add: txn_ids_def sessions_def rx_def taken_def returned_def)
  have ok1: "gw_ok e g1" by (rule forwards_ok [OF assms(1)])
  have "\<forall>ds \<in> set (gw_downstreams ?g). length (ds_rxbuf ds) \<le> 513"
    unfolding updated_channels by (rule set_update_all) (use ok1 in \<open>simp_all add: gw_ok_def\<close>)
  moreover have "\<forall>a \<in># awaiting ?g. aw_session_idx a < 256 \<and> normal_code (aw_fc a)"
    using ok1 unfolding gw_ok_def aw by simp
  moreover have "txn_ids ?g \<subseteq># image_mset aw_internal_txn (awaiting ?g)"
    using assms(4) unfolding views aw by simp
  ultimately have ok: "gw_ok e ?g" using ok1 unfolding gw_ok_def by simp
  have "owed g1 s = owed ?g s + one (aw_session_idx aw) s" for s
    unfolding owed_def aw by (simp add: one_def)
  moreover have "owed g1 s + returned g1 s + taken g s \<le> owed g s + returned g s + taken g1 s + one (aw_session_idx aw) s" for s
    using assms(1) by (simp add: forwards_def gw_step_def)
  ultimately have "owed ?g s + returned ?g s + taken g s \<le> owed g s + returned g s + taken ?g s" for s
    unfolding views by (simp add: add.assoc add.left_commute add.commute)
  then show ?thesis using assms(1) ok views by (simp add: forwards_def gw_step_def)
qed

text \<open>What the end of the request \<open>aw\<close> of the channel \<open>i\<close> does.\<close>

definition ends :: "('u, 'd) gateway_env \<Rightarrow> u64 \<Rightarrow> usize \<Rightarrow> ('u, 'd) gateway \<Rightarrow> ('u, 'd) gateway \<Rightarrow> bool" where
  "ends e now i g g' \<longleftrightarrow> forwards e none g g' \<and> no_stall g' \<and>
     (\<exists>g1. states g1 = (states g)[i := ChannelIdle] \<and> gw_pending g1 = gw_pending g \<and>
        gw_response_timeout_ms g1 = gw_response_timeout_ms g \<and> serviced now g1 g')"

text \<open>Every request ends this way, after \<open>g1\<close>, where the session has been answered at most once.\<close>

lemma end_request:
  assumes "gateway_env_ok e" "time_ok e g now" "i < length (gw_downstreams g)"
    and "ds_state (gw_downstreams g ! i) = AwaitingResponse aw" "forwards e (one (aw_session_idx aw)) g g1"
    and "txn_ids g1 \<subseteq># image_mset aw_internal_txn (awaiting g - {#aw#})" "states g1 = states g" "gw_pending g1 = gw_pending g"
  shows "\<exists>g'. bind_res (set_channel_state g1 i ChannelIdle) (\<lambda>g. bind_res (try_service_pending e g now) (\<lambda>g. Ok (g, o1))) =
    Ok (g', o1) \<and> ends e now i g g'"
proof -
  let ?g2 = "update_down i (\<lambda>ds. ds\<lparr>ds_state := ChannelIdle\<rparr>) g1"
  have len: "i < length (gw_downstreams g1)" using assms(3,5) by (simp add: forwards_def gw_step_def)
  have st: "ds_state (gw_downstreams g1 ! i) = AwaitingResponse aw"
    using assms(3,4,7) len by (metis states_nth)
  have step: "forwards e none g ?g2"
    using set_idle_step [OF assms(5) len st] assms(6,7) by simp
  then have "time_ok e ?g2 now" using assms(2) by (simp add: time_ok_def forwards_def gw_step_def)
  then obtain g' where g': "try_service_pending e ?g2 now = Ok g'" "forwards e none ?g2 g'" "serviced now ?g2 g'" "no_stall g'"
    using try_service_pending_ok [OF assms(1) forwards_ok [OF step]] by blast
  moreover have g2: "states ?g2 = (states g)[i := ChannelIdle]" "gw_pending ?g2 = gw_pending g"
      "gw_response_timeout_ms ?g2 = gw_response_timeout_ms g"
    using assms(7,8) step by (simp_all add: forwards_def gw_step_def)
  ultimately have "ends e now i g g'"
    unfolding ends_def using forwards_trans [OF step g'(2)] by (intro conjI exI [of _ ?g2]) simp_all
  then show ?thesis using g'(1) len by (simp add: set_channel_state_eq)
qed

lemma fail_request_ok:
  assumes "gateway_env_ok e" "gw_ok e g" "time_ok e g now" "i < length (gw_downstreams g)"
    and "ds_state (gw_downstreams g ! i) = AwaitingResponse aw"
  shows "\<exists>g'. fail_request e now i aw g = Ok (g', OutcomeActive) \<and> ends e now i g g'"
proof -
  let ?g0 = "log_action (on_downstream_timeout (of_nat (aw_session_idx aw)) (aw_internal_txn aw)) g"
  have aw: "aw \<in># awaiting g" using assms(4,5) awaiting_member [of i "states g"] by simp
  have ok0: "gw_ok e ?g0" using assms(2) by simp
  have step0: "forwards e none g ?g0" using gw_step_refl [OF assms(2)] by (simp add: forwards_def gw_step_def)
  obtain g1 en where g1: "forget_txn e ?g0 (aw_internal_txn aw) = Ok (g1, en)" "forwards e none ?g0 g1"
      "gw_downstreams g1 = gw_downstreams g" "gw_upstreams g1 = gw_upstreams g" "gw_pending g1 = gw_pending g"
      "txn_ids g1 \<subseteq># image_mset aw_internal_txn (awaiting g - {#aw#})"
    using forget_step [OF assms(1) ok0, of aw] aw by auto
  have fc: "normal_code (aw_fc aw)" using assms(2) aw by (simp add: gw_ok_def)
  obtain g2 where g2: "send_exception_upstream e g1 (find_session (gw_upstreams g1) (aw_session_idx aw))
        (aw_upstream_txn aw) (aw_unit aw) (aw_fc aw) GatewayPathUnavailable (aw_upstream_type aw) = Ok g2"
      "forwards e (one (aw_session_idx aw)) g1 g2" "upstream_only g1 g2"
    using send_exception_ok [OF assms(1) forwards_ok [OF g1(2)] fc, of "find_session (gw_upstreams g1) (aw_session_idx aw)" "aw_session_idx aw"]
      find_session_Some by blast
  let ?g3 = "update_down i (\<lambda>ds. ds\<lparr>ds_rxbuf := []\<rparr>) g2"
  have "forwards e none g2 ?g3" by (rule update_down_step [OF forwards_ok [OF g2(2)]]) simp_all
  from forwards_trans [OF forwards_trans [OF forwards_trans [OF step0 g1(2)] g2(2)] this]
  have step: "forwards e (one (aw_session_idx aw)) g ?g3" by simp
  have "states g2 = states g" using g1(3) g2(3) by (simp add: upstream_only_def states_def)
  then have "states ?g3 = states g" "txn_ids ?g3 = txn_ids g1" "gw_pending ?g3 = gw_pending g"
    using g1(5) g2(3) by (simp_all add: down_views upstream_only_def txn_ids_def)
  then show ?thesis
    using end_request [OF assms(1,3-5) step, of OutcomeActive] g1(1,6) g2(1) by (simp add: fail_request_def)
qed

lemma return_response_ok:
  assumes "gateway_env_ok e" "gw_ok e g" "aw \<in># awaiting g" "resp \<noteq> Panic" "\<And>m. resp = Ok m \<Longrightarrow> pdu_wf (pdu m)"
  shows "\<exists>g' o2. return_response e aw resp (g, o1) = Ok (g', o2) \<and> forwards e (one (aw_session_idx aw)) g g' \<and>
    txn_ids g' \<subseteq># image_mset aw_internal_txn (awaiting g - {#aw#}) \<and> states g' = states g \<and> gw_pending g' = gw_pending g"
proof -
  obtain g1 en where g1: "forget_txn e g (aw_internal_txn aw) = Ok (g1, en)" "forwards e none g g1"
      "gw_downstreams g1 = gw_downstreams g" "gw_upstreams g1 = gw_upstreams g" "gw_pending g1 = gw_pending g"
      "txn_ids g1 \<subseteq># image_mset aw_internal_txn (awaiting g - {#aw#})"
    using forget_step [OF assms(1-3)] by blast
  have none: "forwards e (one (aw_session_idx aw)) g g1" using forwards_weaken [OF g1(2)] by simp
  have st: "states g1 = states g" using g1(3) by (simp add: states_def)
  let ?found = "find_session (gw_upstreams g1) (aw_session_idx aw)"
  show ?thesis
  proof (cases "\<exists>m x i. resp = Ok m \<and> en = Some x \<and> ?found = Some i")
    case True
    then obtain m x i where r: "resp = Ok m" "en = Some x" "?found = Some i" by blast
    let ?f = "adu_frame (aw_upstream_type aw) (te_upstream_txn x) (uid_get (aw_unit aw)) (pdu_body (pdu m))"
    have compiled: "compile_adu_frame (gw_bytes e) (te_upstream_txn x) (uid_get (aw_unit aw)) (pdu m) (aw_upstream_type aw) = Ok ?f"
      using compile_adu_frame_ok assms(1,5) r(1) by simp
    obtain g2 sent where g2: "send_up e g1 i ?f = Ok (g2, sent)" "forwards e (one (aw_session_idx aw)) g1 g2" "upstream_only g1 g2"
      using send_up_ok [OF forwards_ok [OF g1(2)], of i ?f] find_session_Some [OF r(3)] by auto
    have step: "forwards e (one (aw_session_idx aw)) g g2" using forwards_trans [OF g1(2) g2(2)] by simp
    have views: "states g2 = states g" "gw_pending g2 = gw_pending g" "txn_ids g2 = txn_ids g1"
      using g2(3) st g1(5) by (simp_all add: upstream_only_def states_def txn_ids_def)
    have log: "forwards e (one (aw_session_idx aw)) g (log_action (on_response_returned a b) g2)" for a b
      using step by (simp add: forwards_def gw_step_def)
    show ?thesis
      using g1(1,6) r compiled g2(1) step log views
      by (cases sent) (auto simp: return_response_def)
  next
    case False
    have "return_response e aw resp (g, o1) = Ok (g1, o1)"
    proof (cases "\<exists>m x. resp = Ok m \<and> en = Some x")
      case True
      then obtain m x where r: "resp = Ok m" "en = Some x" by blast
      then have "?found = None" using False by auto
      then show ?thesis using g1(1) r assms(1,5) by (simp add: return_response_def compile_adu_frame_ok)
    qed (use g1(1) assms(4) in \<open>auto simp: return_response_def split: res.splits option.splits\<close>)
    then show ?thesis using none g1(5,6) st by auto
  qed
qed

lemma complete_frame_Some:
  "complete_frame hc rxbuf tt = Some n \<Longrightarrow> derive_length_from_bytes hc rxbuf tt = Some n \<and> n \<le> length rxbuf"
  by (auto simp: complete_frame_def split: option.splits if_splits)

lemma complete_request_ok:
  assumes "gateway_env_ok e" "gw_ok e g" "time_ok e g now" "i < length (gw_downstreams g)"
    and "ds_state (gw_downstreams g ! i) = AwaitingResponse aw"
    and "complete_frame (gw_usizes e) (ds_rxbuf (gw_downstreams g ! i)) (DS_TRANSPORT_TYPE e) = Some n"
  shows "\<exists>g' o2. complete_request e now i aw n (g, o1) = Ok (g', o2) \<and> ends e now i g g'"
proof -
  let ?buf = "ds_rxbuf (gw_downstreams g ! i)" and ?f = "\<lambda>rest ds. ds\<lparr>ds_rxbuf := rest\<rparr>"
  let ?resp = "decompile_adu_frame (gw_bytes e) (take n ?buf) (DS_TRANSPORT_TYPE e)"
  have n: "derive_length_from_bytes (gw_usizes e) ?buf (DS_TRANSPORT_TYPE e) = Some n" "n \<le> length ?buf"
    using complete_frame_Some [OF assms(6)] by simp_all
  have np: "?resp \<noteq> Panic" using derived_slice_no_panic [OF _ n] assms(1) by simp
  have wf: "pdu_wf (pdu m)" if "?resp = Ok m" for m using decompile_wf [OF _ that] assms(1) by simp
  have "length ?buf \<le> 513" using assms(2) nth_mem [OF assms(4)] by (simp add: gw_ok_def)
  then have small: "length (drop n ?buf) \<le> 513" by simp
  let ?g0 = "update_down i (?f (drop n ?buf)) g"
  have step0: "forwards e none g ?g0" by (rule update_down_step [OF assms(2)]) (use small in simp_all)
  have aw: "awaiting ?g0 = awaiting g" "aw \<in># awaiting g"
    using assms(4,5) awaiting_member [of i "states g"] by (simp_all add: down_views)
  obtain g1 o2 where g1: "return_response e aw ?resp (?g0, o1) = Ok (g1, o2)" "forwards e (one (aw_session_idx aw)) ?g0 g1"
      "txn_ids g1 \<subseteq># image_mset aw_internal_txn (awaiting g - {#aw#})" "states g1 = states g" "gw_pending g1 = gw_pending g"
    using return_response_ok [OF assms(1) forwards_ok [OF step0] _ np wf, of aw o1] aw by (auto simp: down_views)
  have "forwards e (one (aw_session_idx aw)) g g1" using forwards_trans [OF step0 g1(2)] by simp
  from end_request [OF assms(1,3-5) this g1(3-5), of o2]
  show ?thesis using g1(1) np n(2) assms(1) by (auto simp: complete_request_def Let_def slice_to_def)
qed

section \<open>A channel\<close>

text \<open>A channel that does not wait beyond \<open>now\<close>, unless its deadline is \<open>d\<close>.\<close>

definition fresh :: "u64 \<Rightarrow> u64 \<Rightarrow> ChannelState \<Rightarrow> bool" where
  "fresh d now st \<longleftrightarrow> (\<forall>aw. st = AwaitingResponse aw \<longrightarrow> now < aw_deadline_ms aw \<or> aw_deadline_ms aw = d)"

definition expired :: "u64 \<Rightarrow> ChannelState \<Rightarrow> bool" where
  "expired now st \<longleftrightarrow> (\<forall>aw. st = AwaitingResponse aw \<longrightarrow> aw_deadline_ms aw \<le> now)"

text \<open>What a visit of the channel \<open>i\<close> does to the channels and the queue.\<close>

definition visited :: "u64 \<Rightarrow> usize \<Rightarrow> ('u, 'd) gateway \<Rightarrow> ('u, 'd) gateway \<Rightarrow> bool" where
  "visited now i g g' \<longleftrightarrow>
     (\<forall>c < length (gw_downstreams g). c \<noteq> i \<longrightarrow> restart (now + gw_response_timeout_ms g) (states g ! c) (states g' ! c)) \<and>
     fresh (now + gw_response_timeout_ms g) now (states g' ! i) \<and> length (gw_pending g') \<le> length (gw_pending g) \<and>
     (expired now (states g ! i) \<longrightarrow>
        length (gw_pending g') < length (gw_pending g) \<or> states g' = (states g)[i := ChannelIdle])"

lemma visited_ends:
  assumes "ends e now i g g'" "i < length (gw_downstreams g)"
  shows "visited now i g g'"
proof -
  obtain g1 where g1: "states g1 = (states g)[i := ChannelIdle]" "gw_pending g1 = gw_pending g"
      "gw_response_timeout_ms g1 = gw_response_timeout_ms g" "serviced now g1 g'"
    using assms(1) by (auto simp: ends_def)
  then have "restarts now g1 g'" by (simp add: serviced_def)
  then have r: "restart (now + gw_response_timeout_ms g) ((states g)[i := ChannelIdle] ! c) (states g' ! c)"
    if "c < length (gw_downstreams g)" for c
    using that g1(1,3) by (metis length_list_update list_all2_nthD states_length)
  have "restart (now + gw_response_timeout_ms g) (states g ! c) (states g' ! c)"
    if "c < length (gw_downstreams g)" "c \<noteq> i" for c
    using r [OF that(1)] that by simp
  moreover have "fresh (now + gw_response_timeout_ms g) now (states g' ! i)"
    using r [OF assms(2)] assms(2) by (auto simp: fresh_def restart_def)
  ultimately show ?thesis using g1 by (auto simp: visited_def serviced_def)
qed

lemma visited_alone:
  assumes "states g' = states g" "gw_pending g' = gw_pending g" "now < aw_deadline_ms aw" "states g ! i = AwaitingResponse aw"
  shows "visited now i g g'"
  using assms by (auto simp: visited_def restart_def fresh_def expired_def)

lemma append_or_clear_length:
  "heapless_ok hv \<Longrightarrow> length (append_or_clear hv buf bs) \<le> 513"
  by (simp add: append_or_clear_def split: option.splits)

lemma downstream_recv_ok:
  assumes "gateway_env_ok e" "gw_ok e g" "downstream_recv e g i = (g1, err)"
  shows "forwards e none g g1 \<and> states g1 = states g \<and> gw_pending g1 = gw_pending g"
proof -
  obtain t r where r: "ds_recv e (ds_transport (gw_downstreams g ! i)) = (t, r)" by fastforce
  have "forwards e none g (update_down i (\<lambda>ds. ds\<lparr>ds_transport := t, ds_rxbuf := append_or_clear (gw_bytes e) (ds_rxbuf ds) bs\<rparr>) g)" for bs
    by (rule update_down_step [OF assms(2)]) (use append_or_clear_length assms(1) in simp_all)
  moreover have "forwards e none g (update_down i (\<lambda>ds. ds\<lparr>ds_transport := t\<rparr>) g)"
    by (rule update_down_step [OF assms(2)]) simp_all
  ultimately show ?thesis
    using assms(3) by (cases r) (auto simp: downstream_recv_def r down_views split: if_splits)
qed

lemma drain_downstream_ok:
  assumes "gateway_env_ok e" "gw_ok e g" "time_ok e g now" "no_stall g" "i < length (gw_downstreams g)"
  shows "\<exists>g' o2. drain_downstream e now i (g, o1) = Ok (g', o2) \<and> forwards e none g g' \<and> no_stall g' \<and> visited now i g g'"
proof (cases "ds_state (gw_downstreams g ! i)")
  case ChannelIdle
  then have "visited now i g g"
    using assms(5) by (simp add: visited_def restart_def fresh_def) (metis list_update_id states_nth)
  then show ?thesis
    using ChannelIdle assms(4,5) gw_step_refl [OF assms(2)] by (simp add: drain_downstream_def forwards_def)
next
  case (AwaitingResponse aw)
  have ended: "forwards e none g g' \<and> no_stall g' \<and> visited now i g g'" if "ends e now i g g'" for g'
    using that visited_ends [OF that assms(5)] by (simp add: ends_def)
  show ?thesis
  proof (cases "aw_deadline_ms aw \<le> now")
    case True
    then show ?thesis
      using fail_request_ok [OF assms(1-3,5) AwaitingResponse] ended AwaitingResponse assms(5)
      by (auto simp: drain_downstream_def)
  next
    case False
    obtain g1 err where r: "downstream_recv e g i = (g1, err)" by fastforce
    note r1 = downstream_recv_ok [OF assms(1,2) r]
    have len: "i < length (gw_downstreams g1)" and time: "time_ok e g1 now" and to: "gw_response_timeout_ms g1 = gw_response_timeout_ms g"
      using r1 assms(3,5) by (simp_all add: forwards_def gw_step_def time_ok_def)
    have st: "ds_state (gw_downstreams g1 ! i) = AwaitingResponse aw"
      using r1 AwaitingResponse assms(5) len by (metis states_nth)
    have ended1: "forwards e none g g' \<and> no_stall g' \<and> visited now i g g'" if "ends e now i g1 g'" for g'
    proof -
      have "forwards e none g1 g'" using that by (simp add: ends_def)
      then have "forwards e none g g'" using r1 forwards_trans [of e none g g1 none g'] by simp
      then have "ends e now i g g'" using that r1 to by (auto simp: ends_def)
      then show ?thesis by (rule ended)
    qed
    show ?thesis
    proof (cases "err = None \<and> complete_frame (gw_usizes e) (ds_rxbuf (gw_downstreams g1 ! i)) (DS_TRANSPORT_TYPE e) = None")
      case True
      have "visited now i g g1"
        by (rule visited_alone [where aw = aw]) (use r1 False AwaitingResponse assms(5) in auto)
      moreover have "no_stall g1" using r1 assms(4) by (simp add: no_stall_def)
      ultimately show ?thesis using True r r1 False AwaitingResponse assms(5) by (simp add: drain_downstream_def)
    next
      case ending: False
      show ?thesis
      proof (cases err)
        case None
        then obtain n where n: "complete_frame (gw_usizes e) (ds_rxbuf (gw_downstreams g1 ! i)) (DS_TRANSPORT_TYPE e) = Some n"
          using ending by auto
        from complete_request_ok [OF assms(1) forwards_ok time len st n, of none g o1] r1 obtain g' o2 where
          "complete_request e now i aw n (g1, o1) = Ok (g', o2)" "ends e now i g1 g'" by blast
        then show ?thesis using ended1 n None r False AwaitingResponse assms(5) by (simp add: drain_downstream_def)
      next
        case (Some x)
        from fail_request_ok [OF assms(1) forwards_ok time len st, of none g] r1 obtain g' where
          "fail_request e now i aw g1 = Ok (g', OutcomeActive)" "ends e now i g1 g'" by blast
        then show ?thesis using ended1 Some r False AwaitingResponse assms(5) by (simp add: drain_downstream_def)
      qed
    qed
  qed
qed

section \<open>All channels\<close>

lemma fresh_restart: "fresh d now st \<Longrightarrow> restart d st st' \<Longrightarrow> fresh d now st'"
  by (auto simp: fresh_def restart_def)

lemma restart_trans: "restart d st st' \<Longrightarrow> restart d st' st'' \<Longrightarrow> restart d st st''"
  by (auto simp: restart_def)

text \<open>The state after the first \<open>j\<close> of the channels of \<open>g\<close>.\<close>

definition swept :: "('u, 'd) gateway_env \<Rightarrow> u64 \<Rightarrow> nat \<Rightarrow> ('u, 'd) gateway \<Rightarrow> ('u, 'd) gateway \<Rightarrow> bool" where
  "swept e now j g g' \<longleftrightarrow> forwards e none g g' \<and> no_stall g' \<and> length (gw_pending g') \<le> length (gw_pending g) \<and>
     (\<forall>c < length (gw_downstreams g). if c < j then fresh (now + gw_response_timeout_ms g) now (states g' ! c)
        else restart (now + gw_response_timeout_ms g) (states g ! c) (states g' ! c)) \<and>
     ((\<forall>st \<in> set (states g). expired now st) \<longrightarrow> length (gw_pending g') < length (gw_pending g) \<or>
        (\<forall>c < length (gw_downstreams g). states g' ! c = (if c < j then ChannelIdle else states g ! c)))"

lemma swept_start: "gw_ok e g \<Longrightarrow> no_stall g \<Longrightarrow> swept e now 0 g g"
  using gw_step_refl [of e g] by (simp add: swept_def forwards_def restart_def)

lemma swept_visited:
  assumes "swept e now j g g1" "forwards e none g1 g2" "no_stall g2" "visited now j g1 g2" "j < length (gw_downstreams g)"
  shows "swept e now (Suc j) g g2"
proof -
  let ?d = "now + gw_response_timeout_ms g" and ?n = "length (gw_downstreams g)"
  have same: "gw_response_timeout_ms g1 = gw_response_timeout_ms g" "length (gw_downstreams g1) = ?n"
    using assms(1) by (simp_all add: swept_def forwards_def gw_step_def)
  have v: "restart ?d (states g1 ! c) (states g2 ! c)" if "c < ?n" "c \<noteq> j" for c
    using assms(4) that same by (simp add: visited_def)
  have f: "fresh ?d now (states g2 ! j)" and p: "length (gw_pending g2) \<le> length (gw_pending g1)"
    using assms(4) same by (simp_all add: visited_def)
  have s: "if c < j then fresh ?d now (states g1 ! c) else restart ?d (states g ! c) (states g1 ! c)" if "c < ?n" for c
    using assms(1) that unfolding swept_def by blast
  have channels: "if c < Suc j then fresh ?d now (states g2 ! c) else restart ?d (states g ! c) (states g2 ! c)" if "c < ?n" for c
    using s [OF that] v [OF that] f fresh_restart restart_trans by (cases "c = j") (auto simp: less_Suc_eq split: if_splits)
  have progress: "length (gw_pending g2) < length (gw_pending g) \<or>
      (\<forall>c < ?n. states g2 ! c = (if c < Suc j then ChannelIdle else states g ! c))"
    if e: "\<forall>st \<in> set (states g). expired now st"
  proof (cases "length (gw_pending g1) < length (gw_pending g)")
    case False
    then have st1: "\<forall>c < ?n. states g1 ! c = (if c < j then ChannelIdle else states g ! c)"
      and len: "length (gw_pending g1) = length (gw_pending g)"
      using assms(1) e by (auto simp: swept_def)
    then have "states g1 ! j = states g ! j" using assms(5) by simp
    then have "expired now (states g1 ! j)" using e assms(5) by (metis nth_mem states_length)
    then have "length (gw_pending g2) < length (gw_pending g1) \<or> states g2 = (states g1)[j := ChannelIdle]"
      using assms(4) by (simp add: visited_def)
    then show ?thesis using st1 len same(2) by (auto simp: nth_list_update less_Suc_eq simp del: states_nth)
  qed (use p in simp)
  have "forwards e none g g2" using forwards_trans [of e none g g1 none g2] assms(1,2) by (simp add: swept_def)
  then show ?thesis
    using channels progress assms(1,3) p by (auto simp: swept_def simp del: states_nth)
qed

lemma drain_downstreams_ok:
  fixes g :: "('u, 'd) gateway"
  assumes "gateway_env_ok e" "gw_ok e g" "time_ok e g now" "no_stall g"
  shows "\<exists>g' o2. drain_downstreams e now g = Ok (g', o2) \<and> swept e now (length (gw_downstreams g)) g g'"
proof -
  let ?n = "length (gw_downstreams g)"
  have "\<exists>st. for_each (drain_downstream e now) [0..<?n] (g, OutcomeIdle) = Ok st \<and> swept e now ?n g (fst st)"
  proof (rule for_each_upto [where I = "\<lambda>j st. swept e now j g (fst st)"])
    fix j and st :: "('u, 'd) gateway \<times> PollOutcome"
    assume j: "j < ?n" and "swept e now j g (fst st)"
    moreover obtain g1 o1 where st: "st = (g1, o1)" by fastforce
    ultimately have s: "swept e now j g g1" by simp
    then have "gw_ok e g1" "time_ok e g1 now" "no_stall g1" "j < length (gw_downstreams g1)"
      using j assms(3) by (simp_all add: swept_def forwards_def gw_step_def time_ok_def)
    from drain_downstream_ok [OF assms(1) this, of o1] swept_visited [OF s _ _ _ j]
    show "\<exists>st'. drain_downstream e now j st = Ok st' \<and> swept e now (Suc j) g (fst st')"
      unfolding st by (metis fst_conv)
  qed (simp add: swept_start assms)
  then show ?thesis unfolding drain_downstreams_def by (metis prod.collapse)
qed

end
