(* ===== verification/Gateway_Upstream.thy ===== *)
theory Gateway_Upstream
  imports Gateway_Downstream
begin

text \<open>
  The upstream half of a cycle: every complete frame of every buffer is taken, and every request that
  is taken is forwarded, queued or answered with an exception.
\<close>

section \<open>A request\<close>

definition serves :: "('u, 'd) gateway_env \<Rightarrow> u64 \<Rightarrow> ('u, 'd) gateway \<Rightarrow> ('u, 'd) gateway \<Rightarrow> bool" where
  "serves e now g g' \<longleftrightarrow> gw_step e none g g' \<and> no_stall g' \<and> restarts now g g'"

lemma serves_trans:
  assumes "serves e now g g'" "serves e now g' g''"
  shows "serves e now g g''"
proof -
  have "gw_response_timeout_ms g' = gw_response_timeout_ms g" using assms(1) by (simp add: serves_def gw_step_def)
  then have "restarts now g g''" using assms restarts_trans [of now g g' g''] by (simp add: serves_def)
  then show ?thesis using assms gw_step_trans [of e none g g' none g''] by (simp add: serves_def)
qed

lemma serves_ok:
  "serves e now g g' \<Longrightarrow> gw_ok e g' \<and> no_stall g' \<and> sessions g' = sessions g \<and> time_ok e g' now = time_ok e g now \<and>
    length (gw_upstreams g') = length (gw_upstreams g)"
  unfolding serves_def gw_step_def time_ok_def sessions_def by (metis length_map)

lemma request_in_hand:
  assumes "forwards e (one s) (log_action (RequestTaken s txn) g) g'"
  shows "forwards e none g g'"
proof -
  have "owed g' t + returned g' t + taken g t \<le> owed g t + returned g t + taken g' t" for t
  proof -
    have "taken (log_action (RequestTaken s txn) g) t = taken g t + one s t" by (simp add: one_def)
    moreover have "owed g' t + returned g' t + taken (log_action (RequestTaken s txn) g) t \<le>
        owed g t + returned g t + taken g' t + one s t"
      using assms unfolding forwards_def gw_step_def log_views by simp
    ultimately show ?thesis by simp
  qed
  then show ?thesis using assms by (simp add: forwards_def gw_step_def)
qed

lemma take_request_ok:
  assumes "gateway_env_ok e" "gw_ok e g" "time_ok e g now" "no_stall g" "i < length (gw_upstreams g)"
    and "sid = unat (up_session_id (gw_upstreams g ! i))" "pdu_wf (pdu msg)" "normal_code (function_code (pdu msg))"
  shows "\<exists>g'. take_request e now i sid tt msg g = Ok g' \<and> serves e now g g' \<and> rx g' = rx g"
proof -
  let ?txn = "message_transaction_id msg" and ?unit = "unit_id_or_slave_addr msg"
  let ?g = "log_action (RequestTaken sid ?txn) g"
  let ?miss = "log_action (on_routing_miss (of_nat sid) ?unit) ?g"
  have ok: "gw_ok e ?g" "gw_ok e ?miss" "time_ok e ?g now" "no_stall ?g"
    using assms(2-4) by (simp_all add: time_ok_def no_stall_def)
  have finish: "serves e now g g' \<and> rx g' = rx g" if "forwards e (one sid) ?g g'" "no_stall g'" "restarts now ?g g'" for g'
    using request_in_hand [OF that(1)] that by (simp add: serves_def forwards_def)
  have reject: "\<exists>g'. send_exception_upstream e h (Some i) ?txn ?unit (function_code (pdu msg)) GatewayPathUnavailable tt = Ok g' \<and>
      serves e now g g' \<and> rx g' = rx g" if h: "h = ?g \<or> h = ?miss" for h
  proof -
    have hok: "gw_ok e h" using ok h by auto
    obtain g' where g': "send_exception_upstream e h (Some i) ?txn ?unit (function_code (pdu msg)) GatewayPathUnavailable tt = Ok g'"
        "forwards e (one sid) h g'" "upstream_only h g'"
    proof -
      have "i < length (gw_upstreams h) \<and> unat (up_session_id (gw_upstreams h ! i)) = sid" using h assms(5,6) by auto
      then show thesis using that send_exception_ok [OF assms(1) hok assms(8), of "Some i" sid] by blast
    qed
    have "forwards e (one sid) ?g g'" using h g'(2) by (elim disjE; hypsubst; simp add: forwards_def gw_step_def)
    moreover have "states g' = states g" "gw_pending g' = gw_pending g"
      using g'(3) h by (auto simp: upstream_only_def states_def)
    ultimately show ?thesis
      using finish [of g'] g'(1) assms(4) by (simp add: no_stall_def restarts_refl)
  qed
  show ?thesis
  proof (cases "rt_route (gw_router g) ?unit")
    case None
    then show ?thesis using reject [of ?miss] by (simp add: take_request_def Let_def)
  next
    case (Some c)
    show ?thesis
    proof (cases "c < length (gw_downstreams g)")
      case False
      then show ?thesis using Some reject [of ?g] by (simp add: take_request_def Let_def)
    next
      case True
      obtain u' where u': "rt_rewrite (gw_router g) ?unit = Ok u'"
        using assms(2) unfolding gw_ok_def policy_ok_def by metis
      let ?req = "\<lparr>pq_session_idx = sid, pq_upstream_txn = ?txn, pq_unit = ?unit, pq_downstream_unit = u',
        pq_fc = function_code (pdu msg), pq_pdu = pdu msg, pq_upstream_type = tt\<rparr>"
      have "sid < 256" using assms(6) unsigned_less [of "up_session_id (gw_upstreams g ! i)"] by simp
      then have "request_ok ?req" using assms(7,8) by (simp add: request_ok_def)
      from route_or_queue_ok [OF assms(1) ok(1,3) this ok(4), of c] Some True obtain g' where
        "route_or_queue_request e ?g ?req now = Ok g'" "forwards e (one sid) ?g g'" "no_stall g'" "restarts now ?g g'"
        by auto
      then show ?thesis using finish [of g'] Some True u' by (simp add: take_request_def Let_def)
    qed
  qed
qed

section \<open>A buffer\<close>

lemma rx_nth [simp]: "i < length (gw_upstreams g) \<Longrightarrow> rx g ! i = up_rxbuf (gw_upstreams g ! i)"
  by (simp add: rx_def)

lemma take_frame_ok:
  assumes "gateway_env_ok e" "gw_ok e g" "time_ok e g now" "no_stall g" "i < length (gw_upstreams g)"
    and "sid = unat (up_session_id (gw_upstreams g ! i))" "complete_frame (gw_usizes e) (up_rxbuf (gw_upstreams g ! i)) tt = Some n"
  shows "\<exists>g' o2. take_frame e now i sid tt n (g, o1) = Ok (g', o2) \<and> serves e now g g' \<and>
    length (rx g' ! i) < length (rx g ! i)"
proof -
  let ?buf = "up_rxbuf (gw_upstreams g ! i)"
  let ?g = "update_up i (\<lambda>up. up\<lparr>up_rxbuf := drop n ?buf\<rparr>) g"
  have n: "derive_length_from_bytes (gw_usizes e) ?buf tt = Some n" "n \<le> length ?buf"
    using complete_frame_Some [OF assms(7)] by simp_all
  have pos: "0 < n" using derived_length_pos [OF _ n(1)] assms(1) by simp
  have np: "decompile_adu_frame (gw_bytes e) (take n ?buf) tt \<noteq> Panic"
    using derived_slice_no_panic [OF _ n] assms(1) by simp
  have small: "length ?buf \<le> 513" using assms(2) nth_mem [OF assms(5)] by (simp add: gw_ok_def)
  have step: "gw_step e none g ?g" by (rule update_up_step [OF assms(2)]) (use small in simp_all)
  then have ok: "gw_ok e ?g" by (simp add: gw_step_def)
  have st: "states ?g = states g" by (simp add: up_views)
  then have stall: "no_stall ?g" using assms(4) by (simp add: no_stall_def)
  have served: "serves e now g ?g" using step stall st by (simp add: serves_def restarts_refl)
  have shorter: "length (rx ?g ! i) < length (rx g ! i)" using pos n(2) assms(5) by simp
  have n513: "n \<le> 513" using n(2) small by simp
  have copy: "hv_extend (gw_bytes e) 513 [] (take n ?buf) = Some (take n ?buf)"
    using assms(1) small by simp
  note run = take_frame_def Let_def copy slice_to_def
  show ?thesis
  proof (cases "decompile_adu_frame (gw_bytes e) (take n ?buf) tt")
    case (Ok msg)
    have "sid = unat (up_session_id (gw_upstreams ?g ! i))" using assms(5,6) by simp
    moreover have "pdu_wf (pdu msg)" "normal_code (function_code (pdu msg))"
      using decompile_wf [OF _ Ok] assms(1) by simp_all
    moreover have "time_ok e ?g now" using assms(3) by (simp add: time_ok_def)
    ultimately obtain g' where g': "take_request e now i sid tt msg ?g = Ok g'" "serves e now ?g g'" "rx g' = rx ?g"
      using take_request_ok [OF assms(1) ok _ stall, of now i sid msg tt] assms(5) by auto
    then show ?thesis
      using Ok n(2) n513 assms(1) shorter serves_trans [OF served g'(2)] by (simp add: run del: rx_nth)
  qed (use n(2) n513 assms(1) served shorter np in \<open>simp_all add: run del: rx_nth\<close>)
qed

lemma take_frames_ok:
  assumes "gateway_env_ok e" "gw_ok e g" "time_ok e g now" "no_stall g" "i < length (gw_upstreams g)"
    and "sid = unat (up_session_id (gw_upstreams g ! i))"
  shows "\<exists>g' o2. take_frames e now i sid tt (g, o1) = Some (Ok (g', o2)) \<and> serves e now g g'"
  using assms(2-)
proof (induction "length (rx g ! i)" arbitrary: g o1 rule: less_induct)
  case less
  show ?case
  proof (cases "complete_frame (gw_usizes e) (up_rxbuf (gw_upstreams g ! i)) tt")
    case None
    then show ?thesis
      using gw_step_refl [OF less.prems(1)] less.prems(3)
      by (subst take_frames.simps) (simp add: serves_def restarts_refl)
  next
    case (Some n)
    obtain g1 o2 where g1: "take_frame e now i sid tt n (g, o1) = Ok (g1, o2)" "serves e now g g1"
        "length (rx g1 ! i) < length (rx g ! i)"
      using take_frame_ok [OF assms(1) less.prems Some] by blast
    note ok1 = serves_ok [OF g1(2)]
    have "sid = unat (sessions g1 ! i)" using ok1 less.prems(4,5) by (simp add: sessions_def)
    then have sid: "sid = unat (up_session_id (gw_upstreams g1 ! i))"
      using ok1 less.prems(4) by (simp add: sessions_def)
    obtain g' o3 where "take_frames e now i sid tt (g1, o2) = Some (Ok (g', o3))" "serves e now g1 g'"
      using less.hyps [OF g1(3) _ _ _ _ sid] ok1 less.prems(2,4) by fastforce
    then show ?thesis
      using Some g1(1) serves_trans [OF g1(2)] by (subst take_frames.simps) simp
  qed
qed

section \<open>All upstreams\<close>

lemma upstream_recv_ok:
  assumes "gateway_env_ok e" "gw_ok e g" "no_stall g" "upstream_recv e g i = (g1, lost)"
  shows "serves e now g g1"
proof -
  obtain t r where r: "up_recv e (up_transport (gw_upstreams g ! i)) = (t, r)" by fastforce
  have served: "serves e now g (update_up i f g)"
    if "\<And>up. up_session_id (f up) = up_session_id up" "\<And>up. length (up_rxbuf up) \<le> 513 \<Longrightarrow> length (up_rxbuf (f up)) \<le> 513" for f
  proof -
    have "states (update_up i f g) = states g" by (simp add: up_views that(1))
    then show ?thesis
      using update_up_step [OF assms(2) that] assms(3) by (simp add: serves_def no_stall_def restarts_refl)
  qed
  show ?thesis
    using assms(1,4) by (cases r) (auto simp: upstream_recv_def r intro!: served append_or_clear_length)
qed

lemma drain_upstream_ok:
  assumes "gateway_env_ok e" "gw_ok e g" "time_ok e g now" "no_stall g" "i < length (gw_upstreams g)"
  shows "\<exists>g' o2 d2. drain_upstream e now i (g, o1, d1) = Some (Ok (g', o2, d2)) \<and> serves e now g g'"
proof -
  let ?sid = "unat (up_session_id (gw_upstreams g ! i))"
  obtain g1 lost where r: "upstream_recv e g i = (g1, lost)" by fastforce
  have s1: "serves e now g g1" by (rule upstream_recv_ok [OF assms(1,2,4) r])
  note ok1 = serves_ok [OF s1]
  have "?sid = unat (sessions g1 ! i)" using ok1 assms(5) by (simp add: sessions_def)
  then have sid: "?sid = unat (up_session_id (gw_upstreams g1 ! i))" using ok1 assms(5) by (simp add: sessions_def)
  obtain g' o2 where "take_frames e now i ?sid (up_transport_type_rt e (up_transport (gw_upstreams g1 ! i))) (g1, o1) = Some (Ok (g', o2))"
      "serves e now g1 g'"
    using take_frames_ok [OF assms(1) _ _ _ _ sid] ok1 assms(3,5) by metis
  then show ?thesis
    using r assms(5) serves_trans [OF s1] by (auto simp: drain_upstream_def Let_def)
qed

lemma for_each_opt_upto:
  assumes "I 0 s" "\<And>j s. j < n \<Longrightarrow> I j s \<Longrightarrow> \<exists>s'. f j s = Some (Ok s') \<and> I (Suc j) s'"
  shows "\<exists>s'. for_each_opt f [0..<n] s = Some (Ok s') \<and> I n s'"
proof -
  have "\<exists>s'. for_each_opt f [k..<n] s = Some (Ok s') \<and> I n s'" if "k \<le> n" "I k s" for k
    using that
  proof (induction "n - k" arbitrary: k s)
    case (Suc d)
    then have k: "k < n" by simp
    then obtain s1 where "f k s = Some (Ok s1)" "I (Suc k) s1" using assms(2) [of k s] Suc.prems(2) by auto
    then show ?case using Suc.hyps k by (simp add: upt_rec then_opt_def)
  qed simp
  then show ?thesis using assms(1) by blast
qed

lemma drain_upstreams_ok:
  fixes g :: "('u, 'd) gateway"
  assumes "gateway_env_ok e" "gw_ok e g" "time_ok e g now" "no_stall g"
  shows "\<exists>g' o2 d. drain_upstreams e now (g, o1) = Some (Ok (g', o2, d)) \<and> serves e now g g'"
proof -
  let ?n = "length (gw_upstreams g)"
  have "\<exists>st. for_each_opt (drain_upstream e now) [0..<?n] (g, o1, []) = Some (Ok st) \<and> serves e now g (fst st)"
  proof (rule for_each_opt_upto)
    show "serves e now g (fst (g, o1, []))"
      using gw_step_refl [OF assms(2)] assms(4) by (simp add: serves_def restarts_refl)
    fix j and st :: "('u, 'd) gateway \<times> PollOutcome \<times> usize list"
    assume j: "j < ?n" and "serves e now g (fst st)"
    moreover obtain g1 o1 d1 where st: "st = (g1, o1, d1)" by (metis surj_pair)
    ultimately have s: "serves e now g g1" by simp
    then have "gw_ok e g1" "time_ok e g1 now" "no_stall g1" "j < length (gw_upstreams g1)"
      using serves_ok [OF s] j assms(3) by simp_all
    from drain_upstream_ok [OF assms(1) this, of o1 d1] serves_trans [OF s]
    show "\<exists>st'. drain_upstream e now j st = Some (Ok st') \<and> serves e now g (fst st')"
      unfolding st by (metis fst_conv)
  qed
  then show ?thesis by (auto simp: drain_upstreams_def)
qed

section \<open>Lost sessions\<close>

text \<open>Between the cycles the sessions may change.\<close>

definition gw_keeps :: "('u, 'd) gateway_env \<Rightarrow> ('u, 'd) gateway \<Rightarrow> ('u, 'd) gateway \<Rightarrow> bool" where
  "gw_keeps e g g' \<longleftrightarrow> gw_ok e g' \<and> states g' = states g \<and> gw_pending g' = gw_pending g \<and> gw_router g' = gw_router g \<and>
     gw_response_timeout_ms g' = gw_response_timeout_ms g \<and> gw_downstreams g' = gw_downstreams g \<and>
     (\<forall>s. taken g' s = taken g s \<and> returned g' s = returned g s)"

lemma remove_session_ok:
  assumes "gateway_env_ok e" "gw_ok e g"
  shows "\<exists>g'. remove_session e sid g = Some (Ok g') \<and> gw_keeps e g g'"
proof -
  obtain ups where ups: "(case find_session (gw_upstreams g) sid of
        None \<Rightarrow> Some (gw_upstreams g)
      | Some pos \<Rightarrow> map_option snd (hv_swap_remove (gw_up_vec e) (gw_upstreams g) pos)) = Some ups"
      "set ups \<subseteq> set (gw_upstreams g)" "length ups \<le> length (gw_upstreams g)"
  proof (cases "find_session (gw_upstreams g) sid")
    case (Some i)
    then have "i < length (gw_upstreams g)" using find_session_Some by blast
    then show ?thesis using that Some assms(1) set_swap_removed [of i "gw_upstreams g"] by simp
  qed (use that in simp)
  obtain m k where m: "txn_remove_by_session (gw_txn_vec e) (gw_txn_map g) (of_nat sid) = Some (Ok (m, k))"
      "mset (txn_entries m) = filter_mset (\<lambda>en. te_session_id en \<noteq> of_nat sid) (mset (txn_entries (gw_txn_map g)))"
    using txn_remove_by_session_ok [of "gw_txn_vec e" "gw_txn_map g" "of_nat sid"] assms(1) by auto
  let ?g = "log_action (on_upstream_disconnect (of_nat sid)) (g\<lparr>gw_upstreams := ups, gw_txn_map := m\<rparr>)"
  have "length (txn_entries m) \<le> length (txn_entries (gw_txn_map g))"
    using m(2) size_filter_mset_lesseq [of _ "mset (txn_entries (gw_txn_map g))"] by (metis size_mset)
  moreover have "txn_ids ?g \<subseteq># txn_ids g"
    using m(2) by (simp add: txn_ids_def image_mset_subseteq_mono)
  then have "txn_ids ?g \<subseteq># image_mset aw_internal_txn (awaiting g)"
    using assms(2) unfolding gw_ok_def by (meson subset_mset.order_trans)
  ultimately have "gw_keeps e g ?g"
    using assms(2) ups(2,3)
    by (auto simp: gw_keeps_def gw_ok_def states_def txn_ids_def taken_def returned_def)
  then show ?thesis using ups(1) m(1) by (simp add: remove_session_def)
qed

lemma gw_keeps_trans: "gw_keeps e g g' \<Longrightarrow> gw_keeps e g' g'' \<Longrightarrow> gw_keeps e g g''"
  by (simp add: gw_keeps_def)

lemma remove_sessions_ok:
  assumes "gateway_env_ok e" "gw_ok e g"
  shows "\<exists>g'. for_each_opt (remove_session e) ss g = Some (Ok g') \<and> gw_keeps e g g'"
  using assms(2)
proof (induction ss arbitrary: g)
  case Nil
  then show ?case by (simp add: gw_keeps_def)
next
  case (Cons s ss)
  obtain g1 where g1: "remove_session e s g = Some (Ok g1)" "gw_keeps e g g1"
    using remove_session_ok [OF assms(1) Cons.prems] by blast
  then obtain g' where "for_each_opt (remove_session e) ss g1 = Some (Ok g')" "gw_keeps e g1 g'"
    using Cons.IH [of g1] by (auto simp: gw_keeps_def)
  then show ?case using g1 gw_keeps_trans by (auto simp: then_opt_def)
qed

end
