(* ===== verification/Gateway.thy ===== *)
theory Gateway
  imports Gateway_Upstream
begin

text \<open>
  The gateway over its whole life: the runs of a gateway from its creation, through registrations,
  changes of the routing table and cycles, and what holds of all of them.
\<close>

section \<open>A cycle\<close>

lemma account_gw_keeps: "gw_keeps e g g' \<Longrightarrow> owed g' s = owed g s"
  by (simp add: gw_keeps_def owed_def)

lemma gateway_poll_ok:
  assumes "gateway_env_ok e" "gw_ok e g" "time_ok e g now" "no_stall g"
  shows "\<exists>g' out. gateway_poll e g now = Some (Ok (g', out)) \<and> gw_ok e g' \<and> no_stall g' \<and>
    (\<forall>s. owed g' s + returned g' s + taken g s \<le> owed g s + returned g s + taken g' s) \<and>
    (\<forall>st \<in> set (states g'). fresh (now + gw_response_timeout_ms g) now st)"
proof -
  obtain g1 o1 where g1: "drain_downstreams e now g = Ok (g1, o1)" "swept e now (length (gw_downstreams g)) g g1"
    using drain_downstreams_ok [OF assms] by blast
  then have s1: "gw_step e none g g1" "no_stall g1" "gw_ok e g1" "time_ok e g1 now"
      and to: "gw_response_timeout_ms g1 = gw_response_timeout_ms g" "length (gw_downstreams g1) = length (gw_downstreams g)"
    using assms(3) by (simp_all add: swept_def forwards_def gw_step_def time_ok_def)
  have f1: "fresh (now + gw_response_timeout_ms g) now (states g1 ! c)" if "c < length (gw_downstreams g1)" for c
    using g1(2) that to(2) by (simp add: swept_def del: states_nth)
  obtain g2 o2 d where g2: "drain_upstreams e now (g1, o1) = Some (Ok (g2, o2, d))" "serves e now g1 g2"
    using drain_upstreams_ok [OF assms(1) s1(3,4,2)] by blast
  then have s2: "gw_step e none g1 g2" "no_stall g2" "gw_ok e g2" "restarts now g1 g2"
    by (simp_all add: serves_def gw_step_def)
  obtain g3 where g3: "for_each_opt (remove_session e) d g2 = Some (Ok g3)" "gw_keeps e g2 g3"
    using remove_sessions_ok [OF assms(1) s2(3)] by blast
  have "owed g3 s + returned g3 s + taken g s \<le> owed g s + returned g s + taken g3 s" for s
    using gw_step_trans [OF s1(1) s2(1)] g3(2) account_gw_keeps [OF g3(2)] by (simp add: gw_step_def gw_keeps_def)
  moreover have "fresh (now + gw_response_timeout_ms g) now st" if "st \<in> set (states g3)" for st
  proof -
    from that obtain c where c: "c < length (states g3)" "st = states g3 ! c" by (metis in_set_conv_nth)
    have len: "c < length (gw_downstreams g1)" and st: "st = states g2 ! c"
      using c g3(2) list_all2_lengthD [OF s2(4)] by (simp_all add: gw_keeps_def del: states_nth)
    show ?thesis
      unfolding st by (rule fresh_restart [OF f1 [OF len]]) (use restarts_nth [OF s2(4) len] to(1) in simp)
  qed
  moreover have "no_stall g3" using g3(2) s2(2) by (simp add: gw_keeps_def no_stall_def)
  ultimately show ?thesis
    using g1(1) g2(1) g3 by (auto simp: gateway_poll_def then_opt_def gw_keeps_def)
qed

section \<open>Runs\<close>

inductive gateway_run :: "('u, 'd) gateway_env \<Rightarrow> ('u, 'd) gateway \<Rightarrow> bool" for e where
  run_new: "policy_ok p \<Longrightarrow> gateway_run e (gateway_new p timeout)"
| run_upstream: "gateway_run e g \<Longrightarrow> add_upstream e g t = Ok g' \<Longrightarrow> gateway_run e g'"
| run_downstream: "gateway_run e g \<Longrightarrow> add_downstream e g (downstream_channel_new t) = Ok g' \<Longrightarrow> gateway_run e g'"
| run_router: "gateway_run e g \<Longrightarrow> policy_ok p \<Longrightarrow> gateway_run e (g\<lparr>gw_router := p\<rparr>)"
| run_poll: "gateway_run e g \<Longrightarrow> time_ok e g now \<Longrightarrow> gateway_poll e g now = Some (Ok (g', out)) \<Longrightarrow> gateway_run e g'"

inductive_cases gateway_runE: "gateway_run e g"

lemma add_upstream_ok:
  assumes "gateway_env_ok e" "gw_ok e g" "add_upstream e g t = Ok g'"
  shows "gw_ok e g' \<and> states g' = states g \<and> gw_pending g' = gw_pending g \<and> gw_log g' = gw_log g \<and>
    sessions g' = sessions g @ [of_nat (length (sessions g))]"
  using assms
  by (auto simp: add_upstream_def upstream_channel_new_def gw_ok_def states_def txn_ids_def sessions_def Let_def
      split: if_splits)

lemma add_downstream_ok:
  assumes "gateway_env_ok e" "gw_ok e g" "add_downstream e g (downstream_channel_new t) = Ok g'"
  shows "gw_ok e g' \<and> awaiting g' = awaiting g \<and> gw_pending g' = gw_pending g \<and> gw_log g' = gw_log g"
  using assms
  by (auto simp: add_downstream_def downstream_channel_new_def gw_ok_def states_def awaiting_of_def txn_ids_def
      split: if_splits)

lemma gateway_run_inv:
  assumes "gateway_env_ok e" "gateway_run e g"
  shows "gw_ok e g \<and> no_stall g \<and> (\<forall>s. owed g s + returned g s \<le> taken g s)"
  using assms(2)
proof induction
  case (run_new p timeout)
  then show ?case
    by (simp add: gateway_new_def gw_ok_def states_def awaiting_of_def txn_ids_def txn_map_new_def no_stall_def
        owed_def returned_def taken_def)
next
  case (run_upstream g t g')
  then show ?case
    using add_upstream_ok [OF assms(1) conjunct1 [OF run_upstream.IH] run_upstream.hyps(2)] by (simp add: no_stall_def owed_def returned_def taken_def)
next
  case (run_downstream g t g')
  then show ?case
    using add_downstream_ok [OF assms(1) conjunct1 [OF run_downstream.IH] run_downstream.hyps(2)] by (simp add: no_stall_def owed_def returned_def taken_def)
next
  case (run_router g p)
  have "states (g\<lparr>gw_router := p\<rparr>) = states g" "txn_ids (g\<lparr>gw_router := p\<rparr>) = txn_ids g"
    by (simp_all add: states_def txn_ids_def)
  then show ?case using run_router by (simp add: gw_ok_def no_stall_def owed_def returned_def taken_def)
next
  case (run_poll g now g' out)
  then obtain g'' out' where poll: "gateway_poll e g now = Some (Ok (g'', out'))" "gw_ok e g''" "no_stall g''"
      "\<forall>s. owed g'' s + returned g'' s + taken g s \<le> owed g s + returned g s + taken g'' s"
    using gateway_poll_ok [OF assms(1)] by blast
  then have "g'' = g'" using run_poll.hyps by simp
  moreover have "owed g'' s + returned g'' s \<le> taken g'' s" for s
  proof -
    have "owed g s + returned g s \<le> taken g s" using run_poll.IH by simp
    then show ?thesis using poll(4) [rule_format, of s] by linarith
  qed
  ultimately show ?case using poll by simp
qed

section \<open>A gateway on scripted transports\<close>

text \<open>A transport that delivers a list of chunks, of which the empty one is the end of the connection.\<close>

fun scripted_recv :: "bytes list \<Rightarrow> bytes list \<times> (MbusError + bytes)" where
  "scripted_recv [] = ([], Inl Timeout)"
| "scripted_recv ([] # bs) = (bs, Inl ConnectionClosed)"
| "scripted_recv (b # bs) = (bs, Inr b)"

definition scripted_env :: "(bytes list, bytes list) gateway_env" where
  "scripted_env =
     \<lparr>up_recv = scripted_recv, up_send = (\<lambda>t f. (t, Inr ())), up_transport_type_rt = (\<lambda>_. StdTcp),
      ds_recv = scripted_recv, ds_send = (\<lambda>t f. (t, Inr ())), DS_TRANSPORT_TYPE = StdSerial Rtu,
      N_UPSTREAM = 2, N_DOWNSTREAM = 2, TXN_SIZE = 2, N_PENDING = 2, gw_overflow_checks = True,
      gw_bytes = bounded_vec, gw_usizes = bounded_vec, gw_up_vec = bounded_vec, gw_ds_vec = bounded_vec,
      gw_txn_vec = bounded_vec, gw_pend_vec = bounded_vec\<rparr>"

text \<open>One session whose first frame is a read request, and one channel whose device answers it.\<close>

definition scripted_gateway :: "(bytes list, bytes list) gateway" where
  "scripted_gateway = (gateway_new passthrough_router 1000)
     \<lparr>gw_upstreams := [upstream_channel_new [tcp_frame 5 17 [3, 0, 0, 0, 2]] 0],
      gw_downstreams := [downstream_channel_new [rtu_frame 17 [3, 4, 0, 7, 0, 8]]]\<rparr>"

lemma scripted_env_ok [simp]: "gateway_env_ok scripted_env"
  by (simp add: gateway_env_ok_def scripted_env_def)

lemma passthrough_ok [simp]: "policy_ok passthrough_router"
  by (simp add: policy_ok_def passthrough_router_def)

lemma scripted_run: "gateway_run scripted_env scripted_gateway"
proof -
  let ?g0 = "gateway_new passthrough_router 1000 :: (bytes list, bytes list) gateway"
  let ?g1 = "?g0\<lparr>gw_upstreams := [upstream_channel_new [tcp_frame 5 17 [3, 0, 0, 0, 2]] 0]\<rparr>"
  have "gateway_run scripted_env ?g0" by (rule run_new) simp
  moreover have "add_upstream scripted_env ?g0 [tcp_frame 5 17 [3, 0, 0, 0, 2]] = Ok ?g1"
    by (simp add: add_upstream_def scripted_env_def gateway_new_def)
  ultimately have "gateway_run scripted_env ?g1" by (rule run_upstream)
  moreover have "add_downstream scripted_env ?g1 (downstream_channel_new [rtu_frame 17 [3, 4, 0, 7, 0, 8]]) = Ok scripted_gateway"
    by (simp add: add_downstream_def scripted_env_def gateway_new_def scripted_gateway_def)
  ultimately show ?thesis by (rule run_downstream)
qed

lemma scripted_time: "time_ok scripted_env scripted_gateway 5"
  by (simp add: time_ok_def scripted_gateway_def gateway_new_def)

section \<open>Properties of the runs\<close>



text \<open>
  C36: The state of a gateway is well formed in every run: no vector exceeds its capacity and no buffer the
  longest frame, every waiting request has a session number of a byte and a PDU that can be
  encoded, every channel that waits has a function code that has an exception code, and every entry
  of the transaction table belongs to a channel that waits for it.
\<close>

theorem gateway_well_formed:
  assumes "gateway_env_ok e" "gateway_run e g"
  shows "length (gw_upstreams g) \<le> N_UPSTREAM e \<and> length (gw_downstreams g) \<le> N_DOWNSTREAM e \<and>
    length (txn_entries (gw_txn_map g)) \<le> TXN_SIZE e \<and> length (gw_pending g) \<le> N_PENDING e \<and>
    (\<forall>up \<in> set (gw_upstreams g). length (up_rxbuf up) \<le> MAX_ADU_FRAME_LEN) \<and>
    (\<forall>ds \<in> set (gw_downstreams g). length (ds_rxbuf ds) \<le> MAX_ADU_FRAME_LEN) \<and>
    (\<forall>r \<in> set (gw_pending g). request_ok r) \<and>
    (\<forall>aw \<in># awaiting g. aw_session_idx aw < 256 \<and> normal_code (aw_fc aw)) \<and>
    txn_ids g \<subseteq># image_mset aw_internal_txn (awaiting g)"
  using gateway_run_inv [OF assms] by (simp add: gw_ok_def)

theorem gateway_well_formed_witness:
  "length (gw_upstreams scripted_gateway) \<le> 2 \<and> txn_ids scripted_gateway \<subseteq># image_mset aw_internal_txn (awaiting scripted_gateway)"
  using gateway_well_formed [OF scripted_env_ok scripted_run] by (simp add: scripted_env_def)



text \<open>
  C13: No request waits beyond its deadline, and none waits in the queue for nothing: after a cycle, every
  channel that waits has a deadline in the future, and when a request waits in the queue some
  channel is busy.
\<close>

theorem no_wait_beyond_deadline:
  assumes "gateway_env_ok e" "gateway_run e g" "unat now + unat (gw_response_timeout_ms g) < 2 ^ 64"
    and "0 < gw_response_timeout_ms g" "gateway_poll e g now = Some (Ok (g', out))"
  shows "(\<forall>ds \<in> set (gw_downstreams g'). \<forall>aw. ds_state ds = AwaitingResponse aw \<longrightarrow> now < aw_deadline_ms aw) \<and>
    (gw_pending g' \<noteq> [] \<longrightarrow> (\<exists>ds \<in> set (gw_downstreams g'). ds_state ds \<noteq> ChannelIdle))"
proof
  have inv: "gw_ok e g" "time_ok e g now" "no_stall g"
    using gateway_run_inv [OF assms(1,2)] assms(3) by (simp_all add: time_ok_def)
  from gateway_poll_ok [OF assms(1) this] assms(5)
  have g': "no_stall g'" "\<forall>st \<in> set (states g'). fresh (now + gw_response_timeout_ms g) now st" by auto
  have "now < now + gw_response_timeout_ms g"
    using assms(3,4) by (simp add: word_less_nat_alt unat_word_ariths)
  then show "\<forall>ds \<in> set (gw_downstreams g'). \<forall>aw. ds_state ds = AwaitingResponse aw \<longrightarrow> now < aw_deadline_ms aw"
    using g'(2) by (fastforce simp: states_def fresh_def)
  have "awaiting g' = {#}" if "\<forall>ds \<in> set (gw_downstreams g'). ds_state ds = ChannelIdle"
    using that by (simp add: awaiting_of_def states_def)
  then show "gw_pending g' \<noteq> [] \<longrightarrow> (\<exists>ds \<in> set (gw_downstreams g'). ds_state ds \<noteq> ChannelIdle)"
    using g'(1) unfolding no_stall_def by blast
qed

theorem no_wait_beyond_deadline_witness:
  "\<exists>g' out. gateway_poll scripted_env scripted_gateway 5 = Some (Ok (g', out)) \<and>
    (\<forall>ds \<in> set (gw_downstreams g'). \<forall>aw. ds_state ds = AwaitingResponse aw \<longrightarrow> 5 < aw_deadline_ms aw)"
proof -
  have inv: "gw_ok scripted_env scripted_gateway" "no_stall scripted_gateway"
    using gateway_run_inv [OF scripted_env_ok scripted_run] by simp_all
  obtain g' out where poll: "gateway_poll scripted_env scripted_gateway 5 = Some (Ok (g', out))"
    using gateway_poll_ok [OF scripted_env_ok inv(1) scripted_time inv(2)] by blast
  moreover have "gw_response_timeout_ms scripted_gateway = 1000" by (simp add: scripted_gateway_def gateway_new_def)
  ultimately show ?thesis
    using no_wait_beyond_deadline [OF scripted_env_ok scripted_run _ _ poll] by auto
qed



section \<open>Lost sessions and new ones\<close>

lemma complete_frame_empty [simp]: "complete_frame hc [] tt = None"
  by (cases tt rule: adu_bound.cases)
    (simp_all add: complete_frame_def derive_length_from_bytes_def)

lemma drain_upstream_silent:
  assumes "i < length (gw_upstreams g)" "up_rxbuf (gw_upstreams g ! i) = []"
    and "up_recv e (up_transport (gw_upstreams g ! i)) = (t, Inl err)" "heapless_ok (gw_usizes e)" "length d < N_UPSTREAM e"
  shows "drain_upstream e now i (g, out, d) = Some (Ok (update_up i (\<lambda>up. up\<lparr>up_transport := t\<rparr>) g, out,
    if err \<in> {ConnectionClosed, ConnectionLost, IoError} then d @ [unat (up_session_id (gw_upstreams g ! i))] else d))"
  using assms
  by (subst drain_upstream_def) (simp add: upstream_recv_def Let_def take_frames.simps del: insert_iff)

text \<open>
  Session numbers are not unique: when the first of two sessions is lost and a third client
  connects, both remaining sessions have the number 1, so that the answers for both go to the same one.
\<close>

theorem session_numbers_clash:
  assumes "gateway_env_ok e" "2 \<le> N_UPSTREAM e" "up_recv e lost = (t, Inl ConnectionClosed)" "up_recv e quiet = (u, Inl Timeout)"
    and "policy_ok p"
  shows "\<exists>g. gateway_run e g \<and> sessions g = [1, 1] \<and> find_session (gw_upstreams g) 1 = Some 0"
proof -
  let ?g0 = "gateway_new p 1000" and ?lost = "upstream_channel_new lost 0" and ?quiet = "upstream_channel_new quiet 1"
  let ?g2 = "?g0\<lparr>gw_upstreams := [?lost, ?quiet]\<rparr>"
  have vec: "heapless_ok (gw_up_vec e)" "heapless_ok (gw_usizes e)" "heapless_ok (gw_txn_vec e)" using assms(1) by simp_all
  have "gateway_run e ?g0" by (rule run_new [OF assms(5)])
  moreover have "add_upstream e ?g0 lost = Ok (?g0\<lparr>gw_upstreams := [?lost]\<rparr>)"
    using vec assms(2) by (simp add: add_upstream_def gateway_new_def)
  ultimately have "gateway_run e (?g0\<lparr>gw_upstreams := [?lost]\<rparr>)" by (rule run_upstream)
  moreover have "add_upstream e (?g0\<lparr>gw_upstreams := [?lost]\<rparr>) quiet = Ok ?g2"
    using vec assms(2) by (simp add: add_upstream_def gateway_new_def)
  ultimately have g2: "gateway_run e ?g2" by (rule run_upstream)
  have time: "time_ok e ?g2 0" by (simp add: time_ok_def gateway_new_def)
  let ?ups = "[?lost\<lparr>up_transport := t\<rparr>, ?quiet\<lparr>up_transport := u\<rparr>]"
  have drained: "drain_upstreams e 0 (?g2, OutcomeIdle) = Some (Ok (?g0\<lparr>gw_upstreams := ?ups\<rparr>, OutcomeIdle, [0]))"
  proof -
    have "drain_upstream e 0 0 (?g2, OutcomeIdle, []) = Some (Ok (?g0\<lparr>gw_upstreams := [?lost\<lparr>up_transport := t\<rparr>, ?quiet]\<rparr>, OutcomeIdle, [0]))"
      using vec assms(2,3) by (subst drain_upstream_silent [where t = t and err = ConnectionClosed]) (simp_all add: upstream_channel_new_def update_up_def)
    moreover have "drain_upstream e 0 1 (?g0\<lparr>gw_upstreams := [?lost\<lparr>up_transport := t\<rparr>, ?quiet]\<rparr>, OutcomeIdle, [0]) =
        Some (Ok (?g0\<lparr>gw_upstreams := ?ups\<rparr>, OutcomeIdle, [0]))"
      using vec assms(2,4) by (subst drain_upstream_silent [where t = u and err = Timeout]) (simp_all add: upstream_channel_new_def update_up_def)
    ultimately show ?thesis by (simp add: drain_upstreams_def then_opt_def upt_rec)
  qed
  obtain m k where m: "txn_remove_by_session (gw_txn_vec e) txn_map_new 0 = Some (Ok (m, k))"
    using txn_remove_by_session_ok [OF vec(3)] by blast
  let ?g3 = "log_action (on_upstream_disconnect 0) (?g0\<lparr>gw_upstreams := [?quiet\<lparr>up_transport := u\<rparr>], gw_txn_map := m\<rparr>)"
  have "remove_session e 0 (?g0\<lparr>gw_upstreams := ?ups\<rparr>) = Some (Ok ?g3)"
    using vec m by (simp add: remove_session_def find_session_def upstream_channel_new_def gateway_new_def swap_removed_def)
  then have "gateway_poll e ?g2 0 = Some (Ok (?g3, OutcomeActive))"
    using drained by (simp add: gateway_poll_def drain_downstreams_def gateway_new_def then_opt_def)
  from run_poll [OF g2 time this] have "gateway_run e ?g3" .
  let ?g4 = "?g3\<lparr>gw_upstreams := [?quiet\<lparr>up_transport := u\<rparr>, ?quiet]\<rparr>"
  have "add_upstream e ?g3 quiet = Ok ?g4" using vec assms(2) by (simp add: add_upstream_def)
  with \<open>gateway_run e ?g3\<close> have "gateway_run e ?g4" by (rule run_upstream)
  then show ?thesis
    by (intro exI [of _ ?g4]) (simp_all add: sessions_def find_session_def upstream_channel_new_def log_action_def gateway_new_def)
qed

theorem session_numbers_clash_witness:
  "\<exists>g. gateway_run scripted_env g \<and> sessions g = [1, 1]"
  using session_numbers_clash [OF scripted_env_ok, of "[[]]" "[]" "[]" "[]" passthrough_router]
  by (auto simp: scripted_env_def)

end
