(* ===== verification/Gateway_Exchange.thy ===== *)
theory Gateway_Exchange
  imports Gateway
begin







end
