(* ===== verification/Async_Gateway.thy ===== *)
theory Async_Gateway
  imports Gateway_Exchange "HOL-Library.Sublist"
begin

text \<open>
  The asynchronous gateway: the session of an upstream connection (\<open>run_async_session\<close> of
  mbus-gateway/src/gateway_async/gateway.rs, which the TCP, WebSocket and raw gateways share) and the loop
  of the serial gateway (serial_gateway.rs).

  \<^item> The transports belong to other crates; their methods are fields of \<open>async_env\<close>. \<open>ad_recv\<close> is the
    receiving of a response under \<open>tokio::time::timeout\<close>: \<open>None\<close> when the time is over.
  \<^item> A session touches shared state once in a round, while it holds the lock of a downstream channel. A
    round is therefore one step, and concurrent sessions are interleavings of their rounds.
  \<^item> \<open>ss_log\<close> records the calls of the event handler and the frames handed to the transports, in order, and
    \<open>ss_taken\<close> the requests; the code does not have these fields. The callbacks of the optional
    feature \<open>traffic\<close> are left out.
\<close>

section \<open>A session\<close>

record ('u, 'd) async_env =
  au_recv :: "'u \<Rightarrow> 'u \<times> (MbusError + bytes)"
  au_send :: "'u \<Rightarrow> bytes \<Rightarrow> 'u \<times> (MbusError + unit)"
  ad_send :: "'d \<Rightarrow> bytes \<Rightarrow> 'd \<times> (MbusError + unit)"
  ad_recv :: "'d \<Rightarrow> 'd \<times> (MbusError + bytes) option"
  AU_TYPE :: TransportType
  AD_TYPE :: TransportType
  ag_bytes :: "u8 heapless"

record 'u async_session =
  ss_upstream :: 'u
  ss_next_txn :: u16
  ss_open :: bool
  ss_taken :: "ModbusMessage list"
  ss_log :: "GatewayAction list"

definition async_session_new :: "'u \<Rightarrow> 'u async_session" where
  "async_session_new t = \<lparr>ss_upstream = t, ss_next_txn = 0, ss_open = True, ss_taken = [], ss_log = []\<rparr>"

definition note_event :: "GatewayAction \<Rightarrow> 'u async_session \<Rightarrow> 'u async_session" where
  "note_event a s = s\<lparr>ss_log := ss_log s @ [a]\<rparr>"

text \<open>Every caller ignores the result of \<open>send_async_exception\<close>, so only the session is returned.\<close>

definition send_async_exception ::
    "('u, 'd) async_env \<Rightarrow> 'u async_session \<Rightarrow> u16 \<Rightarrow> UnitIdOrSlaveAddr \<Rightarrow> FunctionCode \<Rightarrow> ExceptionCode \<Rightarrow>
     'u async_session result" where
  "send_async_exception e s txn_id unit fc exception_code =
     (case exception_response fc of
        None \<Rightarrow> Ok s
      | Some exception_fc \<Rightarrow>
          (case bind_res (build_byte_payload (ag_bytes e) exception_fc (exception_code_u8 exception_code)) (\<lambda>p.
                  compile_adu_frame (ag_bytes e) txn_id (uid_get unit) p (AU_TYPE e)) of
             Err _ \<Rightarrow> Ok s
           | Panic \<Rightarrow> Panic
           | Ok adu \<Rightarrow>
               (let (t, _) = au_send e (ss_upstream s) adu in
                Ok (note_event (FrameReturned 0 adu) (s\<lparr>ss_upstream := t\<rparr>)))))"

text \<open>The exchange under the lock of the channel.\<close>

datatype exchange_result = Dropped | TimedOut | Response bytes

definition exchange :: "('u, 'd) async_env \<Rightarrow> 'd \<Rightarrow> bytes \<Rightarrow> 'd \<times> exchange_result" where
  "exchange e ds ds_adu =
     (case ad_send e ds ds_adu of
        (ds, Inl _) \<Rightarrow> (ds, Dropped)
      | (ds, Inr _) \<Rightarrow>
          (case ad_recv e ds of
             (ds, Some (Inr b)) \<Rightarrow> (ds, Response b)
           | (ds, Some (Inl _)) \<Rightarrow> (ds, Dropped)
           | (ds, None) \<Rightarrow> (ds, TimedOut)))"

datatype round_end = Continues | Breaks

text \<open>The response is decoded, re-encoded for the upstream and sent.\<close>

definition return_async ::
    "('u, 'd) async_env \<Rightarrow> ModbusMessage \<Rightarrow> 'u async_session \<Rightarrow> bytes \<Rightarrow> ('u async_session \<times> round_end) result" where
  "return_async e msg s response_bytes =
     (case decompile_adu_frame (ag_bytes e) response_bytes (AD_TYPE e) of
        Panic \<Rightarrow> Panic
      | Err _ \<Rightarrow> Ok (s, Continues)
      | Ok response_msg \<Rightarrow>
          (case compile_adu_frame (ag_bytes e) (message_transaction_id msg) (uid_get (unit_id_or_slave_addr msg))
                  (pdu response_msg) (AU_TYPE e) of
             Panic \<Rightarrow> Panic
           | Err _ \<Rightarrow> Ok (s, Continues)
           | Ok us_adu \<Rightarrow>
               (let (t, r) = au_send e (ss_upstream s) us_adu;
                    s = note_event (FrameReturned 0 us_adu) (s\<lparr>ss_upstream := t\<rparr>) in
                case r of
                  Inl _ \<Rightarrow> Ok (s, Breaks)
                | Inr _ \<Rightarrow> Ok (note_event (on_response_returned 0 (message_transaction_id msg)) s, Continues))))"

definition forward_async ::
    "('u, 'd) async_env \<Rightarrow> GatewayRoutingPolicy \<Rightarrow> u16 \<Rightarrow> usize \<Rightarrow> 'd list \<Rightarrow> ModbusMessage \<Rightarrow> 'u async_session \<Rightarrow>
     ('d list \<times> 'u async_session \<times> round_end) result" where
  "forward_async e router internal_txn channel_idx dss msg s =
     bind_res (rt_rewrite router (unit_id_or_slave_addr msg)) (\<lambda>downstream_unit.
     case compile_adu_frame (ag_bytes e) internal_txn (uid_get downstream_unit) (pdu msg) (AD_TYPE e) of
       Panic \<Rightarrow> Panic
     | Err _ \<Rightarrow> Ok (dss, s, Continues)
     | Ok ds_adu \<Rightarrow>
         bind_res (idx dss channel_idx) (\<lambda>ds.
         let (ds, x) = exchange e ds ds_adu;
             dss = dss[channel_idx := ds];
             s = note_event (FrameForwarded channel_idx ds_adu) s in
         case x of
           Dropped \<Rightarrow> Ok (dss, s, Continues)
         | TimedOut \<Rightarrow>
             bind_res (send_async_exception e (note_event (on_downstream_timeout 0 internal_txn) s)
                 (message_transaction_id msg) (unit_id_or_slave_addr msg) (function_code (pdu msg))
                 GatewayTargetDeviceFailedToRespond) (\<lambda>s.
             Ok (dss, s, Continues))
         | Response response_bytes \<Rightarrow>
             bind_res (return_async e msg s response_bytes) (\<lambda>(s, r). Ok (dss, s, r))))"

text \<open>
  A decoded request. The sessions number their requests for the downstream; the serial loop uses 0
  (\<open>numbered\<close> is false).
\<close>

definition async_request ::
    "('u, 'd) async_env \<Rightarrow> bool \<Rightarrow> GatewayRoutingPolicy \<Rightarrow> 'd list \<Rightarrow> ModbusMessage \<Rightarrow> 'u async_session \<Rightarrow>
     ('d list \<times> 'u async_session \<times> round_end) result" where
  "async_request e numbered router dss msg s =
     (let unit = unit_id_or_slave_addr msg;
          refuse = (\<lambda>s. bind_res (send_async_exception e s (message_transaction_id msg) unit
              (function_code (pdu msg)) ServerDeviceFailure) (\<lambda>s. Ok (dss, s, Continues)))
      in case rt_route router unit of
           None \<Rightarrow> refuse (note_event (on_routing_miss 0 unit) s)
         | Some channel_idx \<Rightarrow>
             (let s = note_event (on_forward 0 unit channel_idx) s in
              if length dss \<le> channel_idx then refuse s
              else if numbered then
                forward_async e router (ss_next_txn s) channel_idx dss msg (s\<lparr>ss_next_txn := ss_next_txn s + 1\<rparr>)
              else forward_async e router 0 channel_idx dss msg s))"

text \<open>\<open>break\<close> leaves the loop and \<open>on_upstream_disconnect\<close> is called.\<close>

definition disconnect :: "'u async_session \<Rightarrow> 'u async_session" where
  "disconnect s = note_event (on_upstream_disconnect 0) (s\<lparr>ss_open := False\<rparr>)"

text \<open>What a round does with a received frame.\<close>

definition frame_received ::
    "('u, 'd) async_env \<Rightarrow> bool \<Rightarrow> GatewayRoutingPolicy \<Rightarrow> 'd list \<Rightarrow> bytes \<Rightarrow> 'u async_session \<Rightarrow>
     ('d list \<times> 'u async_session) result" where
  "frame_received e numbered router dss frame s =
     (case decompile_adu_frame (ag_bytes e) frame (AU_TYPE e) of
        Panic \<Rightarrow> Panic
      | Err _ \<Rightarrow> Ok (dss, s)
      | Ok msg \<Rightarrow>
          bind_res (async_request e numbered router dss msg (s\<lparr>ss_taken := ss_taken s @ [msg]\<rparr>)) (\<lambda>(dss, s, r).
          Ok (dss, case r of Continues \<Rightarrow> s | Breaks \<Rightarrow> disconnect s)))"

text \<open>A round of \<open>run_async_session\<close>.\<close>

definition async_round ::
    "('u, 'd) async_env \<Rightarrow> GatewayRoutingPolicy \<Rightarrow> 'd list \<Rightarrow> 'u async_session \<Rightarrow> ('d list \<times> 'u async_session) result" where
  "async_round e router dss s =
     (let (t, r) = au_recv e (ss_upstream s); s = s\<lparr>ss_upstream := t\<rparr> in
      case r of
        Inl _ \<Rightarrow> Ok (dss, disconnect s)
      | Inr frame \<Rightarrow> frame_received e True router dss frame s)"

text \<open>
  A round of \<open>run_loop\<close> of the serial gateway, when the shutdown signal does not come first. An error
  other than a lost connection leaves the function without \<open>on_upstream_disconnect\<close>. The downstream
  transports are \<open>GatewayTransport\<close>s and take TCP frames.
\<close>

definition serial_round ::
    "('u, 'd) async_env \<Rightarrow> UnitRouteEntry list \<Rightarrow> 'd list \<Rightarrow> 'u async_session \<Rightarrow>
     ('d list \<times> 'u async_session \<times> MbusError option) result" where
  "serial_round e table dss s =
     (let (t, r) = au_recv e (ss_upstream s); s = s\<lparr>ss_upstream := t\<rparr> in
      case r of
        Inl err \<Rightarrow>
          if err = ConnectionClosed \<or> err = ConnectionLost then Ok (dss, disconnect s, None)
          else Ok (dss, s\<lparr>ss_open := False\<rparr>, Some err)
      | Inr frame \<Rightarrow>
          bind_res (frame_received (e\<lparr>AD_TYPE := StdTcp\<rparr>) False (unit_table_policy table) dss frame s) (\<lambda>(dss, s).
          Ok (dss, s, None)))"

text \<open>
  \<open>recv\<close> of \<open>IdleTimeoutTransport\<close>, which the WebSocket gateway puts around its upstream (ws_gateway.rs); \<open>None\<close> stands for
  the end of the idle time.
\<close>

definition idle_recv :: "('u \<Rightarrow> 'u \<times> (MbusError + bytes) option) \<Rightarrow> 'u \<Rightarrow> 'u \<times> (MbusError + bytes)" where
  "idle_recv inner t = (case inner t of (t, Some result) \<Rightarrow> (t, result) | (t, None) \<Rightarrow> (t, Inl ConnectionClosed))"

section \<open>Concurrent sessions\<close>

record ('u, 'd) async_gateway =
  ag_downstreams :: "'d list"
  ag_sessions :: "'u async_session list"

text \<open>
  \<open>serve\<close> starts a session for every accepted connection; the sessions run concurrently. A session that
  panics makes no step: its task ends and the others go on.
\<close>

inductive async_step ::
    "('u, 'd) async_env \<Rightarrow> GatewayRoutingPolicy \<Rightarrow> ('u, 'd) async_gateway \<Rightarrow> ('u, 'd) async_gateway \<Rightarrow> bool"
  for e :: "('u, 'd) async_env" and router :: GatewayRoutingPolicy where
  step_accept: "async_step e router g (g\<lparr>ag_sessions := ag_sessions g @ [async_session_new t]\<rparr>)"
| step_round: "i < length (ag_sessions g) \<Longrightarrow> ss_open (ag_sessions g ! i) \<Longrightarrow>
    async_round e router (ag_downstreams g) (ag_sessions g ! i) = Ok (dss, s) \<Longrightarrow>
    async_step e router g (g\<lparr>ag_downstreams := dss, ag_sessions := (ag_sessions g)[i := s]\<rparr>)"

inductive async_run ::
    "('u, 'd) async_env \<Rightarrow> GatewayRoutingPolicy \<Rightarrow> 'd list \<Rightarrow> ('u, 'd) async_gateway \<Rightarrow> bool"
  for e :: "('u, 'd) async_env" and router :: GatewayRoutingPolicy and dss :: "'d list" where
  run_start: "async_run e router dss \<lparr>ag_downstreams = dss, ag_sessions = []\<rparr>"
| run_step: "async_run e router dss g \<Longrightarrow> async_step e router g g' \<Longrightarrow> async_run e router dss g'"

section \<open>One round\<close>

lemma ss_note [simp]:
  "ss_upstream (note_event a s) = ss_upstream s" "ss_next_txn (note_event a s) = ss_next_txn s"
  "ss_open (note_event a s) = ss_open s" "ss_taken (note_event a s) = ss_taken s"
  "ss_log (note_event a s) = ss_log s @ [a]"
  by (simp_all add: note_event_def)

lemma ss_disconnect [simp]:
  "ss_taken (disconnect s) = ss_taken s" "ss_log (disconnect s) = ss_log s @ [on_upstream_disconnect 0]"
  by (simp_all add: disconnect_def)

definition exception_frame :: "('u, 'd) async_env \<Rightarrow> ModbusMessage \<Rightarrow> u8 \<Rightarrow> bytes" where
  "exception_frame e msg c =
     adu_frame (AU_TYPE e) (message_transaction_id msg) (uid_get (unit_id_or_slave_addr msg))
       [function_code_u8 (function_code (pdu msg)) OR 0x80, c]"

lemma send_async_exception_ok:
  assumes "heapless_ok (ag_bytes e)" "normal_code (function_code (pdu msg))"
  shows "send_async_exception e s (message_transaction_id msg) (unit_id_or_slave_addr msg) (function_code (pdu msg)) c =
    Ok (note_event (FrameReturned 0 (exception_frame e msg (exception_code_u8 c)))
      (s\<lparr>ss_upstream := fst (au_send e (ss_upstream s) (exception_frame e msg (exception_code_u8 c)))\<rparr>))"
proof -
  obtain x where x: "exception_response (function_code (pdu msg)) = Some x" using assms(2) by (auto simp: normal_code_def)
  have "build_byte_payload (ag_bytes e) x (exception_code_u8 c) = Ok (pdu_new x [exception_code_u8 c] 1)"
    using assms(1) by (simp add: build_byte_payload_def push_or_def)
  moreover have "pdu_wf (pdu_new x [exception_code_u8 c] 1)" by (simp add: pdu_wf_def pdu_new_def)
  moreover have "function_code_u8 x = function_code_u8 (function_code (pdu msg)) OR 0x80" by (rule conjunct1 [OF exception_response_u8 [OF x]])
  ultimately show ?thesis
    using x compile_adu_frame_ok [OF assms(1)]
    by (simp add: send_async_exception_def exception_frame_def pdu_body_def pdu_new_def split: prod.splits)
qed

text \<open>The frame that answers a request, and the one that carries it to a channel.\<close>

definition answer_frame :: "('u, 'd) async_env \<Rightarrow> ModbusMessage \<Rightarrow> Pdu \<Rightarrow> bytes" where
  "answer_frame e msg p =
     adu_frame (AU_TYPE e) (message_transaction_id msg) (uid_get (unit_id_or_slave_addr msg)) (pdu_body p)"

definition forwarded_frame :: "('u, 'd) async_env \<Rightarrow> ModbusMessage \<Rightarrow> u16 \<Rightarrow> UnitIdOrSlaveAddr \<Rightarrow> bytes" where
  "forwarded_frame e msg txn u = adu_frame (AD_TYPE e) txn (uid_get u) (pdu_body (pdu msg))"

lemma exception_is_answer:
  assumes "normal_code (function_code (pdu msg))"
  shows "\<exists>p. pdu_wf p \<and> exception_frame e msg c = answer_frame e msg p"
proof -
  obtain x where x: "exception_response (function_code (pdu msg)) = Some x" using assms by (auto simp: normal_code_def)
  have "function_code_u8 x = function_code_u8 (function_code (pdu msg)) OR 0x80" by (rule conjunct1 [OF exception_response_u8 [OF x]])
  then show ?thesis
    by (intro exI [of _ "pdu_new x [c] 1"]) (simp add: exception_frame_def answer_frame_def pdu_wf_def pdu_new_def pdu_body_def)
qed

lemma return_async_cases:
  assumes "heapless_ok (ag_bytes e)" "return_async e msg s b = Ok (s', r)"
  obtains (dropped) "s' = s" "r = Continues" "\<nexists>m. decompile_adu_frame (ag_bytes e) b (AD_TYPE e) = Ok m"
  | (lost) m err where "decompile_adu_frame (ag_bytes e) b (AD_TYPE e) = Ok m" "pdu_wf (pdu m)" "r = Breaks"
      "snd (au_send e (ss_upstream s) (answer_frame e msg (pdu m))) = Inl err"
      "ss_taken s' = ss_taken s" "ss_log s' = ss_log s @ [FrameReturned 0 (answer_frame e msg (pdu m))]"
  | (answered) m where "decompile_adu_frame (ag_bytes e) b (AD_TYPE e) = Ok m" "pdu_wf (pdu m)" "r = Continues"
      "ss_taken s' = ss_taken s" "ss_log s' = ss_log s @ [FrameReturned 0 (answer_frame e msg (pdu m)),
         on_response_returned 0 (message_transaction_id msg)]"
proof (cases "decompile_adu_frame (ag_bytes e) b (AD_TYPE e)")
  case (Ok m)
  moreover have "pdu_wf (pdu m)" using decompile_wf [OF assms(1) Ok] by simp
  moreover from this have compiled: "compile_adu_frame (ag_bytes e) (message_transaction_id msg)
      (uid_get (unit_id_or_slave_addr msg)) (pdu m) (AU_TYPE e) = Ok (answer_frame e msg (pdu m))"
    by (simp add: compile_adu_frame_ok [OF assms(1)] answer_frame_def)
  obtain t a where "au_send e (ss_upstream s) (answer_frame e msg (pdu m)) = (t, a)" by fastforce
  ultimately show ?thesis
    using assms(2) compiled lost [of m] answered [of m] by (cases a) (auto simp: return_async_def)
qed (use assms(2) dropped in \<open>simp_all add: return_async_def\<close>)

section \<open>What a session takes, forwards and returns\<close>

fun returned_in :: "GatewayAction \<Rightarrow> bytes list" where
  "returned_in (FrameReturned _ f) = [f]"
| "returned_in _ = []"

fun forwarded_in :: "GatewayAction \<Rightarrow> (usize \<times> bytes) list" where
  "forwarded_in (FrameForwarded c f) = [(c, f)]"
| "forwarded_in _ = []"

definition sent_up :: "GatewayAction list \<Rightarrow> bytes list" where
  "sent_up l = concat (map returned_in l)"

definition sent_down :: "GatewayAction list \<Rightarrow> (usize \<times> bytes) list" where
  "sent_down l = concat (map forwarded_in l)"

lemma sent_up_simps [simp]: "sent_up [] = []" "sent_up (a # l) = returned_in a @ sent_up l" "sent_up (l @ l') = sent_up l @ sent_up l'"
  by (simp_all add: sent_up_def)

lemma sent_down_simps [simp]:
  "sent_down [] = []" "sent_down (a # l) = forwarded_in a @ sent_down l" "sent_down (l @ l') = sent_down l @ sent_down l'"
  by (simp_all add: sent_down_def)

definition is_answer :: "('u, 'd) async_env \<Rightarrow> ModbusMessage \<Rightarrow> bytes \<Rightarrow> bool" where
  "is_answer e msg f \<longleftrightarrow> (\<exists>p. pdu_wf p \<and> f = answer_frame e msg p)"

definition carries :: "('u, 'd) async_env \<Rightarrow> GatewayRoutingPolicy \<Rightarrow> ModbusMessage \<Rightarrow> usize \<times> bytes \<Rightarrow> bool" where
  "carries e router msg cf \<longleftrightarrow>
     rt_route router (unit_id_or_slave_addr msg) = Some (fst cf) \<and>
     (\<exists>txn u. rt_rewrite router (unit_id_or_slave_addr msg) = Ok u \<and> snd cf = forwarded_frame e msg txn u)"

text \<open>The log of a round: at most one frame to a channel and at most one back, both for the same request.\<close>

definition round_log :: "('u, 'd) async_env \<Rightarrow> GatewayRoutingPolicy \<Rightarrow> ModbusMessage \<Rightarrow> GatewayAction list \<Rightarrow> bool" where
  "round_log e router msg l \<longleftrightarrow>
     (sent_up l = [] \<or> (\<exists>f. sent_up l = [f] \<and> is_answer e msg f)) \<and>
     (sent_down l = [] \<or> (\<exists>cf. sent_down l = [cf] \<and> carries e router msg cf))"

lemma return_async_log:
  assumes "heapless_ok (ag_bytes e)" "return_async e msg s b = Ok (s', r)"
  shows "ss_taken s' = ss_taken s \<and> (\<exists>l. ss_log s' = ss_log s @ l \<and> sent_down l = [] \<and>
    (sent_up l = [] \<or> (\<exists>f. sent_up l = [f] \<and> is_answer e msg f)))"
  using assms by (cases rule: return_async_cases) (auto simp: is_answer_def)

lemma forward_async_log:
  assumes "heapless_ok (ag_bytes e)" "pdu_wf (pdu msg)" "normal_code (function_code (pdu msg))"
    and "rt_route router (unit_id_or_slave_addr msg) = Some c" "forward_async e router txn c dss msg s = Ok (dss', s', r)"
  shows "ss_taken s' = ss_taken s \<and> (\<exists>l. ss_log s' = ss_log s @ l \<and> round_log e router msg l)"
proof -
  obtain u where u: "rt_rewrite router (unit_id_or_slave_addr msg) = Ok u"
    using assms(5) by (auto simp: forward_async_def res_simps)
  let ?f = "forwarded_frame e msg txn u"
  have sent: "carries e router msg (c, ?f)" using u assms(4) by (auto simp: carries_def)
  obtain d x where x: "c < length dss" "exchange e (dss ! c) ?f = (d, x)"
    using assms(5) u compile_adu_frame_ok [OF assms(1,2)]
    by (cases "exchange e (dss ! c) ?f") (auto simp: forward_async_def res_simps idx_Ok_iff forwarded_frame_def)
  note steps = forward_async_def u x compile_adu_frame_ok [OF assms(1,2)] forwarded_frame_def [symmetric] Let_def
  show ?thesis
  proof (cases x)
    case Dropped
    then show ?thesis using assms(5) sent x(1) by (auto simp: steps round_log_def)
  next
    case TimedOut
    then show ?thesis
      using assms(5) sent x(1) send_async_exception_ok [OF assms(1,3)] exception_is_answer [OF assms(3)]
      by (auto simp: steps round_log_def is_answer_def)
  next
    case (Response b)
    then obtain s1 where "return_async e msg (note_event (FrameForwarded c ?f) s) b = Ok (s', r)"
      using assms(5) x(1) by (auto simp: steps res_simps)
    from return_async_log [OF assms(1) this] show ?thesis using sent by (auto simp: round_log_def)
  qed
qed

lemma async_request_log:
  assumes "heapless_ok (ag_bytes e)" "pdu_wf (pdu msg)" "normal_code (function_code (pdu msg))"
    and "async_request e numbered router dss msg s = Ok (dss', s', r)"
  shows "ss_taken s' = ss_taken s \<and> (\<exists>l. ss_log s' = ss_log s @ l \<and> round_log e router msg l)"
proof -
  have refused: "round_log e router msg [a, FrameReturned 0 (exception_frame e msg x)]"
    if "returned_in a = []" "forwarded_in a = []" for a x
    using that exception_is_answer [OF assms(3)] by (auto simp: round_log_def is_answer_def)
  have passed: "\<exists>l'. (xs @ [on_forward 0 unit c]) @ l = xs @ l' \<and> round_log e router msg l'" if "round_log e router msg l" for xs l c unit
    using that by (intro exI [of _ "on_forward 0 unit c # l"]) (simp add: round_log_def)
  show ?thesis
  proof (cases "rt_route router (unit_id_or_slave_addr msg)")
    case None
    then show ?thesis
      using assms(4) send_async_exception_ok [OF assms(1,3)] refused by (auto simp: async_request_def)
  next
    case (Some c)
    note forwarded = forward_async_log [OF assms(1-3) Some]
    let ?s = "note_event (on_forward 0 (unit_id_or_slave_addr msg) c) s"
    consider "length dss \<le> c" | txn s1 where "forward_async e router txn c dss msg s1 = Ok (dss', s', r)"
        "ss_taken s1 = ss_taken s" "ss_log s1 = ss_log ?s"
      using assms(4) Some by (cases numbered) (fastforce simp: async_request_def Let_def split: if_splits)+
    then show ?thesis
    proof cases
      case 1
      then show ?thesis
        using assms(4) Some send_async_exception_ok [OF assms(1,3)] refused by (auto simp: async_request_def)
    next
      case 2
      then show ?thesis using forwarded [OF 2(1)] passed by fastforce
    qed
  qed
qed

lemma frame_received_log:
  assumes "heapless_ok (ag_bytes e)" "frame_received e numbered router dss frame s = Ok (dss', s')"
  obtains (undecoded) "s' = s"
  | (request) msg l where "decompile_adu_frame (ag_bytes e) frame (AU_TYPE e) = Ok msg"
      "ss_taken s' = ss_taken s @ [msg]" "ss_log s' = ss_log s @ l" "round_log e router msg l"
proof (cases "decompile_adu_frame (ag_bytes e) frame (AU_TYPE e)")
  case (Ok msg)
  with assms(2) obtain s1 r where r: "async_request e numbered router dss msg (s\<lparr>ss_taken := ss_taken s @ [msg]\<rparr>) = Ok (dss', s1, r)"
      "s' = (case r of Continues \<Rightarrow> s1 | Breaks \<Rightarrow> disconnect s1)"
    by (auto simp: frame_received_def res_simps)
  from async_request_log [OF assms(1) _ _ r(1)] decompile_wf [OF assms(1) Ok] obtain l where
    l: "ss_taken s1 = ss_taken s @ [msg]" "ss_log s1 = ss_log s @ l" "round_log e router msg l" by auto
  show ?thesis
  proof (cases r)
    case Continues
    then show ?thesis using request [OF Ok, of l] l r(2) by simp
  next
    case Breaks
    have "round_log e router msg (l @ [on_upstream_disconnect 0])" using l(3) by (simp add: round_log_def)
    then show ?thesis using request [OF Ok, of "l @ [on_upstream_disconnect 0]"] l(1,2) r(2) Breaks by simp
  qed
qed (use assms(2) undecoded in \<open>simp_all add: frame_received_def\<close>)

section \<open>The sessions stay apart\<close>

definition matches :: "('a \<Rightarrow> 'b \<Rightarrow> bool) \<Rightarrow> 'a list \<Rightarrow> 'b list \<Rightarrow> bool" where
  "matches R xs ys \<longleftrightarrow> (\<exists>zs. subseq zs xs \<and> list_all2 R zs ys)"

lemma matches_Nil [simp]: "matches R xs []"
  by (auto simp: matches_def intro: exI [of _ "[]"])

lemma matches_skip: "matches R xs ys \<Longrightarrow> matches R (xs @ [x]) ys"
  unfolding matches_def by (auto simp: list_emb_prefix)

lemma matches_snoc:
  assumes "matches R xs ys" "R x y"
  shows "matches R (xs @ [x]) (ys @ [y])"
proof -
  obtain zs where "subseq zs xs" "list_all2 R zs ys" using assms(1) by (auto simp: matches_def)
  then have "subseq (zs @ [x]) (xs @ [x]) \<and> list_all2 R (zs @ [x]) (ys @ [y])"
    using assms(2) by (simp add: list_all2_appendI)
  then show ?thesis unfolding matches_def by blast
qed

definition session_ok :: "('u, 'd) async_env \<Rightarrow> GatewayRoutingPolicy \<Rightarrow> 'u async_session \<Rightarrow> bool" where
  "session_ok e router s \<longleftrightarrow>
     matches (is_answer e) (ss_taken s) (sent_up (ss_log s)) \<and> matches (carries e router) (ss_taken s) (sent_down (ss_log s))"

lemma session_ok_round:
  assumes "session_ok e router s" "ss_taken s' = ss_taken s @ [msg]" "ss_log s' = ss_log s @ l" "round_log e router msg l"
  shows "session_ok e router s'"
  using assms by (auto simp: session_ok_def round_log_def intro: matches_skip matches_snoc)

lemma session_ok_silent:
  "session_ok e router s \<Longrightarrow> ss_taken s' = ss_taken s \<Longrightarrow> ss_log s' = ss_log s @ l \<Longrightarrow>
   sent_up l = [] \<Longrightarrow> sent_down l = [] \<Longrightarrow> session_ok e router s'"
  by (simp add: session_ok_def)

lemma frame_received_session_ok:
  assumes "heapless_ok (ag_bytes e)" "session_ok e router s" "frame_received e numbered router dss frame s = Ok (dss', s')"
  shows "session_ok e router s'"
  using assms(1,3)
proof (cases rule: frame_received_log)
  case undecoded
  then show ?thesis using assms(2) by simp
next
  case (request msg l)
  then show ?thesis using session_ok_round [OF assms(2)] by blast
qed

lemma async_round_session_ok:
  assumes "heapless_ok (ag_bytes e)" "session_ok e router s" "async_round e router dss s = Ok (dss', s')"
  shows "session_ok e router s'"
proof -
  obtain t r where r: "au_recv e (ss_upstream s) = (t, r)" by fastforce
  let ?s = "s\<lparr>ss_upstream := t\<rparr>"
  have ok: "session_ok e router ?s" using assms(2) by (simp add: session_ok_def)
  show ?thesis
  proof (cases r)
    case (Inl err)
    then show ?thesis using assms(3) r session_ok_silent [OF ok] by (auto simp: async_round_def)
  next
    case (Inr frame)
    then show ?thesis using assms(3) r frame_received_session_ok [OF assms(1) ok] by (simp add: async_round_def)
  qed
qed

text \<open>
  C16: However the sessions of the asynchronous gateway interleave on the shared channels, the frames that a session returns
  answer requests of this session, in their order and at most one each, with the transaction identifier and
  the unit of the request; and what it forwards are its requests, in their order and at most once each, to
  the channel and the unit that the routing policy gives.
\<close>

theorem async_sessions_answered:
  assumes "heapless_ok (ag_bytes e)" "async_run e router dss g" "s \<in> set (ag_sessions g)"
  shows "\<exists>asked sent.
    subseq asked (ss_taken s) \<and> list_all2 (\<lambda>msg f. \<exists>p. pdu_wf p \<and> f = answer_frame e msg p) asked (sent_up (ss_log s)) \<and>
    subseq sent (ss_taken s) \<and> list_all2 (\<lambda>msg (c, f). rt_route router (unit_id_or_slave_addr msg) = Some c \<and>
      (\<exists>txn u. rt_rewrite router (unit_id_or_slave_addr msg) = Ok u \<and> f = forwarded_frame e msg txn u)) sent (sent_down (ss_log s))"
proof -
  have "session_ok e router s"
    using assms(2,3)
  proof (induction arbitrary: s)
    case (run_step g g')
    from run_step.hyps(2) show ?case
    proof cases
      case (step_accept t)
      have "session_ok e router (async_session_new t)"
        by (simp add: session_ok_def async_session_new_def)
      then show ?thesis using step_accept run_step.prems run_step.IH by auto
    next
      case (step_round i ds' s')
      have "session_ok e router s'"
        using async_round_session_ok [OF assms(1) run_step.IH step_round(4)] step_round(2) by simp
      then show ?thesis using step_round(1) run_step.prems run_step.IH by (auto dest!: set_update_subset_insert [THEN subsetD])
    qed
  qed simp
  then show ?thesis
    unfolding session_ok_def matches_def is_answer_def carries_def case_prod_beta by blast
qed

text \<open>Two clients on one channel; the device answers the first request after the timeout.\<close>

definition late_env :: "(bytes list, bytes option list) async_env" where
  "late_env = \<lparr>au_recv = (\<lambda>t. case t of [] \<Rightarrow> ([], Inl ConnectionClosed) | f # fs \<Rightarrow> (fs, Inr f)), au_send = (\<lambda>t _. (t, Inr ())),
     ad_send = (\<lambda>t _. (t, Inr ())), ad_recv = (\<lambda>t. case t of [] \<Rightarrow> ([], None) | r # rs \<Rightarrow> (rs, map_option Inr r)),
     AU_TYPE = StdTcp, AD_TYPE = StdTcp, ag_bytes = bounded_vec\<rparr>"

lemma late_env_simps [simp]:
  "au_recv late_env (f # fs) = (fs, Inr f)" "au_send late_env t a = (t, Inr ())"
  "ad_send late_env d a = (d, Inr ())" "ad_recv late_env (r # rs) = (rs, map_option Inr r)"
  "AU_TYPE late_env = StdTcp" "AD_TYPE late_env = StdTcp" "ag_bytes late_env = bounded_vec"
  by (simp_all add: late_env_def)

lemma exchange_late [simp]:
  "exchange late_env (Some b # ds) f = (ds, Response b)" "exchange late_env (None # ds) f = (ds, TimedOut)"
  by (simp_all add: exchange_def)

section \<open>The exchange\<close>

text \<open>The log of an exchange, by its result.\<close>

definition exchange_log :: "('u, 'd) async_env \<Rightarrow> ModbusMessage \<Rightarrow> u16 \<Rightarrow> exchange_result \<Rightarrow> GatewayAction list" where
  "exchange_log e msg internal_txn x =
     (case x of
        Dropped \<Rightarrow> []
      | TimedOut \<Rightarrow> [on_downstream_timeout 0 internal_txn, FrameReturned 0 (exception_frame e msg 0x0B)]
      | Response b \<Rightarrow>
          (case decompile_adu_frame (ag_bytes e) b (AD_TYPE e) of
             Ok m \<Rightarrow> [FrameReturned 0 (answer_frame e msg (pdu m)), on_response_returned 0 (message_transaction_id msg)]
           | _ \<Rightarrow> []))"

lemma return_async_ok:
  assumes "heapless_ok (ag_bytes e)" "decompile_adu_frame (ag_bytes e) b (AD_TYPE e) \<noteq> Panic" "\<forall>t f. snd (au_send e t f) = Inr ()"
  shows "\<exists>s'. return_async e msg s b = Ok (s', Continues) \<and> ss_open s' = ss_open s \<and> ss_next_txn s' = ss_next_txn s \<and>
    ss_log s' = ss_log s @ exchange_log e msg txn (Response b)"
proof (cases "decompile_adu_frame (ag_bytes e) b (AD_TYPE e)")
  case (Ok m)
  have "pdu_wf (pdu m)" using decompile_wf [OF assms(1) Ok] by simp
  moreover obtain t where "au_send e (ss_upstream s) (answer_frame e msg (pdu m)) = (t, Inr ())"
    using assms(3) by (metis surjective_pairing)
  ultimately show ?thesis
    using Ok compile_adu_frame_ok [OF assms(1)]
    by (simp add: return_async_def exchange_log_def answer_frame_def)
qed (use assms(2) in \<open>simp_all add: return_async_def exchange_log_def\<close>)

lemma forward_async_ok:
  assumes "heapless_ok (ag_bytes e)" "pdu_wf (pdu msg)" "normal_code (function_code (pdu msg))" "c < length dss"
    and "rt_rewrite router (unit_id_or_slave_addr msg) = Ok u" "exchange e (dss ! c) (forwarded_frame e msg txn u) = (d, x)"
    and "\<And>b. x = Response b \<Longrightarrow> decompile_adu_frame (ag_bytes e) b (AD_TYPE e) \<noteq> Panic" "\<forall>t f. snd (au_send e t f) = Inr ()"
  shows "\<exists>s'. forward_async e router txn c dss msg s = Ok (dss[c := d], s', Continues) \<and> ss_open s' = ss_open s \<and>
    ss_next_txn s' = ss_next_txn s \<and> ss_log s' = ss_log s @ FrameForwarded c (forwarded_frame e msg txn u) # exchange_log e msg txn x"
proof -
  note steps = forward_async_def assms(4-6) compile_adu_frame_ok [OF assms(1,2)] forwarded_frame_def [symmetric] Let_def
  let ?s = "note_event (FrameForwarded c (forwarded_frame e msg txn u)) s"
  show ?thesis
  proof (cases x)
    case (Response b)
    obtain s' where "return_async e msg ?s b = Ok (s', Continues)" "ss_open s' = ss_open s" "ss_next_txn s' = ss_next_txn s"
        "ss_log s' = ss_log s @ FrameForwarded c (forwarded_frame e msg txn u) # exchange_log e msg txn (Response b)"
      using return_async_ok [OF assms(1) assms(7) [OF Response] assms(8), of msg ?s txn] by auto
    then show ?thesis using Response by (simp add: steps)
  qed (use send_async_exception_ok [OF assms(1,3)] in \<open>auto simp: steps exchange_log_def\<close>)
qed

lemma async_round_request:
  assumes "au_recv e (ss_upstream s) = (t, Inr frame)" "decompile_adu_frame (ag_bytes e) frame (AU_TYPE e) = Ok msg"
    and "async_request e True router dss msg (s\<lparr>ss_upstream := t, ss_taken := ss_taken s @ [msg]\<rparr>) = Ok (dss', s', Continues)"
  shows "async_round e router dss s = Ok (dss', s')"
  using assms by (simp add: async_round_def frame_received_def)

lemma async_round_exchange:
  assumes "heapless_ok (ag_bytes e)" "\<forall>t f. snd (au_send e t f) = Inr ()"
    and "au_recv e (ss_upstream s) = (t, Inr frame)" "decompile_adu_frame (ag_bytes e) frame (AU_TYPE e) = Ok msg"
    and "rt_route router (unit_id_or_slave_addr msg) = Some c" "c < length dss" "rt_rewrite router (unit_id_or_slave_addr msg) = Ok u"
    and "exchange e (dss ! c) (forwarded_frame e msg (ss_next_txn s) u) = (d, x)"
    and "\<And>b. x = Response b \<Longrightarrow> decompile_adu_frame (ag_bytes e) b (AD_TYPE e) \<noteq> Panic"
  shows "\<exists>s'. async_round e router dss s = Ok (dss[c := d], s') \<and> ss_open s' = ss_open s \<and> ss_next_txn s' = ss_next_txn s + 1 \<and>
    ss_log s' = ss_log s @ [on_forward 0 (unit_id_or_slave_addr msg) c,
      FrameForwarded c (forwarded_frame e msg (ss_next_txn s) u)] @ exchange_log e msg (ss_next_txn s) x"
proof -
  have wf: "pdu_wf (pdu msg)" "normal_code (function_code (pdu msg))" using decompile_wf [OF assms(1,4)] by simp_all
  let ?s = "s\<lparr>ss_upstream := t, ss_taken := ss_taken s @ [msg]\<rparr>"
  let ?s1 = "note_event (on_forward 0 (unit_id_or_slave_addr msg) c) ?s\<lparr>ss_next_txn := ss_next_txn s + 1\<rparr>"
  from forward_async_ok [OF assms(1) wf assms(6-9,2), of ?s1] obtain s' where
    s': "forward_async e router (ss_next_txn s) c dss msg ?s1 = Ok (dss[c := d], s', Continues)" "ss_open s' = ss_open s"
      "ss_next_txn s' = ss_next_txn s + 1"
      "ss_log s' = ss_log s @ [on_forward 0 (unit_id_or_slave_addr msg) c,
        FrameForwarded c (forwarded_frame e msg (ss_next_txn s) u)] @ exchange_log e msg (ss_next_txn s) x"
    by (auto simp: note_event_def)
  moreover from s'(1) have "async_round e router dss s = Ok (dss[c := d], s')"
    using assms(5,6) by (intro async_round_request [OF assms(3,4)]) (simp add: async_request_def)
  ultimately show ?thesis by blast
qed

text \<open>
  C15: A round of an asynchronous gateway session with a request for a known channel: the channel gets the
  request with the number of the session and the rewritten unit, the number advances, and the upstream gets the
  response with its own transaction identifier and unit, the exception \<open>GatewayTargetDeviceFailedToRespond\<close>
  after a timeout, and nothing when the exchange fails otherwise or the response cannot be decoded. A
  request without a channel is answered by \<open>ServerDeviceFailure\<close>.
\<close>

theorem async_exchange:
  assumes "heapless_ok (ag_bytes e)" "\<forall>t f. snd (au_send e t f) = Inr ()"
    and "au_recv e (ss_upstream s) = (t, Inr frame)" "decompile_adu_frame (ag_bytes e) frame (AU_TYPE e) = Ok msg"
  shows "(\<forall>c u d x. rt_route router (unit_id_or_slave_addr msg) = Some c \<and> c < length dss \<and>
        rt_rewrite router (unit_id_or_slave_addr msg) = Ok u \<and>
        exchange e (dss ! c) (forwarded_frame e msg (ss_next_txn s) u) = (d, x) \<and>
        (\<forall>b. x = Response b \<longrightarrow> decompile_adu_frame (ag_bytes e) b (AD_TYPE e) \<noteq> Panic) \<longrightarrow>
      (\<exists>s'. async_round e router dss s = Ok (dss[c := d], s') \<and> ss_open s' = ss_open s \<and> ss_next_txn s' = ss_next_txn s + 1 \<and>
        ss_log s' = ss_log s @ [on_forward 0 (unit_id_or_slave_addr msg) c,
            FrameForwarded c (forwarded_frame e msg (ss_next_txn s) u)] @ exchange_log e msg (ss_next_txn s) x)) \<and>
    (rt_route router (unit_id_or_slave_addr msg) = None \<longrightarrow>
      (\<exists>s'. async_round e router dss s = Ok (dss, s') \<and> ss_open s' = ss_open s \<and> ss_log s' = ss_log s @
        [on_routing_miss 0 (unit_id_or_slave_addr msg), FrameReturned 0 (exception_frame e msg 0x04)])) \<and>
    (\<forall>c. rt_route router (unit_id_or_slave_addr msg) = Some c \<and> length dss \<le> c \<longrightarrow>
      (\<exists>s'. async_round e router dss s = Ok (dss, s') \<and> ss_open s' = ss_open s \<and> ss_log s' = ss_log s @
        [on_forward 0 (unit_id_or_slave_addr msg) c, FrameReturned 0 (exception_frame e msg 0x04)]))"
proof -
  have "normal_code (function_code (pdu msg))" using decompile_wf [OF assms(1,4)] by simp
  note refused = send_async_exception_ok [OF assms(1) this]
  note round = async_round_request [OF assms(3,4)]
  show ?thesis (is "?exchange \<and> ?miss \<and> ?range")
  proof (intro conjI)
    show ?exchange using async_round_exchange [OF assms] by blast
    show ?miss using refused by (auto intro!: exI round simp: async_request_def)
    show ?range using refused by (auto intro!: exI round simp: async_request_def)
  qed
qed


section \<open>A late response\<close>

definition client_a :: "bytes list async_session" where
  "client_a = async_session_new [tcp_frame 5 1 [3, 0, 0, 0, 1]]"

definition client_b :: "bytes list async_session" where
  "client_b = async_session_new [tcp_frame 9 2 [3, 0, 100, 0, 1]]"

lemma late_request:
  fixes bs :: bytes
  assumes "uid \<noteq> 0" "uid \<le> 247"
  defines "p \<equiv> pdu_new ReadHoldingRegisters bs (of_nat (length bs))"
  assumes "length bs \<le> 252"
  shows "decompile_adu_frame bounded_vec (tcp_frame txn uid (3 # bs)) StdTcp = Ok (modbus_message_new (mbap_of txn uid (3 # bs)) p)"
    "unit_id_or_slave_addr (modbus_message_new (mbap_of txn uid (3 # bs)) p) = UnitIdOrSlaveAddr uid"
    "message_transaction_id (modbus_message_new (mbap_of txn uid (3 # bs)) p) = txn"
proof -
  have "pdu_wf p" "normal_code (function_code p)" "error_code p = None" "pdu_body p = 3 # bs"
    using assms(4) by (simp_all add: p_def pdu_new_def pdu_wf_def normal_code_def pdu_body_def unsigned_of_nat take_bit_nat_eq_self)
  then show "decompile_adu_frame bounded_vec (tcp_frame txn uid (3 # bs)) StdTcp = Ok (modbus_message_new (mbap_of txn uid (3 # bs)) p)"
    using adu_framing.decode_normal [OF bounded_vec_ok, of StdTcp uid p txn] by (simp add: adu_addressable_def adu_address_def)
  show "unit_id_or_slave_addr (modbus_message_new (mbap_of txn uid (3 # bs)) p) = UnitIdOrSlaveAddr uid"
    "message_transaction_id (modbus_message_new (mbap_of txn uid (3 # bs)) p) = txn"
    using assms(1,2) by (auto simp: unit_id_or_slave_addr_def message_transaction_id_def modbus_message_new_def mbap_of_def
        mbap_header_new_def unit_id_try_from_def unit_id_new_def word_le_nat_alt)
      (metis One_nat_def Suc_leI unat_gt_0)
qed

definition msg_a :: ModbusMessage where
  "msg_a = modbus_message_new (mbap_of 5 1 [3, 0, 0, 0, 1]) (pdu_new ReadHoldingRegisters [0, 0, 0, 1] 4)"

lemma msg_a:
  "decompile_adu_frame bounded_vec (tcp_frame 5 1 [3, 0, 0, 0, 1]) StdTcp = Ok msg_a"
  "unit_id_or_slave_addr msg_a = UnitIdOrSlaveAddr 1" "message_transaction_id msg_a = 5"
  "pdu msg_a = pdu_new ReadHoldingRegisters [0, 0, 0, 1] 4"
  using late_request [of 1 "[0, 0, 0, 1]" 5] by (simp_all add: msg_a_def modbus_message_new_def)

definition msg_b :: ModbusMessage where
  "msg_b = modbus_message_new (mbap_of 9 2 [3, 0, 100, 0, 1]) (pdu_new ReadHoldingRegisters [0, 100, 0, 1] 4)"

lemma msg_b:
  "decompile_adu_frame bounded_vec (tcp_frame 9 2 [3, 0, 100, 0, 1]) StdTcp = Ok msg_b"
  "unit_id_or_slave_addr msg_b = UnitIdOrSlaveAddr 2" "message_transaction_id msg_b = 9"
  "pdu msg_b = pdu_new ReadHoldingRegisters [0, 100, 0, 1] 4"
  using late_request [of 2 "[0, 100, 0, 1]" 9] by (simp_all add: msg_b_def modbus_message_new_def)

lemma msg_late:
  "decompile_adu_frame bounded_vec (tcp_frame 0 1 [3, 2, 0, 7]) StdTcp =
     Ok (modbus_message_new (mbap_of 0 1 [3, 2, 0, 7]) (pdu_new ReadHoldingRegisters [2, 0, 7] 3))"
  "pdu_body (pdu_new ReadHoldingRegisters [2, 0, 7] 3) = [3, 2, 0, 7]"
  using late_request [of 1 "[2, 0, 7]" 0] by (simp_all add: pdu_new_def pdu_body_def)


theorem async_exchange_witness:
  "\<exists>s'. async_round late_env passthrough_router [[None]] client_a = Ok ([[]], s') \<and>
    ss_log s' = [on_forward 0 (UnitIdOrSlaveAddr 1) 0, FrameForwarded 0 (tcp_frame 0 1 [3, 0, 0, 0, 1]),
      on_downstream_timeout 0 0, FrameReturned 0 (tcp_frame 5 1 [0x83, 0x0B])]"
  using async_exchange [of late_env client_a "[]" "tcp_frame 5 1 [3, 0, 0, 0, 1]" msg_a passthrough_router "[[None]]"] msg_a
  by (auto simp: client_a_def async_session_new_def passthrough_router_def forwarded_frame_def exchange_log_def
      exception_frame_def pdu_new_def pdu_body_def)

text \<open>
  The run: both sessions connect, the request of the first is answered by an exception after the timeout, and the
  request of the second by the response that the device sent to the first.
\<close>

lemma late_run:
  defines "late \<equiv> tcp_frame 0 1 [3, 2, 0, 7]"
  shows "\<exists>g. async_run late_env passthrough_router [[None, Some late]] g \<and> length (ag_sessions g) = 2 \<and>
    sent_up (ss_log (ag_sessions g ! 0)) = [tcp_frame 5 1 [0x83, 0x0B]] \<and>
    sent_up (ss_log (ag_sessions g ! 1)) = [tcp_frame 9 2 [3, 2, 0, 7]]"
proof -
  let ?g0 = "\<lparr>ag_downstreams = [[None, Some late]], ag_sessions = [client_a, client_b]\<rparr>"
  have "async_run late_env passthrough_router [[None, Some late]] \<lparr>ag_downstreams = [[None, Some late]], ag_sessions = [client_a]\<rparr>"
    using run_step [OF run_start step_accept] by (simp add: client_a_def)
  from run_step [OF this step_accept [where t = "[tcp_frame 9 2 [3, 0, 100, 0, 1]]"]]
  have g0: "async_run late_env passthrough_router [[None, Some late]] ?g0" by (simp add: client_b_def)
  obtain a where a: "async_round late_env passthrough_router [[None, Some late]] client_a = Ok ([[Some late]], a)"
      "sent_up (ss_log a) = [tcp_frame 5 1 [0x83, 0x0B]]"
    using async_round_exchange [of late_env client_a "[]" "tcp_frame 5 1 [3, 0, 0, 0, 1]" msg_a passthrough_router 0 "[[None, Some late]]"
        "UnitIdOrSlaveAddr 1" "[Some late]" TimedOut] msg_a
    by (auto simp: client_a_def async_session_new_def passthrough_router_def exchange_log_def exception_frame_def pdu_new_def)
  from run_step [OF g0 step_round [of 0]] a
  have g1: "async_run late_env passthrough_router [[None, Some late]] \<lparr>ag_downstreams = [[Some late]], ag_sessions = [a, client_b]\<rparr>"
    by (simp add: client_a_def async_session_new_def)
  obtain b where b: "async_round late_env passthrough_router [[Some late]] client_b = Ok ([[]], b)"
      "sent_up (ss_log b) = [tcp_frame 9 2 [3, 2, 0, 7]]"
    using async_round_exchange [of late_env client_b "[]" "tcp_frame 9 2 [3, 0, 100, 0, 1]" msg_b passthrough_router 0 "[[Some late]]"
        "UnitIdOrSlaveAddr 2" "[]" "Response late"] msg_b msg_late
    by (auto simp: late_def client_b_def async_session_new_def passthrough_router_def exchange_log_def answer_frame_def modbus_message_new_def)
  from run_step [OF g1 step_round [of 1]] b
  have "async_run late_env passthrough_router [[None, Some late]] \<lparr>ag_downstreams = [[]], ag_sessions = [a, b]\<rparr>"
    by (simp add: client_b_def async_session_new_def)
  then show ?thesis using a(2) b(2) by fastforce
qed

theorem async_sessions_answered_witness:
  "\<exists>g asked. async_run late_env passthrough_router [[None, Some (tcp_frame 0 1 [3, 2, 0, 7])]] g \<and>
    sent_up (ss_log (ag_sessions g ! 1)) = [tcp_frame 9 2 [3, 2, 0, 7]] \<and> subseq asked (ss_taken (ag_sessions g ! 1)) \<and>
    list_all2 (\<lambda>msg f. \<exists>p. pdu_wf p \<and> f = answer_frame late_env msg p) asked [tcp_frame 9 2 [3, 2, 0, 7]]"
proof -
  obtain g where g: "async_run late_env passthrough_router [[None, Some (tcp_frame 0 1 [3, 2, 0, 7])]] g" "length (ag_sessions g) = 2"
      "sent_up (ss_log (ag_sessions g ! 1)) = [tcp_frame 9 2 [3, 2, 0, 7]]"
    using late_run by blast
  have "ag_sessions g ! 1 \<in> set (ag_sessions g)" using g(2) by simp
  from async_sessions_answered [OF _ g(1) this] obtain asked where "subseq asked (ss_taken (ag_sessions g ! 1))"
      "list_all2 (\<lambda>msg f. \<exists>p. pdu_wf p \<and> f = answer_frame late_env msg p) asked [tcp_frame 9 2 [3, 2, 0, 7]]"
    unfolding g(3) by auto
  then show ?thesis using g(1,3) by (intro exI conjI)
qed

end
