(* ===== verification/Async_Requests.thy ===== *)
theory Async_Requests
  imports Client_Requests
begin

text \<open>
  The requests of the asynchronous client and their frames (mbus-async/src/client/command.rs and
  encode.rs), and their comparison with the frames of the synchronous client. The constructors of the
  enumeration have the prefix \<open>Q\<close>, as the code abbreviates it. A function that panics when its
  iterator is longer than the capacity (\<open>collect\<close> into a vector of \<open>heapless\<close>) has the case \<open>Panic\<close>.
\<close>

section \<open>Requests\<close>

datatype AsyncRequest =
    Q_ReadMultipleCoils UnitIdOrSlaveAddr u16 u16
  | Q_WriteSingleCoil UnitIdOrSlaveAddr u16 bool
  | Q_WriteMultipleCoils UnitIdOrSlaveAddr u16 Coils
  | Q_ReadHoldingRegisters UnitIdOrSlaveAddr u16 u16
  | Q_ReadInputRegisters UnitIdOrSlaveAddr u16 u16
  | Q_WriteSingleRegister UnitIdOrSlaveAddr u16 u16
  | Q_WriteMultipleRegisters UnitIdOrSlaveAddr u16 "u16 list"
  | Q_ReadWriteMultipleRegisters UnitIdOrSlaveAddr u16 u16 u16 "u16 list"
  | Q_MaskWriteRegister UnitIdOrSlaveAddr u16 u16 u16
  | Q_ReadDiscreteInputs UnitIdOrSlaveAddr u16 u16
  | Q_ReadFifoQueue UnitIdOrSlaveAddr u16
  | Q_ReadFileRecord UnitIdOrSlaveAddr SubRequest
  | Q_WriteFileRecord UnitIdOrSlaveAddr SubRequest
  | Q_ReadDeviceIdentification UnitIdOrSlaveAddr ReadDeviceIdCode ObjectId
  | Q_EncapsulatedInterfaceTransport UnitIdOrSlaveAddr EncapsulatedInterfaceType bytes
  | Q_ReadExceptionStatus UnitIdOrSlaveAddr
  | Q_Diagnostics UnitIdOrSlaveAddr DiagnosticSubFunction "u16 list"
  | Q_GetCommEventCounter UnitIdOrSlaveAddr
  | Q_GetCommEventLog UnitIdOrSlaveAddr
  | Q_ReportServerId UnitIdOrSlaveAddr

fun async_request_unit :: "AsyncRequest \<Rightarrow> UnitIdOrSlaveAddr" where
  "async_request_unit (Q_ReadMultipleCoils unit _ _) = unit"
| "async_request_unit (Q_WriteSingleCoil unit _ _) = unit"
| "async_request_unit (Q_WriteMultipleCoils unit _ _) = unit"
| "async_request_unit (Q_ReadHoldingRegisters unit _ _) = unit"
| "async_request_unit (Q_ReadInputRegisters unit _ _) = unit"
| "async_request_unit (Q_WriteSingleRegister unit _ _) = unit"
| "async_request_unit (Q_WriteMultipleRegisters unit _ _) = unit"
| "async_request_unit (Q_ReadWriteMultipleRegisters unit _ _ _ _) = unit"
| "async_request_unit (Q_MaskWriteRegister unit _ _ _) = unit"
| "async_request_unit (Q_ReadDiscreteInputs unit _ _) = unit"
| "async_request_unit (Q_ReadFifoQueue unit _) = unit"
| "async_request_unit (Q_ReadFileRecord unit _) = unit"
| "async_request_unit (Q_WriteFileRecord unit _) = unit"
| "async_request_unit (Q_ReadDeviceIdentification unit _ _) = unit"
| "async_request_unit (Q_EncapsulatedInterfaceTransport unit _ _) = unit"
| "async_request_unit (Q_ReadExceptionStatus unit) = unit"
| "async_request_unit (Q_Diagnostics unit _ _) = unit"
| "async_request_unit (Q_GetCommEventCounter unit) = unit"
| "async_request_unit (Q_GetCommEventLog unit) = unit"
| "async_request_unit (Q_ReportServerId unit) = unit"

section \<open>Frames\<close>

definition encode_read_coils ::
    "u8 heapless \<Rightarrow> u16 \<Rightarrow> UnitIdOrSlaveAddr \<Rightarrow> u16 \<Rightarrow> u16 \<Rightarrow> TransportType \<Rightarrow> bytes result" where
  "encode_read_coils hv txn_id unit address quantity tt =
     (if \<not> (1 \<le> quantity \<and> quantity \<le> 2000) then Err InvalidQuantity
      else bind_res (build_read_window hv ReadCoils address quantity) (\<lambda>p.
           compile_adu_frame hv txn_id (uid_get unit) p tt))"

definition encode_write_single_coil ::
    "u8 heapless \<Rightarrow> u16 \<Rightarrow> UnitIdOrSlaveAddr \<Rightarrow> u16 \<Rightarrow> bool \<Rightarrow> TransportType \<Rightarrow> bytes result" where
  "encode_write_single_coil hv txn_id unit address v tt =
     (let coil_value = if v then 0xFF00 else 0x0000 in
      bind_res (build_write_single_u16 hv WriteSingleCoil address coil_value) (\<lambda>p.
      compile_adu_frame hv txn_id (uid_get unit) p tt))"

definition encode_write_multiple_coils ::
    "u8 heapless \<Rightarrow> u16 \<Rightarrow> UnitIdOrSlaveAddr \<Rightarrow> u16 \<Rightarrow> Coils \<Rightarrow> TransportType \<Rightarrow> bytes result" where
  "encode_write_multiple_coils hv txn_id unit address coils tt =
     (let quantity = coils_quantity coils in
      if \<not> (1 \<le> quantity \<and> quantity \<le> 1968) then Err InvalidPduLength
      else
        let byte_count = div_ceil (unat quantity) 8 in
        bind_res (slice_to (coils_values coils) byte_count) (\<lambda>vs.
        bind_res (build_write_multiple hv WriteMultipleCoils address quantity vs) (\<lambda>p.
        compile_adu_frame hv txn_id (uid_get unit) p tt)))"

definition encode_read_holding_registers ::
    "u8 heapless \<Rightarrow> u16 \<Rightarrow> UnitIdOrSlaveAddr \<Rightarrow> u16 \<Rightarrow> u16 \<Rightarrow> TransportType \<Rightarrow> bytes result" where
  "encode_read_holding_registers hv txn_id unit address quantity tt =
     (if \<not> (1 \<le> quantity \<and> quantity \<le> 125) then Err InvalidQuantity
      else bind_res (build_read_window hv ReadHoldingRegisters address quantity) (\<lambda>p.
           compile_adu_frame hv txn_id (uid_get unit) p tt))"

definition encode_read_input_registers ::
    "u8 heapless \<Rightarrow> u16 \<Rightarrow> UnitIdOrSlaveAddr \<Rightarrow> u16 \<Rightarrow> u16 \<Rightarrow> TransportType \<Rightarrow> bytes result" where
  "encode_read_input_registers hv txn_id unit address quantity tt =
     (if \<not> (1 \<le> quantity \<and> quantity \<le> 125) then Err InvalidQuantity
      else bind_res (build_read_window hv ReadInputRegisters address quantity) (\<lambda>p.
           compile_adu_frame hv txn_id (uid_get unit) p tt))"

definition encode_write_single_register ::
    "u8 heapless \<Rightarrow> u16 \<Rightarrow> UnitIdOrSlaveAddr \<Rightarrow> u16 \<Rightarrow> u16 \<Rightarrow> TransportType \<Rightarrow> bytes result" where
  "encode_write_single_register hv txn_id unit address v tt =
     bind_res (build_write_single_u16 hv WriteSingleRegister address v) (\<lambda>p.
     compile_adu_frame hv txn_id (uid_get unit) p tt)"

text \<open>\<open>values.iter().flat_map(|v| v.to_be_bytes()).collect()\<close> into a vector of 513 bytes.\<close>

definition collect_byte_pairs :: "u8 heapless \<Rightarrow> u16 list \<Rightarrow> bytes result" where
  "collect_byte_pairs hv vals = or_panic (hv_extend hv MAX_ADU_FRAME_LEN [] (concat (map u16_to_be_bytes vals)))"

definition encode_write_multiple_registers ::
    "u8 heapless \<Rightarrow> u16 \<Rightarrow> UnitIdOrSlaveAddr \<Rightarrow> u16 \<Rightarrow> u16 list \<Rightarrow> TransportType \<Rightarrow> bytes result" where
  "encode_write_multiple_registers hv txn_id unit address vals tt =
     (let quantity = of_nat (length vals) in
      if \<not> (1 \<le> quantity \<and> quantity \<le> 123) then Err InvalidQuantity
      else bind_res (collect_byte_pairs hv vals) (\<lambda>byte_pairs.
           bind_res (build_write_multiple hv WriteMultipleRegisters address quantity byte_pairs) (\<lambda>p.
           compile_adu_frame hv txn_id (uid_get unit) p tt)))"

definition encode_read_write_multiple_registers ::
    "u8 heapless \<Rightarrow> u16 \<Rightarrow> UnitIdOrSlaveAddr \<Rightarrow> u16 \<Rightarrow> u16 \<Rightarrow> u16 \<Rightarrow> u16 list \<Rightarrow> TransportType \<Rightarrow> bytes result" where
  "encode_read_write_multiple_registers hv txn_id unit read_address read_quantity write_address write_values tt =
     (let write_quantity = of_nat (length write_values) in
      bind_res (collect_byte_pairs hv write_values) (\<lambda>byte_pairs.
      bind_res (build_read_write_multiple hv read_address read_quantity write_address write_quantity byte_pairs) (\<lambda>p.
      compile_adu_frame hv txn_id (uid_get unit) p tt)))"

definition encode_mask_write_register ::
    "u8 heapless \<Rightarrow> u16 \<Rightarrow> UnitIdOrSlaveAddr \<Rightarrow> u16 \<Rightarrow> u16 \<Rightarrow> u16 \<Rightarrow> TransportType \<Rightarrow> bytes result" where
  "encode_mask_write_register hv txn_id unit address and_mask or_mask tt =
     bind_res (build_mask_write_register hv address and_mask or_mask) (\<lambda>p.
     compile_adu_frame hv txn_id (uid_get unit) p tt)"

definition encode_read_discrete_inputs ::
    "u8 heapless \<Rightarrow> u16 \<Rightarrow> UnitIdOrSlaveAddr \<Rightarrow> u16 \<Rightarrow> u16 \<Rightarrow> TransportType \<Rightarrow> bytes result" where
  "encode_read_discrete_inputs hv txn_id unit address quantity tt =
     (if \<not> (1 \<le> quantity \<and> quantity \<le> 2000) then Err InvalidQuantity
      else bind_res (build_read_window hv ReadDiscreteInputs address quantity) (\<lambda>p.
           compile_adu_frame hv txn_id (uid_get unit) p tt))"

definition encode_read_fifo_queue ::
    "u8 heapless \<Rightarrow> u16 \<Rightarrow> UnitIdOrSlaveAddr \<Rightarrow> u16 \<Rightarrow> TransportType \<Rightarrow> bytes result" where
  "encode_read_fifo_queue hv txn_id unit address tt =
     bind_res (build_u16_payload hv ReadFifoQueue address) (\<lambda>p.
     compile_adu_frame hv txn_id (uid_get unit) p tt)"

definition encode_read_file_record ::
    "u8 heapless \<Rightarrow> u16 \<Rightarrow> UnitIdOrSlaveAddr \<Rightarrow> SubRequest \<Rightarrow> TransportType \<Rightarrow> bytes result" where
  "encode_read_file_record hv txn_id unit sub_request tt =
     bind_res (to_sub_req_pdu_bytes hv sub_request) (\<lambda>payload_bytes.
     compile_adu_frame hv txn_id (uid_get unit)
       (pdu_new ReadFileRecord payload_bytes (of_nat (length payload_bytes))) tt)"

definition encode_write_file_record ::
    "u8 heapless \<Rightarrow> u16 \<Rightarrow> UnitIdOrSlaveAddr \<Rightarrow> SubRequest \<Rightarrow> TransportType \<Rightarrow> bytes result" where
  "encode_write_file_record hv txn_id unit sub_request tt =
     bind_res (to_sub_req_pdu_bytes hv sub_request) (\<lambda>payload_bytes.
     compile_adu_frame hv txn_id (uid_get unit)
       (pdu_new WriteFileRecord payload_bytes (of_nat (length payload_bytes))) tt)"

definition encode_read_device_identification ::
    "u8 heapless \<Rightarrow> u16 \<Rightarrow> UnitIdOrSlaveAddr \<Rightarrow> ReadDeviceIdCode \<Rightarrow> ObjectId \<Rightarrow> TransportType \<Rightarrow> bytes result" where
  "encode_read_device_identification hv txn_id unit read_device_id_code oid tt =
     (let payload = [read_device_id_code_u8 read_device_id_code, object_id_u8 oid] in
      bind_res (build_mei_type hv EncapsulatedInterfaceTransport
          (encapsulated_interface_type_u8 ReadDeviceIdentification) payload) (\<lambda>p.
      compile_adu_frame hv txn_id (uid_get unit) p tt))"

definition encode_encapsulated_interface_transport ::
    "u8 heapless \<Rightarrow> u16 \<Rightarrow> UnitIdOrSlaveAddr \<Rightarrow> EncapsulatedInterfaceType \<Rightarrow> bytes \<Rightarrow> TransportType \<Rightarrow> bytes result" where
  "encode_encapsulated_interface_transport hv txn_id unit mei_type payload tt =
     bind_res (build_mei_type hv EncapsulatedInterfaceTransport (encapsulated_interface_type_u8 mei_type) payload) (\<lambda>p.
     compile_adu_frame hv txn_id (uid_get unit) p tt)"

definition encode_read_exception_status :: "u8 heapless \<Rightarrow> UnitIdOrSlaveAddr \<Rightarrow> TransportType \<Rightarrow> bytes result" where
  "encode_read_exception_status hv unit tt =
     compile_adu_frame hv 0 (uid_get unit) (build_empty ReadExceptionStatus) tt"

definition encode_diagnostics ::
    "u8 heapless \<Rightarrow> UnitIdOrSlaveAddr \<Rightarrow> DiagnosticSubFunction \<Rightarrow> u16 list \<Rightarrow> TransportType \<Rightarrow> bytes result" where
  "encode_diagnostics hv unit sub_function words tt =
     bind_res (build_sub_function hv Diagnostics (diagnostic_sub_function_u16 sub_function) words) (\<lambda>p.
     compile_adu_frame hv 0 (uid_get unit) p tt)"

definition encode_get_comm_event_counter :: "u8 heapless \<Rightarrow> UnitIdOrSlaveAddr \<Rightarrow> TransportType \<Rightarrow> bytes result" where
  "encode_get_comm_event_counter hv unit tt =
     compile_adu_frame hv 0 (uid_get unit) (build_empty GetCommEventCounter) tt"

definition encode_get_comm_event_log :: "u8 heapless \<Rightarrow> UnitIdOrSlaveAddr \<Rightarrow> TransportType \<Rightarrow> bytes result" where
  "encode_get_comm_event_log hv unit tt =
     compile_adu_frame hv 0 (uid_get unit) (build_empty GetCommEventLog) tt"

definition encode_report_server_id :: "u8 heapless \<Rightarrow> UnitIdOrSlaveAddr \<Rightarrow> TransportType \<Rightarrow> bytes result" where
  "encode_report_server_id hv unit tt =
     compile_adu_frame hv 0 (uid_get unit) (build_empty ReportServerId) tt"

fun encode_request :: "u8 heapless \<Rightarrow> u16 \<Rightarrow> AsyncRequest \<Rightarrow> TransportType \<Rightarrow> bytes result" where
  "encode_request hv txn (Q_ReadMultipleCoils unit a q) tt = encode_read_coils hv txn unit a q tt"
| "encode_request hv txn (Q_WriteSingleCoil unit a v) tt = encode_write_single_coil hv txn unit a v tt"
| "encode_request hv txn (Q_WriteMultipleCoils unit a c) tt = encode_write_multiple_coils hv txn unit a c tt"
| "encode_request hv txn (Q_ReadHoldingRegisters unit a q) tt = encode_read_holding_registers hv txn unit a q tt"
| "encode_request hv txn (Q_ReadInputRegisters unit a q) tt = encode_read_input_registers hv txn unit a q tt"
| "encode_request hv txn (Q_WriteSingleRegister unit a v) tt = encode_write_single_register hv txn unit a v tt"
| "encode_request hv txn (Q_WriteMultipleRegisters unit a vs) tt = encode_write_multiple_registers hv txn unit a vs tt"
| "encode_request hv txn (Q_ReadWriteMultipleRegisters unit ra rq wa vs) tt =
     encode_read_write_multiple_registers hv txn unit ra rq wa vs tt"
| "encode_request hv txn (Q_MaskWriteRegister unit a am om) tt = encode_mask_write_register hv txn unit a am om tt"
| "encode_request hv txn (Q_ReadDiscreteInputs unit a q) tt = encode_read_discrete_inputs hv txn unit a q tt"
| "encode_request hv txn (Q_ReadFifoQueue unit a) tt = encode_read_fifo_queue hv txn unit a tt"
| "encode_request hv txn (Q_ReadFileRecord unit s) tt = encode_read_file_record hv txn unit s tt"
| "encode_request hv txn (Q_WriteFileRecord unit s) tt = encode_write_file_record hv txn unit s tt"
| "encode_request hv txn (Q_ReadDeviceIdentification unit c oid) tt = encode_read_device_identification hv txn unit c oid tt"
| "encode_request hv txn (Q_EncapsulatedInterfaceTransport unit t d) tt =
     encode_encapsulated_interface_transport hv txn unit t d tt"
| "encode_request hv txn (Q_ReadExceptionStatus unit) tt = encode_read_exception_status hv unit tt"
| "encode_request hv txn (Q_Diagnostics unit sf ws) tt = encode_diagnostics hv unit sf ws tt"
| "encode_request hv txn (Q_GetCommEventCounter unit) tt = encode_get_comm_event_counter hv unit tt"
| "encode_request hv txn (Q_GetCommEventLog unit) tt = encode_get_comm_event_log hv unit tt"
| "encode_request hv txn (Q_ReportServerId unit) tt = encode_report_server_id hv unit tt"

section \<open>The frames of the synchronous client\<close>

text \<open>The call of the \<open>ServiceBuilder\<close> with the same parameters.\<close>

fun sync_frame :: "u8 heapless \<Rightarrow> u16 \<Rightarrow> AsyncRequest \<Rightarrow> TransportType \<Rightarrow> bytes result" where
  "sync_frame hv txn (Q_ReadMultipleCoils unit a q) tt = service_read_coils hv txn (uid_get unit) a q tt"
| "sync_frame hv txn (Q_WriteSingleCoil unit a v) tt = service_write_single_coil hv txn (uid_get unit) a v tt"
| "sync_frame hv txn (Q_WriteMultipleCoils unit a c) tt =
     service_write_multiple_coils hv txn (uid_get unit) a (coils_quantity c) c tt"
| "sync_frame hv txn (Q_ReadHoldingRegisters unit a q) tt = service_read_holding_registers hv txn (uid_get unit) a q tt"
| "sync_frame hv txn (Q_ReadInputRegisters unit a q) tt = service_read_input_registers hv txn (uid_get unit) a q tt"
| "sync_frame hv txn (Q_WriteSingleRegister unit a v) tt = service_write_single_register hv txn (uid_get unit) a v tt"
| "sync_frame hv txn (Q_WriteMultipleRegisters unit a vs) tt =
     service_write_multiple_registers hv txn (uid_get unit) a (of_nat (length vs)) vs tt"
| "sync_frame hv txn (Q_ReadWriteMultipleRegisters unit ra rq wa vs) tt =
     service_read_write_multiple_registers hv txn (uid_get unit) ra rq wa vs tt"
| "sync_frame hv txn (Q_MaskWriteRegister unit a am om) tt = service_mask_write_register hv txn (uid_get unit) a am om tt"
| "sync_frame hv txn (Q_ReadDiscreteInputs unit a q) tt = service_read_discrete_inputs hv txn (uid_get unit) a q tt"
| "sync_frame hv txn (Q_ReadFifoQueue unit a) tt = service_read_fifo_queue hv txn (uid_get unit) a tt"
| "sync_frame hv txn (Q_ReadFileRecord unit s) tt = service_read_file_record hv txn (uid_get unit) s tt"
| "sync_frame hv txn (Q_WriteFileRecord unit s) tt = service_write_file_record hv txn (uid_get unit) s tt"
| "sync_frame hv txn (Q_ReadDeviceIdentification unit c oid) tt =
     service_read_device_identification hv txn (uid_get unit) c oid tt"
| "sync_frame hv txn (Q_EncapsulatedInterfaceTransport unit t d) tt =
     service_encapsulated_interface_transport hv txn (uid_get unit) t d tt"
| "sync_frame hv txn (Q_ReadExceptionStatus unit) tt = service_read_exception_status hv (uid_get unit) tt"
| "sync_frame hv txn (Q_Diagnostics unit sf ws) tt = service_diagnostics hv (uid_get unit) sf ws tt"
| "sync_frame hv txn (Q_GetCommEventCounter unit) tt = service_get_comm_event_counter hv (uid_get unit) tt"
| "sync_frame hv txn (Q_GetCommEventLog unit) tt = service_get_comm_event_log hv (uid_get unit) tt"
| "sync_frame hv txn (Q_ReportServerId unit) tt = service_report_server_id hv (uid_get unit) tt"

text \<open>What the synchronous client checks and the asynchronous one does not.\<close>

fun sync_checks :: "TransportType \<Rightarrow> AsyncRequest \<Rightarrow> bool" where
  "sync_checks tt (Q_ReadWriteMultipleRegisters unit ra rq wa vs) \<longleftrightarrow> 1 \<le> rq \<and> rq \<le> 125 \<and> vs \<noteq> []"
| "sync_checks tt (Q_ReadExceptionStatus unit) \<longleftrightarrow> \<not> is_tcp_type tt"
| "sync_checks tt (Q_Diagnostics unit sf ws) \<longleftrightarrow> \<not> is_tcp_type tt"
| "sync_checks tt (Q_GetCommEventCounter unit) \<longleftrightarrow> \<not> is_tcp_type tt"
| "sync_checks tt (Q_GetCommEventLog unit) \<longleftrightarrow> \<not> is_tcp_type tt"
| "sync_checks tt (Q_ReportServerId unit) \<longleftrightarrow> \<not> is_tcp_type tt"
| "sync_checks tt q \<longleftrightarrow> True"

text \<open>The capacities of the vectors and arrays in a request.\<close>

fun async_request_ok :: "AsyncRequest \<Rightarrow> bool" where
  "async_request_ok (Q_WriteMultipleCoils unit a c) \<longleftrightarrow> length (coils_values c) = 250"
| "async_request_ok (Q_WriteMultipleRegisters unit a vs) \<longleftrightarrow> length vs \<le> 252"
| "async_request_ok (Q_ReadWriteMultipleRegisters unit ra rq wa vs) \<longleftrightarrow> length vs \<le> 252"
| "async_request_ok (Q_ReadFileRecord unit s) \<longleftrightarrow> byte_count s \<le> 251"
| "async_request_ok (Q_WriteFileRecord unit s) \<longleftrightarrow> byte_count s \<le> 251"
| "async_request_ok q \<longleftrightarrow> True"

lemma length_be_pairs [simp]: "length (concat (map u16_to_be_bytes ws)) = 2 * length ws"
  by (induction ws) (simp_all add: u16_to_be_bytes_def)

lemma collect_byte_pairs_ok:
  "heapless_ok hv \<Longrightarrow> length ws \<le> 252 \<Longrightarrow> collect_byte_pairs hv ws = Ok (words_bytes ws)"
  by (simp add: collect_byte_pairs_def words_bytes_def)

lemma encode_write_registers_as_sync:
  assumes "heapless_ok hv" "length vs \<le> 252"
  shows "service_write_multiple_registers hv txn (uid_get unit) a (of_nat (length vs)) vs tt = Ok f \<longleftrightarrow>
    encode_write_multiple_registers hv txn unit a vs tt = Ok f"
proof -
  have q: "(of_nat (length vs) :: u16) \<le> 123 \<longleftrightarrow> length vs \<le> 123"
    using assms(2) by (simp add: word_le_nat_alt unsigned_of_nat take_bit_nat_eq_self)
  show ?thesis
    using assms q put_words_ok [OF assms(1), of "[]" vs]
    by (auto simp: service_write_multiple_registers_def write_multiple_registers_request_def
        encode_write_multiple_registers_def Let_def collect_byte_pairs_ok split: if_splits)
qed

lemma encode_read_write_as_sync:
  assumes "heapless_ok hv" "length vs \<le> 252"
  shows "service_read_write_multiple_registers hv txn (uid_get unit) ra rq wa vs tt = Ok f \<longleftrightarrow>
    1 \<le> rq \<and> rq \<le> 125 \<and> vs \<noteq> [] \<and> encode_read_write_multiple_registers hv txn unit ra rq wa vs tt = Ok f"
proof -
  have n: "unat (of_nat (length vs) :: u16) = length vs"
    using assms(2) by (simp add: unsigned_of_nat take_bit_nat_eq_self)
  have q: "1 \<le> (of_nat (length vs) :: u16) \<longleftrightarrow> vs \<noteq> []" "(of_nat (length vs) :: u16) \<le> 121 \<longleftrightarrow> length vs \<le> 121"
    using n by (simp_all add: word_le_nat_alt Suc_le_eq)
  show ?thesis
  proof (cases "length vs \<le> 121")
    case True
    then show ?thesis
      using assms q put_words_ok [OF assms(1), of "[]" vs]
      by (auto simp: service_read_write_multiple_registers_def read_write_multiple_registers_request_def
          encode_read_write_multiple_registers_def Let_def collect_byte_pairs_ok)
  next
    case False
    then have "build_read_write_multiple hv ra rq wa n (words_bytes vs) \<noteq> Ok p" for n p
      using assms(1) by (simp add: build_read_write_multiple_eq words_bytes_def)
    then show ?thesis
      using False assms q
      by (auto simp: service_read_write_multiple_registers_def read_write_multiple_registers_request_def
          encode_read_write_multiple_registers_def Let_def collect_byte_pairs_ok res_simps)
  qed
qed

lemma serial_requests_as_sync:
  assumes "heapless_ok hv"
  shows "service_diagnostics hv (uid_get unit) sf ws tt = Ok f \<longleftrightarrow> \<not> is_tcp_type tt \<and> encode_diagnostics hv unit sf ws tt = Ok f"
    and "service_read_exception_status hv (uid_get unit) tt = Ok f \<longleftrightarrow> \<not> is_tcp_type tt \<and> encode_read_exception_status hv unit tt = Ok f"
    and "service_get_comm_event_counter hv (uid_get unit) tt = Ok f \<longleftrightarrow> \<not> is_tcp_type tt \<and> encode_get_comm_event_counter hv unit tt = Ok f"
    and "service_get_comm_event_log hv (uid_get unit) tt = Ok f \<longleftrightarrow> \<not> is_tcp_type tt \<and> encode_get_comm_event_log hv unit tt = Ok f"
    and "service_report_server_id hv (uid_get unit) tt = Ok f \<longleftrightarrow> \<not> is_tcp_type tt \<and> encode_report_server_id hv unit tt = Ok f"
proof -
  have check: "check_serial tt = (if is_tcp_type tt then Err InvalidTransport else Ok ())"
    by (cases tt) (simp_all add: check_serial_def)
  show "service_diagnostics hv (uid_get unit) sf ws tt = Ok f \<longleftrightarrow> \<not> is_tcp_type tt \<and> encode_diagnostics hv unit sf ws tt = Ok f"
    using assms by (auto simp: service_diagnostics_def diagnostics_request_def encode_diagnostics_def check build_sub_function_eq)
  show "service_read_exception_status hv (uid_get unit) tt = Ok f \<longleftrightarrow> \<not> is_tcp_type tt \<and> encode_read_exception_status hv unit tt = Ok f"
    "service_get_comm_event_counter hv (uid_get unit) tt = Ok f \<longleftrightarrow> \<not> is_tcp_type tt \<and> encode_get_comm_event_counter hv unit tt = Ok f"
    "service_get_comm_event_log hv (uid_get unit) tt = Ok f \<longleftrightarrow> \<not> is_tcp_type tt \<and> encode_get_comm_event_log hv unit tt = Ok f"
    "service_report_server_id hv (uid_get unit) tt = Ok f \<longleftrightarrow> \<not> is_tcp_type tt \<and> encode_report_server_id hv unit tt = Ok f"
    by (auto simp: check
        service_read_exception_status_def read_exception_status_request_def encode_read_exception_status_def
        service_get_comm_event_counter_def get_comm_event_counter_request_def encode_get_comm_event_counter_def
        service_get_comm_event_log_def get_comm_event_log_request_def encode_get_comm_event_log_def
        service_report_server_id_def report_server_id_request_def encode_report_server_id_def)
qed

lemmas plain_request_defs =
  service_read_coils_def read_coils_request_def encode_read_coils_def
  service_write_single_coil_def write_single_coil_request_def encode_write_single_coil_def
  service_write_multiple_coils_def write_multiple_coils_request_def encode_write_multiple_coils_def
  service_read_holding_registers_def read_holding_registers_request_def encode_read_holding_registers_def
  service_read_input_registers_def read_input_registers_request_def encode_read_input_registers_def
  service_write_single_register_def write_single_register_request_def encode_write_single_register_def
  service_mask_write_register_def mask_write_register_request_def encode_mask_write_register_def
  service_read_discrete_inputs_def read_discrete_inputs_request_def encode_read_discrete_inputs_def
  service_read_fifo_queue_def read_fifo_queue_request_def encode_read_fifo_queue_def
  service_read_file_record_def read_file_record_request_def encode_read_file_record_def
  service_write_file_record_def write_file_record_request_def encode_write_file_record_def
  service_read_device_identification_def read_device_identification_request_def encode_read_device_identification_def
  service_encapsulated_interface_transport_def encapsulated_interface_transport_request_def
  encode_encapsulated_interface_transport_def

text \<open>
  C35: The asynchronous client builds the frames of the synchronous client: with the same parameters, the
  synchronous client sends a frame exactly when the asynchronous one encodes this frame and the request passes
  the checks that the asynchronous client leaves out, the quantities of a read-write request and the
  transport of the serial-only requests.
\<close>

theorem async_frames_as_sync:
  assumes "heapless_ok hv" "async_request_ok q"
  shows "sync_frame hv txn q tt = Ok f \<longleftrightarrow> sync_checks tt q \<and> encode_request hv txn q tt = Ok f"
  using assms encode_write_registers_as_sync [OF assms(1)] encode_read_write_as_sync [OF assms(1)] serial_requests_as_sync [OF assms(1)]
  by (cases q) (auto simp: plain_request_defs Let_def)

theorem async_frames_as_sync_witness:
  "encode_request bounded_vec 7 (Q_ReadWriteMultipleRegisters (UnitIdOrSlaveAddr 17) 0 200 10 [1]) StdTcp =
      Ok (tcp_frame 7 17 [23, 0, 0, 0, 200, 0, 10, 0, 1, 2, 0, 1]) \<and>
    sync_frame bounded_vec 7 (Q_ReadWriteMultipleRegisters (UnitIdOrSlaveAddr 17) 0 200 10 [1]) StdTcp \<noteq>
      Ok (tcp_frame 7 17 [23, 0, 0, 0, 200, 0, 10, 0, 1, 2, 0, 1])"
proof
  let ?q = "Q_ReadWriteMultipleRegisters (UnitIdOrSlaveAddr 17) 0 200 10 [1]"
  have "collect_byte_pairs bounded_vec [1] = Ok [0, 1]"
    by (simp add: collect_byte_pairs_def u16_to_be_bytes_def)
  then show "encode_request bounded_vec 7 ?q StdTcp = Ok (tcp_frame 7 17 [23, 0, 0, 0, 200, 0, 10, 0, 1, 2, 0, 1])"
    by (simp add: encode_read_write_multiple_registers_def build_read_write_multiple_eq compile_adu_frame_ok pdu_wf_def
        pdu_body_def u16_to_be_bytes_def)
  show "sync_frame bounded_vec 7 ?q StdTcp \<noteq> Ok (tcp_frame 7 17 [23, 0, 0, 0, 200, 0, 10, 0, 1, 2, 0, 1])"
    using async_frames_as_sync [OF bounded_vec_ok, of ?q 7 StdTcp] by (simp add: word_le_nat_alt del: sync_frame.simps)
qed

section \<open>Encoding\<close>

lemma to_sub_req_length:
  "heapless_ok hv \<Longrightarrow> byte_count s \<le> 251 \<Longrightarrow> to_sub_req_pdu_bytes hv s = Ok bs \<Longrightarrow> length bs \<le> 252"
  by (auto simp: to_sub_req_pdu_bytes_ok byte_count_eq)

lemma builders_no_panic:
  assumes "heapless_ok hv"
  shows "build_read_window hv fc a n \<noteq> Panic" "build_write_single_u16 hv fc a v \<noteq> Panic" "build_write_multiple hv fc a n vs \<noteq> Panic"
    "build_mask_write_register hv a am om \<noteq> Panic" "build_read_write_multiple hv a n wa wn vs \<noteq> Panic"
    "build_sub_function hv fc sf ws \<noteq> Panic" "build_mei_type hv fc t vs \<noteq> Panic" "build_u16_payload hv fc v \<noteq> Panic"
  using assms
  by (simp_all add: build_eqs build_read_window_def build_write_single_u16_def build_mask_write_register_def build_u16_payload_def)

text \<open>A request is encoded, or rejected with an error; it never panics.\<close>

lemma encode_request_total:
  assumes "heapless_ok hv" "async_request_ok q"
  shows "encode_request hv txn q tt \<noteq> Panic"
proof -
  have compiled: "pdu_wf p \<Longrightarrow> compile_adu_frame hv t u p tt \<noteq> Panic" for p t u
    by (simp add: compile_adu_frame_ok [OF assms(1)])
  have framed: "b \<noteq> Panic \<Longrightarrow> (\<And>p. b = Ok p \<Longrightarrow> pdu_wf p) \<Longrightarrow>
      bind_res b (\<lambda>p. compile_adu_frame hv t u p tt) \<noteq> Panic" for b t u
    using compiled by (cases b) auto
  note built = builders_no_panic [OF assms(1)] build_wf [OF assms(1)]
  have sub_request: "bind_res (to_sub_req_pdu_bytes hv r) (\<lambda>bs. compile_adu_frame hv t u (pdu_new fc bs (of_nat (length bs))) tt) \<noteq> Panic"
    if "byte_count r \<le> 251" for r fc t u
    using that compiled [of "pdu_new fc (of_nat (byte_count r) # concat (map param_bytes (params r))) (of_nat (Suc (length (concat (map param_bytes (params r))))))"]
    by (simp add: to_sub_req_pdu_bytes_ok [OF assms(1)] pdu_wf_new byte_count_eq)
  show ?thesis
  proof (cases q)
    case (Q_WriteMultipleCoils u a c)
    have "div_ceil (unat (coils_quantity c)) 8 \<le> 250" if "coils_quantity c \<le> 1968"
      using that by (simp add: div_ceil_def word_le_nat_alt)
    then show ?thesis
      using assms(2) Q_WriteMultipleCoils by (simp add: encode_write_multiple_coils_def Let_def framed built)
  qed (use assms sub_request in \<open>simp_all add: plain_request_defs Let_def framed built collect_byte_pairs_ok
      encode_write_multiple_registers_def encode_read_write_multiple_registers_def encode_diagnostics_def
      encode_read_exception_status_def encode_get_comm_event_counter_def encode_get_comm_event_log_def encode_report_server_id_def
      compiled\<close>)
qed

end
