(* ===== verification/Async_Responses.thy ===== *)
theory Async_Responses
  imports Async_Requests Client_Callbacks
begin

text \<open>
  The responses of the asynchronous client (mbus-async/src/client/response.rs and decode.rs) and the
  correction of a response with the parameters of its request (\<open>fix_up_response\<close> of task.rs). The
  record \<open>service_build\<close> holds the setting \<open>overflow-checks\<close> and the vectors of \<open>heapless\<close>.
\<close>

section \<open>Responses\<close>

datatype AsyncResponse =
    R_Coils Coils
  | R_HoldingRegisters Registers
  | R_InputRegisters Registers
  | R_SingleRegisterWrite u16 u16
  | R_MaskWriteRegister
  | R_DiscreteInputs DiscreteInputs
  | R_FifoQueue FifoQueue
  | R_FileRecordRead "SubRequestParams list"
  | R_FileRecordWrite
  | R_DeviceIdentification DeviceIdentificationResponse
  | R_EncapsulatedInterfaceTransport EncapsulatedInterfaceType bytes
  | R_ExceptionStatus u8
  | R_DiagnosticsData DiagnosticSubFunction "u16 list"
  | R_CommEventCounter u16 u16
  | R_CommEventLog u16 u16 u16 bytes
  | R_ReportServerId bytes

section \<open>Decoding\<close>

text \<open>\<open>bcp.byte_count as u16 * 8\<close> cannot overflow.\<close>

definition decode_read_coils :: "Pdu \<Rightarrow> AsyncResponse result" where
  "decode_read_coils p =
     bind_res (byte_count_payload p) (\<lambda>bcp.
     let bit_count = ucast (bc_byte_count bcp) * 8 in
     bind_res (coils_new 0 bit_count) (\<lambda>c.
     bind_res (coils_with_values c (bc_payload bcp) bit_count) (\<lambda>coils.
     Ok (R_Coils coils))))"

definition decode_write_single_coil :: "service_build \<Rightarrow> Pdu \<Rightarrow> AsyncResponse result" where
  "decode_write_single_coil b p =
     bind_res (write_single_u16_fields p) (\<lambda>fields.
     let v = (ws_value fields = 0xFF00) in
     bind_res (coils_new (ws_address fields) 1) (\<lambda>coils.
     bind_res (coils_set_value (overflow_checks b) coils (ws_address fields) v) (\<lambda>coils.
     Ok (R_Coils coils))))"

definition decode_write_multiple_coils :: "Pdu \<Rightarrow> AsyncResponse result" where
  "decode_write_multiple_coils p =
     bind_res (read_window p) (\<lambda>fields.
     bind_res (coils_new (rw_address fields) (rw_quantity fields)) (\<lambda>coils.
     Ok (R_Coils coils)))"

definition decode_read_discrete_inputs :: "Pdu \<Rightarrow> AsyncResponse result" where
  "decode_read_discrete_inputs p =
     bind_res (byte_count_payload p) (\<lambda>bcp.
     let bit_count = ucast (bc_byte_count bcp) * 8 in
     bind_res (inputs_new 0 bit_count) (\<lambda>d.
     bind_res (inputs_with_values d (bc_payload bcp) bit_count) (\<lambda>discrete_inputs.
     Ok (R_DiscreteInputs discrete_inputs))))"

text \<open>The loops over \<open>payload.chunks(2)\<close>; a last chunk of one byte is skipped.\<close>

fun set_registers :: "bool \<Rightarrow> Registers \<Rightarrow> usize \<Rightarrow> (u8 \<times> u8) list \<Rightarrow> Registers result" where
  "set_registers oc r i [] = Ok r"
| "set_registers oc r i ((h, l) # cs) =
     bind_res (registers_set_value oc r (of_nat i) (u16_from_be_bytes h l)) (\<lambda>r. set_registers oc r (i + 1) cs)"

fun store_bounded :: "u16 list \<Rightarrow> usize \<Rightarrow> (u8 \<times> u8) list \<Rightarrow> u16 list" where
  "store_bounded vs i [] = vs"
| "store_bounded vs i ((h, l) # cs) =
     store_bounded (if i < length vs then vs[i := u16_from_be_bytes h l] else vs) (i + 1) cs"

definition decode_read_holding_registers :: "service_build \<Rightarrow> Pdu \<Rightarrow> AsyncResponse result" where
  "decode_read_holding_registers b p =
     bind_res (byte_count_payload p) (\<lambda>bcp.
     if bc_byte_count bcp mod 2 \<noteq> 0 then Err InvalidByteCount
     else
       let quantity = ucast (bc_byte_count bcp) div 2 in
       bind_res (registers_new 125 0 quantity) (\<lambda>registers.
       bind_res (set_registers (overflow_checks b) registers 0 (chunks_exact2 (bc_payload bcp))) (\<lambda>registers.
       Ok (R_HoldingRegisters registers))))"

definition decode_read_input_registers :: "Pdu \<Rightarrow> AsyncResponse result" where
  "decode_read_input_registers p =
     bind_res (byte_count_payload p) (\<lambda>bcp.
     if bc_byte_count bcp mod 2 \<noteq> 0 then Err InvalidByteCount
     else
       let quantity = ucast (bc_byte_count bcp) div 2;
           vals = store_bounded (replicate 125 0) 0 (chunks_exact2 (bc_payload bcp))
       in bind_res (registers_new 125 0 quantity) (\<lambda>r.
          bind_res (slice_to vals (unat quantity)) (\<lambda>vs.
          bind_res (registers_with_values r vs quantity) (\<lambda>registers.
          Ok (R_InputRegisters registers)))))"

definition decode_write_single_register :: "Pdu \<Rightarrow> AsyncResponse result" where
  "decode_write_single_register p =
     bind_res (write_single_u16_fields p) (\<lambda>fields. Ok (R_SingleRegisterWrite (ws_address fields) (ws_value fields)))"

definition decode_write_multiple_registers :: "Pdu \<Rightarrow> AsyncResponse result" where
  "decode_write_multiple_registers p =
     bind_res (read_window p) (\<lambda>fields.
     bind_res (registers_new 125 (rw_address fields) (rw_quantity fields)) (\<lambda>registers.
     Ok (R_HoldingRegisters registers)))"

definition decode_mask_write_register :: "Pdu \<Rightarrow> AsyncResponse result" where
  "decode_mask_write_register p = Ok R_MaskWriteRegister"

text \<open>The loop over \<open>fp.values.chunks_exact(2)\<close>.\<close>

fun fill_fifo :: "u16 list \<Rightarrow> usize \<Rightarrow> (u8 \<times> u8) list \<Rightarrow> u16 list result" where
  "fill_fifo vals i [] = Ok vals"
| "fill_fifo vals i ((h, l) # cs) =
     (if i \<ge> length vals then Err BufferLenMissmatch
      else bind_res (store vals i (u16_from_be_bytes h l)) (\<lambda>vals. fill_fifo vals (i + 1) cs))"

definition decode_read_fifo_queue :: "Pdu \<Rightarrow> AsyncResponse result" where
  "decode_read_fifo_queue p =
     bind_res (fifo_payload p) (\<lambda>fp.
     let count = unat (fifo_count fp);
         byte_count = unat (fifo_byte_count fp)
     in if length (fifo_values fp) + 2 \<noteq> byte_count then Err InvalidAduLength
        else if byte_count \<noteq> 2 + count * 2 then Err ParseError
        else
          bind_res (fill_fifo (replicate MAX_FIFO_QUEUE_COUNT_PER_PDU 0) 0 (chunks_exact2 (fifo_values fp))) (\<lambda>vals.
          Ok (R_FifoQueue (fifo_queue_with_values (fifo_queue_new 0) vals count))))"

text \<open>The loop is the one of the synchronous client.\<close>

definition decode_read_file_record :: "service_build \<Rightarrow> Pdu \<Rightarrow> AsyncResponse result" where
  "decode_read_file_record b p =
     bind_res (byte_count_payload p) (\<lambda>bcp.
     bind_res (read_file_record_loop b (bc_payload bcp) 0 []) (\<lambda>sub_requests.
     Ok (R_FileRecordRead sub_requests)))"

definition decode_write_file_record :: "Pdu \<Rightarrow> AsyncResponse result" where
  "decode_write_file_record p = Ok R_FileRecordWrite"

definition decode_encapsulated_interface_transport :: "service_build \<Rightarrow> Pdu \<Rightarrow> AsyncResponse result" where
  "decode_encapsulated_interface_transport b p =
     bind_res (mei_type_payload p) (\<lambda>mtp.
     if mei_type_byte mtp = encapsulated_interface_type_u8 ReadDeviceIdentification then
       bind_res (read_device_id_fields p) (\<lambda>fields.
       bind_res (read_device_id_code_try_from (rdi_read_device_id_code_byte fields)) (\<lambda>code.
       bind_res (conformity_level_try_from (rdi_conformity_level_byte fields)) (\<lambda>level.
       Ok (R_DeviceIdentification
         \<lparr>resp_read_device_id_code = code, resp_conformity_level = level,
          resp_more_follows = rdi_more_follows fields,
          resp_next_object_id = object_id_from_u8 (rdi_next_object_id_byte fields),
          resp_objects_data = rdi_objects_data fields,
          resp_number_of_objects = rdi_number_of_objects fields\<rparr>))))
     else
       bind_res (encapsulated_interface_type_try_from (mei_type_byte mtp)) (\<lambda>mei_type.
       bind_res
         (if mei_payload mtp \<noteq> []
          then extend_or (v_bytes b) MAX_PDU_DATA_LEN BufferTooSmall [] (mei_payload mtp)
          else Ok []) (\<lambda>d.
       Ok (R_EncapsulatedInterfaceTransport mei_type d))))"

definition decode_read_exception_status :: "Pdu \<Rightarrow> AsyncResponse result" where
  "decode_read_exception_status p = bind_res (single_byte_payload p) (\<lambda>status. Ok (R_ExceptionStatus status))"

definition decode_diagnostics :: "service_build \<Rightarrow> Pdu \<Rightarrow> AsyncResponse result" where
  "decode_diagnostics b p =
     bind_res (sub_function_payload p) (\<lambda>sfp.
     bind_res (diagnostic_sub_function_try_from (sf_sub_function sfp)) (\<lambda>sub_function.
     bind_res (push_chunks (v_words b) MAX_PDU_DATA_LEN BufferLenMissmatch [] (sf_payload sfp)) (\<lambda>d.
     Ok (R_DiagnosticsData sub_function d))))"

definition decode_get_comm_event_counter :: "Pdu \<Rightarrow> AsyncResponse result" where
  "decode_get_comm_event_counter p =
     bind_res (u16_pair_fields p) (\<lambda>pair. Ok (R_CommEventCounter (up_first pair) (up_second pair)))"

definition decode_get_comm_event_log :: "service_build \<Rightarrow> Pdu \<Rightarrow> AsyncResponse result" where
  "decode_get_comm_event_log b p =
     bind_res (byte_count_payload p) (\<lambda>bcp.
     if bc_byte_count bcp < 6 then Err InvalidByteCount
     else
       let payload = bc_payload bcp in
       bind_res (be16_at payload 0) (\<lambda>status.
       bind_res (be16_at payload 2) (\<lambda>event_count.
       bind_res (be16_at payload 4) (\<lambda>message_count.
       bind_res
         (if length payload > 6 then
            bind_res (slice_from payload 6) (\<lambda>rest.
            extend_or (v_bytes b) MAX_PDU_DATA_LEN BufferTooSmall [] rest)
          else Ok []) (\<lambda>events.
       Ok (R_CommEventLog status event_count message_count events))))))"

definition decode_report_server_id :: "service_build \<Rightarrow> Pdu \<Rightarrow> AsyncResponse result" where
  "decode_report_server_id b p =
     bind_res (byte_count_payload p) (\<lambda>bcp.
     bind_res
       (if bc_payload bcp \<noteq> []
        then extend_or (v_bytes b) MAX_PDU_DATA_LEN BufferTooSmall [] (bc_payload bcp)
        else Ok []) (\<lambda>d.
     Ok (R_ReportServerId d)))"

definition decode_pdu :: "service_build \<Rightarrow> Pdu \<Rightarrow> AsyncResponse result" where
  "decode_pdu b p =
     (case function_code p of
        ReadCoils \<Rightarrow> decode_read_coils p
      | WriteSingleCoil \<Rightarrow> decode_write_single_coil b p
      | WriteMultipleCoils \<Rightarrow> decode_write_multiple_coils p
      | ReadDiscreteInputs \<Rightarrow> decode_read_discrete_inputs p
      | ReadHoldingRegisters \<Rightarrow> decode_read_holding_registers b p
      | ReadInputRegisters \<Rightarrow> decode_read_input_registers p
      | WriteSingleRegister \<Rightarrow> decode_write_single_register p
      | WriteMultipleRegisters \<Rightarrow> decode_write_multiple_registers p
      | ReadWriteMultipleRegisters \<Rightarrow> decode_read_holding_registers b p
      | MaskWriteRegister \<Rightarrow> decode_mask_write_register p
      | ReadFifoQueue \<Rightarrow> decode_read_fifo_queue p
      | ReadFileRecord \<Rightarrow> decode_read_file_record b p
      | WriteFileRecord \<Rightarrow> decode_write_file_record p
      | EncapsulatedInterfaceTransport \<Rightarrow> decode_encapsulated_interface_transport b p
      | ReadExceptionStatus \<Rightarrow> decode_read_exception_status p
      | Diagnostics \<Rightarrow> decode_diagnostics b p
      | GetCommEventCounter \<Rightarrow> decode_get_comm_event_counter p
      | GetCommEventLog \<Rightarrow> decode_get_comm_event_log b p
      | ReportServerId \<Rightarrow> decode_report_server_id b p
      | _ \<Rightarrow> Err InvalidFunctionCode)"

text \<open>The inner result is the exception of the server, or the response.\<close>

definition decode_response ::
    "service_build \<Rightarrow> bytes \<Rightarrow> TransportType \<Rightarrow> (u16 \<times> UnitIdOrSlaveAddr \<times> (MbusError + AsyncResponse)) result" where
  "decode_response b frame tt =
     bind_res (decompile_adu_frame (v_bytes b) frame tt) (\<lambda>message.
     let txn_id = message_transaction_id message;
         unit = unit_id_or_slave_addr message;
         p = pdu message
     in case error_code p of
          Some exception_code \<Rightarrow> Ok (txn_id, unit, Inl (ModbusException exception_code))
        | None \<Rightarrow> bind_res (decode_pdu b p) (\<lambda>response. Ok (txn_id, unit, Inr response)))"

section \<open>Correction\<close>

text \<open>\<open>.map(wrap).unwrap_or_else(|_| raw)\<close>\<close>

definition map_or_raw :: "('x \<Rightarrow> AsyncResponse) \<Rightarrow> AsyncResponse \<Rightarrow> 'x result \<Rightarrow> AsyncResponse result" where
  "map_or_raw wrap raw r = (case r of Ok x \<Rightarrow> Ok (wrap x) | Err _ \<Rightarrow> Ok raw | Panic \<Rightarrow> Panic)"

definition reload_registers :: "Registers \<Rightarrow> u16 \<Rightarrow> u16 \<Rightarrow> Registers result" where
  "reload_registers raw address quantity =
     bind_res (registers_new 125 address quantity) (\<lambda>r.
     bind_res (slice_to (reg_values raw) (unat quantity)) (\<lambda>vs.
     registers_with_values r vs quantity))"

fun fix_up_response :: "AsyncResponse \<Rightarrow> AsyncRequest \<Rightarrow> AsyncResponse result" where
  "fix_up_response (R_Coils raw) q =
     (case q of
        Q_ReadMultipleCoils _ address quantity \<Rightarrow>
          map_or_raw R_Coils (R_Coils raw)
            (bind_res (coils_new address quantity) (\<lambda>c. coils_with_values c (coils_values raw) quantity))
      | _ \<Rightarrow> Ok (R_Coils raw))"
| "fix_up_response (R_DiscreteInputs raw) q =
     (case q of
        Q_ReadDiscreteInputs _ address quantity \<Rightarrow>
          map_or_raw R_DiscreteInputs (R_DiscreteInputs raw)
            (bind_res (inputs_new address quantity) (\<lambda>d.
             bind_res (inputs_active_values raw) (\<lambda>vs. inputs_with_values d vs quantity)))
      | _ \<Rightarrow> Ok (R_DiscreteInputs raw))"
| "fix_up_response (R_HoldingRegisters raw) q =
     (case q of
        Q_ReadHoldingRegisters _ address quantity \<Rightarrow>
          map_or_raw R_HoldingRegisters (R_HoldingRegisters raw) (reload_registers raw address quantity)
      | Q_ReadWriteMultipleRegisters _ read_address read_quantity _ _ \<Rightarrow>
          map_or_raw R_HoldingRegisters (R_HoldingRegisters raw) (reload_registers raw read_address read_quantity)
      | _ \<Rightarrow> Ok (R_HoldingRegisters raw))"
| "fix_up_response (R_InputRegisters raw) q =
     (case q of
        Q_ReadInputRegisters _ address quantity \<Rightarrow>
          map_or_raw R_InputRegisters (R_InputRegisters raw) (reload_registers raw address quantity)
      | _ \<Rightarrow> Ok (R_InputRegisters raw))"
| "fix_up_response (R_FifoQueue raw) q =
     (case q of
        Q_ReadFifoQueue _ address \<Rightarrow>
          (let len = fifo_length raw in
           bind_res (fifo_queue_values raw) (\<lambda>vs.
           bind_res (copy_prefix (replicate MAX_FIFO_QUEUE_COUNT_PER_PDU 0) len vs) (\<lambda>arr.
           Ok (R_FifoQueue (fifo_queue_with_values (fifo_queue_new address) arr len)))))
      | _ \<Rightarrow> Ok (R_FifoQueue raw))"
| "fix_up_response r _ = Ok r"

end
