(* ===== verification/Async_Decoding.thy ===== *)
theory Async_Decoding
  imports Async_Responses Client_Receive
begin

text \<open>
  The decoding of responses in the asynchronous client: it panics on one response only, and what a server
  sends for a read comes back as the block of the request.
\<close>

section \<open>Blocks\<close>

lemma byte_times_eight: "unat (ucast (n :: u8) * 8 :: u16) = 8 * unat n"
proof -
  have "unat n * 8 < 65536" using unat_u8_lt [of n] by linarith
  then show ?thesis by (simp add: unat_word_ariths mult.commute)
qed

lemma byte_half: "unat (ucast (n :: u8) div 2 :: u16) = unat n div 2"
  by (simp add: unat_div)

lemma div_ceil_bytes [simp]: "div_ceil (8 * n) 8 = n"
  by (simp add: div_ceil_def)

lemma decoded_bits:
  assumes "byte_count_payload p = Ok bcp" "pdu_wf p"
  defines "n \<equiv> unat (bc_byte_count bcp)" and "q \<equiv> ucast (bc_byte_count bcp) * 8"
  shows "decode_read_coils p =
      (if n \<le> 250 then Ok (R_Coils \<lparr>coils_from_address = 0, coils_quantity = q, coils_values = bc_payload bcp @ replicate (250 - n) 0\<rparr>)
       else Err InvalidQuantity)"
    and "decode_read_discrete_inputs p =
      (if n \<le> 250 then Ok (R_DiscreteInputs \<lparr>inputs_from_address = 0, inputs_quantity = q, inputs_values = bc_payload bcp @ replicate (250 - n) 0\<rparr>)
       else Err InvalidQuantity)"
proof -
  have len: "length (bc_payload bcp) = n" using byte_count_payload_wf [OF assms(2,1)] by (simp add: n_def)
  have q: "unat q = 8 * n" by (simp add: q_def n_def byte_times_eight)
  show "decode_read_coils p =
      (if n \<le> 250 then Ok (R_Coils \<lparr>coils_from_address = 0, coils_quantity = q, coils_values = bc_payload bcp @ replicate (250 - n) 0\<rparr>)
       else Err InvalidQuantity)"
    using len q by (simp add: decode_read_coils_def assms(1) q_def [symmetric] coils_new_def coils_with_values_def Let_def word_less_nat_alt)
  show "decode_read_discrete_inputs p =
      (if n \<le> 250 then Ok (R_DiscreteInputs \<lparr>inputs_from_address = 0, inputs_quantity = q, inputs_values = bc_payload bcp @ replicate (250 - n) 0\<rparr>)
       else Err InvalidQuantity)"
    using len q by (simp add: decode_read_discrete_inputs_def assms(1) q_def [symmetric] inputs_new_def inputs_with_values_def Let_def word_less_nat_alt)
qed

lemma set_registers_ok:
  assumes "i + length cs \<le> unat q" "unat q \<le> 125" "length vs = 125"
  shows "set_registers oc \<lparr>reg_from_address = 0, reg_quantity = q, reg_values = vs\<rparr> i cs =
    Ok \<lparr>reg_from_address = 0, reg_quantity = q,
        reg_values = take i vs @ map (\<lambda>(h, l). u16_from_be_bytes h l) cs @ drop (i + length cs) vs\<rparr>"
  using assms
proof (induction cs arbitrary: vs i)
  case (Cons c cs)
  have i: "unat (of_nat i :: u16) = i" using Cons.prems by (simp add: unsigned_of_nat take_bit_nat_eq_self)
  have "in_block 0 q (of_nat i)" using i Cons.prems by (simp add: in_block_def)
  then have "registers_set_value oc \<lparr>reg_from_address = 0, reg_quantity = q, reg_values = vs\<rparr> (of_nat i) v =
      Ok \<lparr>reg_from_address = 0, reg_quantity = q, reg_values = vs[i := v]\<rparr>" for v
    using Cons.prems i out_of_block_eq [of 0 q oc "of_nat i"] by (simp add: registers_set_value_def store_def)
  then show ?case
    using Cons.prems Cons.IH [of "Suc i" "vs[i := u16_from_be_bytes (fst c) (snd c)]"]
    by (cases c) (simp add: upd_conv_take_nth_drop take_Suc_conv_app_nth add.commute)
qed simp

lemma store_bounded_eq:
  "i + length cs \<le> length vs \<Longrightarrow> store_bounded vs i cs =
   take i vs @ map (\<lambda>(h, l). u16_from_be_bytes h l) cs @ drop (i + length cs) vs"
proof (induction cs arbitrary: vs i)
  case (Cons c cs)
  then show ?case
    by (cases c) (simp add: upd_conv_take_nth_drop take_Suc_conv_app_nth add.commute)
qed simp

lemma length_chunks [simp]: "length (chunks_exact2 bs) = length bs div 2"
  by (induction bs rule: chunks_exact2.induct) simp_all

definition word_values :: "bytes \<Rightarrow> u16 list" where
  "word_values bs = map (\<lambda>(h, l). u16_from_be_bytes h l) (chunks_exact2 bs)"

lemma length_word_values [simp]: "length (word_values bs) = length bs div 2"
  by (simp add: word_values_def)

lemma word_values_words [simp]: "word_values (words_bytes ws) = ws"
  by (simp add: word_values_def chunks_exact2_words comp_def u16_be_roundtrip [unfolded u16_to_be_bytes_def])

lemma decoded_registers:
  assumes "byte_count_payload p = Ok bcp" "pdu_wf p"
  defines "q \<equiv> ucast (bc_byte_count bcp) div 2"
  shows "decode_read_holding_registers b p =
      (if bc_byte_count bcp mod 2 \<noteq> 0 then Err InvalidByteCount
       else Ok (R_HoldingRegisters (filled_block 0 q (word_values (bc_payload bcp)))))"
    and "decode_read_input_registers p =
      (if bc_byte_count bcp mod 2 \<noteq> 0 then Err InvalidByteCount
       else Ok (R_InputRegisters (filled_block 0 q (word_values (bc_payload bcp)))))"
proof -
  have len: "length (bc_payload bcp) = unat (bc_byte_count bcp)" "unat (bc_byte_count bcp) \<le> 251"
    using byte_count_payload_wf [OF assms(2,1)] by simp_all
  have q: "unat q = length (chunks_exact2 (bc_payload bcp))" using len by (simp add: q_def byte_half)
  have q125: "unat q \<le> 125" using len by (simp add: q_def byte_half)
  then have new: "registers_new 125 0 q = Ok \<lparr>reg_from_address = 0, reg_quantity = q, reg_values = replicate 125 0\<rparr>"
    by (simp add: registers_new_def)
  show "decode_read_holding_registers b p =
      (if bc_byte_count bcp mod 2 \<noteq> 0 then Err InvalidByteCount
       else Ok (R_HoldingRegisters (filled_block 0 q (word_values (bc_payload bcp)))))"
    using new q q125 set_registers_ok [of 0 "chunks_exact2 (bc_payload bcp)" q "replicate 125 0"]
    by (simp add: decode_read_holding_registers_def assms(1) q_def [symmetric] Let_def filled_block_def word_values_def)
  have "registers_with_values \<lparr>reg_from_address = 0, reg_quantity = q, reg_values = replicate 125 0\<rparr> (word_values (bc_payload bcp)) q =
      Ok (filled_block 0 q (word_values (bc_payload bcp)))"
    using q q125 len by (simp add: registers_with_values_def filled_block_def word_less_nat_alt)
  moreover have "slice_to (store_bounded (replicate 125 0) 0 (chunks_exact2 (bc_payload bcp))) (unat q) = (Ok (word_values (bc_payload bcp)) :: u16 list result)"
    using q q125 len by (simp add: store_bounded_eq word_values_def slice_to_def slice_def)
  ultimately show "decode_read_input_registers p =
      (if bc_byte_count bcp mod 2 \<noteq> 0 then Err InvalidByteCount
       else Ok (R_InputRegisters (filled_block 0 q (word_values (bc_payload bcp)))))"
    using new by (simp add: decode_read_input_registers_def assms(1) q_def [symmetric] Let_def)
qed

section \<open>No panic\<close>

lemma fill_fifo_no_panic: "fill_fifo vals i cs \<noteq> Panic"
  by (induction vals i cs rule: fill_fifo.induct) (auto simp: store_def res_simps split: if_splits)

text \<open>
  The one response whose decoding panics: the echo of a write to the single coil at address 65535,
  with overflow checks.
\<close>

definition last_coil_echo :: "Pdu \<Rightarrow> bool" where
  "last_coil_echo p \<longleftrightarrow> function_code p = WriteSingleCoil \<and> (\<exists>v. write_single_u16_fields p = Ok \<lparr>ws_address = - 1, ws_value = v\<rparr>)"

lemma single_coil_set:
  "a \<noteq> - 1 \<Longrightarrow> coils_set_value oc \<lparr>coils_from_address = a, coils_quantity = 1, coils_values = replicate 250 0\<rparr> a v \<noteq> Panic"
  by (simp add: coils_set_value_def single_in_block store_def)

lemma last_coil_set:
  "coils_set_value oc \<lparr>coils_from_address = - 1, coils_quantity = 1, coils_values = vs\<rparr> (- 1) v =
   (if oc then Panic else Err InvalidAddress)"
proof -
  have "unat (- 1 :: u16) = 65535" by (simp add: unat_minus_one_word)
  then show ?thesis by (simp add: coils_set_value_def out_of_block_def add_ovf_def)
qed

lemma write_single_coil_Panic_iff:
  assumes "pdu_wf p"
  shows "decode_write_single_coil b p = Panic \<longleftrightarrow>
    overflow_checks b \<and> (\<exists>v. write_single_u16_fields p = Ok \<lparr>ws_address = - 1, ws_value = v\<rparr>)"
proof (cases "write_single_u16_fields p")
  case (Ok fields)
  then show ?thesis
    using single_coil_set [of "ws_address fields"] last_coil_set
    by (cases fields; cases "ws_address fields = - 1") (auto simp: decode_write_single_coil_def coils_new_def panic_iffs Let_def)
qed (use fixed_parsers_no_panic [OF assms] in \<open>simp_all add: decode_write_single_coil_def\<close>)

lemma decode_pdu_Panic_iff:
  assumes "build_ok b" "pdu_wf p"
  shows "decode_pdu b p = Panic \<longleftrightarrow> overflow_checks b \<and> last_coil_echo p"
proof -
  note ps = variable_parsers_no_panic [OF assms(2)] fixed_parsers_no_panic [OF assms(2)]
  have bits: "decode_read_coils p \<noteq> Panic" "decode_read_discrete_inputs p \<noteq> Panic"
    using ps(2) decoded_bits [OF _ assms(2)]
    by (cases "byte_count_payload p"; simp add: decode_read_coils_def decode_read_discrete_inputs_def)+
  have registers: "decode_read_holding_registers b p \<noteq> Panic" "decode_read_input_registers p \<noteq> Panic"
    using ps(2) decoded_registers [OF _ assms(2)]
    by (cases "byte_count_payload p"; simp add: decode_read_holding_registers_def decode_read_input_registers_def)+
  have echoes: "decode_write_multiple_coils p \<noteq> Panic" "decode_write_single_register p \<noteq> Panic" "decode_write_multiple_registers p \<noteq> Panic"
    using ps by (auto simp: decode_write_multiple_coils_def decode_write_single_register_def decode_write_multiple_registers_def
        panic_iffs coils_new_def registers_new_def)
  have records: "decode_read_fifo_queue p \<noteq> Panic" "decode_read_file_record b p \<noteq> Panic"
    using ps(2,6) fill_fifo_no_panic read_file_record_loop_no_panic [OF assms(1)]
    by (auto simp: decode_read_fifo_queue_def decode_read_file_record_def panic_iffs Let_def)
  have transport: "decode_encapsulated_interface_transport b p \<noteq> Panic"
    using ps(5) assms read_device_id_fields_no_panic
    by (auto simp: decode_encapsulated_interface_transport_def panic_iffs read_device_id_code_try_from_def
        conformity_level_try_from_def encapsulated_interface_type_try_from_def split: if_splits)
  have diagnostics: "decode_read_exception_status p \<noteq> Panic" "decode_get_comm_event_counter p \<noteq> Panic" "decode_diagnostics b p \<noteq> Panic"
    using ps assms(1)
    by (auto simp: decode_read_exception_status_def decode_get_comm_event_counter_def decode_diagnostics_def panic_iffs
        diagnostic_sub_function_try_from_def push_chunks_no_panic dest!: sub_function_payload_even split: if_splits)
  have logs: "decode_get_comm_event_log b p \<noteq> Panic" "decode_report_server_id b p \<noteq> Panic"
    using ps(2) assms(1)
    by (auto simp: decode_get_comm_event_log_def decode_report_server_id_def panic_iffs Let_def slice_from_def
        word_less_nat_alt dest!: byte_count_payload_wf [OF assms(2)] split: if_splits)
  show ?thesis
    using bits registers echoes records transport diagnostics logs write_single_coil_Panic_iff [OF assms(2)]
    by (cases "function_code p") (simp_all add: decode_pdu_def last_coil_echo_def decode_mask_write_register_def decode_write_file_record_def)
qed

section \<open>Frames\<close>

lemma decode_response_frame:
  assumes "build_ok b" "adu_addressable tt uid" "pdu_wf p" "normal_code (function_code p)" "error_code p = None"
  shows "decode_response b (adu_frame tt txn uid (pdu_body p)) tt =
    bind_res (decode_pdu b p) (\<lambda>response.
    Ok (if is_tcp_type tt then txn else 0, unit_id_or_slave_addr (modbus_message_new (adu_address tt txn uid (pdu_body p)) p), Inr response))"
proof -
  let ?m = "modbus_message_new (adu_address tt txn uid (pdu_body p)) p"
  have "pdu ?m = p" "message_transaction_id ?m = (if is_tcp_type tt then txn else 0)"
    by (simp_all add: modbus_message_new_def txn_of_address [unfolded modbus_message_new_def])
  then show ?thesis
    using adu_framing.decode_normal [OF build_ok_simps(1) [OF assms(1)] assms(2-5), of txn] assms(5)
    by (simp add: decode_response_def Let_def)
qed

lemma decode_response_Panic_iff:
  assumes "build_ok b" "decompile_adu_frame (v_bytes b) frame tt \<noteq> Panic"
  shows "decode_response b frame tt = Panic \<longleftrightarrow>
    overflow_checks b \<and> (\<exists>m. decompile_adu_frame (v_bytes b) frame tt = Ok m \<and> error_code (pdu m) = None \<and> last_coil_echo (pdu m))"
proof (cases "decompile_adu_frame (v_bytes b) frame tt")
  case (Ok m)
  then have "pdu_wf (pdu m)" using decompile_wf [OF build_ok_simps(1) [OF assms(1)]] by simp
  from decode_pdu_Panic_iff [OF assms(1) this] show ?thesis
    using Ok by (simp add: decode_response_def Let_def panic_iffs split: option.splits)
qed (use assms(2) in \<open>simp_all add: decode_response_def\<close>)

lemma counted_payload:
  assumes "heapless_ok hv" "length vs \<le> 251" "build_byte_count_payload hv fc vs = Ok p"
  shows "pdu_wf p" "function_code p = fc" "error_code p = None"
    "byte_count_payload p = Ok \<lparr>bc_byte_count = of_nat (length vs), bc_payload = vs\<rparr>"
proof -
  have p: "p = pdu_new fc (of_nat (length vs) # vs) (of_nat (1 + length vs))"
    using assms by (simp add: build_byte_count_payload_eq)
  then show "function_code p = fc" "error_code p = None" by simp_all
  show wf: "pdu_wf p" using assms(2) by (simp add: p pdu_wf_new)
  have "unat (of_nat (Suc (length vs)) :: u8) = Suc (length vs)" "unat (of_nat (length vs) :: u8) = length vs"
    using assms(2) by (simp_all add: unsigned_of_nat take_bit_nat_eq_self del: of_nat_Suc)
  then show "byte_count_payload p = Ok \<lparr>bc_byte_count = of_nat (length vs), bc_payload = vs\<rparr>"
    by (simp add: byte_count_payload_def p slice_def word_less_nat_alt del: of_nat_Suc)
qed

text \<open>A payload from the response builder of a server to the corrected response of the client.\<close>

definition read_answer ::
    "service_build \<Rightarrow> TransportType \<Rightarrow> u16 \<Rightarrow> u8 \<Rightarrow> FunctionCode \<Rightarrow> bytes \<Rightarrow> AsyncRequest \<Rightarrow> AsyncResponse result" where
  "read_answer b tt txn uid fc payload q =
     bind_res (build_byte_count_payload (v_bytes b) fc payload) (\<lambda>p.
     bind_res (compile_adu_frame (v_bytes b) txn uid p tt) (\<lambda>f.
     bind_res (decode_response b f tt) (\<lambda>(_, _, r).
     case r of Inl err \<Rightarrow> Err err | Inr response \<Rightarrow> fix_up_response response q)))"

lemma read_answer_eq:
  assumes "build_ok b" "adu_addressable tt uid" "normal_code fc" "length vs \<le> 251"
  obtains p where "pdu_wf p" "function_code p = fc"
    "byte_count_payload p = Ok \<lparr>bc_byte_count = of_nat (length vs), bc_payload = vs\<rparr>"
    "\<And>q. read_answer b tt txn uid fc vs q = bind_res (decode_pdu b p) (\<lambda>response. fix_up_response response q)"
proof -
  have "build_byte_count_payload (v_bytes b) fc vs = Ok (pdu_new fc (of_nat (length vs) # vs) (of_nat (1 + length vs)))"
    using assms(1,4) by (simp add: build_byte_count_payload_eq)
  then obtain p where p: "build_byte_count_payload (v_bytes b) fc vs = Ok p" by blast
  note counted = counted_payload [OF build_ok_simps(1) [OF assms(1)] assms(4) p]
  have "read_answer b tt txn uid fc vs q = bind_res (decode_pdu b p) (\<lambda>response. fix_up_response response q)" for q
    using p compile_adu_frame_ok [OF build_ok_simps(1) [OF assms(1)] counted(1)]
      decode_response_frame [OF assms(1,2) counted(1) _ counted(3), of txn] counted(2) assms(3)
    by (simp add: read_answer_def)
  then show ?thesis using that counted by blast
qed

lemma unat_small_byte: "n \<le> 255 \<Longrightarrow> unat (of_nat n :: u8) = n"
  by (simp add: unsigned_of_nat take_bit_nat_eq_self)

lemma reload_filled:
  assumes "length ws = unat q" "unat q \<le> 125"
  shows "reload_registers (filled_block x y ws) a q = Ok (filled_block a q ws)"
proof -
  have "slice_to (reg_values (filled_block x y ws)) (unat q) = (Ok ws :: u16 list result)"
    using assms by (simp add: filled_block_def slice_to_def slice_def)
  then show ?thesis
    using registers_filled [OF assms(1), of a] assms by (simp add: reload_registers_def)
qed

lemma registers_answered:
  assumes "build_ok b" "adu_addressable tt uid" "length ws = unat q" "unat q \<le> 125"
  shows "read_answer b tt txn uid ReadHoldingRegisters (words_bytes ws) (Q_ReadHoldingRegisters unit a q) =
      Ok (R_HoldingRegisters (filled_block a q ws))"
    and "read_answer b tt txn uid ReadWriteMultipleRegisters (words_bytes ws) (Q_ReadWriteMultipleRegisters unit a q wa wvs) =
      Ok (R_HoldingRegisters (filled_block a q ws))"
    and "read_answer b tt txn uid ReadInputRegisters (words_bytes ws) (Q_ReadInputRegisters unit a q) =
      Ok (R_InputRegisters (filled_block a q ws))"
proof -
  have len: "length (words_bytes ws) = 2 * length ws" "length (words_bytes ws) \<le> 251"
    using assms(3,4) by (simp_all add: words_bytes_def)
  have bc: "unat (of_nat (length (words_bytes ws)) :: u8) = 2 * length ws"
    using len by (subst unat_small_byte) auto
  have even: "(of_nat (length (words_bytes ws)) :: u8) mod 2 = 0" using bc by (simp add: word_unat_eq_iff unat_mod)
  then have even2: "2 * of_nat (length ws) mod 2 = (0 :: u8)" unfolding len(1) by simp
  note loaded = decoded_registers even even2 reload_filled [OF assms(3,4)]
  have answered: "read_answer b tt txn uid fc (words_bytes ws) rq = Ok x"
    if "normal_code fc" "\<And>p. pdu_wf p \<Longrightarrow> function_code p = fc \<Longrightarrow>
        byte_count_payload p = Ok \<lparr>bc_byte_count = of_nat (length (words_bytes ws)), bc_payload = words_bytes ws\<rparr> \<Longrightarrow>
        bind_res (decode_pdu b p) (\<lambda>r. fix_up_response r rq) = Ok x" for fc rq x
    using read_answer_eq [OF assms(1,2) that(1) len(2)] that(2) by metis
  show "read_answer b tt txn uid ReadHoldingRegisters (words_bytes ws) (Q_ReadHoldingRegisters unit a q) =
      Ok (R_HoldingRegisters (filled_block a q ws))"
    "read_answer b tt txn uid ReadWriteMultipleRegisters (words_bytes ws) (Q_ReadWriteMultipleRegisters unit a q wa wvs) =
      Ok (R_HoldingRegisters (filled_block a q ws))"
    "read_answer b tt txn uid ReadInputRegisters (words_bytes ws) (Q_ReadInputRegisters unit a q) =
      Ok (R_InputRegisters (filled_block a q ws))"
    by (rule answered; simp add: normal_code_def decode_pdu_def loaded map_or_raw_def)+
qed

lemma bits_answered:
  assumes "build_ok b" "adu_addressable tt uid" "length vs = div_ceil (unat n) 8" "unat n \<le> 2000"
  shows "read_answer b tt txn uid ReadCoils vs (Q_ReadMultipleCoils unit a n) =
      Ok (R_Coils \<lparr>coils_from_address = a, coils_quantity = n, coils_values = vs @ replicate (250 - length vs) 0\<rparr>)"
    and "read_answer b tt txn uid ReadDiscreteInputs vs (Q_ReadDiscreteInputs unit a n) =
      Ok (R_DiscreteInputs \<lparr>inputs_from_address = a, inputs_quantity = n, inputs_values = vs @ replicate (250 - length vs) 0\<rparr>)"
proof -
  have len: "length vs \<le> 250" "length vs \<le> 251" using assms(3,4) by (simp_all add: div_ceil_def)
  have bc: "unat (of_nat (length vs) :: u8) = length vs" using len by (simp add: unat_small_byte)
  have answered: "read_answer b tt txn uid fc vs rq = Ok x"
    if "normal_code fc" "\<And>p. pdu_wf p \<Longrightarrow> function_code p = fc \<Longrightarrow>
        byte_count_payload p = Ok \<lparr>bc_byte_count = of_nat (length vs), bc_payload = vs\<rparr> \<Longrightarrow>
        bind_res (decode_pdu b p) (\<lambda>r. fix_up_response r rq) = Ok x" for fc rq x
    using read_answer_eq [OF assms(1,2) that(1) len(2)] that(2) by metis
  have active: "inputs_active_values \<lparr>inputs_from_address = 0, inputs_quantity = ucast (of_nat (length vs) :: u8) * 8,
      inputs_values = vs @ replicate (250 - length vs) 0\<rparr> = Ok vs"
    using len bc by (simp add: inputs_active_values_def byte_times_eight)
  have small: "\<not> 2000 < n" using assms(4) by (simp add: word_less_nat_alt)
  show "read_answer b tt txn uid ReadCoils vs (Q_ReadMultipleCoils unit a n) =
      Ok (R_Coils \<lparr>coils_from_address = a, coils_quantity = n, coils_values = vs @ replicate (250 - length vs) 0\<rparr>)"
    by (rule answered) (use decoded_bits small len bc assms(3) in
      \<open>simp_all add: normal_code_def decode_pdu_def map_or_raw_def coils_new_def coils_with_values_def Let_def\<close>)
  show "read_answer b tt txn uid ReadDiscreteInputs vs (Q_ReadDiscreteInputs unit a n) =
      Ok (R_DiscreteInputs \<lparr>inputs_from_address = a, inputs_quantity = n, inputs_values = vs @ replicate (250 - length vs) 0\<rparr>)"
    by (rule answered) (use decoded_bits active small len bc assms(3) in
      \<open>simp_all add: normal_code_def decode_pdu_def map_or_raw_def inputs_new_def inputs_with_values_def Let_def\<close>)
qed

text \<open>
  What a server sends for a read arrives as the block of the request: the payload that the response
  builder frames is decoded and, after the correction, is the block with the address and the quantity
  of the request and the values that were sent, followed by zeros up to the size of the array. This
  holds for registers, coils and discrete inputs, on every transport.
\<close>

theorem async_reads_roundtrip:
  assumes "build_ok b" "adu_addressable tt uid" "length ws = unat q" "unat q \<le> 125"
    and "length vs = div_ceil (unat n) 8" "unat n \<le> 2000"
  shows "read_answer b tt txn uid ReadHoldingRegisters (words_bytes ws) (Q_ReadHoldingRegisters unit a q) =
      Ok (R_HoldingRegisters (filled_block a q ws)) \<and>
    read_answer b tt txn uid ReadWriteMultipleRegisters (words_bytes ws) (Q_ReadWriteMultipleRegisters unit a q wa wvs) =
      Ok (R_HoldingRegisters (filled_block a q ws)) \<and>
    read_answer b tt txn uid ReadInputRegisters (words_bytes ws) (Q_ReadInputRegisters unit a q) =
      Ok (R_InputRegisters (filled_block a q ws)) \<and>
    read_answer b tt txn uid ReadCoils vs (Q_ReadMultipleCoils unit a n) =
      Ok (R_Coils \<lparr>coils_from_address = a, coils_quantity = n, coils_values = vs @ replicate (250 - length vs) 0\<rparr>) \<and>
    read_answer b tt txn uid ReadDiscreteInputs vs (Q_ReadDiscreteInputs unit a n) =
      Ok (R_DiscreteInputs \<lparr>inputs_from_address = a, inputs_quantity = n, inputs_values = vs @ replicate (250 - length vs) 0\<rparr>)"
  using registers_answered [OF assms(1-4)] bits_answered [OF assms(1,2,5,6)] by simp

theorem async_reads_roundtrip_witness:
  "read_answer \<lparr>overflow_checks = True, v_bytes = bounded_vec, v_words = bounded_vec, v_params = bounded_vec\<rparr> StdTcp 7 17
      ReadHoldingRegisters [0, 7, 0, 5] (Q_ReadHoldingRegisters (UnitIdOrSlaveAddr 17) 100 2) =
    Ok (R_HoldingRegisters \<lparr>reg_from_address = 100, reg_quantity = 2, reg_values = [7, 5] @ replicate 123 0\<rparr>)"
  using async_reads_roundtrip [of "\<lparr>overflow_checks = True, v_bytes = bounded_vec, v_words = bounded_vec, v_params = bounded_vec\<rparr>"
      StdTcp 17 "[7, 5]" 2 "[]" 0 7 "UnitIdOrSlaveAddr 17" 100]
  by (simp add: build_ok_def adu_addressable_def words_bytes_def u16_to_be_bytes_def filled_block_def div_ceil_def)

text \<open>
  A response to a read of discrete inputs that is shorter than the request asks for panics the task of the
  asynchronous client, so that the client is lost with all its requests: the correction slices the bytes
  that were received with the length that was requested.
\<close>

theorem short_inputs_response_panics:
  assumes "build_ok b" "adu_addressable tt uid" "length vs < div_ceil (unat n) 8" "unat n \<le> 2000"
  shows "read_answer b tt txn uid ReadDiscreteInputs vs (Q_ReadDiscreteInputs unit a n) = Panic"
proof -
  have len: "length vs \<le> 250" "length vs \<le> 251" using assms(3,4) by (simp_all add: div_ceil_def)
  have bc: "unat (of_nat (length vs) :: u8) = length vs" using len by (simp add: unat_small_byte)
  have active: "inputs_active_values \<lparr>inputs_from_address = 0, inputs_quantity = ucast (of_nat (length vs) :: u8) * 8,
      inputs_values = vs @ replicate (250 - length vs) 0\<rparr> = Ok vs"
    using len bc by (simp add: inputs_active_values_def byte_times_eight)
  have nc: "normal_code ReadDiscreteInputs" by (simp add: normal_code_def)
  obtain p where p: "pdu_wf p" "function_code p = ReadDiscreteInputs"
      "byte_count_payload p = Ok \<lparr>bc_byte_count = of_nat (length vs), bc_payload = vs\<rparr>"
      "\<And>q. read_answer b tt txn uid ReadDiscreteInputs vs q = bind_res (decode_pdu b p) (\<lambda>response. fix_up_response response q)"
    by (rule read_answer_eq [OF assms(1,2) nc len(2), of txn]) blast
  have "\<not> 2000 < n" using assms(4) by (simp add: word_less_nat_alt)
  then show ?thesis
    using p decoded_bits(2) [OF p(3,1)] active len bc assms(3)
    by (simp add: decode_pdu_def map_or_raw_def inputs_new_def inputs_with_values_def Let_def)
qed

theorem short_inputs_response_panics_witness:
  "read_answer \<lparr>overflow_checks = False, v_bytes = bounded_vec, v_words = bounded_vec, v_params = bounded_vec\<rparr> StdTcp 7 17
      ReadDiscreteInputs [0xFF] (Q_ReadDiscreteInputs (UnitIdOrSlaveAddr 17) 0 16) = Panic"
  by (rule short_inputs_response_panics) (simp_all add: build_ok_def adu_addressable_def div_ceil_def)

end
