(* ===== verification/Async_Task.thy ===== *)
theory Async_Task
  imports Async_Decoding
begin

text \<open>
  The background task of the asynchronous client (mbus-async/src/client/task.rs).

  \<^item> A request is identified by the sending half of its reply channel, of type \<open>'k\<close>. \<open>ct_replies\<close> records
    what is sent through these channels, in order. A sender that is dropped unused closes its channel,
    which the caller notices (\<open>AsyncError::WorkerClosed\<close>): this is recorded as \<open>SenderDropped\<close>.
    \<open>ct_submitted\<close> records the senders of all commands that callers have sent. The code does not have these two fields.
  \<^item> A \<open>HashMap\<close> is the list of its entries in the order of its iterator, which the standard library leaves open:
    inserting and removing are fields of \<open>task_env\<close> with \<open>hash_ok\<close> as their documented behaviour.
  \<^item> The transport and the function that opens it belong to other crates. The world of type \<open>'w\<close> is
    what the result of opening a connection depends on. Delays have no effect on the state and are left out,
    as are the callbacks of the optional feature \<open>traffic\<close>.
\<close>

section \<open>State\<close>

record 'k PendingEntry =
  pe_resp_tx :: 'k
  pe_request :: AsyncRequest
  pe_retry_attempts :: u8
  pe_retry_delay_ms :: u64

datatype 'k TaskCommand =
    CmdConnect 'k
  | CmdRequest AsyncRequest 'k u8 u64
  | CmdDisconnect
  | CmdShutdown

datatype TaskReply =
    Replied "MbusError + AsyncResponse"
  | ConnectResult "MbusError + unit"
  | SenderDropped

type_synonym 'k pending_map = "(u16 \<times> 'k PendingEntry) list"

record ('t, 'w, 'k) ClientTask =
  ct_transport :: "'t option"
  ct_world :: 'w
  ct_cmd_rx :: "'k TaskCommand list"
  ct_pending :: "'k pending_map"
  ct_queued :: "'k TaskCommand list"
  ct_next_txn_id :: u16
  ct_in_flight :: usize
  ct_pending_count :: usize
  ct_running :: bool
  ct_replies :: "('k \<times> TaskReply) list"
  ct_submitted :: "'k list"

record ('t, 'w, 'k) task_env =
  tk_connect :: "'w \<Rightarrow> 'w \<times> (MbusError + 't)"
  tk_send :: "'t \<Rightarrow> bytes \<Rightarrow> 't \<times> (MbusError + unit)"
  tk_recv :: "'t \<Rightarrow> 't \<times> (MbusError + bytes)"
  TK_TYPE :: TransportType
  TK_N :: usize
  tk_build :: service_build
  hash_insert :: "u16 \<Rightarrow> 'k PendingEntry \<Rightarrow> 'k pending_map \<Rightarrow> 'k pending_map"
  hash_remove :: "u16 \<Rightarrow> 'k pending_map \<Rightarrow> 'k pending_map"

type_synonym ('t, 'w, 'k) task = "('t, 'w, 'k) ClientTask"

text \<open>
  What the model uses of \<open>HashMap\<close>, for a map with distinct keys: inserting replaces the entry of the key,
  removing drops it, and the other entries stay. Their order may change.
\<close>

definition hash_ok :: "('t, 'w, 'k) task_env \<Rightarrow> bool" where
  "hash_ok e \<longleftrightarrow> (\<forall>m k v. distinct (map fst m) \<longrightarrow>
     mset (hash_insert e k v m) = add_mset (k, v) (filter_mset (\<lambda>x. fst x \<noteq> k) (mset m)) \<and>
     mset (hash_remove e k m) = filter_mset (\<lambda>x. fst x \<noteq> k) (mset m))"

definition client_task_new :: "'w \<Rightarrow> ('t, 'w, 'k) task" where
  "client_task_new w =
     \<lparr>ct_transport = None, ct_world = w, ct_cmd_rx = [], ct_pending = [], ct_queued = [], ct_next_txn_id = 1,
      ct_in_flight = 0, ct_pending_count = 0, ct_running = True, ct_replies = [], ct_submitted = []\<rparr>"

section \<open>Operations\<close>

definition send_reply :: "'k \<Rightarrow> TaskReply \<Rightarrow> ('t, 'w, 'k) task \<Rightarrow> ('t, 'w, 'k) task" where
  "send_reply k r c = c\<lparr>ct_replies := ct_replies c @ [(k, r)]\<rparr>"

definition advance_txn_id :: "('t, 'w, 'k) task \<Rightarrow> u16 \<times> ('t, 'w, 'k) task" where
  "advance_txn_id c =
     (let id = ct_next_txn_id c;
          n = ct_next_txn_id c + 1
      in (id, c\<lparr>ct_next_txn_id := if n = 0 then 1 else n\<rparr>))"

definition update_pending_count :: "('t, 'w, 'k) task \<Rightarrow> ('t, 'w, 'k) task" where
  "update_pending_count c = c\<lparr>ct_pending_count := length (ct_pending c)\<rparr>"

definition do_connect :: "('t, 'w, 'k) task_env \<Rightarrow> ('t, 'w, 'k) task \<Rightarrow> ('t, 'w, 'k) task \<times> (MbusError + unit)" where
  "do_connect e c =
     (let (w, r) = tk_connect e (ct_world c);
          c = c\<lparr>ct_transport := None, ct_world := w\<rparr>
      in case r of
           Inl err \<Rightarrow> (c, Inl err)
         | Inr t \<Rightarrow> (c\<lparr>ct_transport := Some t\<rparr>, Inr ()))"

text \<open>\<open>pending.insert\<close>: an entry with the same key is dropped, and its sender with it.\<close>

definition insert_pending ::
    "('t, 'w, 'k) task_env \<Rightarrow> u16 \<Rightarrow> 'k PendingEntry \<Rightarrow> ('t, 'w, 'k) task \<Rightarrow> ('t, 'w, 'k) task" where
  "insert_pending e txn_id entry c =
     (let old = map_of (ct_pending c) txn_id;
          c = c\<lparr>ct_pending := hash_insert e txn_id entry (ct_pending c)\<rparr>
      in case old of
           None \<Rightarrow> c
         | Some en \<Rightarrow> send_reply (pe_resp_tx en) SenderDropped c)"

definition remove_pending ::
    "('t, 'w, 'k) task_env \<Rightarrow> u16 \<Rightarrow> ('t, 'w, 'k) task \<Rightarrow> 'k PendingEntry option \<times> ('t, 'w, 'k) task" where
  "remove_pending e k c =
     (case map_of (ct_pending c) k of
        None \<Rightarrow> (None, c)
      | Some entry \<Rightarrow> (Some entry, c\<lparr>ct_pending := hash_remove e k (ct_pending c)\<rparr>))"

text \<open>The loop over the drained entries, in the reverse order of their transaction identifiers.\<close>

fun lose_entries :: "'k pending_map \<Rightarrow> ('t, 'w, 'k) task \<Rightarrow> ('t, 'w, 'k) task" where
  "lose_entries [] c = c"
| "lose_entries ((txn_id, entry) # entries) c =
     lose_entries entries
       (if pe_retry_attempts entry > 0 then
          c\<lparr>ct_queued := CmdRequest (pe_request entry) (pe_resp_tx entry) (pe_retry_attempts entry - 1)
              (pe_retry_delay_ms entry) # ct_queued c\<rparr>
        else send_reply (pe_resp_tx entry) (Replied (Inl ConnectionClosed)) c)"

definition handle_connection_loss :: "('t, 'w, 'k) task \<Rightarrow> ('t, 'w, 'k) task" where
  "handle_connection_loss c =
     (let pending_entries = sort_key fst (ct_pending c) in
      update_pending_count ((lose_entries (rev pending_entries) (c\<lparr>ct_pending := []\<rparr>))\<lparr>ct_in_flight := 0\<rparr>))"

definition send_frame :: "('t, 'w, 'k) task_env \<Rightarrow> bytes \<Rightarrow> ('t, 'w, 'k) task \<Rightarrow> ('t, 'w, 'k) task \<times> (MbusError + unit)" where
  "send_frame e frame c =
     (case ct_transport c of
        None \<Rightarrow> (c, Inl ConnectionClosed)
      | Some t \<Rightarrow> (let (t, r) = tk_send e t frame in (c\<lparr>ct_transport := Some t\<rparr>, r)))"

text \<open>The \<open>loop\<close> of \<open>dispatch_request\<close>. Each round that does not return lowers the retry attempts.\<close>

function dispatch_loop ::
    "('t, 'w, 'k) task_env \<Rightarrow> AsyncRequest \<Rightarrow> 'k \<Rightarrow> u8 \<Rightarrow> u64 \<Rightarrow> ('t, 'w, 'k) task \<Rightarrow> ('t, 'w, 'k) task result" where
  "dispatch_loop e request resp_tx attempts delay_ms c =
     (if ct_transport c = None \<and> attempts = 0 then Ok (send_reply resp_tx (Replied (Inl ConnectionClosed)) c)
      else
        let (c1, connected) = (if ct_transport c = None then do_connect e c else (c, Inr ())) in
        case connected of
          Inl err \<Rightarrow>
            if attempts = 0 \<or> sat_sub attempts 1 = 0 then Ok (send_reply resp_tx (Replied (Inl err)) c1)
            else dispatch_loop e request resp_tx (sat_sub attempts 1) delay_ms c1
        | Inr _ \<Rightarrow>
            let (txn_id, c2) = advance_txn_id c1 in
            case encode_request (v_bytes (tk_build e)) txn_id request (TK_TYPE e) of
              Panic \<Rightarrow> Panic
            | Err err \<Rightarrow> Ok (send_reply resp_tx (Replied (Inl err)) c2)
            | Ok frame \<Rightarrow>
                let (c3, send_result) = send_frame e frame c2 in
                case send_result of
                  Inr _ \<Rightarrow>
                    let c4 = insert_pending e txn_id
                        \<lparr>pe_resp_tx = resp_tx, pe_request = request, pe_retry_attempts = attempts,
                         pe_retry_delay_ms = delay_ms\<rparr> c3
                    in Ok (update_pending_count (c4\<lparr>ct_in_flight := ct_in_flight c4 + 1\<rparr>))
                | Inl err \<Rightarrow>
                    let c4 = handle_connection_loss (c3\<lparr>ct_transport := None\<rparr>) in
                    if attempts = 0 then Ok (send_reply resp_tx (Replied (Inl err)) c4)
                    else dispatch_loop e request resp_tx (sat_sub attempts 1) delay_ms c4)"
  by pat_completeness auto

lemma retry_lower: "r \<noteq> 0 \<Longrightarrow> unat (sat_sub r 1) < unat r" for r :: u8
  by (simp add: unat_sat_sub unat_gt_0)

termination dispatch_loop
  by (relation "measure (\<lambda>(e, request, resp_tx, retry, delay, c). unat retry)") (simp_all add: retry_lower)

declare dispatch_loop.simps [simp del]

fun dispatch_request :: "('t, 'w, 'k) task_env \<Rightarrow> 'k TaskCommand \<Rightarrow> ('t, 'w, 'k) task \<Rightarrow> ('t, 'w, 'k) task result" where
  "dispatch_request e (CmdRequest request resp_tx attempts delay_ms) c =
     dispatch_loop e request resp_tx attempts delay_ms c"
| "dispatch_request e (CmdConnect resp_tx) c = Ok (send_reply resp_tx (ConnectResult (Inl Unexpected)) c)"
| "dispatch_request e CmdDisconnect c = Ok c"
| "dispatch_request e CmdShutdown c = Ok c"

definition resolve_key :: "('t, 'w, 'k) task \<Rightarrow> u16 \<Rightarrow> u16 option" where
  "resolve_key c decoded_txn_id =
     (if decoded_txn_id \<noteq> 0 then
        (if map_of (ct_pending c) decoded_txn_id \<noteq> None then Some decoded_txn_id else None)
      else (case ct_pending c of [] \<Rightarrow> None | (k, _) # _ \<Rightarrow> Some k))"

text \<open>Removing the entry that an identifier resolves to, with the counters updated.\<close>

definition take_entry ::
    "('t, 'w, 'k) task_env \<Rightarrow> u16 \<Rightarrow> ('t, 'w, 'k) task \<Rightarrow> ('k PendingEntry \<times> ('t, 'w, 'k) task) option" where
  "take_entry e txn_id c =
     (case resolve_key c txn_id of
        None \<Rightarrow> None
      | Some k \<Rightarrow>
          (case remove_pending e k c of
             (None, _) \<Rightarrow> None
           | (Some entry, c) \<Rightarrow> Some (entry, update_pending_count (c\<lparr>ct_in_flight := ct_in_flight c - 1\<rparr>))))"

definition fail_entry :: "('t, 'w, 'k) task_env \<Rightarrow> u16 \<Rightarrow> MbusError \<Rightarrow> ('t, 'w, 'k) task \<Rightarrow> ('t, 'w, 'k) task" where
  "fail_entry e raw_txn_id err c =
     (case take_entry e raw_txn_id c of
        None \<Rightarrow> c
      | Some (entry, c) \<Rightarrow> send_reply (pe_resp_tx entry) (Replied (Inl err)) c)"

definition process_frame :: "('t, 'w, 'k) task_env \<Rightarrow> bytes \<Rightarrow> ('t, 'w, 'k) task \<Rightarrow> ('t, 'w, 'k) task result" where
  "process_frame e frame c =
     (if ct_transport c = None then Ok c
      else case decode_response (tk_build e) frame (TK_TYPE e) of
             Panic \<Rightarrow> Panic
           | Err err \<Rightarrow> Ok (fail_entry e 0 err c)
           | Ok (decoded_txn_id, _, inner) \<Rightarrow>
               (case take_entry e decoded_txn_id c of
                  None \<Rightarrow> Ok c
                | Some (entry, c) \<Rightarrow>
                    (case inner of
                       Inl err \<Rightarrow> Ok (send_reply (pe_resp_tx entry) (Replied (Inl err)) c)
                     | Inr response \<Rightarrow>
                         bind_res (fix_up_response response (pe_request entry)) (\<lambda>r.
                         Ok (send_reply (pe_resp_tx entry) (Replied (Inr r)) c)))))"

fun close_commands :: "'k TaskCommand list \<Rightarrow> ('t, 'w, 'k) task \<Rightarrow> ('t, 'w, 'k) task" where
  "close_commands [] c = c"
| "close_commands (CmdRequest _ resp_tx _ _ # cmds) c =
     close_commands cmds (send_reply resp_tx (Replied (Inl ConnectionClosed)) c)"
| "close_commands (CmdConnect resp_tx # cmds) c = close_commands cmds (send_reply resp_tx SenderDropped c)"
| "close_commands (_ # cmds) c = close_commands cmds c"

fun close_entries :: "'k pending_map \<Rightarrow> ('t, 'w, 'k) task \<Rightarrow> ('t, 'w, 'k) task" where
  "close_entries [] c = c"
| "close_entries ((_, entry) # entries) c =
     close_entries entries (send_reply (pe_resp_tx entry) (Replied (Inl ConnectionClosed)) c)"

definition drain_all :: "('t, 'w, 'k) task \<Rightarrow> ('t, 'w, 'k) task" where
  "drain_all c =
     (let c = close_entries (ct_pending c) (c\<lparr>ct_pending := []\<rparr>);
          c = close_commands (ct_queued c) (c\<lparr>ct_queued := []\<rparr>)
      in update_pending_count (c\<lparr>ct_in_flight := 0\<rparr>))"

text \<open>\<open>handle_command\<close> returns false after \<open>Shutdown\<close>.\<close>

fun handle_command :: "('t, 'w, 'k) task_env \<Rightarrow> 'k TaskCommand \<Rightarrow> ('t, 'w, 'k) task \<Rightarrow> (('t, 'w, 'k) task \<times> bool) result" where
  "handle_command e (CmdConnect resp_tx) c =
     (let (c, r) = do_connect e c in Ok (send_reply resp_tx (ConnectResult r) c, True))"
| "handle_command e CmdDisconnect c = Ok ((drain_all c)\<lparr>ct_transport := None\<rparr>, True)"
| "handle_command e CmdShutdown c = Ok ((drain_all c)\<lparr>ct_transport := None\<rparr>, False)"
| "handle_command e (CmdRequest request resp_tx attempts delay_ms) c =
     (let req_cmd = CmdRequest request resp_tx attempts delay_ms in
      if ct_in_flight c < TK_N e then bind_res (dispatch_request e req_cmd c) (\<lambda>c. Ok (c, True))
      else Ok (c\<lparr>ct_queued := ct_queued c @ [req_cmd]\<rparr>, True))"

section \<open>The loop\<close>

partial_function (option) fill_pipeline ::
    "('t, 'w, 'k) task_env \<Rightarrow> ('t, 'w, 'k) task \<Rightarrow> ('t, 'w, 'k) task result option" where
  "fill_pipeline e c =
     (if ct_in_flight c < TK_N e then
        case ct_queued c of
          [] \<Rightarrow> Some (Ok c)
        | cmd # cmds \<Rightarrow>
            (case dispatch_request e cmd (c\<lparr>ct_queued := cmds\<rparr>) of
               Ok c \<Rightarrow> fill_pipeline e c
             | r \<Rightarrow> Some r)
      else Some (Ok c))"

text \<open>The inner loop of the command branch: \<open>n\<close> is \<open>16 - count\<close>.\<close>

fun command_batch :: "('t, 'w, 'k) task_env \<Rightarrow> nat \<Rightarrow> ('t, 'w, 'k) task \<Rightarrow> (('t, 'w, 'k) task \<times> bool) result" where
  "command_batch e 0 c = Ok (c, True)"
| "command_batch e (Suc n) c =
     (if ct_in_flight c < TK_N e then
        case ct_cmd_rx c of
          [] \<Rightarrow> Ok (c, True)
        | next_cmd # cmds \<Rightarrow>
            bind_res (handle_command e next_cmd (c\<lparr>ct_cmd_rx := cmds\<rparr>)) (\<lambda>(c, go_on).
            if go_on then command_batch e n c else Ok (c, False))
      else Ok (c, True))"

definition command_branch ::
    "('t, 'w, 'k) task_env \<Rightarrow> 'k TaskCommand \<Rightarrow> ('t, 'w, 'k) task \<Rightarrow> (('t, 'w, 'k) task \<times> bool) result" where
  "command_branch e cmd c =
     bind_res (handle_command e cmd c) (\<lambda>(c, go_on). if go_on then command_batch e 15 c else Ok (c, False))"

text \<open>\<open>recv_if_active\<close> completes only with a transport and requests in flight.\<close>

definition recv_branch :: "('t, 'w, 'k) task_env \<Rightarrow> 't \<Rightarrow> ('t, 'w, 'k) task \<Rightarrow> ('t, 'w, 'k) task result" where
  "recv_branch e t c =
     (case tk_recv e t of
        (t, Inr frame) \<Rightarrow> process_frame e frame (c\<lparr>ct_transport := Some t\<rparr>)
      | (t, Inl _) \<Rightarrow> Ok (handle_connection_loss (c\<lparr>ct_transport := None\<rparr>)))"

text \<open>The end of the task: what it still holds is dropped, with the senders inside.\<close>

fun command_senders :: "'k TaskCommand \<Rightarrow> 'k list" where
  "command_senders (CmdConnect k) = [k]"
| "command_senders (CmdRequest _ k _ _) = [k]"
| "command_senders _ = []"

definition held_senders :: "('t, 'w, 'k) task \<Rightarrow> 'k list" where
  "held_senders c = map (pe_resp_tx \<circ> snd) (ct_pending c) @ concat (map command_senders (ct_queued c)) @
     concat (map command_senders (ct_cmd_rx c))"

definition task_end :: "('t, 'w, 'k) task \<Rightarrow> ('t, 'w, 'k) task" where
  "task_end c = c\<lparr>ct_running := False, ct_transport := None, ct_pending := [], ct_queued := [], ct_cmd_rx := [],
     ct_replies := ct_replies c @ map (\<lambda>k. (k, SenderDropped)) (held_senders c)\<rparr>"

text \<open>
  The steps of a client: a caller sends a command, and the rounds of \<open>run\<close>, each of which fills the pipeline
  and then takes one of the branches that are ready, or ends the task: after \<open>Shutdown\<close>, when all handles are
  dropped, and when the handling of a response panics.
\<close>

inductive task_step :: "('t, 'w, 'k) task_env \<Rightarrow> ('t, 'w, 'k) task \<Rightarrow> ('t, 'w, 'k) task \<Rightarrow> bool" for e :: "('t, 'w, 'k) task_env" where
  step_submit: "ct_running c \<Longrightarrow> (\<And>q k r d. cmd = CmdRequest q k r d \<Longrightarrow> async_request_ok q) \<Longrightarrow>
    task_step e c (c\<lparr>ct_cmd_rx := ct_cmd_rx c @ [cmd], ct_submitted := ct_submitted c @ command_senders cmd\<rparr>)"
| step_recv: "ct_running c \<Longrightarrow> fill_pipeline e c = Some (Ok c1) \<Longrightarrow> ct_transport c1 = Some t \<Longrightarrow> 0 < ct_in_flight c1 \<Longrightarrow>
    recv_branch e t c1 = Ok c2 \<Longrightarrow> task_step e c c2"
| step_panic: "ct_running c \<Longrightarrow> fill_pipeline e c = Some (Ok c1) \<Longrightarrow> ct_transport c1 = Some t \<Longrightarrow> 0 < ct_in_flight c1 \<Longrightarrow>
    recv_branch e t c1 = Panic \<Longrightarrow> task_step e c (task_end c1)"
| step_command: "ct_running c \<Longrightarrow> fill_pipeline e c = Some (Ok c1) \<Longrightarrow> ct_cmd_rx c1 = cmd # cmds \<Longrightarrow>
    command_branch e cmd (c1\<lparr>ct_cmd_rx := cmds\<rparr>) = Ok (c2, go_on) \<Longrightarrow>
    task_step e c (if go_on then c2 else task_end c2)"
| step_closed: "ct_running c \<Longrightarrow> fill_pipeline e c = Some (Ok c1) \<Longrightarrow> ct_cmd_rx c1 = [] \<Longrightarrow> task_step e c (task_end c1)"

inductive task_run :: "('t, 'w, 'k) task_env \<Rightarrow> 'w \<Rightarrow> ('t, 'w, 'k) task \<Rightarrow> bool"
  for e :: "('t, 'w, 'k) task_env" and w :: 'w where
  task_start: "task_run e w (client_task_new w)"
| task_next: "task_run e w c \<Longrightarrow> task_step e c c' \<Longrightarrow> task_run e w c'"

end
