(* ===== verification/Async_Client.thy ===== *)
theory Async_Client
  imports Async_Task
begin

text \<open>
  What the asynchronous client promises: every request is answered exactly once, and the loop that fills the
  pipeline comes to an end.
\<close>

section \<open>The pending map\<close>

lemma hash_insert_mset:
  "hash_ok e \<Longrightarrow> distinct (map fst m) \<Longrightarrow> mset (hash_insert e k v m) = mset ((k, v) # filter (\<lambda>x. fst x \<noteq> k) m)"
  by (simp add: hash_ok_def)

lemma hash_remove_mset:
  "hash_ok e \<Longrightarrow> distinct (map fst m) \<Longrightarrow> mset (hash_remove e k m) = mset (filter (\<lambda>x. fst x \<noteq> k) m)"
  by (simp add: hash_ok_def)

lemma distinct_filter_keys: "distinct (map fst m) \<Longrightarrow> distinct (map fst (filter P m))"
  by (induction m) auto

lemma distinct_keys_mset: "mset m = mset m' \<Longrightarrow> distinct (map fst m) = distinct (map fst m')"
  by (rule mset_eq_imp_distinct_iff) (metis mset_map)

lemma filter_other_keys: "k \<notin> fst ` set m \<Longrightarrow> filter (\<lambda>x. fst x \<noteq> k) m = m"
  by (rule filter_True) force

lemma entry_mset:
  "distinct (map fst m) \<Longrightarrow> map_of m k = Some v \<Longrightarrow> mset m = add_mset (k, v) (mset (filter (\<lambda>x. fst x \<noteq> k) m))"
proof (induction m)
  case (Cons x m)
  then show ?case by (cases "fst x = k") (auto simp: filter_other_keys split: if_splits)
qed simp

lemma hash_insert_simps:
  assumes "hash_ok e" "distinct (map fst m)"
  shows "set (hash_insert e k v m) = insert (k, v) {x \<in> set m. fst x \<noteq> k}"
    and "distinct (map fst (hash_insert e k v m))"
    and "length (hash_insert e k v m) \<le> Suc (length m)"
proof -
  note perm = hash_insert_mset [OF assms, of k v]
  show "set (hash_insert e k v m) = insert (k, v) {x \<in> set m. fst x \<noteq> k}"
    using mset_eq_setD [OF perm] by simp
  show "distinct (map fst (hash_insert e k v m))"
    using distinct_keys_mset [OF perm] distinct_filter_keys [OF assms(2)] by auto
  show "length (hash_insert e k v m) \<le> Suc (length m)"
    using mset_eq_length [OF perm] length_filter_le [of "\<lambda>x. fst x \<noteq> k" m] by simp
qed

lemma hash_remove_simps:
  assumes "hash_ok e" "distinct (map fst m)"
  shows "set (hash_remove e k m) = {x \<in> set m. fst x \<noteq> k}"
    and "distinct (map fst (hash_remove e k m))"
    and "map_of m k = Some v \<Longrightarrow> Suc (length (hash_remove e k m)) = length m"
proof -
  note perm = hash_remove_mset [OF assms, of k]
  show "set (hash_remove e k m) = {x \<in> set m. fst x \<noteq> k}"
    using mset_eq_setD [OF perm] by simp
  show "distinct (map fst (hash_remove e k m))"
    using distinct_keys_mset [OF perm] distinct_filter_keys [OF assms(2)] by auto
  show "Suc (length (hash_remove e k m)) = length m" if "map_of m k = Some v"
    using mset_eq_length [OF perm] arg_cong [OF entry_mset [OF assms(2) that], of size]
    by (simp del: mset_filter flip: size_mset)
qed

section \<open>The invariant of the task\<close>

text \<open>The senders of the requests that the task holds or has answered.\<close>

definition senders :: "('t, 'w, 'k) task \<Rightarrow> 'k multiset" where
  "senders c = mset (held_senders c) + mset (map fst (ct_replies c))"

fun command_ok :: "'k TaskCommand \<Rightarrow> bool" where
  "command_ok (CmdRequest q _ _ _) \<longleftrightarrow> async_request_ok q"
| "command_ok _ \<longleftrightarrow> True"

fun is_request :: "'k TaskCommand \<Rightarrow> bool" where
  "is_request (CmdRequest _ _ _ _) \<longleftrightarrow> True"
| "is_request _ \<longleftrightarrow> False"

definition pending_ok :: "'k pending_map \<Rightarrow> bool" where
  "pending_ok m \<longleftrightarrow> distinct (map fst m) \<and> 0 \<notin> fst ` set m \<and> (\<forall>x \<in> set m. async_request_ok (pe_request (snd x)))"

text \<open>The invariant of a task that has taken at most \<open>n\<close> requests in flight.\<close>

definition task_wf :: "nat \<Rightarrow> ('t, 'w, 'k) task \<Rightarrow> bool" where
  "task_wf n c \<longleftrightarrow> pending_ok (ct_pending c) \<and> ct_next_txn_id c \<noteq> 0 \<and> length (ct_pending c) \<le> ct_in_flight c \<and>
     ct_in_flight c \<le> n \<and> ct_pending_count c = length (ct_pending c) \<and>
     list_all (\<lambda>cmd. command_ok cmd \<and> is_request cmd) (ct_queued c) \<and> list_all command_ok (ct_cmd_rx c)"

lemma pending_ok_Nil [simp]: "pending_ok []"
  by (simp add: pending_ok_def)

lemma pending_ok_insert:
  "hash_ok e \<Longrightarrow> pending_ok m \<Longrightarrow> k \<noteq> 0 \<Longrightarrow> async_request_ok (pe_request v) \<Longrightarrow> pending_ok (hash_insert e k v m)"
  by (auto simp: pending_ok_def hash_insert_simps)

lemma pending_ok_remove: "hash_ok e \<Longrightarrow> pending_ok m \<Longrightarrow> pending_ok (hash_remove e k m)"
  by (auto simp: pending_ok_def hash_remove_simps)

lemma send_reply_sel [simp]:
  "ct_transport (send_reply k r c) = ct_transport c" "ct_world (send_reply k r c) = ct_world c"
  "ct_cmd_rx (send_reply k r c) = ct_cmd_rx c" "ct_pending (send_reply k r c) = ct_pending c"
  "ct_queued (send_reply k r c) = ct_queued c" "ct_next_txn_id (send_reply k r c) = ct_next_txn_id c"
  "ct_in_flight (send_reply k r c) = ct_in_flight c" "ct_pending_count (send_reply k r c) = ct_pending_count c"
  "ct_running (send_reply k r c) = ct_running c" "ct_submitted (send_reply k r c) = ct_submitted c"
  "ct_replies (send_reply k r c) = ct_replies c @ [(k, r)]"
  by (simp_all add: send_reply_def)

lemma task_wf_send_reply [simp]: "task_wf n (send_reply k r c) = task_wf n c"
  by (simp add: task_wf_def)

lemma senders_send_reply [simp]: "senders (send_reply k r c) = add_mset k (senders c)"
  by (simp add: senders_def held_senders_def)

lemma senders_updates [simp]:
  "senders (c\<lparr>ct_transport := t\<rparr>) = senders c" "senders (c\<lparr>ct_world := w\<rparr>) = senders c"
  "senders (c\<lparr>ct_next_txn_id := i\<rparr>) = senders c" "senders (c\<lparr>ct_in_flight := n\<rparr>) = senders c"
  "senders (c\<lparr>ct_running := b\<rparr>) = senders c" "senders (update_pending_count c) = senders c"
  by (simp_all add: senders_def held_senders_def update_pending_count_def)

lemma update_pending_count_sel [simp]:
  "ct_cmd_rx (update_pending_count c) = ct_cmd_rx c" "ct_submitted (update_pending_count c) = ct_submitted c"
  "ct_running (update_pending_count c) = ct_running c" "ct_replies (update_pending_count c) = ct_replies c"
  "ct_pending (update_pending_count c) = ct_pending c" "ct_queued (update_pending_count c) = ct_queued c"
  "ct_in_flight (update_pending_count c) = ct_in_flight c" "ct_transport (update_pending_count c) = ct_transport c"
  by (simp_all add: update_pending_count_def)

lemma senders_push [simp]:
  "senders (c\<lparr>ct_queued := cmd # ct_queued c\<rparr>) = mset (command_senders cmd) + senders c"
  "senders (c\<lparr>ct_queued := ct_queued c @ [cmd]\<rparr>) = mset (command_senders cmd) + senders c"
  by (simp_all add: senders_def held_senders_def)

text \<open>The fields that no operation on pending requests changes.\<close>

definition same_channel :: "('t, 'w, 'k) task \<Rightarrow> ('t, 'w, 'k) task \<Rightarrow> bool" where
  "same_channel c c' \<longleftrightarrow> ct_cmd_rx c' = ct_cmd_rx c \<and> ct_submitted c' = ct_submitted c \<and> ct_running c' = ct_running c"

lemma same_channel_trans [trans]: "same_channel a b \<Longrightarrow> same_channel b c \<Longrightarrow> same_channel a c"
  by (simp add: same_channel_def)

lemma insert_pending_in_flight: "ct_in_flight (insert_pending e k en c) = ct_in_flight c"
  by (simp add: insert_pending_def Let_def split: option.splits)

lemma insert_pending_facts:
  assumes "hash_ok e" "pending_ok (ct_pending c)"
  shows "senders (insert_pending e k en c) = add_mset (pe_resp_tx en) (senders c)"
    and "same_channel c (insert_pending e k en c)"
    and "ct_pending (insert_pending e k en c) = hash_insert e k en (ct_pending c)"
    and "ct_queued (insert_pending e k en c) = ct_queued c"
    and "ct_next_txn_id (insert_pending e k en c) = ct_next_txn_id c"
proof -
  have dist: "distinct (map fst (ct_pending c))" using assms(2) by (simp add: pending_ok_def)
  note perm = arg_cong [OF hash_insert_mset [OF assms(1) dist, of k en], of "image_mset (pe_resp_tx \<circ> snd)"]
  show "senders (insert_pending e k en c) = add_mset (pe_resp_tx en) (senders c)"
  proof (cases "map_of (ct_pending c) k")
    case None
    then have "filter (\<lambda>x. fst x \<noteq> k) (ct_pending c) = ct_pending c"
      by (intro filter_other_keys) (simp add: map_of_eq_None_iff)
    then show ?thesis using perm None by (simp add: insert_pending_def senders_def held_senders_def)
  next
    case (Some old)
    then show ?thesis
      using perm arg_cong [OF entry_mset [OF dist Some], of "image_mset (pe_resp_tx \<circ> snd)"]
      by (simp add: insert_pending_def senders_def held_senders_def)
  qed
qed (auto simp: insert_pending_def same_channel_def Let_def split: option.splits)

lemma lose_entries_facts:
  "senders (lose_entries es c) = mset (map (pe_resp_tx \<circ> snd) es) + senders c \<and>
   same_channel c (lose_entries es c) \<and> ct_pending (lose_entries es c) = ct_pending c \<and>
   ct_transport (lose_entries es c) = ct_transport c \<and> ct_next_txn_id (lose_entries es c) = ct_next_txn_id c"
proof (induction es arbitrary: c)
  case Nil
  then show ?case by (simp add: same_channel_def)
next
  case (Cons x es)
  then show ?case by (cases x) (simp add: same_channel_def)
qed

lemma lose_entries_queue:
  assumes "list_all (\<lambda>cmd. command_ok cmd \<and> is_request cmd) (ct_queued c)" "\<forall>x \<in> set es. async_request_ok (pe_request (snd x))"
  shows "list_all (\<lambda>cmd. command_ok cmd \<and> is_request cmd) (ct_queued (lose_entries es c))"
  using assms
proof (induction es arbitrary: c)
  case (Cons x es)
  then show ?case by (cases x) auto
qed simp

lemma handle_connection_loss_facts:
  shows "senders (handle_connection_loss c) = senders c"
    and "same_channel c (handle_connection_loss c)"
    and "task_wf n c \<Longrightarrow> task_wf m (handle_connection_loss c)"
    and "ct_transport (handle_connection_loss c) = ct_transport c"
    and "ct_in_flight (handle_connection_loss c) = 0" "ct_pending (handle_connection_loss c) = []"
proof -
  let ?c = "c\<lparr>ct_pending := []\<rparr>" and ?es = "rev (sort_key fst (ct_pending c))"
  note facts = lose_entries_facts [of ?es ?c]
  have "mset (map (pe_resp_tx \<circ> snd) ?es) = mset (map (pe_resp_tx \<circ> snd) (ct_pending c))"
    by (simp only: mset_map mset_rev mset_sort)
  then show "senders (handle_connection_loss c) = senders c"
    using facts by (simp add: handle_connection_loss_def senders_def [of c] senders_def [of ?c] held_senders_def)
  show "same_channel c (handle_connection_loss c)" "ct_transport (handle_connection_loss c) = ct_transport c"
    "ct_in_flight (handle_connection_loss c) = 0" "ct_pending (handle_connection_loss c) = []"
    using facts by (simp_all add: handle_connection_loss_def update_pending_count_def same_channel_def)
  show "task_wf m (handle_connection_loss c)" if "task_wf n c"
    using facts that lose_entries_queue [of ?c ?es]
    by (simp add: handle_connection_loss_def update_pending_count_def same_channel_def task_wf_def pending_ok_def)
qed

section \<open>Dispatching\<close>

text \<open>
  What dispatching still can cost: a queued request may be sent once for each retry attempt, and each request in flight
  may come back to the queue with one attempt less.
\<close>

fun command_work :: "'k TaskCommand \<Rightarrow> nat" where
  "command_work (CmdRequest _ _ r _) = 2 * unat r + 2"
| "command_work _ = 1"

definition entry_work :: "u16 \<times> 'k PendingEntry \<Rightarrow> nat" where
  "entry_work x = 2 * unat (pe_retry_attempts (snd x)) + 1"

definition work :: "('t, 'w, 'k) task \<Rightarrow> nat" where
  "work c = sum_list (map command_work (ct_queued c)) + sum_list (map entry_work (ct_pending c))"

lemma work_updates [simp]:
  "work (c\<lparr>ct_transport := t\<rparr>) = work c" "work (c\<lparr>ct_world := w\<rparr>) = work c" "work (c\<lparr>ct_next_txn_id := i\<rparr>) = work c"
  "work (c\<lparr>ct_in_flight := n\<rparr>) = work c" "work (send_reply k r c) = work c" "work (update_pending_count c) = work c"
  "work (c\<lparr>ct_queued := cmd # ct_queued c\<rparr>) = command_work cmd + work c"
  by (simp_all add: work_def update_pending_count_def)

lemma sum_list_mset: "mset xs = mset ys \<Longrightarrow> sum_list (map f xs) = (sum_list (map f ys) :: nat)"
  by (metis mset_map sum_mset_sum_list)

lemma work_insert_pending:
  assumes "hash_ok e" "pending_ok (ct_pending c)"
  shows "work (insert_pending e k en c) \<le> entry_work (k, en) + work c"
proof -
  have "sum_list (map entry_work (filter (\<lambda>x. fst x \<noteq> k) m)) \<le> sum_list (map entry_work m)" for m
    by (induction m) auto
  then have "sum_list (map entry_work (hash_insert e k en (ct_pending c))) \<le> entry_work (k, en) + sum_list (map entry_work (ct_pending c))"
    using sum_list_mset [OF hash_insert_mset [OF assms(1), of "ct_pending c" k en], of entry_work] assms(2)
    by (simp add: pending_ok_def)
  then show ?thesis using insert_pending_facts [OF assms] by (simp add: work_def)
qed

lemma retry_less: "0 < r \<Longrightarrow> Suc (unat (r - 1)) = unat r" for r :: u8
  by (simp add: unat_minus_one word_gt_0 unat_gt_0)

lemma work_lose_entries: "work (lose_entries es c) \<le> sum_list (map entry_work es) + work c"
proof (induction es arbitrary: c)
  case (Cons x es)
  obtain k en where x: "x = (k, en)" by force
  let ?c = "if pe_retry_attempts en > 0 then
      c\<lparr>ct_queued := CmdRequest (pe_request en) (pe_resp_tx en) (pe_retry_attempts en - 1) (pe_retry_delay_ms en) # ct_queued c\<rparr>
    else send_reply (pe_resp_tx en) (Replied (Inl ConnectionClosed)) c"
  have "work ?c \<le> entry_work x + work c"
    by (auto simp: x entry_work_def dest!: retry_less)
  with Cons [of ?c] show ?case by (simp add: x)
qed simp

lemma work_handle_connection_loss: "work (handle_connection_loss c) \<le> work c"
proof -
  have "work (handle_connection_loss c) \<le> sum_list (map entry_work (rev (sort_key fst (ct_pending c)))) + work (c\<lparr>ct_pending := []\<rparr>)"
    using work_lose_entries [of "rev (sort_key fst (ct_pending c))" "c\<lparr>ct_pending := []\<rparr>"]
    by (simp add: handle_connection_loss_def)
  moreover have "sum_list (map entry_work (rev (sort_key fst (ct_pending c)))) = sum_list (map entry_work (ct_pending c))"
    by (rule sum_list_mset) simp
  ultimately show ?thesis by (simp add: work_def)
qed

text \<open>A part of a round that answers nothing and takes nothing in flight.\<close>

definition kept :: "nat \<Rightarrow> ('t, 'w, 'k) task \<Rightarrow> ('t, 'w, 'k) task \<Rightarrow> bool" where
  "kept n c c' \<longleftrightarrow> task_wf n c' \<and> senders c' = senders c \<and> same_channel c c' \<and> work c' \<le> work c \<and>
     ct_in_flight c' \<le> ct_in_flight c"

lemma kept_trans [trans]: "kept n a b \<Longrightarrow> kept n b c \<Longrightarrow> kept n a c"
  by (auto simp: kept_def same_channel_def)

lemma kept_refl: "task_wf n c \<Longrightarrow> kept n c c"
  by (simp add: kept_def same_channel_def)

lemma do_connect_kept: "do_connect e c = (c', r) \<Longrightarrow> task_wf n c \<Longrightarrow> kept n c c'"
  by (auto simp: do_connect_def kept_def same_channel_def task_wf_def Let_def split: prod.splits sum.splits)

lemma advance_kept: "advance_txn_id c = (i, c') \<Longrightarrow> task_wf n c \<Longrightarrow> kept n c c' \<and> i \<noteq> 0"
  by (auto simp: advance_txn_id_def Let_def kept_def same_channel_def task_wf_def split: if_splits)

lemma task_wf_transport: "task_wf n (c\<lparr>ct_transport := t\<rparr>) = task_wf n c"
  by (simp add: task_wf_def)

lemma send_frame_kept: "send_frame e f c = (c', r) \<Longrightarrow> task_wf n c \<Longrightarrow> kept n c c'"
  by (auto simp: send_frame_def kept_def same_channel_def task_wf_def Let_def split: prod.splits option.splits)

lemma loss_kept: "task_wf n c \<Longrightarrow> kept n c (handle_connection_loss (c\<lparr>ct_transport := None\<rparr>))"
  using handle_connection_loss_facts(1,2,5) [of "c\<lparr>ct_transport := None\<rparr>"]
    handle_connection_loss_facts(3) [of n "c\<lparr>ct_transport := None\<rparr>" n] work_handle_connection_loss [of "c\<lparr>ct_transport := None\<rparr>"]
  by (simp add: kept_def same_channel_def task_wf_transport)

text \<open>What a dispatched request does to the state.\<close>

definition dispatched :: "nat \<Rightarrow> 'k \<Rightarrow> u8 \<Rightarrow> ('t, 'w, 'k) task \<Rightarrow> ('t, 'w, 'k) task \<Rightarrow> bool" where
  "dispatched n k r c c' \<longleftrightarrow> task_wf n c' \<and> senders c' = add_mset k (senders c) \<and> same_channel c c' \<and>
     work c' < 2 * unat r + 2 + work c"

lemma dispatched_reply: "kept n c c' \<Longrightarrow> dispatched n k r c (send_reply k x c')"
  by (simp add: kept_def dispatched_def same_channel_def)

lemma dispatched_retry: "kept n c c1 \<Longrightarrow> dispatched n k r' c1 c' \<Longrightarrow> unat r' \<le> unat r \<Longrightarrow> dispatched n k r c c'"
  by (auto simp: kept_def dispatched_def same_channel_def)

lemma dispatched_sent:
  assumes "hash_ok e" "kept n c c1" "ct_in_flight c < n" "i \<noteq> 0" "async_request_ok (pe_request en)"
  shows "dispatched n (pe_resp_tx en) (pe_retry_attempts en) c
    (update_pending_count ((insert_pending e i en c1)\<lparr>ct_in_flight := ct_in_flight (insert_pending e i en c1) + 1\<rparr>))"
proof -
  have pend: "pending_ok (ct_pending c1)" using assms(2) by (simp add: kept_def task_wf_def)
  note facts = insert_pending_facts [OF assms(1) pend] insert_pending_in_flight [of e i en c1]
  have "length (hash_insert e i en (ct_pending c1)) \<le> Suc (length (ct_pending c1))"
    using hash_insert_simps(3) [OF assms(1)] pend by (simp add: pending_ok_def)
  moreover have "pending_ok (hash_insert e i en (ct_pending c1))"
    by (rule pending_ok_insert [OF assms(1) pend assms(4,5)])
  moreover have "work (insert_pending e i en c1) \<le> 2 * unat (pe_retry_attempts en) + 1 + work c"
    using work_insert_pending [OF assms(1) pend, of i en] assms(2) by (simp add: entry_work_def kept_def)
  ultimately have
    "task_wf n (update_pending_count ((insert_pending e i en c1)\<lparr>ct_in_flight := ct_in_flight (insert_pending e i en c1) + 1\<rparr>))"
    "work (insert_pending e i en c1) < 2 * unat (pe_retry_attempts en) + 2 + work c"
    using assms(2,3) facts(2-5) [of i en] facts(6) by (auto simp: kept_def task_wf_def same_channel_def update_pending_count_def)
  moreover have "same_channel c (insert_pending e i en c1)"
    using assms(2) facts(2) same_channel_trans by (fastforce simp: kept_def)
  ultimately show ?thesis
    using facts(1) [of i en] assms(2) by (simp add: kept_def dispatched_def same_channel_def)
qed

lemma sat_sub_le: "unat (sat_sub r 1) \<le> unat r" for r :: u8
  by (simp add: unat_sat_sub)

text \<open>One round of the loop: it answers the request, sends it, or goes on with one attempt less.\<close>

definition round_done :: "('t, 'w, 'k) task_env \<Rightarrow> nat \<Rightarrow> AsyncRequest \<Rightarrow> 'k \<Rightarrow> u8 \<Rightarrow> u64 \<Rightarrow> ('t, 'w, 'k) task \<Rightarrow> bool" where
  "round_done e n q k r d c \<longleftrightarrow>
     (\<exists>c'. dispatch_loop e q k r d c = Ok c' \<and> dispatched n k r c c') \<or>
     (\<exists>c1. r \<noteq> 0 \<and> kept n c c1 \<and> dispatch_loop e q k r d c = dispatch_loop e q k (sat_sub r 1) d c1)"

lemma round_done_replied: "dispatch_loop e q k r d c = Ok (send_reply k x c1) \<Longrightarrow> kept n c c1 \<Longrightarrow> round_done e n q k r d c"
  using dispatched_reply by (fastforce simp: round_done_def)

lemma round_done_again:
  "dispatch_loop e q k r d c = dispatch_loop e q k (sat_sub r 1) d c1 \<Longrightarrow> r \<noteq> 0 \<Longrightarrow> kept n c c1 \<Longrightarrow> round_done e n q k r d c"
  by (auto simp: round_done_def)

lemma dispatch_connected:
  assumes "hash_ok e" "heapless_ok (v_bytes (tk_build e))" "async_request_ok q" "kept n c c1" "ct_in_flight c < n"
    and alive: "\<not> (ct_transport c = None \<and> r = 0)"
    and conn: "(if ct_transport c = None then do_connect e c else (c, Inr ())) = (c1, Inr ())"
  shows "round_done e n q k r d c"
proof -
  note loop = dispatch_loop.simps [of e q k r d c, unfolded if_not_P [OF alive] conn Let_def prod.case sum.case]
  obtain i c2 where adv: "advance_txn_id c1 = (i, c2)" by force
  have c2: "kept n c c2" "i \<noteq> 0" "task_wf n c2"
    using assms(4) advance_kept [OF adv, of n] by (auto simp: kept_def same_channel_def)
  show ?thesis
  proof (cases "encode_request (v_bytes (tk_build e)) i q (TK_TYPE e)")
    case (Err err)
    with loop adv c2(1) show ?thesis by (intro round_done_replied) auto
  next
    case (Ok f)
    obtain c3 sent where snd: "send_frame e f c2 = (c3, sent)" by force
    have c3: "kept n c c3" "task_wf n c3"
      using send_frame_kept [OF snd c2(3)] kept_trans [OF c2(1)] by (auto simp: kept_def)
    let ?c4 = "handle_connection_loss (c3\<lparr>ct_transport := None\<rparr>)"
    have c4: "kept n c ?c4" using kept_trans [OF c3(1) loss_kept [OF c3(2)]] .
    show ?thesis
    proof (cases sent)
      case (Inl err)
      with loop adv Ok snd c4 show ?thesis
        by (cases "r = 0") (auto intro: round_done_replied round_done_again)
    next
      case (Inr u)
      with loop adv Ok snd show ?thesis
        using dispatched_sent [OF assms(1) c3(1) assms(5) c2(2),
            where en = "\<lparr>pe_resp_tx = k, pe_request = q, pe_retry_attempts = r, pe_retry_delay_ms = d\<rparr>"] assms(3)
        by (simp add: round_done_def)
    qed
  qed (use encode_request_total [OF assms(2,3)] in blast)
qed

lemma dispatch_round:
  assumes "hash_ok e" "heapless_ok (v_bytes (tk_build e))" "async_request_ok q" "task_wf n c" "ct_in_flight c < n"
  shows "round_done e n q k r d c"
proof (cases "ct_transport c = None \<and> r = 0")
  case True
  then show ?thesis
    using kept_refl [OF assms(4)] by (intro round_done_replied) (subst dispatch_loop.simps, simp)
next
  case False
  obtain c1 con where conn: "(if ct_transport c = None then do_connect e c else (c, Inr ())) = (c1, con)" by force
  have c1: "kept n c c1"
    using conn do_connect_kept [of e c c1 con n] kept_refl [OF assms(4)] assms(4) by (auto split: if_splits)
  show ?thesis
  proof (cases con)
    case (Inl err)
    note loop = dispatch_loop.simps [of e q k r d c, unfolded if_not_P [OF False] conn Let_def prod.case Inl sum.case]
    show ?thesis
    proof (cases "r = 0 \<or> sat_sub r 1 = 0")
      case True
      with loop c1 show ?thesis by (intro round_done_replied) simp_all
    next
      case False
      with loop c1 show ?thesis by (intro round_done_again) simp_all
    qed
  next
    case (Inr u)
    with dispatch_connected [OF assms(1-3) c1 assms(5) False] conn show ?thesis by simp
  qed
qed

lemma dispatch_loop_dispatched:
  assumes "hash_ok e" "heapless_ok (v_bytes (tk_build e))" "async_request_ok q" "task_wf n c" "ct_in_flight c < n"
  shows "\<exists>c'. dispatch_loop e q k r d c = Ok c' \<and> dispatched n k r c c'"
  using assms(4,5)
proof (induction "unat r" arbitrary: r c rule: less_induct)
  case less
  from dispatch_round [OF assms(1-3) less(2,3), of k r d]
  consider c' where "dispatch_loop e q k r d c = Ok c'" "dispatched n k r c c'"
    | c1 where "r \<noteq> 0" "kept n c c1" "dispatch_loop e q k r d c = dispatch_loop e q k (sat_sub r 1) d c1"
    by (auto simp: round_done_def)
  then show ?case
  proof cases
    case 2
    have "task_wf n c1" "ct_in_flight c1 < n" using 2(2) less(3) by (auto simp: kept_def)
    with less(1) [OF retry_lower [OF 2(1)]] 2 dispatched_retry [OF 2(2) _ sat_sub_le] show ?thesis by fastforce
  qed blast
qed

section \<open>The other operations\<close>

text \<open>A step that keeps the account: nothing is lost and nothing is answered twice.\<close>

definition settled :: "nat \<Rightarrow> ('t, 'w, 'k) task \<Rightarrow> ('t, 'w, 'k) task \<Rightarrow> bool" where
  "settled n c c' \<longleftrightarrow> task_wf n c' \<and> senders c' = senders c \<and> ct_submitted c' = ct_submitted c \<and> ct_running c' = ct_running c"

lemma settled_trans [trans]: "settled n a b \<Longrightarrow> settled n b c \<Longrightarrow> settled n a c"
  by (simp add: settled_def)

lemma settled_refl: "task_wf n c \<Longrightarrow> settled n c c"
  by (simp add: settled_def)

lemma kept_settled: "kept n c c' \<Longrightarrow> settled n c c'"
  by (simp add: kept_def settled_def same_channel_def)

lemma map_of_tl_key: "resolve_key c i = Some k \<Longrightarrow> \<exists>en. map_of (ct_pending c) k = Some en"
  by (auto simp: resolve_key_def split: if_splits list.splits)

lemma take_entry_eq:
  assumes "resolve_key c i = Some k" "map_of (ct_pending c) k = Some en"
  shows "take_entry e i c = Some (en, update_pending_count
    (c\<lparr>ct_pending := hash_remove e k (ct_pending c), ct_in_flight := ct_in_flight c - 1\<rparr>))"
  using assms by (simp add: take_entry_def remove_pending_def)

lemma take_entry_facts:
  assumes "hash_ok e" "task_wf n c" "take_entry e i c = Some (en, c')"
  shows "task_wf n c'" "add_mset (pe_resp_tx en) (senders c') = senders c" "same_channel c c'"
proof -
  from assms(3) obtain k where k: "resolve_key c i = Some k" "map_of (ct_pending c) k = Some en"
    using map_of_tl_key by (fastforce simp: take_entry_def remove_pending_def split: option.splits)
  then have c': "c' = update_pending_count (c\<lparr>ct_pending := hash_remove e k (ct_pending c), ct_in_flight := ct_in_flight c - 1\<rparr>)"
    using take_entry_eq [OF k, of e] assms(3) by simp
  have pend: "pending_ok (ct_pending c)" "distinct (map fst (ct_pending c))"
    using assms(2) by (simp_all add: task_wf_def pending_ok_def)
  have "length (ct_pending c) \<le> ct_in_flight c" "ct_in_flight c \<le> n" using assms(2) by (simp_all add: task_wf_def)
  with hash_remove_simps(3) [OF assms(1) pend(2) k(2)]
  have "length (hash_remove e k (ct_pending c)) \<le> ct_in_flight c - 1" "ct_in_flight c - 1 \<le> n" by linarith+
  then show "task_wf n c'"
    using assms(2) pending_ok_remove [OF assms(1) pend(1), of k]
    by (simp add: c' task_wf_def update_pending_count_def)
  have "image_mset (pe_resp_tx \<circ> snd) (mset (ct_pending c)) =
      add_mset (pe_resp_tx en) (image_mset (pe_resp_tx \<circ> snd) (mset (hash_remove e k (ct_pending c))))"
    by (subst entry_mset [OF pend(2) k(2)]) (simp add: hash_remove_mset [OF assms(1) pend(2)])
  then show "add_mset (pe_resp_tx en) (senders c') = senders c" "same_channel c c'"
    by (simp_all add: c' senders_def held_senders_def same_channel_def)
qed

lemma settled_answer:
  "hash_ok e \<Longrightarrow> task_wf n c \<Longrightarrow> take_entry e i c = Some (en, c') \<Longrightarrow> settled n c (send_reply (pe_resp_tx en) x c')"
  using take_entry_facts [of e n c i en c'] by (simp add: settled_def same_channel_def)

lemma fail_entry_settled: "hash_ok e \<Longrightarrow> task_wf n c \<Longrightarrow> settled n c (fail_entry e i err c)"
  by (auto simp: fail_entry_def settled_refl intro: settled_answer split: option.splits)

lemma process_frame_settled:
  "hash_ok e \<Longrightarrow> task_wf n c \<Longrightarrow> process_frame e f c = Ok c' \<Longrightarrow> settled n c c'"
  by (auto simp: process_frame_def settled_refl fail_entry_settled bind_res_Ok_iff
      settled_answer [where e = e] split: if_splits res.splits option.splits sum.splits)

lemma recv_branch_settled:
  assumes "hash_ok e" "task_wf n c" "recv_branch e t c = Ok c'"
  shows "settled n c c'"
proof -
  have wf: "task_wf n (c\<lparr>ct_transport := t'\<rparr>)" for t' using assms(2) by (simp add: task_wf_transport)
  have same: "settled n (c\<lparr>ct_transport := t'\<rparr>) c' \<Longrightarrow> settled n c c'" for t' by (simp add: settled_def)
  obtain t' r where "tk_recv e t = (t', r)" by force
  then show ?thesis
    using assms(3) same process_frame_settled [OF assms(1) wf] kept_settled [OF loss_kept [OF assms(2)]]
    by (cases r) (auto simp: recv_branch_def)
qed

lemma close_entries_facts:
  "senders (close_entries es c) = mset (map (pe_resp_tx \<circ> snd) es) + senders c \<and> same_channel c (close_entries es c) \<and>
   ct_pending (close_entries es c) = ct_pending c \<and> ct_queued (close_entries es c) = ct_queued c \<and>
   ct_next_txn_id (close_entries es c) = ct_next_txn_id c"
proof (induction es arbitrary: c)
  case (Cons x es)
  then show ?case by (cases x) (simp add: same_channel_def)
qed (simp add: same_channel_def)

lemma close_commands_facts:
  "senders (close_commands cmds c) = mset (concat (map command_senders cmds)) + senders c \<and>
   same_channel c (close_commands cmds c) \<and> ct_pending (close_commands cmds c) = ct_pending c \<and>
   ct_queued (close_commands cmds c) = ct_queued c \<and> ct_next_txn_id (close_commands cmds c) = ct_next_txn_id c"
  by (induction cmds c rule: close_commands.induct) (simp_all add: same_channel_def)

lemma drain_all_facts:
  shows "senders (drain_all c) = senders c" "same_channel c (drain_all c)" "task_wf n c \<Longrightarrow> task_wf n (drain_all c)"
    "ct_pending (drain_all c) = []" "ct_queued (drain_all c) = []" "ct_in_flight (drain_all c) = 0"
proof -
  let ?c1 = "close_entries (ct_pending c) (c\<lparr>ct_pending := []\<rparr>)"
  let ?c2 = "close_commands (ct_queued ?c1) (?c1\<lparr>ct_queued := []\<rparr>)"
  have drained: "drain_all c = update_pending_count (?c2\<lparr>ct_in_flight := 0\<rparr>)" by (simp add: drain_all_def Let_def)
  note one = close_entries_facts [of "ct_pending c" "c\<lparr>ct_pending := []\<rparr>"]
  note two = close_commands_facts [of "ct_queued ?c1" "?c1\<lparr>ct_queued := []\<rparr>"]
  have "mset (concat (map command_senders (ct_queued ?c1))) + senders (?c1\<lparr>ct_queued := []\<rparr>) = senders ?c1"
    "mset (map (pe_resp_tx \<circ> snd) (ct_pending c)) + senders (c\<lparr>ct_pending := []\<rparr>) = senders c"
    by (simp_all add: senders_def held_senders_def)
  then show "senders (drain_all c) = senders c" using one two by (simp add: drained)
  show "same_channel c (drain_all c)" "ct_pending (drain_all c) = []" "ct_queued (drain_all c) = []" "ct_in_flight (drain_all c) = 0"
    using one two by (simp_all add: drained same_channel_def)
  show "task_wf n (drain_all c)" if "task_wf n c"
    using one two that by (simp add: drained update_pending_count_def task_wf_def same_channel_def)
qed

lemma handle_command_settled:
  assumes "hash_ok e" "heapless_ok (v_bytes (tk_build e))" "command_ok cmd" "task_wf (TK_N e) c"
  shows "\<exists>c' go_on. handle_command e cmd c = Ok (c', go_on) \<and> task_wf (TK_N e) c' \<and>
    senders c' = mset (command_senders cmd) + senders c \<and> same_channel c c'"
proof (cases cmd)
  case (CmdConnect k)
  obtain c1 r where "do_connect e c = (c1, r)" by force
  then show ?thesis using CmdConnect do_connect_kept [of e c c1 r "TK_N e"] assms(4)
    by (simp add: kept_def same_channel_def ex_bool_eq)
next
  case (CmdRequest q k r d)
  show ?thesis
  proof (cases "ct_in_flight c < TK_N e")
    case True
    with dispatch_loop_dispatched [OF assms(1,2) _ assms(4) True, of q k r d] CmdRequest assms(3)
    show ?thesis by (auto simp: dispatched_def)
  next
    case False
    with CmdRequest assms(3,4) show ?thesis by (simp add: task_wf_def same_channel_def ex_bool_eq)
  qed
qed (use drain_all_facts [where c = c] assms(4) in \<open>simp_all add: task_wf_transport same_channel_def ex_bool_eq\<close>)

lemma senders_take_command:
  "ct_cmd_rx c = cmd # cmds \<Longrightarrow> senders c = mset (command_senders cmd) + senders (c\<lparr>ct_cmd_rx := cmds\<rparr>)"
  by (simp add: senders_def held_senders_def)

lemma senders_submit:
  "senders (c\<lparr>ct_cmd_rx := ct_cmd_rx c @ [cmd], ct_submitted := ks\<rparr>) = senders c + mset (command_senders cmd)"
  by (simp add: senders_def held_senders_def)

lemma task_wf_take_command:
  "ct_cmd_rx c = cmd # cmds \<Longrightarrow> task_wf n c \<Longrightarrow> command_ok cmd \<and> task_wf n (c\<lparr>ct_cmd_rx := cmds\<rparr>)"
  by (simp add: task_wf_def)

lemma next_command_settled:
  assumes "hash_ok e" "heapless_ok (v_bytes (tk_build e))" "task_wf (TK_N e) c" "ct_cmd_rx c = cmd # cmds"
  shows "\<exists>c' go_on. handle_command e cmd (c\<lparr>ct_cmd_rx := cmds\<rparr>) = Ok (c', go_on) \<and> settled (TK_N e) c c'"
  using handle_command_settled [OF assms(1,2) conjunct1 conjunct2, OF task_wf_take_command task_wf_take_command, OF assms(4,3,4,3)]
    senders_take_command [OF assms(4)]
  by (auto simp: settled_def same_channel_def)

lemma command_batch_settled:
  assumes "hash_ok e" "heapless_ok (v_bytes (tk_build e))" "task_wf (TK_N e) c"
  shows "\<exists>c' go_on. command_batch e n c = Ok (c', go_on) \<and> settled (TK_N e) c c'"
  using assms(3)
proof (induction n arbitrary: c)
  case (Suc n)
  show ?case
  proof (cases "ct_in_flight c < TK_N e \<and> ct_cmd_rx c \<noteq> []")
    case True
    then obtain cmd cmds where rx: "ct_cmd_rx c = cmd # cmds" by (cases "ct_cmd_rx c") auto
    obtain c1 go_on where step: "handle_command e cmd (c\<lparr>ct_cmd_rx := cmds\<rparr>) = Ok (c1, go_on)" "settled (TK_N e) c c1"
      using next_command_settled [OF assms(1,2) Suc.prems rx] by blast
    then have "task_wf (TK_N e) c1" by (simp add: settled_def)
    with Suc.IH [of c1] step settled_trans [OF step(2)] True rx show ?thesis by (cases go_on) auto
  next
    case False
    then show ?thesis using settled_refl [OF Suc.prems] by (auto split: list.splits)
  qed
qed (simp add: settled_refl ex_bool_eq)

lemma command_branch_settled:
  assumes "hash_ok e" "heapless_ok (v_bytes (tk_build e))" "task_wf (TK_N e) c" "ct_cmd_rx c = cmd # cmds"
  shows "\<exists>c' go_on. command_branch e cmd (c\<lparr>ct_cmd_rx := cmds\<rparr>) = Ok (c', go_on) \<and> settled (TK_N e) c c'"
proof -
  obtain c1 go_on where step: "handle_command e cmd (c\<lparr>ct_cmd_rx := cmds\<rparr>) = Ok (c1, go_on)" "settled (TK_N e) c c1"
    using next_command_settled [OF assms] by blast
  then have "task_wf (TK_N e) c1" by (simp add: settled_def)
  with command_batch_settled [OF assms(1,2), of c1 15] step settled_trans [OF step(2)] show ?thesis
    by (cases go_on) (auto simp: command_branch_def)
qed

lemma fill_pipeline_settled:
  assumes "hash_ok e" "heapless_ok (v_bytes (tk_build e))" "task_wf (TK_N e) c"
  shows "\<exists>c'. fill_pipeline e c = Some (Ok c') \<and> settled (TK_N e) c c' \<and> ct_cmd_rx c' = ct_cmd_rx c \<and>
    (ct_queued c' = [] \<or> ct_in_flight c' = TK_N e)"
  using assms(3)
proof (induction "work c" arbitrary: c rule: less_induct)
  case less
  note fill = fill_pipeline.simps [of e c]
  show ?case
  proof (cases "ct_in_flight c < TK_N e \<and> ct_queued c \<noteq> []")
    case True
    then obtain cmd cmds where q: "ct_queued c = cmd # cmds" by (cases "ct_queued c") auto
    then obtain rq k r d where cmd: "cmd = CmdRequest rq k r d" "async_request_ok rq"
      using less(2) by (cases cmd) (auto simp: task_wf_def)
    let ?c = "c\<lparr>ct_queued := cmds\<rparr>"
    have wf: "task_wf (TK_N e) ?c" using less(2) q by (simp add: task_wf_def)
    obtain c1 where c1: "dispatch_loop e rq k r d ?c = Ok c1" "dispatched (TK_N e) k r ?c c1"
      using dispatch_loop_dispatched [OF assms(1,2) cmd(2) wf, where k = k and r = r and d = d] True by auto
    have "work c = 2 * unat r + 2 + work ?c" "senders c = add_mset k (senders ?c)"
      using q cmd by (simp_all add: work_def senders_def held_senders_def)
    then have nxt: "work c1 < work c" "settled (TK_N e) c c1" "task_wf (TK_N e) c1" "ct_cmd_rx c1 = ct_cmd_rx c"
      using c1(2) by (simp_all add: dispatched_def settled_def same_channel_def)
    with less(1) [OF nxt(1,3)] settled_trans [OF nxt(2)] show ?thesis
      using True q cmd c1(1) fill nxt(4) by auto
  next
    case False
    then have "ct_queued c = [] \<or> ct_in_flight c = TK_N e" using less(2) by (auto simp: task_wf_def)
    then show ?thesis using False fill settled_refl [OF less(2)] by (auto split: list.splits)
  qed
qed

lemma task_end_facts:
  "senders (task_end c) = senders c" "held_senders (task_end c) = []"
  "ct_submitted (task_end c) = ct_submitted c" "\<not> ct_running (task_end c)"
  by (simp_all add: task_end_def senders_def held_senders_def comp_def)

section \<open>Every request is answered once\<close>

definition atask_inv :: "nat \<Rightarrow> ('t, 'w, 'k) task \<Rightarrow> bool" where
  "atask_inv n c \<longleftrightarrow> senders c = mset (ct_submitted c) \<and> (if ct_running c then task_wf n c else held_senders c = [])"

lemma atask_inv_settled: "atask_inv n c \<Longrightarrow> ct_running c \<Longrightarrow> settled n c c' \<Longrightarrow> atask_inv n c'"
  by (simp add: atask_inv_def settled_def)

lemma atask_inv_end: "atask_inv n c \<Longrightarrow> atask_inv n (task_end c)"
  by (simp add: atask_inv_def task_end_facts)

lemma task_step_inv:
  assumes "task_step e c c'" "hash_ok e" "heapless_ok (v_bytes (tk_build e))" "atask_inv (TK_N e) c"
  shows "atask_inv (TK_N e) c'"
  using assms
proof (induction rule: task_step.induct)
  case (step_submit c cmd)
  have "command_ok cmd" using step_submit(2) by (cases cmd) auto
  with step_submit show ?case
    by (simp add: atask_inv_def senders_submit) (simp add: task_wf_def)
next
  case (step_recv c c1 t c2)
  have "task_wf (TK_N e) c" using step_recv by (simp add: atask_inv_def)
  then have fill: "settled (TK_N e) c c1" using fill_pipeline_settled [of e c] step_recv by auto
  then have "settled (TK_N e) c1 c2"
    using recv_branch_settled [of e "TK_N e" c1 t c2] step_recv by (simp add: settled_def)
  with atask_inv_settled settled_trans [OF fill] step_recv show ?case by blast
next
  case (step_panic c c1 t)
  have "task_wf (TK_N e) c" using step_panic by (simp add: atask_inv_def)
  then have "settled (TK_N e) c c1" using fill_pipeline_settled [of e c] step_panic by auto
  with atask_inv_settled atask_inv_end step_panic show ?case by blast
next
  case (step_command c c1 cmd cmds c2 go_on)
  have "task_wf (TK_N e) c" using step_command by (simp add: atask_inv_def)
  then have fill: "settled (TK_N e) c c1" using fill_pipeline_settled [of e c] step_command by auto
  then have "task_wf (TK_N e) c1" by (simp add: settled_def)
  then have "settled (TK_N e) c1 c2" using command_branch_settled [of e c1 cmd cmds] step_command by auto
  then have "atask_inv (TK_N e) c2" using atask_inv_settled settled_trans [OF fill] step_command by blast
  then show ?case by (simp add: atask_inv_end)
next
  case (step_closed c c1)
  have "task_wf (TK_N e) c" using step_closed by (simp add: atask_inv_def)
  then have "settled (TK_N e) c c1" using fill_pipeline_settled [of e c] step_closed by auto
  with atask_inv_settled atask_inv_end step_closed show ?case by blast
qed

lemma task_run_inv:
  assumes "task_run e w c" "hash_ok e" "heapless_ok (v_bytes (tk_build e))"
  shows "atask_inv (TK_N e) c"
  using assms
proof (induction rule: task_run.induct)
  case task_start
  show ?case by (simp add: client_task_new_def atask_inv_def senders_def held_senders_def task_wf_def)
next
  case (task_next c c')
  then show ?case using task_step_inv by blast
qed

text \<open>
  C17: The asynchronous client answers every request exactly once. In every state that the task reaches, with commands,
  responses, lost connections, panics and the end of the task in any order, the commands that callers have
  submitted are, each once, the ones that wait in the channel, in the queue or for a response, and the ones whose
  sender was used or dropped. After the end of the task nothing waits. While it runs the number of pending requests
  stays within \<open>in_flight\<close>, which stays within the limit \<open>N\<close>, the count that is published is the number of pending requests, and
  no transaction identifier is 0.
\<close>

theorem async_client_accounted:
  assumes "hash_ok e" "heapless_ok (v_bytes (tk_build e))" "task_run e w c"
  shows "mset (ct_submitted c) = mset (held_senders c) + mset (map fst (ct_replies c)) \<and>
    (if ct_running c then
       length (ct_pending c) \<le> ct_in_flight c \<and> ct_in_flight c \<le> TK_N e \<and> ct_pending_count c = length (ct_pending c) \<and>
       distinct (map fst (ct_pending c)) \<and> 0 \<notin> fst ` set (ct_pending c)
     else held_senders c = [])"
  using task_run_inv [OF assms(3,1,2)]
  by (simp add: atask_inv_def senders_def task_wf_def pending_ok_def split: if_splits)

text \<open>
  C18: The task of the asynchronous client is never stuck in its own work. In every state that it reaches while it
  runs, the loop that fills the pipeline ends, after which no request is queued or \<open>N\<close> are in flight, and
  the command branch then handles the next commands to their end: retries, reconnections and
  requests that come back to the queue do not go on for ever, and no command panics.
\<close>

theorem async_task_never_stuck:
  assumes "hash_ok e" "heapless_ok (v_bytes (tk_build e))" "task_run e w c" "ct_running c"
  shows "\<exists>c'. fill_pipeline e c = Some (Ok c') \<and> (ct_queued c' = [] \<or> ct_in_flight c' = TK_N e) \<and>
    (\<forall>cmd cmds. ct_cmd_rx c = cmd # cmds \<longrightarrow> (\<exists>r. command_branch e cmd (c'\<lparr>ct_cmd_rx := cmds\<rparr>) = Ok r))"
proof -
  have "task_wf (TK_N e) c" using task_run_inv [OF assms(3,1,2)] assms(4) by (simp add: atask_inv_def)
  then obtain c' where fill: "fill_pipeline e c = Some (Ok c')" "settled (TK_N e) c c'" "ct_cmd_rx c' = ct_cmd_rx c"
      "ct_queued c' = [] \<or> ct_in_flight c' = TK_N e"
    using fill_pipeline_settled [OF assms(1,2)] by blast
  then have "task_wf (TK_N e) c'" by (simp add: settled_def)
  with command_branch_settled [OF assms(1,2)] fill show ?thesis by metis
qed

end
