(* ===== verification/Async_Answers.thy ===== *)
theory Async_Answers
  imports Async_Client
begin

text \<open>
  What the asynchronous client does with a response, with a response that it cannot decode and with a lost connection,
  and concrete runs of the task.
\<close>

section \<open>Lost connections\<close>

definition requeued :: "u16 \<times> 'k PendingEntry \<Rightarrow> 'k TaskCommand" where
  "requeued x = CmdRequest (pe_request (snd x)) (pe_resp_tx (snd x)) (pe_retry_attempts (snd x) - 1) (pe_retry_delay_ms (snd x))"

definition closed_reply :: "u16 \<times> 'k PendingEntry \<Rightarrow> 'k \<times> TaskReply" where
  "closed_reply x = (pe_resp_tx (snd x), Replied (Inl ConnectionClosed))"

lemma lose_entries_eq:
  "lose_entries es c = c\<lparr>
     ct_queued := map requeued (filter (\<lambda>x. 0 < pe_retry_attempts (snd x)) (rev es)) @ ct_queued c,
     ct_replies := ct_replies c @ map closed_reply (filter (\<lambda>x. \<not> 0 < pe_retry_attempts (snd x)) es)\<rparr>"
proof (induction es arbitrary: c)
  case (Cons x es)
  then show ?case by (cases x) (simp add: requeued_def closed_reply_def send_reply_def)
qed simp

text \<open>
  C20: When the connection is lost, every pending request that has retry attempts left goes back to the front of
  the queue, in the order of the transaction identifiers and with one attempt less, before what was queued
  already. Every other pending request is answered with \<open>ConnectionClosed\<close>. Nothing is in flight then.
\<close>

theorem connection_loss_requeues:
  "handle_connection_loss c =
     (let es = sort_key fst (ct_pending c) in
      c\<lparr>ct_pending := [],
        ct_queued := map requeued (filter (\<lambda>x. 0 < pe_retry_attempts (snd x)) es) @ ct_queued c,
        ct_in_flight := 0, ct_pending_count := 0,
        ct_replies := ct_replies c @ map closed_reply (filter (\<lambda>x. \<not> 0 < pe_retry_attempts (snd x)) (rev es))\<rparr>)"
  by (simp add: handle_connection_loss_def lose_entries_eq update_pending_count_def Let_def)

section \<open>Responses\<close>


lemma recv_frame_eq:
  assumes "build_ok (tk_build e)" "adu_addressable (TK_TYPE e) uid" "pdu_wf p" "normal_code (function_code p)" "error_code p = None"
    and "tk_recv e t = (t', Inr (adu_frame (TK_TYPE e) txn uid (pdu_body p)))"
  shows "recv_branch e t c =
    (let c = c\<lparr>ct_transport := Some t'\<rparr> in
     case decode_pdu (tk_build e) p of
       Panic \<Rightarrow> Panic
     | Err err \<Rightarrow> Ok (fail_entry e 0 err c)
     | Ok response \<Rightarrow>
         (case take_entry e (if is_tcp_type (TK_TYPE e) then txn else 0) c of
            None \<Rightarrow> Ok c
          | Some (entry, c) \<Rightarrow> bind_res (fix_up_response response (pe_request entry)) (\<lambda>r.
              Ok (send_reply (pe_resp_tx entry) (Replied (Inr r)) c))))"
  using decode_response_frame [OF assms(1-5), of txn] assms(6)
  by (cases "decode_pdu (tk_build e) p") (simp_all add: recv_branch_def process_frame_def Let_def split: option.splits)


text \<open>
  A response whose body cannot be decoded fails the request that comes first in the iteration of the map, and
  this whatever transaction identifier the frame carries: the request that the response belongs to stays
  pending unless it happens to be that one.
\<close>

theorem undecodable_response_fails_first:
  assumes "build_ok (tk_build e)" "adu_addressable (TK_TYPE e) uid"
    and "pdu_wf p" "normal_code (function_code p)" "error_code p = None"
    and "tk_recv e t = (t', Inr (adu_frame (TK_TYPE e) txn uid (pdu_body p)))"
    and "decode_pdu (tk_build e) p = Err err" "ct_pending c = (k, entry) # entries"
  shows "recv_branch e t c = Ok (send_reply (pe_resp_tx entry) (Replied (Inl err)) (update_pending_count
    (c\<lparr>ct_transport := Some t', ct_pending := hash_remove e k (ct_pending c), ct_in_flight := ct_in_flight c - 1\<rparr>)))"
proof -
  let ?c = "c\<lparr>ct_transport := Some t'\<rparr>"
  have "resolve_key ?c 0 = Some k" "map_of (ct_pending ?c) k = Some entry"
    using assms(8) by (simp_all add: resolve_key_def)
  from take_entry_eq [OF this, of e] show ?thesis
    using recv_frame_eq [where c = c, OF assms(1-6)] assms(7) by (simp add: Let_def fail_entry_def)
qed

section \<open>Concrete runs\<close>

text \<open>A map that keeps the latest entry in front, a transport that receives one frame and a connection that always opens.\<close>

definition example_task :: "bytes \<Rightarrow> (unit, unit, nat) task_env" where
  "example_task frame = \<lparr>tk_connect = (\<lambda>w. (w, Inr ())), tk_send = (\<lambda>t f. (t, Inr ())), tk_recv = (\<lambda>t. (t, Inr frame)),
     TK_TYPE = StdTcp, TK_N = 2,
     tk_build = \<lparr>overflow_checks = True, v_bytes = bounded_vec, v_words = bounded_vec, v_params = bounded_vec\<rparr>,
     hash_insert = (\<lambda>k v m. (k, v) # filter (\<lambda>x. fst x \<noteq> k) m), hash_remove = (\<lambda>k m. filter (\<lambda>x. fst x \<noteq> k) m)\<rparr>"

lemma example_task_ok: "hash_ok (example_task f)" "build_ok (tk_build (example_task f))" "heapless_ok (v_bytes (tk_build (example_task f)))"
  by (simp_all add: example_task_def hash_ok_def build_ok_def)

lemma example_task_sel [simp]:
  "TK_TYPE (example_task f) = StdTcp" "tk_recv (example_task f) t = (t, Inr f)"
  "hash_remove (example_task f) k m = filter (\<lambda>x. fst x \<noteq> k) m"
  by (simp_all add: example_task_def)

definition example_entry :: "nat \<Rightarrow> AsyncRequest \<Rightarrow> nat PendingEntry" where
  "example_entry k q = \<lparr>pe_resp_tx = k, pe_request = q, pe_retry_attempts = 0, pe_retry_delay_ms = 0\<rparr>"

definition example_pending :: "(unit, unit, nat) task" where
  "example_pending = (client_task_new ())\<lparr>ct_transport := Some (), ct_in_flight := 2, ct_pending_count := 2,
     ct_pending := [(5, example_entry 50 (Q_ReadHoldingRegisters (UnitIdOrSlaveAddr 17) 0 1)),
       (9, example_entry 90 (Q_WriteSingleRegister (UnitIdOrSlaveAddr 17) 4 7))]\<rparr>"

definition example_submitted :: "(unit, unit, nat) task" where
  "example_submitted = (client_task_new ())\<lparr>ct_submitted := [50],
     ct_cmd_rx := [CmdRequest (Q_ReadHoldingRegisters (UnitIdOrSlaveAddr 17) 0 1) 50 0 0]\<rparr>"

definition example_answered :: "(unit, unit, nat) task" where
  "example_answered = (client_task_new ())\<lparr>ct_submitted := [50], ct_replies := [(50, Replied (Inl ConnectionClosed))]\<rparr>"

lemma example_submitted_run: "task_run (example_task f) () example_submitted"
proof -
  have "task_step (example_task f) (client_task_new ()) example_submitted"
    using step_submit [of "client_task_new ()" "CmdRequest (Q_ReadHoldingRegisters (UnitIdOrSlaveAddr 17) 0 1) 50 0 0" "example_task f"]
    by (simp add: client_task_new_def example_submitted_def)
  then show ?thesis by (rule task_next [OF task_start])
qed

lemma example_answered_run: "task_run (example_task f) () example_answered"
proof -
  let ?cmd = "CmdRequest (Q_ReadHoldingRegisters (UnitIdOrSlaveAddr 17) 0 1) 50 0 0"
  have fill: "fill_pipeline (example_task f) example_submitted = Some (Ok example_submitted)"
    by (subst fill_pipeline.simps) (simp add: example_submitted_def client_task_new_def)
  have cmd: "command_branch (example_task f) ?cmd (example_submitted\<lparr>ct_cmd_rx := []\<rparr>) = Ok (example_answered, True)"
    by (simp add: command_branch_def example_submitted_def client_task_new_def example_answered_def example_task_def
        dispatch_loop.simps send_reply_def eval_nat_numeral)
  show ?thesis
    using task_next [OF example_submitted_run step_command [OF _ fill _ cmd]]
    by (simp add: example_submitted_def client_task_new_def)
qed

theorem async_client_accounted_witness:
  "mset (ct_submitted example_answered) = {#50#} \<and> held_senders example_answered = [] \<and>
   mset (held_senders example_answered) + mset (map fst (ct_replies example_answered)) = {#50#}"
  using async_client_accounted [OF example_task_ok(1,3) example_answered_run]
  by (simp add: example_answered_def client_task_new_def held_senders_def)

theorem async_task_never_stuck_witness:
  "\<exists>c' r. fill_pipeline (example_task []) example_submitted = Some (Ok c') \<and>
    command_branch (example_task []) (CmdRequest (Q_ReadHoldingRegisters (UnitIdOrSlaveAddr 17) 0 1) 50 0 0) (c'\<lparr>ct_cmd_rx := []\<rparr>) = Ok r"
  using async_task_never_stuck [OF example_task_ok(1,3) example_submitted_run]
  by (fastforce simp: example_submitted_def client_task_new_def)


theorem undecodable_response_fails_first_witness:
  "\<exists>c'. recv_branch (example_task (adu_frame StdTcp 9 17 [3, 1, 0])) () example_pending = Ok c' \<and>
    ct_replies c' = [(50, Replied (Inl InvalidByteCount))] \<and> map fst (ct_pending c') = [9]"
proof -
  let ?p = "pdu_new ReadHoldingRegisters [1, 0] 2" and ?f = "adu_frame StdTcp 9 17 [3, 1, 0]"
  have decoded: "decode_pdu (tk_build (example_task ?f)) ?p = Err InvalidByteCount"
    by (simp add: decode_pdu_def decode_read_holding_registers_def byte_count_payload_def slice_def)
  have pending: "ct_pending example_pending = [(5, example_entry 50 (Q_ReadHoldingRegisters (UnitIdOrSlaveAddr 17) 0 1)),
      (9, example_entry 90 (Q_WriteSingleRegister (UnitIdOrSlaveAddr 17) 4 7))]" "ct_replies example_pending = []"
    by (simp_all add: example_pending_def client_task_new_def)
  from undecodable_response_fails_first [OF example_task_ok(2) _ _ _ _ _ decoded pending(1), of 17 "()" "()" 9]
  show ?thesis
    by (simp add: pending example_entry_def pdu_wf_def normal_code_def pdu_body_def adu_addressable_def)
qed

end
