(* ===== verification/Async_Api.thy ===== *)
theory Async_Api
  imports Async_Client
begin

text \<open>
  The handle of the asynchronous client (\<open>AsyncClientCore\<close> of mbus-async/src/client/client_core.rs): its settings, sending a
  request to the task and waiting for the reply, and the request methods, which build a request and
  take the result out of the response. A \<open>Duration\<close> is its number of milliseconds or nanoseconds. What a request method gets
  from \<open>send_request\<close> is an argument of the method.
\<close>

section \<open>Settings\<close>

datatype AsyncError = AsyncMbus MbusError | WorkerClosed | UnexpectedResponseType | AsyncTimeout

record AsyncClientCore =
  core_request_timeout_ns :: u64
  core_retry_attempts :: u8
  core_retry_delay_ms :: u64
  core_is_closed :: bool

definition async_core_new :: AsyncClientCore where
  "async_core_new = \<lparr>core_request_timeout_ns = 30 * 1000000000, core_retry_attempts = 0, core_retry_delay_ms = 0,
     core_is_closed = False\<rparr>"

definition set_retry_options :: "u8 \<Rightarrow> nat \<Rightarrow> AsyncClientCore \<Rightarrow> AsyncClientCore" where
  "set_retry_options attempts delay_millis core =
     core\<lparr>core_retry_attempts := attempts, core_retry_delay_ms := of_nat delay_millis\<rparr>"

definition set_request_timeout :: "nat \<Rightarrow> AsyncClientCore \<Rightarrow> AsyncClientCore" where
  "set_request_timeout nanos core =
     core\<lparr>core_request_timeout_ns := (if nanos < 2 ^ 64 then of_nat nanos else - 1)\<rparr>"

definition clear_request_timeout :: "AsyncClientCore \<Rightarrow> AsyncClientCore" where
  "clear_request_timeout core = core\<lparr>core_request_timeout_ns := 0\<rparr>"

text \<open>\<open>open\<close> tells that the receiver of the command channel still exists.\<close>

definition async_is_connected :: "AsyncClientCore \<Rightarrow> bool \<Rightarrow> bool" where
  "async_is_connected core open \<longleftrightarrow> \<not> core_is_closed core \<and> open"

definition async_has_pending_requests :: "('t, 'w, 'k) task \<Rightarrow> bool" where
  "async_has_pending_requests c \<longleftrightarrow> ct_pending_count c > 0"

definition async_shutdown :: "AsyncClientCore \<Rightarrow> bool \<Rightarrow> AsyncClientCore \<times> 'k TaskCommand list \<times> (AsyncError + unit)" where
  "async_shutdown core open =
     (core\<lparr>core_is_closed := True\<rparr>, if open then ([CmdShutdown], Inr ()) else ([], Inl WorkerClosed))"

definition async_disconnect :: "bool \<Rightarrow> 'k TaskCommand list \<times> (AsyncError + unit)" where
  "async_disconnect open = (if open then ([CmdDisconnect], Inr ()) else ([], Inl WorkerClosed))"

section \<open>Sending a request\<close>

definition outer_timeout_ns :: "bool \<Rightarrow> AsyncClientCore \<Rightarrow> (AsyncError, u64) res" where
  "outer_timeout_ns oc core =
     (let total_attempts = ucast (core_retry_attempts core) + 1 in
      bind_res (mul_ovf oc (core_retry_delay_ms core) (ucast (core_retry_attempts core))) (\<lambda>n.
      bind_res (mul_ovf oc n 1000000) (\<lambda>total_delay_ns.
      Ok (sat_add (sat_mul (core_request_timeout_ns core) total_attempts) total_delay_ns))))"

text \<open>A received reply, \<open>rx.await.map_err(|_| WorkerClosed)?.map_err(Mbus)\<close>.\<close>

fun reply_result :: "TaskReply \<Rightarrow> (AsyncError, AsyncResponse) res" where
  "reply_result (Replied (Inr r)) = Ok r"
| "reply_result (Replied (Inl err)) = Err (AsyncMbus err)"
| "reply_result _ = Err WorkerClosed"

text \<open>
  \<open>waited (Some d)\<close> is the reply that arrives within \<open>d\<close> nanoseconds, \<open>waited None\<close> the reply that arrives at all. The result
  lists the commands sent; \<open>room\<close> tells whether \<open>try_send\<close> finds room in the channel. \<open>None\<close> is a call that does not return.
\<close>

definition send_request ::
    "bool \<Rightarrow> AsyncClientCore \<Rightarrow> bool \<Rightarrow> bool \<Rightarrow> 'k \<Rightarrow> (u64 option \<Rightarrow> TaskReply option) \<Rightarrow> AsyncRequest \<Rightarrow>
     ('k TaskCommand list \<times> (AsyncError, AsyncResponse) res) option" where
  "send_request oc core open room resp_tx waited request =
     (if \<not> open then Some ([], Err WorkerClosed)
      else
        let cmd = CmdRequest request resp_tx (core_retry_attempts core) (core_retry_delay_ms core) in
        if core_request_timeout_ns core > 0 then
          (case outer_timeout_ns oc core of
             Ok d \<Rightarrow> (case waited (Some d) of
                         None \<Rightarrow> Some (cmd # (if room then [CmdDisconnect] else []), Err AsyncTimeout)
                       | Some reply \<Rightarrow> Some ([cmd], reply_result reply))
           | Err err \<Rightarrow> Some ([cmd], Err err)
           | Panic \<Rightarrow> Some ([cmd], Panic))
        else (case waited None of None \<Rightarrow> None | Some reply \<Rightarrow> Some ([cmd], reply_result reply)))"

text \<open>\<open>connect\<close> waits for the result without a limit.\<close>

definition async_connect :: "bool \<Rightarrow> 'k \<Rightarrow> TaskReply option \<Rightarrow> ('k TaskCommand list \<times> (AsyncError + unit)) option" where
  "async_connect open resp_tx waited =
     (if \<not> open then Some ([], Inl WorkerClosed)
      else case waited of
             None \<Rightarrow> None
           | Some (ConnectResult (Inr u)) \<Rightarrow> Some ([CmdConnect resp_tx], Inr u)
           | Some (ConnectResult (Inl err)) \<Rightarrow> Some ([CmdConnect resp_tx], Inl (AsyncMbus err))
           | Some _ \<Rightarrow> Some ([CmdConnect resp_tx], Inl WorkerClosed))"

section \<open>The request methods\<close>

type_synonym send_fn = "AsyncRequest \<Rightarrow> (AsyncError, AsyncResponse) res"

fun map_mbus :: "'a result \<Rightarrow> (AsyncError, 'a) res" where
  "map_mbus (Ok x) = Ok x"
| "map_mbus (Err e) = Err (AsyncMbus e)"
| "map_mbus Panic = Panic"

text \<open>\<open>heapless::Vec::<_, MAX_PDU_DATA_LEN>::from_slice(values)\<close>.\<close>

definition vec_from_slice :: "'a heapless \<Rightarrow> 'a list \<Rightarrow> (AsyncError, 'a list) res" where
  "vec_from_slice hv xs = extend_or hv MAX_PDU_DATA_LEN (AsyncMbus BufferTooSmall) [] xs"

definition async_read_multiple_coils :: "send_fn \<Rightarrow> u8 \<Rightarrow> u16 \<Rightarrow> u16 \<Rightarrow> (AsyncError, Coils) res" where
  "async_read_multiple_coils send uid addr qty =
     bind_res (map_mbus (unit_id_new uid)) (\<lambda>unit.
     bind_res (send (Q_ReadMultipleCoils unit addr qty)) (\<lambda>r.
     case r of R_Coils coils \<Rightarrow> Ok coils | _ \<Rightarrow> Err UnexpectedResponseType))"

definition async_write_single_coil :: "bool \<Rightarrow> send_fn \<Rightarrow> u8 \<Rightarrow> u16 \<Rightarrow> bool \<Rightarrow> (AsyncError, u16 \<times> bool) res" where
  "async_write_single_coil oc send uid addr v0 =
     bind_res (map_mbus (unit_id_new uid)) (\<lambda>unit.
     bind_res (send (Q_WriteSingleCoil unit addr v0)) (\<lambda>r.
     case r of
       R_Coils coils \<Rightarrow>
         (case coils_value oc coils (coils_from_address coils) of
            Panic \<Rightarrow> Panic
          | Ok v \<Rightarrow> Ok (coils_from_address coils, v)
          | Err _ \<Rightarrow> Ok (coils_from_address coils, False))
     | _ \<Rightarrow> Err UnexpectedResponseType))"

definition async_write_multiple_coils :: "send_fn \<Rightarrow> u8 \<Rightarrow> u16 \<Rightarrow> Coils \<Rightarrow> (AsyncError, u16 \<times> u16) res" where
  "async_write_multiple_coils send uid addr coils =
     bind_res (map_mbus (unit_id_new uid)) (\<lambda>unit.
     bind_res (send (Q_WriteMultipleCoils unit addr coils)) (\<lambda>r.
     case r of R_Coils coils \<Rightarrow> Ok (coils_from_address coils, coils_quantity coils) | _ \<Rightarrow> Err UnexpectedResponseType))"

definition async_read_holding_registers :: "send_fn \<Rightarrow> u8 \<Rightarrow> u16 \<Rightarrow> u16 \<Rightarrow> (AsyncError, Registers) res" where
  "async_read_holding_registers send uid addr qty =
     bind_res (map_mbus (unit_id_new uid)) (\<lambda>unit.
     bind_res (send (Q_ReadHoldingRegisters unit addr qty)) (\<lambda>r.
     case r of R_HoldingRegisters regs \<Rightarrow> Ok regs | _ \<Rightarrow> Err UnexpectedResponseType))"

definition async_read_input_registers :: "send_fn \<Rightarrow> u8 \<Rightarrow> u16 \<Rightarrow> u16 \<Rightarrow> (AsyncError, Registers) res" where
  "async_read_input_registers send uid addr qty =
     bind_res (map_mbus (unit_id_new uid)) (\<lambda>unit.
     bind_res (send (Q_ReadInputRegisters unit addr qty)) (\<lambda>r.
     case r of R_InputRegisters regs \<Rightarrow> Ok regs | _ \<Rightarrow> Err UnexpectedResponseType))"

definition async_write_single_register :: "send_fn \<Rightarrow> u8 \<Rightarrow> u16 \<Rightarrow> u16 \<Rightarrow> (AsyncError, u16 \<times> u16) res" where
  "async_write_single_register send uid addr v0 =
     bind_res (map_mbus (unit_id_new uid)) (\<lambda>unit.
     bind_res (send (Q_WriteSingleRegister unit addr v0)) (\<lambda>r.
     case r of R_SingleRegisterWrite addr v0 \<Rightarrow> Ok (addr, v0) | _ \<Rightarrow> Err UnexpectedResponseType))"

definition async_write_multiple_registers :: "service_build \<Rightarrow> send_fn \<Rightarrow> u8 \<Rightarrow> u16 \<Rightarrow> u16 list \<Rightarrow> (AsyncError, u16 \<times> u16) res" where
  "async_write_multiple_registers b send uid addr vs =
     bind_res (map_mbus (unit_id_new uid)) (\<lambda>unit.
     bind_res (vec_from_slice (v_words b) vs) (\<lambda>hv.
     bind_res (send (Q_WriteMultipleRegisters unit addr hv)) (\<lambda>r.
     case r of R_HoldingRegisters regs \<Rightarrow> Ok (reg_from_address regs, reg_quantity regs) | _ \<Rightarrow> Err UnexpectedResponseType)))"

definition async_read_write_multiple_registers :: "service_build \<Rightarrow> send_fn \<Rightarrow> u8 \<Rightarrow> u16 \<Rightarrow> u16 \<Rightarrow> u16 \<Rightarrow> u16 list \<Rightarrow> (AsyncError, Registers) res" where
  "async_read_write_multiple_registers b send uid ra rq wa wvs =
     bind_res (map_mbus (unit_id_new uid)) (\<lambda>unit.
     bind_res (vec_from_slice (v_words b) wvs) (\<lambda>hv.
     bind_res (send (Q_ReadWriteMultipleRegisters unit ra rq wa hv)) (\<lambda>r.
     case r of R_HoldingRegisters regs \<Rightarrow> Ok regs | _ \<Rightarrow> Err UnexpectedResponseType)))"

definition async_mask_write_register :: "send_fn \<Rightarrow> u8 \<Rightarrow> u16 \<Rightarrow> u16 \<Rightarrow> u16 \<Rightarrow> (AsyncError, unit) res" where
  "async_mask_write_register send uid addr am om =
     bind_res (map_mbus (unit_id_new uid)) (\<lambda>unit.
     bind_res (send (Q_MaskWriteRegister unit addr am om)) (\<lambda>r.
     case r of R_MaskWriteRegister \<Rightarrow> Ok () | _ \<Rightarrow> Err UnexpectedResponseType))"

definition async_read_discrete_inputs :: "send_fn \<Rightarrow> u8 \<Rightarrow> u16 \<Rightarrow> u16 \<Rightarrow> (AsyncError, DiscreteInputs) res" where
  "async_read_discrete_inputs send uid addr qty =
     bind_res (map_mbus (unit_id_new uid)) (\<lambda>unit.
     bind_res (send (Q_ReadDiscreteInputs unit addr qty)) (\<lambda>r.
     case r of R_DiscreteInputs di \<Rightarrow> Ok di | _ \<Rightarrow> Err UnexpectedResponseType))"

definition async_read_fifo_queue :: "send_fn \<Rightarrow> u8 \<Rightarrow> u16 \<Rightarrow> (AsyncError, FifoQueue) res" where
  "async_read_fifo_queue send uid addr =
     bind_res (map_mbus (unit_id_new uid)) (\<lambda>unit.
     bind_res (send (Q_ReadFifoQueue unit addr)) (\<lambda>r.
     case r of R_FifoQueue fq \<Rightarrow> Ok fq | _ \<Rightarrow> Err UnexpectedResponseType))"

definition async_read_file_record :: "send_fn \<Rightarrow> u8 \<Rightarrow> SubRequest \<Rightarrow> (AsyncError, SubRequestParams list) res" where
  "async_read_file_record send uid sr =
     bind_res (map_mbus (unit_id_new uid)) (\<lambda>unit.
     bind_res (send (Q_ReadFileRecord unit sr)) (\<lambda>r.
     case r of R_FileRecordRead payload \<Rightarrow> Ok payload | _ \<Rightarrow> Err UnexpectedResponseType))"

definition async_write_file_record :: "send_fn \<Rightarrow> u8 \<Rightarrow> SubRequest \<Rightarrow> (AsyncError, unit) res" where
  "async_write_file_record send uid sr =
     bind_res (map_mbus (unit_id_new uid)) (\<lambda>unit.
     bind_res (send (Q_WriteFileRecord unit sr)) (\<lambda>r.
     case r of R_FileRecordWrite \<Rightarrow> Ok () | _ \<Rightarrow> Err UnexpectedResponseType))"

definition async_read_device_identification :: "send_fn \<Rightarrow> u8 \<Rightarrow> ReadDeviceIdCode \<Rightarrow> ObjectId \<Rightarrow> (AsyncError, DeviceIdentificationResponse) res" where
  "async_read_device_identification send uid code oid =
     bind_res (map_mbus (unit_id_new uid)) (\<lambda>unit.
     bind_res (send (Q_ReadDeviceIdentification unit code oid)) (\<lambda>r.
     case r of R_DeviceIdentification resp \<Rightarrow> Ok resp | _ \<Rightarrow> Err UnexpectedResponseType))"

definition async_encapsulated_interface_transport :: "service_build \<Rightarrow> send_fn \<Rightarrow> u8 \<Rightarrow> EncapsulatedInterfaceType \<Rightarrow> bytes \<Rightarrow> (AsyncError, EncapsulatedInterfaceType \<times> bytes) res" where
  "async_encapsulated_interface_transport b send uid mei payload =
     bind_res (map_mbus (unit_id_new uid)) (\<lambda>unit.
     bind_res (vec_from_slice (v_bytes b) payload) (\<lambda>hv.
     bind_res (send (Q_EncapsulatedInterfaceTransport unit mei hv)) (\<lambda>r.
     case r of R_EncapsulatedInterfaceTransport mei payload \<Rightarrow> Ok (mei, payload) | _ \<Rightarrow> Err UnexpectedResponseType)))"

definition async_read_exception_status :: "send_fn \<Rightarrow> u8 \<Rightarrow> (AsyncError, u8) res" where
  "async_read_exception_status send uid =
     bind_res (map_mbus (unit_id_new uid)) (\<lambda>unit.
     bind_res (send (Q_ReadExceptionStatus unit)) (\<lambda>r.
     case r of R_ExceptionStatus st \<Rightarrow> Ok st | _ \<Rightarrow> Err UnexpectedResponseType))"

definition async_diagnostics :: "service_build \<Rightarrow> send_fn \<Rightarrow> u8 \<Rightarrow> DiagnosticSubFunction \<Rightarrow> u16 list \<Rightarrow> (AsyncError, DiagnosticSubFunction \<times> u16 list) res" where
  "async_diagnostics b send uid sf payload =
     bind_res (map_mbus (unit_id_new uid)) (\<lambda>unit.
     bind_res (vec_from_slice (v_words b) payload) (\<lambda>hv.
     bind_res (send (Q_Diagnostics unit sf hv)) (\<lambda>r.
     case r of R_DiagnosticsData sf payload \<Rightarrow> Ok (sf, payload) | _ \<Rightarrow> Err UnexpectedResponseType)))"

definition async_get_comm_event_counter :: "send_fn \<Rightarrow> u8 \<Rightarrow> (AsyncError, u16 \<times> u16) res" where
  "async_get_comm_event_counter send uid =
     bind_res (map_mbus (unit_id_new uid)) (\<lambda>unit.
     bind_res (send (Q_GetCommEventCounter unit)) (\<lambda>r.
     case r of R_CommEventCounter st ec \<Rightarrow> Ok (st, ec) | _ \<Rightarrow> Err UnexpectedResponseType))"

definition async_get_comm_event_log :: "send_fn \<Rightarrow> u8 \<Rightarrow> (AsyncError, u16 \<times> u16 \<times> u16 \<times> bytes) res" where
  "async_get_comm_event_log send uid =
     bind_res (map_mbus (unit_id_new uid)) (\<lambda>unit.
     bind_res (send (Q_GetCommEventLog unit)) (\<lambda>r.
     case r of R_CommEventLog st ec mc evs \<Rightarrow> Ok (st, ec, mc, evs) | _ \<Rightarrow> Err UnexpectedResponseType))"

definition async_report_server_id :: "send_fn \<Rightarrow> u8 \<Rightarrow> (AsyncError, bytes) res" where
  "async_report_server_id send uid =
     bind_res (map_mbus (unit_id_new uid)) (\<lambda>unit.
     bind_res (send (Q_ReportServerId unit)) (\<lambda>r.
     case r of R_ReportServerId payload \<Rightarrow> Ok payload | _ \<Rightarrow> Err UnexpectedResponseType))"

section \<open>Timeouts\<close>

text \<open>
  The time that a caller waits covers the timeout of every attempt and the delays between them, up to the largest
  number of nanoseconds, whenever the product of delay and attempts is representable; otherwise the call
  panics with overflow checks.
\<close>

theorem outer_timeout_covers_retries:
  "let r = unat (core_retry_attempts core); d = unat (core_retry_delay_ms core); t = unat (core_request_timeout_ns core) in
   if d * r * 1000000 < 2 ^ 64
   then \<exists>ns. outer_timeout_ns oc core = Ok ns \<and> unat ns = min (t * (r + 1) + d * r * 1000000) (2 ^ 64 - 1)
   else outer_timeout_ns True core = Panic"
proof -
  define r d t where "r = core_retry_attempts core" "d = core_retry_delay_ms core" "t = core_request_timeout_ns core"
  note rdt = this
  obtain n where n: "unat r = n" "n < 256" using unsigned_less [of r] by simp
  then have r: "unat (ucast r :: u64) = unat r" by (simp add: unsigned_ucast_eq take_bit_nat_eq_self)
  with n have attempts: "unat (ucast r + 1 :: u64) = unat r + 1" by (subst unat_add_no_overflow) simp_all
  have "if unat d * unat r * 1000000 < 2 ^ 64
    then \<exists>ns. outer_timeout_ns oc core = Ok ns \<and>
      unat ns = min (unat t * (unat r + 1) + unat d * unat r * 1000000) (2 ^ 64 - 1)
    else outer_timeout_ns True core = Panic"
  proof (cases "unat d * unat r * 1000000 < 2 ^ 64")
    case True
    then have first: "unat d * unat r < 2 ^ 64" by simp
    then have one: "mul_ovf oc d (ucast r) = (Ok (d * ucast r) :: (AsyncError, u64) res)" "unat (d * ucast r) = unat d * unat r"
      using r by (simp_all add: mul_ovf_def unat_word_ariths)
    then have two: "mul_ovf oc (d * ucast r) 1000000 = (Ok (d * ucast r * 1000000) :: (AsyncError, u64) res)"
      "unat (d * ucast r * 1000000) = unat d * unat r * 1000000"
      using True by (simp_all add: mul_ovf_def unat_word_ariths)
    show ?thesis
      using True rdt [symmetric] one(1) two attempts
      by (auto simp: outer_timeout_ns_def unat_sat_add unat_sat_mul)
  next
    case False
    then show ?thesis
      using rdt [symmetric] r by (auto simp: outer_timeout_ns_def mul_ovf_def unat_word_ariths)
  qed
  then show ?thesis unfolding rdt Let_def .
qed

section \<open>From the server to the caller\<close>

text \<open>A task that answers a request with what the frame of a server's payload becomes.\<close>

definition served :: "service_build \<Rightarrow> TransportType \<Rightarrow> u16 \<Rightarrow> u8 \<Rightarrow> FunctionCode \<Rightarrow> bytes \<Rightarrow> send_fn" where
  "served b tt txn uid fc payload q = map_mbus (read_answer b tt txn uid fc payload q)"

text \<open>
  A caller of the asynchronous client gets what the server sent: when the payload of the response builder of a
  server comes back in a frame, on any transport, the read methods return the block with the address and
  the quantity of the call and the values that were sent, followed by zeros up to the size of the array.
\<close>

theorem async_api_reads_back:
  assumes "build_ok b" "1 \<le> uid" "uid \<le> 247" "length ws = unat q" "unat q \<le> 125"
    and "length vs = div_ceil (unat n) 8" "unat n \<le> 2000" "length wvs \<le> 252"
  shows "async_read_holding_registers (served b tt txn uid ReadHoldingRegisters (words_bytes ws)) uid a q = Ok (filled_block a q ws) \<and>
    async_read_write_multiple_registers b (served b tt txn uid ReadWriteMultipleRegisters (words_bytes ws)) uid a q wa wvs =
      Ok (filled_block a q ws) \<and>
    async_read_input_registers (served b tt txn uid ReadInputRegisters (words_bytes ws)) uid a q = Ok (filled_block a q ws) \<and>
    async_read_multiple_coils (served b tt txn uid ReadCoils vs) uid a n =
      Ok \<lparr>coils_from_address = a, coils_quantity = n, coils_values = vs @ replicate (250 - length vs) 0\<rparr> \<and>
    async_read_discrete_inputs (served b tt txn uid ReadDiscreteInputs vs) uid a n =
      Ok \<lparr>inputs_from_address = a, inputs_quantity = n, inputs_values = vs @ replicate (250 - length vs) 0\<rparr>"
proof -
  have "adu_addressable tt uid" using assms(3) by (simp add: adu_addressable_def)
  note regs = registers_answered [OF assms(1) this assms(4,5)] and bits = bits_answered [OF assms(1) this assms(6,7)]
  have "vec_from_slice (v_words b) wvs = Ok wvs"
    using assms(8) by (simp add: vec_from_slice_def build_ok_simps [OF assms(1)])
  moreover have "unit_id_new uid = Ok (UnitIdOrSlaveAddr uid)" using assms(2,3) by (simp add: unit_id_new_def)
  ultimately show ?thesis
    unfolding async_read_holding_registers_def async_read_write_multiple_registers_def async_read_input_registers_def
      async_read_multiple_coils_def async_read_discrete_inputs_def served_def
    by (simp only: regs bits map_mbus.simps bind_res.simps AsyncResponse.case simp_thms)
qed

theorem async_api_reads_back_witness:
  "async_read_holding_registers (served \<lparr>overflow_checks = True, v_bytes = bounded_vec, v_words = bounded_vec, v_params = bounded_vec\<rparr>
      StdTcp 7 17 ReadHoldingRegisters [0, 7, 0, 5]) 17 100 2 =
    Ok \<lparr>reg_from_address = 100, reg_quantity = 2, reg_values = [7, 5] @ replicate 123 0\<rparr>"
  using async_api_reads_back [of "\<lparr>overflow_checks = True, v_bytes = bounded_vec, v_words = bounded_vec, v_params = bounded_vec\<rparr>"
      17 "[7, 5]" 2 "[]" 0 "[]" StdTcp 7 100]
  by (simp add: build_ok_def words_bytes_def u16_to_be_bytes_def filled_block_def div_ceil_def)

text \<open>
  The asynchronous client does not compare function codes: the echo of a write of several registers is taken
  as the answer to a read of holding registers, and the caller gets zeros that no server sent.
\<close>

theorem write_echo_read_as_zeros:
  assumes "function_code p = WriteMultipleRegisters" "read_window p = Ok win" "unat (rw_quantity win) \<le> 125" "unat q \<le> 125"
    and "1 \<le> uid" "uid \<le> 247"
  shows "async_read_holding_registers (\<lambda>rq. map_mbus (bind_res (decode_pdu b p) (\<lambda>r. fix_up_response r rq))) uid a q =
    Ok (filled_block a q (replicate (unat q) 0))"
proof -
  have "slice_to (replicate 125 (0 :: u16)) (unat q) = (Ok (replicate (unat q) 0) :: u16 list result)"
    using assms(4) by (simp add: slice_to_def slice_def min_def)
  then have "reload_registers \<lparr>reg_from_address = rw_address win, reg_quantity = rw_quantity win, reg_values = replicate 125 0\<rparr> a q =
      Ok (filled_block a q (replicate (unat q) 0))"
    using registers_filled [of "replicate (unat q) 0" q a] assms(4) by (simp add: reload_registers_def)
  then show ?thesis
    using assms by (simp add: async_read_holding_registers_def unit_id_new_def decode_pdu_def decode_write_multiple_registers_def
        registers_new_def map_or_raw_def)
qed

theorem write_echo_read_as_zeros_witness:
  "async_read_holding_registers (\<lambda>rq. map_mbus (bind_res (decode_pdu b (pdu_new WriteMultipleRegisters [0, 9, 0, 1] 4)) (\<lambda>r. fix_up_response r rq)))
      17 100 2 = Ok \<lparr>reg_from_address = 100, reg_quantity = 2, reg_values = replicate 125 0\<rparr>"
proof -
  have "read_window (pdu_new WriteMultipleRegisters [0, 9, 0, 1] 4) = Ok \<lparr>rw_address = 9, rw_quantity = 1\<rparr>"
    by (simp add: read_window_def read_address_quantity_pair_def u16_from_be_bytes_def)
  from write_echo_read_as_zeros [OF _ this, of 2 17 b 100] show ?thesis
    by (simp add: filled_block_def replicate_add [symmetric])
qed

end
