(* ===== verification/Async_Server_Types.thy ===== *)
theory Async_Server_Types
  imports Server_Framing Framing
begin

text \<open>
  The requests and responses of the asynchronous server and the frames of the responses
  (mbus-async/src/server/app_handler.rs). The constructors of \<open>ModbusRequest\<close> have the prefix \<open>MR\<close>, those of
  \<open>ModbusResponse\<close> the prefix \<open>MS\<close>; fields come in the order of the source. The I/O
  error inside \<open>BindFailed\<close> is left out. \<open>let _ = data.extend_from_slice(..)\<close> leaves
  the vector as it was when the bytes do not fit.
\<close>

section \<open>Requests\<close>

datatype AsyncServerError =
    ASE_Transport MbusError
  | ASE_ConnectionClosed
  | ASE_FramingError MbusError
  | ASE_BindFailed

definition server_error_from :: "MbusError \<Rightarrow> AsyncServerError" where
  "server_error_from err = (case err of ConnectionClosed \<Rightarrow> ASE_ConnectionClosed | other \<Rightarrow> ASE_Transport other)"

record AsyncFileRecordWriteSubRequest =
  afw_file_number :: u16
  afw_record_number :: u16
  afw_record_length :: u16
  afw_record_data :: bytes

datatype ModbusRequest =
    MR_ReadCoils u16 UnitIdOrSlaveAddr u16 u16
  | MR_WriteSingleCoil u16 UnitIdOrSlaveAddr u16 bool
  | MR_WriteMultipleCoils u16 UnitIdOrSlaveAddr u16 u16 bytes
  | MR_ReadDiscreteInputs u16 UnitIdOrSlaveAddr u16 u16
  | MR_ReadHoldingRegisters u16 UnitIdOrSlaveAddr u16 u16
  | MR_WriteSingleRegister u16 UnitIdOrSlaveAddr u16 u16
  | MR_WriteMultipleRegisters u16 UnitIdOrSlaveAddr u16 u16 bytes
  | MR_ReadInputRegisters u16 UnitIdOrSlaveAddr u16 u16
  | MR_MaskWriteRegister u16 UnitIdOrSlaveAddr u16 u16 u16
  | MR_ReadWriteMultipleRegisters u16 UnitIdOrSlaveAddr u16 u16 u16 u16 bytes
  | MR_ReadExceptionStatus u16 UnitIdOrSlaveAddr
  | MR_Diagnostics u16 UnitIdOrSlaveAddr u16 u16
  | MR_GetCommEventCounter u16 UnitIdOrSlaveAddr
  | MR_GetCommEventLog u16 UnitIdOrSlaveAddr
  | MR_ReportServerId u16 UnitIdOrSlaveAddr
  | MR_EncapsulatedInterfaceTransport u16 UnitIdOrSlaveAddr u8 bytes
  | MR_ReadFifoQueue u16 UnitIdOrSlaveAddr u16
  | MR_ReadFileRecord u16 UnitIdOrSlaveAddr "FileRecordReadSubRequest list"
  | MR_WriteFileRecord u16 UnitIdOrSlaveAddr "AsyncFileRecordWriteSubRequest list" bytes
  | MR_Unknown u16 UnitIdOrSlaveAddr u8

fun modbus_request_txn_id :: "ModbusRequest \<Rightarrow> u16" where
  "modbus_request_txn_id (MR_ReadCoils txn _ _ _) = txn"
| "modbus_request_txn_id (MR_WriteSingleCoil txn _ _ _) = txn"
| "modbus_request_txn_id (MR_WriteMultipleCoils txn _ _ _ _) = txn"
| "modbus_request_txn_id (MR_ReadDiscreteInputs txn _ _ _) = txn"
| "modbus_request_txn_id (MR_ReadHoldingRegisters txn _ _ _) = txn"
| "modbus_request_txn_id (MR_WriteSingleRegister txn _ _ _) = txn"
| "modbus_request_txn_id (MR_WriteMultipleRegisters txn _ _ _ _) = txn"
| "modbus_request_txn_id (MR_ReadInputRegisters txn _ _ _) = txn"
| "modbus_request_txn_id (MR_MaskWriteRegister txn _ _ _ _) = txn"
| "modbus_request_txn_id (MR_ReadWriteMultipleRegisters txn _ _ _ _ _ _) = txn"
| "modbus_request_txn_id (MR_ReadExceptionStatus txn _) = txn"
| "modbus_request_txn_id (MR_Diagnostics txn _ _ _) = txn"
| "modbus_request_txn_id (MR_GetCommEventCounter txn _) = txn"
| "modbus_request_txn_id (MR_GetCommEventLog txn _) = txn"
| "modbus_request_txn_id (MR_ReportServerId txn _) = txn"
| "modbus_request_txn_id (MR_EncapsulatedInterfaceTransport txn _ _ _) = txn"
| "modbus_request_txn_id (MR_ReadFifoQueue txn _ _) = txn"
| "modbus_request_txn_id (MR_ReadFileRecord txn _ _) = txn"
| "modbus_request_txn_id (MR_WriteFileRecord txn _ _ _) = txn"
| "modbus_request_txn_id (MR_Unknown txn _ _) = txn"

fun modbus_request_unit :: "ModbusRequest \<Rightarrow> UnitIdOrSlaveAddr" where
  "modbus_request_unit (MR_ReadCoils _ uid _ _) = uid"
| "modbus_request_unit (MR_WriteSingleCoil _ uid _ _) = uid"
| "modbus_request_unit (MR_WriteMultipleCoils _ uid _ _ _) = uid"
| "modbus_request_unit (MR_ReadDiscreteInputs _ uid _ _) = uid"
| "modbus_request_unit (MR_ReadHoldingRegisters _ uid _ _) = uid"
| "modbus_request_unit (MR_WriteSingleRegister _ uid _ _) = uid"
| "modbus_request_unit (MR_WriteMultipleRegisters _ uid _ _ _) = uid"
| "modbus_request_unit (MR_ReadInputRegisters _ uid _ _) = uid"
| "modbus_request_unit (MR_MaskWriteRegister _ uid _ _ _) = uid"
| "modbus_request_unit (MR_ReadWriteMultipleRegisters _ uid _ _ _ _ _) = uid"
| "modbus_request_unit (MR_ReadExceptionStatus _ uid) = uid"
| "modbus_request_unit (MR_Diagnostics _ uid _ _) = uid"
| "modbus_request_unit (MR_GetCommEventCounter _ uid) = uid"
| "modbus_request_unit (MR_GetCommEventLog _ uid) = uid"
| "modbus_request_unit (MR_ReportServerId _ uid) = uid"
| "modbus_request_unit (MR_EncapsulatedInterfaceTransport _ uid _ _) = uid"
| "modbus_request_unit (MR_ReadFifoQueue _ uid _) = uid"
| "modbus_request_unit (MR_ReadFileRecord _ uid _) = uid"
| "modbus_request_unit (MR_WriteFileRecord _ uid _ _) = uid"
| "modbus_request_unit (MR_Unknown _ uid _) = uid"

fun function_code_byte :: "ModbusRequest \<Rightarrow> u8" where
  "function_code_byte (MR_ReadCoils _ _ _ _) = function_code_u8 ReadCoils"
| "function_code_byte (MR_WriteSingleCoil _ _ _ _) = function_code_u8 WriteSingleCoil"
| "function_code_byte (MR_WriteMultipleCoils _ _ _ _ _) = function_code_u8 WriteMultipleCoils"
| "function_code_byte (MR_ReadDiscreteInputs _ _ _ _) = function_code_u8 ReadDiscreteInputs"
| "function_code_byte (MR_ReadHoldingRegisters _ _ _ _) = function_code_u8 ReadHoldingRegisters"
| "function_code_byte (MR_WriteSingleRegister _ _ _ _) = function_code_u8 WriteSingleRegister"
| "function_code_byte (MR_WriteMultipleRegisters _ _ _ _ _) = function_code_u8 WriteMultipleRegisters"
| "function_code_byte (MR_ReadInputRegisters _ _ _ _) = function_code_u8 ReadInputRegisters"
| "function_code_byte (MR_MaskWriteRegister _ _ _ _ _) = function_code_u8 MaskWriteRegister"
| "function_code_byte (MR_ReadWriteMultipleRegisters _ _ _ _ _ _ _) = function_code_u8 ReadWriteMultipleRegisters"
| "function_code_byte (MR_ReadExceptionStatus _ _) = function_code_u8 ReadExceptionStatus"
| "function_code_byte (MR_Diagnostics _ _ _ _) = function_code_u8 Diagnostics"
| "function_code_byte (MR_GetCommEventCounter _ _) = function_code_u8 GetCommEventCounter"
| "function_code_byte (MR_GetCommEventLog _ _) = function_code_u8 GetCommEventLog"
| "function_code_byte (MR_ReportServerId _ _) = function_code_u8 ReportServerId"
| "function_code_byte (MR_EncapsulatedInterfaceTransport _ _ _ _) = function_code_u8 EncapsulatedInterfaceTransport"
| "function_code_byte (MR_ReadFifoQueue _ _ _) = function_code_u8 ReadFifoQueue"
| "function_code_byte (MR_ReadFileRecord _ _ _) = function_code_u8 ReadFileRecord"
| "function_code_byte (MR_WriteFileRecord _ _ _ _) = function_code_u8 WriteFileRecord"
| "function_code_byte (MR_Unknown _ _ fc) = fc"

section \<open>Responses\<close>

datatype ModbusResponse =
    MS_ByteCountPayload FunctionCode bytes
  | MS_EchoCoil u16 u16
  | MS_EchoRegister u16 u16
  | MS_EchoMaskWrite u16 u16 u16
  | MS_EchoMultiWrite FunctionCode u16 u16
  | MS_SingleByte FunctionCode u8
  | MS_DiagnosticsEcho u16 u16
  | MS_TwoU16 FunctionCode u16 u16
  | MS_FifoData bytes
  | MS_ReadDeviceId u8 u8 bool u8 bytes
  | MS_FileRecordWriteEcho bytes
  | MS_Exception FunctionCode ExceptionCode
  | MS_ExceptionRaw u8 ExceptionCode
  | MS_NoResponse

definition extended :: "u8 heapless \<Rightarrow> bytes \<Rightarrow> bytes \<Rightarrow> bytes" where
  "extended hv v xs = (case hv_extend hv MAX_ADU_FRAME_LEN v xs of None \<Rightarrow> v | Some v' \<Rightarrow> v')"

definition response_registers :: "u8 heapless \<Rightarrow> FunctionCode \<Rightarrow> u16 list \<Rightarrow> ModbusResponse" where
  "response_registers hv fc values =
     MS_ByteCountPayload fc (foldl (\<lambda>d v. extended hv d (u16_to_be_bytes v)) [] values)"

definition response_packed_bits :: "u8 heapless \<Rightarrow> FunctionCode \<Rightarrow> bytes \<Rightarrow> ModbusResponse" where
  "response_packed_bits hv fc bs = MS_ByteCountPayload fc (extended hv [] bs)"

definition response_echo_coil :: "u16 \<Rightarrow> bool \<Rightarrow> ModbusResponse" where
  "response_echo_coil address on = MS_EchoCoil address (if on then 0xFF00 else 0x0000)"

definition response_echo_register :: "u16 \<Rightarrow> u16 \<Rightarrow> ModbusResponse" where
  "response_echo_register address v = MS_EchoRegister address v"

definition response_echo_mask_write :: "u16 \<Rightarrow> u16 \<Rightarrow> u16 \<Rightarrow> ModbusResponse" where
  "response_echo_mask_write address am om = MS_EchoMaskWrite address am om"

definition response_echo_multi_write :: "FunctionCode \<Rightarrow> u16 \<Rightarrow> u16 \<Rightarrow> ModbusResponse" where
  "response_echo_multi_write fc address n = MS_EchoMultiWrite fc address n"

definition response_exception :: "FunctionCode \<Rightarrow> ExceptionCode \<Rightarrow> ModbusResponse" where
  "response_exception request_fc code = MS_Exception request_fc code"

definition response_exception_raw :: "u8 \<Rightarrow> ExceptionCode \<Rightarrow> ModbusResponse" where
  "response_exception_raw fc_byte code = MS_ExceptionRaw fc_byte code"

definition response_invalid_function :: "FunctionCode \<Rightarrow> ModbusResponse" where
  "response_invalid_function request_fc = response_exception request_fc IllegalFunction"

definition response_read_exception_status :: "u8 \<Rightarrow> ModbusResponse" where
  "response_read_exception_status status = MS_SingleByte ReadExceptionStatus status"

definition diagnostics_echo :: "u16 \<Rightarrow> u16 \<Rightarrow> ModbusResponse" where
  "diagnostics_echo sub_fn r = MS_DiagnosticsEcho sub_fn r"

definition response_comm_event_counter :: "u16 \<Rightarrow> u16 \<Rightarrow> ModbusResponse" where
  "response_comm_event_counter status_word n = MS_TwoU16 GetCommEventCounter status_word n"

definition response_comm_event_log :: "u8 heapless \<Rightarrow> bytes \<Rightarrow> ModbusResponse" where
  "response_comm_event_log hv payload = MS_ByteCountPayload GetCommEventLog (extended hv [] payload)"

definition response_report_server_id :: "u8 heapless \<Rightarrow> bytes \<Rightarrow> ModbusResponse" where
  "response_report_server_id hv payload = MS_ByteCountPayload ReportServerId (extended hv [] payload)"

definition response_read_device_id :: "u8 heapless \<Rightarrow> u8 \<Rightarrow> u8 \<Rightarrow> bool \<Rightarrow> u8 \<Rightarrow> bytes \<Rightarrow> ModbusResponse" where
  "response_read_device_id hv code conformity follows next_id objs =
     MS_ReadDeviceId code conformity follows next_id (extended hv [] objs)"

definition response_fifo :: "u8 heapless \<Rightarrow> bytes \<Rightarrow> ModbusResponse" where
  "response_fifo hv bs = MS_FifoData (extended hv [] bs)"

definition response_read_file_record :: "u8 heapless \<Rightarrow> bytes \<Rightarrow> ModbusResponse" where
  "response_read_file_record hv payload = MS_ByteCountPayload ReadFileRecord (extended hv [] payload)"

definition response_echo_write_file_record :: "bytes \<Rightarrow> ModbusResponse" where
  "response_echo_write_file_record pdu_bytes = MS_FileRecordWriteEcho pdu_bytes"

section \<open>Frames of the responses\<close>

definition encode_byte_count_payload :: "u8 heapless \<Rightarrow> FunctionCode \<Rightarrow> bytes \<Rightarrow> u16 \<Rightarrow> UnitIdOrSlaveAddr \<Rightarrow> TransportType \<Rightarrow> bytes result" where
  "encode_byte_count_payload hv fc d txn uid tt =
     bind_res (build_byte_count_payload hv fc d) (\<lambda>p. compile_adu_frame hv txn (uid_get uid) p tt)"

definition encode_echo_coil :: "u8 heapless \<Rightarrow> u16 \<Rightarrow> u16 \<Rightarrow> u16 \<Rightarrow> UnitIdOrSlaveAddr \<Rightarrow> TransportType \<Rightarrow> bytes result" where
  "encode_echo_coil hv address raw_value txn uid tt =
     bind_res (build_write_single_u16 hv WriteSingleCoil address raw_value) (\<lambda>p. compile_adu_frame hv txn (uid_get uid) p tt)"

definition encode_echo_register :: "u8 heapless \<Rightarrow> u16 \<Rightarrow> u16 \<Rightarrow> u16 \<Rightarrow> UnitIdOrSlaveAddr \<Rightarrow> TransportType \<Rightarrow> bytes result" where
  "encode_echo_register hv address v txn uid tt =
     bind_res (build_write_single_u16 hv WriteSingleRegister address v) (\<lambda>p. compile_adu_frame hv txn (uid_get uid) p tt)"

definition encode_echo_mask_write ::
    "u8 heapless \<Rightarrow> u16 \<Rightarrow> u16 \<Rightarrow> u16 \<Rightarrow> u16 \<Rightarrow> UnitIdOrSlaveAddr \<Rightarrow> TransportType \<Rightarrow> bytes result" where
  "encode_echo_mask_write hv address am om txn uid tt =
     bind_res (build_mask_write_register hv address am om) (\<lambda>p. compile_adu_frame hv txn (uid_get uid) p tt)"

definition encode_echo_multi_write ::
    "u8 heapless \<Rightarrow> FunctionCode \<Rightarrow> u16 \<Rightarrow> u16 \<Rightarrow> u16 \<Rightarrow> UnitIdOrSlaveAddr \<Rightarrow> TransportType \<Rightarrow> bytes result" where
  "encode_echo_multi_write hv fc address n txn uid tt =
     bind_res (build_write_single_u16 hv fc address n) (\<lambda>p. compile_adu_frame hv txn (uid_get uid) p tt)"

definition encode_single_byte :: "u8 heapless \<Rightarrow> FunctionCode \<Rightarrow> u8 \<Rightarrow> u16 \<Rightarrow> UnitIdOrSlaveAddr \<Rightarrow> TransportType \<Rightarrow> bytes result" where
  "encode_single_byte hv fc v txn uid tt =
     bind_res (build_byte_payload hv fc v) (\<lambda>p. compile_adu_frame hv txn (uid_get uid) p tt)"

definition encode_diagnostics_echo :: "u8 heapless \<Rightarrow> u16 \<Rightarrow> u16 \<Rightarrow> u16 \<Rightarrow> UnitIdOrSlaveAddr \<Rightarrow> TransportType \<Rightarrow> bytes result" where
  "encode_diagnostics_echo hv sub_fn r txn uid tt =
     bind_res (build_diagnostics hv sub_fn r) (\<lambda>p. compile_adu_frame hv txn (uid_get uid) p tt)"

definition encode_two_u16 :: "u8 heapless \<Rightarrow> FunctionCode \<Rightarrow> u16 \<Rightarrow> u16 \<Rightarrow> u16 \<Rightarrow> UnitIdOrSlaveAddr \<Rightarrow> TransportType \<Rightarrow> bytes result" where
  "encode_two_u16 hv fc x y txn uid tt =
     bind_res (build_write_single_u16 hv fc x y) (\<lambda>p. compile_adu_frame hv txn (uid_get uid) p tt)"

definition encode_fifo_data :: "u8 heapless \<Rightarrow> bytes \<Rightarrow> u16 \<Rightarrow> UnitIdOrSlaveAddr \<Rightarrow> TransportType \<Rightarrow> bytes result" where
  "encode_fifo_data hv d txn uid tt =
     bind_res (build_fifo_payload hv d) (\<lambda>p. compile_adu_frame hv txn (uid_get uid) p tt)"

text \<open>The loop of \<open>count_mei_objects\<close>; \<open>checked_add\<close> fails at 255 objects.\<close>

function count_mei_loop :: "bytes \<Rightarrow> usize \<Rightarrow> u8 \<Rightarrow> u8 result" where
  "count_mei_loop payload offset n =
     (if offset < length payload then
        if offset + 2 > length payload then Err InvalidPduLength
        else bind_res (idx payload (offset + 1)) (\<lambda>l.
          let val_len = unat l; offset' = offset + (2 + val_len) in
          if offset' > length payload then Err InvalidPduLength
          else if n = 255 then Err InvalidPduLength
          else count_mei_loop payload offset' (n + 1))
      else Ok n)"
  by pat_completeness auto
termination
  by (relation "measure (\<lambda>(payload, offset, n). length payload - offset)") auto

declare count_mei_loop.simps [simp del]

definition count_mei_objects :: "bytes \<Rightarrow> u8 result" where
  "count_mei_objects payload = count_mei_loop payload 0 0"

definition encode_read_device_id ::
    "u8 heapless \<Rightarrow> u8 \<Rightarrow> u8 \<Rightarrow> bool \<Rightarrow> u8 \<Rightarrow> bytes \<Rightarrow> u16 \<Rightarrow> UnitIdOrSlaveAddr \<Rightarrow> TransportType \<Rightarrow> bytes result" where
  "encode_read_device_id hv code conformity follows next_id objs txn uid tt =
     bind_res (case count_mei_objects objs of Err _ \<Rightarrow> Err InvalidPduLength | r \<Rightarrow> r) (\<lambda>n.
     let header = [code, conformity, if follows then 0xFF else 0, next_id, n] in
     if length header + length objs > MAX_ADU_FRAME_LEN - 1 then Err BufferTooSmall
     else
       bind_res (extend_or hv MAX_ADU_FRAME_LEN BufferTooSmall [] header) (\<lambda>mei_data.
       bind_res (extend_or hv MAX_ADU_FRAME_LEN BufferTooSmall mei_data objs) (\<lambda>mei_data.
       bind_res (build_mei_type hv EncapsulatedInterfaceTransport
         (encapsulated_interface_type_u8 ReadDeviceIdentification) mei_data) (\<lambda>p.
       compile_adu_frame hv txn (uid_get uid) p tt))))"

definition encode_file_record_write_echo :: "u8 heapless \<Rightarrow> bytes \<Rightarrow> u16 \<Rightarrow> UnitIdOrSlaveAddr \<Rightarrow> TransportType \<Rightarrow> bytes result" where
  "encode_file_record_write_echo hv pdu_bytes txn uid tt =
     compile_adu_frame hv txn (uid_get uid) (pdu_new WriteFileRecord pdu_bytes (of_nat (length pdu_bytes))) tt"

definition encode_exception ::
    "u8 heapless \<Rightarrow> FunctionCode \<Rightarrow> ExceptionCode \<Rightarrow> u16 \<Rightarrow> UnitIdOrSlaveAddr \<Rightarrow> TransportType \<Rightarrow> bytes result" where
  "encode_exception hv request_fc code txn uid tt =
     bind_res (ok_or InvalidFunctionCode (exception_response request_fc)) (\<lambda>exception_fc.
     bind_res (build_byte_payload hv exception_fc (exception_code_u8 code)) (\<lambda>p.
     compile_adu_frame hv txn (uid_get uid) p tt))"

definition raw_nibble_to_hex :: "u8 \<Rightarrow> u8" where
  "raw_nibble_to_hex nibble = (if nibble < 10 then 0x30 + nibble else 0x41 + nibble - 10)"

text \<open>The two pushes of the loop over \<open>binary\<close>.\<close>

fun push_hex_bytes :: "u8 heapless \<Rightarrow> bytes \<Rightarrow> bytes \<Rightarrow> bytes result" where
  "push_hex_bytes hv frame [] = Ok frame"
| "push_hex_bytes hv frame (b # bs) =
     bind_res (push_or hv MAX_ADU_FRAME_LEN Unexpected frame (raw_nibble_to_hex (drop_bit 4 b))) (\<lambda>frame.
     bind_res (push_or hv MAX_ADU_FRAME_LEN Unexpected frame (raw_nibble_to_hex (b AND 0x0F))) (\<lambda>frame.
     push_hex_bytes hv frame bs))"

fun encode_exception_raw ::
    "u8 heapless \<Rightarrow> u8 \<Rightarrow> ExceptionCode \<Rightarrow> u16 \<Rightarrow> UnitIdOrSlaveAddr \<Rightarrow> TransportType \<Rightarrow> bytes result" where
  "encode_exception_raw hv fc_byte code txn uid tt =
     (let exception_fc_byte = fc_byte OR 0x80;
          code_byte = exception_code_u8 code;
          binary = [uid_get uid, exception_fc_byte, code_byte]
      in if is_tcp_type tt then
           bind_res (extend_or hv MAX_ADU_FRAME_LEN Unexpected [] (u16_to_be_bytes txn)) (\<lambda>frame.
           bind_res (extend_or hv MAX_ADU_FRAME_LEN Unexpected frame (u16_to_be_bytes 0)) (\<lambda>frame.
           bind_res (extend_or hv MAX_ADU_FRAME_LEN Unexpected frame (u16_to_be_bytes 3)) (\<lambda>frame.
           bind_res (push_or hv MAX_ADU_FRAME_LEN Unexpected frame (uid_get uid)) (\<lambda>frame.
           bind_res (push_or hv MAX_ADU_FRAME_LEN Unexpected frame exception_fc_byte) (\<lambda>frame.
           push_or hv MAX_ADU_FRAME_LEN Unexpected frame code_byte)))))
         else case tt of
             StdSerial Rtu \<Rightarrow>
               bind_res (extend_or hv MAX_ADU_FRAME_LEN Unexpected [] binary) (\<lambda>frame.
               extend_or hv MAX_ADU_FRAME_LEN Unexpected frame (u16_to_le_bytes (crc16 binary)))
           | CustomSerial Rtu \<Rightarrow>
               bind_res (extend_or hv MAX_ADU_FRAME_LEN Unexpected [] binary) (\<lambda>frame.
               extend_or hv MAX_ADU_FRAME_LEN Unexpected frame (u16_to_le_bytes (crc16 binary)))
           | _ \<Rightarrow>
               bind_res (push_or hv MAX_ADU_FRAME_LEN Unexpected [] 0x3A) (\<lambda>frame.
               bind_res (push_hex_bytes hv frame (binary @ [lrc binary])) (\<lambda>frame.
               bind_res (push_or hv MAX_ADU_FRAME_LEN Unexpected frame 0x0D) (\<lambda>frame.
               push_or hv MAX_ADU_FRAME_LEN Unexpected frame 0x0A))))"

fun modbus_response_encode :: "u8 heapless \<Rightarrow> ModbusResponse \<Rightarrow> u16 \<Rightarrow> UnitIdOrSlaveAddr \<Rightarrow> TransportType \<Rightarrow> bytes result" where
  "modbus_response_encode hv (MS_ByteCountPayload fc d) txn uid tt = encode_byte_count_payload hv fc d txn uid tt"
| "modbus_response_encode hv (MS_EchoCoil a v) txn uid tt = encode_echo_coil hv a v txn uid tt"
| "modbus_response_encode hv (MS_EchoRegister a v) txn uid tt = encode_echo_register hv a v txn uid tt"
| "modbus_response_encode hv (MS_EchoMaskWrite a am om) txn uid tt = encode_echo_mask_write hv a am om txn uid tt"
| "modbus_response_encode hv (MS_EchoMultiWrite fc a n) txn uid tt = encode_echo_multi_write hv fc a n txn uid tt"
| "modbus_response_encode hv (MS_SingleByte fc v) txn uid tt = encode_single_byte hv fc v txn uid tt"
| "modbus_response_encode hv (MS_DiagnosticsEcho sf r) txn uid tt = encode_diagnostics_echo hv sf r txn uid tt"
| "modbus_response_encode hv (MS_TwoU16 fc x y) txn uid tt = encode_two_u16 hv fc x y txn uid tt"
| "modbus_response_encode hv (MS_FifoData d) txn uid tt = encode_fifo_data hv d txn uid tt"
| "modbus_response_encode hv (MS_ReadDeviceId code conf follows next_id objs) txn uid tt =
     encode_read_device_id hv code conf follows next_id objs txn uid tt"
| "modbus_response_encode hv (MS_FileRecordWriteEcho d) txn uid tt = encode_file_record_write_echo hv d txn uid tt"
| "modbus_response_encode hv (MS_Exception fc code) txn uid tt = encode_exception hv fc code txn uid tt"
| "modbus_response_encode hv (MS_ExceptionRaw fc code) txn uid tt = encode_exception_raw hv fc code txn uid tt"
| "modbus_response_encode hv MS_NoResponse txn uid tt = Err Unexpected"

section \<open>Raw exceptions\<close>

lemma high_nibble_small: "drop_bit 4 b < (16 :: u8)"
proof -
  have "unat (drop_bit 4 b) = unat b div 16" by (simp add: unat_div drop_bit_eq_div)
  moreover have "unat b < 16 * 16" using unsigned_less [of b] by simp
  then have "unat b div 16 < 16" by (rule less_mult_imp_div_less)
  ultimately show ?thesis by (simp add: word_less_nat_alt)
qed

lemma high_nibble_and: "drop_bit 4 b AND 0x0F = (drop_bit 4 b :: u8)"
proof -
  have "drop_bit 4 b AND 0x0F = take_bit 4 (drop_bit 4 b :: u8)" by (simp add: take_bit_eq_mask mask_eq_exp_minus_1)
  also have "\<dots> = drop_bit 4 b"
    using high_nibble_small [of b]
    by (simp add: word_less_nat_alt word_unat_eq_iff unsigned_take_bit_eq take_bit_nat_eq_self)
  finally show ?thesis .
qed

lemma raw_nibble_to_hex_eq: "n < 16 \<Longrightarrow> raw_nibble_to_hex n = nibble_to_hex n"
proof -
  assume n: "n < 16"
  have "n < 10 \<longleftrightarrow> n \<le> 9" "10 \<le> n \<longleftrightarrow> \<not> n \<le> 9" "n \<le> 15"
    using n by (auto simp: word_less_nat_alt word_le_nat_alt)
  then show ?thesis by (simp add: raw_nibble_to_hex_def nibble_to_hex_def)
qed

lemma raw_hex_pair:
  "raw_nibble_to_hex (drop_bit 4 b) = nibble_to_hex (drop_bit 4 b AND 0x0F)"
  "raw_nibble_to_hex (b AND 0x0F) = nibble_to_hex (b AND 0x0F)"
  using high_nibble_small [of b] and_15_less [of b] by (simp_all add: raw_nibble_to_hex_eq high_nibble_and)

lemma push_hex_bytes_eq:
  "heapless_ok hv \<Longrightarrow> length frame + 2 * length bs \<le> 513 \<Longrightarrow> push_hex_bytes hv frame bs = Ok (frame @ hex_of bs)"
  by (induction hv frame bs rule: push_hex_bytes.induct) (simp_all add: raw_hex_pair)

text \<open>
  The frame that the server writes by hand for an exception to an unknown function code is the frame that the
  common encoder makes of the function code with the exception bit and the exception code, on every transport.
\<close>

lemma raw_exception_framed:
  assumes "heapless_ok hv"
  shows "encode_exception_raw hv fc code txn uid tt =
    Ok (adu_frame tt txn (uid_get uid) [fc OR 0x80, exception_code_u8 code])"
  using assms
  by (cases "(tt, txn, uid_get uid, [fc OR 0x80, exception_code_u8 code])" rule: adu_frame.cases)
    (simp_all add: Let_def tcp_frame_def rtu_frame_def ascii_frame_def push_hex_bytes_eq del: push_hex_bytes.simps hex_of_simps)

lemma count_mei_loop_eq: "count_mei_loop payload offset n = count_objects_loop payload offset n"
  by (induction payload offset n rule: count_mei_loop.induct)
    (simp add: count_mei_loop.simps count_objects_loop.simps Let_def cong: bind_res_cong)

section \<open>Every response is a frame\<close>

fun response_wf :: "ModbusResponse \<Rightarrow> bool" where
  "response_wf (MS_FileRecordWriteEcho d) \<longleftrightarrow> length d \<le> 252"
| "response_wf _ \<longleftrightarrow> True"

lemma modbus_response_encode_framed:
  assumes "heapless_ok hv" "response_wf resp" "modbus_response_encode hv resp txn uid tt = Ok f"
  shows "\<exists>body. f = adu_frame tt txn (uid_get uid) body \<and> body \<noteq> [] \<and> length body \<le> 253"
proof -
  have framed: "pdu_wf p \<Longrightarrow> compile_adu_frame hv txn (uid_get uid) p tt = Ok f \<Longrightarrow> ?thesis" for p
    by (auto simp: compile_adu_frame_ok [OF assms(1)] pdu_wf_def pdu_body_def)
  note wf = build_wf(1-12) [OF assms(1)]
  show ?thesis
  proof (cases resp)
    case (MS_ExceptionRaw fc code)
    then show ?thesis using assms(3) by (auto simp: raw_exception_framed [OF assms(1)] simp del: encode_exception_raw.simps)
  next
    case (MS_FileRecordWriteEcho d)
    then show ?thesis
      using assms framed [of "pdu_new WriteFileRecord d (of_nat (length d))"]
      by (simp add: encode_file_record_write_echo_def pdu_wf_new)
  qed (use assms(3) in \<open>auto simp: res_simps Let_def encode_byte_count_payload_def encode_echo_coil_def encode_echo_register_def
      encode_echo_mask_write_def encode_echo_multi_write_def encode_single_byte_def encode_diagnostics_echo_def
      encode_two_u16_def encode_fifo_data_def encode_read_device_id_def encode_exception_def
      intro: framed dest: wf split: if_splits\<close>)
qed

end
