(* ===== verification/Async_Session.thy ===== *)
theory Async_Session
  imports Async_Server_Types
begin

text \<open>
  The session of the asynchronous server over one connection (mbus-async/src/server/session.rs and statistics.rs).

  \<^item> The transport and the application are parameters: \<open>ses_recv\<close> and \<open>ses_send\<close> change the transport of type \<open>'t\<close>,
    \<open>ses_handle\<close> and \<open>ses_on_exception\<close> the application of type \<open>'a\<close>. The application is an argument of \<open>run\<close> in the
    code and a field of the state here.
  \<^item> The feature \<open>diagnostics-stats\<close> is the flag \<open>ses_stats_on\<close>; the features for the function codes are on. The
    callbacks of the feature \<open>traffic\<close> are left out.
  \<^item> An operation returns the new state with its result.
\<close>

section \<open>State\<close>

record AsyncServerStatistics =
  st_message_count :: u16
  st_comm_error_count :: u16
  st_exception_error_count :: u16
  st_server_message_count :: u16
  st_no_response_count :: u16
  st_nak_count :: u16
  st_busy_count :: u16
  st_character_overrun_count :: u16

definition statistics_new :: AsyncServerStatistics where
  "statistics_new = \<lparr>st_message_count = 0, st_comm_error_count = 0, st_exception_error_count = 0,
     st_server_message_count = 0, st_no_response_count = 0, st_nak_count = 0, st_busy_count = 0,
     st_character_overrun_count = 0\<rparr>"

definition statistics_clear :: "AsyncServerStatistics \<Rightarrow> AsyncServerStatistics" where
  "statistics_clear st = statistics_new"

definition statistics_clear_overrun :: "AsyncServerStatistics \<Rightarrow> AsyncServerStatistics" where
  "statistics_clear_overrun st = st\<lparr>st_character_overrun_count := 0\<rparr>"

definition stat_message :: "AsyncServerStatistics \<Rightarrow> AsyncServerStatistics" where
  "stat_message st = st\<lparr>st_message_count := sat_add (st_message_count st) 1\<rparr>"

definition stat_comm_error :: "AsyncServerStatistics \<Rightarrow> AsyncServerStatistics" where
  "stat_comm_error st = st\<lparr>st_comm_error_count := sat_add (st_comm_error_count st) 1\<rparr>"

definition stat_exception_error :: "AsyncServerStatistics \<Rightarrow> AsyncServerStatistics" where
  "stat_exception_error st = st\<lparr>st_exception_error_count := sat_add (st_exception_error_count st) 1\<rparr>"

definition stat_server_message :: "AsyncServerStatistics \<Rightarrow> AsyncServerStatistics" where
  "stat_server_message st = st\<lparr>st_server_message_count := sat_add (st_server_message_count st) 1\<rparr>"

definition stat_no_response :: "AsyncServerStatistics \<Rightarrow> AsyncServerStatistics" where
  "stat_no_response st = st\<lparr>st_no_response_count := sat_add (st_no_response_count st) 1\<rparr>"

record ('t, 'a) AsyncServerSession =
  ses_transport :: 't
  ses_unit :: UnitIdOrSlaveAddr
  ses_listen_only_mode :: bool
  ses_enable_broadcast_writes :: bool
  ses_stats :: AsyncServerStatistics
  ses_app :: 'a

record ('t, 'a) session_env =
  ses_recv :: "'t \<Rightarrow> 't \<times> (MbusError + bytes)"
  ses_send :: "'t \<Rightarrow> bytes \<Rightarrow> 't \<times> (MbusError + unit)"
  SES_TYPE :: TransportType
  ses_handle :: "'a \<Rightarrow> ModbusRequest \<Rightarrow> 'a \<times> ModbusResponse"
  ses_on_exception :: "'a \<Rightarrow> u16 \<Rightarrow> UnitIdOrSlaveAddr \<Rightarrow> FunctionCode \<Rightarrow> ExceptionCode \<Rightarrow> 'a"
  ses_stats_on :: bool
  ses_bytes :: "u8 heapless"
  ses_reads :: "FileRecordReadSubRequest heapless"
  ses_writes :: "FileRecordWriteSubRequest heapless"
  ses_records :: "AsyncFileRecordWriteSubRequest heapless"

type_synonym ('t, 'a) session = "('t, 'a) AsyncServerSession"
type_synonym ('t, 'a, 'r) session_step = "('t, 'a) AsyncServerSession \<times> (AsyncServerError, 'r) res"

definition async_session_create :: "'t \<Rightarrow> UnitIdOrSlaveAddr \<Rightarrow> 'a \<Rightarrow> ('t, 'a) session" where
  "async_session_create t uid app =
     \<lparr>ses_transport = t, ses_unit = uid, ses_listen_only_mode = False, ses_enable_broadcast_writes = False,
      ses_stats = statistics_new, ses_app = app\<rparr>"

definition set_listen_only_mode :: "bool \<Rightarrow> ('t, 'a) session \<Rightarrow> ('t, 'a) session" where
  "set_listen_only_mode enabled s = s\<lparr>ses_listen_only_mode := enabled\<rparr>"

definition set_broadcast_writes :: "bool \<Rightarrow> ('t, 'a) session \<Rightarrow> ('t, 'a) session" where
  "set_broadcast_writes enabled s = s\<lparr>ses_enable_broadcast_writes := enabled\<rparr>"

definition note_stat :: "('t, 'a) session_env \<Rightarrow> (AsyncServerStatistics \<Rightarrow> AsyncServerStatistics) \<Rightarrow> ('t, 'a) session \<Rightarrow> ('t, 'a) session" where
  "note_stat e f s = (if ses_stats_on e then s\<lparr>ses_stats := f (ses_stats s)\<rparr> else s)"

fun bind_step :: "'s \<times> ('e, 'x) res \<Rightarrow> ('s \<Rightarrow> 'x \<Rightarrow> 's \<times> ('e, 'y) res) \<Rightarrow> 's \<times> ('e, 'y) res" where
  "bind_step (s, Ok x) f = f s x"
| "bind_step (s, Err err) f = (s, Err err)"
| "bind_step (s, Panic) f = (s, Panic)"

section \<open>Parsing\<close>

fun map_framing :: "'x result \<Rightarrow> (AsyncServerError, 'x) res" where
  "map_framing (Ok x) = Ok x"
| "map_framing (Err err) = Err (ASE_FramingError err)"
| "map_framing Panic = Panic"

text \<open>\<open>data.extend_from_slice(values).map_err(|_| FramingError(BufferTooSmall))\<close>\<close>

definition copy_data :: "u8 heapless \<Rightarrow> bytes \<Rightarrow> (AsyncServerError, bytes) res" where
  "copy_data hv xs = extend_or hv MAX_ADU_FRAME_LEN (ASE_FramingError BufferTooSmall) [] xs"

definition parse_coil_request ::
    "('t, 'a) session_env \<Rightarrow> u16 \<Rightarrow> UnitIdOrSlaveAddr \<Rightarrow> FunctionCode \<Rightarrow> Pdu \<Rightarrow> (AsyncServerError, ModbusRequest) res" where
  "parse_coil_request e txn uid fc p =
     (if fc = ReadCoils then
        bind_res (map_framing (read_window p)) (\<lambda>w. Ok (MR_ReadCoils txn uid (rw_address w) (rw_quantity w)))
      else if fc = WriteSingleCoil then
        bind_res (map_framing (write_single_u16_fields p)) (\<lambda>f.
        Ok (MR_WriteSingleCoil txn uid (ws_address f) (ws_value f = 0xFF00)))
      else
        bind_res (map_framing (write_multiple_fields p)) (\<lambda>f.
        bind_res (copy_data (ses_bytes e) (wm_values f)) (\<lambda>d.
        Ok (MR_WriteMultipleCoils txn uid (wm_address f) (wm_quantity f) d))))"

definition parse_discrete_input_request ::
    "u16 \<Rightarrow> UnitIdOrSlaveAddr \<Rightarrow> Pdu \<Rightarrow> (AsyncServerError, ModbusRequest) res" where
  "parse_discrete_input_request txn uid p =
     bind_res (map_framing (read_window p)) (\<lambda>w. Ok (MR_ReadDiscreteInputs txn uid (rw_address w) (rw_quantity w)))"

definition parse_register_request ::
    "('t, 'a) session_env \<Rightarrow> u16 \<Rightarrow> UnitIdOrSlaveAddr \<Rightarrow> FunctionCode \<Rightarrow> Pdu \<Rightarrow> (AsyncServerError, ModbusRequest) res" where
  "parse_register_request e txn uid fc p =
     (case fc of
        ReadHoldingRegisters \<Rightarrow>
          bind_res (map_framing (read_window p)) (\<lambda>w. Ok (MR_ReadHoldingRegisters txn uid (rw_address w) (rw_quantity w)))
      | WriteSingleRegister \<Rightarrow>
          bind_res (map_framing (write_single_u16_fields p)) (\<lambda>f. Ok (MR_WriteSingleRegister txn uid (ws_address f) (ws_value f)))
      | WriteMultipleRegisters \<Rightarrow>
          bind_res (map_framing (write_multiple_fields p)) (\<lambda>f.
          bind_res (copy_data (ses_bytes e) (wm_values f)) (\<lambda>d.
          Ok (MR_WriteMultipleRegisters txn uid (wm_address f) (wm_quantity f) d)))
      | ReadInputRegisters \<Rightarrow>
          bind_res (map_framing (read_window p)) (\<lambda>w. Ok (MR_ReadInputRegisters txn uid (rw_address w) (rw_quantity w)))
      | MaskWriteRegister \<Rightarrow>
          bind_res (map_framing (mask_write_register_fields p)) (\<lambda>f.
          Ok (MR_MaskWriteRegister txn uid (mw_address f) (mw_and_mask f) (mw_or_mask f)))
      | _ \<Rightarrow>
          bind_res (map_framing (read_write_multiple_fields p)) (\<lambda>f.
          bind_res (copy_data (ses_bytes e) (rwm_write_values f)) (\<lambda>d.
          Ok (MR_ReadWriteMultipleRegisters txn uid (rwm_read_address f) (rwm_read_quantity f) (rwm_write_address f)
            (rwm_write_quantity f) d))))"

definition parse_diagnostic_adu ::
    "('t, 'a) session_env \<Rightarrow> u16 \<Rightarrow> UnitIdOrSlaveAddr \<Rightarrow> FunctionCode \<Rightarrow> Pdu \<Rightarrow> (AsyncServerError, ModbusRequest) res" where
  "parse_diagnostic_adu e txn uid fc p =
     (case fc of
        ReadExceptionStatus \<Rightarrow> Ok (MR_ReadExceptionStatus txn uid)
      | Diagnostics \<Rightarrow> bind_res (map_framing (diagnostics_fields p)) (\<lambda>(sub_fn, d). Ok (MR_Diagnostics txn uid sub_fn d))
      | GetCommEventCounter \<Rightarrow> Ok (MR_GetCommEventCounter txn uid)
      | GetCommEventLog \<Rightarrow> Ok (MR_GetCommEventLog txn uid)
      | ReportServerId \<Rightarrow> Ok (MR_ReportServerId txn uid)
      | _ \<Rightarrow>
          bind_res (map_framing (mei_type_payload p)) (\<lambda>mei.
          bind_res (copy_data (ses_bytes e) (mei_payload mei)) (\<lambda>d.
          Ok (MR_EncapsulatedInterfaceTransport txn uid (mei_type_byte mei) d))))"

definition parse_fifo_request :: "u16 \<Rightarrow> UnitIdOrSlaveAddr \<Rightarrow> Pdu \<Rightarrow> (AsyncServerError, ModbusRequest) res" where
  "parse_fifo_request txn uid p = bind_res (map_framing (fifo_pointer p)) (\<lambda>a. Ok (MR_ReadFifoQueue txn uid a))"

text \<open>The loop over the borrowed sub-requests; a push that fails is ignored.\<close>

fun own_records ::
    "('t, 'a) session_env \<Rightarrow> AsyncFileRecordWriteSubRequest list \<Rightarrow> FileRecordWriteSubRequest list \<Rightarrow>
     (AsyncServerError, AsyncFileRecordWriteSubRequest list) res" where
  "own_records e out [] = Ok out"
| "own_records e out (b # bs) =
     bind_res (copy_data (ses_bytes e) (frw_record_data_bytes b)) (\<lambda>rd.
     own_records e
       (case hv_push (ses_records e) MAX_SUB_REQUESTS_PER_PDU out
          \<lparr>afw_file_number = frw_file_number b, afw_record_number = frw_record_number b,
           afw_record_length = frw_record_length b, afw_record_data = rd\<rparr> of
          None \<Rightarrow> out | Some out' \<Rightarrow> out') bs)"

definition parse_file_record_request ::
    "('t, 'a) session_env \<Rightarrow> u16 \<Rightarrow> UnitIdOrSlaveAddr \<Rightarrow> FunctionCode \<Rightarrow> Pdu \<Rightarrow> (AsyncServerError, ModbusRequest) res" where
  "parse_file_record_request e txn uid fc p =
     (if fc = ReadFileRecord then
        bind_res (map_framing (file_record_read_sub_requests (ses_reads e) p)) (\<lambda>sub_reqs.
        Ok (MR_ReadFileRecord txn uid sub_reqs))
      else
        bind_res (map_framing (file_record_write_sub_requests (ses_writes e) p)) (\<lambda>borrowed.
        bind_res (own_records e [] borrowed) (\<lambda>sub_requests.
        Ok (MR_WriteFileRecord txn uid sub_requests (data p)))))"

definition is_addressed_to_us :: "('t, 'a) session \<Rightarrow> UnitIdOrSlaveAddr \<Rightarrow> bool" where
  "is_addressed_to_us s uid \<longleftrightarrow> uid = ses_unit s \<or> is_broadcast uid"

definition parse_request ::
    "('t, 'a) session_env \<Rightarrow> u16 \<Rightarrow> UnitIdOrSlaveAddr \<Rightarrow> Pdu \<Rightarrow> (AsyncServerError, ModbusRequest) res" where
  "parse_request e txn uid p =
     (case function_code p of
        ReadCoils \<Rightarrow> parse_coil_request e txn uid ReadCoils p
      | WriteSingleCoil \<Rightarrow> parse_coil_request e txn uid WriteSingleCoil p
      | WriteMultipleCoils \<Rightarrow> parse_coil_request e txn uid WriteMultipleCoils p
      | ReadDiscreteInputs \<Rightarrow> parse_discrete_input_request txn uid p
      | ReadHoldingRegisters \<Rightarrow> parse_register_request e txn uid ReadHoldingRegisters p
      | WriteSingleRegister \<Rightarrow> parse_register_request e txn uid WriteSingleRegister p
      | WriteMultipleRegisters \<Rightarrow> parse_register_request e txn uid WriteMultipleRegisters p
      | MaskWriteRegister \<Rightarrow> parse_register_request e txn uid MaskWriteRegister p
      | ReadWriteMultipleRegisters \<Rightarrow> parse_register_request e txn uid ReadWriteMultipleRegisters p
      | ReadInputRegisters \<Rightarrow> parse_register_request e txn uid ReadInputRegisters p
      | ReadExceptionStatus \<Rightarrow> parse_diagnostic_adu e txn uid ReadExceptionStatus p
      | Diagnostics \<Rightarrow> parse_diagnostic_adu e txn uid Diagnostics p
      | GetCommEventCounter \<Rightarrow> parse_diagnostic_adu e txn uid GetCommEventCounter p
      | GetCommEventLog \<Rightarrow> parse_diagnostic_adu e txn uid GetCommEventLog p
      | ReportServerId \<Rightarrow> parse_diagnostic_adu e txn uid ReportServerId p
      | EncapsulatedInterfaceTransport \<Rightarrow> parse_diagnostic_adu e txn uid EncapsulatedInterfaceTransport p
      | ReadFifoQueue \<Rightarrow> parse_fifo_request txn uid p
      | ReadFileRecord \<Rightarrow> parse_file_record_request e txn uid ReadFileRecord p
      | WriteFileRecord \<Rightarrow> parse_file_record_request e txn uid WriteFileRecord p
      | fc \<Rightarrow> Ok (MR_Unknown txn uid (function_code_u8 fc)))"

definition parse_adu ::
    "('t, 'a) session_env \<Rightarrow> ('t, 'a) session \<Rightarrow> bytes \<Rightarrow> (AsyncServerError, ModbusRequest option) res" where
  "parse_adu e s adu =
     bind_res (map_framing (decompile_adu_frame (ses_bytes e) adu (SES_TYPE e))) (\<lambda>message.
     let uid = unit_id_or_slave_addr message in
     if \<not> is_addressed_to_us s uid then Ok None
     else bind_res (parse_request e (message_transaction_id message) uid (pdu message)) (\<lambda>req. Ok (Some req)))"

section \<open>Responses\<close>

definition transmit :: "('t, 'a) session_env \<Rightarrow> bytes \<Rightarrow> ('t, 'a) session \<Rightarrow> ('t, 'a, unit) session_step" where
  "transmit e frame s =
     (let (t, r) = ses_send e (ses_transport s) frame;
          s = s\<lparr>ses_transport := t\<rparr>
      in case r of Inr _ \<Rightarrow> (s, Ok ()) | Inl err \<Rightarrow> (s, Err (server_error_from err)))"

definition respond_frame ::
    "('t, 'a) session_env \<Rightarrow> u16 \<Rightarrow> UnitIdOrSlaveAddr \<Rightarrow> ModbusResponse \<Rightarrow> ('t, 'a) session \<Rightarrow> ('t, 'a, unit) session_step" where
  "respond_frame e txn uid resp s =
     (if resp = MS_NoResponse then (s, Ok ())
      else case modbus_response_encode (ses_bytes e) resp txn uid (SES_TYPE e) of
             Ok adu \<Rightarrow> transmit e adu s
           | Err err \<Rightarrow> (s, Err (ASE_Transport err))
           | Panic \<Rightarrow> (s, Panic))"

text \<open>Without the callbacks of \<open>traffic\<close>, \<open>send_response\<close> does the same.\<close>

definition send_response ::
    "('t, 'a) session_env \<Rightarrow> u16 \<Rightarrow> UnitIdOrSlaveAddr \<Rightarrow> ModbusResponse \<Rightarrow> ('t, 'a) session \<Rightarrow> ('t, 'a, unit) session_step" where
  "send_response e txn uid resp s =
     (if resp = MS_NoResponse then (s, Ok ())
      else case modbus_response_encode (ses_bytes e) resp txn uid (SES_TYPE e) of
             Ok frame \<Rightarrow> transmit e frame s
           | Err err \<Rightarrow> (s, Err (ASE_Transport err))
           | Panic \<Rightarrow> (s, Panic))"

definition update_response_stats :: "('t, 'a) session_env \<Rightarrow> ModbusResponse \<Rightarrow> ('t, 'a) session \<Rightarrow> ('t, 'a) session" where
  "update_response_stats e resp s =
     (case resp of
        MS_Exception _ _ \<Rightarrow> note_stat e stat_exception_error s
      | MS_NoResponse \<Rightarrow> note_stat e stat_no_response s
      | _ \<Rightarrow> s)"

definition notify_exception ::
    "('t, 'a) session_env \<Rightarrow> u16 \<Rightarrow> UnitIdOrSlaveAddr \<Rightarrow> ModbusResponse \<Rightarrow> ('t, 'a) session \<Rightarrow> ('t, 'a) session" where
  "notify_exception e txn uid resp s =
     (case resp of
        MS_Exception request_fc code \<Rightarrow> s\<lparr>ses_app := ses_on_exception e (ses_app s) txn uid request_fc code\<rparr>
      | _ \<Rightarrow> s)"

section \<open>Diagnostics answered by the session\<close>

definition fc08_echo_query ::
    "('t, 'a) session_env \<Rightarrow> u16 \<Rightarrow> UnitIdOrSlaveAddr \<Rightarrow> u16 \<Rightarrow> u16 \<Rightarrow> ('t, 'a) session \<Rightarrow> ('t, 'a, bool) session_step" where
  "fc08_echo_query e txn uid sub_fn d s =
     bind_step (respond_frame e txn uid (diagnostics_echo sub_fn d) s) (\<lambda>s _. (s, Ok True))"

definition fc08_restart_comms ::
    "('t, 'a) session_env \<Rightarrow> u16 \<Rightarrow> UnitIdOrSlaveAddr \<Rightarrow> u16 \<Rightarrow> u16 \<Rightarrow> ('t, 'a) session \<Rightarrow> ('t, 'a, bool) session_step" where
  "fc08_restart_comms e txn uid sub_fn d s =
     bind_step (respond_frame e txn uid (diagnostics_echo sub_fn d) (s\<lparr>ses_listen_only_mode := False\<rparr>)) (\<lambda>s _. (s, Ok True))"

definition fc08_force_listen_only :: "('t, 'a) session_env \<Rightarrow> ('t, 'a) session \<Rightarrow> ('t, 'a, bool) session_step" where
  "fc08_force_listen_only e s = (note_stat e stat_no_response (s\<lparr>ses_listen_only_mode := True\<rparr>), Ok True)"

text \<open>\<open>let _ = self.respond(..).await; true\<close>\<close>

definition respond_ignoring ::
    "('t, 'a) session_env \<Rightarrow> u16 \<Rightarrow> UnitIdOrSlaveAddr \<Rightarrow> ModbusResponse \<Rightarrow> ('t, 'a) session \<Rightarrow> ('t, 'a, bool) session_step" where
  "respond_ignoring e txn uid resp s =
     (case respond_frame e txn uid resp s of (s, Panic) \<Rightarrow> (s, Panic) | (s, _) \<Rightarrow> (s, Ok True))"

definition fc08_clear_all_counters ::
    "('t, 'a) session_env \<Rightarrow> u16 \<Rightarrow> UnitIdOrSlaveAddr \<Rightarrow> u16 \<Rightarrow> ('t, 'a) session \<Rightarrow> ('t, 'a, bool) session_step" where
  "fc08_clear_all_counters e txn uid sub_fn s =
     respond_ignoring e txn uid (diagnostics_echo sub_fn 0) (s\<lparr>ses_stats := statistics_clear (ses_stats s)\<rparr>)"

definition fc08_clear_overrun ::
    "('t, 'a) session_env \<Rightarrow> u16 \<Rightarrow> UnitIdOrSlaveAddr \<Rightarrow> u16 \<Rightarrow> ('t, 'a) session \<Rightarrow> ('t, 'a, bool) session_step" where
  "fc08_clear_overrun e txn uid sub_fn s =
     respond_ignoring e txn uid (diagnostics_echo sub_fn 0) (s\<lparr>ses_stats := statistics_clear_overrun (ses_stats s)\<rparr>)"

definition resolve_stats_counter :: "('t, 'a) session \<Rightarrow> u16 \<Rightarrow> u16 option" where
  "resolve_stats_counter s sub_fn =
     (case diagnostic_sub_function_try_from sub_fn of
        Ok ReturnBusMessageCount \<Rightarrow> Some (st_message_count (ses_stats s))
      | Ok ReturnBusCommunicationErrorCount \<Rightarrow> Some (st_comm_error_count (ses_stats s))
      | Ok ReturnBusExceptionErrorCount \<Rightarrow> Some (st_exception_error_count (ses_stats s))
      | Ok ReturnServerMessageCount \<Rightarrow> Some (st_server_message_count (ses_stats s))
      | Ok ReturnServerNoResponseCount \<Rightarrow> Some (st_no_response_count (ses_stats s))
      | Ok ReturnServerNakCount \<Rightarrow> Some (st_nak_count (ses_stats s))
      | Ok ReturnServerBusyCount \<Rightarrow> Some (st_busy_count (ses_stats s))
      | Ok ReturnBusCharacterOverrunCount \<Rightarrow> Some (st_character_overrun_count (ses_stats s))
      | _ \<Rightarrow> None)"

definition handle_stats_sub_fn ::
    "('t, 'a) session_env \<Rightarrow> u16 \<Rightarrow> UnitIdOrSlaveAddr \<Rightarrow> u16 \<Rightarrow> ('t, 'a) session \<Rightarrow> ('t, 'a, bool) session_step" where
  "handle_stats_sub_fn e txn uid sub_fn s =
     (if diagnostic_sub_function_try_from sub_fn = Ok ClearCountersAndDiagnosticRegister then
        fc08_clear_all_counters e txn uid sub_fn s
      else if diagnostic_sub_function_try_from sub_fn = Ok ClearOverrunCounterAndFlag then
        fc08_clear_overrun e txn uid sub_fn s
      else case resolve_stats_counter s sub_fn of
             Some counter \<Rightarrow> respond_ignoring e txn uid (diagnostics_echo sub_fn counter) s
           | None \<Rightarrow> (s, Ok False))"

definition handle_fc08_auto ::
    "('t, 'a) session_env \<Rightarrow> u16 \<Rightarrow> UnitIdOrSlaveAddr \<Rightarrow> u16 \<Rightarrow> u16 \<Rightarrow> ('t, 'a) session \<Rightarrow> ('t, 'a, bool) session_step" where
  "handle_fc08_auto e txn uid sub_fn d s =
     (if sub_fn = diagnostic_sub_function_u16 ReturnQueryData then fc08_echo_query e txn uid sub_fn d s
      else if sub_fn = diagnostic_sub_function_u16 RestartCommunicationsOption then fc08_restart_comms e txn uid sub_fn d s
      else if sub_fn = diagnostic_sub_function_u16 ForceListenOnlyMode then fc08_force_listen_only e s
      else if ses_stats_on e then handle_stats_sub_fn e txn uid sub_fn s
      else (s, Ok False))"

section \<open>The loop\<close>

text \<open>The request with the fields \<open>txn_id\<close> and \<open>unit\<close> that \<open>ReceivedRequest\<close> adds are the request's own.\<close>

definition recv_request :: "('t, 'a) session_env \<Rightarrow> ('t, 'a) session \<Rightarrow> ('t, 'a, ModbusRequest option) session_step" where
  "recv_request e s =
     (case ses_recv e (ses_transport s) of
        (t, Inl err) \<Rightarrow> (s\<lparr>ses_transport := t\<rparr>, Err (server_error_from err))
      | (t, Inr adu) \<Rightarrow>
          (let s = note_stat e stat_message (s\<lparr>ses_transport := t\<rparr>) in
           case parse_adu e s adu of
             Ok r \<Rightarrow> (s, Ok r)
           | Err (ASE_FramingError err) \<Rightarrow> (note_stat e stat_comm_error s, Ok None)
           | Err err \<Rightarrow> (s, Err err)
           | Panic \<Rightarrow> (s, Panic)))"

fun is_diagnostics :: "ModbusRequest \<Rightarrow> bool" where
  "is_diagnostics (MR_Diagnostics _ _ _ _) \<longleftrightarrow> True"
| "is_diagnostics _ \<longleftrightarrow> False"

definition should_discard_in_listen_only_mode ::
    "('t, 'a) session_env \<Rightarrow> ModbusRequest \<Rightarrow> ('t, 'a) session \<Rightarrow> ('t, 'a) session \<times> bool" where
  "should_discard_in_listen_only_mode e req s =
     (if ses_listen_only_mode s \<and> \<not> is_diagnostics req then (note_stat e stat_no_response s, True) else (s, False))"

definition try_dispatch_fc08_auto ::
    "('t, 'a) session_env \<Rightarrow> ModbusRequest \<Rightarrow> ('t, 'a) session \<Rightarrow> ('t, 'a, bool) session_step" where
  "try_dispatch_fc08_auto e req s =
     (case req of
        MR_Diagnostics txn uid sub_fn d \<Rightarrow> handle_fc08_auto e txn uid sub_fn d s
      | _ \<Rightarrow> (s, Ok False))"

definition is_broadcast_write_fc :: "ModbusRequest \<Rightarrow> bool" where
  "is_broadcast_write_fc req \<longleftrightarrow> function_code_byte req \<in> {0x05, 0x06, 0x0F, 0x10}"

definition handle_serial_broadcast :: "('t, 'a) session_env \<Rightarrow> ModbusRequest \<Rightarrow> ('t, 'a) session \<Rightarrow> ('t, 'a) session" where
  "handle_serial_broadcast e req s =
     (let s = (if ses_enable_broadcast_writes s \<and> is_broadcast_write_fc req then
                 let s = note_stat e stat_server_message s in s\<lparr>ses_app := fst (ses_handle e (ses_app s) req)\<rparr>
               else s)
      in note_stat e stat_no_response s)"

definition try_reply_unknown_fc ::
    "('t, 'a) session_env \<Rightarrow> ModbusRequest \<Rightarrow> ('t, 'a) session \<Rightarrow> ('t, 'a, bool) session_step" where
  "try_reply_unknown_fc e req s =
     (case req of
        MR_Unknown txn uid fc_byte \<Rightarrow>
          (let s = note_stat e stat_exception_error s in
           case function_code_try_from fc_byte of
             Ok fc \<Rightarrow>
               (let s = s\<lparr>ses_app := ses_on_exception e (ses_app s) txn uid fc IllegalFunction\<rparr> in
                bind_step (respond_frame e txn uid (response_exception fc IllegalFunction) s) (\<lambda>s _. (s, Ok True)))
           | _ \<Rightarrow> (s, Ok True))
      | _ \<Rightarrow> (s, Ok False))"

definition dispatch_and_send :: "('t, 'a) session_env \<Rightarrow> ModbusRequest \<Rightarrow> ('t, 'a) session \<Rightarrow> ('t, 'a, unit) session_step" where
  "dispatch_and_send e req s =
     (let s = note_stat e stat_server_message s;
          (app, resp) = ses_handle e (ses_app s) req;
          s = update_response_stats e resp (s\<lparr>ses_app := app\<rparr>);
          s = notify_exception e (modbus_request_txn_id req) (modbus_request_unit req) resp s
      in send_response e (modbus_request_txn_id req) (modbus_request_unit req) resp s)"

text \<open>What the loop does with a request, and one round of the loop.\<close>

definition serve_request :: "('t, 'a) session_env \<Rightarrow> ModbusRequest \<Rightarrow> ('t, 'a) session \<Rightarrow> ('t, 'a, unit) session_step" where
  "serve_request e req s =
     (let (s, discard) = should_discard_in_listen_only_mode e req s in
      if discard then (s, Ok ())
      else bind_step (try_dispatch_fc08_auto e req s) (\<lambda>s handled.
        if handled then (s, Ok ())
        else if is_broadcast (modbus_request_unit req) \<and> is_serial_type (SES_TYPE e) then (handle_serial_broadcast e req s, Ok ())
        else bind_step (try_reply_unknown_fc e req s) (\<lambda>s handled.
          if handled then (s, Ok ()) else dispatch_and_send e req s)))"

definition session_round :: "('t, 'a) session_env \<Rightarrow> ('t, 'a) session \<Rightarrow> ('t, 'a, unit) session_step" where
  "session_round e s =
     bind_step (recv_request e s) (\<lambda>s r. case r of None \<Rightarrow> (s, Ok ()) | Some req \<Rightarrow> serve_request e req s)"

text \<open>\<open>run\<close> returns when a round fails; \<open>None\<close> is a session that goes on for ever.\<close>

partial_function (option) session_run :: "('t, 'a) session_env \<Rightarrow> ('t, 'a) session \<Rightarrow> ('t, 'a, unit) session_step option" where
  "session_run e s =
     (case session_round e s of
        (s, Ok _) \<Rightarrow> session_run e s
      | (s, Err err) \<Rightarrow> Some (s, Err err)
      | (s, Panic) \<Rightarrow> Some (s, Panic))"

end
