(* ===== verification/Async_Server.thy ===== *)
theory Async_Server
  imports Async_Session Async_Client File_Requests
begin

text \<open>
  What the session of the asynchronous server guarantees: the requests of the asynchronous client arrive as they were
  made, an application's answer reaches the client, and the modes of the session (listen-only, broadcast) decide which
  requests reach the application and the line.
\<close>

section \<open>Requests of the client\<close>

definition session_env_ok :: "('t, 'a) session_env \<Rightarrow> bool" where
  "session_env_ok e \<longleftrightarrow> heapless_ok (ses_bytes e) \<and> heapless_ok (ses_reads e) \<and> heapless_ok (ses_writes e) \<and> heapless_ok (ses_records e)"

lemma session_env_ok_simps:
  assumes "session_env_ok e"
  shows "heapless_ok (ses_bytes e)" "heapless_ok (ses_reads e)" "heapless_ok (ses_writes e)" "heapless_ok (ses_records e)"
  using assms by (simp_all add: session_env_ok_def)

lemma copy_data_ok: "heapless_ok hv \<Longrightarrow> length xs \<le> 513 \<Longrightarrow> copy_data hv xs = Ok xs"
  by (simp add: copy_data_def)

definition own_record :: "SubRequestParams \<Rightarrow> AsyncFileRecordWriteSubRequest" where
  "own_record p = \<lparr>afw_file_number = file_number p, afw_record_number = record_number p, afw_record_length = record_length p,
     afw_record_data = (case record_data p of None \<Rightarrow> [] | Some ws \<Rightarrow> words_bytes ws)\<rparr>"

text \<open>The request of the server that a request of the client stands for.\<close>

fun server_request :: "u16 \<Rightarrow> AsyncRequest \<Rightarrow> ModbusRequest" where
  "server_request txn (Q_ReadMultipleCoils unit a q) = MR_ReadCoils txn unit a q"
| "server_request txn (Q_WriteSingleCoil unit a v) = MR_WriteSingleCoil txn unit a v"
| "server_request txn (Q_WriteMultipleCoils unit a c) =
     MR_WriteMultipleCoils txn unit a (coils_quantity c) (take (div_ceil (unat (coils_quantity c)) 8) (coils_values c))"
| "server_request txn (Q_ReadHoldingRegisters unit a q) = MR_ReadHoldingRegisters txn unit a q"
| "server_request txn (Q_ReadInputRegisters unit a q) = MR_ReadInputRegisters txn unit a q"
| "server_request txn (Q_WriteSingleRegister unit a v) = MR_WriteSingleRegister txn unit a v"
| "server_request txn (Q_WriteMultipleRegisters unit a vs) =
     MR_WriteMultipleRegisters txn unit a (of_nat (length vs)) (words_bytes vs)"
| "server_request txn (Q_ReadWriteMultipleRegisters unit ra rq wa vs) =
     MR_ReadWriteMultipleRegisters txn unit ra rq wa (of_nat (length vs)) (words_bytes vs)"
| "server_request txn (Q_MaskWriteRegister unit a am om) = MR_MaskWriteRegister txn unit a am om"
| "server_request txn (Q_ReadDiscreteInputs unit a q) = MR_ReadDiscreteInputs txn unit a q"
| "server_request txn (Q_ReadFifoQueue unit a) = MR_ReadFifoQueue txn unit a"
| "server_request txn (Q_ReadFileRecord unit s) = MR_ReadFileRecord txn unit (map read_view (params s))"
| "server_request txn (Q_WriteFileRecord unit s) =
     MR_WriteFileRecord txn unit (map own_record (params s)) (of_nat (byte_count s) # concat (map param_bytes (params s)))"
| "server_request txn (Q_ReadDeviceIdentification unit c oid) =
     MR_EncapsulatedInterfaceTransport txn unit (encapsulated_interface_type_u8 ReadDeviceIdentification)
       [read_device_id_code_u8 c, object_id_u8 oid]"
| "server_request txn (Q_EncapsulatedInterfaceTransport unit t d) =
     MR_EncapsulatedInterfaceTransport txn unit (encapsulated_interface_type_u8 t) d"
| "server_request txn (Q_ReadExceptionStatus unit) = MR_ReadExceptionStatus 0 unit"
| "server_request txn (Q_Diagnostics unit sf ws) = MR_Diagnostics 0 unit (diagnostic_sub_function_u16 sf) (hd ws)"
| "server_request txn (Q_GetCommEventCounter unit) = MR_GetCommEventCounter 0 unit"
| "server_request txn (Q_GetCommEventLog unit) = MR_GetCommEventLog 0 unit"
| "server_request txn (Q_ReportServerId unit) = MR_ReportServerId 0 unit"

text \<open>
  What the server takes for granted: a diagnostics request has a data word, the sub-requests for file records were
  built by the client's \<open>add\<close> functions, have no length 0, and take at most 245 bytes.
\<close>

fun well_made :: "AsyncRequest \<Rightarrow> bool" where
  "well_made (Q_Diagnostics unit sf ws) \<longleftrightarrow> ws \<noteq> []"
| "well_made (Q_ReadFileRecord unit s) \<longleftrightarrow>
     (\<exists>hv oc. heapless_ok hv \<and> reads_built hv oc s) \<and> params s \<noteq> [] \<and> (\<forall>p \<in> set (params s). record_length p \<noteq> 0)"
| "well_made (Q_WriteFileRecord unit s) \<longleftrightarrow>
     (\<exists>hv oc. heapless_ok hv \<and> writes_built hv oc s) \<and> params s \<noteq> [] \<and> (\<forall>p \<in> set (params s). record_length p \<noteq> 0) \<and>
     byte_count s \<le> 245"
| "well_made q \<longleftrightarrow> True"

text \<open>A frame of a PDU without the exception bit, sent to one address.\<close>

definition heard :: "('t, 'a) session_env \<Rightarrow> ('t, 'a) session \<Rightarrow> u16 \<Rightarrow> UnitIdOrSlaveAddr \<Rightarrow> Pdu \<Rightarrow> (AsyncServerError, ModbusRequest option) res" where
  "heard e s txn uid p =
     (if uid = ses_unit s then
        bind_res (parse_request e (if is_tcp_type (SES_TYPE e) then txn else 0) uid p) (\<lambda>req. Ok (Some req))
      else Ok None)"

lemma parse_adu_framed:
  assumes "session_env_ok e" "heapless_ok hv" "1 \<le> uid_get unit" "uid_get unit \<le> 247"
    and "pdu_wf p" "normal_code (function_code p)" "error_code p = None"
    and "compile_adu_frame hv txn (uid_get unit) p (SES_TYPE e) = Ok f"
  shows "parse_adu e s f = heard e s txn unit p"
proof -
  obtain uid where uid [simp]: "unit = UnitIdOrSlaveAddr uid" by (cases unit)
  have "adu_addressable (SES_TYPE e) uid" using assms(4) by (simp add: adu_addressable_def)
  note decoded = adu_framing.decode_normal [OF session_env_ok_simps(1) [OF assms(1)] this assms(5-7), of txn]
  have "f = adu_frame (SES_TYPE e) txn uid (pdu_body p)"
    using assms(8) by (simp add: compile_adu_frame_ok [OF assms(2,5)])
  moreover have "\<not> is_broadcast (UnitIdOrSlaveAddr uid)" using assms(3) by (auto simp: is_broadcast_def)
  ultimately show ?thesis
    using assms(3,4)
    by (simp add: parse_adu_def decoded heard_def unit_of_unicast txn_of_address is_addressed_to_us_def)
qed

text \<open>What a built PDU holds, for every layout.\<close>

context pdu_codec
begin

lemma built_pdu:
  assumes "heapless_ok hv" "build hv x = Ok p"
  shows "pdu_wf p" "function_code p = fc" "error_code p = None" "parse p = Ok (view x)"
  using built_wf [OF assms] built_parse [OF assms] assms by (auto simp: build_Ok_iff pdu_new_def)

end

lemma diagnostics_arrives:
  assumes "heapless_ok hv" "build_sub_function hv Diagnostics sf ws = Ok p" "ws \<noteq> []"
  shows "diagnostics_fields p = Ok (sf, hd ws)"
proof -
  obtain w ws' where ws: "ws = w # ws'" using assms(3) by (cases ws) auto
  have p: "length ws \<le> 125" "p = pdu_new Diagnostics (u16_to_be_bytes sf @ words_bytes ws) (of_nat (2 + 2 * length ws))"
    using sf_codec.build_Ok_iff [OF assms(1), of Diagnostics "(sf, ws)" p] assms(2) by (simp_all add: u16_to_be_bytes_def)
  then have "unat (data_len p) = 2 + 2 * length ws" using unat_of_nat_u8 [of "2 + 2 * length ws"] by (simp del: of_nat_add)
  then show ?thesis
    by (simp add: p(2) ws diagnostics_fields_def words_bytes_def codec_simps)
qed

lemma records_owned:
  assumes "session_env_ok e"
  shows "\<forall>p \<in> set ps. \<exists>ws. record_data p = Some ws \<and> length ws \<le> 125 \<Longrightarrow> length out + length ps \<le> 35 \<Longrightarrow>
    own_records e out (map write_view ps) = Ok (out @ map own_record ps)"
proof (induction ps arbitrary: out)
  case (Cons p ps)
  then obtain ws where "record_data p = Some ws" "length ws \<le> 125" by auto
  then show ?case
    using Cons session_env_ok_simps [OF assms] by (simp add: copy_data_ok write_view_def own_record_def)
qed simp

text \<open>What the parser makes of a PDU that was built for a request, constructor by constructor.\<close>

lemmas parser_defs =
  parse_request_def parse_coil_request_def parse_discrete_input_request_def parse_register_request_def
  parse_diagnostic_adu_def parse_fifo_request_def parse_file_record_request_def

definition parsed_as :: "('t, 'a) session_env \<Rightarrow> u16 \<Rightarrow> UnitIdOrSlaveAddr \<Rightarrow> ModbusRequest \<Rightarrow> Pdu \<Rightarrow> bool" where
  "parsed_as e txn unit req p \<longleftrightarrow>
     pdu_wf p \<and> normal_code (function_code p) \<and> error_code p = None \<and> parse_request e txn unit p = Ok req"

context pdu_codec
begin

lemma parsed_asI:
  assumes "heapless_ok hv" "build hv x = Ok p" "normal_code fc"
    and "\<And>p. function_code p = fc \<Longrightarrow> parse p = Ok (view x) \<Longrightarrow> parse_request e txn unit p = Ok req"
  shows "parsed_as e txn unit req p"
  using built_pdu [OF assms(1,2)] assms(3,4) by (simp add: parsed_as_def)

end

lemma plain_requests_parsed:
  assumes "session_env_ok e" "heapless_ok hv"
  shows "build_read_window hv ReadCoils a q = Ok p \<Longrightarrow> parsed_as e txn unit (MR_ReadCoils txn unit a q) p"
    and "build_read_window hv ReadDiscreteInputs a q = Ok p \<Longrightarrow> parsed_as e txn unit (MR_ReadDiscreteInputs txn unit a q) p"
    and "build_read_window hv ReadHoldingRegisters a q = Ok p \<Longrightarrow> parsed_as e txn unit (MR_ReadHoldingRegisters txn unit a q) p"
    and "build_read_window hv ReadInputRegisters a q = Ok p \<Longrightarrow> parsed_as e txn unit (MR_ReadInputRegisters txn unit a q) p"
    and "build_write_single_u16 hv WriteSingleCoil a v = Ok p \<Longrightarrow> parsed_as e txn unit (MR_WriteSingleCoil txn unit a (v = 0xFF00)) p"
    and "build_write_single_u16 hv WriteSingleRegister a v = Ok p \<Longrightarrow> parsed_as e txn unit (MR_WriteSingleRegister txn unit a v) p"
    and "build_mask_write_register hv a am om = Ok p \<Longrightarrow> parsed_as e txn unit (MR_MaskWriteRegister txn unit a am om) p"
    and "build_u16_payload hv ReadFifoQueue a = Ok p \<Longrightarrow> parsed_as e txn unit (MR_ReadFifoQueue txn unit a) p"
  subgoal by (rule rw_codec.parsed_asI [OF assms(2), where fc = ReadCoils and x = "(a, q)"]) (simp_all add: parser_defs normal_code_def)
  subgoal by (rule rw_codec.parsed_asI [OF assms(2), where fc = ReadDiscreteInputs and x = "(a, q)"]) (simp_all add: parser_defs normal_code_def)
  subgoal by (rule rw_codec.parsed_asI [OF assms(2), where fc = ReadHoldingRegisters and x = "(a, q)"]) (simp_all add: parser_defs normal_code_def)
  subgoal by (rule rw_codec.parsed_asI [OF assms(2), where fc = ReadInputRegisters and x = "(a, q)"]) (simp_all add: parser_defs normal_code_def)
  subgoal by (rule ws_codec.parsed_asI [OF assms(2), where fc = WriteSingleCoil and x = "(a, v)"]) (simp_all add: parser_defs normal_code_def)
  subgoal by (rule ws_codec.parsed_asI [OF assms(2), where fc = WriteSingleRegister and x = "(a, v)"]) (simp_all add: parser_defs normal_code_def)
  subgoal by (rule mw_codec.parsed_asI [OF assms(2), where x = "(a, am, om)"]) (simp_all add: parser_defs normal_code_def)
  subgoal by (rule ptr_codec.parsed_asI [OF assms(2), where fc = ReadFifoQueue and x = a]) (simp_all add: parser_defs normal_code_def)
  done

lemma copied_requests_parsed:
  assumes "session_env_ok e" "heapless_ok hv"
  shows "build_write_multiple hv WriteMultipleCoils a q vs = Ok p \<Longrightarrow> parsed_as e txn unit (MR_WriteMultipleCoils txn unit a q vs) p"
    and "build_write_multiple hv WriteMultipleRegisters a q vs = Ok p \<Longrightarrow> parsed_as e txn unit (MR_WriteMultipleRegisters txn unit a q vs) p"
    and "build_read_write_multiple hv a q wa wq vs = Ok p \<Longrightarrow> parsed_as e txn unit (MR_ReadWriteMultipleRegisters txn unit a q wa wq vs) p"
    and "build_mei_type hv EncapsulatedInterfaceTransport t vs = Ok p \<Longrightarrow>
      parsed_as e txn unit (MR_EncapsulatedInterfaceTransport txn unit t vs) p"
proof -
  have short: "build_write_multiple hv fc a q vs = Ok p \<Longrightarrow> length vs \<le> 513" "build_read_write_multiple hv a q wa wq vs = Ok p \<Longrightarrow> length vs \<le> 513"
    "build_mei_type hv fc t vs = Ok p \<Longrightarrow> length vs \<le> 513" for fc
    using wm_codec.build_Ok_iff [OF assms(2), of fc "(a, q, vs)" p] rwm_codec.build_Ok_iff [OF assms(2), of "(a, q, wa, wq, vs)" p]
      mei_codec.build_Ok_iff [OF assms(2), of fc "(t, vs)" p] by auto
  note copied = copy_data_ok [OF session_env_ok_simps(1) [OF assms(1)]]
  show "parsed_as e txn unit (MR_WriteMultipleCoils txn unit a q vs) p" if "build_write_multiple hv WriteMultipleCoils a q vs = Ok p"
    by (rule wm_codec.parsed_asI [OF assms(2), where fc = WriteMultipleCoils and x = "(a, q, vs)"]) (use that in \<open>simp_all add: parser_defs normal_code_def copied short(1) [OF that]\<close>)
  show "parsed_as e txn unit (MR_WriteMultipleRegisters txn unit a q vs) p" if "build_write_multiple hv WriteMultipleRegisters a q vs = Ok p"
    by (rule wm_codec.parsed_asI [OF assms(2), where fc = WriteMultipleRegisters and x = "(a, q, vs)"]) (use that in \<open>simp_all add: parser_defs normal_code_def copied short(1) [OF that]\<close>)
  show "parsed_as e txn unit (MR_ReadWriteMultipleRegisters txn unit a q wa wq vs) p" if "build_read_write_multiple hv a q wa wq vs = Ok p"
    by (rule rwm_codec.parsed_asI [OF assms(2), where x = "(a, q, wa, wq, vs)"]) (use that in \<open>simp_all add: parser_defs normal_code_def copied short(2) [OF that]\<close>)
  show "parsed_as e txn unit (MR_EncapsulatedInterfaceTransport txn unit t vs) p" if "build_mei_type hv EncapsulatedInterfaceTransport t vs = Ok p"
    by (rule mei_codec.parsed_asI [OF assms(2), where fc = EncapsulatedInterfaceTransport and x = "(t, vs)"]) (use that in \<open>simp_all add: parser_defs normal_code_def copied short(3) [OF that]\<close>)
qed

lemma serial_requests_parsed:
  assumes "session_env_ok e" "heapless_ok hv"
  shows "ws \<noteq> [] \<Longrightarrow> build_sub_function hv Diagnostics sf ws = Ok p \<Longrightarrow> parsed_as e txn unit (MR_Diagnostics txn unit sf (hd ws)) p"
    and "parsed_as e txn unit (MR_ReadExceptionStatus txn unit) (build_empty ReadExceptionStatus)"
    and "parsed_as e txn unit (MR_GetCommEventCounter txn unit) (build_empty GetCommEventCounter)"
    and "parsed_as e txn unit (MR_GetCommEventLog txn unit) (build_empty GetCommEventLog)"
    and "parsed_as e txn unit (MR_ReportServerId txn unit) (build_empty ReportServerId)"
proof -
  show "parsed_as e txn unit (MR_Diagnostics txn unit sf (hd ws)) p"
    if "ws \<noteq> []" "build_sub_function hv Diagnostics sf ws = Ok p"
    using sf_codec.built_pdu [OF assms(2), of Diagnostics "(sf, ws)" p] that diagnostics_arrives [OF assms(2) that(2,1)]
    by (simp add: parsed_as_def parser_defs normal_code_def)
qed (simp_all add: parsed_as_def parser_defs normal_code_def build_empty_def pdu_new_def pdu_wf_def)

lemma record_short:
  assumes "p \<in> set (params s)" "record_data p = Some ws" "byte_count s \<le> 251"
  shows "length ws \<le> 125"
proof -
  have "2 * length ws \<le> length (param_bytes p)" using assms(2) by (simp add: length_param_bytes)
  also have "\<dots> \<le> byte_count s"
    using assms(1) by (simp add: byte_count_eq length_concat member_le_sum_list)
  finally show ?thesis using assms(3) by simp
qed

lemma file_requests_parsed:
  assumes "session_env_ok e" "heapless_ok hv"
  shows "well_made (Q_ReadFileRecord unit s) \<Longrightarrow> read_file_record_request hv s = Ok p \<Longrightarrow>
      parsed_as e txn unit (MR_ReadFileRecord txn unit (map read_view (params s))) p"
    and "well_made (Q_WriteFileRecord unit s) \<Longrightarrow> write_file_record_request hv s = Ok p \<Longrightarrow>
      parsed_as e txn unit (MR_WriteFileRecord txn unit (map own_record (params s)) (data p)) p"
proof -
  note ok = session_env_ok_simps [OF assms(1)]
  assume w: "well_made (Q_ReadFileRecord unit s)" and p: "read_file_record_request hv s = Ok p"
  then obtain hs oc where "heapless_ok hs" "reads_built hs oc s" by auto
  from read_file_record_roundtrip [OF assms(2) this(1) ok(2) this(2)] w p
  show "parsed_as e txn unit (MR_ReadFileRecord txn unit (map read_view (params s))) p"
    by (auto simp: parsed_as_def parser_defs normal_code_def read_file_record_request_def pdu_new_def res_simps)
next
  note ok = session_env_ok_simps [OF assms(1)]
  assume w: "well_made (Q_WriteFileRecord unit s)" and p: "write_file_record_request hv s = Ok p"
  then obtain hs oc where built: "heapless_ok hs" "writes_built hs oc s" by auto
  have "\<forall>p \<in> set (params s). \<exists>ws. record_data p = Some ws \<and> length ws \<le> 125" "length (params s) \<le> 35"
    using writes_built_params [OF built] record_short [of _ s] by (auto, blast)
  note owned = records_owned [OF assms(1) this(1), of "[]"] this(2)
  from write_file_record_roundtrip [OF assms(2) built(1) ok(3) built(2)] w p owned
  show "parsed_as e txn unit (MR_WriteFileRecord txn unit (map own_record (params s)) (data p)) p"
    by (auto simp: parsed_as_def parser_defs normal_code_def write_file_record_request_def pdu_new_def res_simps)
qed

lemmas encode_defs =
  encode_read_coils_def encode_write_single_coil_def encode_write_multiple_coils_def encode_read_holding_registers_def
  encode_read_input_registers_def encode_write_single_register_def encode_write_multiple_registers_def
  encode_read_write_multiple_registers_def encode_mask_write_register_def encode_read_discrete_inputs_def
  encode_read_fifo_queue_def encode_read_file_record_def encode_write_file_record_def encode_read_device_identification_def
  encode_encapsulated_interface_transport_def encode_read_exception_status_def encode_diagnostics_def
  encode_get_comm_event_counter_def encode_get_comm_event_log_def encode_report_server_id_def

lemma slice_to_Ok_iff: "slice_to xs n = Ok ys \<longleftrightarrow> n \<le> length xs \<and> ys = take n xs"
  by (auto simp: slice_to_def slice_def)

lemma encoded_parsed:
  fixes e :: "('t, 'a) session_env"
  assumes "session_env_ok e" "heapless_ok hv" "async_request_ok q" "well_made q" "encode_request hv txn q tt = Ok f"
  shows "\<exists>p t. compile_adu_frame hv t (uid_get (async_request_unit q)) p tt = Ok f \<and>
    parsed_as e (if is_tcp_type tt then t else 0) (async_request_unit q) (server_request (if is_tcp_type tt then txn else 0) q) p"
proof -
  note parsed = plain_requests_parsed [OF assms(1,2)] copied_requests_parsed [OF assms(1,2)] serial_requests_parsed [OF assms(1,2)]
    plain_requests_parsed(5) [OF assms(1,2), where v = "0xFF00", simplified] plain_requests_parsed(5) [OF assms(1,2), where v = "0", simplified]
  show ?thesis
  proof (cases q)
    case (Q_Diagnostics unit sf ws)
    then obtain p where "build_sub_function hv Diagnostics (diagnostic_sub_function_u16 sf) ws = Ok p" "compile_adu_frame hv 0 (uid_get unit) p tt = Ok f"
      using assms(5) by (auto simp: encode_defs res_simps)
    then show ?thesis
      using Q_Diagnostics assms(4) serial_requests_parsed(1) [OF assms(1,2)] by (intro exI [where x = p] exI [where x = 0]) simp
  next
    case (Q_WriteMultipleCoils unit a c)
    then show ?thesis
      using assms(3,5) by (auto simp: encode_defs Let_def res_simps slice_to_Ok_iff split: if_splits intro!: exI parsed)
  next
    case (Q_ReadFileRecord unit s)
    then obtain bs where "to_sub_req_pdu_bytes hv s = Ok bs"
        "compile_adu_frame hv txn (uid_get unit) (pdu_new ReadFileRecord bs (of_nat (length bs))) tt = Ok f"
      using assms(5) by (auto simp: encode_defs res_simps)
    moreover from this have "read_file_record_request hv s = Ok (pdu_new ReadFileRecord bs (of_nat (length bs)))" by (simp add: read_file_record_request_def)
    note file_requests_parsed(1) [OF assms(1,2) _ this]
    ultimately show ?thesis
      using Q_ReadFileRecord assms(3,4) by (intro exI [where x = "pdu_new ReadFileRecord bs (of_nat (length bs))"] exI [where x = txn]) (simp del: well_made.simps)
  next
    case (Q_WriteFileRecord unit s)
    then obtain bs where "to_sub_req_pdu_bytes hv s = Ok bs"
        "compile_adu_frame hv txn (uid_get unit) (pdu_new WriteFileRecord bs (of_nat (length bs))) tt = Ok f"
      using assms(5) by (auto simp: encode_defs res_simps)
    moreover from this have "write_file_record_request hv s = Ok (pdu_new WriteFileRecord bs (of_nat (length bs)))" by (simp add: write_file_record_request_def)
    note file_requests_parsed(2) [OF assms(1,2) _ this]
    ultimately show ?thesis
      using Q_WriteFileRecord assms(3,4) by (intro exI [where x = "pdu_new WriteFileRecord bs (of_nat (length bs))"] exI [where x = txn]) (simp add: to_sub_req_pdu_bytes_ok [OF assms(2)] del: well_made.simps)
  qed (use assms(3-5) in \<open>auto simp: encode_defs Let_def res_simps collect_byte_pairs_ok [OF assms(2)] split: if_splits intro!: exI parsed\<close>)
qed


section \<open>A request served\<close>

text \<open>Only the counters change.\<close>

definition same_but_stats :: "('t, 'a) session \<Rightarrow> ('t, 'a) session \<Rightarrow> bool" where
  "same_but_stats s s' \<longleftrightarrow> s' = s\<lparr>ses_stats := ses_stats s'\<rparr>"

lemma note_stat_same [simp]:
  "ses_transport (note_stat e g s) = ses_transport s" "ses_unit (note_stat e g s) = ses_unit s"
  "ses_listen_only_mode (note_stat e g s) = ses_listen_only_mode s" "ses_enable_broadcast_writes (note_stat e g s) = ses_enable_broadcast_writes s"
  "ses_app (note_stat e g s) = ses_app s"
  by (simp_all add: note_stat_def)

lemma note_stat_eq: "note_stat e g s = s\<lparr>ses_stats := if ses_stats_on e then g (ses_stats s) else ses_stats s\<rparr>"
  by (simp add: note_stat_def)

lemma stats_kept [simp]: "\<exists>st. s\<lparr>ses_transport := t\<rparr> = s\<lparr>ses_transport := t, ses_stats := st\<rparr>"
  by (rule exI [where x = "ses_stats s"]) simp

lemma same_but_stats_iff:
  "same_but_stats s s' \<longleftrightarrow> ses_transport s' = ses_transport s \<and> ses_unit s' = ses_unit s \<and>
     ses_listen_only_mode s' = ses_listen_only_mode s \<and> ses_enable_broadcast_writes s' = ses_enable_broadcast_writes s \<and> ses_app s' = ses_app s"
  by (cases s, cases s') (auto simp: same_but_stats_def)

lemma parse_adu_cong:
  assumes "ses_unit s' = ses_unit s"
  shows "parse_adu e s' f = parse_adu e s f"
  using assms by (simp add: parse_adu_def is_addressed_to_us_def)

lemma recv_request_parsed:
  assumes "ses_recv e (ses_transport s) = (t, Inr f)" "parse_adu e s f = Ok r"
  shows "recv_request e s = (note_stat e stat_message (s\<lparr>ses_transport := t\<rparr>), Ok r)"
proof -
  have "parse_adu e (note_stat e stat_message (s\<lparr>ses_transport := t\<rparr>)) f = Ok r"
    using assms(2) by (subst parse_adu_cong [of _ s]) simp_all
  then show ?thesis using assms(1) by (simp add: recv_request_def Let_def)
qed

text \<open>The fields of a request that the client makes.\<close>

lemma server_request_fields:
  "modbus_request_unit (server_request txn q) = async_request_unit q"
  "is_diagnostics (server_request txn q) \<longleftrightarrow> (\<exists>unit sf ws. q = Q_Diagnostics unit sf ws)"
  "server_request txn q \<noteq> MR_Unknown x y z"
  by (cases q; simp)+

lemma update_response_stats_same: "same_but_stats s (update_response_stats e resp s)"
  by (cases resp) (simp_all add: update_response_stats_def same_but_stats_iff)

lemma serve_dispatches:
  assumes "\<not> ses_listen_only_mode s" "\<not> is_diagnostics req" "\<nexists>x y z. req = MR_Unknown x y z" "\<not> is_broadcast (modbus_request_unit req)"
  shows "serve_request e req s = dispatch_and_send e req s"
  using assms
  by (cases req) (simp_all add: serve_request_def should_discard_in_listen_only_mode_def try_dispatch_fc08_auto_def try_reply_unknown_fc_def)

text \<open>The application after a response: it is told about an exception it returned.\<close>

definition app_notified :: "('t, 'a) session_env \<Rightarrow> ModbusRequest \<Rightarrow> ModbusResponse \<Rightarrow> 'a \<Rightarrow> 'a" where
  "app_notified e req resp ap =
     (case resp of
        MS_Exception fc code \<Rightarrow> ses_on_exception e ap (modbus_request_txn_id req) (modbus_request_unit req) fc code
      | _ \<Rightarrow> ap)"

lemma dispatch_and_send_eq:
  assumes "ses_handle e (ses_app s) req = (ap, resp)"
    and "modbus_response_encode (ses_bytes e) resp (modbus_request_txn_id req) (modbus_request_unit req) (SES_TYPE e) = Ok g"
  shows "\<exists>st. dispatch_and_send e req s =
    (s\<lparr>ses_transport := fst (ses_send e (ses_transport s) g), ses_app := app_notified e req resp ap, ses_stats := st\<rparr>,
     case snd (ses_send e (ses_transport s) g) of Inr _ \<Rightarrow> Ok () | Inl err \<Rightarrow> Err (server_error_from err))"
proof -
  define s1 where "s1 = update_response_stats e resp (note_stat e stat_server_message s\<lparr>ses_app := ap\<rparr>)"
  have s1: "s1 = s\<lparr>ses_app := ap, ses_stats := ses_stats s1\<rparr>"
    using update_response_stats_same [of "note_stat e stat_server_message s\<lparr>ses_app := ap\<rparr>" e resp] unfolding s1_def [symmetric]
    by (cases s, cases s1) (simp add: same_but_stats_iff)
  have "notify_exception e txn uid resp s1 = s1\<lparr>ses_app := app_notified e req resp (ses_app s1)\<rparr>"
    if "txn = modbus_request_txn_id req" "uid = modbus_request_unit req" for txn uid
    using that by (cases resp) (simp_all add: notify_exception_def app_notified_def)
  then have "dispatch_and_send e req s = send_response e (modbus_request_txn_id req) (modbus_request_unit req) resp
      (s1\<lparr>ses_app := app_notified e req resp (ses_app s1)\<rparr>)"
    using assms(1) by (simp add: dispatch_and_send_def Let_def s1_def)
  moreover have "ses_app s1 = ap" "s1\<lparr>ses_app := x\<rparr> = s\<lparr>ses_app := x, ses_stats := ses_stats s1\<rparr>" for x
    by (subst s1, simp)+
  moreover have "resp \<noteq> MS_NoResponse" using assms(2) by auto
  ultimately show ?thesis
    using assms(2)
    by (cases "ses_send e (ses_transport s) g") (auto simp: send_response_def transmit_def Let_def split: sum.splits intro!: exI [where x = "ses_stats s1"])
qed

text \<open>The requests for registers: function code, first address, number of registers, and the client's response.\<close>

fun register_read :: "AsyncRequest \<Rightarrow> (FunctionCode \<times> u16 \<times> u16 \<times> (Registers \<Rightarrow> AsyncResponse)) option" where
  "register_read (Q_ReadHoldingRegisters unit a n) = Some (ReadHoldingRegisters, a, n, R_HoldingRegisters)"
| "register_read (Q_ReadInputRegisters unit a n) = Some (ReadInputRegisters, a, n, R_InputRegisters)"
| "register_read (Q_ReadWriteMultipleRegisters unit a n wa vs) = Some (ReadWriteMultipleRegisters, a, n, R_HoldingRegisters)"
| "register_read _ = None"

lemma register_read_answered:
  assumes "build_ok b" "adu_addressable tt uid" "register_read q = Some (fc, a, n, R)" "length ws = unat n" "unat n \<le> 125"
  shows "read_answer b tt txn uid fc (words_bytes ws) q = Ok (R (filled_block a n ws))"
  using assms(3) registers_answered [OF assms(1,2,4,5)] by (cases q) auto

lemma response_registers_eq:
  assumes "heapless_ok hv" "length ws \<le> 125"
  shows "response_registers hv fc ws = MS_ByteCountPayload fc (words_bytes ws)"
proof -
  have "2 * (length us + length ws) \<le> 513 \<Longrightarrow>
      foldl (\<lambda>d v. extended hv d (u16_to_be_bytes v)) (words_bytes us) ws = words_bytes (us @ ws)" for us
  proof (induction ws arbitrary: us)
    case (Cons w ws)
    then have "extended hv (words_bytes us) (u16_to_be_bytes w) = words_bytes (us @ [w])"
      using assms(1) by (simp add: extended_def words_bytes_def u16_to_be_bytes_def)
    with Cons.IH [of "us @ [w]"] Cons.prems show ?case by simp
  qed simp
  from this [of "[]"] assms(2) show ?thesis by (simp add: response_registers_def words_bytes_def)
qed

lemma request_served:
  assumes "session_env_ok e" "heapless_ok hv" "async_request_ok q" "well_made q"
    and "1 \<le> uid_get (ses_unit s)" "uid_get (ses_unit s) \<le> 247" "async_request_unit q = ses_unit s"
    and "\<not> ses_listen_only_mode s" "\<nexists>unit sf ws. q = Q_Diagnostics unit sf ws"
    and "encode_request hv txn q (SES_TYPE e) = Ok f" "ses_recv e (ses_transport s) = (t, Inr f)"
    and "req = server_request (if is_tcp_type (SES_TYPE e) then txn else 0) q" "ses_handle e (ses_app s) req = (ap, resp)"
    and "modbus_response_encode (ses_bytes e) resp (modbus_request_txn_id req) (ses_unit s) (SES_TYPE e) = Ok g"
  shows "\<exists>st. session_round e s =
    (s\<lparr>ses_transport := fst (ses_send e t g), ses_app := app_notified e req resp ap, ses_stats := st\<rparr>,
     case snd (ses_send e t g) of Inr _ \<Rightarrow> Ok () | Inl err \<Rightarrow> Err (server_error_from err))"
proof -
  let ?s = "note_stat e stat_message (s\<lparr>ses_transport := t\<rparr>)"
  obtain p t' where "compile_adu_frame hv t' (uid_get (async_request_unit q)) p (SES_TYPE e) = Ok f"
    and "parsed_as e (if is_tcp_type (SES_TYPE e) then t' else 0) (async_request_unit q) req p"
    using encoded_parsed [OF assms(1-4,10)] assms(12) by blast
  then have "parse_adu e s f = Ok (Some req)"
    using parse_adu_framed [OF assms(1,2), of "ses_unit s"] assms(5-7) by (auto simp: heard_def parsed_as_def)
  then have "session_round e s = serve_request e req ?s"
    using recv_request_parsed [OF assms(11)] by (simp add: session_round_def)
  also have "\<dots> = dispatch_and_send e req ?s"
    by (rule serve_dispatches) (use assms(5-9,12) in \<open>auto simp: server_request_fields is_broadcast_def\<close>)
  finally show ?thesis
    using dispatch_and_send_eq [of e ?s req ap resp g] assms(7,12-14) by (auto simp: server_request_fields note_stat_def split: if_splits)
qed

text \<open>
  C21: A read of registers from the asynchronous client to the asynchronous server and back: the session hands the
  client's request to the application once, and when the application answers with the requested number of
  registers, it sends one frame, which the client decodes into the registers of the application at the address of the
  request. This holds for the reads of holding and input registers and for the read-write request, on every transport.
\<close>

theorem async_read_served:
  assumes "session_env_ok e" "build_ok b" "async_request_ok q" "register_read q = Some (fc, a, n, R)"
    and "1 \<le> uid_get (ses_unit s)" "uid_get (ses_unit s) \<le> 247" "async_request_unit q = ses_unit s" "\<not> ses_listen_only_mode s"
    and "encode_request (v_bytes b) txn q (SES_TYPE e) = Ok f" "ses_recv e (ses_transport s) = (t, Inr f)"
    and "ses_handle e (ses_app s) (server_request (if is_tcp_type (SES_TYPE e) then txn else 0) q) = (ap, response_registers (ses_bytes e) fc ws)"
    and "length ws = unat n" "unat n \<le> 125"
  shows "\<exists>g st. session_round e s =
      (s\<lparr>ses_transport := fst (ses_send e t g), ses_app := ap, ses_stats := st\<rparr>,
       case snd (ses_send e t g) of Inr _ \<Rightarrow> Ok () | Inl err \<Rightarrow> Err (server_error_from err)) \<and>
    bind_res (decode_response b g (SES_TYPE e)) (\<lambda>(_, _, r).
      case r of Inl err \<Rightarrow> Err err | Inr response \<Rightarrow> fix_up_response response q) = Ok (R (filled_block a n ws))"
proof -
  let ?txn = "if is_tcp_type (SES_TYPE e) then txn else 0"
  let ?req = "server_request ?txn q"
  have q: "well_made q" "\<nexists>unit sf ws. q = Q_Diagnostics unit sf ws" "modbus_request_txn_id ?req = ?txn"
    using assms(4) by (cases q; simp)+
  have resp: "response_registers (ses_bytes e) fc ws = MS_ByteCountPayload fc (words_bytes ws)"
    using response_registers_eq [OF session_env_ok_simps(1) [OF assms(1)]] assms(12,13) by simp
  have short: "length (words_bytes ws) \<le> 251" using assms(12,13) by simp
  note built = bc_codec.build_fits [where fc = fc and x = "words_bytes ws"]
  obtain p where p: "build_byte_count_payload (v_bytes b) fc (words_bytes ws) = Ok p" "build_byte_count_payload (ses_bytes e) fc (words_bytes ws) = Ok p"
    using built [OF build_ok_simps(1) [OF assms(2)] short] built [OF session_env_ok_simps(1) [OF assms(1)] short] by blast
  then have "pdu_wf p" using bc_codec.built_wf [OF build_ok_simps(1) [OF assms(2)]] by simp
  then obtain g where g: "compile_adu_frame (v_bytes b) ?txn (uid_get (ses_unit s)) p (SES_TYPE e) = Ok g"
      "compile_adu_frame (ses_bytes e) ?txn (uid_get (ses_unit s)) p (SES_TYPE e) = Ok g"
    using compile_adu_frame_ok [OF build_ok_simps(1) [OF assms(2)]] compile_adu_frame_ok [OF session_env_ok_simps(1) [OF assms(1)]] by metis
  have "modbus_response_encode (ses_bytes e) (response_registers (ses_bytes e) fc ws) (modbus_request_txn_id ?req) (ses_unit s) (SES_TYPE e) = Ok g"
    unfolding q(3) by (simp add: resp encode_byte_count_payload_def p g del: if_weak_cong)
  note served = request_served [OF assms(1) build_ok_simps(1) [OF assms(2)] assms(3) q(1) assms(5-8) q(2) assms(9,10) refl assms(11) this]
  have "adu_addressable (SES_TYPE e) (uid_get (ses_unit s))" using assms(6) by (simp add: adu_addressable_def)
  from register_read_answered [OF assms(2) this assms(4,12,13), of ?txn]
  have "bind_res (decode_response b g (SES_TYPE e)) (\<lambda>(_, _, r).
      case r of Inl err \<Rightarrow> Err err | Inr response \<Rightarrow> fix_up_response response q) = Ok (R (filled_block a n ws))"
    by (simp add: read_answer_def p g)
  with served show ?thesis by (auto simp: app_notified_def resp)
qed

section \<open>Modes of the session\<close>

text \<open>Every error of the parser is a framing error, which the loop counts and forgets.\<close>

lemma map_framing_Err_iff: "map_framing r = Err err \<longleftrightarrow> (\<exists>m. r = Err m \<and> err = ASE_FramingError m)"
  by (cases r) auto

lemma copy_data_Err: "copy_data hv xs = Err err \<Longrightarrow> \<exists>m. err = ASE_FramingError m"
  by (auto simp: copy_data_def extend_or_def ok_or_def split: option.splits)

lemma own_records_Err: "own_records e out bs = Err err \<Longrightarrow> \<exists>m. err = ASE_FramingError m"
  by (induction e out bs rule: own_records.induct) (auto simp: res_simps dest: copy_data_Err)

lemma parse_request_Err: "parse_request e txn uid p = Err err \<Longrightarrow> \<exists>m. err = ASE_FramingError m"
  by (cases "function_code p")
    (auto simp: parser_defs res_simps map_framing_Err_iff dest: copy_data_Err own_records_Err)

lemma parse_adu_Err: "parse_adu e s f = Err err \<Longrightarrow> \<exists>m. err = ASE_FramingError m"
  by (auto simp: parse_adu_def res_simps Let_def map_framing_Err_iff dest: parse_request_Err split: if_splits)

lemma parsed_request_fields:
  assumes "normal_code (function_code p)" "parse_request e txn uid p = Ok req"
  shows "modbus_request_unit req = uid" "\<nexists>x y z. req = MR_Unknown x y z"
  using assms by (cases "function_code p"; auto simp: parser_defs res_simps normal_code_def split: prod.splits)+

lemma parse_adu_request:
  assumes "session_env_ok e" "parse_adu e s f = Ok (Some req)"
  shows "modbus_request_unit req = ses_unit s \<or> is_broadcast (modbus_request_unit req)" "\<nexists>x y z. req = MR_Unknown x y z"
proof -
  obtain m where m: "decompile_adu_frame (ses_bytes e) f (SES_TYPE e) = Ok m" "is_addressed_to_us s (unit_id_or_slave_addr m)"
      "parse_request e (message_transaction_id m) (unit_id_or_slave_addr m) (pdu m) = Ok req"
    using assms(2) by (cases "decompile_adu_frame (ses_bytes e) f (SES_TYPE e)") (auto simp: parse_adu_def Let_def res_simps split: if_splits)
  have "normal_code (function_code (pdu m))" using decompile_wf [OF session_env_ok_simps(1) [OF assms(1)] m(1)] by simp
  from parsed_request_fields [OF this m(3)] m(2)
  show "modbus_request_unit req = ses_unit s \<or> is_broadcast (modbus_request_unit req)" "\<nexists>x y z. req = MR_Unknown x y z"
    by (simp_all add: is_addressed_to_us_def)
qed

lemma recv_request_dropped:
  assumes "ses_recv e (ses_transport s) = (t, Inr f)" "parse_adu e s f = Err err"
  shows "recv_request e s = (note_stat e stat_comm_error (note_stat e stat_message (s\<lparr>ses_transport := t\<rparr>)), Ok None)"
proof -
  have "parse_adu e (note_stat e stat_message (s\<lparr>ses_transport := t\<rparr>)) f = Err err"
    using assms(2) by (subst parse_adu_cong [of _ s]) simp_all
  then show ?thesis using assms(1) parse_adu_Err [OF assms(2)] by (auto simp: recv_request_def Let_def)
qed

text \<open>
  C33: In listen-only mode the session is silent: whatever frame comes, unless it holds a diagnostics request, the round ends without an
  error, nothing is sent, the application is not called, and of the state only the transport, by the reception, and the counters
  change. A frame that cannot be parsed is as silent. The exception is a frame on which the parser panics.
\<close>

theorem listen_only_silent:
  assumes "ses_listen_only_mode s" "ses_recv e (ses_transport s) = (t, Inr f)" "parse_adu e s f \<noteq> Panic"
    and "\<nexists>txn uid sub_fn d. parse_adu e s f = Ok (Some (MR_Diagnostics txn uid sub_fn d))"
  shows "\<exists>st. session_round e s = (s\<lparr>ses_transport := t, ses_stats := st\<rparr>, Ok ())"
proof (cases "parse_adu e s f")
  case (Ok r)
  note received = recv_request_parsed [OF assms(2) Ok]
  show ?thesis
  proof (cases r)
    case (Some req)
    then have "\<not> is_diagnostics req" using assms(4) Ok by (cases req) auto
    then show ?thesis
      using assms(1) Some
      by (auto simp: session_round_def received serve_request_def should_discard_in_listen_only_mode_def note_stat_eq)
  qed (auto simp: session_round_def received note_stat_eq)
next
  case (Err err)
  show ?thesis by (auto simp: session_round_def recv_request_dropped [OF assms(2) Err] note_stat_eq)
qed (use assms(3) in simp)

text \<open>
  C40: A function code that the server does not know gets no answer: the frame is dropped as a framing error, the session sends
  nothing and does not call the application, also not the handler for exceptions. The parser never makes an unknown request,
  so the branch of the loop that would answer with the exception for an illegal function is not reached.
\<close>

theorem unknown_function_dropped:
  assumes "session_env_ok e" "adu_addressable (SES_TYPE e) uid" "body \<noteq> []" "length body \<le> 253"
    and "function_code_try_from (clear_exception_bit (hd body)) = Err err"
    and "ses_recv e (ses_transport s) = (t, Inr (adu_frame (SES_TYPE e) txn uid body))"
  shows "(\<exists>st. session_round e s = (s\<lparr>ses_transport := t, ses_stats := st\<rparr>, Ok ())) \<and>
    (\<forall>f req. parse_adu e s f = Ok (Some req) \<longrightarrow> (\<nexists>x y z. req = MR_Unknown x y z))"
proof -
  have "\<exists>err'. pdu_from_bytes (ses_bytes e) body = Err err'"
    using assms(3,5) session_env_ok_simps(1) [OF assms(1)] by (cases body) (auto simp: pdu_from_bytes_eq)
  then obtain err' where "pdu_from_bytes (ses_bytes e) body = Err err'" by blast
  then have "parse_adu e s (adu_frame (SES_TYPE e) txn uid body) = Err (ASE_FramingError err')"
    using adu_framing.decode_frame [OF session_env_ok_simps(1) [OF assms(1)] assms(2-4), of txn] by (simp add: parse_adu_def)
  then have "\<exists>st. session_round e s = (s\<lparr>ses_transport := t, ses_stats := st\<rparr>, Ok ())"
    by (auto simp: session_round_def recv_request_dropped [OF assms(6)] note_stat_eq)
  then show ?thesis using parse_adu_request(2) [OF assms(1)] by blast
qed

section \<open>What the session sends\<close>

text \<open>The vectors work as documented and the responses of the application fit into their PDU.\<close>

definition served_ok :: "('t, 'a) session_env \<Rightarrow> bool" where
  "served_ok e \<longleftrightarrow> session_env_ok e \<and> (\<forall>a req. response_wf (snd (ses_handle e a req)))"













section \<open>Panics\<close>

lemma copy_data_no_panic [simp]: "copy_data hv xs \<noteq> Panic"
  by (simp add: copy_data_def extend_or_def ok_or_def split: option.split)

lemma own_records_no_panic: "own_records e out bs \<noteq> Panic"
  by (induction e out bs rule: own_records.induct) (simp_all add: panic_iffs)

lemma map_framing_Panic_iff [simp]: "map_framing r = Panic \<longleftrightarrow> r = Panic"
  by (cases r) simp_all

lemma parse_request_no_panic:
  assumes "session_env_ok e" "pdu_wf p"
  shows "parse_request e txn uid p \<noteq> Panic"
  using fixed_parsers_no_panic [OF assms(2)] variable_parsers_no_panic [OF assms(2)] file_parsers_no_panic [OF assms(2)]
    session_env_ok_simps [OF assms(1)]
  by (cases "function_code p") (simp_all add: parser_defs panic_iffs own_records_no_panic split: prod.split)

lemma parse_adu_Panic_iff:
  assumes "session_env_ok e"
  shows "parse_adu e s f = Panic \<longleftrightarrow> decompile_adu_frame (ses_bytes e) f (SES_TYPE e) = Panic"
proof (cases "decompile_adu_frame (ses_bytes e) f (SES_TYPE e)")
  case (Ok m)
  then have "pdu_wf (pdu m)" using decompile_wf [OF session_env_ok_simps(1) [OF assms]] by simp
  with Ok parse_request_no_panic [OF assms] show ?thesis by (simp add: parse_adu_def Let_def panic_iffs)
qed (simp_all add: parse_adu_def)

lemma response_builders_no_panic:
  assumes "heapless_ok hv"
  shows "build_byte_count_payload hv fc vs \<noteq> Panic" "build_byte_payload hv fc v \<noteq> Panic" "build_diagnostics hv sf r \<noteq> Panic"
    "build_fifo_payload hv vs \<noteq> Panic"
  using assms by (simp_all add: build_eqs build_byte_payload_def build_diagnostics_def)

lemma count_mei_no_panic [simp]: "count_mei_objects vs \<noteq> Panic"
proof -
  have "count_mei_loop vs offset n \<noteq> Panic" for offset n
  proof (induction vs offset n rule: count_mei_loop.induct)
    case (1 payload offset n)
    then show ?case by (subst count_mei_loop.simps) (auto simp: panic_iffs Let_def)
  qed
  then show ?thesis by (simp add: count_mei_objects_def)
qed

lemma modbus_response_encode_no_panic:
  assumes "heapless_ok hv" "response_wf resp"
  shows "modbus_response_encode hv resp txn uid tt \<noteq> Panic"
proof -
  have framed: "b \<noteq> Panic \<Longrightarrow> (\<And>p. b = Ok p \<Longrightarrow> pdu_wf p) \<Longrightarrow> bind_res b (\<lambda>p. compile_adu_frame hv txn (uid_get uid) p tt) \<noteq> Panic" for b
    using compile_adu_frame_ok [OF assms(1)] by (cases b) auto
  note built = builders_no_panic [OF assms(1)] response_builders_no_panic [OF assms(1)] build_wf [OF assms(1)]
  show ?thesis
  proof (cases resp)
    case (MS_ExceptionRaw fc code)
    then show ?thesis by (simp add: raw_exception_framed [OF assms(1)] del: encode_exception_raw.simps)
  next
    case (MS_FileRecordWriteEcho d)
    then show ?thesis using assms compile_adu_frame_ok [OF assms(1)] by (simp add: encode_file_record_write_echo_def pdu_wf_new)
  next
    case (MS_Exception fc code)
    then show ?thesis
      using MS_Exception by (cases "exception_response fc") (simp_all add: encode_exception_def framed built)
  next
    case (MS_ReadDeviceId code conf follows next_id objs)
    show ?thesis
    proof (cases "count_mei_objects objs")
      case (Ok n)
      then show ?thesis
        using MS_ReadDeviceId by (cases "length objs \<le> 507") (simp_all add: encode_read_device_id_def Let_def assms(1) framed built)
    qed (simp_all add: MS_ReadDeviceId encode_read_device_id_def)
  qed (use assms in \<open>simp_all add: encode_byte_count_payload_def encode_echo_coil_def encode_echo_register_def
      encode_echo_mask_write_def encode_echo_multi_write_def encode_single_byte_def encode_diagnostics_echo_def
      encode_two_u16_def encode_fifo_data_def encode_exception_def framed built\<close>)
qed

lemma bind_step_no_panic:
  assumes "snd r \<noteq> Panic" "\<And>s x. r = (s, Ok x) \<Longrightarrow> snd (f s x) \<noteq> Panic"
  shows "snd (bind_step r f) \<noteq> Panic"
  using assms by (cases "(r, f)" rule: bind_step.cases) auto

lemma respond_no_panic:
  assumes "session_env_ok e" "response_wf resp"
  shows "snd (respond_frame e txn uid resp s) \<noteq> Panic" "snd (send_response e txn uid resp s) \<noteq> Panic"
  using modbus_response_encode_no_panic [OF session_env_ok_simps(1) [OF assms(1)] assms(2), of txn uid "SES_TYPE e"]
  by (simp_all add: respond_frame_def send_response_def transmit_def Let_def split: res.split prod.split sum.split)

lemma diagnostics_no_panic:
  assumes "session_env_ok e"
  shows "snd (handle_fc08_auto e txn unit sub_fn d s) \<noteq> Panic"
proof -
  have echo: "snd (respond_frame e txn unit (diagnostics_echo sf x) s) \<noteq> Panic" for sf x s
    by (rule respond_no_panic(1) [OF assms]) (simp add: diagnostics_echo_def)
  have ignoring: "snd (respond_ignoring e txn unit (diagnostics_echo sf x) s) \<noteq> Panic" for sf x s
    using echo [of sf x s] by (auto simp: respond_ignoring_def split: prod.splits res.splits)
  show ?thesis
    by (simp add: handle_fc08_auto_def handle_stats_sub_fn_def fc08_echo_query_def fc08_restart_comms_def fc08_force_listen_only_def
        fc08_clear_all_counters_def fc08_clear_overrun_def bind_step_no_panic echo ignoring split: option.split)
qed

lemma serve_request_no_panic:
  assumes "served_ok e" "\<nexists>x y z. req = MR_Unknown x y z"
  shows "snd (serve_request e req s) \<noteq> Panic"
proof -
  have env: "session_env_ok e" using assms(1) by (simp add: served_ok_def)
  have auto_ok: "snd (try_dispatch_fc08_auto e req s) \<noteq> Panic" for s
    using diagnostics_no_panic [OF env] by (cases req) (simp_all add: try_dispatch_fc08_auto_def)
  have dispatched: "snd (dispatch_and_send e req s) \<noteq> Panic" for s
  proof -
    obtain ap resp where h: "ses_handle e (ses_app s) req = (ap, resp)" by (cases "ses_handle e (ses_app s) req")
    then have "response_wf resp" using assms(1) by (metis served_ok_def snd_conv)
    with h show ?thesis by (simp add: dispatch_and_send_def Let_def respond_no_panic(2) [OF env])
  qed
  have known: "try_reply_unknown_fc e req s = (s, Ok False)" for s
    using assms(2) by (cases req) (simp_all add: try_reply_unknown_fc_def)
  show ?thesis
    by (simp add: serve_request_def should_discard_in_listen_only_mode_def known)
      (intro conjI impI bind_step_no_panic [OF auto_ok], auto simp: known dispatched)
qed

text \<open>
  C31: A round of the session panics exactly when the transport is TCP and the frame received has eight bytes or more, the protocol
  identifier 0 and the length field 0. Whatever else the line brings, the round ends in a result, for every application whose
  responses fit into a PDU.
\<close>

theorem session_panics_iff:
  assumes "served_ok e"
  shows "snd (session_round e s) = Panic \<longleftrightarrow>
    (\<exists>t f. ses_recv e (ses_transport s) = (t, Inr f) \<and> is_tcp_type (SES_TYPE e) \<and> 8 \<le> length f \<and>
       u16_from_be_bytes (f ! 2) (f ! 3) = 0 \<and> u16_from_be_bytes (f ! 4) (f ! 5) = 0)"
proof -
  have env: "session_env_ok e" using assms by (simp add: served_ok_def)
  have parse: "parse_adu e s f = Panic \<longleftrightarrow> is_tcp_type (SES_TYPE e) \<and> 8 \<le> length f \<and>
      u16_from_be_bytes (f ! 2) (f ! 3) = 0 \<and> u16_from_be_bytes (f ! 4) (f ! 5) = 0" for f
    by (auto simp: parse_adu_Panic_iff [OF env] decompile_Panic_iff [OF session_env_ok_simps(1) [OF env]] u16_from_be_zero_iff)
  obtain t r where r: "ses_recv e (ses_transport s) = (t, r)" by fastforce
  show ?thesis
  proof (cases r)
    case (Inl err)
    then show ?thesis using r by (simp add: session_round_def recv_request_def)
  next
    case (Inr f)
    note recv = r [unfolded Inr]
    show ?thesis
    proof (cases "parse_adu e s f")
      case (Ok p)
      then have "snd (session_round e s) \<noteq> Panic"
        using parse_adu_request(2) [OF env, of s f] serve_request_no_panic [OF assms]
        by (cases p) (auto simp: session_round_def recv_request_parsed [OF recv Ok])
      moreover have "parse_adu e s f \<noteq> Panic" using Ok by simp
      ultimately show ?thesis using recv parse by auto
    next
      case (Err err)
      have "parse_adu e s f \<noteq> Panic" using Err by simp
      then show ?thesis using recv parse by (auto simp: session_round_def recv_request_dropped [OF recv Err])
    next
      case Panic
      have "parse_adu e (note_stat e stat_message (s\<lparr>ses_transport := t\<rparr>)) f = Panic"
        using Panic by (subst parse_adu_cong [of _ s]) simp_all
      then have "snd (session_round e s) = Panic" using recv by (simp add: session_round_def recv_request_def Let_def)
      with recv parse Panic show ?thesis by auto
    qed
  qed
qed

section \<open>Broadcasts\<close>

text \<open>
  C32: A broadcast on a serial line is never answered, unless it is a diagnostics request: it reaches the
  application when it is one of the four plain writes and broadcasts are enabled, and its response is thrown away; every other
  broadcast only counts. The exception for an unknown function is not sent to a broadcast either.
\<close>

theorem broadcast_not_answered:
  assumes "is_serial_type (SES_TYPE e)" "is_broadcast (modbus_request_unit req)" "\<not> is_diagnostics req" "\<not> ses_listen_only_mode s"
  shows "\<exists>st. serve_request e req s =
    (s\<lparr>ses_app := if ses_enable_broadcast_writes s \<and> function_code_byte req \<in> {0x05, 0x06, 0x0F, 0x10} then fst (ses_handle e (ses_app s) req) else ses_app s,
       ses_stats := st\<rparr>, Ok ())"
proof -
  have "try_dispatch_fc08_auto e req s = (s, Ok False)" using assms(3) by (cases req) (simp_all add: try_dispatch_fc08_auto_def)
  moreover have "handle_serial_broadcast e req s = s\<lparr>ses_app := ses_app (handle_serial_broadcast e req s), ses_stats := ses_stats (handle_serial_broadcast e req s)\<rparr>"
    by (simp add: handle_serial_broadcast_def Let_def note_stat_eq)
  moreover have "ses_app (handle_serial_broadcast e req s) = (if ses_enable_broadcast_writes s \<and> function_code_byte req \<in> {0x05, 0x06, 0x0F, 0x10}
      then fst (ses_handle e (ses_app s) req) else ses_app s)"
    by (auto simp: handle_serial_broadcast_def is_broadcast_write_fc_def Let_def)
  ultimately show ?thesis
    using assms by (auto simp: serve_request_def should_discard_in_listen_only_mode_def)
qed

text \<open>
  The session answers the diagnostics function "return query data" always: also when the request
  is a broadcast on a serial line, where every server of the line answers at once, and in listen-only mode.
\<close>

theorem echo_always_answered:
  assumes "session_env_ok e"
    and "ses_send e (ses_transport s) (adu_frame (SES_TYPE e) txn (uid_get unit) (8 # u16_to_be_bytes 0 @ u16_to_be_bytes d)) = (t, Inr ())"
  shows "serve_request e (MR_Diagnostics txn unit 0 d) s = (s\<lparr>ses_transport := t\<rparr>, Ok ())"
proof -
  have "modbus_response_encode (ses_bytes e) (diagnostics_echo 0 d) txn unit (SES_TYPE e) =
      Ok (adu_frame (SES_TYPE e) txn (uid_get unit) (8 # u16_to_be_bytes 0 @ u16_to_be_bytes d))"
    using session_env_ok_simps(1) [OF assms(1)]
    by (simp add: diagnostics_echo_def encode_diagnostics_echo_def build_diagnostics_def compile_adu_frame_ok pdu_wf_new pdu_body_def u16_to_be_bytes_def)
  then show ?thesis
    using assms(2)
    by (simp add: serve_request_def should_discard_in_listen_only_mode_def try_dispatch_fc08_auto_def handle_fc08_auto_def fc08_echo_query_def
        respond_frame_def transmit_def diagnostics_echo_def)
qed

section \<open>Concrete sessions\<close>

text \<open>
  A transport of frames that wait and frames that were sent, and an application with a bank of registers that it lets read
  and write, and a session with both.
\<close>

fun bank_handle :: "u16 list \<Rightarrow> ModbusRequest \<Rightarrow> u16 list \<times> ModbusResponse" where
  "bank_handle bank (MR_ReadHoldingRegisters txn uid a n) =
     (bank, response_registers bounded_vec ReadHoldingRegisters (take (unat n) (drop (unat a) bank)))"
| "bank_handle bank (MR_WriteSingleRegister txn uid a v) = (bank[unat a := v], response_echo_register a v)"
| "bank_handle bank req = (bank, response_exception ReadCoils IllegalFunction)"

definition wire_env :: "TransportType \<Rightarrow> (bytes list \<times> bytes list, u16 list) session_env" where
  "wire_env tt = \<lparr>
     ses_recv = (\<lambda>(waiting, sent). case waiting of [] \<Rightarrow> (([], sent), Inl ConnectionClosed) | f # fs \<Rightarrow> ((fs, sent), Inr f)),
     ses_send = (\<lambda>(waiting, sent) f. ((waiting, sent @ [f]), Inr ())),
     SES_TYPE = tt, ses_handle = bank_handle, ses_on_exception = (\<lambda>bank _ _ _ _. bank), ses_stats_on = False,
     ses_bytes = bounded_vec, ses_reads = bounded_vec, ses_writes = bounded_vec, ses_records = bounded_vec\<rparr>"

definition bank_session :: "bytes list \<Rightarrow> (bytes list \<times> bytes list, u16 list) session" where
  "bank_session fs = async_session_create (fs, []) (UnitIdOrSlaveAddr 17) [9, 7, 5]"

lemma wire_env_simps [simp]:
  "ses_recv (wire_env tt) ([], sent) = (([], sent), Inl ConnectionClosed)"
  "ses_recv (wire_env tt) (f # fs, sent) = ((fs, sent), Inr f)"
  "ses_send (wire_env tt) (waiting, sent) f = ((waiting, sent @ [f]), Inr ())"
  "SES_TYPE (wire_env tt) = tt" "ses_handle (wire_env tt) = bank_handle" "ses_bytes (wire_env tt) = bounded_vec"
  by (simp_all add: wire_env_def)

lemma bank_session_simps [simp]:
  "ses_transport (bank_session fs) = (fs, [])" "ses_unit (bank_session fs) = UnitIdOrSlaveAddr 17"
  "ses_app (bank_session fs) = [9, 7, 5]" "\<not> ses_listen_only_mode (bank_session fs)"
  by (simp_all add: bank_session_def async_session_create_def)

lemma wire_env_ok: "session_env_ok (wire_env tt)"
  by (simp add: session_env_ok_def wire_env_def)

lemma wire_served_ok: "served_ok (wire_env tt)"
proof -
  have "response_wf (snd (bank_handle bank req))" for bank req
    by (cases "(bank, req)" rule: bank_handle.cases) (simp_all add: response_registers_def response_echo_register_def response_exception_def)
  then show ?thesis by (simp add: served_ok_def wire_env_ok)
qed

definition read_two :: bytes where
  "read_two = tcp_frame 7 17 [3, 0, 1, 0, 2]"

lemma read_two_encoded:
  "encode_request bounded_vec 7 (Q_ReadHoldingRegisters (UnitIdOrSlaveAddr 17) 1 2) StdTcp = Ok read_two"
  by (simp add: encode_read_holding_registers_def build_read_window_def compile_adu_frame_ok pdu_wf_new pdu_body_def u16_to_be_bytes_def
      read_two_def word_le_nat_alt)

lemma read_two_parsed:
  assumes "ses_unit s = UnitIdOrSlaveAddr 17"
  shows "parse_adu (wire_env StdTcp) s read_two = Ok (Some (MR_ReadHoldingRegisters 7 (UnitIdOrSlaveAddr 17) 1 2))"
proof -
  let ?p = "pdu_new ReadHoldingRegisters [0, 1, 0, 2] 4"
  have p: "pdu_wf ?p" "compile_adu_frame bounded_vec 7 17 ?p StdTcp = Ok read_two"
    using pdu_wf_new [of "[0, 1, 0, 2]" 4] by (simp_all add: compile_adu_frame_ok pdu_body_def read_two_def)
  have "read_window ?p = Ok \<lparr>rw_address = 1, rw_quantity = 2\<rparr>"
    by (simp add: read_window_def read_address_quantity_pair_def u16_from_be_bytes_def)
  then show ?thesis
    using parse_adu_framed [OF wire_env_ok bounded_vec_ok, of "UnitIdOrSlaveAddr 17" ?p 7 StdTcp read_two s] p assms
    by (simp add: heard_def parser_defs normal_code_def)
qed


theorem async_read_served_witness:
  "\<exists>g st. session_round (wire_env StdTcp) (bank_session [read_two]) = ((bank_session [read_two])\<lparr>ses_transport := ([], [g]), ses_stats := st\<rparr>, Ok ()) \<and>
    bind_res (decode_response \<lparr>overflow_checks = True, v_bytes = bounded_vec, v_words = bounded_vec, v_params = bounded_vec\<rparr> g StdTcp)
      (\<lambda>(_, _, r). case r of Inl err \<Rightarrow> Err err | Inr response \<Rightarrow> fix_up_response response (Q_ReadHoldingRegisters (UnitIdOrSlaveAddr 17) 1 2)) =
    Ok (R_HoldingRegisters (filled_block 1 2 [7, 5]))"
proof -
  let ?b = "\<lparr>overflow_checks = True, v_bytes = bounded_vec, v_words = bounded_vec, v_params = bounded_vec\<rparr>"
  have "(bank_session [read_two])\<lparr>ses_transport := x, ses_app := [9, 7, 5], ses_stats := st\<rparr> =
      (bank_session [read_two])\<lparr>ses_transport := x, ses_stats := st\<rparr>" for x st
    by (simp add: bank_session_def async_session_create_def)
  with async_read_served [OF wire_env_ok, of ?b "Q_ReadHoldingRegisters (UnitIdOrSlaveAddr 17) 1 2" ReadHoldingRegisters 1 2 R_HoldingRegisters
      "bank_session [read_two]" 7 StdTcp read_two "([], [])" "[9, 7, 5]" "[7, 5]"]
  show ?thesis
    using read_two_encoded by (simp add: build_ok_def del: encode_request.simps)
qed

theorem listen_only_silent_witness:
  "\<exists>st. session_round (wire_env StdTcp) (set_listen_only_mode True (bank_session [read_two])) =
    ((set_listen_only_mode True (bank_session []))\<lparr>ses_stats := st\<rparr>, Ok ())"
proof -
  have "parse_adu (wire_env StdTcp) (set_listen_only_mode True (bank_session [read_two])) read_two =
      Ok (Some (MR_ReadHoldingRegisters 7 (UnitIdOrSlaveAddr 17) 1 2))"
    by (rule read_two_parsed) (simp add: set_listen_only_mode_def)
  then show ?thesis
    using listen_only_silent [of "set_listen_only_mode True (bank_session [read_two])" "wire_env StdTcp" "([], [])" read_two]
    by (auto simp: set_listen_only_mode_def bank_session_def async_session_create_def)
qed

theorem unknown_function_dropped_witness:
  "\<exists>st. session_round (wire_env StdTcp) (bank_session [tcp_frame 7 17 [0x55, 1]]) = ((bank_session [])\<lparr>ses_stats := st\<rparr>, Ok ())"
proof -
  have "function_code_try_from (clear_exception_bit 0x55) = Err (UnsupportedFunction 0x55)"
    by (simp add: function_code_try_from_def clear_exception_bit_def)
  with unknown_function_dropped [OF wire_env_ok, of StdTcp 17 "[0x55, 1]" "UnsupportedFunction 0x55" "bank_session [tcp_frame 7 17 [0x55, 1]]" "([], [])" 7]
  show ?thesis by (simp add: bank_session_def async_session_create_def adu_addressable_def)
qed




theorem session_panics_iff_witness:
  "snd (session_round (wire_env StdTcp) (bank_session [[0, 1, 0, 0, 0, 0, 17, 3]])) = Panic"
  using session_panics_iff [OF wire_served_ok, of StdTcp "bank_session [[0, 1, 0, 0, 0, 0, 17, 3]]"] by simp

theorem broadcast_not_answered_witness:
  "\<exists>st. serve_request (wire_env (StdSerial Rtu)) (MR_WriteSingleRegister 0 (UnitIdOrSlaveAddr 0) 1 4) (set_broadcast_writes True (bank_session [])) =
    ((set_broadcast_writes True (bank_session []))\<lparr>ses_app := [9, 4, 5], ses_stats := st\<rparr>, Ok ())"
  using broadcast_not_answered [of "wire_env (StdSerial Rtu)" "MR_WriteSingleRegister 0 (UnitIdOrSlaveAddr 0) 1 4" "set_broadcast_writes True (bank_session [])"]
  by (simp add: is_broadcast_def set_broadcast_writes_def bank_session_def async_session_create_def)

theorem echo_always_answered_witness:
  "serve_request (wire_env (StdSerial Rtu)) (MR_Diagnostics 0 (UnitIdOrSlaveAddr 0) 0 0x37) (bank_session []) =
    ((bank_session [])\<lparr>ses_transport := ([], [rtu_frame 0 [8, 0, 0, 0, 0x37]])\<rparr>, Ok ())"
  using echo_always_answered [OF wire_env_ok, of "StdSerial Rtu" "bank_session []" 0 "UnitIdOrSlaveAddr 0" "0x37"]
  by (simp add: u16_to_be_bytes_def)

end
