(* ===== verification/Spec2Isabelle.thy ===== *)
theory Spec2Isabelle
  imports Client Client_Usage Server File_Requests Data_Models Device_Id Gateway_Translation Async_Gateway
    Async_Answers Async_Api Async_Server
begin

text \<open>
  Verification of \<open>modbus-rs\<close>, a Modbus stack in Rust. The paths below are relative to src/.

  \<^bold>\<open>The program.\<close> A Modbus client sends requests to servers over TCP or a serial line (RTU or ASCII
  frames) and a server answers each with a response or an exception response. \<open>mbus-core\<close> holds what
  both sides share: error values, function codes, transport settings with the retry schedule, checksums,
  protocol data units (PDU) and their frames (ADU). \<open>mbus-client\<close> keeps a queue of the requests it waits
  for; its \<open>poll\<close> receives, matches responses with requests, and handles timeouts, retries and the loss of
  the connection. \<open>mbus-server\<close> receives, queues requests by priority, calls the application, and sends,
  delays or retries responses. \<open>mbus-gateway\<close> takes requests from clients on several upstream transports,
  forwards each over a downstream channel chosen by the unit identifier, with a transaction identifier of
  its own, and returns the response. In these the application calls \<open>poll\<close> in a loop. The asynchronous
  gateway runs a session per upstream connection. The asynchronous client of \<open>mbus-async\<close> hands its requests
  to a task that owns the connection and keeps several requests in flight, and the asynchronous server runs a session per
  connection, which hands each request to the application and sends its response.

  \<^bold>\<open>Conventions\<close> (theory \<open>Prelude\<close>). Integers are words of their width; \<open>usize\<close> is \<open>nat\<close>. A fallible
  function returns a \<open>res\<close> with the cases \<open>Ok\<close>, \<open>Err\<close> and \<open>Panic\<close>, so that an index out of range or a failed
  overflow check is visible. Code outside of the repository is a parameter: the containers of
  \<open>heapless\<close> (records \<open>heapless\<close> and \<open>deque\<close>, with their documented behaviour as \<open>heapless_ok\<close> and
  \<open>deque_ok\<close>), the transport, the clock and the application (records as \<open>client_env\<close>, \<open>server_env\<close> and \<open>session_env\<close>). A
  \<open>while\<close> loop without an evident bound is a \<open>partial_function (option)\<close>: the value \<open>None\<close> stands for a loop
  that does not end, and the theorems show that it does not occur. No definition uses fuel; the retry
  loop of the server is a \<open>for\<close> loop over the queue length in the code too.

  \<^bold>\<open>Theories.\<close>
  \<^item> \<open>Errors\<close>, \<open>Function_Codes\<close>, \<open>Transport\<close> (mbus-core/src/errors, function_codes, transport):
    enumerations with their wire values (locale \<open>wire_enum\<close>), unit identifiers, configuration, and
    backoff and jitter with their bounds.
  \<^item> \<open>Checksum\<close> (transport/checksum.rs): the table-driven CRC-16 equals the bitwise definition, and it
    detects the corruption of one or two neighbouring bytes; LRC.
  \<^item> \<open>Data_Unit\<close>, \<open>Pdu\<close>, \<open>Adu\<close>, \<open>Framing\<close> (data_unit/common.rs): PDU builders and parsers (locale
    \<open>pdu_codec\<close>), frames of the three encodings (locale \<open>framing\<close>), the length of the next frame in a stream.
    Every request and every response survives the wire; decoding panics on one shape of TCP header only.
  \<^item> \<open>File_Record\<close>, \<open>File_Requests\<close>, \<open>Data_Models\<close>, \<open>Device_Id\<close> (models/): file record requests, coil,
    input and register blocks (locale \<open>addressed_block\<close>), FIFO queues, device identification objects.
  \<^item> \<open>Receive_Loop\<close>: the locale \<open>receive_loop\<close>, which states what the receive loops of client and server need
    of their steps and shows that they end; it is interpreted on both.
  \<^item> \<open>Client_Core\<close>, \<open>Client_Receive\<close>, \<open>Client_Timeouts\<close>, \<open>Client\<close> (mbus-client/src/services/mod.rs): the state
    machine of the client. Every operation is a step that keeps the invariant and resolves a request by exactly
    one call of the application (locale \<open>client_op\<close>); runs of the client are an inductive relation.
  \<^item> \<open>Client_Requests\<close>, \<open>Client_Responses\<close>, \<open>Client_Services\<close> (mbus-client/src/services/coil, register, ...):
    the request of every function, the parsers and handlers of the responses, and the 24 request methods. The
    facades \<open>coils()\<close>, \<open>registers()\<close>, ... forward their calls and are one definition, \<open>perform\<close>.
  \<^item> \<open>Client_Callbacks\<close>, \<open>Client_Methods\<close>, \<open>Client_Usage\<close>: every handler calls the application once, with one
    exception; every method meets one specification (\<open>submit_spec\<close>); lives of a client used through its
    methods (\<open>service_run\<close>) and the callback contract of app_trait.rs.
  \<^item> \<open>Server_Queues\<close> (mbus-server/src/services/resilience.rs): settings, the request queue (locale
    \<open>priority_queue\<close>), its expiry, the response queue.
  \<^item> \<open>Server_Framing\<close>, \<open>Server_Core\<close>, \<open>Server_Handlers\<close>, \<open>Server_Diagnostics\<close>, \<open>Server_Loop\<close>
    (mbus-server/src/services): framing.rs, the state and the send path, the handlers of all function codes,
    and the pipeline from the receive buffer to the response queue.
  \<^item> \<open>Server_Answers\<close>, \<open>Server_Requests\<close>: the contract of a handler (locale \<open>answering_handler\<close>), interpreted on
    each handler: exactly one response, with the code and the transaction of the request.
  \<^item> \<open>Server_Dispatch\<close>, \<open>Server_Receive\<close>, \<open>Server_Poll\<close>, \<open>Server\<close>: the invariant of the server (every queued
    request is a complete frame that decodes to a request for this server), the loops, and the properties.
  \<^item> \<open>Gateway_Routing\<close>, \<open>Gateway_Queues\<close> (mbus-gateway/src/common, gateway_sync/pending_queue.rs): routing
    tables (locale \<open>routing_table\<close>), unit rewriting, transaction tables (locale \<open>txn_table\<close>) and the queue of
    waiting requests (locale \<open>fifo_queue\<close>), each interpreted on the fixed and the growing containers.
  \<^item> \<open>Gateway_Core\<close>, \<open>Gateway_Poll\<close> (gateway_sync/services.rs): the state of the gateway, forwarding,
    queueing, and one cycle. \<open>Gateway_Steps\<close> states the invariant and the account of the requests;
    \<open>Gateway_Forward\<close>, \<open>Gateway_Downstream\<close>, \<open>Gateway_Upstream\<close> show that each operation keeps both;
    \<open>Gateway\<close> has the runs of a gateway and their properties, \<open>Gateway_Exchange\<close> the translation of a
    request and its response.
  \<^item> \<open>Gateway_Translation\<close> (gateway_async/downstream.rs, gateway_sync/upstream.rs): the transports of the gateways,
    which translate between TCP frames and the frames of a serial line.
  \<^item> \<open>Async_Gateway\<close> (gateway_async/gateway.rs, serial_gateway.rs, ws_gateway.rs): one round of a session, and
    concurrent sessions as interleavings of rounds (\<open>async_step\<close>) with the account of what each session returns.
  \<^item> \<open>Async_Requests\<close>, \<open>Async_Responses\<close>, \<open>Async_Decoding\<close> (mbus-async/src/client/command.rs, encode.rs, response.rs,
    decode.rs): requests and responses of the asynchronous client, compared with the frames of the synchronous client
    and of the server, and the exact cases in which decoding panics.
  \<^item> \<open>Async_Task\<close> (task.rs): the state of the task, its operations and its rounds as a step relation.
    \<open>Async_Client\<close> shows the invariant of every run: each request is answered exactly once, and the rounds end;
    the measure counts the attempts that are left. \<open>Async_Answers\<close> says what a response, an undecodable response and a lost
    connection do, with concrete runs.
  \<^item> \<open>Async_Api\<close> (client_core.rs): the handle of the client and its request methods.
  \<^item> \<open>Async_Server_Types\<close>, \<open>Async_Session\<close> (mbus-async/src/server/app_handler.rs, session.rs, statistics.rs): requests and
    responses of the asynchronous server, the frames of the responses, and the session: one round (\<open>session_round\<close>)
    and the loop (\<open>session_run\<close>, \<open>None\<close> for a session that does not end). \<open>Async_Server\<close> shows that
    the requests of the asynchronous client arrive as they were made and the answers to reads of registers come back, what the session sends and when it
    panics, and the listen-only and broadcast modes.

  \<^bold>\<open>Interaction.\<close> The client's requests and the server's responses pass through the same
  \<open>compile_adu_frame\<close> and \<open>decompile_adu_frame\<close>; the contracts \<open>pdu_codec\<close> and \<open>framing\<close> carry a PDU from
  one side to the other (\<open>over_wire\<close>), and \<open>answer_decodes\<close> shows that what the server hands to its send path
  is what the client's \<open>dispatch_response\<close> can match. The gateway uses the same two functions on both of its sides;
  \<open>exchange_translated\<close> shows that the client gets the PDU of the server under its own identifiers.

  \<^bold>\<open>Hypotheses.\<close> \<open>env_ok\<close>, \<open>server_env_ok\<close> and \<open>gateway_env_ok\<close>: the containers behave as documented; the server's application does not claim to have written more identification bytes than the
  buffer holds (the code does not check it and panics). Nothing is assumed of the bytes on the wire, of
  the clock, or of the success of a send. The pending requests of the asynchronous client are in a hash map with the
  documented behaviour of insertion and removal (\<open>hash_ok\<close>) and an arbitrary order of iteration. The runs of the gateway ask that the rewriting policy does not
  panic (\<open>policy_ok\<close>) and, with overflow checks, that the clock plus the timeout fits into 64 bits
  (\<open>time_ok\<close>). The theorems about the bare state machine of the client ask that its
  requests are safe (\<open>safe_request\<close>: the handler does not panic on them), which the request methods establish
  for all requests but the read of a single bit or input register at address 65535.

  \<^bold>\<open>Not modelled.\<close> The optional features \<open>traffic\<close>, \<open>logging\<close> and, but for the asynchronous server, \<open>diagnostics-stats\<close>
  (callbacks and counters that do not feed back into the behaviour); Display and defmt formatting; accessors. Of
  mbus-async the constructors of the clients and the TCP and serial servers are left out, which open connections and spawn tasks. The socket and serial port drivers (mbus-network,
  mbus-serial) are input and output of the operating system; mbus-ffi wraps the other crates for foreign
  languages; mbus-macros, mbus-codegen and xtask generate code at build time.
\<close>

section \<open>A client and a server\<close>

text \<open>An answer of the server is a frame that the client's receive loop accepts.\<close>

lemma answer_body:
  assumes "answer es txn uid fc f" "heapless_ok hv" "normal_code fc"
  shows "\<exists>body p. f = adu_frame (SRV_TRANSPORT_TYPE es) txn (uid_get uid) body \<and> body \<noteq> [] \<and>
    length body \<le> 253 \<and> pdu_from_bytes hv body = Ok p \<and> function_code p = fc"
  using assms(1) unfolding answer_def
proof (elim disjE exE conjE)
  fix p
  assume p: "pdu_wf p" "function_code p = fc" "error_code p = None"
    "f = adu_frame (SRV_TRANSPORT_TYPE es) txn (uid_get uid) (pdu_body p)"
  then have "pdu_from_bytes hv (pdu_body p) = Ok p"
    using pdu_wire_normal [OF assms(2) p(1)] assms by (simp add: pdu_to_bytes_body)
  then show ?thesis
    using p by (intro exI [of _ "pdu_body p"] exI [of _ p]) (simp_all add: pdu_wf_def pdu_body_def)
next
  fix x ec
  assume x: "exception_response fc = Some x"
    "f = adu_frame (SRV_TRANSPORT_TYPE es) txn (uid_get uid) [function_code_u8 x, exception_code_u8 ec]"
  then show ?thesis
    using exception_code_byte [OF x(1)] assms(2)
    by (intro exI [of _ "[function_code_u8 x, exception_code_u8 ec]"]) (simp add: pdu_from_bytes_eq)
qed

text \<open>
  C6: A request and its response, end to end. When a request reaches a server that is to answer it, the server
  hands exactly one frame to its send path; when the client finds that frame in its receive buffer, it removes
  exactly the request the frame answers from its queue and makes exactly one call to the application, for
  this request. This holds for normal and for exception responses, on TCP and ASCII lines.
\<close>

theorem request_response_end_to_end:
  assumes "server_env_ok es" "env_ok ec" "SRV_TRANSPORT_TYPE es = TRANSPORT_TYPE ec"
    and "TRANSPORT_TYPE ec \<notin> {StdSerial Rtu, CustomSerial Rtu}"
    and "pdu_wf (pdu m)" "normal_code (function_code (pdu m))" "length (comm_event_log s) \<le> 64"
    and "expects_answer es s m"
    and "r \<in> set (expected_responses c)" "distinct (map (route (TRANSPORT_TYPE ec)) (expected_responses c))"
    and "er_unit r = uid_get (unit_id_or_slave_addr m)" "1 \<le> er_unit r" "er_unit r \<le> 247"
    and "is_tcp_type (TRANSPORT_TYPE ec) \<longrightarrow> er_txn_id r = message_transaction_id m" "queue_safe ec c"
  shows "\<exists>s' f c' call. dispatch_request_for_frame es s m = Ok s' \<and>
    responses s' = responses s @ [(message_transaction_id m, unit_id_or_slave_addr m, f)] \<and>
    process_rxed_frame ec (c\<lparr>rxed_frame := f\<rparr>) = Some (Ok c') \<and> rxed_frame c' = [] \<and>
    mset (expected_responses c) = add_mset r (mset (expected_responses c')) \<and>
    app_calls c' = app_calls c @ [call] \<and> call_txn call = er_txn_id r"
proof -
  let ?tt = "TRANSPORT_TYPE ec"
  obtain s' f where s': "dispatch_request_for_frame es s m = Ok s'"
      "responses s' = responses s @ [(message_transaction_id m, unit_id_or_slave_addr m, f)]"
      "answer es (message_transaction_id m) (unit_id_or_slave_addr m) (function_code (pdu m)) f"
    using dispatch_answered [OF assms(1,5,6,7,8)] by (auto simp: answered_def)
  obtain body p where f: "f = adu_frame ?tt (message_transaction_id m) (er_unit r) body"
      and body: "body \<noteq> []" "length body \<le> 253" "pdu_from_bytes (byte_vec ec) body = Ok p"
    using answer_body [OF s'(3), of "byte_vec ec"] assms(2,3,6,11) by auto
  have "f = response_frame ?tt (r, body, p) @ []"
    using f assms(14) adu_frame_txn [of ?tt "message_transaction_id m" "er_unit r" body "er_txn_id r"]
    by (cases "is_tcp_type ?tt") (simp_all add: response_frame_def)
  moreover have "response_ok ec (r, body, p)"
    using body assms(12,13) by (simp add: response_ok_def)
  ultimately obtain d where d: "process_rxed_frame ec (c\<lparr>rxed_frame := f\<rparr>) = process_rxed_frame ec d"
      "rxed_frame d = []" "mset (expected_responses c) = add_mset r (mset (expected_responses d))"
      "app_calls d = app_calls c @ [outcome ?tt (r, body, p)]"
    using receive_one [OF assms(2,4), of "c\<lparr>rxed_frame := f\<rparr>" r body p "[]"] assms(9,10,15) by auto
  have "process_rxed_frame ec d = Some (Ok d)"
    by (rule process_incomplete) (simp add: d(2) incomplete_front_def)
  moreover have "call_txn (outcome ?tt (r, body, p)) = er_txn_id r"
    by (simp add: outcome_def split: option.split)
  ultimately show ?thesis using s'(1,2) d by metis
qed

theorem request_response_end_to_end_witness:
  "\<exists>s' f c' call. dispatch_request_for_frame sample_server_env (sample_server [] resilience_config_default)
       (sample_read 7) = Ok s' \<and> responses s' = [(7, UnitIdOrSlaveAddr 1, f)] \<and>
     process_rxed_frame sample_env (sample_client 0 f [sample_request 7 1]) = Some (Ok c') \<and>
     rxed_frame c' = [] \<and> expected_responses c' = [] \<and> app_calls c' = [call] \<and> call_txn call = 7"
proof -
  let ?s = "sample_server [] resilience_config_default"
  let ?c = "sample_client 0 [] [sample_request 7 1]"
  have "expects_answer sample_server_env ?s (sample_read 7)"
    by (simp add: expects_answer_def should_handle_broadcast_write_def should_drop_for_address_def
        resilience_config_default_def)
  then have "\<exists>s' f c' call. dispatch_request_for_frame sample_server_env ?s (sample_read 7) = Ok s' \<and>
      responses s' = [(7, UnitIdOrSlaveAddr 1, f)] \<and>
      process_rxed_frame sample_env (?c\<lparr>rxed_frame := f\<rparr>) = Some (Ok c') \<and> rxed_frame c' = [] \<and>
      mset (expected_responses ?c) = add_mset (sample_request 7 1) (mset (expected_responses c')) \<and>
      app_calls c' = app_calls ?c @ [call] \<and> call_txn call = er_txn_id (sample_request 7 1)"
    using request_response_end_to_end [OF sample_server_env_ok sample_env_ok, of "sample_read 7" ?s
        "sample_request 7 1" ?c]
    by (simp add: pdu_wf_new sample_client_def sample_request_def route_def)
  then show ?thesis by (simp add: sample_client_def sample_request_def)
qed

end
